(* ===== verification/Py_Prelude.thy ===== *)
theory Py_Prelude
  imports Complex_Main "HOL-Library.AList" "HOL-Library.Sublist"
    "HOL-Library.Char_ord" "HOL-Library.List_Lexorder"
begin

text \<open>
  The Python fragment the components share: values as they come out of YAML and JSON,
  insertion-ordered dictionaries, and the string methods the program calls.

  A Python \<open>str\<close> is a list of characters, read as the code points below 256.
  A dictionary is an association list in insertion order; assigning to a present key
  keeps its position and a new key goes to the end, which is \<open>AList.update\<close>.
  Keys of different Python types are different keys here (Python identifies \<open>1\<close> with
  \<open>True\<close>). A float is a rational; rounding, infinities and NaN are not modelled.

  The interface \<open>keyed_store\<close> states what every keyed container of the program
  promises (a lookup after an assignment); it is interpreted on the dictionaries below.
\<close>

named_theorems dict_simps \<open>lookups and keys of updated dictionaries\<close>
named_theorems py_defs \<open>definitions unfolded when a model is run on concrete input\<close>

section \<open>Values\<close>

datatype pkey = KStr string | KInt int | KBool bool | KNone

datatype pval =
    PNone
  | PBool bool
  | PInt int
  | PFloat rat
  | PStr string
  | PList "pval list"
  | PDict "(pkey \<times> pval) list"

type_synonym dict = "(pkey \<times> pval) list"

fun is_dict :: "pval \<Rightarrow> bool" where
  "is_dict (PDict _) = True"
| "is_dict _ = False"

fun is_str :: "pval \<Rightarrow> bool" where
  "is_str (PStr _) = True"
| "is_str _ = False"

fun is_list :: "pval \<Rightarrow> bool" where
  "is_list (PList _) = True"
| "is_list _ = False"

text \<open>\<open>bool(x)\<close>: what an \<open>if x\<close> of the source tests.\<close>

fun truthy :: "pval \<Rightarrow> bool" where
  "truthy PNone = False"
| "truthy (PBool b) = b"
| "truthy (PInt i) = (i \<noteq> 0)"
| "truthy (PFloat r) = (r \<noteq> 0)"
| "truthy (PStr s) = (s \<noteq> [])"
| "truthy (PList xs) = (xs \<noteq> [])"
| "truthy (PDict d) = (d \<noteq> [])"

fun str_or_none :: "pval option \<Rightarrow> string option" where
  "str_or_none (Some (PStr s)) = Some s"
| "str_or_none _ = None"

lemma is_dictE: "is_dict v \<Longrightarrow> (\<And>d. v = PDict d \<Longrightarrow> P) \<Longrightarrow> P"
  by (cases v) auto

lemma str_or_none_Some [simp]: "str_or_none v = Some s \<longleftrightarrow> v = Some (PStr s)"
  by (cases v rule: str_or_none.cases) auto

section \<open>Dictionaries\<close>

abbreviation dget :: "('k \<times> 'v) list \<Rightarrow> 'k \<Rightarrow> 'v option" where
  "dget d k \<equiv> map_of d k"

abbreviation dput :: "('k \<times> 'v) list \<Rightarrow> 'k \<Rightarrow> 'v \<Rightarrow> ('k \<times> 'v) list" where
  "dput d k v \<equiv> AList.update k v d"

abbreviation ddel :: "('k \<times> 'v) list \<Rightarrow> 'k \<Rightarrow> ('k \<times> 'v) list" where
  "ddel d k \<equiv> AList.delete k d"

abbreviation dkeys :: "('k \<times> 'v) list \<Rightarrow> 'k list" where
  "dkeys d \<equiv> map fst d"

abbreviation dhas :: "('k \<times> 'v) list \<Rightarrow> 'k \<Rightarrow> bool" where
  "dhas d k \<equiv> dget d k \<noteq> None"

text \<open>\<open>d.get(k, default)\<close>, \<open>d.setdefault(k, v)\<close> and \<open>d.update(e)\<close>.\<close>

definition dgetd :: "('k \<times> 'v) list \<Rightarrow> 'k \<Rightarrow> 'v \<Rightarrow> 'v" where
  "dgetd d k v = (case dget d k of None \<Rightarrow> v | Some w \<Rightarrow> w)"

definition dsetdefault :: "('k \<times> 'v) list \<Rightarrow> 'k \<Rightarrow> 'v \<Rightarrow> ('k \<times> 'v) list" where
  "dsetdefault d k v = (if dhas d k then d else dput d k v)"

fun dupdate :: "('k \<times> 'v) list \<Rightarrow> ('k \<times> 'v) list \<Rightarrow> ('k \<times> 'v) list" where
  "dupdate d [] = d"
| "dupdate d ((k, v) # e) = dupdate (dput d k v) e"

abbreviation sget :: "dict \<Rightarrow> string \<Rightarrow> pval option" where
  "sget d k \<equiv> dget d (KStr k)"

text \<open>The dictionary laws every proof uses.\<close>

lemma dget_dput [simp, dict_simps]:
  "dget (dput d k v) k' = (if k' = k then Some v else dget d k')"
  by (simp add: update_conv')

lemma dget_ddel [simp, dict_simps]:
  "dget (ddel d k) k' = (if k' = k then None else dget d k')"
  by (simp add: delete_conv')

lemma dkeys_dput [dict_simps]:
  "dkeys (dput d k v) = (if k \<in> set (dkeys d) then dkeys d else dkeys d @ [k])"
  by (induction d) auto

lemma set_dkeys_dput [simp]: "fst ` set (dput d k v) = insert k (fst ` set d)"
  by (metis dkeys_dput insert_absorb list.set_map list.simps(15) rotate1.simps(2) set_rotate1)

lemma distinct_dput [simp, intro]: "distinct (dkeys d) \<Longrightarrow> distinct (dkeys (dput d k v))"
  by (simp add: dkeys_dput)

lemma dget_None_iff: "dget d k = None \<longleftrightarrow> k \<notin> set (dkeys d)"
  by (simp add: map_of_eq_None_iff)

lemma dget_in_keys: "dget d k = Some v \<Longrightarrow> k \<in> set (dkeys d)"
  by (metis dget_None_iff option.distinct(1))

lemma dput_same: "dget d k = Some v \<Longrightarrow> dput d k v = d"
  by (induction d) (auto split: if_splits)

lemma dput_fresh: "k \<notin> set (dkeys d) \<Longrightarrow> dput d k v = d @ [(k, v)]"
  by (induction d) auto

lemma ddel_dput_fresh: "\<not> dhas d k \<Longrightarrow> ddel (dput d k v) k = d"
  by (induction d) auto

lemma dget_dupdate:
  "distinct (dkeys e) \<Longrightarrow>
    dget (dupdate d e) k = (case dget e k of None \<Rightarrow> dget d k | Some v \<Rightarrow> Some v)"
proof (induction d e rule: dupdate.induct)
  case (2 d k' v e)
  then have "dget e k' = None" by (simp add: dget_None_iff)
  with 2 show ?case by (auto split: option.splits)
qed simp

lemma distinct_dupdate: "distinct (dkeys d) \<Longrightarrow> distinct (dkeys (dupdate d e))"
  by (induction d e rule: dupdate.induct) auto

lemma dget_dsetdefault [simp, dict_simps]:
  "dget (dsetdefault d k v) k' = (if k' = k \<and> dget d k = None then Some v else dget d k')"
  by (auto simp: dsetdefault_def)

text \<open>A property of every entry.\<close>

lemma list_all_dput: "list_all P d \<Longrightarrow> P (k, v) \<Longrightarrow> list_all P (dput d k v)"
  by (induction d) auto

lemma list_all_ddel: "list_all P d \<Longrightarrow> list_all P (ddel d k)"
  by (induction d) auto

lemma list_all_dget: "list_all P d \<Longrightarrow> dget d k = Some v \<Longrightarrow> P (k, v)"
  by (auto simp: list_all_iff dest: map_of_SomeD)

lemma list_all_dgetd: "list_all P d \<Longrightarrow> P (k, e) \<Longrightarrow> P (k, dgetd d k e)"
  by (auto simp: dgetd_def split: option.splits dest: list_all_dget)

lemma distinct_ddel: "distinct (dkeys d) \<Longrightarrow> distinct (dkeys (ddel d k))"
  by (simp add: distinct_delete)

section \<open>Lists of results\<close>

text \<open>\<open>those\<close> is a comprehension whose element expression may raise.\<close>

lemma those_eq_Some: "those xs = Some ys \<longleftrightarrow> xs = map Some ys"
  by (induction xs arbitrary: ys) (auto split: option.splits simp: Cons_eq_map_conv)

lemma those_map_eq_Some:
  "those (map f xs) = Some ys \<longleftrightarrow> list_all2 (\<lambda>x y. f x = Some y) xs ys"
  by (induction xs arbitrary: ys) (auto split: option.splits simp: list_all2_Cons1)

lemma those_map_total:
  assumes "\<And>x. x \<in> set xs \<Longrightarrow> \<exists>y. f x = Some y"
  shows "\<exists>ys. those (map f xs) = Some ys"
proof -
  from assms have "\<forall>x \<in> set xs. f x = Some (the (f x))" by force
  then have "those (map f xs) = Some (map (\<lambda>x. the (f x)) xs)"
    by (simp add: those_map_eq_Some list_all2_conv_all_nth)
  then show ?thesis by blast
qed

text \<open>The same with the error kept: the first element that raises decides.\<close>

fun gather :: "('e + 'a) list \<Rightarrow> 'e + 'a list" where
  "gather [] = Inr []"
| "gather (x # xs) = (case x of
     Inl e \<Rightarrow> Inl e
   | Inr a \<Rightarrow> (case gather xs of Inl e \<Rightarrow> Inl e | Inr as \<Rightarrow> Inr (a # as)))"

lemma gather_map_Inr:
  "gather (map f xs) = Inr ys \<longleftrightarrow> list_all2 (\<lambda>x y. f x = Inr y) xs ys"
proof (induction xs arbitrary: ys)
  case (Cons x xs)
  show ?case
  proof (cases "gather (map f xs)")
    case (Inl e)
    with Cons have "\<not> list_all2 (\<lambda>x y. f x = Inr y) xs zs" for zs by simp
    with Inl show ?thesis by (auto simp: list_all2_Cons1 split: sum.splits)
  next
    case (Inr zs)
    with Cons have "list_all2 (\<lambda>x y. f x = Inr y) xs us \<longleftrightarrow> zs = us" for us by simp
    with Inr show ?thesis by (auto simp: list_all2_Cons1 split: sum.splits)
  qed
qed auto

lemma gather_Inr_map: "gather (map (\<lambda>x. Inr (f x)) xs) = Inr (map f xs)"
  by (induction xs) auto

lemma distinct_set_singleton: "distinct xs \<Longrightarrow> set xs = {x} \<Longrightarrow> xs = [x]"
  by (cases xs; cases "tl xs") auto

lemma list_all2_left:
  "list_all2 P xs ys \<Longrightarrow> y \<in> set ys \<Longrightarrow> (\<And>x. x \<in> set xs \<Longrightarrow> P x y \<Longrightarrow> Q) \<Longrightarrow> Q"
  by (induction rule: list_all2_induct) auto

section \<open>The keyed-store interface\<close>

text \<open>
  What a keyed container of the program promises: a lookup after an assignment sees the
  assigned value at that key and the old contents elsewhere. Writing a list of pairs one
  after the other leaves, at each key, the last value written.
\<close>

locale keyed_store =
  fixes get :: "'s \<Rightarrow> 'k \<Rightarrow> 'v option"
    and put :: "'s \<Rightarrow> 'k \<Rightarrow> 'v \<Rightarrow> 's"
  assumes get_put: "get (put s k v) k' = (if k' = k then Some v else get s k')"
begin

lemma get_put_same: "get (put s k v) k = Some v"
  by (simp add: get_put)

lemma get_put_other: "k' \<noteq> k \<Longrightarrow> get (put s k v) k' = get s k'"
  by (simp add: get_put)

lemma get_puts:
  "get (fold (\<lambda>(k, v) s. put s k v) kvs s) k =
    (case map_of (rev kvs) k of None \<Rightarrow> get s k | Some v \<Rightarrow> Some v)"
proof (induction kvs arbitrary: s)
  case (Cons kv kvs)
  then show ?case
    by (cases kv) (auto simp: get_put map_add_def split: option.splits)
qed simp

lemma put_twice_get: "get (put (put s k v) k w) k' = get (put s k w) k'"
  by (simp add: get_put)

lemma get_puts_dom:
  "get s0 = (\<lambda>_. None) \<Longrightarrow>
    (\<exists>v. get (fold (\<lambda>(k, v) s. put s k v) kvs s0) k = Some v) \<longleftrightarrow> k \<in> fst ` set kvs"
  by (auto simp: get_puts map_of_eq_None_iff split: option.splits
      dest!: map_of_SomeD intro: rev_image_eqI)
end

interpretation pd: keyed_store dget dput
  by unfold_locales simp

section \<open>Errors as values\<close>

text \<open>\<open>Inl\<close> is an error. The step after a value, and a raise unless a condition holds; both are
  abbreviations, so that evaluation stops at the first error.\<close>

abbreviation and_then :: "'e + 'a \<Rightarrow> ('a \<Rightarrow> 'e + 'b) \<Rightarrow> 'e + 'b" where
  "and_then x f \<equiv> (case x of Inl e \<Rightarrow> Inl e | Inr a \<Rightarrow> f a)"

lemma and_then_Inr: "and_then x f = Inr b \<longleftrightarrow> (\<exists>a. x = Inr a \<and> f a = Inr b)"
  by (cases x) simp_all

abbreviation demand :: "bool \<Rightarrow> 'e \<Rightarrow> 'e + 'a \<Rightarrow> 'e + 'a" where
  "demand c e k \<equiv> (if c then k else Inl e)"

lemma demand_Inr: "demand c e k = Inr b \<longleftrightarrow> c \<and> k = Inr b"
  by simp

fun each :: "('a \<Rightarrow> 'e + unit) \<Rightarrow> 'a list \<Rightarrow> 'e + unit" where
  "each f [] = Inr ()"
| "each f (x # xs) = and_then (f x) (\<lambda>_. each f xs)"

lemma each_Inr: "each f xs = Inr () \<longleftrightarrow> list_all (\<lambda>x. f x = Inr ()) xs"
  by (induction xs) (auto split: sum.split)

text \<open>\<open>any(f(x) for x in xs)\<close>, where \<open>f\<close> may raise.\<close>

fun any_of :: "('a \<Rightarrow> 'e + bool) \<Rightarrow> 'a list \<Rightarrow> 'e + bool" where
  "any_of f [] = Inr False"
| "any_of f (x # xs) = and_then (f x) (\<lambda>b. if b then Inr True else any_of f xs)"

lemma any_of_False: "any_of f xs = Inr False \<longleftrightarrow> list_all (\<lambda>x. f x = Inr False) xs"
  by (induction xs) (auto split: sum.split)

end
