(* ===== verification/Py_Text.thy ===== *)
theory Py_Text
  imports Py_Prelude
begin

text \<open>
  The string methods the program calls, on lists of characters below code point 256:
  \<open>join\<close>, \<open>lower\<close>, \<open>upper\<close>, \<open>strip\<close>, \<open>split\<close>, \<open>partition\<close>, \<open>rfind\<close>, \<open>in\<close>,
  \<open>startswith\<close>, \<open>endswith\<close>, \<open>str\<close> and \<open>int\<close> of integers. \<open>startswith\<close> is
  \<open>prefix\<close>, \<open>endswith\<close> is \<open>suffix\<close> and \<open>in\<close> is \<open>sublist\<close> of the library. The last
  section shows that \<open>int(str(n)) = n\<close>.
\<close>

section \<open>Characters\<close>

definition code :: "char \<Rightarrow> nat" where
  "code c = of_char c"

definition is_digit :: "char \<Rightarrow> bool" where
  "is_digit c \<longleftrightarrow> 48 \<le> code c \<and> code c \<le> 57"

definition is_upper :: "char \<Rightarrow> bool" where
  "is_upper c \<longleftrightarrow> 65 \<le> code c \<and> code c \<le> 90 \<or> 192 \<le> code c \<and> code c \<le> 222 \<and> code c \<noteq> 215"

definition is_lower :: "char \<Rightarrow> bool" where
  "is_lower c \<longleftrightarrow> 97 \<le> code c \<and> code c \<le> 122 \<or> 224 \<le> code c \<and> code c \<le> 254 \<and> code c \<noteq> 247"

text \<open>\<open>str.isspace\<close> and the class \<open>\s\<close> of \<open>re\<close>.\<close>

definition is_space :: "char \<Rightarrow> bool" where
  "is_space c \<longleftrightarrow> 9 \<le> code c \<and> code c \<le> 13 \<or> 28 \<le> code c \<and> code c \<le> 32
     \<or> code c = 133 \<or> code c = 160"

text \<open>The class \<open>\w\<close> of \<open>re\<close>: letters, digits and the underscore.\<close>

definition is_word :: "char \<Rightarrow> bool" where
  "is_word c \<longleftrightarrow> is_digit c \<or> 65 \<le> code c \<and> code c \<le> 90 \<or> 97 \<le> code c \<and> code c \<le> 122
     \<or> code c = 95 \<or> code c \<in> {170, 178, 179, 181, 185, 186, 188, 189, 190}
     \<or> 192 \<le> code c \<and> code c \<noteq> 215 \<and> code c \<noteq> 247"

definition lower_char :: "char \<Rightarrow> char" where
  "lower_char c = (if is_upper c then char_of (code c + 32) else c)"

definition upper_char :: "char \<Rightarrow> char" where
  "upper_char c = (if is_lower c then char_of (code c - 32) else c)"

section \<open>String methods\<close>

definition lower :: "string \<Rightarrow> string" where
  "lower s = map lower_char s"

definition upper :: "string \<Rightarrow> string" where
  "upper s = map upper_char s"

fun join :: "string \<Rightarrow> string list \<Rightarrow> string" where
  "join sep [] = []"
| "join sep [s] = s"
| "join sep (s # t # ss) = s @ sep @ join sep (t # ss)"

definition rstrip :: "string \<Rightarrow> string" where
  "rstrip s = rev (dropWhile is_space (rev s))"

definition strip :: "string \<Rightarrow> string" where
  "strip s = rstrip (dropWhile is_space s)"

text \<open>\<open>s.split(c)\<close> for a one-character separator, never empty.\<close>

fun split_on :: "char \<Rightarrow> string \<Rightarrow> string list" where
  "split_on c [] = [[]]"
| "split_on c (x # xs) =
     (if x = c then [] # split_on c xs
      else (case split_on c xs of [] \<Rightarrow> [[x]] | p # ps \<Rightarrow> (x # p) # ps))"

text \<open>\<open>s.partition(c)\<close>: before the first \<open>c\<close> and after it, \<open>None\<close> without one.\<close>

definition cut_at :: "char \<Rightarrow> string \<Rightarrow> (string \<times> string) option" where
  "cut_at c s = (if c \<in> set s
     then Some (takeWhile (\<lambda>x. x \<noteq> c) s, tl (dropWhile (\<lambda>x. x \<noteq> c) s)) else None)"

text \<open>\<open>s.rfind(c)\<close> followed by \<open>s[:i]\<close>: the text before the last \<open>c\<close>.\<close>

definition before_last :: "char \<Rightarrow> string \<Rightarrow> string option" where
  "before_last c s = (if c \<in> set s
     then Some (rev (tl (dropWhile (\<lambda>x. x \<noteq> c) (rev s)))) else None)"

abbreviation contains_text :: "string \<Rightarrow> string \<Rightarrow> bool" where
  "contains_text sub s \<equiv> sublist sub s"

definition is_line_break :: "char \<Rightarrow> bool" where
  "is_line_break c \<longleftrightarrow> code c \<in> {10, 11, 12, 13, 28, 29, 30, 133}"

text \<open>\<open>str.splitlines\<close>: a carriage return and line feed are one break, a final break adds no line.\<close>

fun split_lines :: "string \<Rightarrow> string \<Rightarrow> string list" where
  "split_lines cur [] = (if cur = [] then [] else [rev cur])"
| "split_lines cur [c] = (if is_line_break c then [rev cur] else [rev (c # cur)])"
| "split_lines cur (c # d # s) =
     (if code c = 13 \<and> code d = 10 then rev cur # split_lines [] s
      else if is_line_break c then rev cur # split_lines [] (d # s)
      else split_lines (c # cur) (d # s))"

definition splitlines :: "string \<Rightarrow> string list" where
  "splitlines s = split_lines [] s"

text \<open>The text between single quotes, as in a message.\<close>

definition quoted :: "string \<Rightarrow> string" where
  "quoted s = [char_of (39::nat)] @ s @ [char_of (39::nat)]"

text \<open>\<open>str(n)\<close> and \<open>int(s)\<close>: \<open>None\<close> is \<open>ValueError\<close>.\<close>

definition digit_char :: "nat \<Rightarrow> char" where
  "digit_char n = char_of (48 + n)"

fun nat_str :: "nat \<Rightarrow> string" where
  "nat_str n = (if n < 10 then [digit_char n] else nat_str (n div 10) @ [digit_char (n mod 10)])"

declare nat_str.simps [simp del]

definition int_str :: "int \<Rightarrow> string" where
  "int_str i = (if i < 0 then CHR ''-'' # nat_str (nat (- i)) else nat_str (nat i))"

text \<open>Digits with single underscores between them, as \<open>int\<close> accepts.\<close>

fun digits_val :: "nat \<Rightarrow> string \<Rightarrow> nat option" where
  "digits_val n [] = Some n"
| "digits_val n (c # cs) =
     (if is_digit c then digits_val (10 * n + (code c - 48)) cs
      else if code c = 95 then
        (case cs of [] \<Rightarrow> None
         | d # ds \<Rightarrow> if is_digit d then digits_val (10 * n + (code d - 48)) ds else None)
      else None)"

fun unsigned_val :: "string \<Rightarrow> nat option" where
  "unsigned_val [] = None"
| "unsigned_val (c # cs) = (if is_digit c then digits_val (code c - 48) cs else None)"

definition py_int :: "string \<Rightarrow> int option" where
  "py_int s = (case strip s of
     [] \<Rightarrow> None
   | c # cs \<Rightarrow> if code c = 45 then map_option (\<lambda>n. - int n) (unsigned_val cs)
       else if code c = 43 then map_option int (unsigned_val cs)
       else map_option int (unsigned_val (c # cs)))"

section \<open>Decimal numbers\<close>

text \<open>\<open>float(s)\<close> of decimal notation without exponent, and \<open>f"{x:.3f}"\<close>.\<close>

fun fraction_val :: "nat \<Rightarrow> nat \<Rightarrow> string \<Rightarrow> rat option" where
  "fraction_val n k [] = Some (of_nat n / 10 ^ k)"
| "fraction_val n k (c # cs) =
     (if is_digit c then fraction_val (10 * n + (code c - 48)) (k + 1) cs else None)"

definition decimal_val :: "string \<Rightarrow> rat option" where
  "decimal_val s = (case cut_at CHR ''.'' s of
     None \<Rightarrow> map_option of_nat (unsigned_val s)
   | Some (whole, part) \<Rightarrow>
       (case (unsigned_val whole, fraction_val 0 0 part) of
          (Some n, Some f) \<Rightarrow> Some (of_nat n + f) | _ \<Rightarrow> None))"

definition py_float :: "string \<Rightarrow> rat option" where
  "py_float s = (case strip s of
     [] \<Rightarrow> None
   | c # cs \<Rightarrow> if c = CHR ''-'' then map_option uminus (decimal_val cs) else decimal_val (c # cs))"

text \<open>Rounded to the nearest multiple of \<open>1 / n\<close>, ties to the even one.\<close>

definition rounded_to :: "rat \<Rightarrow> rat \<Rightarrow> int" where
  "rounded_to n r =
     (let x = r * n; f = floor x; d = x - of_int f
      in if d < 1 / 2 then f else if d > 1 / 2 then f + 1 else if even f then f else f + 1)"

definition thousandths :: "rat \<Rightarrow> int" where
  "thousandths r = rounded_to 1000 r"

definition three_digits :: "nat \<Rightarrow> string" where
  "three_digits n = [digit_char (n div 100 mod 10), digit_char (n div 10 mod 10), digit_char (n mod 10)]"

definition fixed3 :: "rat \<Rightarrow> string" where
  "fixed3 r =
     (let t = thousandths r; n = nat (abs t)
      in (if t < 0 then ''-'' else []) @ nat_str (n div 1000) @ ''.'' @ three_digits (n mod 1000))"

text \<open>\<open>f"{x:.2f}"\<close>\<close>

definition fixed2 :: "rat \<Rightarrow> string" where
  "fixed2 r =
     (let t = rounded_to 100 r; n = nat (abs t)
      in (if t < 0 then ''-'' else []) @ nat_str (n div 100) @ ''.''
        @ [digit_char (n div 10 mod 10), digit_char (n mod 10)])"

section \<open>Joining and splitting\<close>

lemma split_on_nonempty [simp]: "split_on c s \<noteq> []"
  by (induction s) (auto split: list.splits)

lemma split_on_no_sep: "c \<notin> set s \<Longrightarrow> split_on c s = [s]"
  by (induction s) auto

lemma join_split_on: "join [c] (split_on c s) = s"
proof (induction s)
  case (Cons x xs)
  obtain p ps where p: "split_on c xs = p # ps"
    by (meson neq_Nil_conv split_on_nonempty)
  with Cons show ?case by (cases ps) auto
qed simp

lemma split_on_parts_free: "p \<in> set (split_on c s) \<Longrightarrow> c \<notin> set p"
  by (induction s arbitrary: p) (fastforce split: if_splits list.splits)+

lemma split_on_append:
  "c \<notin> set s \<Longrightarrow> split_on c (s @ c # t) = s # split_on c t"
  by (induction s) auto

lemma split_on_join:
  "ps \<noteq> [] \<Longrightarrow> (\<And>p. p \<in> set ps \<Longrightarrow> c \<notin> set p) \<Longrightarrow> split_on c (join [c] ps) = ps"
  by (induction "[c]" ps rule: join.induct) (auto simp: split_on_no_sep split_on_append)

lemma cut_at_append: "c \<notin> set k \<Longrightarrow> cut_at c (k @ c # v) = Some (k, v)"
proof -
  assume "c \<notin> set k"
  then have "\<And>x. x \<in> set k \<Longrightarrow> x \<noteq> c" by auto
  then show ?thesis by (simp add: cut_at_def)
qed

lemma cut_at_SomeD: "cut_at c s = Some (k, v) \<Longrightarrow> s = k @ c # v \<and> c \<notin> set k"
proof -
  assume "cut_at c s = Some (k, v)"
  then have c: "c \<in> set s" and k: "k = takeWhile (\<lambda>x. x \<noteq> c) s"
    and v: "v = tl (dropWhile (\<lambda>x. x \<noteq> c) s)"
    by (auto simp: cut_at_def split: if_splits)
  from c have ne: "dropWhile (\<lambda>x. x \<noteq> c) s \<noteq> []" by (auto simp: dropWhile_eq_Nil_conv)
  then have "hd (dropWhile (\<lambda>x. x \<noteq> c) s) = c"
    using hd_dropWhile [of "\<lambda>x. x \<noteq> c" s] by auto
  with ne have "dropWhile (\<lambda>x. x \<noteq> c) s = c # v" by (cases "dropWhile (\<lambda>x. x \<noteq> c) s") (auto simp: v)
  with takeWhile_dropWhile_id [of "\<lambda>x. x \<noteq> c" s] k
  show ?thesis by (metis (full_types) set_takeWhileD)
qed

lemma cut_at_None: "cut_at c s = None \<longleftrightarrow> c \<notin> set s"
  by (simp add: cut_at_def)

lemma before_last_shorter: "before_last c s = Some t \<Longrightarrow> length t < length s"
proof -
  assume "before_last c s = Some t"
  then have c: "c \<in> set (rev s)" and t: "t = rev (tl (dropWhile (\<lambda>x. x \<noteq> c) (rev s)))"
    by (auto simp: before_last_def split: if_splits)
  from c have "dropWhile (\<lambda>x. x \<noteq> c) (rev s) \<noteq> []" by (auto simp: dropWhile_eq_Nil_conv)
  moreover have "length (dropWhile (\<lambda>x. x \<noteq> c) (rev s)) \<le> length s"
    using length_dropWhile_le [of "\<lambda>x. x \<noteq> c" "rev s"] by simp
  ultimately show ?thesis using t by (cases "dropWhile (\<lambda>x. x \<noteq> c) (rev s)") auto
qed

lemma before_last_append: "c \<notin> set t \<Longrightarrow> before_last c (s @ c # t) = Some s"
proof -
  assume "c \<notin> set t"
  then have "dropWhile (\<lambda>x. x \<noteq> c) (rev t @ c # rev s) = c # rev s"
    by (subst dropWhile_append2) auto
  then show ?thesis by (simp add: before_last_def)
qed

lemma before_last_None: "before_last c s = None \<longleftrightarrow> c \<notin> set s"
  by (simp add: before_last_def)

section \<open>Integers and their text\<close>

lemma code_digit_char: "n < 10 \<Longrightarrow> code (digit_char n) = 48 + n"
  by (simp add: code_def digit_char_def of_char_of)

lemma is_digit_digit_char: "n < 10 \<Longrightarrow> is_digit (digit_char n)"
  by (simp add: is_digit_def code_digit_char)

lemma digits_val_append:
  "(\<And>c. c \<in> set s \<Longrightarrow> is_digit c) \<Longrightarrow> digits_val n (s @ t) =
     (case digits_val n s of None \<Rightarrow> None | Some m \<Rightarrow> digits_val m t)"
  by (induction s arbitrary: n) auto

lemma nat_str_digits: "c \<in> set (nat_str n) \<Longrightarrow> is_digit c"
proof (induction n rule: nat_str.induct)
  case (1 n)
  then show ?case
    by (cases "n < 10") (auto simp: nat_str.simps [of n] is_digit_digit_char)
qed

lemma nat_str_nonempty [simp]: "nat_str n \<noteq> []"
  by (subst nat_str.simps) simp

lemma digits_val_nat_str: "digits_val 0 (nat_str n) = Some n"
proof (induction n rule: nat_str.induct)
  case (1 n)
  show ?case
  proof (cases "n < 10")
    case True
    then show ?thesis
      by (simp add: nat_str.simps [of n] is_digit_digit_char code_digit_char)
  next
    case False
    with 1 have "digits_val 0 (nat_str (n div 10)) = Some (n div 10)" by simp
    with False show ?thesis
      by (simp add: nat_str.simps [of n] digits_val_append nat_str_digits
          is_digit_digit_char code_digit_char)
  qed
qed

lemma unsigned_val_nat_str: "unsigned_val (nat_str n) = Some n"
proof -
  obtain c cs where c: "nat_str n = c # cs" by (meson neq_Nil_conv nat_str_nonempty)
  then have "is_digit c" using nat_str_digits [of c n] by simp
  with c digits_val_nat_str [of n] show ?thesis by simp
qed

lemma digit_not_space: "is_digit c \<Longrightarrow> \<not> is_space c"
  by (auto simp: is_digit_def is_space_def)

lemma strip_no_space:
  "(\<And>c. c \<in> set s \<Longrightarrow> \<not> is_space c) \<Longrightarrow> strip s = s"
proof -
  assume a: "\<And>c. c \<in> set s \<Longrightarrow> \<not> is_space c"
  then have "dropWhile is_space s = s" by (cases s) auto
  moreover from a have "dropWhile is_space (rev s) = rev s"
    by (cases "rev s") (auto dest: arg_cong [where f = set])
  ultimately show ?thesis by (simp add: strip_def rstrip_def)
qed

lemma py_int_int_str: "py_int (int_str i) = Some i"
proof (cases "i < 0")
  case True
  have "strip (CHR ''-'' # nat_str (nat (- i))) = CHR ''-'' # nat_str (nat (- i))"
    by (rule strip_no_space)
      (auto dest!: nat_str_digits digit_not_space simp: is_space_def code_def)
  with True show ?thesis
    by (simp add: py_int_def int_str_def unsigned_val_nat_str code_def)
next
  case False
  have s: "strip (nat_str (nat i)) = nat_str (nat i)"
    by (rule strip_no_space) (auto dest!: nat_str_digits digit_not_space)
  obtain c cs where c: "nat_str (nat i) = c # cs" by (meson neq_Nil_conv nat_str_nonempty)
  then have "is_digit c" using nat_str_digits [of c "nat i"] by simp
  then have "code c \<noteq> 45" "code c \<noteq> 43" by (auto simp: is_digit_def)
  with False s c unsigned_val_nat_str [of "nat i"] show ?thesis
    by (simp add: py_int_def int_str_def)
qed

lemma fraction_val_digits: "(\<And>c. c \<in> set s \<Longrightarrow> is_digit c) \<Longrightarrow> fraction_val n k s \<noteq> None"
  by (induction s arbitrary: n k) auto

lemma decimal_val_fixed: "\<exists>x. decimal_val (nat_str m @ ''.'' @ three_digits n) = Some x"
proof -
  have d: "c \<noteq> CHR ''.''" if "c \<in> set (nat_str m)" for c
    using nat_str_digits [OF that] by (auto simp: is_digit_def code_def)
  have "takeWhile (\<lambda>x. x \<noteq> CHR ''.'') (nat_str m @ ''.'' @ t) = nat_str m"
    "dropWhile (\<lambda>x. x \<noteq> CHR ''.'') (nat_str m @ ''.'' @ t) = CHR ''.'' # t" for t
    using d by (simp_all add: takeWhile_append2 dropWhile_append2)
  then have "cut_at CHR ''.'' (nat_str m @ ''.'' @ three_digits n) = Some (nat_str m, three_digits n)"
    by (simp add: cut_at_def)
  moreover have "fraction_val 0 0 (three_digits n) \<noteq> None"
    by (rule fraction_val_digits) (auto simp: three_digits_def is_digit_digit_char)
  ultimately show ?thesis by (auto simp: decimal_val_def unsigned_val_nat_str)
qed

text \<open>What is written with three decimals reads back as a number.\<close>

lemma py_float_fixed3: "py_float (fixed3 r) \<noteq> None"
proof -
  define n where "n = nat \<bar>thousandths r\<bar>"
  let ?body = "nat_str (n div 1000) @ ''.'' @ three_digits (n mod 1000)"
  obtain x where x: "decimal_val ?body = Some x" using decimal_val_fixed by blast
  have fixed: "fixed3 r = (if thousandths r < 0 then ''-'' else []) @ ?body"
    by (simp add: fixed3_def n_def Let_def)
  have chars: "is_digit c \<or> c \<in> {CHR ''.'', CHR ''-''}" if "c \<in> set (fixed3 r)" for c
    using that unfolding fixed by (auto simp: three_digits_def is_digit_digit_char dest: nat_str_digits split: if_splits)
  then have "\<not> is_space c" if "c \<in> set (fixed3 r)" for c
    using chars [OF that] digit_not_space [of c] by (auto simp: is_space_def code_def)
  then have strip: "strip (fixed3 r) = fixed3 r" by (intro strip_no_space) auto
  obtain c cs where c: "nat_str (n div 1000) = c # cs" by (meson neq_Nil_conv nat_str_nonempty)
  then have "c \<noteq> CHR ''-''" using nat_str_digits [of c "n div 1000"] by (auto simp: is_digit_def code_def)
  then show ?thesis
    unfolding py_float_def strip unfolding fixed using x c by (cases "thousandths r < 0") simp_all
qed

end
