(* ===== verification/Config_Merger.thy ===== *)
theory Config_Merger
  imports Py_Text
begin

text \<open>
  \<open>isvctl/config/merger.py\<close>: the deep merge of configuration mappings, the \<open>--set\<close>
  overrides, and the loader that resolves \<open>import:\<close> lists with cycle detection.

  YAML parsing (PyYAML) and the file system are parameters: \<open>yaml\<close> in
  \<open>parse_set_value\<close>, the record \<open>world\<close> in the loader. The loader recurses into files, so
  it takes fuel; \<open>load_yaml_enough_fuel\<close> bounds the fuel by the number of resolved paths
  not visited yet.
\<close>

section \<open>Lookups along a path of keys\<close>

fun vpath :: "pval \<Rightarrow> pkey list \<Rightarrow> pval option" where
  "vpath v [] = Some v"
| "vpath (PDict d) (k # ks) = (case dget d k of None \<Rightarrow> None | Some w \<Rightarrow> vpath w ks)"
| "vpath _ (k # ks) = None"

text \<open>The mapping says nothing at this path: a key on the way is missing from it.\<close>

fun silent_at :: "pval \<Rightarrow> pkey list \<Rightarrow> bool" where
  "silent_at (PDict d) (k # ks) = (case dget d k of None \<Rightarrow> True | Some w \<Rightarrow> silent_at w ks)"
| "silent_at _ _ = False"

text \<open>Every mapping in the value has distinct keys, as a Python dictionary has.\<close>

fun wf_val :: "pval \<Rightarrow> bool" where
  "wf_val (PDict d) = (distinct (dkeys d) \<and> (\<forall>kv \<in> set d. wf_val (snd kv)))"
| "wf_val (PList xs) = (\<forall>x \<in> set xs. wf_val x)"
| "wf_val _ = True"

abbreviation wf_dict :: "dict \<Rightarrow> bool" where
  "wf_dict d \<equiv> wf_val (PDict d)"

lemma wf_dict_get: "wf_dict d \<Longrightarrow> dget d k = Some v \<Longrightarrow> wf_val v"
  by (auto dest!: map_of_SomeD)

lemma vpath_not_dict [simp]: "\<not> is_dict v \<Longrightarrow> vpath v (k # ks) = None"
  by (cases v) auto

section \<open>Deep merge\<close>

function deep_merge :: "dict \<Rightarrow> dict \<Rightarrow> dict" where
  "deep_merge base [] = base"
| "deep_merge base ((k, v) # override) =
     deep_merge
       (dput base k
         (case (dget base k, v) of
            (Some (PDict b), PDict d) \<Rightarrow> PDict (deep_merge b d)
          | _ \<Rightarrow> v))
       override"
  by pat_completeness auto
termination
  by (relation "measure (\<lambda>(b, e). size (PDict e))") auto

definition merge_value :: "pval option \<Rightarrow> pval \<Rightarrow> pval" where
  "merge_value old v = (case (old, v) of
     (Some (PDict b), PDict d) \<Rightarrow> PDict (deep_merge b d) | _ \<Rightarrow> v)"

lemma deep_merge_Cons:
  "deep_merge base ((k, v) # override) = deep_merge (dput base k (merge_value (dget base k) v)) override"
  by (simp add: merge_value_def)

lemmas deep_merge_step = deep_merge.simps(1) deep_merge_Cons

declare deep_merge.simps(2) [simp del] deep_merge_Cons [simp]

lemma merge_value_simps [simp]:
  "merge_value None v = v"
  "\<not> is_dict v \<Longrightarrow> merge_value old v = v"
  "\<not> is_dict w \<Longrightarrow> merge_value (Some w) v = v"
  "merge_value (Some (PDict b)) (PDict d) = PDict (deep_merge b d)"
  by (auto simp: merge_value_def split: option.splits pval.splits)

text \<open>
  What the merged mapping holds at each key: the recursive merge where both sides hold
  mappings, the override where it has the key, the base elsewhere.
\<close>

lemma dget_deep_merge:
  "distinct (dkeys over) \<Longrightarrow> dget (deep_merge base over) k =
    (case dget over k of None \<Rightarrow> dget base k | Some v \<Rightarrow> Some (merge_value (dget base k) v))"
proof (induction over arbitrary: base)
  case (Cons kv over)
  obtain k' v where kv: "kv = (k', v)" by (cases kv)
  from Cons.prems kv have "dget over k' = None" by (simp add: dget_None_iff)
  with Cons kv show ?case by (auto split: option.splits)
qed simp

lemma dkeys_deep_merge:
  "distinct (dkeys over) \<Longrightarrow>
    dkeys (deep_merge base over) = dkeys base @ filter (\<lambda>k. k \<notin> set (dkeys base)) (dkeys over)"
proof (induction over arbitrary: base)
  case (Cons kv over)
  obtain k v where kv: "kv = (k, v)" by (cases kv)
  have "filter (\<lambda>x. x \<notin> insert k (set (dkeys base))) (dkeys over) =
      filter (\<lambda>x. x \<notin> set (dkeys base)) (dkeys over)"
    using Cons.prems kv by (auto intro!: filter_cong)
  with Cons kv show ?case by (auto simp: dkeys_dput)
qed simp

lemma deep_merge_Nil_left: "distinct (dkeys over) \<Longrightarrow> deep_merge [] over = over"
proof -
  have "distinct (dkeys (acc @ over)) \<Longrightarrow> deep_merge acc over = acc @ over" for acc
  proof (induction over arbitrary: acc)
    case (Cons kv over)
    obtain k v where kv: "kv = (k, v)" by (cases kv)
    from Cons.prems kv have "k \<notin> set (dkeys acc)" by auto
    then have "dget acc k = None" and "dput acc k v = acc @ [(k, v)]"
      by (auto simp: dget_None_iff dput_fresh)
    with Cons.IH [of "acc @ [(k, v)]"] Cons.prems kv show ?case by simp
  qed simp
  from this [of "[]"] show "distinct (dkeys over) \<Longrightarrow> deep_merge [] over = over" by simp
qed

lemma wf_dput: "wf_dict d \<Longrightarrow> wf_val v \<Longrightarrow> wf_dict (dput d k v)"
proof -
  have "set (dput d k v) \<subseteq> insert (k, v) (set d)"
    by (induction d) auto
  then show "wf_dict d \<Longrightarrow> wf_val v \<Longrightarrow> wf_dict (dput d k v)" by force
qed

lemma wf_deep_merge: "wf_dict base \<Longrightarrow> wf_dict over \<Longrightarrow> wf_dict (deep_merge base over)"
proof (induction base over rule: deep_merge.induct)
  case (2 base k v over)
  have v: "wf_val v" and over: "wf_dict over" using "2.prems" by auto
  have "wf_val (merge_value (dget base k) v)"
  proof (cases "\<exists>b d. dget base k = Some (PDict b) \<and> v = PDict d")
    case True
    then obtain b d where bd: "dget base k = Some (PDict b)" "v = PDict d" by auto
    from bd "2.prems"(1) have "wf_dict b" by (metis wf_dict_get)
    with bd v have "wf_dict (deep_merge b d)" by (intro "2.IH"(1)) auto
    with bd show ?thesis by simp
  next
    case False
    then have "merge_value (dget base k) v = v"
      by (auto simp: merge_value_def split: option.splits pval.splits)
    with v show ?thesis by simp
  qed
  with "2.prems" have "wf_dict (dput base k (merge_value (dget base k) v))"
    by (intro wf_dput) auto
  with over "2.IH"(2) show ?case by (simp add: merge_value_def)
qed simp

text \<open>
  Along a path: a value the override gives that is not a mapping (a list is replaced, not
  concatenated) is the value of the merge, whatever the base holds there.
\<close>

lemma vpath_deep_merge_override:
  "wf_dict over \<Longrightarrow> vpath (PDict over) p = Some v \<Longrightarrow> \<not> is_dict v \<Longrightarrow>
    vpath (PDict (deep_merge base over)) p = Some v"
proof (induction p arbitrary: base over)
  case (Cons k p)
  then obtain w where w: "dget over k = Some w" "vpath w p = Some v"
    by (auto split: option.splits)
  have d: "dget (deep_merge base over) k = Some (merge_value (dget base k) w)"
    using Cons.prems(1) w by (simp add: dget_deep_merge)
  show ?case
  proof (cases "\<exists>b e. dget base k = Some (PDict b) \<and> w = PDict e")
    case True
    then obtain b e where be: "dget base k = Some (PDict b)" "w = PDict e" by auto
    from be w Cons.prems(1) have "wf_dict e" by (metis wf_dict_get)
    with be w Cons show ?thesis by (simp add: d)
  next
    case False
    then have "merge_value (dget base k) w = w"
      by (auto simp: merge_value_def split: option.splits pval.splits)
    with w show ?thesis by (simp add: d)
  qed
qed auto

text \<open>Where the override is silent, the merge is the base.\<close>

lemma vpath_deep_merge_silent:
  "wf_dict over \<Longrightarrow> silent_at (PDict over) p \<Longrightarrow>
    vpath (PDict (deep_merge base over)) p = vpath (PDict base) p"
proof (induction p arbitrary: base over)
  case (Cons k p)
  show ?case
  proof (cases "dget over k")
    case None
    with Cons.prems show ?thesis by (simp add: dget_deep_merge)
  next
    case (Some w)
    with Cons.prems obtain e where e: "w = PDict e" and p: "silent_at (PDict e) p" "p \<noteq> []"
      by (cases w; cases p) auto
    have wf: "wf_dict e" using Cons.prems(1) Some e by (metis wf_dict_get)
    have d: "dget (deep_merge base over) k = Some (merge_value (dget base k) w)"
      using Cons.prems(1) Some by (simp add: dget_deep_merge)
    have fresh: "vpath (PDict e) p = None"
      using Cons.IH [OF wf p(1), of "[]"] wf p(2) by (cases p) (auto simp: deep_merge_Nil_left)
    show ?thesis
    proof (cases "\<exists>b. dget base k = Some (PDict b)")
      case True
      with e d Cons.IH [OF wf p(1)] show ?thesis by auto
    next
      case False
      then have "vpath (PDict base) (k # p) = None"
        using p(2) by (cases p; cases "dget base k") (auto elim: is_dictE, metis is_dict.elims(2) vpath_not_dict)
      moreover from False have "merge_value (dget base k) w = w"
        by (auto simp: merge_value_def split: option.splits pval.splits)
      ultimately show ?thesis using fresh e by (simp add: d)
    qed
  qed
qed simp

lemma deep_merge_self: "wf_dict d \<Longrightarrow> deep_merge d d = d"
proof -
  have "distinct (dkeys (pre @ over)) \<Longrightarrow>
      \<forall>kv \<in> set over. merge_value (Some (snd kv)) (snd kv) = snd kv \<Longrightarrow>
      deep_merge (pre @ over) over = pre @ over" for pre over
  proof (induction over arbitrary: pre)
    case (Cons kv over)
    obtain k v where kv: "kv = (k, v)" by (cases kv)
    have g: "dget (pre @ kv # over) k = Some v"
      using Cons.prems(1) kv by (intro map_of_is_SomeI) auto
    then have "dput (pre @ kv # over) k v = pre @ kv # over" by (rule dput_same)
    moreover have "deep_merge (pre @ kv # over) over = pre @ kv # over"
      using Cons.IH [of "pre @ [kv]"] Cons.prems by simp
    ultimately show ?case using g kv Cons.prems(2) by simp
  qed simp
  from this [of "[]"] have step: "wf_dict d \<Longrightarrow>
      \<forall>kv \<in> set d. merge_value (Some (snd kv)) (snd kv) = snd kv \<Longrightarrow> deep_merge d d = d" for d
    by simp
  have all: "(case v of PDict d \<Rightarrow> wf_dict d \<longrightarrow> deep_merge d d = d | _ \<Rightarrow> True)" for v :: pval
  proof (induction v)
    case (PDict d)
    have "\<forall>kv \<in> set d. merge_value (Some (snd kv)) (snd kv) = snd kv" if "wf_dict d"
    proof
      fix kv
      assume kv: "kv \<in> set d"
      show "merge_value (Some (snd kv)) (snd kv) = snd kv"
      proof (cases "snd kv")
        case (PDict e)
        with that kv have wf: "wf_dict e" by force
        have "snd kv \<in> Basic_BNFs.snds kv" by (cases kv) simp
        from PDict.IH [OF kv this] wf PDict show ?thesis by simp
      qed simp_all
    qed
    with step [of d] show ?case by simp
  qed simp_all
  show "wf_dict d \<Longrightarrow> deep_merge d d = d" using all [of "PDict d"] by simp
qed

lemma wf_dict_distinct: "wf_dict d \<Longrightarrow> distinct (dkeys d)"
  by simp

lemma wf_ddel: "wf_dict d \<Longrightarrow> wf_dict (ddel d k)"
  by (auto simp: AList.delete_eq distinct_map_filter)

declare wf_val.simps(1) [simp del]

section \<open>Overrides from the command line\<close>

datatype merge_error =
    InvalidSetFormat string
  | EmptyPath
  | CircularImport string
  | FileNotFound string
  | NotAMapping string
  | BadImportEntry string
  | YamlError string
  | LoadRefused string

text \<open>
  \<open>yaml\<close> stands for \<open>yaml.safe_load\<close>; \<open>None\<close> is a \<open>YAMLError\<close>, after which the text
  itself is the value.
\<close>

definition parse_set_value ::
    "(string \<Rightarrow> pval option) \<Rightarrow> string \<Rightarrow> merge_error + string list \<times> pval" where
  "parse_set_value yaml set_string = (case cut_at CHR ''='' set_string of
     None \<Rightarrow> Inl (InvalidSetFormat set_string)
   | Some (key_path, value_str) \<Rightarrow>
       if key_path = [] then Inl (InvalidSetFormat set_string)
       else Inr (split_on CHR ''.'' key_path,
                 case yaml value_str of Some v \<Rightarrow> v | None \<Rightarrow> PStr value_str))"

text \<open>The mapping under a key, an empty one where the key is missing or holds no mapping.\<close>

definition sub_dict :: "dict \<Rightarrow> pkey \<Rightarrow> dict" where
  "sub_dict d k = (case dget d k of Some (PDict e) \<Rightarrow> e | _ \<Rightarrow> [])"

fun apply_set_value :: "dict \<Rightarrow> string list \<Rightarrow> pval \<Rightarrow> merge_error + dict" where
  "apply_set_value config [] v = Inl EmptyPath"
| "apply_set_value config [part] v = Inr (dput config (KStr part) v)"
| "apply_set_value config (part # q # rest) v =
     (case apply_set_value (sub_dict config (KStr part)) (q # rest) v of
        Inl e \<Rightarrow> Inl e
      | Inr d \<Rightarrow> Inr (dput config (KStr part) (PDict d)))"

abbreviation keys_of :: "string list \<Rightarrow> pkey list" where
  "keys_of \<equiv> map KStr"

lemma apply_set_value_total: "p \<noteq> [] \<Longrightarrow> \<exists>d'. apply_set_value d p v = Inr d'"
  by (induction d p v rule: apply_set_value.induct) force+

lemma apply_set_value_get:
  "apply_set_value d p v = Inr d' \<Longrightarrow> vpath (PDict d') (keys_of p) = Some v"
  by (induction d p v arbitrary: d' rule: apply_set_value.induct) (auto split: sum.splits)

text \<open>A path that leaves the assigned one keeps its value.\<close>

lemma vpath_sub_dict:
  "ks \<noteq> [] \<Longrightarrow> vpath (PDict (sub_dict d k)) ks =
    (case dget d k of None \<Rightarrow> None | Some w \<Rightarrow> vpath w ks)"
  by (cases ks; cases "dget d k"; cases "the (dget d k)") (auto simp: sub_dict_def)

lemma apply_set_value_frame:
  "apply_set_value d p v = Inr d' \<Longrightarrow> \<not> prefix q (keys_of p) \<Longrightarrow> \<not> prefix (keys_of p) q \<Longrightarrow>
    vpath (PDict d') q = vpath (PDict d) q"
proof (induction d p v arbitrary: d' q rule: apply_set_value.induct)
  case (2 d part v)
  then show ?case by (cases q) (auto split: if_splits)
next
  case (3 d part p rest v)
  from "3.prems"(1) obtain e where e: "apply_set_value (sub_dict d (KStr part)) (p # rest) v = Inr e"
    and d': "d' = dput d (KStr part) (PDict e)" by (auto split: sum.splits)
  from "3.prems"(2) obtain k ks where q: "q = k # ks" by (cases q) auto
  show ?case
  proof (cases "k = KStr part")
    case True
    with q "3.prems" have ks: "\<not> prefix ks (keys_of (p # rest))" "\<not> prefix (keys_of (p # rest)) ks"
      by auto
    then have "ks \<noteq> []" by auto
    with True q d' "3.IH" [OF e ks] show ?thesis
      by (simp add: vpath_sub_dict)
  next
    case False
    with q d' show ?thesis by simp
  qed
qed simp

lemma parse_set_value_ok:
  assumes "parse_set_value yaml s = Inr (p, v)"
  shows "p \<noteq> [] \<and> (\<exists>t. s = join ''.'' p @ ''='' @ t \<and>
    v = (case yaml t of Some w \<Rightarrow> w | None \<Rightarrow> PStr t))"
proof -
  from assms obtain k t where k: "cut_at CHR ''='' s = Some (k, t)" "p = split_on CHR ''.'' k"
    "v = (case yaml t of Some w \<Rightarrow> w | None \<Rightarrow> PStr t)"
    by (auto simp: parse_set_value_def split: option.splits if_splits)
  then have "s = join ''.'' p @ ''='' @ t" by (auto simp: join_split_on dest: cut_at_SomeD)
  with k show ?thesis by auto
qed

lemma parse_set_value_error:
  "(\<exists>e. parse_set_value yaml s = Inl e) \<longleftrightarrow> (CHR ''='' \<notin> set s \<or> hd s = CHR ''='')"
proof (cases "cut_at CHR ''='' s")
  case None
  then have "CHR ''='' \<notin> set s" by (simp add: cut_at_None)
  with None show ?thesis by (simp add: parse_set_value_def)
next
  case (Some kv)
  then obtain k v where kv: "kv = (k, v)" "s = k @ CHR ''='' # v" "CHR ''='' \<notin> set k"
    by (cases kv) (auto dest: cut_at_SomeD)
  with Some show ?thesis by (cases k) (auto simp: parse_set_value_def)
qed

section \<open>Paths and the file system\<close>

record path =
  p_abs :: bool
  p_parts :: "string list"

text \<open>\<open>Path(s)\<close>: empty components and \<open>.\<close> are dropped, \<open>..\<close> is kept.\<close>

definition path_of :: "string \<Rightarrow> path" where
  "path_of s = \<lparr>p_abs = prefix ''/'' s,
     p_parts = filter (\<lambda>q. q \<noteq> [] \<and> q \<noteq> ''.'') (split_on CHR ''/'' s)\<rparr>"

definition path_join :: "path \<Rightarrow> path \<Rightarrow> path" where
  "path_join p q = (if p_abs q then q else p\<lparr>p_parts := p_parts p @ p_parts q\<rparr>)"

definition parent :: "path \<Rightarrow> path" where
  "parent p = p\<lparr>p_parts := butlast (p_parts p)\<rparr>"

definition parents :: "path \<Rightarrow> path list" where
  "parents p = map (\<lambda>i. p\<lparr>p_parts := take i (p_parts p)\<rparr>) (rev [0..<length (p_parts p)])"

text \<open>
  The file system as the loader sees it: \<open>exists\<close>, \<open>resolve\<close> (symbolic links and \<open>..\<close>),
  \<open>expanduser\<close>, the resolved working directory, the parsed contents of a file, and the
  optional \<open>on_load\<close> check (\<open>Some m\<close>: it raises \<open>m\<close>).
\<close>

record world =
  w_exists :: "path \<Rightarrow> bool"
  w_resolve :: "path \<Rightarrow> path"
  w_expanduser :: "path \<Rightarrow> path"
  w_cwd :: path
  w_yaml :: "path \<Rightarrow> string + pval"
  w_on_load :: "path \<Rightarrow> string option"

definition path_str :: "path \<Rightarrow> string" where
  "path_str p = (if p_abs p then ''/'' @ join ''/'' (p_parts p)
     else if p_parts p = [] then ''.'' else join ''/'' (p_parts p))"

fun first_existing :: "world \<Rightarrow> path list \<Rightarrow> path option" where
  "first_existing w [] = None"
| "first_existing w (c # cs) = (if w_exists w c then Some (w_resolve w c) else first_existing w cs)"

definition resolve_import_path :: "world \<Rightarrow> path \<Rightarrow> pval \<Rightarrow> merge_error + path" where
  "resolve_import_path w path imp = (case imp of
     PStr s \<Rightarrow>
       let expanded = w_expanduser w (path_of s);
           file_relative = w_resolve w (path_join (parent path) expanded)
       in if w_exists w file_relative then Inr file_relative
          else if p_abs expanded then Inr (w_resolve w expanded)
          else
            (case first_existing w (map (\<lambda>root. path_join root expanded)
                   (parents (w_resolve w path) @ w_cwd w # parents (w_cwd w))) of
               Some c \<Rightarrow> Inr c
             | None \<Rightarrow> Inr (w_resolve w (path_join (w_cwd w) expanded)))
   | _ \<Rightarrow> Inl (BadImportEntry (path_str path)))"

lemma resolve_import_relative_first:
  "w_exists w (w_resolve w (path_join (parent path) (w_expanduser w (path_of s)))) \<Longrightarrow>
    resolve_import_path w path (PStr s) =
      Inr (w_resolve w (path_join (parent path) (w_expanduser w (path_of s))))"
  by (simp add: resolve_import_path_def Let_def)

lemma resolve_import_range:
  "resolve_import_path w path imp = Inr p \<Longrightarrow> \<exists>q. p = w_resolve w q"
proof -
  have "first_existing w cs = Some c \<Longrightarrow> \<exists>q. c = w_resolve w q" for cs c
    by (induction cs) (auto split: if_splits)
  then show "resolve_import_path w path imp = Inr p \<Longrightarrow> \<exists>q. p = w_resolve w q"
    by (auto simp: resolve_import_path_def Let_def split: pval.splits if_splits option.splits)
qed

end
