(* ===== verification/Py_Repr.thy ===== *)
theory Py_Repr
  imports Py_Text
begin

text \<open>
  \<open>str\<close> and \<open>repr\<close> of configuration values, as they appear in messages. The shortest
  decimal text of a float is the parameter \<open>fr\<close>: floats are rationals here, which do not
  determine it.
\<close>

section \<open>Strings\<close>

definition hex_digit :: "nat \<Rightarrow> char" where
  "hex_digit n = (if n < 10 then char_of (48 + n) else char_of (87 + n))"

definition repr_char :: "char \<Rightarrow> char \<Rightarrow> string" where
  "repr_char q c =
     (if c = q \<or> code c = 92 then [char_of (92::nat), c]
      else if code c = 10 then [char_of (92::nat), CHR ''n'']
      else if code c = 13 then [char_of (92::nat), CHR ''r'']
      else if code c = 9 then [char_of (92::nat), CHR ''t'']
      else if code c < 32 \<or> 127 \<le> code c \<and> code c \<le> 160 \<or> code c = 173
      then [char_of (92::nat), CHR ''x'', hex_digit (code c div 16), hex_digit (code c mod 16)]
      else [c])"

text \<open>Single quotes, unless the text has one and no double quote.\<close>

definition repr_quote :: "string \<Rightarrow> char" where
  "repr_quote s = (if char_of (39::nat) \<in> set s \<and> CHR 0x22 \<notin> set s
     then CHR 0x22 else char_of (39::nat))"

definition repr_str :: "string \<Rightarrow> string" where
  "repr_str s = [repr_quote s] @ concat (map (repr_char (repr_quote s)) s) @ [repr_quote s]"

definition bool_text :: "bool \<Rightarrow> string" where
  "bool_text b = (if b then ''True'' else ''False'')"

section \<open>Values\<close>

fun key_text :: "pkey \<Rightarrow> string" where
  "key_text (KStr s) = s"
| "key_text (KInt i) = int_str i"
| "key_text (KBool b) = bool_text b"
| "key_text KNone = ''None''"

fun key_repr :: "pkey \<Rightarrow> string" where
  "key_repr (KStr s) = repr_str s"
| "key_repr k = key_text k"

fun py_repr :: "(rat \<Rightarrow> string) \<Rightarrow> pval \<Rightarrow> string" where
  "py_repr fr PNone = ''None''"
| "py_repr fr (PBool b) = bool_text b"
| "py_repr fr (PInt i) = int_str i"
| "py_repr fr (PFloat r) = fr r"
| "py_repr fr (PStr s) = repr_str s"
| "py_repr fr (PList xs) = ''['' @ join '', '' (map (py_repr fr) xs) @ '']''"
| "py_repr fr (PDict d) =
     ''{'' @ join '', '' (map (\<lambda>kv. key_repr (fst kv) @ '': '' @ py_repr fr (snd kv)) d) @ ''}''"

fun py_str :: "(rat \<Rightarrow> string) \<Rightarrow> pval \<Rightarrow> string" where
  "py_str fr (PStr s) = s"
| "py_str fr v = py_repr fr v"

text \<open>A text of word characters is written as it is, in single quotes.\<close>

lemma repr_char_word: "is_word c \<Longrightarrow> code c \<le> 126 \<Longrightarrow> repr_char (char_of (39::nat)) c = [c]"
  by (auto simp: repr_char_def is_word_def is_digit_def code_def)

lemma repr_str_word:
  assumes "\<And>c. c \<in> set s \<Longrightarrow> is_word c \<and> code c \<le> 126"
  shows "repr_str s = quoted s"
proof -
  have "\<not> is_word (char_of (39::nat))" by (simp add: is_word_def is_digit_def code_def)
  with assms have q: "repr_quote s = char_of (39::nat)" by (auto simp: repr_quote_def)
  have "concat (map (repr_char (char_of (39::nat))) s) = s"
    using assms by (induction s) (auto simp: repr_char_word)
  with q show ?thesis by (simp add: repr_str_def quoted_def)
qed

end
