(* ===== verification/Resolution.thy ===== *)
theory Resolution
  imports Py_Repr
begin

text \<open>
  \<open>isvtest/core/resolution.py\<close>: validation entries parsed from the \<open>tests.validations\<close>
  mapping and resolved to ready, skipped or error, before anything runs.

  Jinja2 is a parameter: \<open>jinja template context\<close> is \<open>Inr\<close> of the rendered text or \<open>Inl\<close> of
  the message of the exception. The names of the compose-only check classes, found by
  scanning the installed classes, are the parameter \<open>compose_only\<close>. The warnings about
  masked \<open>default(...)\<close> filters only reach the log and are not modelled.
\<close>

section \<open>Outcomes and entries\<close>

datatype State = PASSED | FAILED | SKIPPED | ERROR

datatype SkipReason =
    EXCLUDED | PHASE_NOT_REQUESTED | RUNTIME_SKIP | STEP_NO_OUTPUT | STEP_NOT_CONFIGURED
  | STEP_SKIPPED | CAPABILITY_REQUIREMENT

datatype ErrorReason = INVALID_CONFIG | RUNTIME_EXCEPTION | TEMPLATE_RENDER_FAILED

fun state_value :: "State \<Rightarrow> string" where
  "state_value PASSED = ''passed''"
| "state_value FAILED = ''failed''"
| "state_value SKIPPED = ''skipped''"
| "state_value ERROR = ''error''"

fun skip_value :: "SkipReason \<Rightarrow> string" where
  "skip_value EXCLUDED = ''test_excluded''"
| "skip_value PHASE_NOT_REQUESTED = ''phase_not_requested''"
| "skip_value RUNTIME_SKIP = ''runtime_skip''"
| "skip_value STEP_NO_OUTPUT = ''step_no_output''"
| "skip_value STEP_NOT_CONFIGURED = ''step_not_configured''"
| "skip_value STEP_SKIPPED = ''step_skipped''"
| "skip_value CAPABILITY_REQUIREMENT = ''capability_requirement''"

fun error_value :: "ErrorReason \<Rightarrow> string" where
  "error_value INVALID_CONFIG = ''invalid_config''"
| "error_value RUNTIME_EXCEPTION = ''runtime_exception''"
| "error_value TEMPLATE_RENDER_FAILED = ''template_render_failed''"

record ValidationEntry =
  e_name :: string
  e_category :: string
  e_params :: pval
  e_step :: "string option"
  e_phase :: "string option"
  e_labels :: "string list"
  e_requires :: "string list"

record SubtestSummary =
  s_passed :: int
  s_failed :: int
  s_skipped :: int

definition subtest_total :: "SubtestSummary \<Rightarrow> int" where
  "subtest_total s = s_passed s + s_failed s + s_skipped s"

record ResolvedEntry =
  r_entry :: ValidationEntry
  r_params :: "dict option"
  r_state :: "State option"
  r_skip :: "SkipReason option"
  r_error :: "ErrorReason option"
  r_message :: string
  r_duration :: rat
  r_subtests :: SubtestSummary

definition no_subtests :: SubtestSummary where
  "no_subtests = \<lparr>s_passed = 0, s_failed = 0, s_skipped = 0\<rparr>"

text \<open>\<open>ResolvedEntry(entry=..., rendered_params=...)\<close> with the defaults of the other fields.\<close>

definition fresh_entry :: "ValidationEntry \<Rightarrow> dict option \<Rightarrow> ResolvedEntry" where
  "fresh_entry e params = \<lparr>r_entry = e, r_params = params, r_state = None, r_skip = None,
     r_error = None, r_message = [], r_duration = 0, r_subtests = no_subtests\<rparr>"

definition is_ready :: "ResolvedEntry \<Rightarrow> bool" where
  "is_ready r \<longleftrightarrow> r_state r = None \<and> r_skip r = None \<and> r_error r = None"

definition skip_entry :: "ValidationEntry \<Rightarrow> SkipReason \<Rightarrow> string \<Rightarrow> ResolvedEntry" where
  "skip_entry e reason message = (fresh_entry e None)
     \<lparr>r_state := Some SKIPPED, r_skip := Some reason, r_message := message\<rparr>"

definition error_entry :: "ValidationEntry \<Rightarrow> ErrorReason \<Rightarrow> string \<Rightarrow> ResolvedEntry" where
  "error_entry e reason message = (fresh_entry e None)
     \<lparr>r_state := Some ERROR, r_error := Some reason, r_message := message\<rparr>"

lemmas entry_builders = fresh_entry_def skip_entry_def error_entry_def is_ready_def

section \<open>Capabilities, labels and class names\<close>

definition DECLARABLE_CAPABILITIES :: "string list" where
  "DECLARABLE_CAPABILITIES = [''bare_metal'', ''kubernetes'', ''slurm'', ''vm'']"

definition DEFAULT_VALIDATION_PHASE :: string where
  "DEFAULT_VALIDATION_PHASE = ''test''"

definition ADAPTER_HANDLED_CATEGORIES :: "string list" where
  "ADAPTER_HANDLED_CATEGORIES = [''reframe'']"

fun declarable :: "pval \<Rightarrow> bool" where
  "declarable (PStr s) = (s \<in> set DECLARABLE_CAPABILITIES)"
| "declarable _ = False"

definition requires_error :: "pval \<Rightarrow> string option" where
  "requires_error values = (case values of
     PList xs \<Rightarrow>
       if \<not> list_all declarable xs
       then Some (''requires must be a list containing only: '' @ join '', '' DECLARABLE_CAPABILITIES)
       else if distinct xs then None
       else Some ''requires must not contain duplicates''
   | _ \<Rightarrow> Some (''requires must be a list containing only: '' @ join '', '' DECLARABLE_CAPABILITIES))"

definition canonical_suite_name :: "string \<Rightarrow> string" where
  "canonical_suite_name value =
     (let normalized = map (\<lambda>c. if c = CHR ''-'' then CHR ''_'' else c) (lower (strip value))
      in if normalized = ''k8s'' then ''kubernetes'' else normalized)"

text \<open>\<open>sorted(set(xs))\<close>\<close>

definition sorted_set :: "string list \<Rightarrow> string list" where
  "sorted_set xs = sort (remdups xs)"

fun add_labels :: "string list \<Rightarrow> pval list \<Rightarrow> string list" where
  "add_labels labels [] = labels"
| "add_labels labels (x # xs) = add_labels
     (case x of PStr s \<Rightarrow> if s \<noteq> [] \<and> s \<notin> set labels then labels @ [s] else labels
      | _ \<Rightarrow> labels) xs"

definition wiring_labels :: "pval \<Rightarrow> string list" where
  "wiring_labels params = (case params of
     PDict d \<Rightarrow> (case sget d ''labels'' of
         Some (PStr s) \<Rightarrow> add_labels [] [PStr s]
       | Some (PList xs) \<Rightarrow> add_labels [] xs
       | _ \<Rightarrow> [])
   | _ \<Rightarrow> [])"

fun strings_of :: "pval list \<Rightarrow> string list" where
  "strings_of [] = []"
| "strings_of (PStr s # xs) = s # strings_of xs"
| "strings_of (_ # xs) = strings_of xs"

definition wiring_requires :: "pval \<Rightarrow> string list" where
  "wiring_requires params = (case params of
     PDict d \<Rightarrow> (case sget d ''requires'' of Some (PList xs) \<Rightarrow> strings_of xs | _ \<Rightarrow> [])
   | _ \<Rightarrow> [])"

definition requirements_satisfied :: "string list \<Rightarrow> string \<Rightarrow> bool" where
  "requirements_satisfied requires capability \<longleftrightarrow> requires = [] \<or> capability \<in> set requires"

text \<open>\<open>max(matches, key=len)\<close>: the first of the longest.\<close>

fun longest :: "string \<Rightarrow> string list \<Rightarrow> string" where
  "longest best [] = best"
| "longest best (x # xs) = longest (if length best < length x then x else best) xs"

definition resolve_class_key :: "string \<Rightarrow> string list \<Rightarrow> string option" where
  "resolve_class_key name keys =
     (if name \<in> set keys then Some name
      else (case filter (\<lambda>c. prefix (c @ ''-'') name) keys of
        [] \<Rightarrow> None
      | m # ms \<Rightarrow> Some (longest m ms)))"

text \<open>\<open>is_composite\<close> of \<open>isvtest/core/composite.py\<close>.\<close>

definition is_composite :: "pval \<Rightarrow> bool" where
  "is_composite params = (case params of
     PDict d \<Rightarrow> (case sget d ''compose'' of None \<Rightarrow> False | Some v \<Rightarrow> v \<noteq> PNone)
   | _ \<Rightarrow> False)"

definition compose_only_error :: "string list \<Rightarrow> string \<Rightarrow> pval \<Rightarrow> string option" where
  "compose_only_error compose_only name params =
     (if is_composite params then None
      else if resolve_class_key name compose_only \<noteq> None
      then Some (quoted name @ '' is compose_only and cannot be wired directly; ''
        @ ''name the property under test and list it under '' @ quoted ''compose:'')
      else None)"

section \<open>Parsing the configuration\<close>

type_synonym item = "string \<times> pval \<times> pval \<times> pval"

definition params_or_empty :: "pval \<Rightarrow> pval" where
  "params_or_empty params = (if truthy params then params else PDict [])"

abbreviation invalid_params :: "string \<Rightarrow> pval" where
  "invalid_params message \<equiv> PDict [(KStr ''_invalid_config'', PStr message)]"

definition dict_items :: "dict \<Rightarrow> pval \<Rightarrow> pval \<Rightarrow> item list" where
  "dict_items d group_step group_phase =
     map (\<lambda>kv. (key_text (fst kv), params_or_empty (snd kv), group_step, group_phase)) d"

fun expand_check_list :: "pval list \<Rightarrow> pval \<Rightarrow> pval \<Rightarrow> string \<Rightarrow> item list" where
  "expand_check_list [] group_step group_phase message = []"
| "expand_check_list (PDict d # items) group_step group_phase message =
     dict_items d group_step group_phase @ expand_check_list items group_step group_phase message"
| "expand_check_list (_ # items) group_step group_phase message =
     (''<invalid>'', invalid_params message, PNone, PNone)
       # expand_check_list items group_step group_phase message"

definition get_or_none :: "dict \<Rightarrow> string \<Rightarrow> pval" where
  "get_or_none d k = (case sget d k of None \<Rightarrow> PNone | Some v \<Rightarrow> v)"

definition iter_validation_items :: "string \<Rightarrow> pval \<Rightarrow> item list" where
  "iter_validation_items category config = (case config of
     PDict d \<Rightarrow>
       (case sget d ''checks'' of
          Some (PDict checks) \<Rightarrow>
            dict_items checks (get_or_none d ''step'') (get_or_none d ''phase'')
        | Some (PList checks) \<Rightarrow>
            expand_check_list checks (get_or_none d ''step'') (get_or_none d ''phase'')
              (''each item in category '' @ quoted (category @ ''.checks'') @ '' must be a mapping'')
        | Some _ \<Rightarrow>
            [(''<invalid>'', invalid_params (''checks for category '' @ quoted category
                @ '' must be a mapping or list''), PNone, PNone)]
        | None \<Rightarrow> dict_items d PNone PNone)
   | PList items \<Rightarrow>
       expand_check_list items PNone PNone
         (''each item in category '' @ quoted category @ '' must be a mapping'')
   | _ \<Rightarrow>
       [(''<invalid>'', invalid_params (''category '' @ quoted category
           @ '' validations must be a mapping or list''), PNone, PNone)])"

definition invalid_entry :: "string \<Rightarrow> string \<Rightarrow> string \<Rightarrow> ValidationEntry" where
  "invalid_entry name category message =
     \<lparr>e_name = name, e_category = category, e_params = invalid_params message,
      e_step = None, e_phase = None, e_labels = [], e_requires = []\<rparr>"

text \<open>A group's step or phase, unless it is \<open>None\<close> and the check names its own.\<close>

definition own_or_group :: "pval \<Rightarrow> pval \<Rightarrow> string \<Rightarrow> string option" where
  "own_or_group grp params key =
     str_or_none (Some (case (grp, params) of
       (PNone, PDict d) \<Rightarrow> get_or_none d key
     | _ \<Rightarrow> grp))"

definition parse_item :: "string list \<Rightarrow> string \<Rightarrow> item \<Rightarrow> ValidationEntry" where
  "parse_item compose_only category it = (case it of (name, params, group_step, group_phase) \<Rightarrow>
     (case compose_only_error compose_only name params of
        Some message \<Rightarrow> invalid_entry name category message
      | None \<Rightarrow>
          \<lparr>e_name = name, e_category = category, e_params = params,
           e_step = own_or_group group_step params ''step'',
           e_phase = own_or_group group_phase params ''phase'',
           e_labels = wiring_labels params, e_requires = wiring_requires params\<rparr>))"

definition parse_category :: "string list \<Rightarrow> pkey \<Rightarrow> pval \<Rightarrow> ValidationEntry list" where
  "parse_category compose_only category config = (case category of
     KStr c \<Rightarrow>
       if c \<in> set ADAPTER_HANDLED_CATEGORIES then []
       else map (parse_item compose_only c) (iter_validation_items c config)
   | _ \<Rightarrow> [invalid_entry (key_text category) ''invalid'' ''validation category must be a string''])"

definition parse_validations :: "string list \<Rightarrow> dict \<Rightarrow> ValidationEntry list" where
  "parse_validations compose_only raw =
     concat (map (\<lambda>kv. parse_category compose_only (fst kv) (snd kv)) raw)"

section \<open>Rendering parameters\<close>

type_synonym jinja = "string \<Rightarrow> dict \<Rightarrow> string + string"

definition is_template :: "string \<Rightarrow> bool" where
  "is_template s \<longleftrightarrow> contains_text ''{{'' s \<and> contains_text ''}}'' s"

definition render_string :: "jinja \<Rightarrow> dict \<Rightarrow> string \<Rightarrow> string + string" where
  "render_string jinja ctx s = (if is_template s then jinja s ctx else Inr s)"

fun render_value :: "jinja \<Rightarrow> dict \<Rightarrow> pval \<Rightarrow> string + pval" where
  "render_value jinja ctx (PStr s) =
     (case render_string jinja ctx s of Inl e \<Rightarrow> Inl e | Inr t \<Rightarrow> Inr (PStr t))"
| "render_value jinja ctx (PDict d) =
     (case gather (map (\<lambda>kv. case render_value jinja ctx (snd kv) of
          Inl e \<Rightarrow> Inl e | Inr v \<Rightarrow> Inr (fst kv, v)) d) of
        Inl e \<Rightarrow> Inl e | Inr d' \<Rightarrow> Inr (PDict d'))"
| "render_value jinja ctx (PList xs) =
     (case gather (map (render_value jinja ctx) xs) of
        Inl e \<Rightarrow> Inl e | Inr ys \<Rightarrow> Inr (PList ys))"
| "render_value jinja ctx v = Inr v"

text \<open>\<open>_render_params\<close> on a mapping; a non-mapping template never gets this far.\<close>

definition render_params :: "jinja \<Rightarrow> dict \<Rightarrow> pval \<Rightarrow> string + pval" where
  "render_params jinja ctx params = render_value jinja ctx params"

section \<open>Resolving one entry\<close>

record resolve_args =
  a_step_outputs :: "(string \<times> pval) list"
  a_step_phases :: "(string \<times> string) list"
  a_requested :: "string list"
  a_include :: "string list"
  a_exclude :: "string list"
  a_exclude_tests :: "string list"
  a_context :: dict
  a_capability :: "string option"
  a_skipped :: "string list"

definition get_entry_phase :: "ValidationEntry \<Rightarrow> (string \<times> string) list \<Rightarrow> string" where
  "get_entry_phase e step_phases = (case e_phase e of
     Some (c # p) \<Rightarrow> c # p
   | _ \<Rightarrow> (case e_step e of
       Some (c # s) \<Rightarrow> dgetd step_phases (c # s) DEFAULT_VALIDATION_PHASE
     | _ \<Rightarrow> DEFAULT_VALIDATION_PHASE))"

definition validate_entry_shape :: "(rat \<Rightarrow> string) \<Rightarrow> ValidationEntry \<Rightarrow> string option" where
  "validate_entry_shape fr e =
     (if e_name e = [] then Some ''validation name must be a non-empty string''
      else if e_category e = []
      then Some (''validation '' @ quoted (e_name e) @ '' category must be a non-empty string'')
      else (case e_params e of
        PDict d \<Rightarrow>
          if truthy (get_or_none d ''_invalid_config'')
          then Some (py_str fr (get_or_none d ''_invalid_config''))
          else (case get_or_none d ''requires'' of
            PNone \<Rightarrow> None
          | v \<Rightarrow> map_option (\<lambda>m. ''validation '' @ quoted (e_name e) @ '' '' @ m) (requires_error v))
      | _ \<Rightarrow> Some (''validation '' @ quoted (e_name e) @ '' parameters must be a mapping'')))"

text \<open>The step an entry is bound to: \<open>None\<close> for a missing or empty name.\<close>

definition bound_step :: "ValidationEntry \<Rightarrow> string option" where
  "bound_step e = (case e_step e of Some [] \<Rightarrow> None | s \<Rightarrow> s)"

text \<open>The parameters handed to the check after rendering.\<close>

definition finish_params :: "resolve_args \<Rightarrow> ValidationEntry \<Rightarrow> dict \<Rightarrow> dict" where
  "finish_params a e d =
     (let d1 = (case bound_step e of
            Some s \<Rightarrow> dput (ddel d (KStr ''step'')) (KStr ''step_output'')
                        (dgetd (a_step_outputs a) s PNone)
          | None \<Rightarrow> d)
      in dput (ddel (ddel d1 (KStr ''phase'')) (KStr ''requires''))
           (KStr ''_category'') (PStr (e_category e)))"

definition resolve_rendered :: "jinja \<Rightarrow> resolve_args \<Rightarrow> ValidationEntry \<Rightarrow> ResolvedEntry" where
  "resolve_rendered jinja a e = (case render_params jinja (a_context a) (e_params e) of
     Inl exc \<Rightarrow> error_entry e TEMPLATE_RENDER_FAILED
       (''failed to render validation parameters: '' @ exc)
   | Inr (PDict d) \<Rightarrow> fresh_entry e (Some (finish_params a e d))
   | Inr _ \<Rightarrow> error_entry e INVALID_CONFIG
       (''validation '' @ quoted (e_name e) @ '' parameters must render to a mapping''))"

text \<open>The guards of the loop of \<open>resolve_entries\<close>, in the order the code tests them.\<close>

definition resolve_phase :: "jinja \<Rightarrow> resolve_args \<Rightarrow> ValidationEntry \<Rightarrow> ResolvedEntry" where
  "resolve_phase jinja a e =
     (let phase = get_entry_phase e (a_step_phases a)
      in if phase \<notin> set (a_requested a)
         then skip_entry e PHASE_NOT_REQUESTED (''phase '' @ quoted phase @ '' was not requested'')
         else resolve_rendered jinja a e)"

definition resolve_step :: "jinja \<Rightarrow> resolve_args \<Rightarrow> ValidationEntry \<Rightarrow> ResolvedEntry" where
  "resolve_step jinja a e = (case bound_step e of
     None \<Rightarrow> resolve_phase jinja a e
   | Some s \<Rightarrow>
       if s \<in> set (a_skipped a)
       then skip_entry e STEP_SKIPPED (''step '' @ quoted s @ '' is configured but skipped (skip: true)'')
       else if \<not> dhas (a_step_phases a) s
       then skip_entry e STEP_NOT_CONFIGURED (''step '' @ quoted s @ '' is not configured for this run'')
       else if \<not> dhas (a_step_outputs a) s
       then skip_entry e STEP_NO_OUTPUT (''step '' @ quoted s @ '' did not produce output'')
       else resolve_phase jinja a e)"

definition resolve_labels :: "jinja \<Rightarrow> resolve_args \<Rightarrow> ValidationEntry \<Rightarrow> ResolvedEntry" where
  "resolve_labels jinja a e =
     (let missing = filter (\<lambda>l. l \<notin> set (e_labels e)) (sorted_set (a_include a));
          matches = filter (\<lambda>l. l \<in> set (a_exclude a)) (sorted_set (e_labels e))
      in if missing \<noteq> []
         then skip_entry e EXCLUDED (''validation '' @ quoted (e_name e)
                @ '' does not match all selected labels: '' @ join '', '' (sorted_set (a_include a)))
         else if matches \<noteq> []
         then skip_entry e EXCLUDED (''validation '' @ quoted (e_name e)
                @ '' is excluded by label: '' @ join '', '' matches)
         else resolve_step jinja a e)"

definition resolve_entry ::
  "(rat \<Rightarrow> string) \<Rightarrow> jinja \<Rightarrow> resolve_args \<Rightarrow> ValidationEntry \<Rightarrow> ResolvedEntry" where
  "resolve_entry fr jinja a e = (case validate_entry_shape fr e of
     Some message \<Rightarrow> error_entry e INVALID_CONFIG message
   | None \<Rightarrow>
       if e_name e \<in> set (a_exclude_tests a)
       then skip_entry e EXCLUDED (''validation '' @ quoted (e_name e) @ '' is excluded by name'')
       else (case a_capability a of
         None \<Rightarrow> resolve_labels jinja a e
       | Some c \<Rightarrow>
           if requirements_satisfied (e_requires e) c then resolve_labels jinja a e
           else skip_entry e CAPABILITY_REQUIREMENT
             (''requires ''
                @ (let l = join '', '' (e_requires e) in if l = [] then ''(none)'' else l)
                @ '' (context: '' @ c @ '')'')))"

definition resolve_entries ::
  "(rat \<Rightarrow> string) \<Rightarrow> jinja \<Rightarrow> resolve_args \<Rightarrow> ValidationEntry list \<Rightarrow> ResolvedEntry list" where
  "resolve_entries fr jinja a es = map (resolve_entry fr jinja a) es"

definition format_resolution_message :: "ResolvedEntry \<Rightarrow> string" where
  "format_resolution_message r =
     (if r_message r \<noteq> [] then r_message r
      else (case r_skip r of
        Some reason \<Rightarrow> skip_value reason
      | None \<Rightarrow> (case r_error r of Some reason \<Rightarrow> error_value reason | None \<Rightarrow> [])))"

section \<open>What the guards decide\<close>

text \<open>The selection of the invocation, and the availability of step and phase.\<close>

definition selected :: "resolve_args \<Rightarrow> ValidationEntry \<Rightarrow> bool" where
  "selected a e \<longleftrightarrow> e_name e \<notin> set (a_exclude_tests a)
     \<and> (case a_capability a of None \<Rightarrow> True | Some c \<Rightarrow> e_requires e = [] \<or> c \<in> set (e_requires e))
     \<and> set (a_include a) \<subseteq> set (e_labels e) \<and> set (e_labels e) \<inter> set (a_exclude a) = {}"

definition runnable :: "resolve_args \<Rightarrow> ValidationEntry \<Rightarrow> bool" where
  "runnable a e \<longleftrightarrow> (case bound_step e of
       None \<Rightarrow> True
     | Some s \<Rightarrow> s \<notin> set (a_skipped a) \<and> s \<in> set (dkeys (a_step_phases a))
         \<and> s \<in> set (dkeys (a_step_outputs a)))
     \<and> get_entry_phase e (a_step_phases a) \<in> set (a_requested a)"

lemma set_sorted_set [simp]: "set (sorted_set xs) = set xs"
  by (simp add: sorted_set_def)

lemma requirements_satisfied_iff:
  "requirements_satisfied rs c \<longleftrightarrow> rs = [] \<or> c \<in> set rs"
  by (simp add: requirements_satisfied_def)

lemma dhas_in: "dhas d k \<longleftrightarrow> k \<in> set (dkeys d)"
  by (simp add: dget_None_iff)

text \<open>Each guard either passes to the next or ends in a skip.\<close>

lemma resolve_phase_cases:
  obtains "get_entry_phase e (a_step_phases a) \<in> set (a_requested a)"
    "resolve_phase jinja a e = resolve_rendered jinja a e"
  | reason m where "get_entry_phase e (a_step_phases a) \<notin> set (a_requested a)"
    "resolve_phase jinja a e = skip_entry e reason m"
  by (cases "get_entry_phase e (a_step_phases a) \<in> set (a_requested a)")
    (auto simp: resolve_phase_def Let_def)

lemma resolve_step_cases:
  obtains "runnable a e" "resolve_step jinja a e = resolve_rendered jinja a e"
  | reason m where "\<not> runnable a e" "resolve_step jinja a e = skip_entry e reason m"
proof -
  have "runnable a e \<and> resolve_step jinja a e = resolve_rendered jinja a e
      \<or> \<not> runnable a e \<and> (\<exists>reason m. resolve_step jinja a e = skip_entry e reason m)"
    by (cases "bound_step e"; cases rule: resolve_phase_cases [of e a jinja])
      (auto simp: resolve_step_def runnable_def dget_None_iff)
  with that show ?thesis by blast
qed

lemma resolve_labels_cases:
  obtains "set (a_include a) \<subseteq> set (e_labels e)" "set (e_labels e) \<inter> set (a_exclude a) = {}"
    "resolve_labels jinja a e = resolve_step jinja a e"
  | reason m where "\<not> (set (a_include a) \<subseteq> set (e_labels e) \<and> set (e_labels e) \<inter> set (a_exclude a) = {})"
    "resolve_labels jinja a e = skip_entry e reason m"
proof -
  have "filter (\<lambda>l. l \<notin> set (e_labels e)) (sorted_set (a_include a)) = [] \<longleftrightarrow>
      set (a_include a) \<subseteq> set (e_labels e)"
    and "filter (\<lambda>l. l \<in> set (a_exclude a)) (sorted_set (e_labels e)) = [] \<longleftrightarrow>
      set (e_labels e) \<inter> set (a_exclude a) = {}"
    by (auto simp: filter_empty_conv)
  then show ?thesis
    using that
    by (cases "set (a_include a) \<subseteq> set (e_labels e)"; cases "set (e_labels e) \<inter> set (a_exclude a) = {}")
      (simp_all add: resolve_labels_def Let_def)
qed

lemma resolve_entry_cases:
  obtains m where "validate_entry_shape fr e = Some m"
    "resolve_entry fr jinja a e = error_entry e INVALID_CONFIG m"
  | "validate_entry_shape fr e = None" "selected a e" "runnable a e"
    "resolve_entry fr jinja a e = resolve_rendered jinja a e"
  | reason m where "validate_entry_shape fr e = None" "\<not> (selected a e \<and> runnable a e)"
    "resolve_entry fr jinja a e = skip_entry e reason m"
proof (cases "validate_entry_shape fr e")
  case (Some m)
  with that(1) show ?thesis by (simp add: resolve_entry_def)
next
  case shape: None
  show ?thesis
  proof (cases "e_name e \<notin> set (a_exclude_tests a) \<and>
      (case a_capability a of None \<Rightarrow> True | Some c \<Rightarrow> requirements_satisfied (e_requires e) c)")
    case True
    then have r: "resolve_entry fr jinja a e = resolve_labels jinja a e"
      and s: "selected a e \<longleftrightarrow> set (a_include a) \<subseteq> set (e_labels e) \<and>
        set (e_labels e) \<inter> set (a_exclude a) = {}"
      using shape
      by (auto simp: resolve_entry_def selected_def requirements_satisfied_iff split: option.splits)
    show ?thesis
    proof (cases rule: resolve_labels_cases [of a e jinja])
      case 1
      then have "selected a e" using s by simp
      with 1 r shape that(2,3) show ?thesis
        by (cases rule: resolve_step_cases [of a e jinja]) auto
    next
      case (2 reason m)
      with r s shape that(3) show ?thesis by auto
    qed
  next
    case False
    then have "\<not> selected a e"
      by (auto simp: selected_def requirements_satisfied_iff split: option.splits)
    moreover from False shape have "\<exists>reason m. resolve_entry fr jinja a e = skip_entry e reason m"
      by (auto simp: resolve_entry_def split: option.splits)
    ultimately show ?thesis using shape that(3) by blast
  qed
qed

text \<open>Rendering keeps the keys of a mapping and renders each value on its own.\<close>

lemma render_dict_Inr:
  assumes "render_params jinja ctx (PDict t) = Inr (PDict d)"
  shows "list_all2 (\<lambda>kv kv'. fst kv' = fst kv \<and> render_value jinja ctx (snd kv) = Inr (snd kv')) t d"
proof -
  let ?f = "\<lambda>kv. case render_value jinja ctx (snd kv) of Inl e \<Rightarrow> Inl e | Inr v \<Rightarrow> Inr (fst kv, v)"
  from assms have "gather (map ?f t) = Inr d"
    by (simp add: render_params_def split: sum.splits)
  then have "list_all2 (\<lambda>x y. ?f x = Inr y) t d" by (simp only: gather_map_Inr)
  then show ?thesis by (rule list_all2_mono) (auto split: sum.splits)
qed

lemma list_all2_dget:
  assumes "list_all2 (\<lambda>kv kv'. fst kv' = fst kv \<and> R (snd kv) (snd kv')) t d"
  shows "rel_option R (dget t k) (dget d k)"
  using assms by (induction rule: list_all2_induct) auto

lemma render_params_dict:
  "render_params jinja ctx (PDict t) = Inr v \<Longrightarrow> \<exists>d. v = PDict d"
  by (auto simp: render_params_def split: sum.splits)

lemma shape_dict: "validate_entry_shape fr e = None \<Longrightarrow> \<exists>d. e_params e = PDict d"
  by (cases "e_params e") (auto simp: validate_entry_shape_def split: if_splits)

lemma resolve_rendered_ready:
  "r_params (resolve_rendered jinja a e) = Some p \<longleftrightarrow>
    (\<exists>d. render_params jinja (a_context a) (e_params e) = Inr (PDict d) \<and> p = finish_params a e d)"
  by (auto simp: resolve_rendered_def entry_builders split: sum.splits pval.splits)

lemma finish_params_get:
  assumes "bound_step e \<noteq> None \<Longrightarrow> runnable a e"
  shows "sget (finish_params a e d) k =
    (if k = ''_category'' then Some (PStr (e_category e))
     else if k = ''phase'' \<or> k = ''requires'' then None
     else if k = ''step'' \<and> bound_step e \<noteq> None then None
     else if k = ''step_output'' \<and> bound_step e \<noteq> None
       then dget (a_step_outputs a) (the (bound_step e))
     else sget d k)"
  using assms
  by (cases "bound_step e")
    (auto simp: finish_params_def runnable_def dgetd_def Let_def dget_None_iff split: option.splits)

section \<open>One outcome for every entry\<close>

text \<open>Ready with parameters, skipped with a reason, or an error with a reason.\<close>

definition sound_outcome :: "ResolvedEntry \<Rightarrow> bool" where
  "sound_outcome r \<longleftrightarrow> (case r_state r of
     None \<Rightarrow> is_ready r \<and> r_params r \<noteq> None \<and> format_resolution_message r = []
   | Some SKIPPED \<Rightarrow> r_skip r \<noteq> None \<and> r_error r = None \<and> r_params r = None
       \<and> format_resolution_message r \<noteq> []
   | Some ERROR \<Rightarrow> r_error r \<noteq> None \<and> r_skip r = None \<and> r_params r = None
       \<and> format_resolution_message r \<noteq> []
   | _ \<Rightarrow> False)"

lemma sound_builders:
  "sound_outcome (skip_entry e reason m)" "sound_outcome (error_entry e reason' m)"
  "sound_outcome (fresh_entry e (Some p))"
proof -
  have "skip_value reason \<noteq> []" "error_value reason' \<noteq> []" by (cases reason; simp) (cases reason'; simp)
  then show "sound_outcome (skip_entry e reason m)" "sound_outcome (error_entry e reason' m)"
    by (simp_all add: sound_outcome_def entry_builders format_resolution_message_def)
qed (simp add: sound_outcome_def entry_builders format_resolution_message_def)

lemma builders_entry [simp]:
  "r_entry (skip_entry e reason m) = e" "r_entry (error_entry e reason' m) = e"
  "r_entry (fresh_entry e p) = e"
  by (simp_all add: entry_builders)

lemma resolve_rendered_sound:
  "sound_outcome (resolve_rendered jinja a e) \<and> r_entry (resolve_rendered jinja a e) = e"
  by (auto simp: resolve_rendered_def sound_builders split: sum.splits pval.splits)

lemma resolve_entry_sound:
  "r_entry (resolve_entry fr jinja a e) = e \<and> sound_outcome (resolve_entry fr jinja a e)"
  by (cases rule: resolve_entry_cases [of fr e jinja a])
    (simp_all add: sound_builders resolve_rendered_sound)

text \<open>Resolution returns one outcome per entry, in input order, and every outcome is
  consistent: ready with rendered parameters and no message, skipped with a skip reason, or
  an error with an error reason, the last two with a message for the report.\<close>

theorem resolve_entries_sound:
  "map r_entry (resolve_entries fr jinja a es) = es
    \<and> list_all sound_outcome (resolve_entries fr jinja a es)"
  by (simp add: resolve_entries_def list_all_iff comp_def map_idI resolve_entry_sound)

section \<open>Which entries run, and with which parameters\<close>

definition demo_args :: resolve_args where
  "demo_args = \<lparr>a_step_outputs = [(''setup'', PDict [(KStr ''ok'', PBool True)])],
     a_step_phases = [(''setup'', ''setup'')], a_requested = [''setup'', ''test''],
     a_include = [''gpu''], a_exclude = [''slow''], a_exclude_tests = [''B''], a_context = [],
     a_capability = Some ''vm'', a_skipped = []\<rparr>"

definition demo_entry :: ValidationEntry where
  "demo_entry = \<lparr>e_name = ''A'', e_category = ''c'',
     e_params = PDict [(KStr ''step'', PStr ''setup''), (KStr ''x'', PInt 1)],
     e_step = Some ''setup'', e_phase = None, e_labels = [''gpu''], e_requires = []\<rparr>"

lemma demo_args_facts [simp]:
  "a_capability demo_args = Some ''vm''" "a_exclude_tests demo_args = [''B'']"
  by (simp_all add: demo_args_def)

lemmas demo_defs = demo_args_def demo_entry_def

text \<open>C12. An entry becomes ready exactly when its shape is valid, the invocation selects it,
  its step and phase are available and every template in its parameters renders. The check
  then gets each parameter rendered on its own, without \<open>step\<close> (of a bound entry), \<open>phase\<close> and
  \<open>requires\<close>, with the output of its step and with its category.\<close>

theorem ready_exactly_when:
  assumes "e_params e = PDict t"
  shows "(is_ready (resolve_entry fr jinja a e) \<longleftrightarrow>
      validate_entry_shape fr e = None \<and> selected a e \<and> runnable a e
        \<and> (\<exists>v. render_params jinja (a_context a) (PDict t) = Inr v))
    \<and> (\<forall>p. r_params (resolve_entry fr jinja a e) = Some p \<longrightarrow>
        sget p ''_category'' = Some (PStr (e_category e))
        \<and> sget p ''phase'' = None \<and> sget p ''requires'' = None
        \<and> (bound_step e \<noteq> None \<longrightarrow> sget p ''step'' = None
            \<and> sget p ''step_output'' = dget (a_step_outputs a) (the (bound_step e)))
        \<and> (\<forall>k. k \<notin> {''_category'', ''phase'', ''requires'', ''step'', ''step_output''} \<longrightarrow>
            rel_option (\<lambda>u v. render_value jinja (a_context a) u = Inr v) (sget t k) (sget p k)))"
proof (cases rule: resolve_entry_cases [of fr e jinja a])
  case 2
  have ready: "is_ready (resolve_rendered jinja a e) \<longleftrightarrow>
      (\<exists>v. render_params jinja (a_context a) (PDict t) = Inr v)"
    using assms render_params_dict [of jinja "a_context a" t]
    by (auto simp: resolve_rendered_def entry_builders split: sum.splits pval.splits)
  have get: "sget (finish_params a e d) k = (if k = ''_category'' then Some (PStr (e_category e))
     else if k = ''phase'' \<or> k = ''requires'' then None
     else if k = ''step'' \<and> bound_step e \<noteq> None then None
     else if k = ''step_output'' \<and> bound_step e \<noteq> None
       then dget (a_step_outputs a) (the (bound_step e))
     else sget d k)" for d k
    using 2 by (intro finish_params_get)
  have rel: "rel_option (\<lambda>u v. render_value jinja (a_context a) u = Inr v) (sget t k) (sget d k)"
    if "render_params jinja (a_context a) (PDict t) = Inr (PDict d)" for d k
    using render_dict_Inr [OF that] by (rule list_all2_dget)
  show ?thesis
    using 2 ready assms rel by (auto simp: resolve_rendered_ready get)
qed (auto simp: entry_builders)

theorem ready_exactly_when_witness:
  "is_ready (resolve_entry (\<lambda>_. []) (\<lambda>_ _. Inl []) demo_args demo_entry)"
proof -
  have p: "e_params demo_entry = PDict [(KStr ''step'', PStr ''setup''), (KStr ''x'', PInt 1)]"
    by (simp add: demo_entry_def)
  have "validate_entry_shape (\<lambda>_. []) demo_entry = None" by code_simp
  moreover have "selected demo_args demo_entry" "runnable demo_args demo_entry"
    by (simp_all add: selected_def runnable_def demo_defs bound_step_def get_entry_phase_def dgetd_def)
  moreover have "render_params (\<lambda>_ _. Inl []) (a_context demo_args)
      (PDict [(KStr ''step'', PStr ''setup''), (KStr ''x'', PInt 1)])
      = Inr (PDict [(KStr ''step'', PStr ''setup''), (KStr ''x'', PInt 1)])"
    by code_simp
  ultimately show ?thesis using ready_exactly_when [OF p] by blast
qed

section \<open>Narrowing a run\<close>

text \<open>The second invocation asks for at most what the first one asks for.\<close>

definition narrows :: "resolve_args \<Rightarrow> resolve_args \<Rightarrow> bool" where
  "narrows a b \<longleftrightarrow>
     a_step_outputs b = a_step_outputs a \<and> a_step_phases b = a_step_phases a
     \<and> a_context b = a_context a
     \<and> set (a_requested b) \<subseteq> set (a_requested a) \<and> set (a_include a) \<subseteq> set (a_include b)
     \<and> set (a_exclude a) \<subseteq> set (a_exclude b) \<and> set (a_exclude_tests a) \<subseteq> set (a_exclude_tests b)
     \<and> set (a_skipped a) \<subseteq> set (a_skipped b)
     \<and> (a_capability a = None \<or> a_capability a = a_capability b)"

lemma narrows_selected: "narrows a b \<Longrightarrow> selected b e \<Longrightarrow> selected a e"
  by (auto simp: narrows_def selected_def split: option.splits)

lemma narrows_runnable: "narrows a b \<Longrightarrow> runnable b e \<Longrightarrow> runnable a e"
  by (auto simp: narrows_def runnable_def split: option.splits)

lemma narrows_rendered: "narrows a b \<Longrightarrow> resolve_rendered jinja b e = resolve_rendered jinja a e"
proof -
  assume n: "narrows a b"
  then have "finish_params b e d = finish_params a e d" for d
    by (cases "bound_step e") (simp_all add: narrows_def finish_params_def)
  with n show ?thesis by (auto simp: narrows_def resolve_rendered_def split: sum.splits pval.splits)
qed

text \<open>C11. Narrowing an invocation (more labels required, more labels, tests or steps excluded,
  fewer phases, a capability declared) only skips. An entry of valid shape that the narrower
  invocation does not select, or whose step or phase is not available to it, is skipped; every
  other entry ends as it would have ended before, ready with the same parameters, skipped for the
  same reason or with the same error. So narrowing never starts a check that would not have run.\<close>

theorem narrowing_only_skips:
  assumes "narrows a b"
  shows "if validate_entry_shape fr e = None \<and> \<not> (selected b e \<and> runnable b e)
    then r_state (resolve_entry fr jinja b e) = Some SKIPPED
    else resolve_entry fr jinja b e = resolve_entry fr jinja a e"
proof (cases rule: resolve_entry_cases [of fr e jinja b])
  case 2
  with assms have "selected a e" "runnable a e" by (blast intro: narrows_selected narrows_runnable)+
  with 2 narrows_rendered [OF assms] show ?thesis
    by (cases rule: resolve_entry_cases [of fr e jinja a]) auto
next
  case (1 m)
  then show ?thesis by (cases rule: resolve_entry_cases [of fr e jinja a]) auto
qed (simp add: entry_builders)

theorem narrowing_only_skips_witness:
  "r_state (resolve_entry (\<lambda>_. []) (\<lambda>_ _. Inl []) (demo_args\<lparr>a_exclude := [''slow'', ''gpu'']\<rparr>) demo_entry)
    = Some SKIPPED"
proof -
  let ?b = "demo_args\<lparr>a_exclude := [''slow'', ''gpu'']\<rparr>"
  have "narrows demo_args ?b"
    by (auto simp: narrows_def demo_args_def)
  note narrowed = narrowing_only_skips [OF this, of "\<lambda>_. []" demo_entry "\<lambda>_ _. Inl []"]
  have "validate_entry_shape (\<lambda>_. []) demo_entry = None" by code_simp
  moreover have "\<not> selected ?b demo_entry" by (simp add: selected_def demo_defs)
  ultimately have "validate_entry_shape (\<lambda>_. []) demo_entry = None
    \<and> \<not> (selected ?b demo_entry \<and> runnable ?b demo_entry)" by blast
  from narrowed [unfolded if_P [OF this]] show ?thesis .
qed

section \<open>Malformed configuration\<close>

text \<open>A category that is not a string, a check list with an item that is not a mapping, or a
  category or its \<open>checks\<close> that are neither a mapping nor a list.\<close>

definition bad_list :: "pval list \<Rightarrow> bool" where
  "bad_list xs = list_ex (\<lambda>x. \<not> is_dict x) xs"

definition malformed_category :: "pkey \<Rightarrow> pval \<Rightarrow> bool" where
  "malformed_category category config = (case category of
     KStr c \<Rightarrow> c \<notin> set ADAPTER_HANDLED_CATEGORIES \<and> (case config of
       PDict d \<Rightarrow> (case sget d ''checks'' of
           None \<Rightarrow> False
         | Some (PDict _) \<Rightarrow> False
         | Some (PList xs) \<Rightarrow> bad_list xs
         | Some _ \<Rightarrow> True)
     | PList xs \<Rightarrow> bad_list xs
     | _ \<Rightarrow> True)
   | _ \<Rightarrow> True)"

lemma expand_bad_item:
  "bad_list xs \<Longrightarrow> (''<invalid>'', invalid_params m, PNone, PNone) \<in> set (expand_check_list xs s p m)"
  by (induction xs s p m rule: expand_check_list.induct) (auto simp: bad_list_def)

lemma invalid_entry_shape:
  assumes "m \<noteq> []" shows "validate_entry_shape fr (invalid_entry n c m) \<noteq> None"
  using assms by (simp add: validate_entry_shape_def invalid_entry_def get_or_none_def)

lemma parse_item_invalid:
  assumes "m \<noteq> []"
  shows "validate_entry_shape fr (parse_item co c (n, invalid_params m, s, p)) \<noteq> None"
proof (cases "compose_only_error co n (invalid_params m)")
  case (Some m')
  then have "m' \<noteq> []" by (auto simp: compose_only_error_def quoted_def split: if_splits)
  with Some show ?thesis by (simp add: parse_item_def invalid_entry_shape)
next
  case None
  with assms show ?thesis by (simp add: parse_item_def validate_entry_shape_def get_or_none_def)
qed

lemma malformed_item:
  assumes "malformed_category (KStr c) config"
  shows "\<exists>n m s p. m \<noteq> [] \<and> (n, invalid_params m, s, p) \<in> set (iter_validation_items c config)"
proof (cases config)
  case (PDict d)
  with assms obtain v where v: "sget d ''checks'' = Some v"
    by (auto simp: malformed_category_def split: option.splits)
  show ?thesis
  proof (cases v)
    case (PList xs)
    with assms PDict v have "bad_list xs" by (simp add: malformed_category_def)
    from expand_bad_item [OF this] PDict v PList show ?thesis
      by (fastforce simp: iter_validation_items_def)
  qed (use assms PDict v in \<open>auto simp: malformed_category_def iter_validation_items_def\<close>)
next
  case (PList xs)
  with assms have "bad_list xs" by (simp add: malformed_category_def)
  from expand_bad_item [OF this] PList show ?thesis by (fastforce simp: iter_validation_items_def)
qed (auto simp: iter_validation_items_def)

text \<open>Malformed YAML is never dropped: each malformed category of the configuration yields
  an entry, and whatever the invocation selects this entry resolves to the error
  \<open>invalid_config\<close>.\<close>

theorem malformed_config_reported:
  assumes "(category, config) \<in> set raw" "malformed_category category config"
  shows "\<exists>e \<in> set (parse_validations compose_only raw). \<forall>fr jinja a.
    r_state (resolve_entry fr jinja a e) = Some ERROR
    \<and> r_error (resolve_entry fr jinja a e) = Some INVALID_CONFIG"
proof -
  have "\<exists>e \<in> set (parse_category compose_only category config). \<forall>fr. validate_entry_shape fr e \<noteq> None"
  proof (cases category)
    case (KStr c)
    with assms malformed_item [of c config] obtain n m s p
      where "m \<noteq> []" "(n, invalid_params m, s, p) \<in> set (iter_validation_items c config)" by auto
    moreover from assms KStr have "c \<notin> set ADAPTER_HANDLED_CATEGORIES"
      by (simp add: malformed_category_def)
    ultimately have
      "parse_item compose_only c (n, invalid_params m, s, p) \<in> set (parse_category compose_only category config)"
      using KStr by (simp add: parse_category_def rev_image_eqI)
    with parse_item_invalid [OF \<open>m \<noteq> []\<close>] show ?thesis by blast
  qed (simp_all add: parse_category_def invalid_entry_shape)
  then obtain e where e: "e \<in> set (parse_category compose_only category config)"
    and bad: "\<And>fr. validate_entry_shape fr e \<noteq> None" by blast
  have "e \<in> set (parse_validations compose_only raw)"
    using assms(1) e by (force simp: parse_validations_def)
  moreover have "r_state (resolve_entry fr jinja a e) = Some ERROR
      \<and> r_error (resolve_entry fr jinja a e) = Some INVALID_CONFIG" for fr jinja a
    using bad [of fr] by (cases rule: resolve_entry_cases [of fr e jinja a]) (auto simp: entry_builders)
  ultimately show ?thesis by blast
qed

theorem malformed_config_reported_witness:
  "\<exists>e \<in> set (parse_validations [] [(KStr ''net'', PList [PStr ''not_a_mapping''])]).
    r_error (resolve_entry (\<lambda>_. []) (\<lambda>_ _. Inl []) demo_args e) = Some INVALID_CONFIG"
proof -
  have "malformed_category (KStr ''net'') (PList [PStr ''not_a_mapping''])" by code_simp
  with malformed_config_reported
      [of "KStr ''net''" "PList [PStr ''not_a_mapping'']" "[(KStr ''net'', PList [PStr ''not_a_mapping''])]" "[]"]
  show ?thesis by auto
qed

section \<open>Class names and capabilities\<close>

lemma longest_spec:
  "longest b xs \<in> insert b (set xs) \<and> (\<forall>x \<in> insert b (set xs). length x \<le> length (longest b xs))"
proof (induction b xs rule: longest.induct)
  case (2 b x xs)
  then show ?case by (cases "length b < length x") auto
qed simp

lemma prefixes_same_length: "prefix p s \<Longrightarrow> prefix q s \<Longrightarrow> length p = length q \<Longrightarrow> p = q"
  by (auto simp: prefix_def append_eq_append_conv)

lemma resolve_class_key_cases:
  "(resolve_class_key name keys = Some k \<longleftrightarrow>
      k \<in> set keys \<and> (k = name \<or> name \<notin> set keys \<and> prefix (k @ ''-'') name
        \<and> list_all (\<lambda>k'. \<not> prefix (k' @ ''-'') name \<or> length k' \<le> length k) keys))
    \<and> (resolve_class_key name keys = None \<longleftrightarrow>
      name \<notin> set keys \<and> list_all (\<lambda>k'. \<not> prefix (k' @ ''-'') name) keys)"
proof (cases "name \<in> set keys \<or> filter (\<lambda>c. prefix (c @ ''-'') name) keys = []")
  case True
  then show ?thesis
    by (auto simp: resolve_class_key_def filter_empty_conv list_all_iff)
next
  case False
  then obtain m ms where f: "filter (\<lambda>c. prefix (c @ ''-'') name) keys = m # ms"
    by (meson neq_Nil_conv)
  have "insert m (set ms) = set (filter (\<lambda>c. prefix (c @ ''-'') name) keys)" by (simp add: f)
  then have mem: "insert m (set ms) = {x \<in> set keys. prefix (x @ ''-'') name}" by simp
  have r: "resolve_class_key name keys = Some (longest m ms)"
    using False f by (simp add: resolve_class_key_def)
  have unique: "x = y" if "prefix (x @ ''-'') name" "prefix (y @ ''-'') name" "length x = length y" for x y
    using prefixes_same_length [OF that(1,2)] that(3) by simp
  from longest_spec [of m ms, unfolded mem]
  have l: "longest m ms \<in> set keys" "prefix (longest m ms @ ''-'') name"
    "\<And>x. x \<in> set keys \<Longrightarrow> prefix (x @ ''-'') name \<Longrightarrow> length x \<le> length (longest m ms)"
    by auto
  have in_keys: "name \<notin> set keys" using False by simp
  have "k = longest m ms \<longleftrightarrow> k \<in> set keys \<and> (k = name \<or> name \<notin> set keys \<and> prefix (k @ ''-'') name
      \<and> list_all (\<lambda>k'. \<not> prefix (k' @ ''-'') name \<or> length k' \<le> length k) keys)" (is "_ \<longleftrightarrow> ?R")
  proof
    assume k: "k = longest m ms"
    have "list_all (\<lambda>k'. \<not> prefix (k' @ ''-'') name \<or> length k' \<le> length (longest m ms)) keys"
      using l(3) unfolding list_all_iff by blast
    with k l(1,2) in_keys show ?R by simp
  next
    assume R: ?R
    with in_keys have k: "k \<in> set keys" "prefix (k @ ''-'') name" by blast+
    from R k(1) in_keys have "list_all (\<lambda>k'. \<not> prefix (k' @ ''-'') name \<or> length k' \<le> length k) keys"
      by blast
    with l(1,2) have "length (longest m ms) \<le> length k" unfolding list_all_iff by blast
    with l(3) [OF k] have "length k = length (longest m ms)" by simp
    then show "k = longest m ms" by (rule unique [OF k(2) l(2)])
  qed
  moreover have "\<not> list_all (\<lambda>k'. \<not> prefix (k' @ ''-'') name) keys"
    using l(1,2) by (auto simp: list_all_iff)
  ultimately show ?thesis using r by auto
qed

text \<open>The class of a configured name: the name itself when a class has it, otherwise the
  one class with the longest name that, followed by a dash, starts the configured name; no
  class exactly when there is neither. The order of the classes does not matter.\<close>

theorem resolve_class_key_longest:
  "(resolve_class_key name keys = Some k \<longleftrightarrow>
      k \<in> set keys \<and> (k = name \<or> name \<notin> set keys \<and> prefix (k @ ''-'') name
        \<and> list_all (\<lambda>k'. length k' \<le> length k) (filter (\<lambda>k'. prefix (k' @ ''-'') name) keys)))
    \<and> (resolve_class_key name keys = None \<longleftrightarrow>
      name \<notin> set keys \<and> list_all (\<lambda>k'. \<not> prefix (k' @ ''-'') name) keys)"
proof -
  have "list_all (\<lambda>k'. length k' \<le> length k) (filter (\<lambda>k'. prefix (k' @ ''-'') name) keys) \<longleftrightarrow>
      list_all (\<lambda>k'. \<not> prefix (k' @ ''-'') name \<or> length k' \<le> length k) keys"
    by (auto simp: list_all_iff)
  with resolve_class_key_cases [of name keys k] show ?thesis by simp
qed

text \<open>The declared capabilities of an entry that passes the shape check.\<close>

lemma strings_of_map: "strings_of (map PStr ss) = ss"
  by (induction ss) auto

lemma declarable_strings:
  "list_all declarable xs \<Longrightarrow> \<exists>ss. xs = map PStr ss \<and> set ss \<subseteq> set DECLARABLE_CAPABILITIES"
proof (induction xs)
  case (Cons x xs)
  then obtain ss where ss: "xs = map PStr ss" "set ss \<subseteq> set DECLARABLE_CAPABILITIES" by auto
  from Cons.prems obtain y where "x = PStr y" "y \<in> set DECLARABLE_CAPABILITIES" by (cases x) auto
  with ss show ?case by (intro exI [of _ "y # ss"]) simp
qed simp

lemma requires_error_None:
  "requires_error v = None \<longleftrightarrow>
    (\<exists>ss. v = PList (map PStr ss) \<and> distinct ss \<and> set ss \<subseteq> set DECLARABLE_CAPABILITIES)"
proof
  assume "requires_error v = None"
  then obtain xs where v: "v = PList xs" "list_all declarable xs" "distinct xs"
    by (auto simp: requires_error_def split: pval.splits if_splits)
  with declarable_strings [of xs] show "\<exists>ss. v = PList (map PStr ss) \<and> distinct ss
      \<and> set ss \<subseteq> set DECLARABLE_CAPABILITIES"
    by (auto simp: distinct_map)
next
  assume "\<exists>ss. v = PList (map PStr ss) \<and> distinct ss \<and> set ss \<subseteq> set DECLARABLE_CAPABILITIES"
  then show "requires_error v = None"
    by (auto simp: requires_error_def list_all_iff distinct_map inj_on_def)
qed

text \<open>The capability gate of a parsed check: when a capability is declared and the check
  is not excluded by name, the check is skipped for its requirements exactly when its
  \<open>requires\<close> list is not empty and does not name the capability. A \<open>requires\<close> value that is not
  a duplicate-free list of the four declarable capabilities is an error instead, never
  treated as no requirement.\<close>

theorem capability_gate:
  assumes "compose_only_error co name (PDict t) = None" "name \<noteq> []" "c \<noteq> []"
    and "sget t ''_invalid_config'' = None" "sget t ''requires'' = Some v" "v \<noteq> PNone"
    and "a_capability a = Some cap" "name \<notin> set (a_exclude_tests a)"
  shows "let r = resolve_entry fr jinja a (parse_item co c (name, PDict t, s, p)) in
    (r_skip r = Some CAPABILITY_REQUIREMENT \<longleftrightarrow>
      (\<exists>ss. v = PList (map PStr ss) \<and> ss \<noteq> [] \<and> distinct ss
        \<and> set ss \<subseteq> set DECLARABLE_CAPABILITIES \<and> cap \<notin> set ss))
    \<and> ((\<nexists>ss. v = PList (map PStr ss) \<and> distinct ss \<and> set ss \<subseteq> set DECLARABLE_CAPABILITIES)
      \<longrightarrow> r_error r = Some INVALID_CONFIG)"
proof -
  let ?e = "parse_item co c (name, PDict t, s, p)"
  have e: "e_name ?e = name" "e_category ?e = c" "e_params ?e = PDict t"
    "e_requires ?e = wiring_requires (PDict t)"
    using assms by (simp_all add: parse_item_def)
  have shape: "validate_entry_shape fr ?e =
      map_option (\<lambda>m. ''validation '' @ quoted name @ '' '' @ m) (requires_error v)"
    using assms(2-6) e by (cases v) (simp_all add: validate_entry_shape_def get_or_none_def)
  have no_other: "r_skip (resolve_labels jinja a ?e) \<noteq> Some CAPABILITY_REQUIREMENT"
  proof -
    have "r_skip (resolve_rendered jinja a ?e) \<noteq> Some CAPABILITY_REQUIREMENT"
      by (auto simp: resolve_rendered_def entry_builders split: sum.splits pval.splits)
    then show ?thesis
      by (cases "bound_step ?e")
        (simp_all add: resolve_labels_def resolve_step_def resolve_phase_def Let_def entry_builders)
  qed
  show ?thesis
  proof (cases "requires_error v")
    case None
    then obtain ss where ss: "v = PList (map PStr ss)" "distinct ss" "set ss \<subseteq> set DECLARABLE_CAPABILITIES"
      by (auto simp: requires_error_None)
    then have "e_requires ?e = ss"
      using assms(5) e by (simp add: wiring_requires_def strings_of_map)
    moreover have "map PStr ss = map PStr ss' \<longleftrightarrow> ss = ss'" for ss'
      by (simp add: inj_on_def inj_map_eq_map injI)
    ultimately show ?thesis
      using None ss shape no_other e(1) assms(7,8)
      by (auto simp: resolve_entry_def Let_def requirements_satisfied_def entry_builders)
  next
    case (Some m)
    then have "\<not> (\<exists>ss. v = PList (map PStr ss) \<and> distinct ss \<and> set ss \<subseteq> set DECLARABLE_CAPABILITIES)"
      using requires_error_None [of v] by simp
    with Some shape show ?thesis by (auto simp: resolve_entry_def Let_def entry_builders)
  qed
qed

theorem capability_gate_witness:
  "r_skip (resolve_entry (\<lambda>_. []) (\<lambda>_ _. Inl []) demo_args (parse_item [] ''net''
      (''Dpu'', PDict [(KStr ''requires'', PList (map PStr [''bare_metal'', ''slurm'']))], PNone, PNone)))
    = Some CAPABILITY_REQUIREMENT"
proof -
  let ?t = "[(KStr ''requires'', PList (map PStr [''bare_metal'', ''slurm'']))]"
  have "compose_only_error [] ''Dpu'' (PDict ?t) = None" by code_simp
  note gate = conjunct1 [OF capability_gate [OF this, of "''net''" "PList (map PStr [''bare_metal'', ''slurm''])"
      demo_args "''vm''" "\<lambda>_. []" "\<lambda>_ _. Inl []" PNone PNone, unfolded Let_def]]
  have "\<exists>ss. PList (map PStr [''bare_metal'', ''slurm'']) = PList (map PStr ss) \<and> ss \<noteq> [] \<and> distinct ss
      \<and> set ss \<subseteq> set DECLARABLE_CAPABILITIES \<and> ''vm'' \<notin> set ss"
    by (rule exI [of _ "[''bare_metal'', ''slurm'']"]) (simp add: DECLARABLE_CAPABILITIES_def)
  then show ?thesis by (rule iffD2 [OF gate, rotated -1]) simp_all
qed

end
