(* ===== verification/Redaction.thy ===== *)
theory Redaction
  imports Py_Text
begin

text \<open>
  \<open>isvctl/redaction.py\<close>: masking of command-line arguments, redaction of dictionary values by
  key, filtering of environment variables and redaction of free text.

  The key and flag patterns are words joined by an optional \<open>-\<close> or \<open>_\<close>; they are matched
  without regard to case anywhere in the text, as \<open>re.search\<close> with \<open>IGNORECASE\<close> does. The
  three substitutions of \<open>redact_text\<close> are written as scanners that find the leftmost match:
  in each of those expressions the group \<open>[\w-]*KEY[\w-]*\<close> is followed by a character outside
  \<open>[\w-]\<close>, so a match takes the whole run of such characters.
\<close>

section \<open>Patterns\<close>

definition REDACTED :: string where
  "REDACTED = ''***''"

text \<open>The words in order at the start of the text, \<open>[-_]?\<close> between them.\<close>

fun match_words :: "string list \<Rightarrow> string \<Rightarrow> bool" where
  "match_words [] s = True"
| "match_words [w] s = prefix w s"
| "match_words (w # v # ws) s =
     (prefix w s \<and>
       (match_words (v # ws) (drop (length w) s) \<or>
        (case drop (length w) s of
           [] \<Rightarrow> False
         | c # cs \<Rightarrow> (c = CHR ''-'' \<or> c = CHR ''_'') \<and> match_words (v # ws) cs)))"

definition search :: "string list list \<Rightarrow> string \<Rightarrow> bool" where
  "search patterns s =
     list_ex (\<lambda>t. list_ex (\<lambda>ws. match_words ws t) patterns) (suffixes (lower s))"

definition SENSITIVE_ARG_PATTERNS :: "string list list" where
  "SENSITIVE_ARG_PATTERNS =
    [[''--secret'', ''access'', ''key''], [''--access'', ''key'', ''id''], [''--password''],
     [''--token''], [''--api'', ''key''], [''--private'', ''key''], [''--secret''],
     [''--credential''], [''--auth''], [''--connection'', ''string''], [''--account'', ''key''],
     [''--subscription'', ''key'']]"

definition SENSITIVE_KEY_PATTERNS :: "string list list" where
  "SENSITIVE_KEY_PATTERNS =
    [[''secret'', ''access'', ''key''], [''access'', ''key'', ''id''], [''secret'', ''key''],
     [''account'', ''key''], [''subscription'', ''key''], [''connection'', ''string''],
     [''sas'', ''token''], [''signing'', ''key''],
     [''password''], [''api'', ''key''], [''private'', ''key''], [''auth'', ''token''],
     [''session'', ''token''], [''client'', ''secret''], [''credential'', ''secret''],
     [''access'', ''token''], [''refresh'', ''token''], [''bearer'', ''token'']]"

text \<open>Extra patterns of a step (\<open>sensitive_args\<close>) are escaped, so they match literally.\<close>

definition arg_patterns :: "string list \<Rightarrow> string list list" where
  "arg_patterns extra = SENSITIVE_ARG_PATTERNS @ map (\<lambda>p. [lower p]) extra"

definition is_sensitive_arg :: "string list \<Rightarrow> string \<Rightarrow> bool" where
  "is_sensitive_arg extra s = search (arg_patterns extra) s"

definition is_sensitive_key :: "string \<Rightarrow> bool" where
  "is_sensitive_key key = search SENSITIVE_KEY_PATTERNS key"

section \<open>Command-line arguments\<close>

text \<open>The loop of \<open>mask_sensitive_args\<close>; the flag is \<open>skip_next\<close>.\<close>

fun mask_parts :: "(string \<Rightarrow> bool) \<Rightarrow> bool \<Rightarrow> string list \<Rightarrow> string list" where
  "mask_parts sens skip [] = []"
| "mask_parts sens True (part # parts) = REDACTED # mask_parts sens False parts"
| "mask_parts sens False (part # parts) =
     (case cut_at CHR ''='' part of
        Some (key, value) \<Rightarrow>
          (if sens key then key @ ''='' @ REDACTED else part) # mask_parts sens False parts
      | None \<Rightarrow>
          if sens part
          then part # mask_parts sens (parts \<noteq> [] \<and> \<not> prefix ''-'' (hd parts)) parts
          else part # mask_parts sens False parts)"

text \<open>\<open>shlex.quote\<close>: quoted unless every character is in its safe set.\<close>

definition shell_safe :: "char \<Rightarrow> bool" where
  "shell_safe c \<longleftrightarrow> is_digit c \<or> 65 \<le> code c \<and> code c \<le> 90 \<or> 97 \<le> code c \<and> code c \<le> 122
     \<or> c \<in> set ''@%+=:,./-_''"

definition shlex_quote :: "string \<Rightarrow> string" where
  "shlex_quote s =
     (let q = char_of (39::nat) in
      if s = [] then [q, q]
      else if list_all shell_safe s then s
      else q # concat (map (\<lambda>c. if c = q then [q, CHR 0x22, q, CHR 0x22, q] else [c]) s) @ [q])"

definition mask_sensitive_args :: "string list \<Rightarrow> string list \<Rightarrow> string" where
  "mask_sensitive_args cmd_parts extra =
     join '' '' (map shlex_quote (mask_parts (is_sensitive_arg extra) False cmd_parts))"

text \<open>
  Two command lines that differ only where a secret stands: in the value after a sensitive
  \<open>--flag=\<close>, and in the argument after a sensitive flag.
\<close>

fun same_public :: "(string \<Rightarrow> bool) \<Rightarrow> bool \<Rightarrow> string list \<Rightarrow> string list \<Rightarrow> bool" where
  "same_public sens skip [] [] = True"
| "same_public sens True (p # ps) (q # qs) = same_public sens False ps qs"
| "same_public sens False (p # ps) (q # qs) =
     (case (cut_at CHR ''='' p, cut_at CHR ''='' q) of
        (Some (k, v), Some (k', v')) \<Rightarrow>
          k = k' \<and> (sens k \<or> v = v') \<and> same_public sens False ps qs
      | (None, None) \<Rightarrow>
          p = q \<and> (if sens p
            then (ps \<noteq> [] \<and> \<not> prefix ''-'' (hd ps)) = (qs \<noteq> [] \<and> \<not> prefix ''-'' (hd qs))
              \<and> same_public sens (ps \<noteq> [] \<and> \<not> prefix ''-'' (hd ps)) ps qs
            else same_public sens False ps qs)
      | _ \<Rightarrow> False)"
| "same_public sens skip _ _ = False"

lemma mask_parts_same_public:
  "same_public sens skip ps qs \<Longrightarrow> mask_parts sens skip ps = mask_parts sens skip qs"
proof (induction sens skip ps qs rule: same_public.induct)
  case (3 sens p ps q qs)
  show ?case
  proof (cases "cut_at CHR ''='' p")
    case None
    with 3 show ?thesis by (auto split: option.splits if_splits)
  next
    case (Some kv)
    with "3.prems" obtain k v v' where c: "cut_at CHR ''='' p = Some (k, v)"
      "cut_at CHR ''='' q = Some (k, v')" "sens k \<or> v = v'" "same_public sens False ps qs"
      by (auto split: option.splits)
    then have "p = k @ CHR ''='' # v" "q = k @ CHR ''='' # v'" by (auto dest: cut_at_SomeD)
    with c 3 show ?thesis by auto
  qed
qed auto

lemma length_mask_parts [simp]: "length (mask_parts sens skip ps) = length ps"
  by (induction sens skip ps rule: mask_parts.induct) (auto split: option.splits)

lemma mask_parts_public:
  "\<forall>p \<in> set ps. \<not> sens p \<and> \<not> sens (takeWhile (\<lambda>c. c \<noteq> CHR ''='') p) \<Longrightarrow>
    mask_parts sens False ps = ps"
  by (induction ps) (auto simp: cut_at_def split: option.splits)

section \<open>Dictionary values\<close>

text \<open>
  \<open>redact_dict\<close>; \<open>None\<close> is the \<open>TypeError\<close> that \<open>re\<close> raises on a key that is not a string.
\<close>

fun redact_dict :: "pval \<Rightarrow> pval option" where
  "redact_dict (PDict d) =
     map_option PDict (those (map (\<lambda>kv. case fst kv of
         KStr s \<Rightarrow> if is_sensitive_key s then Some (fst kv, PStr REDACTED)
                  else map_option (Pair (fst kv)) (redact_dict (snd kv))
       | _ \<Rightarrow> None) d))"
| "redact_dict (PList xs) = map_option PList (those (map redact_dict xs))"
| "redact_dict v = Some v"

fun str_keyed :: "pval \<Rightarrow> bool" where
  "str_keyed (PDict d) = (\<forall>kv \<in> set d. (\<exists>s. fst kv = KStr s) \<and> str_keyed (snd kv))"
| "str_keyed (PList xs) = (\<forall>x \<in> set xs. str_keyed x)"
| "str_keyed v = True"

text \<open>Every value under a sensitive key, at any depth, is the placeholder.\<close>

fun leak_free :: "pval \<Rightarrow> bool" where
  "leak_free (PDict d) = (\<forall>kv \<in> set d. case fst kv of
      KStr s \<Rightarrow> if is_sensitive_key s then snd kv = PStr REDACTED else leak_free (snd kv)
    | _ \<Rightarrow> False)"
| "leak_free (PList xs) = (\<forall>x \<in> set xs. leak_free x)"
| "leak_free v = True"

text \<open>Two values that agree except under sensitive keys.\<close>

fun agree_public :: "pval \<Rightarrow> pval \<Rightarrow> bool" where
  "agree_public (PDict d) w = (case w of
     PDict e \<Rightarrow> list_all2 (\<lambda>kv kw. fst kv = fst kw \<and>
         ((\<exists>s. fst kv = KStr s \<and> is_sensitive_key s) \<or> agree_public (snd kv) (snd kw))) d e
   | _ \<Rightarrow> False)"
| "agree_public (PList xs) w = (case w of PList ys \<Rightarrow> list_all2 agree_public xs ys | _ \<Rightarrow> False)"
| "agree_public v w = (v = w)"

text \<open>One entry of a redacted dictionary.\<close>

abbreviation redact_item :: "pkey \<times> pval \<Rightarrow> (pkey \<times> pval) option" where
  "redact_item kv \<equiv> (case fst kv of
      KStr s \<Rightarrow> if is_sensitive_key s then Some (fst kv, PStr REDACTED)
               else map_option (Pair (fst kv)) (redact_dict (snd kv))
    | _ \<Rightarrow> None)"

lemma redact_item_Some:
  "redact_item kv = Some kw \<longleftrightarrow> (\<exists>s. fst kv = KStr s \<and> fst kw = KStr s \<and>
     (if is_sensitive_key s then snd kw = PStr REDACTED else redact_dict (snd kv) = Some (snd kw)))"
  by (cases kv; cases kw) (auto split: pkey.splits)

lemma redact_dict_Some:
  "redact_dict (PDict d) = Some r \<longleftrightarrow>
    (\<exists>e. r = PDict e \<and> list_all2 (\<lambda>kv kw. redact_item kv = Some kw) d e)"
  "redact_dict (PList xs) = Some r \<longleftrightarrow>
    (\<exists>ys. r = PList ys \<and> list_all2 (\<lambda>x y. redact_dict x = Some y) xs ys)"
  by (auto simp: those_map_eq_Some)

declare redact_dict.simps(1,2) [simp del]

lemma redact_dict_total: "str_keyed v \<Longrightarrow> \<exists>r. redact_dict v = Some r"
proof (induction v rule: redact_dict.induct)
  case (1 d)
  have "\<exists>kw. redact_item kv = Some kw" if kv: "kv \<in> set d" for kv
  proof -
    from "1.prems" kv obtain s where s: "fst kv = KStr s" "str_keyed (snd kv)" by auto
    with "1.IH" [OF kv] show ?thesis by (cases "is_sensitive_key s") auto
  qed
  then obtain e where "those (map redact_item d) = Some e"
    using those_map_total [of d redact_item] by blast
  then show ?case by (simp add: redact_dict.simps)
next
  case (2 xs)
  then have "\<And>x. x \<in> set xs \<Longrightarrow> \<exists>y. redact_dict x = Some y" by simp
  from those_map_total [OF this] show ?case by (auto simp: redact_dict.simps)
qed simp_all

lemma redact_dict_leak_free: "redact_dict v = Some r \<Longrightarrow> leak_free r"
proof (induction v arbitrary: r rule: redact_dict.induct)
  case (1 d)
  then obtain e where r: "r = PDict e" "list_all2 (\<lambda>kv kw. redact_item kv = Some kw) d e"
    by (auto simp: redact_dict_Some)
  have "case fst kw of KStr s \<Rightarrow> if is_sensitive_key s then snd kw = PStr REDACTED
      else leak_free (snd kw) | _ \<Rightarrow> False" if "kw \<in> set e" for kw
  proof -
    from r(2) that obtain kv where kv: "kv \<in> set d" "redact_item kv = Some kw"
      by (rule list_all2_left)
    from kv(2) obtain s where s: "fst kv = KStr s" "fst kw = KStr s"
      "if is_sensitive_key s then snd kw = PStr REDACTED else redact_dict (snd kv) = Some (snd kw)"
      unfolding redact_item_Some by blast
    with "1.IH" [OF kv(1) s(1)] show ?thesis by (simp split: if_splits)
  qed
  with r show ?case by simp
next
  case (2 xs)
  then obtain ys where r: "r = PList ys" "list_all2 (\<lambda>x y. redact_dict x = Some y) xs ys"
    by (auto simp: redact_dict_Some)
  have "leak_free y" if "y \<in> set ys" for y
  proof -
    from r(2) that obtain x where "x \<in> set xs" "redact_dict x = Some y"
      by (rule list_all2_left)
    then show ?thesis by (rule 2(1))
  qed
  with r show ?case by simp
qed auto

lemma redact_dict_agree: "agree_public v w \<Longrightarrow> redact_dict v = redact_dict w"
proof (induction v arbitrary: w rule: redact_dict.induct)
  case (1 d)
  then obtain e where w: "w = PDict e" and all: "list_all2 (\<lambda>kv kw. fst kv = fst kw \<and>
      ((\<exists>s. fst kv = KStr s \<and> is_sensitive_key s) \<or> agree_public (snd kv) (snd kw))) d e"
    by (auto split: pval.splits)
  have "redact_item (d ! i) = redact_item (e ! i)" if i: "i < length d" for i
  proof -
    have m: "d ! i \<in> set d" using i by simp
    note all_i = list_all2_nthD [OF all i]
    from all_i have f: "fst (d ! i) = fst (e ! i)" ..
    from all_i have a: "(\<exists>s. fst (d ! i) = KStr s \<and> is_sensitive_key s)
        \<or> agree_public (snd (d ! i)) (snd (e ! i))" ..
    show ?thesis
    proof (cases "fst (d ! i)")
      case (KStr s)
      with f have s: "fst (e ! i) = KStr s" by simp
      show ?thesis
      proof (cases "is_sensitive_key s")
        case False
        with a KStr have "agree_public (snd (d ! i)) (snd (e ! i))" by simp
        from "1.IH" [OF m KStr False this] show ?thesis by (simp add: KStr s)
      qed (simp add: KStr s)
    qed (simp_all flip: f)
  qed
  then have "map redact_item d = map redact_item e"
    using all by (auto simp: list_all2_lengthD intro!: nth_equalityI)
  then show ?case by (simp add: w redact_dict.simps)
next
  case (2 xs)
  then obtain ys where w: "w = PList ys" and all: "list_all2 agree_public xs ys"
    by (auto split: pval.splits)
  have "map redact_dict xs = map redact_dict ys"
    using all 2(1) by (auto simp: list_all2_conv_all_nth intro!: nth_equalityI)
  then show ?case by (simp add: w redact_dict.simps)
qed auto

lemma redact_dict_idem: "leak_free r \<Longrightarrow> redact_dict r = Some r"
proof (induction r rule: redact_dict.induct)
  case (1 d)
  have "redact_item kv = Some kv" if kv: "kv \<in> set d" for kv
  proof (cases "fst kv")
    case (KStr s)
    with "1.prems" kv "1.IH" [OF kv KStr] show ?thesis
      unfolding redact_item_Some by (cases "is_sensitive_key s") force+
  qed (use "1.prems" kv in force)+
  then have "list_all2 (\<lambda>kv kw. redact_item kv = Some kw) d d" by (intro list.rel_refl_strong)
  then show ?case by (auto simp: redact_dict_Some)
next
  case (2 xs)
  then show ?case by (auto simp: redact_dict_Some intro!: list.rel_refl_strong)
qed auto

lemma redact_dict_keys: "redact_dict (PDict d) = Some (PDict e) \<Longrightarrow> dkeys e = dkeys d"
proof -
  assume "redact_dict (PDict d) = Some (PDict e)"
  then have "list_all2 (\<lambda>kv kw. fst kv = fst kw) d e"
    unfolding redact_dict_Some redact_item_Some by (auto elim: list_all2_mono)
  then show ?thesis by (induction rule: list_all2_induct) auto
qed

section \<open>Environment variables\<close>

definition SENSITIVE_ENV_VARS :: "string list" where
  "SENSITIVE_ENV_VARS =
    [''AWS_ACCESS_KEY_ID'', ''AWS_SECRET_ACCESS_KEY'', ''AWS_SESSION_TOKEN'',
     ''AZURE_CLIENT_SECRET'', ''AZURE_STORAGE_KEY'', ''AZURE_SUBSCRIPTION_KEY'',
     ''GOOGLE_API_KEY'', ''GOOGLE_APPLICATION_CREDENTIALS'',
     ''NGC_API_KEY'', ''NGC_NIM_API_KEY'', ''NICO_BEARER_TOKEN'', ''NICO_CLIENT_SECRET'',
     ''UFM_TOKEN'', ''ISV_CLIENT_SECRET'']"

definition SENSITIVE_ENV_SUFFIXES :: "string list" where
  "SENSITIVE_ENV_SUFFIXES =
    [''_SECRET'', ''_PASSWORD'', ''_API_KEY'', ''_SECRET_KEY'', ''_SECRET_ACCESS_KEY'',
     ''_PRIVATE_KEY'', ''_ACCOUNT_KEY'', ''_CONNECTION_STRING'']"

definition is_secret_env_var :: "string \<Rightarrow> bool" where
  "is_secret_env_var name \<longleftrightarrow>
     name \<in> set SENSITIVE_ENV_VARS \<or> list_ex (\<lambda>s. suffix s (upper name)) SENSITIVE_ENV_SUFFIXES"

definition filter_env :: "(string \<times> string) list \<Rightarrow> (string \<times> string) list" where
  "filter_env env = filter (\<lambda>kv. \<not> is_secret_env_var (fst kv)) env"

lemma dget_filter_env:
  "dget (filter_env env) k = (if is_secret_env_var k then None else dget env k)"
  by (induction env) (auto simp: filter_env_def)

section \<open>Free text\<close>

definition key_char :: "char \<Rightarrow> bool" where
  "key_char c \<longleftrightarrow> is_word c \<or> c = CHR ''-''"

text \<open>
  A match of \<open>"([\w-]*KEY[\w-]*)"\s*:\s*"[^"]*"\<close> at the start of the text, for the quote
  character \<open>q\<close>: the group and the text after the match.
\<close>

definition match_json :: "char \<Rightarrow> string \<Rightarrow> (string \<times> string) option" where
  "match_json q s = (case s of
     [] \<Rightarrow> None
   | c # t \<Rightarrow>
       if c \<noteq> q \<or> \<not> is_sensitive_key (takeWhile key_char t) then None
       else (case dropWhile key_char t of
         [] \<Rightarrow> None
       | c1 # t1 \<Rightarrow>
           if c1 \<noteq> q then None
           else (case dropWhile is_space t1 of
             [] \<Rightarrow> None
           | c2 # t2 \<Rightarrow>
               if c2 \<noteq> CHR '':'' then None
               else (case dropWhile is_space t2 of
                 [] \<Rightarrow> None
               | c3 # t3 \<Rightarrow>
                   if c3 \<noteq> q then None
                   else (case dropWhile (\<lambda>c. c \<noteq> q) t3 of
                     [] \<Rightarrow> None
                   | _ # t4 \<Rightarrow> Some (takeWhile key_char t, t4))))))"

lemma dropWhile_Cons_length: "dropWhile P s = c # t \<Longrightarrow> length t < length s"
  using length_dropWhile_le [of P s] by simp

lemma match_json_shorter:
  assumes "match_json q s = Some (k, t)"
  shows "length t < length s"
proof -
  from assms obtain c0 t0 c1 t1 c2 t2 c3 t3 c4 where "s = c0 # t0"
    and d: "dropWhile key_char t0 = c1 # t1" "dropWhile is_space t1 = c2 # t2"
      "dropWhile is_space t2 = c3 # t3" "dropWhile (\<lambda>c. c \<noteq> q) t3 = c4 # t"
    by (auto simp: match_json_def split: list.splits if_splits)
  with d [THEN dropWhile_Cons_length] show ?thesis by simp
qed

function json_sub :: "char \<Rightarrow> string \<Rightarrow> string" where
  "json_sub q s = (case match_json q s of
     Some (k, rest) \<Rightarrow> q # k @ [q] @ '': '' @ [q] @ REDACTED @ [q] @ json_sub q rest
   | None \<Rightarrow> (case s of [] \<Rightarrow> [] | c # t \<Rightarrow> c # json_sub q t))"
  by pat_completeness auto
termination
  by (relation "measure (\<lambda>(q, s). length s)") (auto dest: match_json_shorter)

declare json_sub.simps [simp del]

text \<open>
  A match of \<open>\b([\w-]*KEY[\w-]*)\s*=\s*\S+\<close> after the character \<open>prev\<close>: the group, the
  last character of the match and the text after it.
\<close>

definition match_kv :: "char option \<Rightarrow> string \<Rightarrow> (string \<times> char \<times> string) option" where
  "match_kv prev s =
     (let before = (case prev of None \<Rightarrow> False | Some c \<Rightarrow> is_word c);
          here = (case s of [] \<Rightarrow> False | c # _ \<Rightarrow> is_word c);
          run = takeWhile key_char s
      in if before = here \<or> \<not> is_sensitive_key run then None
         else (case dropWhile is_space (dropWhile key_char s) of
           [] \<Rightarrow> None
         | c # t \<Rightarrow>
             if c \<noteq> CHR ''='' then None
             else
               let v = takeWhile (\<lambda>c. \<not> is_space c) (dropWhile is_space t)
               in if v = [] then None
                  else Some (run, last v, dropWhile (\<lambda>c. \<not> is_space c) (dropWhile is_space t))))"

lemma match_kv_shorter: "match_kv prev s = Some (k, l, t) \<Longrightarrow> length t < length s"
proof -
  assume "match_kv prev s = Some (k, l, t)"
  then obtain c u where u: "dropWhile is_space (dropWhile key_char s) = c # u"
    and t: "t = dropWhile (\<lambda>c. \<not> is_space c) (dropWhile is_space u)"
    by (auto simp: match_kv_def Let_def split: if_splits list.splits)
  have "length t \<le> length u"
    unfolding t by (meson length_dropWhile_le order_trans)
  moreover have "length u < length s"
    using dropWhile_Cons_length [OF u] length_dropWhile_le [of key_char s] by linarith
  ultimately show ?thesis by simp
qed

function kv_sub :: "char option \<Rightarrow> string \<Rightarrow> string" where
  "kv_sub prev s = (case match_kv prev s of
     Some (k, l, rest) \<Rightarrow> k @ ''='' @ REDACTED @ kv_sub (Some l) rest
   | None \<Rightarrow> (case s of [] \<Rightarrow> [] | c # t \<Rightarrow> c # kv_sub (Some c) t))"
  by pat_completeness auto
termination
  by (relation "measure (\<lambda>(p, s). length s)") (auto dest: match_kv_shorter)

declare kv_sub.simps [simp del]

definition redact_text :: "string \<Rightarrow> string" where
  "redact_text text = kv_sub None (json_sub (char_of (39::nat)) (json_sub CHR 0x22 text))"

text \<open>A quoted key with its quoted value is replaced whatever the value is.\<close>

lemma takeWhile_prefix:
  "(\<And>c. c \<in> set k \<Longrightarrow> P c) \<Longrightarrow> \<not> P d \<Longrightarrow> takeWhile P (k @ d # t) = k"
  "(\<And>c. c \<in> set k \<Longrightarrow> P c) \<Longrightarrow> \<not> P d \<Longrightarrow> dropWhile P (k @ d # t) = d # t"
  by (induction k) auto

lemma match_json_pair:
  assumes "\<not> key_char q" "\<not> is_space q" "\<And>c. c \<in> set k \<Longrightarrow> key_char c" "is_sensitive_key k"
    and "\<And>c. c \<in> set ws \<Longrightarrow> is_space c" "\<And>c. c \<in> set ws' \<Longrightarrow> is_space c" "q \<notin> set secret"
  shows "match_json q (q # k @ q # ws @ CHR '':'' # ws' @ q # secret @ q # rest) = Some (k, rest)"
proof -
  have colon: "\<not> is_space CHR '':''" by (simp add: is_space_def code_def)
  have "\<And>c. c \<in> set secret \<Longrightarrow> c \<noteq> q" using assms(7) by auto
  note takes = takeWhile_prefix [of k key_char q] takeWhile_prefix [of ws is_space "CHR '':''"]
    takeWhile_prefix [of ws' is_space q] takeWhile_prefix [of secret "\<lambda>c. c \<noteq> q" q]
  show ?thesis
    using assms takes colon \<open>\<And>c. c \<in> set secret \<Longrightarrow> c \<noteq> q\<close> by (simp add: match_json_def)
qed

lemma json_sub_skip: "q \<notin> set pre \<Longrightarrow> json_sub q (pre @ s) = pre @ json_sub q s"
proof (induction pre)
  case (Cons c pre)
  then have "match_json q (c # pre @ s) = None" by (auto simp: match_json_def)
  with Cons show ?case by (simp add: json_sub.simps [of q "c # pre @ s"])
qed simp

lemma json_sub_pair:
  assumes "\<not> key_char q" "\<not> is_space q" "\<And>c. c \<in> set k \<Longrightarrow> key_char c" "is_sensitive_key k"
    and "\<And>c. c \<in> set ws \<Longrightarrow> is_space c" "\<And>c. c \<in> set ws' \<Longrightarrow> is_space c" "q \<notin> set secret"
    and "q \<notin> set pre"
  shows "json_sub q (pre @ q # k @ q # ws @ CHR '':'' # ws' @ q # secret @ q # rest) =
    pre @ q # k @ [q] @ '': '' @ [q] @ REDACTED @ [q] @ json_sub q rest"
  using match_json_pair [OF assms(1-7)] json_sub_skip [OF assms(8)]
  by (simp add: json_sub.simps [of q "q # k @ q # ws @ CHR '':'' # ws' @ q # secret @ q # rest"])

section \<open>Properties\<close>

text \<open>An argument that starts with a dash is never taken for the value of the flag before it.\<close>

lemma dashed_part_kept:
  "i < length ps \<Longrightarrow> prefix ''-'' (ps ! i) \<Longrightarrow> CHR ''='' \<notin> set (ps ! i) \<Longrightarrow> skip \<longrightarrow> i \<noteq> 0 \<Longrightarrow>
    mask_parts sens skip ps ! i = ps ! i"
proof (induction sens skip ps arbitrary: i rule: mask_parts.induct)
  case (2 sens part parts)
  then show ?case by (cases i) auto
next
  case (3 sens part parts)
  show ?case
  proof (cases i)
    case 0
    then show ?thesis using "3.prems" by (simp add: cut_at_def)
  next
    case (Suc k)
    have "parts \<noteq> [] \<and> \<not> prefix ''-'' (hd parts) \<longrightarrow> k \<noteq> 0"
      using "3.prems" Suc by (cases parts; cases k) auto
    then show ?thesis using "3.IH" "3.prems" Suc by (auto split: option.splits)
  qed
qed simp

text \<open>C20. Masked command lines do not depend on the secrets the masking recognises: two command lines
  that differ only in the values of sensitive options, given as \<open>--flag=value\<close> or as the
  argument after the flag, are logged as the same text, provided the argument after the flag does
  not start with a dash. An argument that does start with a dash (and has no equals sign) is
  logged as it is, also after a sensitive flag, so a secret that begins with a dash is not hidden.
  A command line without sensitive options is logged unmasked.\<close>

theorem mask_hides_secrets:
  "(same_public (is_sensitive_arg extra) False cmd cmd' \<longrightarrow>
      mask_sensitive_args cmd extra = mask_sensitive_args cmd' extra)
    \<and> ((\<forall>p \<in> set cmd. \<not> is_sensitive_arg extra p \<and>
          \<not> is_sensitive_arg extra (takeWhile (\<lambda>c. c \<noteq> CHR ''='') p)) \<longrightarrow>
      mask_sensitive_args cmd extra = join '' '' (map shlex_quote cmd))
    \<and> (\<exists>logged. mask_sensitive_args cmd extra = join '' '' (map shlex_quote logged)
        \<and> length logged = length cmd
        \<and> (\<forall>i < length cmd. prefix ''-'' (cmd ! i) \<and> CHR ''='' \<notin> set (cmd ! i) \<longrightarrow> logged ! i = cmd ! i))"
proof (intro conjI exI)
  show "mask_sensitive_args cmd extra
      = join '' '' (map shlex_quote (mask_parts (is_sensitive_arg extra) False cmd))"
    by (simp add: mask_sensitive_args_def)
qed (auto simp: mask_sensitive_args_def mask_parts_public dashed_part_kept dest: mask_parts_same_public)

theorem mask_hides_secrets_witness:
  "mask_sensitive_args [''run'', ''--token'', ''s3cret'', ''--api-key=abc''] [] =
   mask_sensitive_args [''run'', ''--token'', ''other'', ''--api-key=xyz''] []"
proof -
  have "same_public (is_sensitive_arg []) False [''run'', ''--token'', ''s3cret'', ''--api-key=abc'']
      [''run'', ''--token'', ''other'', ''--api-key=xyz'']"
    by code_simp
  with mask_hides_secrets show ?thesis by blast
qed

text \<open>C21. Redaction of a value with string keys always returns; the result has the
  placeholder under every sensitive key at every depth, does not depend on what stood there,
  and redacting again changes nothing.\<close>

theorem redact_dict_no_leak:
  assumes "str_keyed v"
  shows "\<exists>r. redact_dict v = Some r \<and> leak_free r \<and> redact_dict r = Some r
    \<and> (\<forall>w. agree_public v w \<longrightarrow> redact_dict w = Some r)"
  using redact_dict_total [OF assms] redact_dict_leak_free redact_dict_idem redact_dict_agree
  by metis

theorem redact_dict_no_leak_witness:
  "redact_dict (PDict [(KStr ''NGC_API_KEY'', PStr ''b''), (KStr ''n'', PInt 1)]) =
   redact_dict (PDict [(KStr ''NGC_API_KEY'', PStr ''a''), (KStr ''n'', PInt 1)])"
proof -
  have v: "str_keyed (PDict [(KStr ''NGC_API_KEY'', PStr ''a''), (KStr ''n'', PInt 1)])" by simp
  have "is_sensitive_key ''NGC_API_KEY''" by code_simp
  then have "agree_public (PDict [(KStr ''NGC_API_KEY'', PStr ''a''), (KStr ''n'', PInt 1)])
      (PDict [(KStr ''NGC_API_KEY'', PStr ''b''), (KStr ''n'', PInt 1)])" by simp
  with redact_dict_no_leak [OF v] show ?thesis by auto
qed

text \<open>In free text a quoted sensitive key with a quoted value is rewritten without
  looking at the value: the redacted text is the same whatever the value was.\<close>

theorem redact_text_hides_json_value:
  assumes "\<forall>c \<in> set k. key_char c" "is_sensitive_key k" "CHR 0x22 \<notin> set pre"
    and "CHR 0x22 \<notin> set secret" "CHR 0x22 \<notin> set other"
  shows "redact_text (pre @ [CHR 0x22] @ k @ [CHR 0x22] @ '': '' @ [CHR 0x22] @ secret @ [CHR 0x22] @ rest) =
    redact_text (pre @ [CHR 0x22] @ k @ [CHR 0x22] @ '': '' @ [CHR 0x22] @ other @ [CHR 0x22] @ rest)"
proof -
  have q: "\<not> key_char CHR 0x22" "\<not> is_space CHR 0x22" "is_space CHR '' ''"
    by (simp_all add: key_char_def is_word_def is_digit_def is_space_def code_def)
  show ?thesis
    using json_sub_pair [of "CHR 0x22" k "[]" "'' ''" secret pre rest]
      json_sub_pair [of "CHR 0x22" k "[]" "'' ''" other pre rest] assms q
    by (simp add: redact_text_def)
qed

theorem redact_text_hides_json_value_witness:
  "redact_text ([] @ [CHR 0x22] @ ''api_key'' @ [CHR 0x22] @ '': '' @ [CHR 0x22] @ ''s3'' @ [CHR 0x22] @ [])
   = redact_text ([] @ [CHR 0x22] @ ''api_key'' @ [CHR 0x22] @ '': '' @ [CHR 0x22] @ ''t4'' @ [CHR 0x22] @ [])"
proof (rule redact_text_hides_json_value)
  show "\<forall>c \<in> set ''api_key''. key_char c" by code_simp
  show "is_sensitive_key ''api_key''" by code_simp
qed simp_all

text \<open>The environment a template sees: exactly the variables that are not secret, with
  their values.\<close>

theorem filter_env_exact:
  "dget (filter_env env) k = (if is_secret_env_var k then None else dget env k)"
  by (rule dget_filter_env)

text \<open>An argument after a sensitive flag that starts with a dash is logged as it is.\<close>

lemma dash_value_is_logged:
  "mask_sensitive_args [''--token'', ''-s3cret''] [] = ''--token -s3cret''"
  by code_simp

end
