(* ===== verification/Run_Context.thy ===== *)
theory Run_Context
  imports Resolution Redaction
begin

text \<open>
  \<open>isvctl/orchestrator/context.py\<close>: the variables templates see. The context is one dictionary,
  built in layers, plus the phase of every step. The clock, the process environment and the
  sandboxed Jinja2 environment are parameters. A step output can only be stored while
  \<open>data["steps"]\<close> is a dictionary; a \<open>tests.settings\<close> entry named \<open>steps\<close> can replace it, and then
  the assignment raises (\<open>None\<close>).
\<close>

section \<open>State\<close>

record run_context =
  c_data :: dict
  c_phases :: "(string \<times> string) list"

text \<open>The parts of the run configuration the constructor reads; \<open>None\<close> for an absent section.\<close>

record context_config =
  k_context :: dict
  k_lab :: "dict option"
  k_settings :: "(string \<times> pval) list"

text \<open>Rendering a setting that fails leaves it as it is.\<close>

definition render_setting :: "jinja \<Rightarrow> dict \<Rightarrow> pval \<Rightarrow> pval" where
  "render_setting jinja data v = (case v of
     PStr s \<Rightarrow> if is_template s then (case jinja s data of Inr t \<Rightarrow> PStr t | Inl _ \<Rightarrow> v) else v
   | _ \<Rightarrow> v)"

fun add_settings :: "jinja \<Rightarrow> (string \<times> pval) list \<Rightarrow> dict \<Rightarrow> dict" where
  "add_settings jinja [] data = data"
| "add_settings jinja ((k, v) # kvs) data =
     add_settings jinja kvs (dput data (KStr k) (render_setting jinja data v))"

definition builtins :: "string \<Rightarrow> string \<Rightarrow> pval" where
  "builtins timestamp date =
     PDict [(KStr ''timestamp'', PStr timestamp), (KStr ''date'', PStr date)]"

definition new_context ::
  "jinja \<Rightarrow> string \<Rightarrow> string \<Rightarrow> (string \<times> string) list \<Rightarrow> context_config \<Rightarrow> run_context"
where
  "new_context jinja timestamp date environ k =
     (let d1 = (if k_context k \<noteq> [] then [(KStr ''context'', PDict (k_context k))] else []);
          d2 = (case k_lab k of None \<Rightarrow> d1 | Some lab \<Rightarrow> dput d1 (KStr ''lab'') (PDict lab));
          d3 = dput d2 (KStr ''builtin'') (builtins timestamp date);
          d4 = dput d3 (KStr ''inventory'') (PDict []);
          d5 = dput d4 (KStr ''steps'') (PDict []);
          d6 = dput d5 (KStr ''env'') (PDict (map (\<lambda>kv. (KStr (fst kv), PStr (snd kv))) (filter_env environ)))
      in \<lparr>c_data = add_settings jinja (k_settings k) d6, c_phases = []\<rparr>)"

section \<open>Operations\<close>

definition set_inventory :: "run_context \<Rightarrow> dict \<Rightarrow> run_context" where
  "set_inventory c output = c\<lparr>c_data := dput (c_data c) (KStr ''inventory'') (PDict output)\<rparr>"

definition set_step_output :: "run_context \<Rightarrow> string \<Rightarrow> pval \<Rightarrow> run_context option" where
  "set_step_output c name output = (case sget (c_data c) ''steps'' of
     Some (PDict steps) \<Rightarrow>
       Some (c\<lparr>c_data := dput (c_data c) (KStr ''steps'') (PDict (dput steps (KStr name) output))\<rparr>)
   | _ \<Rightarrow> None)"

definition set_step_phase :: "run_context \<Rightarrow> string \<Rightarrow> string \<Rightarrow> run_context" where
  "set_step_phase c name phase = c\<lparr>c_phases := dput (c_phases c) name phase\<rparr>"

definition get_step_phase :: "run_context \<Rightarrow> string \<Rightarrow> string option" where
  "get_step_phase c name = dget (c_phases c) name"

definition get_all_step_phases :: "run_context \<Rightarrow> (string \<times> string) list" where
  "get_all_step_phases c = c_phases c"

definition get_step_output :: "run_context \<Rightarrow> string \<Rightarrow> pval option" where
  "get_step_output c name = (case dgetd (c_data c) (KStr ''steps'') (PDict []) of
     PDict steps \<Rightarrow> Some (dgetd steps (KStr name) (PDict []))
   | _ \<Rightarrow> None)"

definition get_accumulated_context :: "run_context \<Rightarrow> dict" where
  "get_accumulated_context c = c_data c"

definition ctx_render_string :: "jinja \<Rightarrow> run_context \<Rightarrow> string \<Rightarrow> string + string" where
  "ctx_render_string jinja c s = (if is_template s then jinja s (c_data c) else Inr s)"

text \<open>The two recursions of \<open>render_dict\<close> and \<open>_render_list\<close>; the first exception leaves both.\<close>

fun ctx_render_value :: "jinja \<Rightarrow> run_context \<Rightarrow> pval \<Rightarrow> string + pval" where
  "ctx_render_value jinja c (PStr s) = map_sum id PStr (ctx_render_string jinja c s)"
| "ctx_render_value jinja c (PDict d) = map_sum id PDict
     (gather (map (\<lambda>kv. map_sum id (Pair (fst kv)) (ctx_render_value jinja c (snd kv))) d))"
| "ctx_render_value jinja c (PList xs) = map_sum id PList (gather (map (ctx_render_value jinja c) xs))"
| "ctx_render_value jinja c v = Inr v"

definition render_dict :: "jinja \<Rightarrow> run_context \<Rightarrow> dict \<Rightarrow> string + dict" where
  "render_dict jinja c d =
     gather (map (\<lambda>kv. map_sum id (Pair (fst kv)) (ctx_render_value jinja c (snd kv))) d)"

section \<open>Laws\<close>

text \<open>\<open>data["steps"]\<close> is a dictionary.\<close>

definition has_steps :: "run_context \<Rightarrow> bool" where
  "has_steps c \<longleftrightarrow> (case sget (c_data c) ''steps'' of Some (PDict _) \<Rightarrow> True | _ \<Rightarrow> False)"

definition steps_of :: "run_context \<Rightarrow> dict" where
  "steps_of c = (case sget (c_data c) ''steps'' of Some (PDict d) \<Rightarrow> d | _ \<Rightarrow> [])"

lemma has_stepsE:
  assumes "has_steps c" obtains d where "sget (c_data c) ''steps'' = Some (PDict d)" "steps_of c = d"
  using assms by (auto simp: has_steps_def steps_of_def split: option.splits pval.splits)

lemma set_step_output_Some:
  "has_steps c \<Longrightarrow> \<exists>c'. set_step_output c n v = Some c'"
  by (auto simp: set_step_output_def elim: has_stepsE)

lemma set_step_output_steps:
  "set_step_output c n v = Some c' \<Longrightarrow>
    has_steps c' \<and> steps_of c' = dput (steps_of c) (KStr n) v \<and> c_phases c' = c_phases c
    \<and> (\<forall>k. k \<noteq> ''steps'' \<longrightarrow> sget (c_data c') k = sget (c_data c) k)"
  by (auto simp: set_step_output_def has_steps_def steps_of_def split: option.splits pval.splits)

lemma get_step_output_steps:
  "has_steps c \<Longrightarrow> get_step_output c n = Some (dgetd (steps_of c) (KStr n) (PDict []))"
  by (auto simp: get_step_output_def dgetd_def elim: has_stepsE)

lemma add_settings_get:
  "k \<notin> set (dkeys kvs) \<Longrightarrow> sget (add_settings jinja kvs data) k = sget data k"
  by (induction jinja kvs data rule: add_settings.induct) auto

lemma add_settings_plain:
  assumes "(k, v) \<in> set kvs" "distinct (dkeys kvs)" "\<forall>s. v = PStr s \<longrightarrow> \<not> is_template s"
  shows "sget (add_settings jinja kvs data) k = Some v"
  using assms
proof (induction jinja kvs data rule: add_settings.induct)
  case (2 jinja k' v' kvs data)
  show ?case
  proof (cases "(k, v) \<in> set kvs")
    case True
    with 2 show ?thesis by simp
  next
    case False
    with 2(2-4) have "k' = k" "v' = v" "k \<notin> set (dkeys kvs)" by auto
    with 2(4) show ?thesis
      by (cases v) (simp_all add: add_settings_get render_setting_def)
  qed
qed simp

lemma new_context_steps:
  assumes "''steps'' \<notin> set (dkeys (k_settings k))"
  shows "has_steps (new_context jinja ts dt env k)" "steps_of (new_context jinja ts dt env k) = []"
  using assms by (simp_all add: has_steps_def steps_of_def new_context_def Let_def add_settings_get)

section \<open>Properties\<close>

definition env_dict :: "(string \<times> string) list \<Rightarrow> dict" where
  "env_dict env = map (\<lambda>kv. (KStr (fst kv), PStr (snd kv))) (filter_env env)"

lemma env_dict_get: "sget (env_dict env) k = map_option PStr (dget (filter_env env) k)"
proof -
  have "sget (map (\<lambda>kv. (KStr (fst kv), PStr (snd kv))) d) k = map_option PStr (dget d k)"
    for d :: "(string \<times> string) list"
    by (induction d) auto
  then show ?thesis by (simp add: env_dict_def)
qed

text \<open>A template sees the process environment only through \<open>env\<close>, and there exactly the
  variables that are not secret; the step outputs start empty, and a setting without a template
  is stored unchanged under its own name, over every layer built before it.\<close>

theorem context_layers:
  assumes "distinct (dkeys (k_settings k))"
  shows "(''env'' \<notin> set (dkeys (k_settings k)) \<longrightarrow>
      (\<exists>e. sget (c_data (new_context jinja ts dt environ k)) ''env'' = Some (PDict e)
        \<and> (\<forall>x. sget e x = (if is_secret_env_var x then None else map_option PStr (dget environ x)))))
    \<and> (''steps'' \<notin> set (dkeys (k_settings k)) \<longrightarrow>
      (\<forall>s. get_step_output (new_context jinja ts dt environ k) s = Some (PDict [])))
    \<and> (\<forall>(x, v) \<in> set (k_settings k). (\<forall>t. v = PStr t \<longrightarrow> \<not> is_template t) \<longrightarrow>
      sget (c_data (new_context jinja ts dt environ k)) x = Some v)"
proof (intro conjI impI)
  assume "''env'' \<notin> set (dkeys (k_settings k))"
  then have "sget (c_data (new_context jinja ts dt environ k)) ''env'' = Some (PDict (env_dict environ))"
    by (simp add: new_context_def Let_def add_settings_get env_dict_def)
  then show "\<exists>e. sget (c_data (new_context jinja ts dt environ k)) ''env'' = Some (PDict e)
      \<and> (\<forall>x. sget e x = (if is_secret_env_var x then None else map_option PStr (dget environ x)))"
    by (auto simp: env_dict_get dget_filter_env)
next
  assume "''steps'' \<notin> set (dkeys (k_settings k))"
  from new_context_steps [OF this]
  show "\<forall>s. get_step_output (new_context jinja ts dt environ k) s = Some (PDict [])"
    by (simp add: get_step_output_steps dgetd_def)
next
  show "\<forall>(x, v) \<in> set (k_settings k). (\<forall>t. v = PStr t \<longrightarrow> \<not> is_template t) \<longrightarrow>
      sget (c_data (new_context jinja ts dt environ k)) x = Some v"
    using assms by (auto simp: new_context_def Let_def intro!: add_settings_plain)
qed

definition demo_config :: context_config where
  "demo_config = \<lparr>k_context = [(KStr ''n'', PInt 4)], k_lab = None, k_settings = [(''region'', PStr ''us-1'')]\<rparr>"

theorem context_layers_witness:
  "\<exists>e. sget (c_data (new_context (\<lambda>_ _. Inl []) [] [] [(''NGC_API_KEY'', ''k''), (''HOME'', ''/r'')] demo_config)) ''env''
      = Some (PDict e) \<and> sget e ''NGC_API_KEY'' = None \<and> sget e ''HOME'' = Some (PStr ''/r'')"
proof -
  have d: "distinct (dkeys (k_settings demo_config))" "''env'' \<notin> set (dkeys (k_settings demo_config))"
    by (simp_all add: demo_config_def)
  have s: "is_secret_env_var ''NGC_API_KEY''" "\<not> is_secret_env_var ''HOME''" by code_simp+
  show ?thesis
    using context_layers [OF d(1), of "\<lambda>_ _. Inl []" "[]" "[]" "[(''NGC_API_KEY'', ''k''), (''HOME'', ''/r'')]"] d(2) s
    by auto
qed

end
