(* ===== verification/Schema_Table.thy ===== *)
theory Schema_Table
  imports Py_Prelude
begin

text \<open>
  \<open>isvctl/config/output_schemas.py\<close>: the JSON schemas that outputs of steps are checked against, as
  the dictionaries that the file builds. Every schema is one definition; a spliced dictionary
  (\<open>**COMMON_PROPERTIES\<close>) is the prefix of the literal, whose own keys are all different.
\<close>

definition COMMON_PROPERTIES :: dict where
  "COMMON_PROPERTIES =
    [(KStr ''success'', PDict [
      (KStr ''type'', PStr ''boolean''),
      (KStr ''description'', PStr ''Whether the operation succeeded'')]),
     (KStr ''platform'', PDict [
      (KStr ''type'', PStr ''string''),
      (KStr ''description'', PStr ''Platform type (e.g., kubernetes, vm, iam, security)'')])]"

definition BOUNDARY_FLOW_SCHEMA :: dict where
  "BOUNDARY_FLOW_SCHEMA =
    [(KStr ''type'', PStr ''object''),
     (KStr ''required'', PList [PStr ''protocol'', PStr ''result'']),
     (KStr ''properties'', PDict [
      (KStr ''protocol'', PDict [
       (KStr ''type'', PStr ''string''),
       (KStr ''description'', PStr ''e.g. tcp, udp, icmp'')]),
      (KStr ''port'', PDict [
       (KStr ''type'', PStr ''integer''),
       (KStr ''description'', PStr ''Destination port (tcp/udp only)'')]),
      (KStr ''result'', PDict [
       (KStr ''type'', PStr ''string''),
       (KStr ''enum'',
        PList [PStr ''connected'', PStr ''refused'', PStr ''timeout'', PStr ''error'']),
       (KStr ''description'',
        PStr ''Observed outcome; only 'timeout' counts as dropped by policy'')])]),
     (KStr ''additionalProperties'', PBool True)]"

definition k8s_upgrade_schema :: dict where
  "k8s_upgrade_schema =
    [(KStr ''type'', PStr ''object''),
     (KStr ''required'', PList [PStr ''success'', PStr ''platform'', PStr ''test_name'']),
     (KStr ''properties'', PDict [
      (KStr ''success'', PDict [(KStr ''type'', PStr ''boolean'')]),
      (KStr ''platform'', PDict [(KStr ''const'', PStr ''kubernetes'')]),
      (KStr ''test_name'', PDict [
       (KStr ''enum'', PList [
        PStr ''managed_upgrade_policy'', PStr ''control_plane_upgrade'',
        PStr ''node_pool_upgrade''])]),
      (KStr ''error'', PDict [(KStr ''type'', PStr ''string'')]),
      (KStr ''cleanup_errors'', PDict [
       (KStr ''type'', PStr ''array''),
       (KStr ''items'', PDict [(KStr ''type'', PStr ''string'')])]),
      (KStr ''operation'', PDict [(KStr ''type'', PStr ''object'')]),
      (KStr ''policy'', PDict [(KStr ''type'', PStr ''object'')]),
      (KStr ''application'', PDict [(KStr ''type'', PStr ''object'')]),
      (KStr ''pdb'', PDict [(KStr ''type'', PStr ''object'')]),
      (KStr ''nodes_before'', PDict [
       (KStr ''type'', PStr ''array''),
       (KStr ''items'', PDict [(KStr ''type'', PStr ''object'')])]),
      (KStr ''nodes_after'', PDict [
       (KStr ''type'', PStr ''array''),
       (KStr ''items'', PDict [(KStr ''type'', PStr ''object'')])]),
      (KStr ''rollouts'', PDict [
       (KStr ''type'', PStr ''array''),
       (KStr ''items'', PDict [(KStr ''type'', PStr ''object'')])])]),
     (KStr ''additionalProperties'', PBool True)]"

definition cluster_schema :: dict where
  "cluster_schema =
    [(KStr ''type'', PStr ''object''),
     (KStr ''required'',
      PList [PStr ''success'', PStr ''platform'', PStr ''cluster_name'', PStr ''node_count'']),
     (KStr ''properties'', PDict (COMMON_PROPERTIES @ [
      (KStr ''cluster_name'', PDict [
       (KStr ''type'', PStr ''string''),
       (KStr ''description'', PStr ''Name of the cluster'')]),
      (KStr ''endpoint'', PDict [
       (KStr ''type'', PStr ''string''),
       (KStr ''description'', PStr ''Cluster API endpoint'')]),
      (KStr ''node_count'', PDict [
       (KStr ''type'', PStr ''integer''),
       (KStr ''minimum'', PInt 0),
       (KStr ''description'', PStr ''Total number of nodes'')]),
      (KStr ''nodes'', PDict [
       (KStr ''type'', PStr ''array''),
       (KStr ''items'', PDict [(KStr ''type'', PStr ''string'')]),
       (KStr ''description'', PStr ''List of node names'')]),
      (KStr ''gpu_count'', PDict [
       (KStr ''type'', PStr ''integer''),
       (KStr ''minimum'', PInt 0),
       (KStr ''description'', PStr ''Total GPUs in cluster'')]),
      (KStr ''gpu_per_node'', PDict [
       (KStr ''type'', PStr ''integer''),
       (KStr ''minimum'', PInt 0),
       (KStr ''description'', PStr ''GPUs per node'')]),
      (KStr ''driver_version'', PDict [
       (KStr ''type'', PStr ''string''),
       (KStr ''description'', PStr ''NVIDIA driver version'')]),
      (KStr ''kubeconfig_path'', PDict [
       (KStr ''type'', PStr ''string''),
       (KStr ''description'', PStr ''Path to kubeconfig file'')])])),
     (KStr ''additionalProperties'', PBool True)]"

definition k8s_networking_schema :: dict where
  "k8s_networking_schema =
    [(KStr ''type'', PStr ''object''),
     (KStr ''required'', PList [PStr ''success'', PStr ''platform'', PStr ''test_name'']),
     (KStr ''properties'', PDict [
      (KStr ''success'', PDict [(KStr ''type'', PStr ''boolean'')]),
      (KStr ''platform'', PDict [(KStr ''const'', PStr ''kubernetes'')]),
      (KStr ''test_name'', PDict [
       (KStr ''enum'',
        PList [PStr ''load_balancer'', PStr ''dns_forwarding'', PStr ''cidr_ranges''])]),
      (KStr ''skipped'', PDict [(KStr ''type'', PStr ''boolean'')]),
      (KStr ''skip_reason'',
       PDict [(KStr ''type'', PStr ''string''), (KStr ''minLength'', PInt 1)]),
      (KStr ''error'', PDict [(KStr ''type'', PStr ''string'')]),
      (KStr ''cleanup_errors'', PDict [
       (KStr ''type'', PStr ''array''),
       (KStr ''items'', PDict [(KStr ''type'', PStr ''string'')])]),
      (KStr ''expected_response'',
       PDict [(KStr ''type'', PStr ''string''), (KStr ''minLength'', PInt 1)]),
      (KStr ''query'', PDict [(KStr ''type'', PStr ''string''), (KStr ''minLength'', PInt 1)]),
      (KStr ''forwarded_query_seen'', PDict [(KStr ''type'', PStr ''boolean'')]),
      (KStr ''rule_restored'', PDict [(KStr ''type'', PStr ''boolean'')]),
      (KStr ''requested_static_ips'', PDict [
       (KStr ''type'', PStr ''array''),
       (KStr ''minItems'', PInt 1),
       (KStr ''items'', PDict [(KStr ''type'', PStr ''string''), (KStr ''minLength'', PInt 1)])]),
      (KStr ''expected_addresses'', PDict [
       (KStr ''type'', PStr ''array''),
       (KStr ''minItems'', PInt 1),
       (KStr ''items'', PDict [(KStr ''type'', PStr ''string''), (KStr ''minLength'', PInt 1)])]),
      (KStr ''answers'', PDict [
       (KStr ''type'', PStr ''array''),
       (KStr ''minItems'', PInt 1),
       (KStr ''items'', PDict [(KStr ''type'', PStr ''string''), (KStr ''minLength'', PInt 1)])]),
      (KStr ''control_expected'', PDict [
       (KStr ''type'', PStr ''array''),
       (KStr ''minItems'', PInt 1),
       (KStr ''items'', PDict [(KStr ''type'', PStr ''string''), (KStr ''minLength'', PInt 1)])]),
      (KStr ''control_answers'', PDict [
       (KStr ''type'', PStr ''array''),
       (KStr ''minItems'', PInt 1),
       (KStr ''items'', PDict [(KStr ''type'', PStr ''string''), (KStr ''minLength'', PInt 1)])]),
      (KStr ''service_cidrs'', PDict [
       (KStr ''type'', PStr ''array''),
       (KStr ''minItems'', PInt 1),
       (KStr ''items'', PDict [(KStr ''type'', PStr ''string''), (KStr ''minLength'', PInt 1)])]),
      (KStr ''node_pod_cidrs'', PDict [
       (KStr ''type'', PStr ''array''),
       (KStr ''minItems'', PInt 1),
       (KStr ''items'', PDict [(KStr ''type'', PStr ''string''), (KStr ''minLength'', PInt 1)])]),
      (KStr ''node_ips'', PDict [
       (KStr ''type'', PStr ''array''),
       (KStr ''minItems'', PInt 1),
       (KStr ''items'', PDict [(KStr ''type'', PStr ''string''), (KStr ''minLength'', PInt 1)])]),
      (KStr ''pod_ips'', PDict [
       (KStr ''type'', PStr ''array''),
       (KStr ''minItems'', PInt 1),
       (KStr ''items'', PDict [(KStr ''type'', PStr ''string''), (KStr ''minLength'', PInt 1)])]),
      (KStr ''service_ips'', PDict [
       (KStr ''type'', PStr ''array''),
       (KStr ''minItems'', PInt 1),
       (KStr ''items'', PDict [(KStr ''type'', PStr ''string''), (KStr ''minLength'', PInt 1)])]),
      (KStr ''services'', PDict [
       (KStr ''type'', PStr ''array''),
       (KStr ''minItems'', PInt 3),
       (KStr ''maxItems'', PInt 3),
       (KStr ''items'', PDict [
        (KStr ''type'', PStr ''object''),
        (KStr ''required'',
         PList [PStr ''kind'', PStr ''service_type'', PStr ''probe_location'', PStr ''probes'']),
        (KStr ''properties'', PDict [
         (KStr ''kind'',
          PDict [(KStr ''enum'', PList [PStr ''external'', PStr ''internal'', PStr ''static''])]),
         (KStr ''service_type'', PDict [(KStr ''const'', PStr ''LoadBalancer'')]),
         (KStr ''probe_location'',
          PDict [(KStr ''enum'', PList [PStr ''pod'', PStr ''controller''])]),
         (KStr ''probes'', PDict [
          (KStr ''type'', PStr ''array''),
          (KStr ''minItems'', PInt 1),
          (KStr ''items'', PDict [
           (KStr ''type'', PStr ''object''),
           (KStr ''required'', PList [PStr ''address'', PStr ''body'']),
           (KStr ''properties'', PDict [
            (KStr ''address'', PDict [(KStr ''type'', PStr ''string'')]),
            (KStr ''body'', PDict [(KStr ''type'', PStr ''string'')])])])])])])]),
      (KStr ''requested_ranges'', PDict [
       (KStr ''type'', PStr ''object''),
       (KStr ''required'', PList [PStr ''service'', PStr ''node'', PStr ''pod'']),
       (KStr ''properties'', PDict [
        (KStr ''service'', PDict [
         (KStr ''type'', PStr ''array''),
         (KStr ''minItems'', PInt 1),
         (KStr ''items'', PDict [(KStr ''type'', PStr ''string'')])]),
        (KStr ''node'', PDict [
         (KStr ''type'', PStr ''array''),
         (KStr ''minItems'', PInt 1),
         (KStr ''items'', PDict [(KStr ''type'', PStr ''string'')])]),
        (KStr ''pod'', PDict [
         (KStr ''type'', PStr ''array''),
         (KStr ''minItems'', PInt 1),
         (KStr ''items'', PDict [(KStr ''type'', PStr ''string'')])])])])]),
     (KStr ''allOf'', PList [
      PDict [
       (KStr ''if'', PDict [
        (KStr ''properties'', PDict [(KStr ''success'', PDict [(KStr ''const'', PBool True)])]),
        (KStr ''required'', PList [PStr ''success''])]),
       (KStr ''then'', PDict [
        (KStr ''oneOf'', PList [
         PDict [
          (KStr ''properties'',
           PDict [(KStr ''test_name'', PDict [(KStr ''const'', PStr ''load_balancer'')])]),
          (KStr ''required'',
           PList [PStr ''expected_response'', PStr ''requested_static_ips'', PStr ''services''])],
         PDict [
          (KStr ''properties'',
           PDict [(KStr ''test_name'', PDict [(KStr ''const'', PStr ''dns_forwarding'')])]),
          (KStr ''required'', PList [
           PStr ''query'', PStr ''expected_addresses'', PStr ''answers'',
           PStr ''forwarded_query_seen'', PStr ''control_expected'', PStr ''control_answers'',
           PStr ''rule_restored''])],
         PDict [
          (KStr ''properties'',
           PDict [(KStr ''test_name'', PDict [(KStr ''const'', PStr ''cidr_ranges'')])]),
          (KStr ''required'', PList [
           PStr ''requested_ranges'', PStr ''service_cidrs'', PStr ''node_pod_cidrs'',
           PStr ''node_ips'', PStr ''pod_ips'', PStr ''service_ips''])]])])],
      PDict [
       (KStr ''if'', PDict [
        (KStr ''properties'', PDict [(KStr ''skipped'', PDict [(KStr ''const'', PBool True)])]),
        (KStr ''required'', PList [PStr ''skipped''])]),
       (KStr ''then'', PDict [
        (KStr ''properties'', PDict [(KStr ''success'', PDict [(KStr ''const'', PBool False)])]),
        (KStr ''required'', PList [PStr ''skip_reason''])])]])]"

definition network_schema :: dict where
  "network_schema =
    [(KStr ''type'', PStr ''object''),
     (KStr ''required'', PList [PStr ''success'', PStr ''platform'']),
     (KStr ''properties'', PDict (COMMON_PROPERTIES @ [
      (KStr ''network_id'', PDict [
       (KStr ''type'', PStr ''string''),
       (KStr ''description'', PStr ''Network/VPC identifier'')]),
      (KStr ''cidr'', PDict [
       (KStr ''type'', PStr ''string''),
       (KStr ''description'', PStr ''CIDR block for the network'')]),
      (KStr ''subnets'', PDict [
       (KStr ''type'', PStr ''array''),
       (KStr ''items'', PDict [
        (KStr ''type'', PStr ''object''),
        (KStr ''properties'', PDict [
         (KStr ''subnet_id'', PDict [(KStr ''type'', PStr ''string'')]),
         (KStr ''cidr'', PDict [(KStr ''type'', PStr ''string'')]),
         (KStr ''availability_zone'', PDict [(KStr ''type'', PStr ''string'')]),
         (KStr ''az'', PDict [(KStr ''type'', PStr ''string'')])])]),
       (KStr ''description'', PStr ''List of subnets'')]),
      (KStr ''region'',
       PDict [
        (KStr ''type'', PStr ''string''),
        (KStr ''description'', PStr ''Cloud region'')])])),
     (KStr ''additionalProperties'', PBool True)]"

definition instance_schema :: dict where
  "instance_schema =
    [(KStr ''type'', PStr ''object''),
     (KStr ''required'', PList [PStr ''success'', PStr ''platform'', PStr ''instance_id'']),
     (KStr ''properties'', PDict (COMMON_PROPERTIES @ [
      (KStr ''instance_id'', PDict [
       (KStr ''type'', PStr ''string''),
       (KStr ''description'', PStr ''Instance identifier'')]),
      (KStr ''state'', PDict [
       (KStr ''type'', PStr ''string''),
       (KStr ''enum'',
        PList [PStr ''pending'', PStr ''running'', PStr ''stopped'', PStr ''terminated'']),
       (KStr ''description'', PStr ''Instance state'')]),
      (KStr ''public_ip'', PDict [
       (KStr ''type'', PStr ''string''),
       (KStr ''description'', PStr ''Public IP address'')]),
      (KStr ''private_ip'', PDict [
       (KStr ''type'', PStr ''string''),
       (KStr ''description'', PStr ''Private IP address'')]),
      (KStr ''instance_type'', PDict [
       (KStr ''type'', PStr ''string''),
       (KStr ''description'', PStr ''Instance type/size'')]),
      (KStr ''ssh_user'',
       PDict [(KStr ''type'', PStr ''string''), (KStr ''description'', PStr ''SSH username'')]),
      (KStr ''ssh_key_path'', PDict [
       (KStr ''type'', PStr ''string''),
       (KStr ''description'', PStr ''Path to SSH private key'')])])),
     (KStr ''additionalProperties'', PBool True)]"

definition instance_list_schema :: dict where
  "instance_list_schema =
    [(KStr ''type'', PStr ''object''),
     (KStr ''required'', PList [PStr ''success'', PStr ''platform'']),
     (KStr ''properties'', PDict (COMMON_PROPERTIES @ [
      (KStr ''instances'', PDict [
       (KStr ''type'', PStr ''array''),
       (KStr ''items'', PDict [
        (KStr ''type'', PStr ''object''),
        (KStr ''properties'', PDict [
         (KStr ''instance_id'', PDict [(KStr ''type'', PStr ''string'')]),
         (KStr ''instance_type'', PDict [(KStr ''type'', PStr ''string'')]),
         (KStr ''state'', PDict [(KStr ''type'', PStr ''string'')]),
         (KStr ''public_ip'', PDict [(KStr ''type'', PList [PStr ''string'', PStr ''null''])]),
         (KStr ''private_ip'', PDict [(KStr ''type'', PList [PStr ''string'', PStr ''null''])]),
         (KStr ''vpc_id'', PDict [(KStr ''type'', PStr ''string'')])])]),
       (KStr ''description'', PStr ''List of instances in the VPC'')]),
      (KStr ''count'', PDict [
       (KStr ''type'', PStr ''integer''),
       (KStr ''description'', PStr ''Number of instances'')]),
      (KStr ''found_target'', PDict [
       (KStr ''type'', PStr ''boolean''),
       (KStr ''description'', PStr ''Target instance was found'')]),
      (KStr ''target_instance'', PDict [
       (KStr ''type'', PStr ''string''),
       (KStr ''description'', PStr ''Target instance ID searched for'')])])),
     (KStr ''additionalProperties'', PBool True)]"

definition nim_deploy_schema :: dict where
  "nim_deploy_schema =
    [(KStr ''type'', PStr ''object''),
     (KStr ''required'', PList [PStr ''success'', PStr ''platform'']),
     (KStr ''properties'', PDict (COMMON_PROPERTIES @ [
      (KStr ''container_id'', PDict [
       (KStr ''type'', PList [PStr ''string'', PStr ''null'']),
       (KStr ''description'', PStr ''Docker container ID'')]),
      (KStr ''container_name'', PDict [
       (KStr ''type'', PStr ''string''),
       (KStr ''description'', PStr ''Docker container name'')]),
      (KStr ''model'',
       PDict [(KStr ''type'', PStr ''string''), (KStr ''description'', PStr ''NIM model name'')]),
      (KStr ''image'', PDict [
       (KStr ''type'', PStr ''string''),
       (KStr ''description'', PStr ''Container image used'')]),
      (KStr ''endpoint'', PDict [
       (KStr ''type'', PStr ''string''),
       (KStr ''description'', PStr ''NIM endpoint URL'')]),
      (KStr ''port'', PDict [
       (KStr ''type'', PStr ''integer''),
       (KStr ''description'', PStr ''Host port NIM is exposed on'')]),
      (KStr ''health_ready'', PDict [
       (KStr ''type'', PStr ''boolean''),
       (KStr ''description'', PStr ''Whether health check passed'')]),
      (KStr ''host'',
       PDict [(KStr ''type'', PStr ''string''), (KStr ''description'', PStr ''Remote host IP'')]),
      (KStr ''key_file'', PDict [
       (KStr ''type'', PStr ''string''),
       (KStr ''description'', PStr ''SSH key file path'')]),
      (KStr ''ssh_user'',
       PDict [
        (KStr ''type'', PStr ''string''),
        (KStr ''description'', PStr ''SSH username'')])])),
     (KStr ''additionalProperties'', PBool True)]"

definition workload_result_schema :: dict where
  "workload_result_schema =
    [(KStr ''type'', PStr ''object''),
     (KStr ''required'', PList [PStr ''success'', PStr ''platform'', PStr ''status'']),
     (KStr ''properties'', PDict (COMMON_PROPERTIES @ [
      (KStr ''status'', PDict [
       (KStr ''type'', PStr ''string''),
       (KStr ''enum'', PList [PStr ''passed'', PStr ''failed'', PStr ''skipped'']),
       (KStr ''description'', PStr ''Workload execution status'')]),
      (KStr ''duration_seconds'', PDict [
       (KStr ''type'', PStr ''number''),
       (KStr ''minimum'', PInt 0),
       (KStr ''description'', PStr ''Execution duration'')]),
      (KStr ''metrics'', PDict [
       (KStr ''type'', PStr ''object''),
       (KStr ''additionalProperties'', PBool True),
       (KStr ''description'', PStr ''Workload metrics (e.g., bandwidth, latency)'')]),
      (KStr ''logs'', PDict [
       (KStr ''type'', PStr ''string''),
       (KStr ''description'', PStr ''Workload output logs'')])])),
     (KStr ''additionalProperties'', PBool True)]"

definition gpu_setup_schema :: dict where
  "gpu_setup_schema =
    [(KStr ''type'', PStr ''object''),
     (KStr ''required'', PList [PStr ''success'', PStr ''platform'', PStr ''installed'']),
     (KStr ''properties'', PDict (COMMON_PROPERTIES @ [
      (KStr ''installed'', PDict [
       (KStr ''type'', PStr ''boolean''),
       (KStr ''description'', PStr ''Whether GPU setup completed'')]),
      (KStr ''driver_version'', PDict [
       (KStr ''type'', PStr ''string''),
       (KStr ''description'', PStr ''NVIDIA driver version'')]),
      (KStr ''cuda_version'',
       PDict [(KStr ''type'', PStr ''string''), (KStr ''description'', PStr ''CUDA version'')]),
      (KStr ''gpu_count'', PDict [
       (KStr ''type'', PStr ''integer''),
       (KStr ''minimum'', PInt 0),
       (KStr ''description'', PStr ''Number of GPUs'')]),
      (KStr ''gpu_model'', PDict [
       (KStr ''type'', PStr ''string''),
       (KStr ''description'', PStr ''GPU model name'')])])),
     (KStr ''additionalProperties'', PBool True)]"

definition teardown_schema :: dict where
  "teardown_schema =
    [(KStr ''type'', PStr ''object''),
     (KStr ''required'', PList [PStr ''success'', PStr ''platform'']),
     (KStr ''properties'', PDict (COMMON_PROPERTIES @ [
      (KStr ''resources_deleted'', PDict [
       (KStr ''type'', PStr ''array''),
       (KStr ''items'', PDict [(KStr ''type'', PStr ''string'')]),
       (KStr ''description'', PStr ''List of resources that were deleted'')]),
      (KStr ''resources_failed'', PDict [
       (KStr ''type'', PStr ''array''),
       (KStr ''items'', PDict [(KStr ''type'', PStr ''string'')]),
       (KStr ''description'', PStr ''List of resources that failed to delete'')]),
      (KStr ''message'', PDict [
       (KStr ''type'', PStr ''string''),
       (KStr ''description'', PStr ''Teardown status message'')]),
      (KStr ''duration_seconds'', PDict [
       (KStr ''type'', PStr ''number''),
       (KStr ''minimum'', PInt 0),
       (KStr ''description'', PStr ''Teardown duration'')])])),
     (KStr ''additionalProperties'', PBool True)]"

definition iso_import_schema :: dict where
  "iso_import_schema =
    [(KStr ''type'', PStr ''object''),
     (KStr ''required'', PList [PStr ''success'', PStr ''platform'', PStr ''image_id'']),
     (KStr ''properties'', PDict (COMMON_PROPERTIES @ [
      (KStr ''image_id'', PDict [
       (KStr ''type'', PStr ''string''),
       (KStr ''description'', PStr ''Imported image identifier (AMI, Azure Image, GCP Image)'')]),
      (KStr ''image_name'', PDict [
       (KStr ''type'', PStr ''string''),
       (KStr ''description'', PStr ''Human-readable image name'')]),
      (KStr ''storage_bucket'', PDict [
       (KStr ''type'', PStr ''string''),
       (KStr ''description'', PStr ''Storage bucket/container used for import'')]),
      (KStr ''storage_path'', PDict [
       (KStr ''type'', PStr ''string''),
       (KStr ''description'', PStr ''Object key/path in storage'')]),
      (KStr ''disk_ids'', PDict [
       (KStr ''type'', PStr ''array''),
       (KStr ''items'', PDict [(KStr ''type'', PStr ''string'')]),
       (KStr ''description'', PStr ''Disk/snapshot IDs created during import'')]),
      (KStr ''image_format'', PDict [
       (KStr ''type'', PStr ''string''),
       (KStr ''enum'', PList [
        PStr ''vmdk'', PStr ''vhd'', PStr ''vhdx'', PStr ''ova'', PStr ''raw'', PStr ''qcow2'']),
       (KStr ''description'', PStr ''Source image format'')]),
      (KStr ''region'',
       PDict [(KStr ''type'', PStr ''string''), (KStr ''description'', PStr ''Cloud region'')]),
      (KStr ''image_state'', PDict [
       (KStr ''type'', PStr ''string''),
       (KStr ''description'', PStr ''Image state (available, pending, etc.)'')])])),
     (KStr ''additionalProperties'', PBool True)]"

definition api_health_schema :: dict where
  "api_health_schema =
    [(KStr ''type'', PStr ''object''),
     (KStr ''required'', PList [PStr ''success'', PStr ''platform'']),
     (KStr ''properties'', PDict (COMMON_PROPERTIES @ [
      (KStr ''account_id'', PDict [
       (KStr ''type'', PStr ''string''),
       (KStr ''description'', PStr ''Cloud account/project identifier'')]),
      (KStr ''region'',
       PDict [(KStr ''type'', PStr ''string''), (KStr ''description'', PStr ''Cloud region'')]),
      (KStr ''tests'', PDict [
       (KStr ''type'', PStr ''object''),
       (KStr ''additionalProperties'', PDict [
        (KStr ''type'', PStr ''object''),
        (KStr ''properties'', PDict [
         (KStr ''passed'', PDict [(KStr ''type'', PStr ''boolean'')]),
         (KStr ''message'', PDict [(KStr ''type'', PStr ''string'')]),
         (KStr ''latency_ms'', PDict [(KStr ''type'', PStr ''number'')])])]),
       (KStr ''description'', PStr ''Individual API health test results'')])])),
     (KStr ''additionalProperties'', PBool True)]"

definition access_key_schema :: dict where
  "access_key_schema =
    [(KStr ''type'', PStr ''object''),
     (KStr ''required'', PList [PStr ''success'', PStr ''platform'', PStr ''access_key_id'']),
     (KStr ''properties'', PDict (COMMON_PROPERTIES @ [
      (KStr ''access_key_id'', PDict [
       (KStr ''type'', PStr ''string''),
       (KStr ''description'', PStr ''Access key identifier'')]),
      (KStr ''secret_access_key'', PDict [
       (KStr ''type'', PStr ''string''),
       (KStr ''description'', PStr ''Secret key (only on create)'')]),
      (KStr ''username'', PDict [
       (KStr ''type'', PStr ''string''),
       (KStr ''description'', PStr ''User the key belongs to'')]),
      (KStr ''user_id'', PDict [
       (KStr ''type'', PStr ''string''),
       (KStr ''description'', PStr ''User unique identifier'')])])),
     (KStr ''additionalProperties'', PBool True)]"

definition auth_result_schema :: dict where
  "auth_result_schema =
    [(KStr ''type'', PStr ''object''),
     (KStr ''required'', PList [PStr ''success'', PStr ''platform'', PStr ''authenticated'']),
     (KStr ''properties'', PDict (COMMON_PROPERTIES @ [
      (KStr ''authenticated'', PDict [
       (KStr ''type'', PStr ''boolean''),
       (KStr ''description'', PStr ''Authentication succeeded'')]),
      (KStr ''identity_id'', PDict [
       (KStr ''type'', PStr ''string''),
       (KStr ''description'', PStr ''Authenticated identity identifier'')]),
      (KStr ''account_id'', PDict [
       (KStr ''type'', PStr ''string''),
       (KStr ''description'', PStr ''Account identifier'')]),
      (KStr ''error'', PDict [
       (KStr ''type'', PStr ''string''),
       (KStr ''description'', PStr ''Error message if failed'')])])),
     (KStr ''additionalProperties'', PBool True)]"

definition access_key_status_schema :: dict where
  "access_key_status_schema =
    [(KStr ''type'', PStr ''object''),
     (KStr ''required'', PList [PStr ''success'', PStr ''platform'', PStr ''status'']),
     (KStr ''properties'', PDict (COMMON_PROPERTIES @ [
      (KStr ''access_key_id'', PDict [
       (KStr ''type'', PStr ''string''),
       (KStr ''description'', PStr ''Access key identifier'')]),
      (KStr ''status'', PDict [
       (KStr ''type'', PStr ''string''),
       (KStr ''enum'', PList [PStr ''Active'', PStr ''Inactive'']),
       (KStr ''description'', PStr ''Key status'')])])),
     (KStr ''additionalProperties'', PBool True)]"

definition auth_rejection_schema :: dict where
  "auth_rejection_schema =
    [(KStr ''type'', PStr ''object''),
     (KStr ''required'', PList [PStr ''success'', PStr ''platform'', PStr ''rejected'']),
     (KStr ''properties'', PDict (COMMON_PROPERTIES @ [
      (KStr ''rejected'', PDict [
       (KStr ''type'', PStr ''boolean''),
       (KStr ''description'', PStr ''Auth was correctly rejected'')]),
      (KStr ''error_code'', PDict [
       (KStr ''type'', PStr ''string''),
       (KStr ''description'', PStr ''Error code from rejection'')])])),
     (KStr ''additionalProperties'', PBool True)]"

definition tenant_schema :: dict where
  "tenant_schema =
    [(KStr ''type'', PStr ''object''),
     (KStr ''required'', PList [PStr ''success'', PStr ''platform'', PStr ''tenant_name'']),
     (KStr ''properties'', PDict (COMMON_PROPERTIES @ [
      (KStr ''tenant_name'',
       PDict [(KStr ''type'', PStr ''string''), (KStr ''description'', PStr ''Tenant name'')]),
      (KStr ''tenant_id'', PDict [
       (KStr ''type'', PStr ''string''),
       (KStr ''description'', PStr ''Tenant unique identifier'')]),
      (KStr ''description'', PDict [
       (KStr ''type'', PStr ''string''),
       (KStr ''description'', PStr ''Tenant description'')]),
      (KStr ''tags'', PDict [
       (KStr ''type'', PStr ''object''),
       (KStr ''additionalProperties'', PDict [(KStr ''type'', PStr ''string'')]),
       (KStr ''description'', PStr ''Tenant tags/labels'')])])),
     (KStr ''additionalProperties'', PBool True)]"

definition tenant_list_schema :: dict where
  "tenant_list_schema =
    [(KStr ''type'', PStr ''object''),
     (KStr ''required'', PList [PStr ''success'', PStr ''platform'']),
     (KStr ''properties'', PDict (COMMON_PROPERTIES @ [
      (KStr ''tenants'', PDict [
       (KStr ''type'', PStr ''array''),
       (KStr ''items'', PDict [
        (KStr ''type'', PStr ''object''),
        (KStr ''properties'', PDict [
         (KStr ''tenant_name'', PDict [(KStr ''type'', PStr ''string'')]),
         (KStr ''tenant_id'', PDict [(KStr ''type'', PStr ''string'')])])]),
       (KStr ''description'', PStr ''List of tenants'')]),
      (KStr ''count'', PDict [
       (KStr ''type'', PStr ''integer''),
       (KStr ''description'', PStr ''Number of tenants'')]),
      (KStr ''found_target'', PDict [
       (KStr ''type'', PStr ''boolean''),
       (KStr ''description'', PStr ''Target tenant was found'')]),
      (KStr ''target_tenant'', PDict [
       (KStr ''type'', PStr ''string''),
       (KStr ''description'', PStr ''Target tenant name searched for'')])])),
     (KStr ''additionalProperties'', PBool True)]"

definition iam_user_schema :: dict where
  "iam_user_schema =
    [(KStr ''type'', PStr ''object''),
     (KStr ''required'', PList [PStr ''success'', PStr ''platform'', PStr ''username'']),
     (KStr ''properties'', PDict (COMMON_PROPERTIES @ [
      (KStr ''username'',
       PDict [(KStr ''type'', PStr ''string''), (KStr ''description'', PStr ''User name'')]),
      (KStr ''user_id'', PDict [
       (KStr ''type'', PStr ''string''),
       (KStr ''description'', PStr ''User unique identifier'')])])),
     (KStr ''additionalProperties'', PBool True)]"

definition vpc_crud_schema :: dict where
  "vpc_crud_schema =
    [(KStr ''type'', PStr ''object''),
     (KStr ''required'', PList [PStr ''success'', PStr ''platform'']),
     (KStr ''properties'', PDict (COMMON_PROPERTIES @ [
      (KStr ''tests'', PDict [
       (KStr ''type'', PStr ''object''),
       (KStr ''properties'', PDict [
        (KStr ''create_vpc'', PDict [(KStr ''type'', PStr ''object'')]),
        (KStr ''read_vpc'', PDict [(KStr ''type'', PStr ''object'')]),
        (KStr ''update_tags'', PDict [(KStr ''type'', PStr ''object'')]),
        (KStr ''update_dns'', PDict [(KStr ''type'', PStr ''object'')]),
        (KStr ''delete_vpc'', PDict [(KStr ''type'', PStr ''object'')])]),
       (KStr ''description'', PStr ''Individual CRUD test results'')]),
      (KStr ''network_id'', PDict [
       (KStr ''type'', PStr ''string''),
       (KStr ''description'', PStr ''VPC ID (if created)'')]),
      (KStr ''vpc_name'',
       PDict [(KStr ''type'', PStr ''string''), (KStr ''description'', PStr ''VPC name'')])])),
     (KStr ''additionalProperties'', PBool True)]"

definition subnet_config_schema :: dict where
  "subnet_config_schema =
    [(KStr ''type'', PStr ''object''),
     (KStr ''required'', PList [PStr ''success'', PStr ''platform'']),
     (KStr ''properties'', PDict (COMMON_PROPERTIES @ [
      (KStr ''tests'', PDict [
       (KStr ''type'', PStr ''object''),
       (KStr ''properties'', PDict [
        (KStr ''create_vpc'', PDict [(KStr ''type'', PStr ''object'')]),
        (KStr ''create_subnets'', PDict [(KStr ''type'', PStr ''object'')]),
        (KStr ''az_distribution'', PDict [(KStr ''type'', PStr ''object'')]),
        (KStr ''subnets_available'', PDict [(KStr ''type'', PStr ''object'')]),
        (KStr ''route_table_exists'', PDict [(KStr ''type'', PStr ''object'')])]),
       (KStr ''description'', PStr ''Subnet configuration test results'')]),
      (KStr ''subnets'', PDict [
       (KStr ''type'', PStr ''array''),
       (KStr ''items'', PDict [
        (KStr ''type'', PStr ''object''),
        (KStr ''properties'', PDict [
         (KStr ''subnet_id'', PDict [(KStr ''type'', PStr ''string'')]),
         (KStr ''cidr'', PDict [(KStr ''type'', PStr ''string'')]),
         (KStr ''az'', PDict [(KStr ''type'', PStr ''string'')])])]),
       (KStr ''description'', PStr ''Created subnets'')]),
      (KStr ''network_id'',
       PDict [(KStr ''type'', PStr ''string''), (KStr ''description'', PStr ''VPC ID'')])])),
     (KStr ''additionalProperties'', PBool True)]"

definition vpc_isolation_schema :: dict where
  "vpc_isolation_schema =
    [(KStr ''type'', PStr ''object''),
     (KStr ''required'', PList [PStr ''success'', PStr ''platform'']),
     (KStr ''properties'', PDict (COMMON_PROPERTIES @ [
      (KStr ''tests'', PDict [
       (KStr ''type'', PStr ''object''),
       (KStr ''properties'', PDict [
        (KStr ''create_vpc_a'', PDict [(KStr ''type'', PStr ''object'')]),
        (KStr ''create_vpc_b'', PDict [(KStr ''type'', PStr ''object'')]),
        (KStr ''no_peering'', PDict [(KStr ''type'', PStr ''object'')]),
        (KStr ''no_cross_routes_a'', PDict [(KStr ''type'', PStr ''object'')]),
        (KStr ''no_cross_routes_b'', PDict [(KStr ''type'', PStr ''object'')]),
        (KStr ''sg_isolation_a'', PDict [(KStr ''type'', PStr ''object'')]),
        (KStr ''sg_isolation_b'', PDict [(KStr ''type'', PStr ''object'')])]),
       (KStr ''description'', PStr ''VPC isolation test results'')]),
      (KStr ''vpc_a'', PDict [
       (KStr ''type'', PStr ''object''),
       (KStr ''properties'', PDict [
        (KStr ''id'', PDict [(KStr ''type'', PStr ''string'')]),
        (KStr ''cidr'', PDict [(KStr ''type'', PStr ''string'')])])]),
      (KStr ''vpc_b'', PDict [
       (KStr ''type'', PStr ''object''),
       (KStr ''properties'', PDict [
        (KStr ''id'', PDict [(KStr ''type'', PStr ''string'')]),
        (KStr ''cidr'', PDict [(KStr ''type'', PStr ''string'')])])])])),
     (KStr ''additionalProperties'', PBool True)]"

definition security_blocking_schema :: dict where
  "security_blocking_schema =
    [(KStr ''type'', PStr ''object''),
     (KStr ''required'', PList [PStr ''success'', PStr ''platform'']),
     (KStr ''properties'', PDict (COMMON_PROPERTIES @ [
      (KStr ''tests'', PDict [
       (KStr ''type'', PStr ''object''),
       (KStr ''properties'', PDict [
        (KStr ''create_vpc'', PDict [(KStr ''type'', PStr ''object'')]),
        (KStr ''sg_default_deny_inbound'', PDict [(KStr ''type'', PStr ''object'')]),
        (KStr ''sg_allows_specific_ssh'', PDict [(KStr ''type'', PStr ''object'')]),
        (KStr ''sg_denies_vpc_icmp'', PDict [(KStr ''type'', PStr ''object'')]),
        (KStr ''nacl_explicit_deny'', PDict [(KStr ''type'', PStr ''object'')]),
        (KStr ''default_nacl_allows_inbound'', PDict [(KStr ''type'', PStr ''object'')]),
        (KStr ''sg_restricted_egress'', PDict [(KStr ''type'', PStr ''object'')])]),
       (KStr ''description'', PStr ''Security blocking test results'')]),
      (KStr ''network_id'',
       PDict [(KStr ''type'', PStr ''string''), (KStr ''description'', PStr ''VPC ID'')])])),
     (KStr ''additionalProperties'', PBool True)]"

definition five_tuple_filtering_schema :: dict where
  "five_tuple_filtering_schema =
    [(KStr ''type'', PStr ''object''),
     (KStr ''required'', PList [PStr ''success'', PStr ''platform'']),
     (KStr ''properties'', PDict (COMMON_PROPERTIES @ [
      (KStr ''test_name'', PDict [
       (KStr ''type'', PStr ''string''),
       (KStr ''description'', PStr (''Always 'five_tuple_filtering'' @ [CHR 0x27]))]),
      (KStr ''baseline'', PDict [
       (KStr ''type'', PStr ''object''),
       (KStr ''required'', PList [PStr ''result'']),
       (KStr ''properties'', PDict [
        (KStr ''protocol'', PDict [
         (KStr ''type'', PStr ''string''),
         (KStr ''description'', PStr ''e.g. tcp, udp, icmp'')]),
        (KStr ''source_ip'', PDict [(KStr ''type'', PStr ''string'')]),
        (KStr ''destination_ip'', PDict [(KStr ''type'', PStr ''string'')]),
        (KStr ''source_port'', PDict [(KStr ''type'', PStr ''integer'')]),
        (KStr ''destination_port'', PDict [(KStr ''type'', PStr ''integer'')]),
        (KStr ''result'', PDict [
         (KStr ''type'', PStr ''string''),
         (KStr ''enum'',
          PList [PStr ''connected'', PStr ''refused'', PStr ''timeout'', PStr ''error''])])]),
       (KStr ''description'', PStr ''The one explicitly allowed flow; must connect''),
       (KStr ''additionalProperties'', PBool True)]),
      (KStr ''variants'', PDict [
       (KStr ''type'', PStr ''array''),
       (KStr ''items'', PDict [
        (KStr ''type'', PStr ''object''),
        (KStr ''required'', PList [PStr ''dimension'', PStr ''value'', PStr ''result'']),
        (KStr ''properties'', PDict [
         (KStr ''dimension'', PDict [
          (KStr ''type'', PStr ''string''),
          (KStr ''enum'', PList [
           PStr ''protocol'', PStr ''source_ip'', PStr ''destination_ip'', PStr ''source_port'',
           PStr ''destination_port''])]),
         (KStr ''value'', PDict [
          (KStr ''type'', PList [PStr ''string'', PStr ''integer'']),
          (KStr ''description'',
           PStr ''The value this variant sets the dimension to, in place of the baseline's'')]),
         (KStr ''result'', PDict [
          (KStr ''type'', PStr ''string''),
          (KStr ''enum'',
           PList [PStr ''connected'', PStr ''refused'', PStr ''timeout'', PStr ''error'']),
          (KStr ''description'',
           PStr ''Observed outcome; only 'timeout' counts as filtered'')])]),
        (KStr ''additionalProperties'', PBool True)]),
       (KStr ''description'',
        PStr ''Baseline flows differing in exactly one dimension; each must time out'')])])),
     (KStr ''if'', PDict [
      (KStr ''properties'', PDict [(KStr ''success'', PDict [(KStr ''const'', PBool True)])])]),
     (KStr ''then'', PDict [(KStr ''required'', PList [PStr ''baseline'', PStr ''variants''])]),
     (KStr ''additionalProperties'', PBool True)]"

definition traffic_flow_schema :: dict where
  "traffic_flow_schema =
    [(KStr ''type'', PStr ''object''),
     (KStr ''required'', PList [PStr ''success'', PStr ''platform'']),
     (KStr ''properties'', PDict (COMMON_PROPERTIES @ [
      (KStr ''tests'', PDict [
       (KStr ''type'', PStr ''object''),
       (KStr ''properties'', PDict [
        (KStr ''create_vpc'', PDict [(KStr ''type'', PStr ''object'')]),
        (KStr ''create_igw'', PDict [(KStr ''type'', PStr ''object'')]),
        (KStr ''network_setup'', PDict [(KStr ''type'', PStr ''object'')]),
        (KStr ''create_iam'', PDict [(KStr ''type'', PStr ''object'')]),
        (KStr ''create_security_groups'', PDict [(KStr ''type'', PStr ''object'')]),
        (KStr ''launch_instances'', PDict [(KStr ''type'', PStr ''object'')]),
        (KStr ''instances_running'', PDict [(KStr ''type'', PStr ''object'')]),
        (KStr ''ssm_ready'', PDict [(KStr ''type'', PStr ''object'')]),
        (KStr ''traffic_allowed'', PDict [(KStr ''type'', PStr ''object'')]),
        (KStr ''traffic_blocked'', PDict [(KStr ''type'', PStr ''object'')]),
        (KStr ''internet_icmp'', PDict [(KStr ''type'', PStr ''object'')]),
        (KStr ''internet_http'', PDict [(KStr ''type'', PStr ''object'')])]),
       (KStr ''description'', PStr ''Traffic flow test results'')]),
      (KStr ''network_id'',
       PDict [(KStr ''type'', PStr ''string''), (KStr ''description'', PStr ''VPC ID'')])])),
     (KStr ''additionalProperties'', PBool True)]"

definition connectivity_result_schema :: dict where
  "connectivity_result_schema =
    [(KStr ''type'', PStr ''object''),
     (KStr ''required'', PList [PStr ''success'', PStr ''platform'']),
     (KStr ''properties'', PDict (COMMON_PROPERTIES @ [
      (KStr ''tests'', PDict [
       (KStr ''type'', PStr ''object''),
       (KStr ''additionalProperties'', PBool True),
       (KStr ''description'', PStr ''Connectivity test results'')]),
      (KStr ''instances'', PDict [
       (KStr ''type'', PStr ''array''),
       (KStr ''items'', PDict [(KStr ''type'', PStr ''object'')]),
       (KStr ''description'', PStr ''Instance information'')]),
      (KStr ''network_id'', PDict [
       (KStr ''type'', PStr ''string''),
       (KStr ''description'', PStr ''VPC/Network ID'')])])),
     (KStr ''additionalProperties'', PBool True)]"

definition instance_launch_schema :: dict where
  "instance_launch_schema =
    [(KStr ''type'', PStr ''object''),
     (KStr ''required'', PList [PStr ''success'', PStr ''platform'']),
     (KStr ''properties'', PDict (COMMON_PROPERTIES @ [
      (KStr ''instances'', PDict [
       (KStr ''type'', PStr ''array''),
       (KStr ''items'', PDict [
        (KStr ''type'', PStr ''object''),
        (KStr ''properties'', PDict [
         (KStr ''instance_id'', PDict [(KStr ''type'', PStr ''string'')]),
         (KStr ''private_ip'', PDict [(KStr ''type'', PStr ''string'')]),
         (KStr ''public_ip'', PDict [(KStr ''type'', PStr ''string'')]),
         (KStr ''state'', PDict [(KStr ''type'', PStr ''string'')])])]),
       (KStr ''description'', PStr ''Launched instances'')])])),
     (KStr ''additionalProperties'', PBool True)]"

definition vpc_ip_config_schema :: dict where
  "vpc_ip_config_schema =
    [(KStr ''type'', PStr ''object''),
     (KStr ''required'', PList [PStr ''success'', PStr ''platform'']),
     (KStr ''properties'', PDict (COMMON_PROPERTIES @ [
      (KStr ''network_id'', PDict [
       (KStr ''type'', PStr ''string''),
       (KStr ''description'', PStr ''VPC/Network identifier'')]),
      (KStr ''cidr'',
       PDict [(KStr ''type'', PStr ''string''), (KStr ''description'', PStr ''VPC CIDR block'')]),
      (KStr ''subnets'', PDict [
       (KStr ''type'', PStr ''array''),
       (KStr ''items'', PDict [
        (KStr ''type'', PStr ''object''),
        (KStr ''properties'', PDict [
         (KStr ''subnet_id'', PDict [(KStr ''type'', PStr ''string'')]),
         (KStr ''cidr'', PDict [(KStr ''type'', PStr ''string'')]),
         (KStr ''az'', PDict [(KStr ''type'', PStr ''string'')]),
         (KStr ''auto_assign_public_ip'', PDict [(KStr ''type'', PStr ''boolean'')]),
         (KStr ''available_ips'', PDict [(KStr ''type'', PStr ''integer'')])])]),
       (KStr ''description'', PStr ''Subnet configurations with IP details'')]),
      (KStr ''dhcp_options'', PDict [
       (KStr ''type'', PStr ''object''),
       (KStr ''properties'', PDict [
        (KStr ''dhcp_options_id'', PDict [(KStr ''type'', PStr ''string'')]),
        (KStr ''domain_name'', PDict [(KStr ''type'', PStr ''string'')]),
        (KStr ''domain_name_servers'', PDict [
         (KStr ''type'', PStr ''array''),
         (KStr ''items'', PDict [(KStr ''type'', PStr ''string'')])]),
        (KStr ''ntp_servers'', PDict [
         (KStr ''type'', PStr ''array''),
         (KStr ''items'', PDict [(KStr ''type'', PStr ''string'')])])]),
       (KStr ''description'', PStr ''DHCP options configuration'')])])),
     (KStr ''additionalProperties'', PBool True)]"

definition dhcp_ip_schema :: dict where
  "dhcp_ip_schema =
    [(KStr ''type'', PStr ''object''),
     (KStr ''required'', PList [PStr ''success'', PStr ''platform'']),
     (KStr ''properties'', PDict (COMMON_PROPERTIES @ [
      (KStr ''test_name'', PDict [
       (KStr ''type'', PStr ''string''),
       (KStr ''description'', PStr (''Always 'dhcp_ip'' @ [CHR 0x27]))]),
      (KStr ''public_ip'', PDict [
       (KStr ''type'', PList [PStr ''string'', PStr ''null'']),
       (KStr ''description'', PStr ''SSH target address'')]),
      (KStr ''private_ip'', PDict [
       (KStr ''type'', PList [PStr ''string'', PStr ''null'']),
       (KStr ''description'', PStr ''Expected private IP'')]),
      (KStr ''key_file'', PDict [
       (KStr ''type'', PList [PStr ''string'', PStr ''null'']),
       (KStr ''description'', PStr ''SSH private key path'')]),
      (KStr ''key_name'', PDict [
       (KStr ''type'', PList [PStr ''string'', PStr ''null'']),
       (KStr ''description'', PStr ''Key pair name'')]),
      (KStr ''ssh_user'',
       PDict [(KStr ''type'', PStr ''string''), (KStr ''description'', PStr ''SSH username'')]),
      (KStr ''instance_id'', PDict [
       (KStr ''type'', PList [PStr ''string'', PStr ''null'']),
       (KStr ''description'', PStr ''Instance identifier'')])])),
     (KStr ''additionalProperties'', PBool True)]"

definition byoip_schema :: dict where
  "byoip_schema =
    [(KStr ''type'', PStr ''object''),
     (KStr ''required'', PList [PStr ''success'', PStr ''platform'']),
     (KStr ''properties'', PDict (COMMON_PROPERTIES @ [
      (KStr ''tests'', PDict [
       (KStr ''type'', PStr ''object''),
       (KStr ''properties'', PDict [
        (KStr ''custom_cidr_create'', PDict [(KStr ''type'', PStr ''object'')]),
        (KStr ''custom_cidr_verify'', PDict [(KStr ''type'', PStr ''object'')]),
        (KStr ''standard_cidr_create'', PDict [(KStr ''type'', PStr ''object'')]),
        (KStr ''no_conflict'', PDict [(KStr ''type'', PStr ''object'')]),
        (KStr ''custom_cidr_subnet'', PDict [(KStr ''type'', PStr ''object'')])]),
       (KStr ''description'', PStr ''BYOIP test results'')])])),
     (KStr ''additionalProperties'', PBool True)]"

definition stable_ip_schema :: dict where
  "stable_ip_schema =
    [(KStr ''type'', PStr ''object''),
     (KStr ''required'', PList [PStr ''success'', PStr ''platform'']),
     (KStr ''properties'', PDict (COMMON_PROPERTIES @ [
      (KStr ''tests'', PDict [
       (KStr ''type'', PStr ''object''),
       (KStr ''properties'', PDict [
        (KStr ''create_instance'', PDict [(KStr ''type'', PStr ''object'')]),
        (KStr ''record_ip'', PDict [(KStr ''type'', PStr ''object'')]),
        (KStr ''stop_instance'', PDict [(KStr ''type'', PStr ''object'')]),
        (KStr ''start_instance'', PDict [(KStr ''type'', PStr ''object'')]),
        (KStr ''ip_unchanged'', PDict [(KStr ''type'', PStr ''object'')])]),
       (KStr ''description'', PStr ''Stable private IP test results'')])])),
     (KStr ''additionalProperties'', PBool True)]"

definition stable_egress_ip_schema :: dict where
  "stable_egress_ip_schema =
    [(KStr ''type'', PStr ''object''),
     (KStr ''required'', PList [PStr ''success'', PStr ''platform'']),
     (KStr ''properties'', PDict (COMMON_PROPERTIES @ [
      (KStr ''tests'', PDict [
       (KStr ''type'', PStr ''object''),
       (KStr ''properties'', PDict [
        (KStr ''create_instance'', PDict [(KStr ''type'', PStr ''object'')]),
        (KStr ''probe_egress_ip'', PDict [(KStr ''type'', PStr ''object'')]),
        (KStr ''egress_ip_stable'', PDict [(KStr ''type'', PStr ''object'')])]),
       (KStr ''description'', PStr ''Stable egress IP test results'')])])),
     (KStr ''additionalProperties'', PBool True)]"

definition floating_ip_schema :: dict where
  "floating_ip_schema =
    [(KStr ''type'', PStr ''object''),
     (KStr ''required'', PList [PStr ''success'', PStr ''platform'']),
     (KStr ''properties'', PDict (COMMON_PROPERTIES @ [
      (KStr ''tests'', PDict [
       (KStr ''type'', PStr ''object''),
       (KStr ''properties'', PDict [
        (KStr ''allocate_eip'', PDict [(KStr ''type'', PStr ''object'')]),
        (KStr ''associate_to_a'', PDict [(KStr ''type'', PStr ''object'')]),
        (KStr ''verify_on_a'', PDict [(KStr ''type'', PStr ''object'')]),
        (KStr ''reassociate_to_b'', PDict [(KStr ''type'', PStr ''object'')]),
        (KStr ''verify_on_b'', PDict [(KStr ''type'', PStr ''object'')]),
        (KStr ''verify_not_on_a'', PDict [(KStr ''type'', PStr ''object'')])]),
       (KStr ''description'', PStr ''Floating IP test results'')])])),
     (KStr ''additionalProperties'', PBool True)]"

definition localized_dns_schema :: dict where
  "localized_dns_schema =
    [(KStr ''type'', PStr ''object''),
     (KStr ''required'', PList [PStr ''success'', PStr ''platform'']),
     (KStr ''properties'', PDict (COMMON_PROPERTIES @ [
      (KStr ''tests'', PDict [
       (KStr ''type'', PStr ''object''),
       (KStr ''properties'', PDict [
        (KStr ''create_vpc_with_dns'', PDict [(KStr ''type'', PStr ''object'')]),
        (KStr ''create_hosted_zone'', PDict [(KStr ''type'', PStr ''object'')]),
        (KStr ''create_dns_record'', PDict [(KStr ''type'', PStr ''object'')]),
        (KStr ''verify_dns_settings'', PDict [(KStr ''type'', PStr ''object'')]),
        (KStr ''resolve_record'', PDict [(KStr ''type'', PStr ''object'')])]),
       (KStr ''description'', PStr ''Localized DNS test results'')])])),
     (KStr ''additionalProperties'', PBool True)]"

definition vpc_peering_schema :: dict where
  "vpc_peering_schema =
    [(KStr ''type'', PStr ''object''),
     (KStr ''required'', PList [PStr ''success'', PStr ''platform'']),
     (KStr ''properties'', PDict (COMMON_PROPERTIES @ [
      (KStr ''tests'', PDict [
       (KStr ''type'', PStr ''object''),
       (KStr ''properties'', PDict [
        (KStr ''create_vpc_a'', PDict [(KStr ''type'', PStr ''object'')]),
        (KStr ''create_vpc_b'', PDict [(KStr ''type'', PStr ''object'')]),
        (KStr ''create_peering'', PDict [(KStr ''type'', PStr ''object'')]),
        (KStr ''accept_peering'', PDict [(KStr ''type'', PStr ''object'')]),
        (KStr ''add_routes'', PDict [(KStr ''type'', PStr ''object'')]),
        (KStr ''peering_active'', PDict [(KStr ''type'', PStr ''object'')])]),
       (KStr ''description'', PStr ''VPC peering test results'')]),
      (KStr ''vpc_a'', PDict [
       (KStr ''type'', PStr ''object''),
       (KStr ''properties'', PDict [
        (KStr ''id'', PDict [(KStr ''type'', PStr ''string'')]),
        (KStr ''cidr'', PDict [(KStr ''type'', PStr ''string'')])])]),
      (KStr ''vpc_b'', PDict [
       (KStr ''type'', PStr ''object''),
       (KStr ''properties'', PDict [
        (KStr ''id'', PDict [(KStr ''type'', PStr ''string'')]),
        (KStr ''cidr'', PDict [(KStr ''type'', PStr ''string'')])])])])),
     (KStr ''additionalProperties'', PBool True)]"

definition storage_l3_routing_schema :: dict where
  "storage_l3_routing_schema =
    [(KStr ''type'', PStr ''object''),
     (KStr ''required'', PList [PStr ''success'', PStr ''platform'']),
     (KStr ''properties'', PDict (COMMON_PROPERTIES @ [
      (KStr ''tests'', PDict [
       (KStr ''type'', PStr ''object''),
       (KStr ''properties'', PDict [
        (KStr ''distinct_subnets'', PDict [(KStr ''type'', PStr ''object'')]),
        (KStr ''all_to_all_reachable'', PDict [(KStr ''type'', PStr ''object'')]),
        (KStr ''cross_subnet_routing'', PDict [(KStr ''type'', PStr ''object'')]),
        (KStr ''no_gateway_hop'', PDict [(KStr ''type'', PStr ''object'')])]),
       (KStr ''description'', PStr ''All-to-all storage host L3 routing test results'')])])),
     (KStr ''additionalProperties'', PBool True)]"

definition backend_switch_fabric_schema :: dict where
  "backend_switch_fabric_schema =
    [(KStr ''type'', PStr ''object''),
     (KStr ''required'', PList [
      PStr ''success'', PStr ''platform'', PStr ''node_id'', PStr ''fabric'', PStr ''tests'']),
     (KStr ''properties'', PDict (COMMON_PROPERTIES @ [
      (KStr ''test_name'', PDict [
       (KStr ''type'', PStr ''string''),
       (KStr ''description'', PStr (''Always 'backend_switch_fabric'' @ [CHR 0x27]))]),
      (KStr ''node_id'', PDict [
       (KStr ''type'', PStr ''string''),
       (KStr ''minLength'', PInt 1),
       (KStr ''description'', PStr ''Compute node identifier'')]),
      (KStr ''fabric'', PDict [
       (KStr ''type'', PStr ''object''),
       (KStr ''required'',
        PList [PStr ''leaf_switch_ids'', PStr ''spine_switch_ids'', PStr ''core_switch_ids'']),
       (KStr ''properties'', PDict [
        (KStr ''leaf_switch_ids'', PDict [
         (KStr ''type'', PStr ''array''),
         (KStr ''minItems'', PInt 1),
         (KStr ''items'',
          PDict [(KStr ''type'', PStr ''string''), (KStr ''minLength'', PInt 1)])]),
        (KStr ''spine_switch_ids'', PDict [
         (KStr ''type'', PStr ''array''),
         (KStr ''minItems'', PInt 1),
         (KStr ''items'',
          PDict [(KStr ''type'', PStr ''string''), (KStr ''minLength'', PInt 1)])]),
        (KStr ''core_switch_ids'', PDict [
         (KStr ''type'', PStr ''array''),
         (KStr ''minItems'', PInt 1),
         (KStr ''items'',
          PDict [(KStr ''type'', PStr ''string''), (KStr ''minLength'', PInt 1)])])]),
       (KStr ''description'', PStr ''Backend switch identifiers by fabric layer'')]),
      (KStr ''tests'', PDict [
       (KStr ''type'', PStr ''object''),
       (KStr ''required'', PList [
        PStr ''node_resolved'', PStr ''leaf_switch_ids_present'',
        PStr ''spine_switch_ids_present'', PStr ''core_switch_ids_present'']),
       (KStr ''properties'', PDict [
        (KStr ''node_resolved'', PDict [(KStr ''type'', PStr ''object'')]),
        (KStr ''leaf_switch_ids_present'', PDict [(KStr ''type'', PStr ''object'')]),
        (KStr ''spine_switch_ids_present'', PDict [(KStr ''type'', PStr ''object'')]),
        (KStr ''core_switch_ids_present'', PDict [(KStr ''type'', PStr ''object'')])]),
       (KStr ''description'', PStr ''Backend switch fabric metadata checks'')])])),
     (KStr ''additionalProperties'', PBool True)]"

definition nvlink_domain_schema :: dict where
  "nvlink_domain_schema =
    [(KStr ''type'', PStr ''object''),
     (KStr ''required'', PList [
      PStr ''success'', PStr ''platform'', PStr ''node_id'', PStr ''nvlink_supported'',
      PStr ''tests'']),
     (KStr ''properties'', PDict (COMMON_PROPERTIES @ [
      (KStr ''test_name'', PDict [
       (KStr ''type'', PStr ''string''),
       (KStr ''description'', PStr (''Always 'nvlink_domain'' @ [CHR 0x27]))]),
      (KStr ''node_id'', PDict [
       (KStr ''type'', PStr ''string''),
       (KStr ''minLength'', PInt 1),
       (KStr ''description'', PStr ''Compute node identifier'')]),
      (KStr ''nvlink_supported'', PDict [
       (KStr ''type'', PStr ''boolean''),
       (KStr ''description'', PStr ''Whether the node supports NVLink'')]),
      (KStr ''nvlink_domain_id'', PDict [
       (KStr ''type'', PStr ''string''),
       (KStr ''minLength'', PInt 1),
       (KStr ''description'', PStr ''NVLink domain identifier'')]),
      (KStr ''tests'', PDict [
       (KStr ''type'', PStr ''object''),
       (KStr ''required'', PList [
        PStr ''node_resolved'', PStr ''nvlink_support_detected'',
        PStr ''nvlink_domain_id_present'']),
       (KStr ''properties'', PDict [
        (KStr ''node_resolved'', PDict [(KStr ''type'', PStr ''object'')]),
        (KStr ''nvlink_support_detected'', PDict [(KStr ''type'', PStr ''object'')]),
        (KStr ''nvlink_domain_id_present'', PDict [(KStr ''type'', PStr ''object'')])]),
       (KStr ''description'', PStr ''NVLink domain metadata checks'')])])),
     (KStr ''if'', PDict [
      (KStr ''properties'',
       PDict [(KStr ''nvlink_supported'', PDict [(KStr ''const'', PBool True)])])]),
     (KStr ''then'', PDict [(KStr ''required'', PList [PStr ''nvlink_domain_id''])]),
     (KStr ''additionalProperties'', PBool True)]"

definition imex_domain_schema :: dict where
  "imex_domain_schema =
    [(KStr ''type'', PStr ''object''),
     (KStr ''required'',
      PList [PStr ''success'', PStr ''platform'', PStr ''domain'', PStr ''nodes'']),
     (KStr ''properties'', PDict (COMMON_PROPERTIES @ [
      (KStr ''test_name'', PDict [
       (KStr ''type'', PStr ''string''),
       (KStr ''description'', PStr (''Always 'imex_domain'' @ [CHR 0x27]))]),
      (KStr ''domain'', PDict [
       (KStr ''type'', PStr ''object''),
       (KStr ''required'', PList [PStr ''domain_id'', PStr ''state'', PStr ''expected_members'']),
       (KStr ''properties'', PDict [
        (KStr ''domain_id'', PDict [
         (KStr ''type'', PStr ''string''),
         (KStr ''description'', PStr ''IMEX domain identifier'')]),
        (KStr ''state'', PDict [
         (KStr ''type'', PStr ''string''),
         (KStr ''description'',
          PStr (''Normalized domain state; operational when 'up'' @ [CHR 0x27]))]),
        (KStr ''expected_members'', PDict [
         (KStr ''type'', PStr ''array''),
         (KStr ''items'', PDict [(KStr ''type'', PStr ''string''), (KStr ''minLength'', PInt 1)]),
         (KStr ''description'', PStr ''Node IDs expected to have joined the IMEX domain'')]),
        (KStr ''fully_connected'', PDict [
         (KStr ''type'', PStr ''boolean''),
         (KStr ''description'',
          PStr ''Provider-reported aggregate connectivity claim. Carried for reporting only - ImexDomainConnectivityCheck deliberately ignores it and recomputes pairwise connectivity from each node's peers_reachable so a one-way fault cannot pass.'')])]),
       (KStr ''additionalProperties'', PBool True),
       (KStr ''description'', PStr ''Domain-level state and expected membership'')]),
      (KStr ''nodes'', PDict [
       (KStr ''type'', PStr ''array''),
       (KStr ''items'', PDict [
        (KStr ''type'', PStr ''object''),
        (KStr ''required'', PList [PStr ''node_id'']),
        (KStr ''properties'', PDict [
         (KStr ''node_id'', PDict [
          (KStr ''type'', PStr ''string''),
          (KStr ''minLength'', PInt 1),
          (KStr ''description'', PStr ''Node identifier'')]),
         (KStr ''service_state'', PDict [
          (KStr ''type'', PStr ''string''),
          (KStr ''description'',
           PStr ''IMEX service state on the node; reported only, not asserted on'')]),
         (KStr ''domain_member'', PDict [
          (KStr ''type'', PStr ''boolean''),
          (KStr ''description'',
           PStr ''Whether this node reports itself as a member of the domain'')]),
         (KStr ''peers_reachable'', PDict [
          (KStr ''type'', PStr ''array''),
          (KStr ''items'',
           PDict [(KStr ''type'', PStr ''string''), (KStr ''minLength'', PInt 1)]),
          (KStr ''description'', PStr ''Peer node IDs this node observes as reachable'')])]),
        (KStr ''additionalProperties'', PBool True)]),
       (KStr ''description'', PStr ''Per-node domain reports, one per queried member'')]),
      (KStr ''nodes_checked'', PDict [
       (KStr ''type'', PStr ''integer''),
       (KStr ''description'', PStr ''How many members were queried'')]),
      (KStr ''nodes_validated'', PDict [
       (KStr ''type'', PStr ''integer''),
       (KStr ''description'', PStr ''How many members returned a usable report'')]),
      (KStr ''skipped'', PDict [
       (KStr ''type'', PStr ''boolean''),
       (KStr ''description'', PStr ''True when no IMEX domain was configured for the run'')]),
      (KStr ''skip_reason'', PDict [
       (KStr ''type'', PStr ''string''),
       (KStr ''description'', PStr ''Why the IMEX domain check was skipped'')])])),
     (KStr ''additionalProperties'', PBool True)]"

definition imex_service_schema :: dict where
  "imex_service_schema =
    [(KStr ''type'', PStr ''object''),
     (KStr ''required'', PList [PStr ''success'', PStr ''platform'', PStr ''nodes'']),
     (KStr ''properties'', PDict (COMMON_PROPERTIES @ [
      (KStr ''test_name'', PDict [
       (KStr ''type'', PStr ''string''),
       (KStr ''description'', PStr (''Always 'imex_service'' @ [CHR 0x27]))]),
      (KStr ''nodes'', PDict [
       (KStr ''type'', PStr ''array''),
       (KStr ''items'', PDict [
        (KStr ''type'', PStr ''object''),
        (KStr ''required'', PList [PStr ''node_id'']),
        (KStr ''properties'', PDict [
         (KStr ''node_id'', PDict [
          (KStr ''type'', PStr ''string''),
          (KStr ''minLength'', PInt 1),
          (KStr ''description'', PStr ''Node identifier'')]),
         (KStr ''in_nvlink_allocation'', PDict [
          (KStr ''type'', PStr ''boolean''),
          (KStr ''description'',
           PStr ''Whether the node belongs to a multi-node NVLink allocation. Set from the allocation, not the node's self-report, so a node cannot opt itself out of scope.'')]),
         (KStr ''service_present'', PDict [
          (KStr ''type'', PStr ''boolean''),
          (KStr ''description'',
           PStr ''Whether the IMEX daemon ships in the delivered node image'')]),
         (KStr ''control_tooling_present'', PDict [
          (KStr ''type'', PStr ''boolean''),
          (KStr ''description'',
           PStr ''Whether the IMEX control tooling is present and invocable'')]),
         (KStr ''service_registration'', PDict [
          (KStr ''type'', PStr ''string''),
          (KStr ''enum'',
           PList [PStr ''loaded'', PStr ''masked'', PStr ''not_found'', PStr ''error'']),
          (KStr ''description'',
           PStr ''Normalized service-manager registration state, queried from the manager rather than the filesystem. Only 'loaded' passes; 'masked' is a deployment-model mismatch.'')]),
         (KStr ''boot_disposition'', PDict [
          (KStr ''type'', PStr ''string''),
          (KStr ''enum'', PList [
           PStr ''enabled'', PStr ''disabled'', PStr ''static'', PStr ''none'',
           PStr ''unknown'']),
          (KStr ''description'',
           PStr ''Normalized boot disposition, reported as evidence and never asserted on'')])]),
        (KStr ''additionalProperties'', PBool True)]),
       (KStr ''description'', PStr ''Per-node IMEX service/tooling reports'')]),
      (KStr ''nodes_checked'', PDict [
       (KStr ''type'', PStr ''integer''),
       (KStr ''description'', PStr ''How many nodes were examined'')]),
      (KStr ''nodes_validated'', PDict [
       (KStr ''type'', PStr ''integer''),
       (KStr ''description'', PStr ''How many nodes returned a usable report'')]),
      (KStr ''skipped'', PDict [
       (KStr ''type'', PStr ''boolean''),
       (KStr ''description'', PStr ''True when no nodes were configured for the run'')]),
      (KStr ''skip_reason'', PDict [
       (KStr ''type'', PStr ''string''),
       (KStr ''description'', PStr ''Why the IMEX service check was skipped'')])])),
     (KStr ''additionalProperties'', PBool True)]"

definition imex_resilience_schema :: dict where
  "imex_resilience_schema =
    [(KStr ''type'', PStr ''object''),
     (KStr ''required'', PList [PStr ''success'', PStr ''platform'']),
     (KStr ''properties'', PDict (COMMON_PROPERTIES @ [
      (KStr ''test_name'', PDict [
       (KStr ''type'', PStr ''string''),
       (KStr ''description'', PStr (''Always 'imex_resilience'' @ [CHR 0x27]))]),
      (KStr ''node_id'', PDict [
       (KStr ''type'', PStr ''string''),
       (KStr ''description'', PStr ''Node under test; empty on a skipped run'')]),
      (KStr ''operations'', PDict [
       (KStr ''type'', PStr ''object''),
       (KStr ''properties'', PDict [
        (KStr ''unaided_presence'', PDict [
         (KStr ''type'', PStr ''object''),
         (KStr ''properties'', PDict [
          (KStr ''running_on_arrival'', PDict [
           (KStr ''type'', PStr ''boolean''),
           (KStr ''description'',
            PStr ''Whether IMEX was already running when the check arrived'')]),
          (KStr ''domain_member'', PDict [
           (KStr ''type'', PStr ''boolean''),
           (KStr ''description'',
            PStr ''Whether the node was an operational domain member on arrival'')]),
          (KStr ''started_by_test'', PDict [
           (KStr ''type'', PStr ''boolean''),
           (KStr ''description'',
            PStr ''Must be false. Recorded so the unaided observation is auditable - the check observes a running service and never starts one.'')]),
          (KStr ''boot_persistence_configured'', PDict [
           (KStr ''type'', PStr ''boolean''),
           (KStr ''description'',
            PStr ''Whether the service is configured to return after a node restart'')])]),
         (KStr ''additionalProperties'', PBool True)]),
        (KStr ''terminate'', PDict [
         (KStr ''type'', PStr ''object''),
         (KStr ''properties'', PDict [
          (KStr ''method'', PDict [
           (KStr ''type'', PStr ''string''),
           (KStr ''enum'', PList [PStr ''kill'']),
           (KStr ''description'',
            PStr ''Only an outright kill is valid. A supervisor is expected not to restart a graceful stop, so a stop would fail on a correct node.'')]),
          (KStr ''confirmed'', PDict [
           (KStr ''type'', PStr ''boolean''),
           (KStr ''description'',
            PStr ''Whether the daemon was confirmed terminated before recovery timing'')])]),
         (KStr ''additionalProperties'', PBool True)]),
        (KStr ''recovery'', PDict [
         (KStr ''type'', PStr ''object''),
         (KStr ''properties'', PDict [
          (KStr ''domain_member'', PDict [
           (KStr ''type'', PStr ''boolean''),
           (KStr ''description'',
            PStr ''Whether the node returned to operational domain membership'')]),
          (KStr ''elapsed_seconds'', PDict [
           (KStr ''type'', PStr ''number''),
           (KStr ''minimum'', PInt 0),
           (KStr ''description'',
            PStr ''Observed recovery time, reported on pass and on fail'')]),
          (KStr ''operator_intervention'', PDict [
           (KStr ''type'', PStr ''boolean''),
           (KStr ''description'', PStr ''Must be false - recovery has to be automatic'')])]),
         (KStr ''additionalProperties'', PBool True)]),
        (KStr ''restore'', PDict [
         (KStr ''type'', PStr ''object''),
         (KStr ''description'', PStr ''Teardown evidence that prior state was put back''),
         (KStr ''additionalProperties'', PBool True)])]),
       (KStr ''additionalProperties'', PBool True)]),
      (KStr ''skipped'', PDict [
       (KStr ''type'', PStr ''boolean''),
       (KStr ''description'', PStr ''True when no node was configured for the run'')]),
      (KStr ''skip_reason'', PDict [
       (KStr ''type'', PStr ''string''),
       (KStr ''description'', PStr ''Why the IMEX resilience check was skipped'')])])),
     (KStr ''additionalProperties'', PBool True)]"

definition imex_departure_schema :: dict where
  "imex_departure_schema =
    [(KStr ''type'', PStr ''object''),
     (KStr ''required'', PList [PStr ''success'', PStr ''platform'']),
     (KStr ''properties'', PDict (COMMON_PROPERTIES @ [
      (KStr ''test_name'', PDict [
       (KStr ''type'', PStr ''string''),
       (KStr ''description'', PStr (''Always 'imex_departure'' @ [CHR 0x27]))]),
      (KStr ''target_node'', PDict [
       (KStr ''type'', PStr ''string''),
       (KStr ''description'', PStr ''Node whose service was stopped'')]),
      (KStr ''operations'', PDict [
       (KStr ''type'', PStr ''object''),
       (KStr ''properties'', PDict [
        (KStr ''prior_state'', PDict [
         (KStr ''type'', PStr ''object''),
         (KStr ''description'',
          PStr ''The target's state before anything was disturbed. Recorded so an already-stopped node cannot report a departure the check never caused.''),
         (KStr ''properties'', PDict [
          (KStr ''service_state'', PDict [
           (KStr ''type'', PStr ''string''),
           (KStr ''description'', PStr ''Service state before the stop'')]),
          (KStr ''domain_member'', PDict [
           (KStr ''type'', PStr ''boolean''),
           (KStr ''description'',
            PStr ''Whether the target was an operational domain member before the stop'')])]),
         (KStr ''additionalProperties'', PBool True)]),
        (KStr ''stop'', PDict [
         (KStr ''type'', PStr ''object''),
         (KStr ''properties'', PDict [
          (KStr ''requested'', PDict [
           (KStr ''type'', PStr ''boolean''),
           (KStr ''description'',
            PStr ''Whether a deliberate stop was requested via the service manager'')]),
          (KStr ''clean_exit'', PDict [
           (KStr ''type'', PStr ''boolean''),
           (KStr ''description'',
            PStr ''Whether the service shut down cleanly rather than being killed'')])]),
         (KStr ''additionalProperties'', PBool True)]),
        (KStr ''peer_convergence'', PDict [
         (KStr ''type'', PStr ''object''),
         (KStr ''properties'', PDict [
          (KStr ''observed_from'', PDict [
           (KStr ''type'', PStr ''string''),
           (KStr ''description'', PStr ''Surviving member the observation was made from'')]),
          (KStr ''target_reported'', PDict [
           (KStr ''type'', PStr ''string''),
           (KStr ''enum'', PList [PStr ''available'', PStr ''unavailable'', PStr ''unknown'']),
           (KStr ''description'',
            PStr ''Normalized peer view of the stopped node. The provider script maps vendor state onto this enum so the validation never substring-matches raw output.'')]),
          (KStr ''elapsed_seconds'', PDict [
           (KStr ''type'', PStr ''number''),
           (KStr ''minimum'', PInt 0),
           (KStr ''description'',
            PStr ''Time for the surviving member to observe the departure'')]),
          (KStr ''surviving_members_operational'', PDict [
           (KStr ''type'', PStr ''boolean''),
           (KStr ''description'',
            PStr ''Whether the domain stayed operational among the remaining members'')])]),
         (KStr ''additionalProperties'', PBool True)]),
        (KStr ''restore'', PDict [
         (KStr ''type'', PStr ''object''),
         (KStr ''description'',
          PStr ''Mandatory teardown evidence that the departed node was put back''),
         (KStr ''properties'', PDict [
          (KStr ''restored_to'', PDict [
           (KStr ''type'', PStr ''string''),
           (KStr ''description'',
            PStr ''Service state the node was left in; must be 'active' to pass'')]),
          (KStr ''domain_member'', PDict [
           (KStr ''type'', PStr ''boolean''),
           (KStr ''description'',
            PStr ''Whether the restored node is an operational domain member again'')])]),
         (KStr ''additionalProperties'', PBool True)])]),
       (KStr ''additionalProperties'', PBool True)]),
      (KStr ''skipped'', PDict [
       (KStr ''type'', PStr ''boolean''),
       (KStr ''description'', PStr ''True when no nodes were configured for the run'')]),
      (KStr ''skip_reason'', PDict [
       (KStr ''type'', PStr ''string''),
       (KStr ''description'', PStr ''Why the IMEX departure check was skipped'')])])),
     (KStr ''additionalProperties'', PBool True)]"

definition imex_reboot_schema :: dict where
  "imex_reboot_schema =
    [(KStr ''type'', PStr ''object''),
     (KStr ''required'', PList [PStr ''success'', PStr ''platform'']),
     (KStr ''properties'', PDict (COMMON_PROPERTIES @ [
      (KStr ''test_name'', PDict [
       (KStr ''type'', PStr ''string''),
       (KStr ''description'', PStr (''Always 'imex_reboot'' @ [CHR 0x27]))]),
      (KStr ''node_id'', PDict [
       (KStr ''type'', PStr ''string''),
       (KStr ''description'', PStr ''Node that was rebooted'')]),
      (KStr ''prior_state'', PDict [
       (KStr ''type'', PStr ''object''),
       (KStr ''description'',
        PStr ''The node's state before the reboot. Recorded so a node that was not already an active domain member cannot report a rejoin it never performed.''),
       (KStr ''properties'', PDict [
        (KStr ''service_state'', PDict [
         (KStr ''type'', PStr ''string''),
         (KStr ''description'', PStr ''Service state before the reboot'')]),
        (KStr ''domain_member'', PDict [
         (KStr ''type'', PStr ''boolean''),
         (KStr ''description'',
          PStr ''Whether the node was an operational domain member before the reboot'')])]),
       (KStr ''additionalProperties'', PBool True)]),
      (KStr ''persistence_configured'', PDict [
       (KStr ''type'', PStr ''boolean''),
       (KStr ''description'', PStr ''Whether IMEX was set to start at boot before the reboot'')]),
      (KStr ''reboot_confirmed'', PDict [
       (KStr ''type'', PStr ''boolean''),
       (KStr ''description'',
        PStr ''Whether the reboot was affirmatively confirmed by uptime going backwards. Reachability alone is not evidence, since a node that never rebooted is reachable too.'')]),
      (KStr ''uptime_seconds'', PDict [
       (KStr ''type'', PStr ''number''),
       (KStr ''minimum'', PInt 0),
       (KStr ''description'', PStr ''Uptime observed after the reboot'')]),
      (KStr ''post_reboot'', PDict [
       (KStr ''type'', PStr ''object''),
       (KStr ''properties'', PDict [
        (KStr ''service_ready'', PDict [
         (KStr ''type'', PStr ''boolean''),
         (KStr ''description'',
          PStr ''Whether the IMEX service returned to service after boot'')]),
        (KStr ''domain_member'', PDict [
         (KStr ''type'', PStr ''boolean''),
         (KStr ''description'', PStr ''Whether the node rejoined its domain'')]),
        (KStr ''elapsed_seconds'', PDict [
         (KStr ''type'', PStr ''number''),
         (KStr ''minimum'', PInt 0),
         (KStr ''description'',
          PStr ''Boot to domain membership, reported on pass and on fail'')]),
        (KStr ''intervention_required'', PDict [
         (KStr ''type'', PStr ''boolean''),
         (KStr ''description'', PStr ''Must be false - the return has to be unassisted'')])]),
       (KStr ''additionalProperties'', PBool True)]),
      (KStr ''skipped'', PDict [
       (KStr ''type'', PStr ''boolean''),
       (KStr ''description'', PStr ''True when no node was configured for the run'')]),
      (KStr ''skip_reason'', PDict [
       (KStr ''type'', PStr ''string''),
       (KStr ''description'', PStr ''Why the IMEX reboot check was skipped'')])])),
     (KStr ''additionalProperties'', PBool True)]"

definition allow_rule_approval_schema :: dict where
  "allow_rule_approval_schema =
    [(KStr ''type'', PStr ''object''),
     (KStr ''required'', PList [PStr ''success'', PStr ''platform'']),
     (KStr ''properties'', PDict (COMMON_PROPERTIES @ [
      (KStr ''test_name'', PDict [(KStr ''type'', PStr ''string'')]),
      (KStr ''observed_at'', PDict [(KStr ''type'', PStr ''string'')]),
      (KStr ''effective_rule'', PDict [(KStr ''type'', PStr ''object'')]),
      (KStr ''approval'', PDict [(KStr ''type'', PStr ''object'')])])),
     (KStr ''additionalProperties'', PBool True)]"

definition segment_boundary_schema :: dict where
  "segment_boundary_schema =
    [(KStr ''type'', PStr ''object''),
     (KStr ''required'', PList [PStr ''success'', PStr ''platform'']),
     (KStr ''properties'', PDict (COMMON_PROPERTIES @ [
      (KStr ''test_name'', PDict [
       (KStr ''type'', PStr ''string''),
       (KStr ''description'', PStr (''Always 'segment_boundary'' @ [CHR 0x27]))]),
      (KStr ''positive_control'', PDict (BOUNDARY_FLOW_SCHEMA @ [
       (KStr ''description'',
        PStr ''The explicitly allowed flow across the tested segment boundary; must connect'')])),
      (KStr ''prohibited_flows'', PDict [
       (KStr ''type'', PStr ''array''),
       (KStr ''items'', PDict BOUNDARY_FLOW_SCHEMA),
       (KStr ''description'',
        PStr ''Flows the default policy must drop; each must time out'')])])),
     (KStr ''if'', PDict [
      (KStr ''properties'', PDict [(KStr ''success'', PDict [(KStr ''const'', PBool True)])])]),
     (KStr ''then'',
      PDict [(KStr ''required'', PList [PStr ''positive_control'', PStr ''prohibited_flows''])]),
     (KStr ''additionalProperties'', PBool True)]"

definition sg_crud_schema :: dict where
  "sg_crud_schema =
    [(KStr ''type'', PStr ''object''),
     (KStr ''required'', PList [PStr ''success'', PStr ''platform'']),
     (KStr ''properties'', PDict (COMMON_PROPERTIES @ [
      (KStr ''tests'', PDict [
       (KStr ''type'', PStr ''object''),
       (KStr ''properties'', PDict [
        (KStr ''create_vpc'', PDict [(KStr ''type'', PStr ''object'')]),
        (KStr ''create_sg'', PDict [(KStr ''type'', PStr ''object'')]),
        (KStr ''read_sg'', PDict [(KStr ''type'', PStr ''object'')]),
        (KStr ''update_sg_add_rule'', PDict [(KStr ''type'', PStr ''object'')]),
        (KStr ''update_sg_modify_rule'', PDict [(KStr ''type'', PStr ''object'')]),
        (KStr ''update_sg_remove_rule'', PDict [(KStr ''type'', PStr ''object'')]),
        (KStr ''delete_sg'', PDict [(KStr ''type'', PStr ''object'')]),
        (KStr ''verify_deleted'', PDict [(KStr ''type'', PStr ''object'')])]),
       (KStr ''description'', PStr ''Security group CRUD test results'')]),
      (KStr ''network_id'',
       PDict [(KStr ''type'', PStr ''string''), (KStr ''description'', PStr ''VPC ID'')])])),
     (KStr ''additionalProperties'', PBool True)]"

definition generic_schema :: dict where
  "generic_schema =
    [(KStr ''type'', PStr ''object''),
     (KStr ''required'', PList [PStr ''success'', PStr ''platform'']),
     (KStr ''properties'', PDict COMMON_PROPERTIES),
     (KStr ''additionalProperties'', PBool True),
     (KStr ''description'', PStr ''Generic schema for unrecognized step names'')]"

definition multi_cluster_schema :: dict where
  "multi_cluster_schema =
    [(KStr ''type'', PStr ''object''),
     (KStr ''required'', PList [
      PStr ''success'', PStr ''platform'', PStr ''test_id'', PStr ''tenancy_id'',
      PStr ''network_id'', PStr ''clusters'']),
     (KStr ''properties'', PDict (COMMON_PROPERTIES @ [
      (KStr ''test_id'', PDict [
       (KStr ''type'', PStr ''string''),
       (KStr ''description'', PStr ''Validation test identifier'')]),
      (KStr ''tenancy_id'', PDict [
       (KStr ''type'', PStr ''string''),
       (KStr ''minLength'', PInt 1),
       (KStr ''description'', PStr ''Cloud account or tenancy identifier'')]),
      (KStr ''network_id'', PDict [
       (KStr ''type'', PStr ''string''),
       (KStr ''minLength'', PInt 1),
       (KStr ''description'', PStr ''Shared network/VPC identifier'')]),
      (KStr ''clusters'', PDict [
       (KStr ''type'', PStr ''array''),
       (KStr ''minItems'', PInt 2),
       (KStr ''items'', PDict [
        (KStr ''type'', PStr ''object''),
        (KStr ''required'', PList [
         PStr ''name'', PStr ''tenancy_id'', PStr ''network_id'', PStr ''status'',
         PStr ''cluster_uid'', PStr ''api_ready'', PStr ''ready_node_count'']),
        (KStr ''properties'', PDict [
         (KStr ''name'', PDict [
          (KStr ''type'', PStr ''string''),
          (KStr ''minLength'', PInt 1),
          (KStr ''description'', PStr ''Cluster name'')]),
         (KStr ''role'', PDict [
          (KStr ''type'', PStr ''string''),
          (KStr ''description'', PStr ''Optional provider role label for this cluster'')]),
         (KStr ''tenancy_id'', PDict [
          (KStr ''type'', PStr ''string''),
          (KStr ''minLength'', PInt 1),
          (KStr ''description'', PStr ''Cloud account or tenancy identifier for this cluster'')]),
         (KStr ''network_id'', PDict [
          (KStr ''type'', PStr ''string''),
          (KStr ''minLength'', PInt 1),
          (KStr ''description'', PStr ''Network/VPC identifier reported by this cluster'')]),
         (KStr ''status'', PDict [
          (KStr ''type'', PStr ''string''),
          (KStr ''minLength'', PInt 1),
          (KStr ''description'', PStr ''Cluster lifecycle status'')]),
         (KStr ''cluster_uid'', PDict [
          (KStr ''type'', PStr ''string''),
          (KStr ''minLength'', PInt 1),
          (KStr ''description'',
           PStr ''kube-system namespace UID read from the live cluster API'')]),
         (KStr ''api_ready'', PDict [
          (KStr ''type'', PStr ''boolean''),
          (KStr ''description'', PStr ''Whether the live /readyz probe succeeded'')]),
         (KStr ''ready_node_count'', PDict [
          (KStr ''type'', PStr ''integer''),
          (KStr ''minimum'', PInt 0),
          (KStr ''description'', PStr ''Ready node count read from this cluster API'')])]),
        (KStr ''additionalProperties'', PBool True)]),
       (KStr ''description'', PStr ''Clusters participating in the shared-network proof'')])])),
     (KStr ''additionalProperties'', PBool True)]"

definition node_pool_schema :: dict where
  "node_pool_schema =
    [(KStr ''type'', PStr ''object''),
     (KStr ''required'', PList [
      PStr ''success'', PStr ''platform'', PStr ''node_pool_name'', PStr ''label_selector'',
      PStr ''expected_replicas'']),
     (KStr ''properties'', PDict (COMMON_PROPERTIES @ [
      (KStr ''node_pool_name'', PDict [
       (KStr ''type'', PStr ''string''),
       (KStr ''description'', PStr ''Name of the created node pool'')]),
      (KStr ''label_selector'', PDict [
       (KStr ''type'', PStr ''string''),
       (KStr ''description'',
        PStr ''kubectl label selector that identifies the new nodes (e.g. eks.amazonaws.com/nodegroup=<name>)'')]),
      (KStr ''expected_replicas'', PDict [
       (KStr ''type'', PStr ''integer''),
       (KStr ''minimum'', PInt 0),
       (KStr ''description'', PStr ''Node count that must reach Ready'')]),
      (KStr ''expected_labels_json'', PDict [
       (KStr ''type'', PStr ''string''),
       (KStr ''description'', PStr ''JSON-encoded mapping of labels each node must carry'')]),
      (KStr ''expected_taints_json'', PDict [
       (KStr ''type'', PStr ''string''),
       (KStr ''description'',
        PStr ''JSON-encoded list of {key,value,effect} each node must carry'')]),
      (KStr ''expected_instance_types_json'', PDict [
       (KStr ''type'', PStr ''string''),
       (KStr ''description'', PStr ''JSON-encoded list of allowed instance-type strings'')]),
      (KStr ''node_type'', PDict [
       (KStr ''type'', PStr ''string''),
       (KStr ''enum'', PList [PStr ''cpu'', PStr ''gpu'']),
       (KStr ''description'', PStr ''Informational node pool flavor'')])])),
     (KStr ''additionalProperties'', PBool True)]"

definition control_plane_size_schema :: dict where
  "control_plane_size_schema =
    [(KStr ''type'', PStr ''object''),
     (KStr ''required'', PList [
      PStr ''success'', PStr ''platform'', PStr ''requested_instance_count'',
      PStr ''instance_count'']),
     (KStr ''properties'', PDict (COMMON_PROPERTIES @ [
      (KStr ''requested_instance_count'', PDict [
       (KStr ''type'', PStr ''integer''),
       (KStr ''minimum'', PInt 1),
       (KStr ''description'', PStr ''Control-plane instance count the tenant pinned'')]),
      (KStr ''instance_count'', PDict [
       (KStr ''type'', PStr ''integer''),
       (KStr ''minimum'', PInt 0),
       (KStr ''description'',
        PStr ''Control-plane instance count the provider runs after the pin'')])])),
     (KStr ''additionalProperties'', PBool True)]"

definition k8s_upstream_versions_schema :: dict where
  "k8s_upstream_versions_schema =
    [(KStr ''type'', PStr ''object''),
     (KStr ''required'', PList [PStr ''success'', PStr ''platform'', PStr ''cycles_json'']),
     (KStr ''properties'', PDict (COMMON_PROPERTIES @ [
      (KStr ''cycles_json'', PDict [
       (KStr ''type'', PStr ''string''),
       (KStr ''description'',
        PStr ''JSON-encoded list of upstream release cycles, each {minor, released, latest_patch, latest_patch_released}'')])])),
     (KStr ''additionalProperties'', PBool True)]"

definition k8s_offered_versions_schema :: dict where
  "k8s_offered_versions_schema =
    [(KStr ''type'', PStr ''object''),
     (KStr ''required'', PList [PStr ''success'', PStr ''platform'', PStr ''offered_versions'']),
     (KStr ''properties'', PDict (COMMON_PROPERTIES @ [
      (KStr ''offered_versions'', PDict [
       (KStr ''type'', PStr ''array''),
       (KStr ''items'', PDict [(KStr ''type'', PStr ''string'')]),
       (KStr ''description'',
        PStr ''Kubernetes versions the provider offers for cluster create/upgrade'')])])),
     (KStr ''additionalProperties'', PBool True)]"

definition k8s_control_plane_patching_schema :: dict where
  "k8s_control_plane_patching_schema =
    [(KStr ''type'', PStr ''object''),
     (KStr ''required'', PList [
      PStr ''success'', PStr ''platform'', PStr ''automated_patching_enabled'',
      PStr ''current_version'']),
     (KStr ''properties'', PDict (COMMON_PROPERTIES @ [
      (KStr ''automated_patching_enabled'', PDict [
       (KStr ''type'', PStr ''boolean''),
       (KStr ''description'',
        PStr ''Whether the provider patches the control plane without tenant action'')]),
      (KStr ''current_version'', PDict [
       (KStr ''type'', PStr ''string''),
       (KStr ''description'',
        PStr ''Kubernetes patch version the control plane runs, as the provider reports it'')])])),
     (KStr ''additionalProperties'', PBool True)]"

definition service_account_iam_schema :: dict where
  "service_account_iam_schema =
    [(KStr ''type'', PStr ''object''),
     (KStr ''required'', PList [PStr ''success'', PStr ''platform'', PStr ''tests'']),
     (KStr ''properties'', PDict (COMMON_PROPERTIES @ [
      (KStr ''tests'', PDict [
       (KStr ''type'', PStr ''object''),
       (KStr ''additionalProperties'', PDict [
        (KStr ''type'', PStr ''object''),
        (KStr ''required'', PList [PStr ''passed'']),
        (KStr ''properties'', PDict [
         (KStr ''passed'', PDict [(KStr ''type'', PStr ''boolean'')]),
         (KStr ''message'', PDict [(KStr ''type'', PStr ''string'')]),
         (KStr ''error'', PDict [(KStr ''type'', PStr ''string'')]),
         (KStr ''skipped'', PDict [(KStr ''type'', PStr ''boolean'')]),
         (KStr ''skip_reason'', PDict [(KStr ''type'', PStr ''string'')])])]),
       (KStr ''description'',
        PStr ''Workload probes: identity, allowed_access, out_of_scope_denied'')]),
      (KStr ''cleanup_errors'', PDict [
       (KStr ''type'', PStr ''array''),
       (KStr ''items'', PDict [(KStr ''type'', PStr ''string'')]),
       (KStr ''description'', PStr ''Test fixtures the probe could not remove'')])])),
     (KStr ''additionalProperties'', PBool True)]"

definition OUTPUT_SCHEMAS :: "(string \<times> dict) list" where
  "OUTPUT_SCHEMAS =
    [(''k8s_upgrade'', k8s_upgrade_schema), (''cluster'', cluster_schema),
     (''k8s_networking'', k8s_networking_schema), (''network'', network_schema),
     (''instance'', instance_schema), (''instance_list'', instance_list_schema),
     (''nim_deploy'', nim_deploy_schema), (''workload_result'', workload_result_schema),
     (''gpu_setup'', gpu_setup_schema), (''teardown'', teardown_schema),
     (''iso_import'', iso_import_schema), (''api_health'', api_health_schema),
     (''access_key'', access_key_schema), (''auth_result'', auth_result_schema),
     (''access_key_status'', access_key_status_schema),
     (''auth_rejection'', auth_rejection_schema), (''tenant'', tenant_schema),
     (''tenant_list'', tenant_list_schema), (''iam_user'', iam_user_schema),
     (''vpc_crud'', vpc_crud_schema), (''subnet_config'', subnet_config_schema),
     (''vpc_isolation'', vpc_isolation_schema),
     (''security_blocking'', security_blocking_schema),
     (''five_tuple_filtering'', five_tuple_filtering_schema),
     (''traffic_flow'', traffic_flow_schema),
     (''connectivity_result'', connectivity_result_schema),
     (''instance_launch'', instance_launch_schema), (''vpc_ip_config'', vpc_ip_config_schema),
     (''dhcp_ip'', dhcp_ip_schema), (''byoip'', byoip_schema),
     (''stable_ip'', stable_ip_schema), (''stable_egress_ip'', stable_egress_ip_schema),
     (''floating_ip'', floating_ip_schema), (''localized_dns'', localized_dns_schema),
     (''vpc_peering'', vpc_peering_schema),
     (''storage_l3_routing'', storage_l3_routing_schema),
     (''backend_switch_fabric'', backend_switch_fabric_schema),
     (''nvlink_domain'', nvlink_domain_schema), (''imex_domain'', imex_domain_schema),
     (''imex_service'', imex_service_schema), (''imex_resilience'', imex_resilience_schema),
     (''imex_departure'', imex_departure_schema), (''imex_reboot'', imex_reboot_schema),
     (''allow_rule_approval'', allow_rule_approval_schema),
     (''segment_boundary'', segment_boundary_schema), (''sg_crud'', sg_crud_schema),
     (''generic'', generic_schema), (''multi_cluster'', multi_cluster_schema),
     (''node_pool'', node_pool_schema), (''control_plane_size'', control_plane_size_schema),
     (''k8s_upstream_versions'', k8s_upstream_versions_schema),
     (''k8s_offered_versions'', k8s_offered_versions_schema),
     (''k8s_control_plane_patching'', k8s_control_plane_patching_schema),
     (''service_account_iam'', service_account_iam_schema)]"

end
