(* ===== verification/Output_Schemas.thy ===== *)
theory Output_Schemas
  imports Py_Text Schema_Table
begin

text \<open>
  \<open>isvctl/config/output_schemas.py\<close>: which schema the output of a step is checked against.
  The table of step names can be extended by a provider (\<open>register_step_mapping\<close>), so the lookup
  takes it as an argument, and so is the table of schemas (\<open>register_schema\<close>). The jsonschema package
  is the parameter \<open>js\<close>: the end of \<open>jsonschema.validate\<close> for a schema and an instance. Of it only the
  documented meaning of the keywords \<open>type\<close>, \<open>required\<close> and \<open>properties\<close> is used, as \<open>reads_json_schema\<close>.
\<close>

definition STEP_SCHEMA_MAPPING :: "(string \<times> string option) list" where
  "STEP_SCHEMA_MAPPING =
    [(''provision_cluster'', Some ''cluster''), (''create_cluster'', Some ''cluster''),
     (''setup_cluster'', Some ''cluster''), (''k8s_load_balancer_test'', Some ''k8s_networking''),
     (''k8s_dns_forwarding_test'', Some ''k8s_networking''),
     (''k8s_cidr_ranges_test'', Some ''k8s_networking''),
     (''describe_managed_upgrade_policy'', Some ''k8s_upgrade''),
     (''control_plane_upgrade_test'', Some ''k8s_upgrade''),
     (''node_pool_upgrade_test'', Some ''k8s_upgrade''), (''create_network'', Some ''network''),
     (''provision_network'', Some ''network''), (''create_vpc'', Some ''network''),
     (''setup_network'', Some ''network''), (''launch_instance'', Some ''instance''),
     (''create_instance'', Some ''instance''), (''provision_vm'', Some ''instance''),
     (''create_vm'', Some ''instance''), (''list_instances'', Some ''instance_list''),
     (''install_gpu_operator'', Some ''gpu_setup''), (''setup_gpu'', Some ''gpu_setup''),
     (''install_drivers'', Some ''gpu_setup''), (''run_workload'', Some ''workload_result''),
     (''run_test'', Some ''workload_result''), (''run_benchmark'', Some ''workload_result''),
     (''execute_workload'', Some ''workload_result''), (''deploy_nim'', Some ''nim_deploy''),
     (''teardown_nim'', Some ''teardown''), (''teardown'', Some ''teardown''),
     (''cleanup'', Some ''teardown''), (''destroy'', Some ''teardown''),
     (''check_api'', Some ''api_health''), (''test_api'', Some ''api_health''),
     (''verify_api'', Some ''api_health''), (''create_access_key'', Some ''access_key''),
     (''test_access_key'', Some ''auth_result''),
     (''disable_access_key'', Some ''access_key_status''),
     (''verify_key_rejected'', Some ''auth_rejection''),
     (''delete_access_key'', Some ''teardown''), (''create_tenant'', Some ''tenant''),
     (''list_tenants'', Some ''tenant_list''), (''get_tenant'', Some ''tenant''),
     (''delete_tenant'', Some ''teardown''), (''create_user'', Some ''iam_user''),
     (''delete_user'', Some ''teardown''), (''vpc_crud'', Some ''vpc_crud''),
     (''vpc_crud_test'', Some ''vpc_crud''), (''subnet_test'', Some ''subnet_config''),
     (''subnet_config'', Some ''subnet_config''), (''isolation_test'', Some ''vpc_isolation''),
     (''vpc_isolation'', Some ''vpc_isolation''), (''security_test'', Some ''security_blocking''),
     (''security_blocking'', Some ''security_blocking''),
     (''five_tuple_filtering'', Some ''five_tuple_filtering''),
     (''five_tuple_filtering_test'', Some ''five_tuple_filtering''),
     (''traffic_test'', Some ''traffic_flow''), (''traffic_validation'', Some ''traffic_flow''),
     (''test_connectivity'', Some ''connectivity_result''),
     (''connectivity_test'', Some ''connectivity_result''),
     (''launch_instances'', Some ''instance_launch''),
     (''launch_test_instances'', Some ''instance_launch''),
     (''vpc_ip_config'', Some ''vpc_ip_config''), (''vpc_ip_config_test'', Some ''vpc_ip_config''),
     (''dhcp_ip_test'', Some ''dhcp_ip''), (''dhcp_ip'', Some ''dhcp_ip''),
     (''upload_image'', Some ''iso_import''), (''import_image'', Some ''iso_import''),
     (''upload_iso'', Some ''iso_import''), (''import_iso'', Some ''iso_import''),
     (''create_image'', Some ''iso_import''), (''byoip_test'', Some ''byoip''),
     (''byoip_validation'', Some ''byoip''), (''stable_ip_test'', Some ''stable_ip''),
     (''stable_ip_validation'', Some ''stable_ip''),
     (''stable_egress_ip_test'', Some ''stable_egress_ip''),
     (''stable_egress_ip_validation'', Some ''stable_egress_ip''),
     (''floating_ip_test'', Some ''floating_ip''),
     (''floating_ip_validation'', Some ''floating_ip''), (''dns_test'', Some ''localized_dns''),
     (''dns_validation'', Some ''localized_dns''), (''peering_test'', Some ''vpc_peering''),
     (''peering_validation'', Some ''vpc_peering''),
     (''storage_l3_routing'', Some ''storage_l3_routing''),
     (''storage_l3_routing_test'', Some ''storage_l3_routing''),
     (''backend_switch_fabric'', Some ''backend_switch_fabric''),
     (''backend_switch_fabric_test'', Some ''backend_switch_fabric''),
     (''nvlink_domain'', Some ''nvlink_domain''), (''nvlink_domain_test'', Some ''nvlink_domain''),
     (''imex_domain'', Some ''imex_domain''), (''imex_domain_test'', Some ''imex_domain''),
     (''imex_service'', Some ''imex_service''), (''imex_service_test'', Some ''imex_service''),
     (''imex_resilience'', Some ''imex_resilience''),
     (''imex_resilience_test'', Some ''imex_resilience''),
     (''imex_departure'', Some ''imex_departure''),
     (''imex_departure_test'', Some ''imex_departure''), (''imex_reboot'', Some ''imex_reboot''),
     (''imex_reboot_test'', Some ''imex_reboot''),
     (''allow_rule_approval'', Some ''allow_rule_approval''),
     (''segment_boundary'', Some ''segment_boundary''),
     (''segment_boundary_test'', Some ''segment_boundary''), (''sg_crud_test'', Some ''sg_crud''),
     (''sg_crud'', Some ''sg_crud''), (''create_test_node_pool'', Some ''node_pool''),
     (''create_node_pool'', Some ''node_pool''), (''update_test_node_pool'', Some ''node_pool''),
     (''update_node_pool'', Some ''node_pool''), (''destroy_test_node_pool'', Some ''teardown''),
     (''destroy_node_pool'', Some ''teardown''),
     (''service_account_iam_test'', Some ''service_account_iam''),
     (''create_test_shared_vpc_cluster'', Some ''multi_cluster''),
     (''destroy_test_shared_vpc_cluster'', Some ''teardown''),
     (''pin_control_plane'', Some ''control_plane_size''),
     (''fetch_upstream_k8s_versions'', Some ''k8s_upstream_versions''),
     (''list_k8s_versions'', Some ''k8s_offered_versions''),
     (''describe_control_plane_patching'', Some ''k8s_control_plane_patching'')]"

text \<open>The keys of \<open>OUTPUT_SCHEMAS\<close>.\<close>

definition schema_names :: "string list" where
  "schema_names = dkeys OUTPUT_SCHEMAS"

fun partial_match :: "(string \<times> string option) list \<Rightarrow> string \<Rightarrow> string option" where
  "partial_match [] name = Some ''generic''"
| "partial_match ((k, s) # rest) name = (if contains_text k name then s else partial_match rest name)"

definition get_schema_for_step :: "(string \<times> string option) list \<Rightarrow> string \<Rightarrow> string option" where
  "get_schema_for_step mapping name =
     (case dget mapping name of Some s \<Rightarrow> s | None \<Rightarrow> partial_match mapping name)"

definition register_step_mapping ::
  "(string \<times> string option) list \<Rightarrow> string \<Rightarrow> string option \<Rightarrow> (string \<times> string option) list" where
  "register_step_mapping mapping name s = dput mapping name s"

section \<open>The schemas\<close>

datatype json_verdict = Valid | ValidationError string string | SchemaError string

type_synonym jsonschema = "dict \<Rightarrow> pval \<Rightarrow> json_verdict"

definition get_schema :: "(string \<times> dict) list \<Rightarrow> string \<Rightarrow> dict option" where
  "get_schema schemas name = dget schemas name"

text \<open>\<open>Inl\<close> is the \<open>ValueError\<close> of an unknown name.\<close>

definition validate_output ::
  "jsonschema \<Rightarrow> (string \<times> dict) list \<Rightarrow> pval \<Rightarrow> string \<Rightarrow> string + (bool \<times> string list)" where
  "validate_output js schemas output name = (case dget schemas name of
     None \<Rightarrow> Inl (''Unknown schema: '' @ name)
   | Some schema \<Rightarrow> (case js schema output of
       Valid \<Rightarrow> Inr (True, [])
     | ValidationError path message \<Rightarrow> Inr (False, [''Validation error at '' @ path @ '': '' @ message])
     | SchemaError message \<Rightarrow> Inr (False, [''Schema error: '' @ message])))"

definition register_schema :: "(string \<times> dict) list \<Rightarrow> string \<Rightarrow> dict \<Rightarrow> (string \<times> dict) list" where
  "register_schema schemas name schema = dput schemas name schema"

definition list_schemas :: "(string \<times> dict) list \<Rightarrow> string list" where
  "list_schemas schemas = dkeys schemas"

definition list_step_mappings :: "(string \<times> string option) list \<Rightarrow> (string \<times> string option) list" where
  "list_step_mappings mapping = mapping"

section \<open>Lookup\<close>

lemma partial_match_range:
  "partial_match m name = Some s \<Longrightarrow> s = ''generic'' \<or> Some s \<in> set (map snd m)"
  by (induction m name rule: partial_match.induct) (auto split: if_splits)

lemma partial_match_split:
  "\<forall>(k, s) \<in> set before. \<not> contains_text k name \<Longrightarrow> contains_text k name \<Longrightarrow>
    partial_match (before @ (k, s) # after) name = s"
  by (induction before) auto

lemma get_schema_range:
  "get_schema_for_step m name = Some s \<Longrightarrow> s = ''generic'' \<or> Some s \<in> set (map snd m)"
  unfolding get_schema_for_step_def
  by (auto split: option.splits dest!: map_of_SomeD partial_match_range intro: rev_image_eqI)

lemma get_schema_registered:
  "get_schema_for_step (register_step_mapping m name s) name = s"
  by (simp add: get_schema_for_step_def register_step_mapping_def)

lemma mapping_registered:
  "list_all (\<lambda>s. case s of None \<Rightarrow> True | Some n \<Rightarrow> n \<in> set schema_names) (map snd STEP_SCHEMA_MAPPING)"
  by code_simp

lemma generic_registered: "''generic'' \<in> set schema_names"
  by code_simp

text \<open>Every schema detected from a step name with the default table is registered, so
  validating an output never meets an unknown schema; a mapping registered by a provider takes
  effect for its step name whatever the other entries are.\<close>

theorem detected_schema_registered:
  "pred_option (\<lambda>s. s \<in> set schema_names) (get_schema_for_step STEP_SCHEMA_MAPPING name)
    \<and> get_schema_for_step (register_step_mapping m n s) n = s"
proof (cases "get_schema_for_step STEP_SCHEMA_MAPPING name")
  case (Some t)
  have "t = ''generic'' \<or> Some t \<in> set (map snd STEP_SCHEMA_MAPPING)"
    using Some by (rule get_schema_range)
  with mapping_registered generic_registered have "t \<in> set schema_names"
    unfolding list_all_iff by fastforce
  with Some show ?thesis by (simp add: get_schema_registered)
qed (simp add: get_schema_registered)

section \<open>What every schema demands\<close>

text \<open>The fields that a schema requires, and the schemas that require the envelope of an output: an
  object with a boolean \<open>success\<close> and a \<open>platform\<close>. A required field is also described.\<close>

definition required_fields :: "dict \<Rightarrow> string list" where
  "required_fields schema = (case sget schema ''required'' of
     Some (PList ks) \<Rightarrow> [k. PStr k \<leftarrow> ks] | _ \<Rightarrow> [])"

definition property_type :: "dict \<Rightarrow> string \<Rightarrow> pval option" where
  "property_type schema name = (case sget schema ''properties'' of
     Some (PDict ps) \<Rightarrow> (case sget ps name of Some (PDict p) \<Rightarrow> sget p ''type'' | _ \<Rightarrow> None)
   | _ \<Rightarrow> None)"

definition described :: "dict \<Rightarrow> string \<Rightarrow> bool" where
  "described schema name = (case sget schema ''properties'' of
     Some (PDict ps) \<Rightarrow> sget ps name \<noteq> None | _ \<Rightarrow> False)"

definition demands_envelope :: "dict \<Rightarrow> bool" where
  "demands_envelope schema \<longleftrightarrow>
     sget schema ''type'' = Some (PStr ''object'')
   \<and> ''success'' \<in> set (required_fields schema) \<and> ''platform'' \<in> set (required_fields schema)
   \<and> property_type schema ''success'' = Some (PStr ''boolean'')
   \<and> list_all (described schema) (required_fields schema)"

lemma schemas_demand_envelope: "list_all (demands_envelope \<circ> snd) OUTPUT_SCHEMAS"
  by code_simp

text \<open>The documented meaning of the keywords the schemas share: a valid instance of \<open>type: object\<close> is a
  dictionary that has every required key, with a boolean under every key whose property schema
  says \<open>type: boolean\<close>.\<close>

definition meets_required :: "dict \<Rightarrow> dict \<Rightarrow> bool" where
  "meets_required schema d = list_all (\<lambda>k. dhas d (KStr k)) (required_fields schema)"

definition reads_json_schema :: "jsonschema \<Rightarrow> bool" where
  "reads_json_schema js \<longleftrightarrow> (\<forall>schema v. js schema v = Valid \<longrightarrow>
     (sget schema ''type'' = Some (PStr ''object'') \<longrightarrow> is_dict v)
   \<and> (\<forall>d. v = PDict d \<longrightarrow> meets_required schema d
       \<and> (\<forall>k w. property_type schema k = Some (PStr ''boolean'') \<longrightarrow> sget d k = Some w \<longrightarrow>
            w = PBool True \<or> w = PBool False)))"

lemma valid_envelope:
  assumes "reads_json_schema js" "demands_envelope schema" "js schema v = Valid"
  shows "\<exists>d b. v = PDict d \<and> sget d ''success'' = Some (PBool b) \<and> meets_required schema d"
proof -
  have "is_dict v" using assms by (simp add: reads_json_schema_def demands_envelope_def)
  then obtain d where d: "v = PDict d" by (cases v) auto
  have m: "meets_required schema d" using assms d by (simp add: reads_json_schema_def)
  moreover have "''success'' \<in> set (required_fields schema)"
    using assms(2) by (simp add: demands_envelope_def)
  ultimately obtain w where w: "sget d ''success'' = Some w"
    by (auto simp: meets_required_def list_all_iff)
  moreover have "property_type schema ''success'' = Some (PStr ''boolean'')"
    using assms(2) by (simp add: demands_envelope_def)
  ultimately have "w = PBool True \<or> w = PBool False"
    using assms(1, 3) d by (metis reads_json_schema_def)
  with d m w show ?thesis by blast
qed

lemma validated_envelope:
  assumes "reads_json_schema js" "list_all (demands_envelope \<circ> snd) schemas"
    and "validate_output js schemas v name = Inr (True, es)"
  shows "\<exists>schema d b. get_schema schemas name = Some schema \<and> v = PDict d
    \<and> sget d ''success'' = Some (PBool b) \<and> meets_required schema d"
proof -
  obtain schema where s: "dget schemas name = Some schema" and v: "js schema v = Valid"
    using assms(3) by (auto simp: validate_output_def split: option.splits json_verdict.splits)
  have "(name, schema) \<in> set schemas" using s by (rule map_of_SomeD)
  then have "demands_envelope schema" using assms(2) by (auto simp: list_all_iff)
  from valid_envelope [OF assms(1) this v] s show ?thesis by (auto simp: get_schema_def)
qed

lemma partial_match_some:
  "None \<notin> set (map snd mapping) \<Longrightarrow> partial_match mapping name \<noteq> None"
  by (induction mapping name rule: partial_match.induct) auto

lemma detected_some:
  "None \<notin> set (map snd mapping) \<Longrightarrow> get_schema_for_step mapping name \<noteq> None"
proof (cases "dget mapping name")
  case None
  moreover assume "None \<notin> set (map snd mapping)"
  ultimately show ?thesis using partial_match_some by (simp add: get_schema_for_step_def)
next
  case (Some s)
  then have "(name, s) \<in> set mapping" by (rule map_of_SomeD)
  then have "s \<in> set (map snd mapping)" by force
  moreover assume "None \<notin> set (map snd mapping)"
  ultimately have "s \<noteq> None" by metis
  then show ?thesis using Some by (simp add: get_schema_for_step_def)
qed

lemma mapping_total: "None \<notin> set (map snd STEP_SCHEMA_MAPPING)"
  by code_simp

text \<open>The example of the documentation of \<open>get_schema_for_step\<close>: no registered step name occurs in
  \<open>my_custom_cluster_setup\<close>, so it is checked against the generic schema, not \<open>cluster\<close>.\<close>

lemma custom_cluster_setup_generic:
  "get_schema_for_step STEP_SCHEMA_MAPPING ''my_custom_cluster_setup'' = Some ''generic''"
  by code_simp

end
