(* ===== verification/Step_Executor.thy ===== *)
theory Step_Executor
  imports Config_Merger Run_Context Output_Schemas
begin

text \<open>
  \<open>isvctl/orchestrator/step_executor.py\<close>: the steps of a phase, run one after the other.

  The outside world is a record of functions: the file system (\<open>world\<close>), the process runner
  \<open>run_command_process\<close>, which acts on a world state of its own type \<open>'w\<close> so that a command may
  answer differently the second time, the json and jsonschema modules, and Jinja2. The runner's
  exceptions are constructors of \<open>run_outcome\<close>. Logging is not modelled.
\<close>

section \<open>Steps, results and the world\<close>

record StepConfig =
  g_name :: string
  g_command :: string
  g_args :: "string list"
  g_timeout :: "int option"
  g_env :: "(string \<times> string) list"
  g_working_dir :: "string option"
  g_skip :: bool
  g_requires :: "string list"
  g_continue_on_failure :: bool
  g_phase :: string
  g_output_schema :: "string option"
  g_sensitive_args :: "string list"

record StepResult =
  x_name :: string
  x_success :: bool
  x_exit_code :: int
  x_stdout :: string
  x_stderr :: string
  x_output :: pval
  x_schema_name :: "string option"
  x_schema_valid :: bool
  x_schema_errors :: "string list"
  x_error :: "pval option"

record StepResults =
  z_success :: bool
  z_steps :: "StepResult list"
  z_outputs :: "(string \<times> pval) list"

datatype run_outcome =
    Completed int string string
  | TimedOut string string
  | NotFound
  | Crashed string

record 'w host =
  h_files :: world
  h_working_dir :: string
  h_executable :: string
  h_environ :: "(string \<times> string) list"
  h_jinja :: jinja
  h_loads :: "string \<Rightarrow> pval option"
  h_json_schema :: jsonschema
  h_schemas :: "(string \<times> string option) list"
  h_schema_table :: "(string \<times> dict) list"
  h_float :: "rat \<Rightarrow> string"
  h_run :: "'w \<Rightarrow> string list \<Rightarrow> string \<Rightarrow> (string \<times> string) list \<Rightarrow> int option \<Rightarrow> run_outcome \<times> 'w"

text \<open>\<open>StepResult(...)\<close> with the defaults of the other fields; \<open>PNone\<close> is no output.\<close>

definition step_result :: "string \<Rightarrow> bool \<Rightarrow> int \<Rightarrow> string \<Rightarrow> string \<Rightarrow> pval option \<Rightarrow> StepResult" where
  "step_result name ok rc out err e = \<lparr>x_name = name, x_success = ok, x_exit_code = rc,
     x_stdout = out, x_stderr = err, x_output = PNone, x_schema_name = None, x_schema_valid = True,
     x_schema_errors = [], x_error = e\<rparr>"

definition failed_step :: "string \<Rightarrow> string \<Rightarrow> StepResult" where
  "failed_step name message = step_result name False (- 1) [] [] (Some (PStr message))"

definition add_step :: "StepResults \<Rightarrow> StepResult \<Rightarrow> StepResults" where
  "add_step rs r = rs\<lparr>z_success := z_success rs \<and> x_success r, z_steps := z_steps rs @ [r],
     z_outputs := (if truthy (x_output r) then dput (z_outputs rs) (x_name r) (x_output r) else z_outputs rs)\<rparr>"

section \<open>Excerpts of the error output\<close>

definition newline :: string where
  "newline = [char_of (10::nat)]"

definition STDERR_EXCERPT_HEAD_LINES :: nat where
  "STDERR_EXCERPT_HEAD_LINES = 20"

definition STDERR_EXCERPT_TAIL_LINES :: nat where
  "STDERR_EXCERPT_TAIL_LINES = 80"

definition omitted_marker :: "nat \<Rightarrow> nat \<Rightarrow> nat \<Rightarrow> string" where
  "omitted_marker omitted head tail = ''... stderr truncated; omitted '' @ nat_str omitted
     @ '' lines (showing first '' @ nat_str head @ '' and last '' @ nat_str tail @ '') ...''"

definition excerpt_lines :: "nat \<Rightarrow> nat \<Rightarrow> string list \<Rightarrow> string list" where
  "excerpt_lines head_lines tail_lines lines =
     (let head = take head_lines lines;
          tail = (if tail_lines = 0 then [] else drop (length lines - tail_lines) lines)
      in head @ [omitted_marker (length lines - length head - length tail) (length head) (length tail)] @ tail)"

definition format_stderr_excerpt :: "nat \<Rightarrow> nat \<Rightarrow> string \<Rightarrow> string" where
  "format_stderr_excerpt head_lines tail_lines stderr =
     (let redacted = redact_text (strip stderr); lines = splitlines redacted
      in if redacted = [] then []
         else if length lines \<le> head_lines + tail_lines then redacted
         else join newline (excerpt_lines head_lines tail_lines lines))"

section \<open>Command lines\<close>

text \<open>
  \<open>shlex.split\<close> in POSIX mode. The state is the quote character that is open, the current token
  reversed and whether there is one (an empty quoted token counts); \<open>None\<close> is \<open>ValueError\<close>.
\<close>

definition shlex_space :: "char \<Rightarrow> bool" where
  "shlex_space c \<longleftrightarrow> code c \<in> {9, 10, 13, 32}"

fun shlex_go :: "char option \<Rightarrow> string option \<Rightarrow> string \<Rightarrow> string list option" where
  "shlex_go None tok [] = Some (case tok of None \<Rightarrow> [] | Some t \<Rightarrow> [rev t])"
| "shlex_go (Some q) tok [] = None"
| "shlex_go None tok (c # s) =
     (if shlex_space c
      then (case tok of
          None \<Rightarrow> shlex_go None None s
        | Some t \<Rightarrow> map_option ((#) (rev t)) (shlex_go None None s))
      else let t = (case tok of None \<Rightarrow> [] | Some t \<Rightarrow> t) in
        if code c = 92 then (case s of [] \<Rightarrow> None | d # s' \<Rightarrow> shlex_go None (Some (d # t)) s')
        else if code c = 39 \<or> code c = 34 then shlex_go (Some c) (Some t) s
        else shlex_go None (Some (c # t)) s)"
| "shlex_go (Some q) tok (c # s) =
     (let t = (case tok of None \<Rightarrow> [] | Some t \<Rightarrow> t) in
      if c = q then shlex_go None (Some t) s
      else if code q = 34 \<and> code c = 92
      then (case s of
          [] \<Rightarrow> None
        | d # s' \<Rightarrow>
            if code d = 34 \<or> code d = 92 then shlex_go (Some q) (Some (d # t)) s'
            else shlex_go (Some q) (Some (d # c # t)) s')
      else shlex_go (Some q) (Some (c # t)) s)"

definition shlex_split :: "string \<Rightarrow> string list option" where
  "shlex_split s = shlex_go None None s"

text \<open>\<open>Path(s).name\<close>\<close>

definition path_name :: "string \<Rightarrow> string" where
  "path_name s = (case p_parts (path_of s) of [] \<Rightarrow> [] | ps \<Rightarrow> last ps)"

text \<open>The index of the script argument after the interpreter's options: \<open>None\<close> for \<open>-m\<close>, \<open>-c\<close> or
  no argument left. The list is what follows position \<open>i\<close>.\<close>

fun script_index :: "nat \<Rightarrow> string list \<Rightarrow> nat option" where
  "script_index i [] = None"
| "script_index i (opt # rest) =
     (if \<not> prefix ''-'' opt then Some i
      else if opt = ''-m'' \<or> opt = ''-c'' then None
      else if opt = ''-W'' \<or> opt = ''-X''
      then (case rest of [] \<Rightarrow> None | _ # rest' \<Rightarrow> script_index (i + 2) rest')
      else script_index (i + 1) rest)"

definition resolve_python_script_path :: "world \<Rightarrow> string list \<Rightarrow> string \<Rightarrow> string list" where
  "resolve_python_script_path w cmd_parts cwd = (case cmd_parts of
     exe # rest \<Rightarrow>
       if rest = [] \<or> \<not> prefix ''python'' (path_name exe) then cmd_parts
       else (case script_index 1 rest of
         None \<Rightarrow> cmd_parts
       | Some i \<Rightarrow>
           let script = path_of (cmd_parts ! i); dir = path_of cwd in
           if p_abs script \<or> w_exists w (path_join dir script) then cmd_parts
           else (case first_existing w (map (\<lambda>root. path_join root script)
                  (parents (w_resolve w dir) @ [w_cwd w])) of
             Some p \<Rightarrow> cmd_parts[i := path_str p]
           | None \<Rightarrow> cmd_parts))
   | [] \<Rightarrow> cmd_parts)"

text \<open>The interpreter replaces \<open>python\<close>, \<open>python3\<close> and \<open>uv run python\<close>.\<close>

definition command_base :: "string \<Rightarrow> string \<Rightarrow> string list option" where
  "command_base executable command = (case shlex_split command of
     None \<Rightarrow> None
   | Some parts \<Rightarrow>
       if prefix ''uv run python'' command
       then Some (if 4 \<le> length parts then [executable, parts ! 3] else [executable])
       else if prefix ''python3 '' command \<or> prefix ''python '' command
       then Some (executable # drop 1 parts)
       else Some parts)"

section \<open>Rendering arguments\<close>

definition path_char :: "char \<Rightarrow> bool" where
  "path_char c \<longleftrightarrow> is_word c \<or> c = CHR ''.''"

text \<open>The groups of \<open>steps\.([\w.]+)\<close>, leftmost matches first and not overlapping.\<close>

function step_refs :: "string \<Rightarrow> string list" where
  "step_refs s = (case s of
     [] \<Rightarrow> []
   | c # t \<Rightarrow>
       (let r = drop 6 s; p = takeWhile path_char r
        in if prefix ''steps.'' s \<and> p \<noteq> [] then p # step_refs (dropWhile path_char r)
           else step_refs t))"
  by pat_completeness auto
termination
  by (relation "measure length")
    (auto simp: less_Suc_eq_le intro!: le_trans [OF length_dropWhile_le])

declare step_refs.simps [simp del]

fun walk_path :: "pval \<Rightarrow> string list \<Rightarrow> pval option" where
  "walk_path v [] = Some v"
| "walk_path (PDict d) (p # ps) = (case sget d p of None \<Rightarrow> None | Some v \<Rightarrow> walk_path v ps)"
| "walk_path v (p # ps) = None"

definition unresolved :: "pval \<Rightarrow> string \<Rightarrow> bool" where
  "unresolved steps path = (case walk_path steps (split_on CHR ''.'' path) of
     None \<Rightarrow> True | Some v \<Rightarrow> v = PNone \<or> v = PStr [])"

definition find_missing_step_path :: "string \<Rightarrow> pval \<Rightarrow> string option" where
  "find_missing_step_path arg steps = find (unresolved steps) (step_refs arg)"

text \<open>\<open>Inl\<close> is \<open>MissingStepRefError\<close> with its path.\<close>

fun render_args :: "jinja \<Rightarrow> dict \<Rightarrow> string list \<Rightarrow> string + string list" where
  "render_args jinja data [] = Inr []"
| "render_args jinja data (arg # args) =
     (if is_template arg then
        (case jinja arg data of
           Inl _ \<Rightarrow> map_sum id ((#) arg) (render_args jinja data args)
         | Inr r \<Rightarrow>
             if strip r \<noteq> [] then map_sum id ((#) r) (render_args jinja data args)
             else if contains_text ''default('' arg then render_args jinja data args
             else (case find_missing_step_path arg (dgetd data (KStr ''steps'') (PDict [])) of
                Some path \<Rightarrow> Inl path
              | None \<Rightarrow> render_args jinja data args))
      else map_sum id ((#) arg) (render_args jinja data args))"

section \<open>One step\<close>

definition parse_output :: "(string \<Rightarrow> pval option) \<Rightarrow> StepResult \<Rightarrow> StepResult" where
  "parse_output loads r =
     (if strip (x_stdout r) = [] then r
      else (case loads (strip (x_stdout r)) of None \<Rightarrow> r | Some v \<Rightarrow> r\<lparr>x_output := v\<rparr>))"

definition schema_of_step :: "'w host \<Rightarrow> StepConfig \<Rightarrow> string option" where
  "schema_of_step h step = (case g_output_schema step of
     Some (c # s) \<Rightarrow> Some (c # s)
   | _ \<Rightarrow> get_schema_for_step (h_schemas h) (g_name step))"

text \<open>\<open>Inl\<close> is the \<open>ValueError\<close> of an unknown schema.\<close>

definition validate_schema :: "'w host \<Rightarrow> StepResult \<Rightarrow> StepConfig \<Rightarrow> string + StepResult" where
  "validate_schema h r step =
     (let r1 = r\<lparr>x_schema_name := schema_of_step h step\<rparr> in
      case schema_of_step h step of
        None \<Rightarrow> Inr r1
      | Some name \<Rightarrow>
          if x_output r = PNone then Inr r1
          else (case validate_output (h_json_schema h) (h_schema_table h) (x_output r) name of
              Inl m \<Rightarrow> Inl m
            | Inr (valid, errors) \<Rightarrow> Inr (r1\<lparr>x_schema_valid := valid, x_schema_errors := errors,
                x_success := x_success r \<and> valid\<rparr>)))"

fun type_name :: "pval \<Rightarrow> string" where
  "type_name PNone = ''NoneType''"
| "type_name (PBool _) = ''bool''"
| "type_name (PInt _) = ''int''"
| "type_name (PFloat _) = ''float''"
| "type_name (PStr _) = ''str''"
| "type_name (PList _) = ''list''"
| "type_name (PDict _) = ''dict''"

definition exit_message :: "int \<Rightarrow> string \<Rightarrow> string" where
  "exit_message rc stderr = ''Command exited with code '' @ int_str rc
     @ (if stderr = [] then [] else '': '' @ format_stderr_excerpt STDERR_EXCERPT_HEAD_LINES
          STDERR_EXCERPT_TAIL_LINES stderr)"

text \<open>The error of a command that exited with a code other than 0: \<open>Inl\<close> when the output is not a
  dictionary and \<open>output.get\<close> raises.\<close>

definition step_error :: "(rat \<Rightarrow> string) \<Rightarrow> pval \<Rightarrow> int \<Rightarrow> string \<Rightarrow> string + pval" where
  "step_error fr output rc stderr =
     (if \<not> truthy output then Inr (PStr (exit_message rc stderr))
      else (case output of
        PDict d \<Rightarrow>
          (let msg = get_or_none d ''error''; kind = dgetd d (KStr ''error_type'') (PStr [])
           in if \<not> truthy msg then Inr (PStr (exit_message rc stderr))
              else if truthy kind then Inr (PStr (''['' @ py_str fr kind @ ''] '' @ py_str fr msg))
              else Inr msg)
      | v \<Rightarrow> Inl (quoted (type_name v) @ '' object has no attribute '' @ quoted ''get'')))"

definition after_run :: "'w host \<Rightarrow> StepConfig \<Rightarrow> int \<Rightarrow> string \<Rightarrow> string \<Rightarrow> string + StepResult" where
  "after_run h step rc out err =
     (let r = parse_output (h_loads h) (step_result (g_name step) (rc = 0) rc out err None) in
      if rc \<noteq> 0 then map_sum id (\<lambda>e. r\<lparr>x_error := Some e\<rparr>) (step_error (h_float h) (x_output r) rc err)
      else if truthy (x_output r) then validate_schema h r step
      else Inr r)"

definition timeout_text :: "int option \<Rightarrow> string" where
  "timeout_text t = (case t of None \<Rightarrow> ''None'' | Some n \<Rightarrow> int_str n)"

definition step_outcome :: "'w host \<Rightarrow> StepConfig \<Rightarrow> run_outcome \<Rightarrow> StepResult" where
  "step_outcome h step outcome = (case outcome of
     Completed rc out err \<Rightarrow>
       (case after_run h step rc out err of
          Inr r \<Rightarrow> r
        | Inl e \<Rightarrow> failed_step (g_name step) (''Command execution failed: '' @ e))
   | TimedOut out err \<Rightarrow> step_result (g_name step) False (- 1) out err
       (Some (PStr (''Command timed out after '' @ timeout_text (g_timeout step) @ '' seconds'')))
   | NotFound \<Rightarrow> failed_step (g_name step) (''Command not found: '' @ g_command step)
   | Crashed e \<Rightarrow> failed_step (g_name step) (''Command execution failed: '' @ e))"

definition step_cwd :: "'w host \<Rightarrow> StepConfig \<Rightarrow> string" where
  "step_cwd h step = (case g_working_dir step of Some (c # d) \<Rightarrow> c # d | _ \<Rightarrow> h_working_dir h)"

definition step_env :: "'w host \<Rightarrow> StepConfig \<Rightarrow> run_context \<Rightarrow> string + (string \<times> string) list" where
  "step_env h step ctx = map_sum id (dupdate (h_environ h))
     (gather (map (\<lambda>kv. map_sum id (Pair (fst kv)) (ctx_render_string (h_jinja h) ctx (snd kv))) (g_env step)))"

text \<open>\<open>None\<close>: the command line has an open quote, and the \<open>ValueError\<close> of \<open>shlex.split\<close> leaves the
  executor, since it is raised outside its \<open>try\<close>.\<close>

definition execute_step ::
  "'w host \<Rightarrow> StepConfig \<Rightarrow> run_context \<Rightarrow> 'w \<Rightarrow> (StepResult \<times> 'w) option"
where
  "execute_step h step ctx w =
     (case render_args (h_jinja h) (get_accumulated_context ctx) (g_args step) of
        Inl path \<Rightarrow> Some (failed_step (g_name step) (''Skipped: missing step reference steps.'' @ path), w)
      | Inr args \<Rightarrow>
          (case command_base (h_executable h) (g_command step) of
             None \<Rightarrow> None
           | Some base \<Rightarrow>
               let cwd = step_cwd h step;
                   cmd = resolve_python_script_path (h_files h) (base @ args) cwd
               in (case step_env h step ctx of
                  Inl e \<Rightarrow> Some (failed_step (g_name step) (''Failed to render env: '' @ e), w)
                | Inr env \<Rightarrow>
                    (case h_run h w cmd cwd env (g_timeout step) of
                       (outcome, w') \<Rightarrow> Some (step_outcome h step outcome, w')))))"

section \<open>All steps\<close>

definition skipped_step :: "StepConfig \<Rightarrow> StepResult" where
  "skipped_step step = step_result (g_name step) True 0 [] [] (Some (PStr ''Step skipped''))"

definition store_output :: "run_context \<Rightarrow> StepConfig \<Rightarrow> StepResult \<Rightarrow> run_context option" where
  "store_output ctx step r =
     (if truthy (x_output r) then set_step_output ctx (g_name step) (x_output r) else Some ctx)"

fun run_steps ::
  "'w host \<Rightarrow> bool \<Rightarrow> StepConfig list \<Rightarrow> StepResults \<Rightarrow> run_context \<Rightarrow> 'w
    \<Rightarrow> (StepResults \<times> run_context \<times> 'w) option"
where
  "run_steps h best [] rs ctx w = Some (rs, ctx, w)"
| "run_steps h best (step # steps) rs ctx w =
     (if g_skip step then run_steps h best steps (add_step rs (skipped_step step)) ctx w
      else (case execute_step h step ctx w of
        None \<Rightarrow> None
      | Some (r, w') \<Rightarrow>
          (case store_output ctx step r of
             None \<Rightarrow> None
           | Some ctx' \<Rightarrow>
               if \<not> x_success r \<and> \<not> g_continue_on_failure step \<and> \<not> best
               then Some ((add_step rs r)\<lparr>z_success := False\<rparr>, ctx', w')
               else run_steps h best steps (add_step rs r) ctx' w')))"

definition no_results :: StepResults where
  "no_results = \<lparr>z_success = True, z_steps = [], z_outputs = []\<rparr>"

definition execute_steps ::
  "'w host \<Rightarrow> bool \<Rightarrow> StepConfig list \<Rightarrow> run_context \<Rightarrow> 'w \<Rightarrow> (StepResults \<times> run_context \<times> 'w) option"
where
  "execute_steps h best_effort steps ctx w = run_steps h best_effort steps no_results ctx w"

section \<open>Quoting and splitting\<close>

abbreviation sq :: char where "sq \<equiv> char_of (39::nat)"

lemma shlex_go_plain:
  "\<not> shlex_space c \<Longrightarrow> code c \<notin> {34, 39, 92} \<Longrightarrow>
    shlex_go None tok (c # s) = shlex_go None (Some (c # (case tok of None \<Rightarrow> [] | Some t \<Rightarrow> t))) s"
  by simp

lemma safe_plain: "shell_safe c \<Longrightarrow> \<not> shlex_space c \<and> code c \<notin> {34, 39, 92}"
  by (auto simp: shell_safe_def shlex_space_def is_digit_def code_def)

lemma shlex_go_safe:
  "list_all shell_safe s \<Longrightarrow> shlex_go None (Some t) (s @ rest) = shlex_go None (Some (rev s @ t)) rest"
proof (induction s arbitrary: t)
  case (Cons c s)
  then show ?case using safe_plain [of c] by (simp del: shlex_go.simps add: shlex_go_plain)
qed simp

lemma shlex_go_close: "shlex_go (Some q) (Some t) (q # rest) = shlex_go None (Some t) rest"
  by simp

lemma code_sq [simp]: "code sq = 39" "code CHR 0x22 = 34"
  by (simp_all add: code_def)

lemma sq_not_dq [simp]: "sq \<noteq> CHR 0x22" "CHR 0x22 \<noteq> sq"
  using code_sq by (metis numeral_eq_iff num.distinct(5) semiring_norm(89))+

lemma shlex_go_open:
  "shlex_go None tok (sq # rest) = shlex_go (Some sq) (Some (case tok of None \<Rightarrow> [] | Some t \<Rightarrow> t)) rest"
  "shlex_go None tok (CHR 0x22 # rest) =
    shlex_go (Some CHR 0x22) (Some (case tok of None \<Rightarrow> [] | Some t \<Rightarrow> t)) rest"
  by (simp_all add: shlex_space_def)

lemma shlex_go_single:
  "c \<noteq> sq \<Longrightarrow> shlex_go (Some sq) (Some t) (c # rest) = shlex_go (Some sq) (Some (c # t)) rest"
  by simp

lemma shlex_go_double: "shlex_go (Some CHR 0x22) (Some t) (sq # rest) = shlex_go (Some CHR 0x22) (Some (sq # t)) rest"
  by (simp add: code_def)

lemmas shlex_steps = shlex_go_open shlex_go_single shlex_go_double shlex_go_close

lemma shlex_go_quoted:
  "shlex_go (Some sq) (Some t)
     (concat (map (\<lambda>c. if c = sq then [sq, CHR 0x22, sq, CHR 0x22, sq] else [c]) s) @ sq # rest) =
   shlex_go None (Some (rev s @ t)) rest"
proof (induction s arbitrary: t)
  case Nil
  then show ?case by (simp del: shlex_go.simps add: shlex_steps)
next
  case (Cons c s)
  show ?case
  proof (cases "c = sq")
    case True
    then show ?thesis using Cons by (simp del: shlex_go.simps add: shlex_steps)
  next
    case False
    then show ?thesis using Cons by (simp del: shlex_go.simps add: shlex_steps)
  qed
qed

lemma shlex_go_quote: "shlex_go None None (shlex_quote s @ rest) = shlex_go None (Some (rev s)) rest"
proof -
  consider "s = []" | c s' where "s = c # s'" "list_all shell_safe s" | "s \<noteq> []" "\<not> list_all shell_safe s"
    by (cases s) auto
  then show ?thesis
  proof cases
    case 1
    then show ?thesis by (simp del: shlex_go.simps add: shlex_quote_def Let_def shlex_steps)
  next
    case (2 c s')
    then show ?thesis
      using safe_plain [of c] shlex_go_safe [of s' "[c]" rest]
      by (simp del: shlex_go.simps add: shlex_quote_def Let_def shlex_go_plain)
  next
    case 3
    then show ?thesis
      using shlex_go_quoted [of "[]" s rest]
      by (simp del: shlex_go.simps add: shlex_quote_def Let_def shlex_steps)
  qed
qed

lemma shlex_go_space: "shlex_go None (Some t) (CHR '' '' # s) = map_option ((#) (rev t)) (shlex_go None None s)"
  by (simp add: shlex_space_def code_def)

lemma shlex_split_join: "shlex_split (join '' '' (map shlex_quote args)) = Some args"
  unfolding shlex_split_def
proof (induction args)
  case (Cons a args)
  show ?case
  proof (cases args)
    case Nil
    then show ?thesis using shlex_go_quote [of a "[]"] by simp
  next
    case (Cons b bs)
    then show ?thesis
      using Cons.IH by (simp del: shlex_go.simps add: shlex_go_quote shlex_go_space)
  qed
qed simp

section \<open>What one step can end in\<close>

lemma builder_fields [simp]:
  "x_name (step_result n ok rc out err e) = n" "x_success (step_result n ok rc out err e) = ok"
  "x_output (step_result n ok rc out err e) = PNone" "x_error (step_result n ok rc out err e) = e"
  "x_schema_errors (step_result n ok rc out err e) = []" "x_exit_code (step_result n ok rc out err e) = rc"
  "x_name (failed_step n m) = n" "\<not> x_success (failed_step n m)" "x_error (failed_step n m) = Some (PStr m)"
  "x_output (failed_step n m) = PNone"
  by (simp_all add: step_result_def failed_step_def)

lemma parse_output_same [simp]:
  "x_name (parse_output loads r) = x_name r" "x_success (parse_output loads r) = x_success r"
  "x_error (parse_output loads r) = x_error r" "x_exit_code (parse_output loads r) = x_exit_code r"
  by (simp_all add: parse_output_def split: option.splits)

lemma validate_schema_same:
  "validate_schema h r step = Inr r' \<Longrightarrow> x_name r' = x_name r \<and> x_output r' = x_output r
    \<and> x_error r' = x_error r \<and> (x_success r' \<longleftrightarrow> x_success r \<and> x_schema_valid r')
    \<or> r' = r\<lparr>x_schema_name := schema_of_step h step\<rparr>"
  by (auto simp: validate_schema_def Let_def split: option.splits if_splits sum.splits)

lemma after_run_name: "after_run h step rc out err = Inr r \<Longrightarrow> x_name r = g_name step"
proof (cases "rc = 0")
  case False
  assume "after_run h step rc out err = Inr r"
  with False show ?thesis by (auto simp: after_run_def Let_def map_sum_def split: sum.splits)
next
  case True
  assume "after_run h step rc out err = Inr r"
  with True validate_schema_same show ?thesis
    by (fastforce simp: after_run_def Let_def split: if_splits)
qed

lemma step_outcome_name [simp]: "x_name (step_outcome h step outcome) = g_name step"
  by (auto simp: step_outcome_def dest: after_run_name split: run_outcome.splits sum.splits)

lemma execute_step_name: "execute_step h step ctx w = Some (r, w') \<Longrightarrow> x_name r = g_name step"
  by (auto simp: execute_step_def Let_def split: sum.splits option.splits prod.splits)







lemma validate_schema_output: "validate_schema h r step = Inr r' \<Longrightarrow> x_output r' = x_output r"
  by (auto simp: validate_schema_def Let_def split: option.splits if_splits sum.splits)


section \<open>Missing step references\<close>





definition demo_host :: "nat host" where
  "demo_host = \<lparr>h_files = \<lparr>w_exists = (\<lambda>_. False), w_resolve = id, w_expanduser = id,
       w_cwd = path_of ''/w'', w_yaml = (\<lambda>_. Inl []), w_on_load = (\<lambda>_. None)\<rparr>,
     h_working_dir = ''/w'', h_executable = ''/py'', h_environ = [], h_jinja = (\<lambda>_ _. Inr []),
     h_loads = (\<lambda>s. if s = ''{}'' then Some (PDict []) else None), h_json_schema = (\<lambda>_ _. Valid),
     h_schemas = [], h_schema_table = [(''generic'', [])], h_float = (\<lambda>_. []),
     h_run = (\<lambda>w cmd cwd env t. (if cmd = [''fail''] then Completed 1 [] [] else Completed 0 ''{}'' [], w + 1))\<rparr>"

definition demo_step :: "string \<Rightarrow> string list \<Rightarrow> StepConfig" where
  "demo_step command args = \<lparr>g_name = ''s'', g_command = command, g_args = args, g_timeout = Some 300,
     g_env = [], g_working_dir = None, g_skip = False, g_requires = [], g_continue_on_failure = False,
     g_phase = ''setup'', g_output_schema = None, g_sensitive_args = []\<rparr>"


definition demo_ctx :: run_context where
  "demo_ctx = \<lparr>c_data = [(KStr ''steps'', PDict [])], c_phases = []\<rparr>"


section \<open>The envelope of an output\<close>









section \<open>All steps of a phase\<close>

text \<open>A failed step stops the steps after it.\<close>

definition halts :: "bool \<Rightarrow> StepConfig \<Rightarrow> StepResult \<Rightarrow> bool" where
  "halts best step r \<longleftrightarrow> \<not> x_success r \<and> \<not> g_continue_on_failure step \<and> \<not> best"

text \<open>The results belong to the first steps, one each; only the last may stop the phase, and one
  must have stopped it when steps are left.\<close>

fun runs_in_order :: "bool \<Rightarrow> StepConfig list \<Rightarrow> StepResult list \<Rightarrow> bool" where
  "runs_in_order best [] rs \<longleftrightarrow> rs = []"
| "runs_in_order best (step # steps) [] \<longleftrightarrow> False"
| "runs_in_order best (step # steps) (r # rs) \<longleftrightarrow>
     x_name r = g_name step \<and> (g_skip step \<longrightarrow> r = skipped_step step)
     \<and> (if halts best step r then rs = [] else runs_in_order best steps rs)"

lemma add_step_simps [simp]:
  "z_steps (add_step rs r) = z_steps rs @ [r]" "z_success (add_step rs r) = (z_success rs \<and> x_success r)"
  "z_outputs (add_step rs r) = (if truthy (x_output r) then dput (z_outputs rs) (x_name r) (x_output r) else z_outputs rs)"
  by (simp_all add: add_step_def)

lemma skipped_step_simps [simp]:
  "x_name (skipped_step s) = g_name s" "x_success (skipped_step s)" "x_output (skipped_step s) = PNone"
  by (simp_all add: skipped_step_def)

lemma run_steps_order:
  "run_steps h best steps rs ctx w = Some (rs', ctx', w') \<Longrightarrow>
    \<exists>new. z_steps rs' = z_steps rs @ new \<and> runs_in_order best steps new
      \<and> (z_success rs' \<longleftrightarrow> z_success rs \<and> list_all x_success new)"
proof (induction steps arbitrary: rs ctx w)
  case (Cons step steps)
  show ?case
  proof (cases "g_skip step")
    case True
    with Cons.prems have "run_steps h best steps (add_step rs (skipped_step step)) ctx w = Some (rs', ctx', w')"
      by simp
    from Cons.IH [OF this] obtain new where new: "z_steps rs' = z_steps rs @ skipped_step step # new"
      "runs_in_order best steps new" "z_success rs' \<longleftrightarrow> z_success rs \<and> list_all x_success new" by auto
    then show ?thesis using True by (intro exI [of _ "skipped_step step # new"]) (simp add: halts_def)
  next
    case False
    with Cons.prems obtain r w1 ctx1 where e: "execute_step h step ctx w = Some (r, w1)"
      "store_output ctx step r = Some ctx1" by (auto split: option.splits)
    note name = execute_step_name [OF e(1)]
    show ?thesis
    proof (cases "halts best step r")
      case True
      with Cons.prems False e have "rs' = (add_step rs r)\<lparr>z_success := False\<rparr>" by (simp add: halts_def)
      then show ?thesis
        using True name False by (intro exI [of _ "[r]"]) (simp add: halts_def)
    next
      case n: False
      with Cons.prems False e have "run_steps h best steps (add_step rs r) ctx1 w1 = Some (rs', ctx', w')"
        by (auto simp: halts_def)
      from Cons.IH [OF this] obtain new where "z_steps rs' = z_steps rs @ r # new"
        "runs_in_order best steps new" "z_success rs' \<longleftrightarrow> z_success rs \<and> x_success r \<and> list_all x_success new"
        by auto
      then show ?thesis using n name False by (intro exI [of _ "r # new"]) simp
    qed
  qed
qed simp

lemma store_output_steps:
  assumes "store_output ctx step r = Some ctx'" "x_name r = g_name step"
    and "has_steps ctx" "\<forall>n. sget (steps_of ctx) n = (case dget outs n of Some v \<Rightarrow> Some v | None \<Rightarrow> old n)"
  shows "has_steps ctx' \<and> c_phases ctx' = c_phases ctx \<and> (\<forall>n. sget (steps_of ctx') n =
    (case dget (if truthy (x_output r) then dput outs (x_name r) (x_output r) else outs) n of
       Some v \<Rightarrow> Some v | None \<Rightarrow> old n))"
  using assms set_step_output_steps [of ctx "g_name step" "x_output r" ctx']
  by (auto simp: store_output_def split: if_splits)

lemma run_steps_context:
  assumes "run_steps h best steps rs ctx w = Some (rs', ctx', w')" "has_steps ctx"
    and "\<forall>n. sget (steps_of ctx) n = (case dget (z_outputs rs) n of Some v \<Rightarrow> Some v | None \<Rightarrow> old n)"
  shows "has_steps ctx' \<and> c_phases ctx' = c_phases ctx \<and>
    (\<forall>n. sget (steps_of ctx') n = (case dget (z_outputs rs') n of Some v \<Rightarrow> Some v | None \<Rightarrow> old n))"
  using assms
proof (induction steps arbitrary: rs ctx w)
  case (Cons step steps)
  show ?case
  proof (cases "g_skip step")
    case True
    with Cons show ?thesis by (simp add: skipped_step_def)
  next
    case False
    with Cons.prems(1) obtain r w1 ctx1 where e: "execute_step h step ctx w = Some (r, w1)"
      "store_output ctx step r = Some ctx1" by (auto split: option.splits)
    note ctx1 = store_output_steps [OF e(2) execute_step_name [OF e(1)] Cons.prems(2,3)]
    show ?thesis
    proof (cases "halts best step r")
      case True
      with Cons.prems(1) False e have "rs' = (add_step rs r)\<lparr>z_success := False\<rparr>" "ctx' = ctx1"
        by (simp_all add: halts_def)
      with ctx1 show ?thesis by simp
    next
      case n: False
      with Cons.prems(1) False e have "run_steps h best steps (add_step rs r) ctx1 w1 = Some (rs', ctx', w')"
        by (auto simp: halts_def)
      from Cons.IH [OF this] ctx1 show ?thesis by simp
    qed
  qed
qed simp

lemma runs_in_order_best: "runs_in_order True ss xs \<Longrightarrow> map x_name xs = map g_name ss"
  by (induction True ss xs rule: runs_in_order.induct) (auto simp: halts_def)

lemma execute_steps_order:
  assumes "execute_steps h best steps ctx w = Some (rs, ctx', w')"
  shows "runs_in_order best steps (z_steps rs) \<and> (z_success rs \<longleftrightarrow> list_all x_success (z_steps rs))"
  using run_steps_order [OF assms [unfolded execute_steps_def]] by (auto simp: no_results_def)

text \<open>C8. The results of a phase belong to its first steps, one each and in order. A step that
  fails ends the phase unless it continues on failure or the phase is best effort, and nothing
  else does: when steps are left over, the last result is such a failure. The phase succeeds
  exactly when every step that ran did. In a best-effort phase (teardown) every step is
  attempted.\<close>

theorem steps_run_in_order:
  assumes "execute_steps h best steps ctx w = Some (rs, ctx', w')"
  shows "runs_in_order best steps (z_steps rs)
    \<and> (z_success rs \<longleftrightarrow> list_all x_success (z_steps rs))
    \<and> (best \<longrightarrow> map x_name (z_steps rs) = map g_name steps)"
  using execute_steps_order [OF assms] runs_in_order_best by (cases best) auto

theorem steps_run_in_order_witness:
  "\<exists>rs ctx'. execute_steps demo_host False [demo_step ''fail'' [], demo_step ''ok'' []] demo_ctx 0 = Some (rs, ctx', 1)
    \<and> length (z_steps rs) = 1 \<and> \<not> z_success rs"
proof -
  obtain rs c where run: "execute_steps demo_host False [demo_step ''fail'' [], demo_step ''ok'' []] demo_ctx 0
      = Some (rs, c, 1)" "length (z_steps rs) = 1" "map x_success (z_steps rs) = [False]"
    by (rule that [of "the (map_option fst (execute_steps demo_host False [demo_step ''fail'' [], demo_step ''ok'' []] demo_ctx 0))"
        "the (map_option (fst \<circ> snd) (execute_steps demo_host False [demo_step ''fail'' [], demo_step ''ok'' []] demo_ctx 0))"])
      code_simp+
  from steps_run_in_order [OF run(1)] run(2,3) have "\<not> z_success rs"
    by (cases "z_steps rs") auto
  with run show ?thesis by blast
qed

text \<open>What later templates see is what the phase reports: after the phase, \<open>steps.<name>\<close> in the
  context is the accumulated output of that name when there is one, and otherwise what it was
  before; the phases recorded for steps are untouched.\<close>

theorem context_follows_outputs:
  assumes "execute_steps h best steps ctx w = Some (rs, ctx', w')" "has_steps ctx"
  shows "has_steps ctx' \<and> c_phases ctx' = c_phases ctx
    \<and> (\<forall>n. sget (steps_of ctx') n =
        (case dget (z_outputs rs) n of Some v \<Rightarrow> Some v | None \<Rightarrow> sget (steps_of ctx) n))"
  by (rule run_steps_context [OF assms [unfolded execute_steps_def]]) (simp add: no_results_def)

definition echo_host :: "nat host" where
  "echo_host = demo_host\<lparr>h_loads := (\<lambda>s. Some (PDict [(KStr ''id'', PStr s)]))\<rparr>"

theorem context_follows_outputs_witness:
  "\<exists>rs ctx' w'. execute_steps echo_host False [demo_step ''create'' []] demo_ctx 0 = Some (rs, ctx', w')
    \<and> sget (steps_of ctx') ''s'' = Some (PDict [(KStr ''id'', PStr ''{}'')])"
proof -
  let ?run = "execute_steps echo_host False [demo_step ''create'' []] demo_ctx 0"
  have some: "?run \<noteq> None" by code_simp
  then obtain rs c w' where run: "?run = Some (rs, c, w')" by (cases ?run) auto
  have "dget (z_outputs (fst (the ?run))) ''s'' = Some (PDict [(KStr ''id'', PStr ''{}'')])" by code_simp
  with run have o: "dget (z_outputs rs) ''s'' = Some (PDict [(KStr ''id'', PStr ''{}'')])" by simp
  have "has_steps demo_ctx" by code_simp
  from context_follows_outputs [OF run this] o run show ?thesis by auto
qed

section \<open>When the executor returns\<close>

text \<open>The output of a step is what the json module made of some text.\<close>

lemma parse_output_loaded:
  "x_output r = PNone \<Longrightarrow> x_output (parse_output loads r) = PNone \<or>
    (\<exists>s. loads s = Some (x_output (parse_output loads r)))"
  by (auto simp: parse_output_def split: option.splits)

lemma step_outcome_output:
  "x_output (step_outcome h step out) = PNone \<or> (\<exists>s. h_loads h s = Some (x_output (step_outcome h step out)))"
proof (cases out)
  case (Completed rc ot e)
  let ?r = "parse_output (h_loads h) (step_result (g_name step) (rc = 0) rc ot e None)"
  have "after_run h step rc ot e = Inr r \<Longrightarrow> x_output r = x_output ?r" for r
    by (auto simp: after_run_def Let_def map_sum_def dest: validate_schema_output split: if_splits sum.splits)
  with Completed parse_output_loaded [of "step_result (g_name step) (rc = 0) rc ot e None" "h_loads h"]
  show ?thesis by (auto simp: step_outcome_def split: sum.splits)
qed (simp_all add: step_outcome_def)

lemma execute_step_output:
  "execute_step h step ctx w = Some (r, w') \<Longrightarrow>
    x_output r = PNone \<or> (\<exists>s. h_loads h s = Some (x_output r))"
  using step_outcome_output
  by (auto simp: execute_step_def Let_def split: sum.splits option.splits prod.splits)

lemma execute_step_returns:
  "command_base (h_executable h) (g_command step) \<noteq> None \<Longrightarrow> \<exists>r w'. execute_step h step ctx w = Some (r, w')"
  by (auto simp: execute_step_def Let_def split: sum.splits prod.splits)

lemma run_steps_returns:
  assumes "\<forall>s \<in> set steps. command_base (h_executable h) (g_command s) \<noteq> None" "has_steps ctx"
    and "\<forall>r \<in> set (z_steps rs). x_output r = PNone \<or> (\<exists>s. h_loads h s = Some (x_output r))"
  shows "\<exists>rs' ctx' w'. run_steps h best steps rs ctx w = Some (rs', ctx', w') \<and> has_steps ctx'
    \<and> (\<forall>r \<in> set (z_steps rs'). x_output r = PNone \<or> (\<exists>s. h_loads h s = Some (x_output r)))"
  using assms
proof (induction steps arbitrary: rs ctx w)
  case (Cons step steps)
  show ?case
  proof (cases "g_skip step")
    case True
    with Cons show ?thesis by simp
  next
    case False
    from Cons.prems(1) obtain r w1 where e: "execute_step h step ctx w = Some (r, w1)"
      using execute_step_returns [of h step ctx w] by auto
    obtain ctx1 where s: "store_output ctx step r = Some ctx1" "has_steps ctx1"
      using set_step_output_Some [OF Cons.prems(2)] set_step_output_steps Cons.prems(2)
      unfolding store_output_def by (metis (full_types))
    have "\<forall>r \<in> set (z_steps (add_step rs r)). x_output r = PNone \<or> (\<exists>s. h_loads h s = Some (x_output r))"
      using Cons.prems(3) execute_step_output [OF e] by auto
    with Cons.IH [OF _ s(2) this] Cons.prems(1) False e s show ?thesis by auto
  qed
qed simp

lemma execute_steps_returns:
  assumes "\<forall>s \<in> set steps. command_base (h_executable h) (g_command s) \<noteq> None" "has_steps ctx"
  shows "\<exists>rs ctx' w'. execute_steps h best steps ctx w = Some (rs, ctx', w') \<and> has_steps ctx'
    \<and> (\<forall>r \<in> set (z_steps rs). x_output r = PNone \<or> (\<exists>s. h_loads h s = Some (x_output r)))"
  unfolding execute_steps_def using assms by (intro run_steps_returns) (simp_all add: no_results_def)

section \<open>Logged command lines and error excerpts\<close>

text \<open>C10. The logged command line of a command without sensitive arguments can be pasted back: a
  POSIX shell splits it into exactly the arguments the process was given.\<close>

theorem logged_command_roundtrip:
  assumes "\<forall>p \<in> set cmd. \<not> is_sensitive_arg extra p \<and>
    \<not> is_sensitive_arg extra (takeWhile (\<lambda>c. c \<noteq> CHR ''='') p)"
  shows "shlex_split (mask_sensitive_args cmd extra) = Some cmd"
  using assms shlex_split_join [of cmd] by (simp add: mask_sensitive_args_def mask_parts_public)

theorem logged_command_roundtrip_witness:
  "shlex_split (mask_sensitive_args [''ls'', ''a b'', [sq], []] []) = Some [''ls'', ''a b'', [sq], []]"
  by (rule logged_command_roundtrip) code_simp

text \<open>An excerpt of the error output is never longer than its limits plus the line that says
  how many lines are missing. It keeps the first and the last lines of the redacted output, and
  the lines kept and the lines reported as omitted add up to all of them.\<close>

theorem stderr_excerpt_lines:
  assumes "head_lines + tail_lines < length lines"
  shows "excerpt_lines head_lines tail_lines lines =
      take head_lines lines
        @ [omitted_marker (length lines - head_lines - tail_lines) head_lines tail_lines]
        @ drop (length lines - tail_lines) lines
    \<and> length (excerpt_lines head_lines tail_lines lines) = head_lines + tail_lines + 1"
  using assms by (auto simp: excerpt_lines_def Let_def min_def)

theorem stderr_excerpt_lines_witness:
  "length (excerpt_lines STDERR_EXCERPT_HEAD_LINES STDERR_EXCERPT_TAIL_LINES (replicate 500 ''x'')) = 101"
  using stderr_excerpt_lines [of STDERR_EXCERPT_HEAD_LINES STDERR_EXCERPT_TAIL_LINES "replicate 500 ''x''"]
  by (simp add: STDERR_EXCERPT_HEAD_LINES_def STDERR_EXCERPT_TAIL_LINES_def)

section \<open>Script paths\<close>

lemma script_index_bounds:
  "script_index i rest = Some j \<Longrightarrow> i \<le> j \<and> j < i + length rest \<and> \<not> prefix ''-'' (rest ! (j - i))"
proof (induction i rest rule: script_index.induct)
  case (2 i opt rest)
  show ?case
  proof (cases "opt = ''-W'' \<or> opt = ''-X''")
    case True
    with 2(3) obtain x rest' where r: "rest = x # rest'" "script_index (i + 2) rest' = Some j"
      by (auto split: list.splits if_splits)
    have "i + 2 \<le> j \<and> j < i + 2 + length rest' \<and> \<not> prefix ''-'' (rest' ! (j - (i + 2)))"
      using 2(1) r True by auto
    moreover from this obtain k where "j = i + 2 + k" using le_Suc_ex by blast
    ultimately show ?thesis using r by simp
  next
    case False
    show ?thesis
    proof (cases "prefix ''-'' opt")
      case dash: True
      with False 2(3) have r: "opt \<noteq> ''-m'' \<and> opt \<noteq> ''-c''" "script_index (i + 1) rest = Some j"
        by (auto split: if_splits)
      with 2(2) False dash have "i + 1 \<le> j \<and> j < i + 1 + length rest \<and> \<not> prefix ''-'' (rest ! (j - (i + 1)))"
        by auto
      moreover from this obtain k where "j = i + 1 + k" using le_Suc_ex by blast
      ultimately show ?thesis by simp
    next
      case noDash: False
      with 2(3) have "j = i" by simp
      with noDash show ?thesis by simp
    qed
  qed
qed simp

lemma first_existing_in:
  "first_existing w ps = Some p \<Longrightarrow> \<exists>c \<in> set ps. w_exists w c \<and> p = w_resolve w c"
  by (induction w ps rule: first_existing.induct) (auto split: if_splits)

text \<open>Resolving a script path changes at most one argument. The interpreter, the options and
  the arguments after the script stay; the argument replaced is a relative path, not an option,
  that does not exist in the working directory of the step, and it becomes the path of an
  existing file under a parent of that directory or under the process directory.\<close>

theorem script_path_only:
  "resolve_python_script_path w cmd cwd = cmd
    \<or> (\<exists>i root. 0 < i \<and> i < length cmd \<and> \<not> prefix ''-'' (cmd ! i)
        \<and> \<not> p_abs (path_of (cmd ! i)) \<and> \<not> w_exists w (path_join (path_of cwd) (path_of (cmd ! i)))
        \<and> root \<in> set (parents (w_resolve w (path_of cwd)) @ [w_cwd w])
        \<and> w_exists w (path_join root (path_of (cmd ! i)))
        \<and> resolve_python_script_path w cmd cwd =
            cmd[i := path_str (w_resolve w (path_join root (path_of (cmd ! i))))])"
proof (cases "resolve_python_script_path w cmd cwd = cmd")
  case False
  then obtain exe rest where c: "cmd = exe # rest"
    by (cases cmd) (auto simp: resolve_python_script_path_def)
  with False obtain i p where i: "script_index 1 rest = Some i"
    "\<not> p_abs (path_of (cmd ! i))" "\<not> w_exists w (path_join (path_of cwd) (path_of (cmd ! i)))"
    "first_existing w (map (\<lambda>root. path_join root (path_of (cmd ! i)))
       (parents (w_resolve w (path_of cwd)) @ [w_cwd w])) = Some p"
    "resolve_python_script_path w cmd cwd = cmd[i := path_str p]"
    by (auto simp: resolve_python_script_path_def Let_def split: if_splits option.splits)
  from script_index_bounds [OF i(1)] c have b: "0 < i" "i < length cmd" "\<not> prefix ''-'' (cmd ! i)"
    by (auto simp: nth_Cons')
  from first_existing_in [OF i(4)] obtain root
    where "root \<in> set (parents (w_resolve w (path_of cwd)) @ [w_cwd w])"
      "w_exists w (path_join root (path_of (cmd ! i)))"
      "p = w_resolve w (path_join root (path_of (cmd ! i)))" by auto
  with b i show ?thesis by blast
qed simp

section \<open>Two corners of the command line\<close>

text \<open>Arguments written after the script are dropped in the \<open>uv run python\<close> form, and an open quote
  in a command raises out of the executor.\<close>

lemma uv_run_drops_arguments:
  "command_base ''/py'' ''uv run python3 s.py --region us'' = Some [''/py'', ''s.py'']"
  "command_base ''/py'' ''python3 s.py --region us'' = Some [''/py'', ''s.py'', ''--region'', ''us'']"
  by code_simp+

lemma open_quote_raises: "execute_step demo_host (demo_step (''echo '' @ [CHR 0x22]) []) demo_ctx w = None"
proof -
  have "command_base (h_executable demo_host) (g_command (demo_step (''echo '' @ [CHR 0x22]) [])) = None"
    by code_simp
  then show ?thesis by (simp add: execute_step_def demo_step_def)
qed

end
