(* ===== verification/Pytest_Bridge.thy ===== *)
theory Pytest_Bridge
  imports Resolution
begin

text \<open>
  \<open>isvtest/main.py\<close>: the bridge from resolved entries to one pytest run and back. Ready
  entries get unique configuration names, the run is made with their parameters and an
  inventory built from their step outputs, and the captured results are mapped back.

  pytest itself is a parameter: \<open>pytest validations inventory\<close> is its exit code and the results
  captured by \<open>tests/test_validations.py\<close>, whose records are \<open>raw_result\<close>, with whatever else the
  run leaves behind (its report file, the world) in a value of type \<open>'x\<close>. A missing key of a
  record is \<open>None\<close>.
\<close>

section \<open>Captured results\<close>

record raw_result =
  q_name :: string
  q_passed :: bool
  q_skipped :: bool
  q_message :: string
  q_duration :: rat
  q_error_reason :: "string option"
  q_subtests :: "SubtestSummary option"

text \<open>The outcome of one subtest: whether it passed and whether it was skipped.\<close>

record subtest =
  t_name :: string
  t_passed :: bool
  t_skipped :: bool
  t_message :: string
  t_duration :: rat

fun count_outcomes :: "SubtestSummary \<Rightarrow> subtest list \<Rightarrow> SubtestSummary" where
  "count_outcomes c [] = c"
| "count_outcomes c (t # ts) = count_outcomes
     (if t_skipped t then c\<lparr>s_skipped := s_skipped c + 1\<rparr>
      else if t_passed t then c\<lparr>s_passed := s_passed c + 1\<rparr>
      else c\<lparr>s_failed := s_failed c + 1\<rparr>) ts"

lemma count_outcomes_counts:
  "s_passed (count_outcomes c ts) = s_passed c + int (length (filter (\<lambda>t. t_passed t \<and> \<not> t_skipped t) ts))"
  "s_failed (count_outcomes c ts) = s_failed c + int (length (filter (\<lambda>t. \<not> t_passed t \<and> \<not> t_skipped t) ts))"
  "s_skipped (count_outcomes c ts) = s_skipped c + int (length (filter t_skipped ts))"
  by (induction c ts rule: count_outcomes.induct) auto

lemma count_outcomes_total:
  "subtest_total (count_outcomes c ts) = subtest_total c + int (length ts)"
  by (induction c ts rule: count_outcomes.induct) (auto simp: subtest_total_def)

section \<open>Configuration names\<close>

fun count_names :: "(string \<times> nat) list \<Rightarrow> ResolvedEntry list \<Rightarrow> (string \<times> nat) list" where
  "count_names d [] = d"
| "count_names d (r # rs) =
     (let n = e_name (r_entry r) in count_names (dput d n (dgetd d n 0 + 1)) rs)"

definition qualified_name :: "string \<Rightarrow> string \<Rightarrow> nat \<Rightarrow> string" where
  "qualified_name n c k =
     (let suffix = (if k = 1 then c else c @ ''-'' @ nat_str k) in n @ ''-'' @ suffix)"

fun name_entries ::
  "(string \<times> nat) list \<Rightarrow> ((string \<times> string) \<times> nat) list \<Rightarrow> ResolvedEntry list \<Rightarrow> ResolvedEntry list"
where
  "name_entries nc pc [] = []"
| "name_entries nc pc (r # rs) =
     (let e = r_entry r; n = e_name e; c = e_category e
      in if dgetd nc n 0 = 1
         then fresh_entry (e\<lparr>e_name := n\<rparr>) (r_params r) # name_entries nc pc rs
         else let k = dgetd pc (n, c) 0 + 1
              in fresh_entry (e\<lparr>e_name := qualified_name n c k\<rparr>) (r_params r)
                   # name_entries nc (dput pc (n, c) k) rs)"

definition entries_with_pytest_names :: "ResolvedEntry list \<Rightarrow> ResolvedEntry list" where
  "entries_with_pytest_names rs =
     (let ready = filter is_ready rs in name_entries (count_names [] ready) [] ready)"

definition pytest_validations :: "ResolvedEntry list \<Rightarrow> (string \<times> dict) list" where
  "pytest_validations rs =
     map (\<lambda>r. (e_name (r_entry r), case r_params r of None \<Rightarrow> [] | Some d \<Rightarrow> d)) rs"

section \<open>Inventory\<close>

text \<open>
  \<open>steps\<close> is the object stored in \<open>result["steps"]\<close>. The flag says that this is still so: an
  output with a scalar under the key \<open>steps\<close> replaces it, and what is written to the old
  object afterwards is lost.
\<close>

definition put_step :: "string \<Rightarrow> dict \<Rightarrow> dict \<times> bool \<Rightarrow> dict \<times> bool" where
  "put_step s out st = (case st of (d, attached) \<Rightarrow>
     (case sget d ''steps'' of
        Some (PDict steps) \<Rightarrow>
          ((if attached then dput d (KStr ''steps'') (PDict (dput steps (KStr s) (PDict out))) else d), attached)
      | _ \<Rightarrow> (d, attached)))"

fun merge_output :: "dict \<Rightarrow> dict \<times> bool \<Rightarrow> dict \<times> bool" where
  "merge_output [] st = st"
| "merge_output ((k, v) # kvs) (d, attached) = merge_output kvs
     (case v of
        PDict new \<Rightarrow>
          (case dgetd d k (PDict []) of
             PDict old \<Rightarrow> (dput d k (PDict (dupdate old new)), attached)
           | _ \<Rightarrow> (d, attached))
      | _ \<Rightarrow> (dput d k v, attached \<and> k \<noteq> KStr ''steps''))"

definition add_entry_output :: "ResolvedEntry \<Rightarrow> dict \<times> bool \<Rightarrow> dict \<times> bool" where
  "add_entry_output r st =
     (case (bound_step (r_entry r), get_or_none (case r_params r of None \<Rightarrow> [] | Some d \<Rightarrow> d) ''step_output'') of
        (Some s, PDict out) \<Rightarrow> merge_output out (put_step s out st)
      | _ \<Rightarrow> st)"

definition start_inventory :: "dict option \<Rightarrow> dict" where
  "start_inventory inventory =
     (let result = (case inventory of None \<Rightarrow> [] | Some d \<Rightarrow> d);
          result = dsetdefault result (KStr ''steps'') (PDict [])
      in if is_dict (dgetd result (KStr ''steps'') PNone) then result
         else dput result (KStr ''steps'') (PDict []))"

definition build_inventory :: "ResolvedEntry list \<Rightarrow> dict option \<Rightarrow> dict" where
  "build_inventory rs inventory = fst (fold add_entry_output rs (start_inventory inventory, True))"

section \<open>Mapping results back\<close>

definition result_to_resolved_entry :: "ResolvedEntry \<Rightarrow> raw_result \<Rightarrow> ResolvedEntry" where
  "result_to_resolved_entry r q =
     (let base = (fresh_entry (r_entry r) (r_params r))
            \<lparr>r_message := q_message q, r_duration := q_duration q,
             r_subtests := (case q_subtests q of None \<Rightarrow> no_subtests | Some s \<Rightarrow> s)\<rparr>
      in if q_skipped q then base\<lparr>r_state := Some SKIPPED, r_skip := Some RUNTIME_SKIP\<rparr>
         else if q_passed q then base\<lparr>r_state := Some PASSED\<rparr>
         else if q_error_reason q = Some (error_value RUNTIME_EXCEPTION)
         then base\<lparr>r_state := Some ERROR, r_error := Some RUNTIME_EXCEPTION\<rparr>
         else base\<lparr>r_state := Some FAILED\<rparr>)"

text \<open>\<open>by_name\<close>: of two results with one name the later one counts.\<close>

definition by_name :: "raw_result list \<Rightarrow> string \<Rightarrow> raw_result option" where
  "by_name qs n = dget (rev (map (\<lambda>q. (q_name q, q)) qs)) n"

definition apply_result :: "raw_result list \<Rightarrow> ResolvedEntry \<Rightarrow> ResolvedEntry" where
  "apply_result qs r = (case by_name qs (e_name (r_entry r)) of
     None \<Rightarrow> (fresh_entry (r_entry r) (r_params r))
       \<lparr>r_state := Some SKIPPED, r_skip := Some EXCLUDED, r_message := ''excluded by pytest -k/-m filter''\<rparr>
   | Some q \<Rightarrow> result_to_resolved_entry r q)"

definition apply_pytest_results :: "ResolvedEntry list \<Rightarrow> raw_result list \<Rightarrow> ResolvedEntry list" where
  "apply_pytest_results rs qs = map (apply_result qs) rs"

definition run_validations_via_pytest ::
  "((string \<times> dict) list \<Rightarrow> dict \<Rightarrow> int \<times> raw_result list \<times> 'x) \<Rightarrow> ResolvedEntry list \<Rightarrow> dict option
    \<Rightarrow> int \<times> ResolvedEntry list \<times> 'x option"
where
  "run_validations_via_pytest pytest entries inventory =
     (let execution = entries_with_pytest_names entries;
          validations = pytest_validations execution
      in if validations = [] then (0, [], None)
         else (case pytest validations (build_inventory execution inventory) of
            (exit_code, raw, x) \<Rightarrow> (exit_code, apply_pytest_results execution raw, Some x)))"

section \<open>Names of distinct entries are distinct\<close>

abbreviation entry_name :: "ResolvedEntry \<Rightarrow> string" where
  "entry_name r \<equiv> e_name (r_entry r)"

abbreviation entry_category :: "ResolvedEntry \<Rightarrow> string" where
  "entry_category r \<equiv> e_category (r_entry r)"

lemma count_names_get:
  "dgetd (count_names d rs) n 0 = dgetd d n 0 + count_list (map entry_name rs) n"
  by (induction d rs rule: count_names.induct) (auto simp: dgetd_def Let_def)

text \<open>Categories and names for which the qualified names can be told apart.\<close>

definition plain_category :: "string \<Rightarrow> bool" where
  "plain_category c \<longleftrightarrow> c \<noteq> [] \<and> \<not> is_digit (hd c) \<and> CHR ''-'' \<notin> set c"

definition plain_names :: "ResolvedEntry list \<Rightarrow> bool" where
  "plain_names rs \<longleftrightarrow> list_all (\<lambda>r. plain_category (entry_category r)
     \<and> list_all (\<lambda>r'. \<not> prefix (entry_name r @ ''-'' @ entry_category r) (entry_name r')) rs) rs"

lemma last_dash_eq:
  assumes "x @ CHR ''-'' # y = x' @ CHR ''-'' # y'" "CHR ''-'' \<notin> set y" "CHR ''-'' \<notin> set y'"
  shows "x = x' \<and> y = y'"
  using assms before_last_append [of "CHR ''-''" y x] before_last_append [of "CHR ''-''" y' x'] by simp

lemma nat_str_dashless: "CHR ''-'' \<notin> set (nat_str k)"
  by (auto dest!: nat_str_digits simp: is_digit_def code_def)

lemma nat_str_inj: "nat_str k = nat_str k' \<Longrightarrow> k = k'"
  by (metis digits_val_nat_str option.inject)

lemma category_not_number: "plain_category c \<Longrightarrow> c \<noteq> nat_str k"
  using nat_str_digits [of "hd c" k] hd_in_set [of c] by (auto simp: plain_category_def)

lemma qualified_name_cases:
  "k = 1 \<Longrightarrow> qualified_name n c k = n @ CHR ''-'' # c"
  "k \<noteq> 1 \<Longrightarrow> qualified_name n c k = (n @ CHR ''-'' # c) @ CHR ''-'' # nat_str k"
  by (simp_all add: qualified_name_def)

lemma qualified_name_inj:
  assumes "plain_category c" "plain_category c'" "qualified_name n c k = qualified_name n' c' k'"
  shows "n = n' \<and> c = c' \<and> k = k'"
proof -
  have d: "CHR ''-'' \<notin> set c" "CHR ''-'' \<notin> set c'" using assms by (simp_all add: plain_category_def)
  note num = nat_str_dashless category_not_number [OF assms(1)] category_not_number [OF assms(2)]
  show ?thesis
  proof (cases "k = 1"; cases "k' = 1")
    assume a: "k = 1" "k' = 1"
    then have "n @ CHR ''-'' # c = n' @ CHR ''-'' # c'"
      using assms(3) qualified_name_cases by metis
    from last_dash_eq [OF this d] a show ?thesis by simp
  next
    assume a: "k = 1" "k' \<noteq> 1"
    then have "n @ CHR ''-'' # c = (n' @ CHR ''-'' # c') @ CHR ''-'' # nat_str k'"
      using assms(3) qualified_name_cases by metis
    from last_dash_eq [OF this d(1) num(1)] num(2) show ?thesis by simp
  next
    assume a: "k \<noteq> 1" "k' = 1"
    then have "(n @ CHR ''-'' # c) @ CHR ''-'' # nat_str k = n' @ CHR ''-'' # c'"
      using assms(3) qualified_name_cases by metis
    from last_dash_eq [OF this num(1) d(2)] num(3) [of k] show ?thesis by simp
  next
    assume a: "k \<noteq> 1" "k' \<noteq> 1"
    then have "(n @ CHR ''-'' # c) @ CHR ''-'' # nat_str k = (n' @ CHR ''-'' # c') @ CHR ''-'' # nat_str k'"
      using assms(3) qualified_name_cases by metis
    from last_dash_eq [OF this num(1) num(1)]
    have e: "n @ CHR ''-'' # c = n' @ CHR ''-'' # c'" "nat_str k = nat_str k'" by blast+
    from last_dash_eq [OF e(1) d] nat_str_inj [OF e(2)] show ?thesis by simp
  qed
qed

lemma qualified_name_extends: "prefix (n @ ''-'' @ c) (qualified_name n c k)"
  by (simp add: qualified_name_def Let_def)

text \<open>Where an assigned name comes from.\<close>

definition named_after ::
  "(string \<times> nat) list \<Rightarrow> ((string \<times> string) \<times> nat) list \<Rightarrow> ResolvedEntry \<Rightarrow> string \<Rightarrow> bool"
where
  "named_after nc pc r n \<longleftrightarrow>
     dgetd nc (entry_name r) 0 = 1 \<and> n = entry_name r
     \<or> dgetd nc (entry_name r) 0 \<noteq> 1
       \<and> (\<exists>k. n = qualified_name (entry_name r) (entry_category r) k
            \<and> dgetd pc (entry_name r, entry_category r) 0 < k)"

lemma named_after_dput:
  "named_after nc (dput pc p (dgetd pc p 0 + 1)) r n \<Longrightarrow> named_after nc pc r n"
  unfolding named_after_def
  by (cases "p = (entry_name r, entry_category r)") (auto simp: dgetd_def dest: Suc_lessD)

lemma name_entries_Cons_unique:
  "dgetd nc (entry_name r) 0 = 1 \<Longrightarrow> map entry_name (name_entries nc pc (r # rs)) =
    entry_name r # map entry_name (name_entries nc pc rs)"
  by (simp add: Let_def fresh_entry_def)

lemma name_entries_Cons_shared:
  "dgetd nc (entry_name r) 0 \<noteq> 1 \<Longrightarrow> map entry_name (name_entries nc pc (r # rs)) =
    qualified_name (entry_name r) (entry_category r) (dgetd pc (entry_name r, entry_category r) 0 + 1)
      # map entry_name (name_entries nc (dput pc (entry_name r, entry_category r)
          (dgetd pc (entry_name r, entry_category r) 0 + 1)) rs)"
  by (simp add: Let_def fresh_entry_def)

lemmas name_entries_Cons = name_entries_Cons_unique name_entries_Cons_shared

lemma name_entries_named_after:
  "n \<in> set (map entry_name (name_entries nc pc rs)) \<Longrightarrow> \<exists>r \<in> set rs. named_after nc pc r n"
proof (induction rs arbitrary: pc)
  case (Cons r rs)
  show ?case
  proof (cases "dgetd nc (entry_name r) 0 = 1")
    case True
    with Cons.prems consider "n = entry_name r" | "n \<in> set (map entry_name (name_entries nc pc rs))"
      unfolding name_entries_Cons_unique [OF True] by auto
    then show ?thesis using Cons.IH True by cases (auto simp: named_after_def)
  next
    case False
    let ?p = "(entry_name r, entry_category r)"
    from Cons.prems consider "n = qualified_name (entry_name r) (entry_category r) (dgetd pc ?p 0 + 1)"
      | "n \<in> set (map entry_name (name_entries nc (dput pc ?p (dgetd pc ?p 0 + 1)) rs))"
      unfolding name_entries_Cons_shared [OF False] by auto
    then show ?thesis
    proof cases
      case 1
      with False have "named_after nc pc r n" unfolding named_after_def by (metis less_add_one)
      then show ?thesis by simp
    next
      case 2
      from Cons.IH [OF this] obtain r' where "r' \<in> set rs"
        "named_after nc (dput pc ?p (dgetd pc ?p 0 + 1)) r' n" by blast
      with named_after_dput [of nc ?p pc r' n] show ?thesis by force
    qed
  qed
qed simp

lemma name_entries_distinct:
  assumes "plain_names all" "set rs \<subseteq> set all"
    and "\<And>n. count_list (map entry_name rs) n \<le> dgetd nc n 0"
  shows "distinct (map entry_name (name_entries nc pc rs))"
  using assms(2,3)
proof (induction rs arbitrary: pc)
  case (Cons r rs)
  have count: "count_list (map entry_name rs) n \<le> dgetd nc n 0" for n
    using Cons.prems(2) [of n] by (simp split: if_splits)
  have IH: "distinct (map entry_name (name_entries nc pc' rs))" for pc'
    using Cons.IH [OF _ count] Cons.prems(1) by simp
  have plain: "plain_category (entry_category r')" "\<not> prefix (entry_name r' @ ''-'' @ entry_category r') (entry_name r'')"
    if "r' \<in> set (r # rs)" "r'' \<in> set (r # rs)" for r' r''
    using that Cons.prems(1) assms(1) by (auto simp: plain_names_def list_all_iff)
  show ?case
  proof (cases "dgetd nc (entry_name r) 0 = 1")
    case True
    have "entry_name r \<notin> set (map entry_name (name_entries nc pc rs))"
    proof
      assume "entry_name r \<in> set (map entry_name (name_entries nc pc rs))"
      then obtain r' where r': "r' \<in> set rs" "named_after nc pc r' (entry_name r)"
        using name_entries_named_after by blast
      from Cons.prems(2) [of "entry_name r"] True have "count_list (map entry_name rs) (entry_name r) = 0"
        by simp
      then have "entry_name r \<noteq> entry_name r'" using r'(1) by (auto simp: count_list_0_iff)
      with r'(2) obtain k where "entry_name r = qualified_name (entry_name r') (entry_category r') k"
        by (auto simp: named_after_def)
      with plain(2) [of r' r] r'(1) qualified_name_extends [of "entry_name r'" "entry_category r'" k]
      show False by simp
    qed
    with IH show ?thesis unfolding name_entries_Cons_unique [OF True] by simp
  next
    case False
    let ?p = "(entry_name r, entry_category r)"
    let ?k = "dgetd pc ?p 0 + 1"
    let ?pc = "dput pc ?p ?k"
    have "qualified_name (entry_name r) (entry_category r) ?k \<notin> set (map entry_name (name_entries nc ?pc rs))"
    proof
      assume "qualified_name (entry_name r) (entry_category r) ?k \<in> set (map entry_name (name_entries nc ?pc rs))"
      then obtain r' where r': "r' \<in> set rs"
        "named_after nc ?pc r' (qualified_name (entry_name r) (entry_category r) ?k)"
        using name_entries_named_after by blast
      show False
      proof (cases "dgetd nc (entry_name r') 0 = 1")
        case True
        with r'(2) have "entry_name r' = qualified_name (entry_name r) (entry_category r) ?k"
          by (simp add: named_after_def)
        with plain(2) [of r r'] r'(1) qualified_name_extends [of "entry_name r" "entry_category r" ?k]
        show False by simp
      next
        case False
        with r'(2) have "\<exists>k. qualified_name (entry_name r) (entry_category r) ?k
            = qualified_name (entry_name r') (entry_category r') k
          \<and> dgetd ?pc (entry_name r', entry_category r') 0 < k"
          by (simp only: named_after_def simp_thms)
        then obtain k where k: "qualified_name (entry_name r) (entry_category r) ?k
            = qualified_name (entry_name r') (entry_category r') k"
          "dgetd ?pc (entry_name r', entry_category r') 0 < k" by (elim exE conjE)
        have "plain_category (entry_category r)" "plain_category (entry_category r')"
          using plain(1) [of r r] plain(1) [of r' r'] r'(1) by simp_all
        from qualified_name_inj [OF this k(1)]
        have e: "entry_name r = entry_name r'" "entry_category r = entry_category r'" "?k = k" by blast+
        from e(1,2) have "dgetd ?pc (entry_name r', entry_category r') 0 = ?k" by (simp add: dgetd_def)
        with k(2) e(3) show False by simp
      qed
    qed
    with IH show ?thesis unfolding name_entries_Cons_shared [OF False] by simp
  qed
qed simp

text \<open>The names under which ready entries enter the pytest configuration are distinct when
  categories are plain (no dash, not starting with a digit) and no configured name starts
  with another configured name followed by a dash and that entry's category. Entries that
  share a name, or a name and a category, are told apart.\<close>

theorem pytest_names_distinct:
  assumes "plain_names (filter is_ready rs)"
  shows "distinct (map entry_name (entries_with_pytest_names rs))"
  unfolding entries_with_pytest_names_def Let_def
  by (rule name_entries_distinct [OF assms]) (simp_all add: count_names_get)

definition demo_ready :: "string \<Rightarrow> string \<Rightarrow> ResolvedEntry" where
  "demo_ready n c = fresh_entry \<lparr>e_name = n, e_category = c, e_params = PDict [], e_step = None,
     e_phase = None, e_labels = [], e_requires = []\<rparr> (Some [])"

lemma demo_ready_simps [simp]:
  "is_ready (demo_ready n c)" "entry_name (demo_ready n c) = n" "entry_category (demo_ready n c) = c"
  by (simp_all add: demo_ready_def entry_builders)

theorem pytest_names_distinct_witness:
  "distinct (map entry_name (entries_with_pytest_names
    [demo_ready ''A'' ''x'', demo_ready ''A'' ''x'', demo_ready ''A'' ''y'', demo_ready ''B-1'' ''x'']))"
  by (rule pytest_names_distinct) (simp add: plain_names_def plain_category_def is_digit_def code_def)

text \<open>Without that condition two entries can get one name: the first of two checks \<open>A\<close> takes the
  name of a third check that is configured as \<open>A-x\<close>.\<close>

lemma pytest_names_collide:
  "map entry_name (entries_with_pytest_names
     [demo_ready ''A'' ''x'', demo_ready ''A'' ''y'', demo_ready ''A-x'' ''z'']) = [''A-x'', ''A-y'', ''A-x'']"
  by code_simp

section \<open>One terminal result for every ready entry\<close>

text \<open>The terminal outcome of an entry: passed, failed, skipped or error, with a reason exactly
  where the report needs one.\<close>

definition terminal :: "ResolvedEntry \<Rightarrow> bool" where
  "terminal r \<longleftrightarrow> (case r_state r of
     None \<Rightarrow> False
   | Some SKIPPED \<Rightarrow> r_skip r \<noteq> None \<and> r_error r = None
   | Some ERROR \<Rightarrow> r_skip r = None \<and> r_error r \<noteq> None
   | Some _ \<Rightarrow> r_skip r = None \<and> r_error r = None)"

lemma apply_result_terminal: "terminal (apply_result qs r)"
  by (auto simp: apply_result_def result_to_resolved_entry_def terminal_def fresh_entry_def Let_def
      split: option.splits)

lemma apply_result_same [simp]:
  "r_entry (apply_result qs r) = r_entry r" "r_params (apply_result qs r) = r_params r"
  by (simp_all add: apply_result_def result_to_resolved_entry_def fresh_entry_def Let_def split: option.splits)

lemma apply_result_state:
  "r_state (apply_result qs r) = Some PASSED \<longleftrightarrow>
    (\<exists>q. by_name qs (entry_name r) = Some q \<and> q_passed q \<and> \<not> q_skipped q)"
  by (auto simp: apply_result_def result_to_resolved_entry_def fresh_entry_def Let_def split: option.splits)

lemma name_entries_same:
  "list_all2 (\<lambda>r r'. r_params r' = r_params r \<and> r_entry r' = (r_entry r)\<lparr>e_name := entry_name r'\<rparr>)
    rs (name_entries nc pc rs)"
proof (induction rs arbitrary: pc)
  case (Cons r rs)
  then show ?case by (simp add: Let_def fresh_entry_def)
qed simp

text \<open>An executed entry belongs to a configured one, whose name it may qualify.\<close>

definition outcome_of :: "ResolvedEntry \<Rightarrow> ResolvedEntry \<Rightarrow> bool" where
  "outcome_of r r' \<longleftrightarrow> terminal r' \<and> r_params r' = r_params r
     \<and> r_entry r' = (r_entry r)\<lparr>e_name := entry_name r'\<rparr>"

abbreviation bridge_run where
  "bridge_run pytest rs inventory \<equiv> pytest (pytest_validations (entries_with_pytest_names rs))
     (build_inventory (entries_with_pytest_names rs) inventory)"

lemma bridge_results:
  "fst (snd (run_validations_via_pytest pytest rs inventory)) =
    map (apply_result (fst (snd (bridge_run pytest rs inventory)))) (entries_with_pytest_names rs)"
  by (auto simp: run_validations_via_pytest_def pytest_validations_def Let_def apply_pytest_results_def
      split: prod.splits)

lemma bridge_outcomes:
  "list_all2 outcome_of (filter is_ready rs) (fst (snd (run_validations_via_pytest pytest rs inventory)))"
proof -
  have "list_all2 (\<lambda>r r'. r_params r' = r_params r \<and> r_entry r' = (r_entry r)\<lparr>e_name := entry_name r'\<rparr>)
      (filter is_ready rs) (entries_with_pytest_names rs)"
    by (simp add: entries_with_pytest_names_def Let_def name_entries_same)
  then show ?thesis
    unfolding bridge_results list.rel_map
    by (rule list_all2_mono) (simp add: outcome_of_def apply_result_terminal)
qed

text \<open>C13. The bridge returns one terminal outcome per ready entry, in order, with the entry and
  its parameters unchanged up to the configuration name. A check is reported as passed only
  if pytest captured a passing result that was not a skip under its name; a check without a
  captured result is reported as excluded.\<close>

theorem bridge_one_outcome_each:
  "list_all2 (\<lambda>r r'. terminal r' \<and> r_params r' = r_params r
      \<and> r_entry r' = (r_entry r)\<lparr>e_name := entry_name r'\<rparr>)
    (filter is_ready rs) (fst (snd (run_validations_via_pytest pytest rs inventory)))
  \<and> list_all (\<lambda>r'. let qs = fst (snd (bridge_run pytest rs inventory)) in
      (r_state r' = Some PASSED \<longleftrightarrow>
        (\<exists>q. by_name qs (entry_name r') = Some q \<and> q_passed q \<and> \<not> q_skipped q))
      \<and> (r_skip r' = Some EXCLUDED \<longleftrightarrow> by_name qs (entry_name r') = None))
    (fst (snd (run_validations_via_pytest pytest rs inventory)))"
proof -
  have excluded: "r_skip (apply_result qs r) = Some EXCLUDED \<longleftrightarrow> by_name qs (entry_name r) = None" for qs r
    by (auto simp: apply_result_def result_to_resolved_entry_def fresh_entry_def Let_def split: option.splits)
  show ?thesis
    using bridge_outcomes [of rs pytest inventory]
    by (auto simp: outcome_of_def [abs_def] bridge_results list_all_iff Let_def apply_result_state excluded)
qed

section \<open>The inventory lists the outputs of the bound steps\<close>

definition entry_output :: "ResolvedEntry \<Rightarrow> (pkey \<times> pval) list" where
  "entry_output r = (case (bound_step (r_entry r), get_or_none (case r_params r of None \<Rightarrow> [] | Some d \<Rightarrow> d) ''step_output'') of
     (Some s, PDict out) \<Rightarrow> [(KStr s, PDict out)] | _ \<Rightarrow> [])"

definition inv_steps :: "dict \<times> bool \<Rightarrow> dict \<Rightarrow> bool" where
  "inv_steps st steps \<longleftrightarrow> snd st \<and> sget (fst st) ''steps'' = Some (PDict steps)"

lemma merge_output_steps:
  "inv_steps st steps \<Longrightarrow> KStr ''steps'' \<notin> set (dkeys out) \<Longrightarrow> inv_steps (merge_output out st) steps"
proof (induction out st rule: merge_output.induct)
  case (2 k v kvs d att)
  then have ne: "k \<noteq> KStr ''steps''" "KStr ''steps'' \<notin> set (dkeys kvs)" by auto
  show ?case
    unfolding merge_output.simps
    by (rule "2.IH" [OF _ ne(2)])
      (use 2(2) ne(1) in \<open>auto simp: inv_steps_def split: pval.splits\<close>)
qed simp

lemma put_step_steps:
  "inv_steps st steps \<Longrightarrow> inv_steps (put_step s out st) (dput steps (KStr s) (PDict out))"
  by (cases st) (auto simp: inv_steps_def put_step_def)

lemma add_entry_output_steps:
  assumes "inv_steps st steps" "\<forall>(k, v) \<in> set (entry_output r). \<forall>out. v = PDict out \<longrightarrow> KStr ''steps'' \<notin> set (dkeys out)"
  shows "inv_steps (add_entry_output r st) (fold (\<lambda>(k, v) m. dput m k v) (entry_output r) steps)"
proof (cases "bound_step (r_entry r)")
  case None
  with assms(1) show ?thesis by (simp add: add_entry_output_def entry_output_def)
next
  case (Some s)
  then show ?thesis
    using assms
    by (cases "get_or_none (case r_params r of None \<Rightarrow> [] | Some d \<Rightarrow> d) ''step_output''")
      (auto simp: add_entry_output_def entry_output_def intro!: merge_output_steps put_step_steps)
qed

lemma fold_outputs_steps:
  assumes "inv_steps st steps"
    and "\<forall>r \<in> set rs. \<forall>(k, v) \<in> set (entry_output r). \<forall>out. v = PDict out \<longrightarrow> KStr ''steps'' \<notin> set (dkeys out)"
  shows "inv_steps (fold add_entry_output rs st)
    (fold (\<lambda>(k, v) m. dput m k v) (concat (map entry_output rs)) steps)"
  using assms
proof (induction rs arbitrary: st steps)
  case (Cons r rs)
  from Cons.prems(2) add_entry_output_steps [OF Cons.prems(1)]
  have "inv_steps (add_entry_output r st) (fold (\<lambda>(k, v) m. dput m k v) (entry_output r) steps)" by simp
  from Cons.IH [OF this] Cons.prems(2) show ?case by simp
qed simp

lemma start_inventory_steps: "\<exists>steps. inv_steps (start_inventory inventory, True) steps"
  unfolding inv_steps_def start_inventory_def Let_def
  by (cases "dgetd (dsetdefault (case inventory of None \<Rightarrow> [] | Some d \<Rightarrow> d) (KStr ''steps'') (PDict [])) (KStr ''steps'') PNone")
    (auto simp: dgetd_def split: option.splits if_splits)

text \<open>Unless a step output itself has a key \<open>steps\<close>, the inventory given to pytest maps every
  step that some entry is bound to, to the last output among those entries, and keeps what
  the given inventory had for the other steps.\<close>

theorem inventory_has_step_outputs:
  assumes "\<forall>r \<in> set rs. \<forall>(k, v) \<in> set (entry_output r). \<forall>out. v = PDict out \<longrightarrow> KStr ''steps'' \<notin> set (dkeys out)"
  shows "\<exists>old new. sget (start_inventory inventory) ''steps'' = Some (PDict old)
    \<and> sget (build_inventory rs inventory) ''steps'' = Some (PDict new)
    \<and> (\<forall>s. sget new s = (case map_of (rev (concat (map entry_output rs))) (KStr s) of
          None \<Rightarrow> sget old s | Some out \<Rightarrow> Some out))"
proof -
  obtain old where old: "inv_steps (start_inventory inventory, True) old"
    using start_inventory_steps by blast
  show ?thesis
    using old fold_outputs_steps [OF old assms] pd.get_puts
    unfolding inv_steps_def build_inventory_def by (metis fst_conv)
qed

definition demo_bound :: ResolvedEntry where
  "demo_bound = fresh_entry \<lparr>e_name = ''A'', e_category = ''x'', e_params = PDict [], e_step = Some ''launch'',
     e_phase = None, e_labels = [], e_requires = []\<rparr>
     (Some [(KStr ''step_output'', PDict [(KStr ''ip'', PStr ''10.0.0.1'')])])"

theorem inventory_has_step_outputs_witness:
  "\<exists>new. sget (build_inventory [demo_bound] None) ''steps'' = Some (PDict new)
    \<and> sget new ''launch'' = Some (PDict [(KStr ''ip'', PStr ''10.0.0.1'')])"
proof -
  have o: "entry_output demo_bound = [(KStr ''launch'', PDict [(KStr ''ip'', PStr ''10.0.0.1'')])]"
    by (simp add: entry_output_def demo_bound_def fresh_entry_def bound_step_def get_or_none_def)
  then have "\<forall>r \<in> set [demo_bound]. \<forall>(k, v) \<in> set (entry_output r). \<forall>out. v = PDict out
      \<longrightarrow> KStr ''steps'' \<notin> set (dkeys out)" by simp
  from inventory_has_step_outputs [OF this, of None] o show ?thesis by auto
qed

end
