(* ===== verification/Junit_Report.thy ===== *)
theory Junit_Report
  imports Pytest_Bridge Redaction "HOL-Library.Multiset"
begin

text \<open>
  The JUnit reports of \<open>isvctl/orchestrator/loop.py\<close>: the stub files for validations that did not
  run through pytest, and the merge of the files of all phases into one report.

  An XML element is a tree of tags, attributes, text and children; \<open>Element.set\<close> keeps the position
  of an attribute that is there. A report file is parsed XML or text that does not parse. Times
  are rationals, read from decimal notation and written with three decimals; indentation is
  layout only and not modelled.
\<close>

section \<open>Elements\<close>

datatype xml = Xml (xml_tag: string) (xml_attrs: "(string \<times> string) list")
  (xml_text: "string option") (xml_kids: "xml list")

definition xget :: "xml \<Rightarrow> string \<Rightarrow> string option" where
  "xget x k = dget (xml_attrs x) k"

definition xset :: "string \<Rightarrow> string \<Rightarrow> xml \<Rightarrow> xml" where
  "xset k v x = Xml (xml_tag x) (dput (xml_attrs x) k v) (xml_text x) (xml_kids x)"

definition xappend :: "xml \<Rightarrow> xml list \<Rightarrow> xml" where
  "xappend x kids = Xml (xml_tag x) (xml_attrs x) (xml_text x) (xml_kids x @ kids)"

definition is_case :: "xml \<Rightarrow> bool" where
  "is_case x \<longleftrightarrow> xml_tag x = ''testcase''"

abbreviation xcases :: "xml \<Rightarrow> xml list" where
  "xcases suite \<equiv> filter is_case (xml_kids suite)"

datatype junit_file = Parsed xml | Broken

lemma xset_fields [simp]:
  "xml_tag (xset k v x) = xml_tag x" "xml_kids (xset k v x) = xml_kids x"
  "xget (xset k v x) k' = (if k' = k then Some v else xget x k')"
  by (simp_all add: xset_def xget_def)

lemma xappend_fields [simp]:
  "xml_tag (xappend x ks) = xml_tag x" "xml_kids (xappend x ks) = xml_kids x @ ks"
  "xget (xappend x ks) k = xget x k"
  by (simp_all add: xappend_def xget_def)

interpretation attrs: keyed_store xget "\<lambda>x k v. xset k v x"
  by unfold_locales simp

section \<open>Merging the files of the phases\<close>

text \<open>\<open>_fold_suite\<close>; \<open>None\<close> is the \<open>ValueError\<close> of a malformed counter.\<close>

fun add_counters :: "xml \<Rightarrow> string list \<Rightarrow> xml \<Rightarrow> xml option" where
  "add_counters source [] target = Some target"
| "add_counters source (a # as) target =
     (case (py_int (case xget target a of None \<Rightarrow> ''0'' | Some v \<Rightarrow> v),
            py_int (case xget source a of None \<Rightarrow> ''0'' | Some v \<Rightarrow> v)) of
        (Some m, Some n) \<Rightarrow> add_counters source as (xset a (int_str (m + n)) target)
      | _ \<Rightarrow> None)"

definition COUNTERS :: "string list" where
  "COUNTERS = [''tests'', ''failures'', ''errors'', ''skipped'']"

definition fold_suite :: "xml \<Rightarrow> xml \<Rightarrow> xml option" where
  "fold_suite target source =
     (case add_counters source COUNTERS (xappend target (xcases source)) of
        None \<Rightarrow> None
      | Some t \<Rightarrow>
          (case (py_float (case xget t ''time'' of None \<Rightarrow> ''0'' | Some v \<Rightarrow> v),
                 py_float (case xget source ''time'' of None \<Rightarrow> ''0'' | Some v \<Rightarrow> v)) of
             (Some x, Some y) \<Rightarrow> Some (xset ''time'' (fixed3 (x + y)) t)
           | _ \<Rightarrow> None))"

fun name_index :: "nat \<Rightarrow> string list \<Rightarrow> (string \<times> nat) list \<Rightarrow> (string \<times> nat) list" where
  "name_index i [] d = d"
| "name_index i (n # ns) d = name_index (i + 1) ns (dsetdefault d n i)"

text \<open>\<open>case_name.split("::", 1)[0]\<close>\<close>

fun before_colons :: "string \<Rightarrow> string" where
  "before_colons (c # d # s) =
     (if c = CHR '':'' \<and> d = CHR '':'' then [] else c # before_colons (d # s))"
| "before_colons s = s"

definition case_name :: "xml \<Rightarrow> string" where
  "case_name c = (case xget c ''name'' of None \<Rightarrow> [] | Some n \<Rightarrow> n)"

definition order_key :: "string list \<Rightarrow> xml \<Rightarrow> nat" where
  "order_key name_order c =
     dgetd (name_index 0 name_order []) (before_colons (case_name c)) (length name_order)"

definition sort_suite_testcases :: "xml \<Rightarrow> string list \<Rightarrow> xml" where
  "sort_suite_testcases suite name_order =
     Xml (xml_tag suite) (xml_attrs suite) (xml_text suite)
       (filter (\<lambda>k. \<not> is_case k) (xml_kids suite) @ sort_key (order_key name_order) (xcases suite))"

definition suites_of :: "junit_file \<Rightarrow> xml list" where
  "suites_of f = (case f of
     Broken \<Rightarrow> []
   | Parsed x \<Rightarrow>
       if xml_tag x = ''testsuites'' then filter (\<lambda>s. xml_tag s = ''testsuite'') (xml_kids x)
       else if xml_tag x = ''testsuite'' then [x] else [])"

text \<open>\<open>suites_by_name\<close>, whose order is that of the children of the root.\<close>

fun collect_suites :: "xml list \<Rightarrow> (string \<times> xml) list \<Rightarrow> (string \<times> xml) list option" where
  "collect_suites [] acc = Some acc"
| "collect_suites (s # ss) acc =
     (let name = case_name s in
      case dget acc name of
        None \<Rightarrow> collect_suites ss (dput acc name s)
      | Some existing \<Rightarrow>
          (case fold_suite existing s of
             None \<Rightarrow> None | Some merged \<Rightarrow> collect_suites ss (dput acc name merged)))"

text \<open>\<open>redact_junit_xml_tree\<close> of \<open>isvctl/redaction.py\<close>.\<close>

definition JUNIT_TEXT_TAGS :: "string list" where
  "JUNIT_TEXT_TAGS = [''failure'', ''error'', ''system-out'', ''system-err'']"

definition JUNIT_MSG_TAGS :: "string list" where
  "JUNIT_MSG_TAGS = [''failure'', ''error'']"

fun redact_junit_xml_tree :: "xml \<Rightarrow> xml" where
  "redact_junit_xml_tree (Xml tag attrs txt kids) = Xml tag
     (if tag \<in> set JUNIT_MSG_TAGS
      then (case dget attrs ''message'' of
          Some (c # m) \<Rightarrow> dput attrs ''message'' (redact_text (c # m)) | _ \<Rightarrow> attrs)
      else attrs)
     (if tag \<in> set JUNIT_TEXT_TAGS
      then (case txt of Some (c # t) \<Rightarrow> Some (redact_text (c # t)) | _ \<Rightarrow> txt)
      else txt)
     (map redact_junit_xml_tree kids)"

text \<open>\<open>_merge_junit_xmls\<close>: the files in order, \<open>None\<close> for one that does not exist.\<close>

definition merge_junit_xmls :: "junit_file option list \<Rightarrow> string list \<Rightarrow> xml option" where
  "merge_junit_xmls files name_order =
     map_option (\<lambda>suites. redact_junit_xml_tree
         (Xml ''testsuites'' [(''name'', ''isvctl validation tests'')] None
           (map (\<lambda>s. if name_order \<noteq> [] then sort_suite_testcases s name_order else s) (map snd suites))))
       (collect_suites (concat (map (\<lambda>f. case f of None \<Rightarrow> [] | Some g \<Rightarrow> suites_of g) files)) [])"

section \<open>Stubs for entries that did not run\<close>

fun all_cases :: "xml \<Rightarrow> xml list" where
  "all_cases (Xml tag attrs txt kids) =
     (if tag = ''testcase'' then [Xml tag attrs txt kids] else []) @ concat (map all_cases kids)"

definition captured_names :: "xml \<Rightarrow> string list" where
  "captured_names x = filter (\<lambda>n. n \<noteq> []) (map case_name (all_cases x))"

definition entries_missing_from_junit :: "ResolvedEntry list \<Rightarrow> junit_file option \<Rightarrow> ResolvedEntry list" where
  "entries_missing_from_junit entries f = (case f of
     Some (Parsed x) \<Rightarrow> filter (\<lambda>r. entry_name r \<notin> set (captured_names x)) entries
   | _ \<Rightarrow> entries)"

definition terminal_case :: "ResolvedEntry \<Rightarrow> xml" where
  "terminal_case r = Xml ''testcase'' [(''name'', entry_name r), (''time'', fixed3 (r_duration r))] None
     (case r_state r of
        Some SKIPPED \<Rightarrow>
          (let reason = (case r_skip r of None \<Rightarrow> EXCLUDED | Some x \<Rightarrow> x)
           in [Xml ''skipped'' [(''type'', skip_value reason),
                (''message'', if r_message r \<noteq> [] then r_message r else skip_value reason)] None []])
      | Some ERROR \<Rightarrow>
          (let reason = (case r_error r of None \<Rightarrow> RUNTIME_EXCEPTION | Some x \<Rightarrow> x)
           in [Xml ''error'' [(''type'', error_value reason),
                (''message'', if r_message r \<noteq> [] then r_message r else error_value reason)]
                (if r_message r \<noteq> [] then Some (r_message r) else None) []])
      | _ \<Rightarrow> [])"

definition terminal_junit_xml :: "ResolvedEntry list \<Rightarrow> string \<Rightarrow> xml" where
  "terminal_junit_xml entries suite_name = Xml ''testsuite''
     [(''name'', suite_name), (''tests'', nat_str (length entries)), (''failures'', ''0''),
      (''errors'', nat_str (length (filter (\<lambda>r. r_state r = Some ERROR) entries))),
      (''skipped'', nat_str (length (filter (\<lambda>r. r_state r = Some SKIPPED) entries))),
      (''time'', fixed3 (sum_list (map r_duration entries)))]
     None (map terminal_case entries)"

section \<open>What merging keeps\<close>

text \<open>The value of a counter; an absent or malformed one counts as 0.\<close>

definition counter :: "xml \<Rightarrow> string \<Rightarrow> int" where
  "counter x a = (case py_int (case xget x a of None \<Rightarrow> ''0'' | Some v \<Rightarrow> v) of None \<Rightarrow> 0 | Some n \<Rightarrow> n)"

lemma add_counters_spec:
  "add_counters src as t = Some t' \<Longrightarrow> distinct as \<Longrightarrow>
    xml_tag t' = xml_tag t \<and> xml_kids t' = xml_kids t
    \<and> (\<forall>a. a \<notin> set as \<longrightarrow> xget t' a = xget t a)
    \<and> (\<forall>a \<in> set as. counter t' a = counter t a + counter src a)"
proof (induction src as t rule: add_counters.induct)
  case (2 src a as t)
  then obtain m n where mn: "py_int (case xget t a of None \<Rightarrow> ''0'' | Some v \<Rightarrow> v) = Some m"
    "py_int (case xget src a of None \<Rightarrow> ''0'' | Some v \<Rightarrow> v) = Some n"
    "add_counters src as (xset a (int_str (m + n)) t) = Some t'"
    by (auto split: option.splits)
  from 2(1) [OF refl mn] 2(3) have IH: "xml_tag t' = xml_tag t" "xml_kids t' = xml_kids t"
    "\<forall>b. b \<notin> set as \<longrightarrow> xget t' b = xget (xset a (int_str (m + n)) t) b"
    "\<forall>b \<in> set as. counter t' b = counter (xset a (int_str (m + n)) t) b + counter src b"
    by auto
  have "counter t' a = m + n" using IH(3) 2(3) by (simp add: counter_def py_int_int_str)
  moreover have "counter t a + counter src a = m + n" using mn by (simp add: counter_def)
  moreover have "counter t' b = counter t b + counter src b" if "b \<in> set as" for b
  proof -
    have "b \<noteq> a" using that 2(3) by auto
    then have "counter (xset a (int_str (m + n)) t) b = counter t b" by (simp add: counter_def)
    with IH(4) that show ?thesis by simp
  qed
  ultimately show ?case using IH by auto
qed simp

lemma fold_suite_spec:
  assumes "fold_suite t src = Some t'"
  shows "xml_tag t' = xml_tag t \<and> case_name t' = case_name t \<and> xcases t' = xcases t @ xcases src
    \<and> (\<forall>a \<in> set COUNTERS. counter t' a = counter t a + counter src a)"
proof -
  from assms obtain u v where u: "add_counters src COUNTERS (xappend t (xcases src)) = Some u"
    and t': "t' = xset ''time'' v u"
    by (auto simp: fold_suite_def split: option.splits)
  have d: "distinct COUNTERS" "''name'' \<notin> set COUNTERS" "''time'' \<notin> set COUNTERS"
    by (simp_all add: COUNTERS_def)
  from add_counters_spec [OF u d(1)] have s: "xml_tag u = xml_tag t" "xml_kids u = xml_kids t @ xcases src"
    "xget u ''name'' = xget t ''name''"
    "\<forall>a \<in> set COUNTERS. counter u a = counter (xappend t (xcases src)) a + counter src a"
    using d(2) by auto
  have "counter t' a = counter u a" if "a \<in> set COUNTERS" for a
    using that d(3) t' by (auto simp: counter_def)
  moreover have "counter (xappend t (xcases src)) a = counter t a" for a by (simp add: counter_def)
  ultimately show ?thesis using s t' by (simp add: case_name_def)
qed

text \<open>All test cases, and the sum of a counter, over a list of suites.\<close>

definition cases_of :: "xml list \<Rightarrow> xml multiset" where
  "cases_of suites = mset (concat (map xcases suites))"

definition counter_sum :: "string \<Rightarrow> xml list \<Rightarrow> int" where
  "counter_sum a suites = sum_list (map (\<lambda>s. counter s a) suites)"

lemma dput_existing:
  assumes "dget acc n = Some e" "distinct (dkeys acc)"
  shows "mset (map snd (dput acc n e')) + {#e#} = mset (map snd acc) + {#e'#}"
  using assms by (induction acc) (auto split: if_splits dest: dget_in_keys)

lemma cases_of_dput:
  assumes "dget acc n = Some e" "distinct (dkeys acc)" "xcases e' = xcases e @ xcases s"
    "counter e' a = counter e a + counter s a"
  shows "cases_of (map snd (dput acc n e')) = cases_of (map snd acc) + cases_of [s]"
    "counter_sum a (map snd (dput acc n e')) = counter_sum a (map snd acc) + counter_sum a [s]"
  using assms
  by (induction acc) (auto simp: cases_of_def counter_sum_def dget_None_iff split: if_splits)

lemma collect_suites_spec:
  assumes "collect_suites ss acc = Some out" "distinct (dkeys acc)"
    "\<forall>(n, s) \<in> set acc. case_name s = n \<and> xml_tag s = ''testsuite''" "\<forall>s \<in> set ss. xml_tag s = ''testsuite''"
    "a \<in> set COUNTERS"
  shows "distinct (dkeys out) \<and> (\<forall>(n, s) \<in> set out. case_name s = n \<and> xml_tag s = ''testsuite'')
    \<and> cases_of (map snd out) = cases_of (map snd acc) + cases_of ss
    \<and> counter_sum a (map snd out) = counter_sum a (map snd acc) + counter_sum a ss
    \<and> set (dkeys out) = set (dkeys acc) \<union> case_name ` set ss"
  using assms
proof (induction ss acc rule: collect_suites.induct)
  case (1 acc)
  then show ?case by (simp add: cases_of_def counter_sum_def)
next
  case (2 s ss acc)
  let ?n = "case_name s"
  show ?case
  proof (cases "dget acc ?n")
    case None
    then have put: "dput acc ?n s = acc @ [(?n, s)]" by (simp add: dput_fresh dget_None_iff)
    from None 2(3) have "collect_suites ss (dput acc ?n s) = Some out" by (simp add: Let_def)
    note IH = 2(1) [OF refl None this, unfolded put]
    have nk: "?n \<notin> set (dkeys acc)" using None by (simp only: dget_None_iff not_False_eq_True)
    have "distinct (dkeys (acc @ [(?n, s)]))" using nk 2(4) by simp
    moreover have "\<forall>(n, s) \<in> set (acc @ [(?n, s)]). case_name s = n \<and> xml_tag s = ''testsuite''"
      using 2(5,6) by simp
    ultimately have "distinct (dkeys out) \<and> (\<forall>(n, s) \<in> set out. case_name s = n \<and> xml_tag s = ''testsuite'')
      \<and> cases_of (map snd out) = cases_of (map snd (acc @ [(?n, s)])) + cases_of ss
      \<and> counter_sum a (map snd out) = counter_sum a (map snd (acc @ [(?n, s)])) + counter_sum a ss
      \<and> set (dkeys out) = set (dkeys (acc @ [(?n, s)])) \<union> case_name ` set ss"
      using 2(6,7) by (intro IH) simp_all
    then show ?thesis by (simp add: cases_of_def counter_sum_def)
  next
    case (Some e)
    with 2(3) obtain m where m: "fold_suite e s = Some m" "collect_suites ss (dput acc ?n m) = Some out"
      by (auto simp: Let_def split: option.splits)
    note f = fold_suite_spec [OF m(1)]
    have e: "case_name e = ?n" "xml_tag e = ''testsuite''" using Some 2(5) by (auto dest: map_of_SomeD)
    have "x \<in> set (dput acc ?n m) \<Longrightarrow> x = (?n, m) \<or> x \<in> set acc" for x
      using 2(4) by (induction acc) (auto split: if_splits)
    then have inv: "\<forall>(n, s) \<in> set (dput acc ?n m). case_name s = n \<and> xml_tag s = ''testsuite''"
      using 2(5) f e by fastforce
    have keys: "set (dkeys (dput acc ?n m)) = set (dkeys acc)" using Some by (auto dest: dget_in_keys)
    from 2(2) [OF refl Some m] 2(4) inv 2(6,7)
    have IH: "distinct (dkeys out)" "\<forall>(n, s) \<in> set out. case_name s = n \<and> xml_tag s = ''testsuite''"
      "cases_of (map snd out) = cases_of (map snd (dput acc ?n m)) + cases_of ss"
      "counter_sum a (map snd out) = counter_sum a (map snd (dput acc ?n m)) + counter_sum a ss"
      "set (dkeys out) = set (dkeys acc) \<union> case_name ` set ss"
      using keys by auto
    have "cases_of (s # ss) = cases_of [s] + cases_of ss" "counter_sum a (s # ss) = counter_sum a [s] + counter_sum a ss"
      by (simp_all add: cases_of_def counter_sum_def)
    moreover have "?n \<in> set (dkeys acc)" using Some by (rule dget_in_keys)
    ultimately show ?thesis
      using IH cases_of_dput [OF Some 2(4)] f 2(7) by (auto simp: add.assoc)
  qed
qed

lemma redact_tag [simp]: "xml_tag (redact_junit_xml_tree x) = xml_tag x"
  by (cases x) simp

lemma redact_cases:
  "xml_tag s = ''testsuite'' \<Longrightarrow> xcases (redact_junit_xml_tree s) = map redact_junit_xml_tree (xcases s)"
  by (cases s) (auto simp: filter_map comp_def is_case_def cong: filter_cong)

lemma redact_suite_attrs:
  "xml_tag s = ''testsuite'' \<Longrightarrow> xml_attrs (redact_junit_xml_tree s) = xml_attrs s"
  by (cases s) (simp add: JUNIT_MSG_TAGS_def)

lemma redact_case_name: "is_case c \<Longrightarrow> case_name (redact_junit_xml_tree c) = case_name c"
  by (cases c) (simp add: JUNIT_MSG_TAGS_def case_name_def xget_def is_case_def)

lemma sort_suite_fields:
  "xml_tag (sort_suite_testcases s ns) = xml_tag s" "xml_attrs (sort_suite_testcases s ns) = xml_attrs s"
  "xcases (sort_suite_testcases s ns) = sort_key (order_key ns) (xcases s)"
  by (simp_all add: sort_suite_testcases_def filter_id_conv)

lemma suites_of_tag: "s \<in> set (suites_of f) \<Longrightarrow> xml_tag s = ''testsuite''"
  by (auto simp: suites_of_def split: junit_file.splits if_splits)

text \<open>The suites of all files that exist and parse.\<close>

definition input_suites :: "junit_file option list \<Rightarrow> xml list" where
  "input_suites files = concat (map (\<lambda>f. case f of None \<Rightarrow> [] | Some g \<Rightarrow> suites_of g) files)"

lemma input_suites_tag: "s \<in> set (input_suites files) \<Longrightarrow> xml_tag s = ''testsuite''"
  by (auto simp: input_suites_def dest: suites_of_tag split: option.splits)

lemma merge_keeps:
  assumes "merge_junit_xmls files name_order = Some r"
  shows "distinct (map case_name (xml_kids r))
    \<and> set (map case_name (xml_kids r)) = set (map case_name (input_suites files))
    \<and> cases_of (xml_kids r) = image_mset redact_junit_xml_tree (cases_of (input_suites files))
    \<and> list_all (\<lambda>a. counter_sum a (xml_kids r) = counter_sum a (input_suites files)) COUNTERS"
proof -
  from assms obtain out where out: "collect_suites (input_suites files) [] = Some out"
    and r: "xml_kids r = map (\<lambda>s. redact_junit_xml_tree
      (if name_order \<noteq> [] then sort_suite_testcases s name_order else s)) (map snd out)"
    by (auto simp: merge_junit_xmls_def input_suites_def comp_def)
  let ?f = "\<lambda>s. redact_junit_xml_tree (if name_order \<noteq> [] then sort_suite_testcases s name_order else s)"
  have spec: "distinct (dkeys out) \<and> (\<forall>(n, s) \<in> set out. case_name s = n \<and> xml_tag s = ''testsuite'')
      \<and> cases_of (map snd out) = cases_of (input_suites files)
      \<and> counter_sum a (map snd out) = counter_sum a (input_suites files)
      \<and> set (dkeys out) = case_name ` set (input_suites files)" if "a \<in> set COUNTERS" for a
    using collect_suites_spec [OF out _ _ _ that] input_suites_tag
    by (simp add: cases_of_def counter_sum_def)
  have "''tests'' \<in> set COUNTERS" by (simp add: COUNTERS_def)
  note spec0 = spec [OF this]
  have tags: "xml_tag s = ''testsuite''" "case_name s = n" if "(n, s) \<in> set out" for n s
    using spec0 that by auto
  have attrs: "xml_attrs (?f s) = xml_attrs s" if "(n, s) \<in> set out" for n s
    using tags(1) [OF that] by (simp add: redact_suite_attrs sort_suite_fields)
  have names: "map case_name (xml_kids r) = dkeys out"
    unfolding r using attrs tags(2) by (auto simp: case_name_def xget_def comp_def)
  have kids: "mset (xcases (?f s)) = image_mset redact_junit_xml_tree (mset (xcases s))"
    if "(n, s) \<in> set out" for n s
    using tags(1) [OF that] by (simp add: redact_cases sort_suite_fields mset_filter [symmetric] del: mset_filter)
  have step: "cases_of (map ?f ss) = image_mset redact_junit_xml_tree (cases_of ss)"
    if "\<forall>s \<in> set ss. mset (xcases (?f s)) = image_mset redact_junit_xml_tree (mset (xcases s))" for ss
    using that by (induction ss) (auto simp: cases_of_def)
  have cases: "cases_of (xml_kids r) = image_mset redact_junit_xml_tree (cases_of (map snd out))"
    unfolding r by (rule step) (use kids in auto)
  have "counter_sum a (xml_kids r) = counter_sum a (map snd out)" for a
    unfolding r counter_sum_def using attrs by (auto simp: counter_def xget_def comp_def intro!: arg_cong [where f = sum_list])
  then show ?thesis
    using spec0 spec names cases by (auto simp: list_all_iff)
qed

text \<open>C15. Merging the report files of the phases loses and invents nothing: the merged report has
  one suite per suite name that occurs, its test cases are exactly the redacted test cases of
  all files that parse, and every counter adds up to the sum over the files.\<close>

theorem merge_conserves:
  assumes "merge_junit_xmls files name_order = Some r"
  shows "distinct (map case_name (xml_kids r))
    \<and> set (map case_name (xml_kids r)) = set (map case_name (input_suites files))
    \<and> cases_of (xml_kids r) = image_mset redact_junit_xml_tree (cases_of (input_suites files))
    \<and> list_all (\<lambda>a. counter_sum a (xml_kids r) = counter_sum a (input_suites files)) COUNTERS"
  using merge_keeps [OF assms] .

definition demo_files :: "junit_file option list" where
  "demo_files = [Some (Parsed (terminal_junit_xml [] ''p/test'')), Some Broken, None,
     Some (Parsed (terminal_junit_xml [demo_ready ''A'' ''c''] ''p/test''))]"

theorem merge_conserves_witness:
  "\<exists>r. merge_junit_xmls demo_files [''A''] = Some r
    \<and> map case_name (xml_kids r) = [''p/test''] \<and> counter_sum ''tests'' (xml_kids r) = 1"
proof -
  have "merge_junit_xmls demo_files [''A''] \<noteq> None" by code_simp
  then obtain r where r: "merge_junit_xmls demo_files [''A''] = Some r" by auto
  have input: "map case_name (input_suites demo_files) = [''p/test'', ''p/test'']"
    "counter_sum ''tests'' (input_suites demo_files) = 1" by code_simp+
  from merge_conserves [OF r] have "distinct (map case_name (xml_kids r))"
    "set (map case_name (xml_kids r)) = set (map case_name (input_suites demo_files))" by blast+
  then have n: "map case_name (xml_kids r) = [''p/test'']"
    by (intro distinct_set_singleton) (simp_all only: input, simp)
  from merge_conserves [OF r]
  have "list_all (\<lambda>a. counter_sum a (xml_kids r) = counter_sum a (input_suites demo_files)) COUNTERS"
    by blast
  then have "counter_sum ''tests'' (xml_kids r) = 1"
    by (simp add: COUNTERS_def input(2))
  with r n show ?thesis by (intro exI [of _ r] conjI)
qed

section \<open>Order of the test cases\<close>

lemma name_index_get:
  "dget (name_index i ns d) n = (case dget d n of
     Some j \<Rightarrow> Some j
   | None \<Rightarrow> if n \<in> set ns then Some (i + length (takeWhile (\<lambda>m. m \<noteq> n) ns)) else None)"
  by (induction i ns d rule: name_index.induct) (auto split: option.splits)

lemma length_takeWhile_mem: "n \<in> set ns \<Longrightarrow> length (takeWhile (\<lambda>m. m \<noteq> n) ns) < length ns"
  by (induction ns) auto

text \<open>The configured name a test case belongs to: a subtest belongs to its parent.\<close>

abbreviation parent_name :: "xml \<Rightarrow> string" where
  "parent_name c \<equiv> before_colons (case_name c)"

lemma order_key_index:
  "order_key ns c = (if parent_name c \<in> set ns
     then length (takeWhile (\<lambda>m. m \<noteq> parent_name c) ns) else length ns)"
  by (simp add: order_key_def dgetd_def name_index_get)

lemma filter_sort_key:
  "(\<And>x y. P x \<Longrightarrow> P y \<Longrightarrow> f x = f y) \<Longrightarrow> filter P (sort_key f xs) = filter P xs"
proof -
  assume same: "\<And>x y. P x \<Longrightarrow> P y \<Longrightarrow> f x = f y"
  show ?thesis
  proof (cases "\<exists>x \<in> set xs. P x")
    case True
    then obtain a where a: "P a" by blast
    have "P y \<longleftrightarrow> f y = f a \<and> P y" for y using same a by blast
    then have "filter P ys = filter P (filter (\<lambda>x. f x = f a) ys)" for ys
      unfolding filter_filter by (intro filter_cong) auto
    then show ?thesis using sort_key_stable [of f "f a" xs] by metis
  next
    case False
    then show ?thesis by (simp add: filter_empty_conv)
  qed
qed

text \<open>Sorting a suite only reorders its test cases: what is not a test case stays in front,
  the cases are a permutation of the old ones, a case whose configured name comes earlier in the
  configuration comes earlier in the suite, names that are not configured come last, and the
  cases of one configured name (a check and its subtests) keep their order.\<close>

theorem sorted_suite_order:
  "mset (xml_kids (sort_suite_testcases s ns)) = mset (xml_kids s)
    \<and> sorted (map (\<lambda>c. if parent_name c \<in> set ns
          then length (takeWhile (\<lambda>m. m \<noteq> parent_name c) ns) else length ns)
        (xcases (sort_suite_testcases s ns)))
    \<and> filter (\<lambda>c. parent_name c = n) (xcases (sort_suite_testcases s ns))
        = filter (\<lambda>c. parent_name c = n) (xcases s)"
proof -
  have "mset (filter (\<lambda>k. \<not> is_case k) xs) + mset (filter is_case xs) = mset xs" for xs :: "xml list"
    by (induction xs) auto
  then have m: "mset (xml_kids (sort_suite_testcases s ns)) = mset (xml_kids s)"
    by (simp add: sort_suite_testcases_def del: mset_filter)
  have "sorted (map (order_key ns) (sort_key (order_key ns) (xcases s)))" by (rule sorted_sort_key)
  moreover have "filter (\<lambda>c. parent_name c = n) (sort_key (order_key ns) (xcases s))
      = filter (\<lambda>c. parent_name c = n) (xcases s)"
    by (rule filter_sort_key) (simp add: order_key_index)
  ultimately show ?thesis
    using m unfolding sort_suite_fields order_key_index [abs_def] by blast
qed

section \<open>Merging returns\<close>

text \<open>The counters of a suite are whole numbers and its time is a decimal, or they are absent.\<close>

definition numeric_suite :: "xml \<Rightarrow> bool" where
  "numeric_suite s \<longleftrightarrow>
     (\<forall>a \<in> set COUNTERS. py_int (case xget s a of None \<Rightarrow> ''0'' | Some v \<Rightarrow> v) \<noteq> None)
   \<and> py_float (case xget s ''time'' of None \<Rightarrow> ''0'' | Some v \<Rightarrow> v) \<noteq> None"

definition numeric_file :: "junit_file \<Rightarrow> bool" where
  "numeric_file f \<longleftrightarrow> (\<forall>s \<in> set (suites_of f). numeric_suite s)"

lemma add_counters_numeric:
  assumes "distinct as" "\<forall>a \<in> set as. py_int (case xget t a of None \<Rightarrow> ''0'' | Some v \<Rightarrow> v) \<noteq> None
      \<and> py_int (case xget src a of None \<Rightarrow> ''0'' | Some v \<Rightarrow> v) \<noteq> None"
  shows "\<exists>t'. add_counters src as t = Some t' \<and> (\<forall>a. a \<notin> set as \<longrightarrow> xget t' a = xget t a)
    \<and> (\<forall>a \<in> set as. \<exists>i. xget t' a = Some (int_str i))"
  using assms
proof (induction as arbitrary: t)
  case (Cons a as)
  obtain m n where mn: "py_int (case xget t a of None \<Rightarrow> ''0'' | Some v \<Rightarrow> v) = Some m"
    "py_int (case xget src a of None \<Rightarrow> ''0'' | Some v \<Rightarrow> v) = Some n"
    using Cons.prems by auto
  let ?t = "xset a (int_str (m + n)) t"
  have "\<forall>b \<in> set as. py_int (case xget ?t b of None \<Rightarrow> ''0'' | Some v \<Rightarrow> v) \<noteq> None
      \<and> py_int (case xget src b of None \<Rightarrow> ''0'' | Some v \<Rightarrow> v) \<noteq> None"
    using Cons.prems by auto
  from Cons.IH [OF _ this] Cons.prems(1) obtain t' where t': "add_counters src as ?t = Some t'"
    "\<forall>b. b \<notin> set as \<longrightarrow> xget t' b = xget ?t b" "\<forall>b \<in> set as. \<exists>i. xget t' b = Some (int_str i)" by auto
  then show ?case using mn Cons.prems(1) by (intro exI [of _ t']) auto
qed simp

lemma fold_suite_numeric:
  assumes "numeric_suite t" "numeric_suite src"
  shows "\<exists>t'. fold_suite t src = Some t' \<and> numeric_suite t'"
proof -
  have d: "distinct COUNTERS" "''time'' \<notin> set COUNTERS" by (simp_all add: COUNTERS_def)
  have "\<forall>a \<in> set COUNTERS. py_int (case xget (xappend t (xcases src)) a of None \<Rightarrow> ''0'' | Some v \<Rightarrow> v) \<noteq> None
      \<and> py_int (case xget src a of None \<Rightarrow> ''0'' | Some v \<Rightarrow> v) \<noteq> None"
    using assms by (simp add: numeric_suite_def)
  from add_counters_numeric [OF d(1) this] obtain u where
    u: "add_counters src COUNTERS (xappend t (xcases src)) = Some u" "xget u ''time'' = xget t ''time''"
      "\<forall>a \<in> set COUNTERS. \<exists>i. xget u a = Some (int_str i)" using d(2) by auto
  obtain x y where xy: "py_float (case xget t ''time'' of None \<Rightarrow> ''0'' | Some v \<Rightarrow> v) = Some x"
    "py_float (case xget src ''time'' of None \<Rightarrow> ''0'' | Some v \<Rightarrow> v) = Some y"
    using assms by (auto simp: numeric_suite_def)
  have "numeric_suite (xset ''time'' (fixed3 (x + y)) u)"
    using u(3) d(2) py_float_fixed3 by (fastforce simp: numeric_suite_def py_int_int_str)
  then show ?thesis using u(1,2) xy by (simp add: fold_suite_def)
qed

lemma collect_suites_numeric:
  assumes "\<forall>s \<in> set ss. numeric_suite s" "\<forall>s \<in> snd ` set acc. numeric_suite s"
  shows "\<exists>out. collect_suites ss acc = Some out"
  using assms
proof (induction ss arbitrary: acc)
  case (Cons s ss)
  have put: "\<forall>x \<in> snd ` set (dput acc (case_name s) x'). numeric_suite x" if "numeric_suite x'" for x'
    using that Cons.prems(2) by (induction acc) (auto split: if_splits)
  show ?case
  proof (cases "dget acc (case_name s)")
    case None
    then show ?thesis using Cons.IH [OF _ put [of s]] Cons.prems(1) by (simp add: Let_def)
  next
    case (Some e)
    then have "numeric_suite e" using Cons.prems(2) by (force dest: map_of_SomeD)
    then obtain m where "fold_suite e s = Some m" "numeric_suite m"
      using fold_suite_numeric [of e s] Cons.prems(1) by auto
    then show ?thesis using Some Cons.IH [OF _ put [of m]] Cons.prems(1) by (simp add: Let_def)
  qed
qed simp

lemma merge_returns:
  assumes "\<And>f. Some f \<in> set files \<Longrightarrow> numeric_file f"
  shows "merge_junit_xmls files name_order \<noteq> None"
proof -
  have "\<forall>s \<in> set (input_suites files). numeric_suite s"
    using assms by (fastforce simp: input_suites_def numeric_file_def split: option.splits)
  then obtain out where "collect_suites (input_suites files) [] = Some out"
    using collect_suites_numeric [of "input_suites files" "[]"] by auto
  then show ?thesis by (simp add: merge_junit_xmls_def input_suites_def)
qed

lemma stub_numeric: "numeric_file (Parsed (terminal_junit_xml es suite))"
proof -
  have n: "py_int (nat_str n) = Some (int n)" for n
    using py_int_int_str [of "int n"] by (simp add: int_str_def)
  have "py_int ''0'' = Some 0" by code_simp
  then have "numeric_suite (terminal_junit_xml es suite)"
    using n py_float_fixed3 by (simp add: numeric_suite_def COUNTERS_def xget_def terminal_junit_xml_def)
  then show ?thesis by (simp add: numeric_file_def suites_of_def terminal_junit_xml_def)
qed

section \<open>Every entry reaches a file\<close>

lemma terminal_cases:
  "xcases (terminal_junit_xml es suite) = map terminal_case es" "case_name (terminal_case r) = entry_name r"
  by (simp_all add: terminal_junit_xml_def terminal_case_def is_case_def case_name_def xget_def filter_id_conv)

lemma missing_or_captured:
  "r \<in> set es \<Longrightarrow> r \<in> set (entries_missing_from_junit es f)
    \<or> (\<exists>x. f = Some (Parsed x) \<and> entry_name r \<in> set (captured_names x))"
  by (auto simp: entries_missing_from_junit_def split: option.splits junit_file.splits)

text \<open>The children of the test cases of a stub with a given tag.\<close>

definition marked :: "string \<Rightarrow> xml \<Rightarrow> nat" where
  "marked tag suite = length (filter (\<lambda>k. xml_tag k = tag) (concat (map xml_kids (xcases suite))))"

lemma marked_stub:
  "marked ''failure'' (terminal_junit_xml es suite) = 0"
  "marked ''error'' (terminal_junit_xml es suite) = length (filter (\<lambda>r. r_state r = Some ERROR) es)"
  "marked ''skipped'' (terminal_junit_xml es suite) = length (filter (\<lambda>r. r_state r = Some SKIPPED) es)"
proof -
  have one: "length (filter (\<lambda>k. xml_tag k = ''failure'') (xml_kids (terminal_case r))) = (if False then 1 else 0)"
    "length (filter (\<lambda>k. xml_tag k = ''error'') (xml_kids (terminal_case r))) =
      (if r_state r = Some ERROR then 1 else 0)"
    "length (filter (\<lambda>k. xml_tag k = ''skipped'') (xml_kids (terminal_case r))) =
      (if r_state r = Some SKIPPED then 1 else 0)" for r
    by (auto simp: terminal_case_def Let_def split: option.splits State.splits)
  have "length (filter P (concat (map xml_kids (map terminal_case es)))) = length (filter Q es)"
    if "\<And>r. length (filter P (xml_kids (terminal_case r))) = (if Q r then 1 else 0)" for P Q
    using that by (induction es) auto
  note count = this [OF one(1)] this [OF one(2)] this [OF one(3)]
  show "marked ''failure'' (terminal_junit_xml es suite) = 0"
    "marked ''error'' (terminal_junit_xml es suite) = length (filter (\<lambda>r. r_state r = Some ERROR) es)"
    "marked ''skipped'' (terminal_junit_xml es suite) = length (filter (\<lambda>r. r_state r = Some SKIPPED) es)"
    unfolding marked_def terminal_cases count by simp_all
qed

lemma stub_counters:
  "counter (terminal_junit_xml es suite) ''tests'' = int (length (xcases (terminal_junit_xml es suite)))"
  "counter (terminal_junit_xml es suite) ''failures'' = int (marked ''failure'' (terminal_junit_xml es suite))"
  "counter (terminal_junit_xml es suite) ''errors'' = int (marked ''error'' (terminal_junit_xml es suite))"
  "counter (terminal_junit_xml es suite) ''skipped'' = int (marked ''skipped'' (terminal_junit_xml es suite))"
proof -
  have n: "py_int (nat_str n) = Some (int n)" for n
    using py_int_int_str [of "int n"] by (simp add: int_str_def)
  have z: "py_int ''0'' = Some 0" by code_simp
  show "counter (terminal_junit_xml es suite) ''tests'' = int (length (xcases (terminal_junit_xml es suite)))"
    unfolding terminal_cases by (simp add: counter_def xget_def terminal_junit_xml_def n)
  show "counter (terminal_junit_xml es suite) ''failures'' = int (marked ''failure'' (terminal_junit_xml es suite))"
    "counter (terminal_junit_xml es suite) ''errors'' = int (marked ''error'' (terminal_junit_xml es suite))"
    "counter (terminal_junit_xml es suite) ''skipped'' = int (marked ''skipped'' (terminal_junit_xml es suite))"
    unfolding marked_stub using z by (simp_all add: counter_def xget_def terminal_junit_xml_def n)
qed

text \<open>The test cases of a pytest file are children of its suites, as pytest writes them.\<close>

definition cases_in_suites :: "xml \<Rightarrow> bool" where
  "cases_in_suites x \<longleftrightarrow> set (all_cases x) \<subseteq> set (concat (map xcases (suites_of (Parsed x))))"

definition report_cases :: "xml \<Rightarrow> xml list" where
  "report_cases r = concat (map xcases (xml_kids r))"

lemma merged_case:
  assumes "merge_junit_xmls files name_order = Some r" "Some f \<in> set files"
    and "s \<in> set (suites_of f)" "c \<in> set (xcases s)"
  shows "case_name c \<in> set (map case_name (report_cases r))"
proof -
  have "s \<in> set (input_suites files)" using assms(2,3) by (force simp: input_suites_def)
  then have "c \<in># cases_of (input_suites files)" using assms(4) by (auto simp: cases_of_def)
  then have "redact_junit_xml_tree c \<in># image_mset redact_junit_xml_tree (cases_of (input_suites files))"
    by simp
  then have "redact_junit_xml_tree c \<in># cases_of (xml_kids r)"
    using merge_keeps [OF assms(1)] by metis
  then have "redact_junit_xml_tree c \<in> set (report_cases r)"
    by (simp add: cases_of_def report_cases_def)
  moreover have "case_name (redact_junit_xml_tree c) = case_name c"
    using assms(4) by (simp add: redact_case_name)
  ultimately show ?thesis by (metis image_eqI set_map)
qed

text \<open>C16. Every executed entry reaches the merged report, whatever pytest did with it. \<open>written\<close> is the
  report pytest wrote for the phase, if any, and the stub has one test case, in order, for each
  executed entry that pytest's file does not name. When both are among the merged files, and the
  cases of pytest's file lie in its suites, the merged report has a test case with the name of every
  executed entry. No entry of the stub is also in
  pytest's file, and the stub's four counters are the numbers of its test cases and of the
  \<open>failure\<close>, \<open>error\<close> and \<open>skipped\<close> elements in them.\<close>

theorem entries_reach_report:
  assumes "merge_junit_xmls files name_order = Some merged"
    and "stub = terminal_junit_xml (entries_missing_from_junit executed written) suite"
    and "entries_missing_from_junit executed written \<noteq> [] \<Longrightarrow> Some (Parsed stub) \<in> set files"
    and "\<And>x. written = Some (Parsed x) \<Longrightarrow> written \<in> set files \<and> cases_in_suites x"
  shows "set (map entry_name executed) \<subseteq> set (map case_name (report_cases merged))
    \<and> map case_name (xcases stub) = map entry_name (entries_missing_from_junit executed written)
    \<and> (case written of Some (Parsed x) \<Rightarrow> set (map case_name (xcases stub)) \<inter> set (captured_names x) = {} | _ \<Rightarrow> True)
    \<and> counter stub ''tests'' = int (length (xcases stub))
    \<and> counter stub ''failures'' = int (marked ''failure'' stub)
    \<and> counter stub ''errors'' = int (marked ''error'' stub)
    \<and> counter stub ''skipped'' = int (marked ''skipped'' stub)"
proof (intro conjI)
  let ?missing = "entries_missing_from_junit executed written"
  show names: "map case_name (xcases stub) = map entry_name ?missing"
    by (simp add: assms(2) terminal_cases)
  show "set (map entry_name executed) \<subseteq> set (map case_name (report_cases merged))"
  proof
    fix n assume "n \<in> set (map entry_name executed)"
    then obtain r where r: "r \<in> set executed" "n = entry_name r" by auto
    from missing_or_captured [OF r(1), of written]
    show "n \<in> set (map case_name (report_cases merged))"
    proof
      assume m: "r \<in> set ?missing"
      then have "n \<in> case_name ` set (xcases stub)" unfolding set_map [symmetric] names r(2) by simp
      then obtain c where c: "n = case_name c" "c \<in> set (xcases stub)" by (rule imageE)
      have "Some (Parsed stub) \<in> set files" using m assms(3) by (metis empty_iff list.set(1))
      moreover have "stub \<in> set (suites_of (Parsed stub))"
        by (simp add: assms(2) suites_of_def terminal_junit_xml_def)
      ultimately show ?thesis unfolding c(1) by (rule merged_case [OF assms(1) _ _ c(2)])
    next
      assume "\<exists>x. written = Some (Parsed x) \<and> entry_name r \<in> set (captured_names x)"
      then obtain x where x: "written = Some (Parsed x)" "n \<in> set (captured_names x)" using r(2) by blast
      then have "n \<in> case_name ` set (all_cases x)" unfolding captured_names_def by auto
      then obtain c where c: "n = case_name c" "c \<in> set (all_cases x)" by (rule imageE)
      have f: "Some (Parsed x) \<in> set files" "cases_in_suites x" using assms(4) [OF x(1)] x(1) by simp_all
      from f(2) c(2) have "c \<in> set (concat (map xcases (suites_of (Parsed x))))"
        unfolding cases_in_suites_def by (rule subsetD)
      then obtain s where s: "s \<in> set (suites_of (Parsed x))" "c \<in> set (xcases s)"
        unfolding set_concat set_map by blast
      show ?thesis unfolding c(1) by (rule merged_case [OF assms(1) f(1) s])
    qed
  qed
  have "entry_name r \<notin> set (captured_names x)"
    if "written = Some (Parsed x)" "r \<in> set ?missing" for x r
    using that by (simp add: entries_missing_from_junit_def)
  then have "set (map entry_name ?missing) \<inter> set (captured_names x) = {}" if "written = Some (Parsed x)" for x
    using that by fastforce
  then show "case written of Some (Parsed x) \<Rightarrow> set (map case_name (xcases stub)) \<inter> set (captured_names x) = {} | _ \<Rightarrow> True"
    unfolding names by (simp split: option.split junit_file.split)
qed (simp_all only: assms(2) stub_counters)

definition demo_pytest :: xml where
  "demo_pytest = Xml ''testsuites'' [] None [Xml ''testsuite'' [(''name'', ''p/test''), (''tests'', ''1'')] None
     [Xml ''testcase'' [(''name'', ''A'')] None []]]"

theorem entries_reach_report_witness:
  "\<exists>merged. merge_junit_xmls [Some (Parsed demo_pytest),
       Some (Parsed (terminal_junit_xml [demo_ready ''B'' ''c''] ''p/test''))] [] = Some merged
    \<and> {''A'', ''B''} \<subseteq> set (map case_name (report_cases merged))"
proof -
  let ?es = "[demo_ready ''A'' ''c'', demo_ready ''B'' ''c'']"
  let ?stub = "terminal_junit_xml [demo_ready ''B'' ''c''] ''p/test''"
  have missing: "entries_missing_from_junit ?es (Some (Parsed demo_pytest)) = [demo_ready ''B'' ''c'']"
    "map entry_name ?es = [''A'', ''B'']" by code_simp+
  have "merge_junit_xmls [Some (Parsed demo_pytest), Some (Parsed ?stub)] [] \<noteq> None" by code_simp
  then obtain m where m: "merge_junit_xmls [Some (Parsed demo_pytest), Some (Parsed ?stub)] [] = Some m" by auto
  have "cases_in_suites demo_pytest" by code_simp
  with entries_reach_report [OF m, where stub = ?stub and executed = ?es
      and written = "Some (Parsed demo_pytest)" and suite = "''p/test''"] missing
  have "set (map entry_name ?es) \<subseteq> set (map case_name (report_cases m))" by simp
  with m missing(2) show ?thesis by (intro exI [of _ m]) simp
qed

end
