(* ===== verification/Orchestrator.thy ===== *)
theory Orchestrator
  imports Step_Executor Junit_Report
begin

text \<open>
  \<open>isvctl/orchestrator/loop.py\<close>: the test lifecycle. The steps of each phase are run, the
  validations of the phase are resolved and run through pytest, and everything that is left over
  is resolved at the end, so that every configured validation has an outcome.

  pytest acts on the same world as the steps: \<open>o_pytest\<close> returns its exit code, the captured
  results, the report file it wrote, if any, and the world afterwards. The temporary report
  files are a dictionary from file names to contents. A Python exception that leaves the run is
  \<open>None\<close>.
\<close>

section \<open>Configuration and results\<close>

datatype Phase = ALL_PHASES | SETUP | TEST | TEARDOWN

fun phase_value :: "Phase \<Rightarrow> string" where
  "phase_value ALL_PHASES = ''all''"
| "phase_value SETUP = ''setup''"
| "phase_value TEST = ''test''"
| "phase_value TEARDOWN = ''teardown''"

record PhaseResult =
  ph_phase :: Phase
  ph_success :: bool
  ph_message :: string
  ph_details :: "dict option"

record OrchestratorResult =
  or_success :: bool
  or_phases :: "PhaseResult list"
  or_inventory :: "pval option"
  or_validations :: "ResolvedEntry list"

record PlatformCommands =
  pc_skip :: bool
  pc_phases :: "string list"
  pc_steps :: "StepConfig list"

record TestsConfig =
  tc_capability :: "string option"
  tc_validations :: dict
  tc_exclude_labels :: "string list"
  tc_exclude_tests :: "string list"

record RunConfig =
  rc_commands :: "(string \<times> PlatformCommands) list"
  rc_tests :: "TestsConfig option"
  rc_platform :: "string option"

record run_options =
  ro_phases :: "Phase list"
  ro_teardown_on_failure :: bool
  ro_pytest_args :: "string list"
  ro_include_labels :: "string list"
  ro_exclude_labels :: "string list"
  ro_capability :: "string option"
  ro_junit :: bool

record 'w engine =
  o_host :: "'w host"
  o_jinja :: jinja
  o_compose_only :: "string list"
  o_pytest :: "'w \<Rightarrow> string \<Rightarrow> (string \<times> dict) list \<Rightarrow> dict \<Rightarrow> int \<times> raw_result list \<times> junit_file option \<times> 'w"

definition VALIDATIONS_ONLY_PLATFORM :: string where
  "VALIDATIONS_ONLY_PLATFORM = ''validations''"

section \<open>Small helpers\<close>

definition resolved_entry_to_result_dict :: "ResolvedEntry \<Rightarrow> dict" where
  "resolved_entry_to_result_dict r =
     [(KStr ''name'', PStr (entry_name r)),
      (KStr ''passed'', PBool (r_state r = Some PASSED \<or> r_state r = Some SKIPPED)),
      (KStr ''skipped'', PBool (r_state r = Some SKIPPED)),
      (KStr ''message'', PStr (r_message r)),
      (KStr ''category'', PStr (entry_category r)),
      (KStr ''labels'', PList (map PStr (e_labels (r_entry r)))),
      (KStr ''state'', case r_state r of None \<Rightarrow> PNone | Some s \<Rightarrow> PStr (state_value s)),
      (KStr ''skip_reason'', case r_skip r of None \<Rightarrow> PNone | Some s \<Rightarrow> PStr (skip_value s)),
      (KStr ''error_reason'', case r_error r of None \<Rightarrow> PNone | Some s \<Rightarrow> PStr (error_value s)),
      (KStr ''subtest_summary'', PDict
         [(KStr ''total'', PInt (subtest_total (r_subtests r))),
          (KStr ''passed'', PInt (s_passed (r_subtests r))),
          (KStr ''failed'', PInt (s_failed (r_subtests r))),
          (KStr ''skipped'', PInt (s_skipped (r_subtests r)))])]"

definition resolved_entry_success :: "ResolvedEntry \<Rightarrow> bool" where
  "resolved_entry_success r \<longleftrightarrow> r_state r = Some PASSED \<or> r_state r = Some SKIPPED"

definition phase_enum_for_name :: "string \<Rightarrow> Phase" where
  "phase_enum_for_name n = (if n = ''setup'' then SETUP else if n = ''teardown'' then TEARDOWN else TEST)"

definition requested_config_phases :: "string list \<Rightarrow> Phase list \<Rightarrow> string list" where
  "requested_config_phases config requested =
     (if ALL_PHASES \<in> set requested then config
      else filter (\<lambda>p. p \<in> set (map phase_value requested)) config)"

definition has_explicit_pytest_selection :: "string list \<Rightarrow> bool" where
  "has_explicit_pytest_selection args =
     list_ex (\<lambda>a. a = ''-k'' \<or> prefix ''-k='' a \<or> a = ''-m'' \<or> prefix ''-m='' a) args"

definition gate_step :: "ValidationEntry list \<Rightarrow> string \<Rightarrow> StepConfig \<Rightarrow> StepConfig" where
  "gate_step entries capability step =
     (let bound = filter (\<lambda>e. e_step e = Some (g_name step)) entries in
      if g_requires step \<noteq> [] \<and> \<not> requirements_satisfied (g_requires step) capability
      then step\<lparr>g_skip := True\<rparr>
      else if bound \<noteq> [] \<and> list_all (\<lambda>e. \<not> requirements_satisfied (e_requires e) capability) bound
      then step\<lparr>g_skip := True\<rparr>
      else step)"

definition apply_capability_step_gates ::
  "StepConfig list \<Rightarrow> ValidationEntry list \<Rightarrow> string option \<Rightarrow> StepConfig list" where
  "apply_capability_step_gates steps entries capability = (case capability of
     None \<Rightarrow> steps | Some c \<Rightarrow> map (gate_step entries c) steps)"

definition some_text :: "string option \<Rightarrow> bool" where
  "some_text s = (case s of None \<Rightarrow> False | Some t \<Rightarrow> t \<noteq> [])"

definition detect_platform :: "RunConfig \<Rightarrow> string option \<Rightarrow> string option" where
  "detect_platform cfg capability =
     (let declared = (case rc_tests cfg of None \<Rightarrow> None | Some t \<Rightarrow> tc_capability t);
          p1 = (if some_text declared then declared else rc_platform cfg);
          p2 = (if \<not> some_text p1 \<and> length (rc_commands cfg) = 1
                then Some (fst (hd (rc_commands cfg))) else p1);
          p3 = (if \<not> some_text p2 \<and> rc_commands cfg = []
                then (case capability of
                    Some c \<Rightarrow> if c \<in> set DECLARABLE_CAPABILITIES then Some c else Some VALIDATIONS_ONLY_PLATFORM
                  | None \<Rightarrow> Some VALIDATIONS_ONLY_PLATFORM)
                else p2)
      in if \<not> some_text p3 then None else if p3 = Some ''k8s'' then Some ''kubernetes'' else p3)"

text \<open>\<open>(step.phase or "setup").lower()\<close>\<close>

definition step_phase :: "StepConfig \<Rightarrow> string" where
  "step_phase s = lower (if g_phase s = [] then ''setup'' else g_phase s)"

section \<open>The result of a phase\<close>

text \<open>The word for a step; \<open>None\<close> when \<open>output.get\<close> raises on an output that is no dictionary.\<close>

definition step_status :: "StepResult \<Rightarrow> string option" where
  "step_status r =
     (if x_error r = Some (PStr ''Step skipped'') then Some ''skipped''
      else if \<not> x_success r then Some ''failed''
      else if \<not> truthy (x_output r) then Some ''passed''
      else (case x_output r of
          PDict d \<Rightarrow> Some (if truthy (get_or_none d ''skipped'') then ''skipped'' else ''passed'')
        | _ \<Rightarrow> None))"

fun exit_code_name :: "int \<Rightarrow> string" where
  "exit_code_name rc =
     (if rc = 0 then ''ok'' else if rc = 1 then ''tests failed'' else if rc = 2 then ''interrupted''
      else if rc = 3 then ''internal error'' else if rc = 4 then ''usage error''
      else if rc = 5 then ''no tests collected'' else ''unknown status'')"

definition pval_or_none :: "pval option \<Rightarrow> pval" where
  "pval_or_none v = (case v of None \<Rightarrow> PNone | Some x \<Rightarrow> x)"

definition step_detail :: "StepResult \<Rightarrow> dict option" where
  "step_detail r = (case redact_dict (x_output r) of
     None \<Rightarrow> None
   | Some out \<Rightarrow> Some
       [(KStr ''name'', PStr (x_name r)), (KStr ''success'', PBool (x_success r)),
        (KStr ''error'', pval_or_none (x_error r)), (KStr ''output'', out),
        (KStr ''schema_name'', case x_schema_name r of None \<Rightarrow> PNone | Some s \<Rightarrow> PStr s),
        (KStr ''schema_valid'', PBool (x_schema_valid r)),
        (KStr ''schema_errors'', PList (map PStr (x_schema_errors r)))])"

definition create_phase_result ::
  "Phase \<Rightarrow> StepResults \<Rightarrow> dict list \<Rightarrow> string \<Rightarrow> int option \<Rightarrow> PhaseResult option"
where
  "create_phase_result phase steps validations name exit_code =
     (case (those (map (\<lambda>r. map_option (\<lambda>s. x_name r @ '': '' @ s) (step_status r)) (z_steps steps)),
            those (map step_detail (z_steps steps))) of
        (Some messages, Some details) \<Rightarrow>
          (let name = (if name = [] then phase_value phase else name);
               failures = filter (\<lambda>v. \<not> truthy (dgetd v (KStr ''passed'') (PBool False))) validations;
               ok = (z_success steps \<and> failures = []);
               message = (if messages \<noteq> [] then join ''; '' messages else name @ '' phase completed'');
               bad = (exit_code \<noteq> None \<and> exit_code \<noteq> Some 0 \<and> exit_code \<noteq> Some 5);
               note = (if exit_code = Some 5
                 then ''; WARNING: No tests collected by pytest in '' @ name
                   @ '' phase (exit code 5); check pytest selection arguments''
                 else if bad
                 then ''; pytest failed: '' @ exit_code_name (the exit_code) @ '' (exit code ''
                   @ int_str (the exit_code) @ '')''
                 else [])
           in Some \<lparr>ph_phase = phase, ph_success = (ok \<and> \<not> bad), ph_message = message @ note,
                ph_details = Some
                  [(KStr ''pytest_exit_code'', case exit_code of None \<Rightarrow> PNone | Some c \<Rightarrow> PInt c),
                   (KStr ''steps'', PList (map PDict details)),
                   (KStr ''validations'', PList (map PDict validations))]\<rparr>)
      | _ \<Rightarrow> None)"

section \<open>One phase\<close>

text \<open>What does not change during a run.\<close>

record run_plan =
  rp_platform :: string
  rp_config_phases :: "string list"
  rp_steps :: "StepConfig list"
  rp_entries :: "ValidationEntry list"
  rp_exclude_labels :: "string list"
  rp_exclude_tests :: "string list"

record 'w run_state =
  rs_ctx :: run_context
  rs_world :: 'w
  rs_results :: "PhaseResult list"
  rs_ok :: bool
  rs_setup_ran :: bool
  rs_resolved :: "(nat \<times> ResolvedEntry) list"
  rs_files :: "(string \<times> junit_file) list"
  rs_junit :: "string list"

definition requested_names :: "run_options \<Rightarrow> run_plan \<Rightarrow> string list" where
  "requested_names opts plan =
     (if ALL_PHASES \<in> set (ro_phases opts) then rp_config_phases plan else map phase_value (ro_phases opts))"

definition phase_requested :: "run_options \<Rightarrow> string \<Rightarrow> bool" where
  "phase_requested opts name \<longleftrightarrow>
     name \<in> set (map phase_value (ro_phases opts)) \<or> ALL_PHASES \<in> set (ro_phases opts)"

definition phase_skip_reason :: "run_options \<Rightarrow> string \<Rightarrow> bool \<Rightarrow> bool \<Rightarrow> string option" where
  "phase_skip_reason opts name ok setup_ran =
     (if name = ''teardown'' then
        (if phase_requested opts ''setup'' \<and> \<not> setup_ran then Some ''setup steps did not run''
         else if \<not> ok \<and> \<not> ro_teardown_on_failure opts then Some ''teardown_on_failure is disabled''
         else None)
      else if \<not> ok then Some ''previous phase failed'' else None)"

definition resolve_validation_entries ::
  "'w engine \<Rightarrow> run_options \<Rightarrow> run_plan \<Rightarrow> run_context \<Rightarrow> ValidationEntry list \<Rightarrow> ResolvedEntry list option"
where
  "resolve_validation_entries eng opts plan ctx es =
     (case dgetd (c_data ctx) (KStr ''steps'') (PDict []) of
        PDict steps \<Rightarrow> Some (resolve_entries (h_float (o_host eng)) (o_jinja eng)
          \<lparr>a_step_outputs = map (\<lambda>kv. (key_text (fst kv), snd kv)) steps,
           a_step_phases = get_all_step_phases ctx, a_requested = requested_names opts plan,
           a_include = ro_include_labels opts, a_exclude = rp_exclude_labels plan,
           a_exclude_tests = rp_exclude_tests plan, a_context = get_accumulated_context ctx,
           a_capability = ro_capability opts,
           a_skipped = map g_name (filter g_skip (rp_steps plan))\<rparr> es)
      | _ \<Rightarrow> None)"

text \<open>Each ready entry is replaced by the next executed one.\<close>

fun weave :: "ResolvedEntry list \<Rightarrow> ResolvedEntry list \<Rightarrow> ResolvedEntry list" where
  "weave [] _ = []"
| "weave (r # rs) xs =
     (if is_ready r then (case xs of [] \<Rightarrow> [] | x # ys \<Rightarrow> x # weave rs ys) else r # weave rs xs)"

fun store_results :: "(nat \<times> ResolvedEntry) list \<Rightarrow> (nat \<times> ResolvedEntry) list \<Rightarrow> (nat \<times> ResolvedEntry) list" where
  "store_results [] d = d"
| "store_results ((i, r) # irs) d = store_results irs (dput d i r)"

definition phase_indexes :: "run_plan \<Rightarrow> (nat \<times> ResolvedEntry) list \<Rightarrow> run_context \<Rightarrow> string \<Rightarrow> nat list" where
  "phase_indexes plan resolved ctx name =
     filter (\<lambda>i. \<not> dhas resolved i
         \<and> get_entry_phase (rp_entries plan ! i) (get_all_step_phases ctx) = name)
       [0..<length (rp_entries plan)]"

definition junit_name :: "string \<Rightarrow> string \<Rightarrow> string" where
  "junit_name phase sfx = ''junit-'' @ phase @ sfx @ ''.xml''"

text \<open>A stub is written for a non-empty list of entries when a report is wanted.\<close>

definition write_stub ::
  "run_options \<Rightarrow> run_plan \<Rightarrow> string \<Rightarrow> string \<Rightarrow> ResolvedEntry list \<Rightarrow> 'w run_state \<Rightarrow> 'w run_state"
where
  "write_stub opts plan phase sfx entries st =
     (if entries \<noteq> [] \<and> ro_junit opts
      then st\<lparr>rs_files := dput (rs_files st) (junit_name phase sfx)
               (Parsed (terminal_junit_xml entries (rp_platform plan @ ''/'' @ phase))),
              rs_junit := rs_junit st @ [junit_name phase sfx]\<rparr>
      else st)"

definition run_phase_steps ::
  "'w engine \<Rightarrow> run_plan \<Rightarrow> string \<Rightarrow> 'w run_state \<Rightarrow> (StepResults \<times> 'w run_state) option"
where
  "run_phase_steps eng plan name st =
     (let steps = filter (\<lambda>s. step_phase s = name) (rp_steps plan) in
      case execute_steps (o_host eng) (name = ''teardown'') steps (rs_ctx st) (rs_world st) of
        None \<Rightarrow> None
      | Some (res, ctx, w) \<Rightarrow> Some (res, st\<lparr>rs_ctx := ctx, rs_world := w,
          rs_setup_ran := rs_setup_ran st \<or> name = ''setup'' \<and> list_ex (\<lambda>s. \<not> g_skip s) steps\<rparr>))"

text \<open>pytest on the ready entries; its report file, if it wrote one, joins the files.\<close>

definition run_ready ::
  "'w engine \<Rightarrow> run_options \<Rightarrow> run_plan \<Rightarrow> string \<Rightarrow> ResolvedEntry list \<Rightarrow> 'w run_state
    \<Rightarrow> int option \<times> ResolvedEntry list \<times> 'w run_state"
where
  "run_ready eng opts plan name ready st =
     (if ready = [] then (None, [], st)
      else (case run_validations_via_pytest
            (\<lambda>vs inv. o_pytest eng (rs_world st) (rp_platform plan @ ''/'' @ name) vs inv)
            ready (Some (get_accumulated_context (rs_ctx st))) of
          (rc, executed, extra) \<Rightarrow>
            (case extra of
               None \<Rightarrow> (Some rc, executed, st)
             | Some (file, w) \<Rightarrow>
                 (Some rc, executed,
                  (case file of
                     Some f \<Rightarrow> if ro_junit opts
                       then st\<lparr>rs_world := w, rs_files := dput (rs_files st) (junit_name name []) f\<rparr>
                       else st\<lparr>rs_world := w\<rparr>
                   | None \<Rightarrow> st\<lparr>rs_world := w\<rparr>)))))"

definition phase_file :: "run_options \<Rightarrow> string \<Rightarrow> 'w run_state \<Rightarrow> junit_file option" where
  "phase_file opts name st =
     (if ro_junit opts then dget (rs_files st) (junit_name name []) else None)"

definition keep_phase_file :: "run_options \<Rightarrow> string \<Rightarrow> 'w run_state \<Rightarrow> 'w run_state" where
  "keep_phase_file opts name st =
     (if phase_file opts name st \<noteq> None then st\<lparr>rs_junit := rs_junit st @ [junit_name name []]\<rparr> else st)"

definition record_phase ::
  "string \<Rightarrow> StepResults \<Rightarrow> bool \<Rightarrow> ResolvedEntry list \<Rightarrow> int option \<Rightarrow> 'w run_state \<Rightarrow> 'w run_state option"
where
  "record_phase name res any_steps terms rc st =
     (if \<not> any_steps \<and> terms = [] then Some st
      else (case create_phase_result (phase_enum_for_name name) res
              (map resolved_entry_to_result_dict terms) name rc of
          None \<Rightarrow> None
        | Some r \<Rightarrow> Some (st\<lparr>rs_results := rs_results st @ [r], rs_ok := rs_ok st \<and> ph_success r\<rparr>)))"

definition run_validations ::
  "'w engine \<Rightarrow> run_options \<Rightarrow> run_plan \<Rightarrow> string \<Rightarrow> StepResults \<Rightarrow> 'w run_state \<Rightarrow> 'w run_state option"
where
  "run_validations eng opts plan name res st =
     (let indexes = phase_indexes plan (rs_resolved st) (rs_ctx st) name in
      case resolve_validation_entries eng opts plan (rs_ctx st) (map ((!) (rp_entries plan)) indexes) of
        None \<Rightarrow> None
      | Some resolved \<Rightarrow>
          (let st1 = write_stub opts plan name ''-resolved'' (filter (\<lambda>r. \<not> is_ready r) resolved) st in
           case run_ready eng opts plan name (filter is_ready resolved) st1 of
             (rc, executed, st2) \<Rightarrow>
               (let file = phase_file opts name st2;
                    st3 = keep_phase_file opts name st2;
                    st4 = write_stub opts plan name ''-deselected''
                      (entries_missing_from_junit executed file) st3;
                    terms = weave resolved executed;
                    st5 = st4\<lparr>rs_resolved := store_results (zip indexes terms) (rs_resolved st4)\<rparr>
                in record_phase name res (list_ex (\<lambda>s. step_phase s = name) (rp_steps plan)) terms rc st5)))"

definition run_phase ::
  "'w engine \<Rightarrow> run_options \<Rightarrow> run_plan \<Rightarrow> string \<Rightarrow> 'w run_state \<Rightarrow> 'w run_state option"
where
  "run_phase eng opts plan name st =
     (if \<not> phase_requested opts name then Some st
      else (case phase_skip_reason opts name (rs_ok st) (rs_setup_ran st) of
          Some reason \<Rightarrow> Some (st\<lparr>rs_results := rs_results st @
            [\<lparr>ph_phase = phase_enum_for_name name, ph_success = True,
              ph_message = ''SKIPPED: '' @ reason, ph_details = None\<rparr>]\<rparr>)
        | None \<Rightarrow>
            (case run_phase_steps eng plan name st of
               None \<Rightarrow> None
             | Some (res, st1) \<Rightarrow> run_validations eng opts plan name res st1)))"

fun run_phases ::
  "'w engine \<Rightarrow> run_options \<Rightarrow> run_plan \<Rightarrow> string list \<Rightarrow> 'w run_state \<Rightarrow> 'w run_state option"
where
  "run_phases eng opts plan [] st = Some st"
| "run_phases eng opts plan (p # ps) st = (case run_phase eng opts plan p st of
     None \<Rightarrow> None | Some st' \<Rightarrow> run_phases eng opts plan ps st')"

section \<open>Entries left over\<close>

definition terminal_remaining ::
  "run_plan \<Rightarrow> run_context \<Rightarrow> ValidationEntry \<Rightarrow> ResolvedEntry \<Rightarrow> ResolvedEntry"
where
  "terminal_remaining plan ctx e r =
     (let phase = get_entry_phase e (get_all_step_phases ctx) in
      if \<not> is_ready r then r
      else (fresh_entry e (r_params r))
        \<lparr>r_state := Some SKIPPED, r_skip := Some PHASE_NOT_REQUESTED,
         r_message := (if phase \<in> set (rp_config_phases plan)
           then ''phase '' @ quoted phase @ '' did not run''
           else ''phase '' @ quoted phase @ '' is not configured for this run'')\<rparr>)"

definition resolve_remaining ::
  "'w engine \<Rightarrow> run_options \<Rightarrow> run_plan \<Rightarrow> run_context \<Rightarrow> ValidationEntry list \<Rightarrow> ResolvedEntry list option"
where
  "resolve_remaining eng opts plan ctx es =
     map_option (\<lambda>rs. map2 (terminal_remaining plan ctx) es rs)
       (resolve_validation_entries eng opts plan ctx es)"

text \<open>\<open>by_phase\<close>: the entries of each phase, phases in the order of their first entry.\<close>

fun group_by_phase ::
  "(string \<times> string) list \<Rightarrow> ResolvedEntry list \<Rightarrow> (string \<times> ResolvedEntry list) list
    \<Rightarrow> (string \<times> ResolvedEntry list) list"
where
  "group_by_phase phases [] acc = acc"
| "group_by_phase phases (r # rs) acc =
     (let p = get_entry_phase (r_entry r) phases
      in group_by_phase phases rs (dput acc p (dgetd acc p [] @ [r])))"

definition resolution_only_result :: "string \<times> ResolvedEntry list \<Rightarrow> PhaseResult" where
  "resolution_only_result g = (case g of (name, rs) \<Rightarrow>
     \<lparr>ph_phase = phase_enum_for_name name, ph_success = list_all resolved_entry_success rs,
      ph_message = name @ '' phase validations resolved without execution'',
      ph_details = Some [(KStr ''steps'', PList []),
        (KStr ''validations'', PList (map (\<lambda>r. PDict (resolved_entry_to_result_dict r)) rs))]\<rparr>)"

definition finish_remaining ::
  "'w engine \<Rightarrow> run_options \<Rightarrow> run_plan \<Rightarrow> 'w run_state \<Rightarrow> 'w run_state option"
where
  "finish_remaining eng opts plan st =
     (let indexes = filter (\<lambda>i. \<not> dhas (rs_resolved st) i) [0..<length (rp_entries plan)] in
      if indexes = [] then Some st
      else (case resolve_remaining eng opts plan (rs_ctx st) (map ((!) (rp_entries plan)) indexes) of
          None \<Rightarrow> None
        | Some terms \<Rightarrow>
            (let groups = group_by_phase (get_all_step_phases (rs_ctx st)) terms [];
                 st1 = st\<lparr>rs_resolved := store_results (zip indexes terms) (rs_resolved st)\<rparr>;
                 st2 = fold (\<lambda>g. write_stub opts plan (fst g) ''-unexecuted'' (snd g)) groups st1
             in Some (st2\<lparr>rs_results := rs_results st2 @ map resolution_only_result groups,
                  rs_ok := rs_ok st2 \<and> list_all resolved_entry_success terms\<rparr>))))"

section \<open>The whole run\<close>

definition start_state :: "run_context \<Rightarrow> 'w \<Rightarrow> 'w run_state" where
  "start_state ctx w = \<lparr>rs_ctx = ctx, rs_world = w, rs_results = [], rs_ok = True, rs_setup_ran = False,
     rs_resolved = [], rs_files = [], rs_junit = []\<rparr>"

fun register_phases :: "StepConfig list \<Rightarrow> run_context \<Rightarrow> run_context" where
  "register_phases [] ctx = ctx"
| "register_phases (s # ss) ctx =
     register_phases ss (if g_skip s then ctx else set_step_phase ctx (g_name s) (step_phase s))"

definition merged_report :: "run_options \<Rightarrow> run_plan \<Rightarrow> 'w run_state \<Rightarrow> xml option option" where
  "merged_report opts plan st =
     (if ro_junit opts \<and> rs_junit st \<noteq> []
      then map_option Some (merge_junit_xmls (map (dget (rs_files st)) (rs_junit st)) (map e_name (rp_entries plan)))
      else Some None)"

definition final_result :: "'w run_state \<Rightarrow> OrchestratorResult" where
  "final_result st = \<lparr>or_success = rs_ok st, or_phases = rs_results st,
     or_inventory = Some (dgetd (c_data (rs_ctx st)) (KStr ''steps'') (PDict [])),
     or_validations = map (\<lambda>i. the (dget (rs_resolved st) i)) (sort (dkeys (rs_resolved st)))\<rparr>"

text \<open>The phase loop, what is left over and the report. \<open>None\<close>: an exception leaves the run.\<close>

definition run_plan_phases ::
  "'w engine \<Rightarrow> run_options \<Rightarrow> run_plan \<Rightarrow> run_context \<Rightarrow> 'w
    \<Rightarrow> (OrchestratorResult \<times> xml option \<times> 'w run_state) option"
where
  "run_plan_phases eng opts plan ctx w =
     (case run_phases eng opts plan (rp_config_phases plan)
          (start_state (register_phases (rp_steps plan) ctx) w) of
        None \<Rightarrow> None
      | Some st \<Rightarrow>
          (case finish_remaining eng opts plan st of
             None \<Rightarrow> None
           | Some st' \<Rightarrow>
               (case merged_report opts plan st' of
                  None \<Rightarrow> None
                | Some report \<Rightarrow> Some (final_result st', report, st'))))"

definition failed_run :: "Phase \<Rightarrow> string \<Rightarrow> OrchestratorResult" where
  "failed_run phase message = \<lparr>or_success = False,
     or_phases = [\<lparr>ph_phase = phase, ph_success = False, ph_message = message, ph_details = None\<rparr>],
     or_inventory = None, or_validations = []\<rparr>"

definition skipped_run :: "string \<Rightarrow> string list \<Rightarrow> OrchestratorResult" where
  "skipped_run platform phases = \<lparr>or_success = True,
     or_phases = map (\<lambda>p. \<lparr>ph_phase = phase_enum_for_name p, ph_success = True,
       ph_message = ''SKIPPED: platform '' @ quoted platform @ '' is skipped by configuration'',
       ph_details = None\<rparr>) phases,
     or_inventory = Some (PDict []), or_validations = []\<rparr>"

datatype plan_outcome = Finished OrchestratorResult | Planned run_plan

definition make_plan :: "'w engine \<Rightarrow> RunConfig \<Rightarrow> run_options \<Rightarrow> string \<Rightarrow> string list \<Rightarrow> StepConfig list \<Rightarrow> plan_outcome" where
  "make_plan eng cfg opts platform phases steps =
     (let entries = parse_validations (o_compose_only eng)
            (case rc_tests cfg of None \<Rightarrow> [] | Some t \<Rightarrow> tc_validations t) in
      if rc_commands cfg = [] \<and> entries = []
      then Finished (failed_run TEST ''No validations configured: a run without commands would assert nothing'')
      else (let gated = apply_capability_step_gates steps entries (ro_capability opts) in
        case find (\<lambda>s. step_phase s \<notin> set phases) gated of
          Some s \<Rightarrow> Finished (failed_run SETUP (''Step '' @ quoted (g_name s) @ '' has phase ''
            @ quoted (step_phase s) @ '' not in phases list: ''
            @ py_repr (h_float (o_host eng)) (PList (map PStr phases))))
        | None \<Rightarrow>
            (let explicit = (ro_include_labels opts \<noteq> [] \<or> has_explicit_pytest_selection (ro_pytest_args opts));
                 config_labels = (case rc_tests cfg of None \<Rightarrow> [] | Some t \<Rightarrow> tc_exclude_labels t)
             in Planned \<lparr>rp_platform = platform, rp_config_phases = phases, rp_steps = gated,
                  rp_entries = entries,
                  rp_exclude_labels = ro_exclude_labels opts @ (if explicit then [] else config_labels),
                  rp_exclude_tests = (case rc_tests cfg of None \<Rightarrow> [] | Some t \<Rightarrow> tc_exclude_tests t)\<rparr>)))"

definition plan_run :: "'w engine \<Rightarrow> RunConfig \<Rightarrow> run_options \<Rightarrow> string \<Rightarrow> plan_outcome option" where
  "plan_run eng cfg opts platform =
     (if rc_commands cfg = [] then Some (make_plan eng cfg opts platform [''test''] [])
      else (case dget (rc_commands cfg) platform of
          None \<Rightarrow> None
        | Some pc \<Rightarrow>
            if pc_skip pc
            then Some (Finished (skipped_run platform (requested_config_phases (pc_phases pc) (ro_phases opts))))
            else if pc_steps pc = []
            then Some (Finished (failed_run SETUP (''No steps defined for platform: '' @ platform)))
            else Some (make_plan eng cfg opts platform (pc_phases pc) (pc_steps pc))))"

definition run_steps_mode ::
  "'w engine \<Rightarrow> RunConfig \<Rightarrow> run_options \<Rightarrow> string \<Rightarrow> run_context \<Rightarrow> 'w
    \<Rightarrow> (OrchestratorResult \<times> xml option \<times> 'w) option"
where
  "run_steps_mode eng cfg opts platform ctx w = (case plan_run eng cfg opts platform of
     None \<Rightarrow> None
   | Some (Finished r) \<Rightarrow> Some (r, None, w)
   | Some (Planned plan) \<Rightarrow>
       map_option (\<lambda>(r, report, st). (r, report, rs_world st)) (run_plan_phases eng opts plan ctx w))"

definition orchestrator_run ::
  "'w engine \<Rightarrow> RunConfig \<Rightarrow> run_options \<Rightarrow> run_context \<Rightarrow> 'w
    \<Rightarrow> (OrchestratorResult \<times> xml option \<times> 'w) option"
where
  "orchestrator_run eng cfg opts ctx w = (case detect_platform cfg (ro_capability opts) of
     None \<Rightarrow> Some (failed_run SETUP ''Cannot determine platform from configuration'', None, w)
   | Some platform \<Rightarrow> run_steps_mode eng cfg opts platform ctx w)"

section \<open>Outcomes of validations\<close>

text \<open>A terminal outcome of a configured validation, whose name the bridge may have qualified.\<close>

definition settles :: "ValidationEntry \<Rightarrow> ResolvedEntry \<Rightarrow> bool" where
  "settles e r \<longleftrightarrow> terminal r \<and> r_entry r = e\<lparr>e_name := entry_name r\<rparr>"

lemma sound_terminal: "sound_outcome r \<Longrightarrow> \<not> is_ready r \<Longrightarrow> terminal r"
  by (auto simp: sound_outcome_def terminal_def is_ready_def split: option.splits State.splits)

lemma settles_self: "terminal r \<Longrightarrow> settles (r_entry r) r"
  by (simp add: settles_def)

lemma weave_settles:
  assumes "list_all sound_outcome resolved" "list_all2 outcome_of (filter is_ready resolved) executed"
  shows "list_all2 settles (map r_entry resolved) (weave resolved executed)"
  using assms
proof (induction resolved arbitrary: executed)
  case (Cons r rs)
  show ?case
  proof (cases "is_ready r")
    case True
    with Cons.prems(2) obtain x ys where "executed = x # ys" "outcome_of r x"
      "list_all2 outcome_of (filter is_ready rs) ys"
      by (auto simp: list_all2_Cons1)
    with Cons True show ?thesis by (simp add: outcome_of_def settles_def)
  next
    case False
    with Cons show ?thesis by (simp add: sound_terminal settles_self)
  qed
qed simp

lemma resolved_sound:
  assumes "resolve_validation_entries eng opts plan ctx es = Some rs"
  shows "map r_entry rs = es \<and> list_all sound_outcome rs"
  using assms
  by (auto simp: resolve_validation_entries_def resolve_entries_def list_all_iff comp_def map_idI
      resolve_entry_sound split: pval.splits)

lemma run_ready_outcomes:
  "run_ready eng opts plan name (filter is_ready rs) st = (rc, executed, st') \<Longrightarrow>
    list_all2 outcome_of (filter is_ready rs) executed"
proof -
  assume run: "run_ready eng opts plan name (filter is_ready rs) st = (rc, executed, st')"
  have f: "filter is_ready (filter is_ready rs) = filter is_ready rs" by (simp add: filter_id_conv)
  show ?thesis
    using run bridge_outcomes [of "filter is_ready rs"
        "\<lambda>vs inv. o_pytest eng (rs_world st) (rp_platform plan @ ''/'' @ name) vs inv"
        "Some (get_accumulated_context (rs_ctx st))"] f
    by (auto simp: run_ready_def split: if_splits prod.splits option.splits)
qed

lemma run_ready_same:
  assumes "run_ready eng opts plan name ready st = (rc, executed, st')"
  shows "rs_resolved st' = rs_resolved st \<and> rs_results st' = rs_results st \<and> rs_ok st' = rs_ok st
    \<and> rs_ctx st' = rs_ctx st \<and> rs_setup_ran st' = rs_setup_ran st"
  using assms by (auto simp: run_ready_def split: if_splits prod.splits option.splits)

lemma write_stub_same [simp]:
  "rs_resolved (write_stub opts plan p x es st) = rs_resolved st"
  "rs_results (write_stub opts plan p x es st) = rs_results st"
  "rs_ok (write_stub opts plan p x es st) = rs_ok st"
  "rs_ctx (write_stub opts plan p x es st) = rs_ctx st"
  "rs_world (write_stub opts plan p x es st) = rs_world st"
  "rs_setup_ran (write_stub opts plan p x es st) = rs_setup_ran st"
  by (simp_all add: write_stub_def)

lemma keep_phase_file_same [simp]:
  "rs_resolved (keep_phase_file opts n st) = rs_resolved st"
  "rs_results (keep_phase_file opts n st) = rs_results st"
  "rs_ok (keep_phase_file opts n st) = rs_ok st"
  "rs_ctx (keep_phase_file opts n st) = rs_ctx st"
  "rs_world (keep_phase_file opts n st) = rs_world st"
  by (simp_all add: keep_phase_file_def)

text \<open>The recorded outcomes: one per index, each of the entry at that index.\<close>

definition good_store :: "run_plan \<Rightarrow> (nat \<times> ResolvedEntry) list \<Rightarrow> bool" where
  "good_store plan d \<longleftrightarrow> distinct (dkeys d)
     \<and> (\<forall>(i, r) \<in> set d. i < length (rp_entries plan) \<and> settles (rp_entries plan ! i) r)"

lemma good_store_dput:
  "good_store plan d \<Longrightarrow> i < length (rp_entries plan) \<Longrightarrow> settles (rp_entries plan ! i) r \<Longrightarrow>
    good_store plan (dput d i r)"
proof -
  assume g: "good_store plan d" and i: "i < length (rp_entries plan)" "settles (rp_entries plan ! i) r"
  have "set (dput d i r) \<subseteq> insert (i, r) (set d)"
    by (induction d) (auto split: if_splits)
  with g i show ?thesis unfolding good_store_def by (force simp: distinct_dput)
qed

lemma store_results_good:
  assumes "list_all2 settles (map ((!) (rp_entries plan)) is) rs"
    and "\<forall>i \<in> set is. i < length (rp_entries plan)" "good_store plan d"
  shows "good_store plan (store_results (zip is rs) d)
    \<and> set (dkeys (store_results (zip is rs) d)) = set (dkeys d) \<union> set is"
  using assms
proof (induction "is" arbitrary: rs d)
  case (Cons i "is")
  then obtain r rs' where rs: "rs = r # rs'" "settles (rp_entries plan ! i) r"
    "list_all2 settles (map ((!) (rp_entries plan)) is) rs'"
    by (auto simp: list_all2_Cons1)
  from good_store_dput [OF Cons.prems(3) _ rs(2)] Cons.prems(2) have "good_store plan (dput d i r)" by simp
  from Cons.IH [OF rs(3) _ this] Cons.prems(2) show ?case by (simp add: rs(1))
qed simp

lemma phase_indexes_bound: "i \<in> set (phase_indexes plan d ctx name) \<Longrightarrow> i < length (rp_entries plan)"
  by (simp add: phase_indexes_def)

section \<open>The phase loop\<close>

lemma record_phase_same:
  assumes "record_phase name res b terms rc st = Some st'"
  shows "rs_resolved st' = rs_resolved st \<and> rs_ctx st' = rs_ctx st \<and> rs_world st' = rs_world st
    \<and> rs_setup_ran st' = rs_setup_ran st \<and> (\<exists>new. rs_results st' = rs_results st @ new
      \<and> (rs_ok st' \<longleftrightarrow> rs_ok st \<and> list_all ph_success new))"
  using assms by (auto simp: record_phase_def split: if_splits option.splits)

lemma run_phase_steps_same:
  assumes "run_phase_steps eng plan name st = Some (res, st')"
  shows "rs_resolved st' = rs_resolved st \<and> rs_results st' = rs_results st \<and> rs_ok st' = rs_ok st"
  using assms by (auto simp: run_phase_steps_def Let_def split: option.splits)

text \<open>What every phase keeps: the recorded outcomes are good, and the run is successful as long as
  every recorded phase is.\<close>

definition all_green :: "(nat \<times> ResolvedEntry) list \<Rightarrow> bool" where
  "all_green d \<longleftrightarrow> list_all (\<lambda>ir. resolved_entry_success (snd ir)) d"

definition run_inv :: "run_plan \<Rightarrow> 'w run_state \<Rightarrow> bool" where
  "run_inv plan st \<longleftrightarrow> good_store plan (rs_resolved st)
     \<and> (rs_ok st \<longleftrightarrow> list_all ph_success (rs_results st))
     \<and> (rs_ok st \<longrightarrow> all_green (rs_resolved st))"

lemma set_dput: "set (dput d k v) \<subseteq> insert (k, v) (set d)"
  by (induction d) auto

lemma store_results_green:
  "all_green d \<Longrightarrow> list_all resolved_entry_success rs \<Longrightarrow> all_green (store_results (zip is rs) d)"
proof (induction "is" arbitrary: rs d)
  case (Cons i "is")
  show ?case
  proof (cases rs)
    case (Cons r rs')
    have "all_green (dput d i r)"
      using set_dput [of i r d] Cons.prems Cons by (fastforce simp: all_green_def list_all_iff)
    with Cons.IH [of "dput d i r" rs'] Cons.prems Cons show ?thesis by simp
  qed (use Cons.prems in simp)
qed simp

lemma result_dict_passed:
  "truthy (dgetd (resolved_entry_to_result_dict r) (KStr ''passed'') (PBool False)) = resolved_entry_success r"
  by (auto simp: resolved_entry_to_result_dict_def resolved_entry_success_def dgetd_def)

lemma create_phase_result_success:
  assumes "create_phase_result ph res (map resolved_entry_to_result_dict terms) n rc = Some pr" "ph_success pr"
  shows "z_success res \<and> list_all resolved_entry_success terms \<and> rc \<in> {None, Some 0, Some 5}"
  using assms
  by (auto simp: create_phase_result_def Let_def filter_empty_conv result_dict_passed list_all_iff
      split: option.splits)

lemma record_phase_green:
  assumes "record_phase n res b terms rc st = Some st'" "rs_ok st'"
  shows "list_all resolved_entry_success terms"
  using assms create_phase_result_success
  by (fastforce simp: record_phase_def split: if_splits option.splits)

lemma run_validations_state:
  assumes "run_validations eng opts plan name res st = Some st'" "good_store plan (rs_resolved st)"
  shows "good_store plan (rs_resolved st') \<and> rs_setup_ran st' = rs_setup_ran st
    \<and> (rs_ok st' \<longrightarrow> all_green (rs_resolved st) \<longrightarrow> all_green (rs_resolved st'))
    \<and> (\<exists>new. rs_results st' = rs_results st @ new \<and> (rs_ok st' \<longleftrightarrow> rs_ok st \<and> list_all ph_success new))"
proof -
  let ?is = "phase_indexes plan (rs_resolved st) (rs_ctx st) name"
  from assms(1) obtain resolved where resolved:
    "resolve_validation_entries eng opts plan (rs_ctx st) (map ((!) (rp_entries plan)) ?is) = Some resolved"
    by (auto simp: run_validations_def Let_def split: option.splits)
  let ?st1 = "write_stub opts plan name ''-resolved'' (filter (\<lambda>r. \<not> is_ready r) resolved) st"
  obtain rc executed st2 where run: "run_ready eng opts plan name (filter is_ready resolved) ?st1 = (rc, executed, st2)"
    by (cases "run_ready eng opts plan name (filter is_ready resolved) ?st1")
  let ?st4 = "write_stub opts plan name ''-deselected'' (entries_missing_from_junit executed (phase_file opts name st2))
    (keep_phase_file opts name st2)"
  have rec: "record_phase name res (list_ex (\<lambda>s. step_phase s = name) (rp_steps plan)) (weave resolved executed) rc
      (?st4\<lparr>rs_resolved := store_results (zip ?is (weave resolved executed)) (rs_resolved ?st4)\<rparr>) = Some st'"
    using assms(1) resolved run by (simp add: run_validations_def Let_def)
  have same: "rs_resolved ?st4 = rs_resolved st" "rs_results ?st4 = rs_results st" "rs_ok ?st4 = rs_ok st"
    "rs_setup_ran ?st4 = rs_setup_ran st"
    using run_ready_same [OF run] by (simp_all add: keep_phase_file_def)
  have "list_all2 settles (map ((!) (rp_entries plan)) ?is) (weave resolved executed)"
    using weave_settles [OF _ run_ready_outcomes [OF run]] resolved_sound [OF resolved] by simp
  from store_results_good [OF this _ assms(2)] phase_indexes_bound
  have "good_store plan (store_results (zip ?is (weave resolved executed)) (rs_resolved st))" by blast
  moreover have "all_green (store_results (zip ?is (weave resolved executed)) (rs_resolved st))"
    if "rs_ok st'" "all_green (rs_resolved st)"
    using store_results_green [OF that(2) record_phase_green [OF rec that(1)]] .
  ultimately show ?thesis using record_phase_same [OF rec] same by auto
qed

lemma run_phase_inv:
  assumes "run_phase eng opts plan name st = Some st'" "run_inv plan st"
  shows "run_inv plan st'"
proof (cases "phase_requested opts name")
  case False
  with assms show ?thesis by (simp add: run_phase_def)
next
  case req: True
  show ?thesis
  proof (cases "phase_skip_reason opts name (rs_ok st) (rs_setup_ran st)")
    case (Some reason)
    with assms req show ?thesis by (auto simp: run_phase_def run_inv_def)
  next
    case None
    with assms(1) req obtain res st1 where s: "run_phase_steps eng plan name st = Some (res, st1)"
      "run_validations eng opts plan name res st1 = Some st'"
      by (auto simp: run_phase_def split: option.splits)
    from run_phase_steps_same [OF s(1)] assms(2) have "run_inv plan st1" by (simp add: run_inv_def)
    with run_validations_state [OF s(2)] show ?thesis by (auto simp: run_inv_def)
  qed
qed

lemma run_phases_inv:
  "run_phases eng opts plan ps st = Some st' \<Longrightarrow> run_inv plan st \<Longrightarrow> run_inv plan st'"
  by (induction ps arbitrary: st) (auto split: option.splits dest: run_phase_inv)

section \<open>What is left over\<close>

lemma terminal_remaining_settles:
  assumes "r_entry r = e" "sound_outcome r"
  shows "settles e (terminal_remaining plan ctx e r)"
proof (cases "is_ready r")
  case True
  then show ?thesis
    by (simp add: terminal_remaining_def Let_def settles_def terminal_def fresh_entry_def)
next
  case False
  with assms show ?thesis
    by (auto simp: terminal_remaining_def Let_def sound_terminal settles_def)
qed

lemma resolve_remaining_settles:
  assumes "resolve_remaining eng opts plan ctx es = Some terms"
  shows "list_all2 settles es terms"
proof -
  from assms obtain rs where rs: "resolve_validation_entries eng opts plan ctx es = Some rs"
    and terms: "terms = map2 (terminal_remaining plan ctx) es rs"
    by (auto simp: resolve_remaining_def)
  note sound = resolved_sound [OF rs]
  then have len: "length es = length rs" by auto
  have "settles (es ! i) (terms ! i)" if "i < length es" for i
    using that len terms sound
    by (auto simp: list_all_length intro!: terminal_remaining_settles)
  with len terms show ?thesis by (auto simp: list_all2_conv_all_nth)
qed

lemma fold_write_stub_same:
  "rs_resolved (fold (\<lambda>g. write_stub opts plan (fst g) x (snd g)) gs st) = rs_resolved st
    \<and> rs_results (fold (\<lambda>g. write_stub opts plan (fst g) x (snd g)) gs st) = rs_results st
    \<and> rs_ok (fold (\<lambda>g. write_stub opts plan (fst g) x (snd g)) gs st) = rs_ok st
    \<and> rs_world (fold (\<lambda>g. write_stub opts plan (fst g) x (snd g)) gs st) = rs_world st
    \<and> rs_ctx (fold (\<lambda>g. write_stub opts plan (fst g) x (snd g)) gs st) = rs_ctx st"
  by (induction gs arbitrary: st) simp_all

text \<open>Grouping by phase loses no entry.\<close>

lemma group_by_phase_entries:
  "distinct (dkeys acc) \<Longrightarrow> distinct (dkeys (group_by_phase phases rs acc))
    \<and> set (concat (map snd (group_by_phase phases rs acc))) = set (concat (map snd acc)) \<union> set rs"
proof (induction phases rs acc rule: group_by_phase.induct)
  case (2 phases r rs acc)
  let ?p = "get_entry_phase (r_entry r) phases"
  have put: "set (concat (map snd (dput acc p (dgetd acc p [] @ [r])))) = insert r (set (concat (map snd acc)))"
    if "distinct (dkeys acc)" for acc p
    using that by (induction acc) (auto simp: dgetd_def dget_None_iff split: option.splits)
  from 2(1) [OF refl] 2(2) put [OF 2(2), of ?p] show ?case by (auto simp: Let_def)
qed simp

lemma finish_remaining_inv:
  assumes "finish_remaining eng opts plan st = Some st'" "run_inv plan st"
  shows "run_inv plan st' \<and> set (dkeys (rs_resolved st')) = {..<length (rp_entries plan)}"
proof -
  let ?n = "length (rp_entries plan)"
  let ?is = "filter (\<lambda>i. \<not> dhas (rs_resolved st) i) [0..<?n]"
  from assms(2) have g: "good_store plan (rs_resolved st)" by (simp add: run_inv_def)
  have keys: "set (dkeys (rs_resolved st)) \<subseteq> {..<?n}" using g by (auto simp: good_store_def)
  have all: "set (dkeys (rs_resolved st)) \<union> set ?is = {..<?n}"
    using keys by (auto simp: dget_None_iff)
  show ?thesis
  proof (cases "?is = []")
    case True
    then have "st' = st" using assms(1) by (simp add: finish_remaining_def Let_def)
    moreover have "set ?is = {}" using True by (simp only: list.set)
    ultimately show ?thesis using assms(2) all by simp
  next
    case False
    with assms(1) obtain terms where t:
      "resolve_remaining eng opts plan (rs_ctx st) (map ((!) (rp_entries plan)) ?is) = Some terms"
      unfolding finish_remaining_def Let_def by (auto split: option.splits)
    let ?gs = "group_by_phase (get_all_step_phases (rs_ctx st)) terms []"
    let ?st1 = "st\<lparr>rs_resolved := store_results (zip ?is terms) (rs_resolved st)\<rparr>"
    let ?st2 = "fold (\<lambda>g. write_stub opts plan (fst g) ''-unexecuted'' (snd g)) ?gs ?st1"
    have st': "st' = ?st2\<lparr>rs_results := rs_results ?st2 @ map resolution_only_result ?gs,
        rs_ok := rs_ok ?st2 \<and> list_all resolved_entry_success terms\<rparr>"
      using assms(1) False t unfolding finish_remaining_def Let_def by simp
    note same = fold_write_stub_same [of opts plan "''-unexecuted''" ?gs ?st1]
    have bound: "\<forall>i \<in> set ?is. i < ?n" by simp
    note stored = store_results_good [OF resolve_remaining_settles [OF t] bound g]
    have "set terms = set (concat (map snd ?gs))"
      using group_by_phase_entries [of "[]" "get_all_step_phases (rs_ctx st)" terms] by simp
    then have "list_all resolved_entry_success terms \<longleftrightarrow> list_all ph_success (map resolution_only_result ?gs)"
      by (auto simp: list_all_iff resolution_only_result_def split: prod.splits)
    moreover have "all_green (store_results (zip ?is terms) (rs_resolved st))"
      if "rs_ok st" "list_all resolved_entry_success terms"
      using store_results_green [OF _ that(2)] that(1) assms(2) by (simp add: run_inv_def)
    ultimately show ?thesis
      unfolding st' run_inv_def using assms(2) stored all same by (simp add: run_inv_def)
  qed
qed

lemma start_inv: "run_inv plan (start_state ctx w)"
  by (simp add: run_inv_def good_store_def start_state_def all_green_def)

lemma run_plan_phases_inv:
  assumes "run_plan_phases eng opts plan ctx w = Some (r, report, st)"
  shows "r = final_result st \<and> run_inv plan st \<and> set (dkeys (rs_resolved st)) = {..<length (rp_entries plan)}
    \<and> merged_report opts plan st = Some report"
proof -
  from assms obtain st0 where
    "run_phases eng opts plan (rp_config_phases plan) (start_state (register_phases (rp_steps plan) ctx) w) = Some st0"
    "finish_remaining eng opts plan st0 = Some st" "r = final_result st" "merged_report opts plan st = Some report"
    by (auto simp: run_plan_phases_def split: option.splits)
  with run_phases_inv [OF this(1) start_inv] finish_remaining_inv [OF this(2)] show ?thesis by blast
qed

lemma final_validations:
  assumes "good_store plan d" "set (dkeys d) = {..<length (rp_entries plan)}"
  shows "list_all2 settles (rp_entries plan) (map (\<lambda>i. the (dget d i)) (sort (dkeys d)))"
proof -
  have "sort (dkeys d) = [0..<length (rp_entries plan)]"
    using assms by (intro sorted_distinct_set_unique) (auto simp: good_store_def)
  moreover have "settles (rp_entries plan ! i) (the (dget d i))" if "i < length (rp_entries plan)" for i
  proof -
    from that assms(2) have "i \<in> set (dkeys d)" by auto
    then obtain r where "dget d i = Some r" by (metis dget_None_iff option.exhaust)
    with assms(1) show ?thesis by (auto simp: good_store_def dest: map_of_SomeD)
  qed
  ultimately show ?thesis by (simp add: list_all2_conv_all_nth)
qed

section \<open>Skipped phases and teardown\<close>

lemma phase_skipped:
  assumes "phase_requested opts name" "phase_skip_reason opts name (rs_ok st) (rs_setup_ran st) = Some reason"
  shows "run_phase eng opts plan name st = Some (st\<lparr>rs_results := rs_results st @
    [\<lparr>ph_phase = phase_enum_for_name name, ph_success = True, ph_message = ''SKIPPED: '' @ reason,
      ph_details = None\<rparr>]\<rparr>)"
  using assms by (simp add: run_phase_def)

lemma run_phase_after_failure:
  assumes "\<not> rs_ok st" "name \<noteq> ''teardown''" "run_phase eng opts plan name st = Some st'"
  shows "rs_world st' = rs_world st \<and> rs_ctx st' = rs_ctx st \<and> rs_resolved st' = rs_resolved st \<and> \<not> rs_ok st'"
proof (cases "phase_requested opts name")
  case True
  have "phase_skip_reason opts name (rs_ok st) (rs_setup_ran st) = Some ''previous phase failed''"
    using assms by (simp add: phase_skip_reason_def)
  from phase_skipped [OF True this] assms(1,3) show ?thesis by auto
qed (use assms in \<open>simp add: run_phase_def\<close>)

text \<open>C3. After a failed phase no later phase other than teardown touches anything: no command
  and no check is run (the world is unchanged), the context stays as it was, no validation gets an
  outcome, and the run stays failed.\<close>

theorem nothing_runs_after_failure:
  assumes "\<not> rs_ok st" "''teardown'' \<notin> set ps" "run_phases eng opts plan ps st = Some st'"
  shows "rs_world st' = rs_world st \<and> rs_ctx st' = rs_ctx st
    \<and> rs_resolved st' = rs_resolved st \<and> \<not> rs_ok st'"
  using assms
proof (induction ps arbitrary: st)
  case (Cons p ps)
  from Cons.prems(3) obtain st1 where st1: "run_phase eng opts plan p st = Some st1"
    "run_phases eng opts plan ps st1 = Some st'" by (auto split: option.splits)
  from run_phase_after_failure [OF Cons.prems(1) _ st1(1)] Cons.prems(2)
  have s: "rs_world st1 = rs_world st" "rs_ctx st1 = rs_ctx st" "rs_resolved st1 = rs_resolved st" "\<not> rs_ok st1"
    by auto
  from Cons.IH [OF s(4) _ st1(2)] Cons.prems(2) s show ?case by simp
qed simp

definition demo_engine :: "nat engine" where
  "demo_engine = \<lparr>o_host = demo_host, o_jinja = (\<lambda>_ _. Inr []), o_compose_only = [],
     o_pytest = (\<lambda>w suite vs inv. (0, map (\<lambda>v. \<lparr>q_name = fst v, q_passed = True, q_skipped = False,
        q_message = [], q_duration = 0, q_error_reason = None, q_subtests = None\<rparr>) vs, None, w + 100))\<rparr>"

definition demo_options :: run_options where
  "demo_options = \<lparr>ro_phases = [ALL_PHASES], ro_teardown_on_failure = True, ro_pytest_args = [],
     ro_include_labels = [], ro_exclude_labels = [], ro_capability = None, ro_junit = False\<rparr>"

definition demo_plan :: "string \<Rightarrow> run_plan" where
  "demo_plan command = \<lparr>rp_platform = ''vm'', rp_config_phases = [''setup'', ''test'', ''teardown''],
     rp_steps = [demo_step command [], (demo_step ''clean'' [])\<lparr>g_phase := ''teardown''\<rparr>],
     rp_entries = parse_validations [] [(KStr ''net'', PDict [(KStr ''A'', PDict []), (KStr ''B'', PDict [])])],
     rp_exclude_labels = [], rp_exclude_tests = []\<rparr>"

theorem nothing_runs_after_failure_witness:
  "map_option rs_world (run_phases demo_engine demo_options (demo_plan ''ok'') [''test'']
     ((start_state demo_ctx 5)\<lparr>rs_ok := False\<rparr>)) = Some 5"
proof -
  let ?st = "(start_state demo_ctx (5::nat))\<lparr>rs_ok := False\<rparr>"
  let ?r = "run_phases demo_engine demo_options (demo_plan ''ok'') [''test''] ?st"
  have "?r \<noteq> None" by code_simp
  then obtain st' where r: "?r = Some st'" by auto
  have "\<not> rs_ok ?st" "''teardown'' \<notin> set [''test'']" by simp_all
  from nothing_runs_after_failure [OF this r] r show ?thesis by (simp add: start_state_def)
qed



section \<open>Every configured validation is reported\<close>

text \<open>C1. A run that returns reports exactly one outcome per configured validation, in the order of
  the configuration, whatever phases were requested, skipped or failed: each outcome is terminal
  (passed, failed, skipped with a reason or error with a reason) and carries the configured
  entry, up to the name under which pytest ran it.\<close>

theorem one_outcome_per_validation:
  assumes "run_plan_phases eng opts plan ctx w = Some (r, report, st)"
  shows "list_all2 (\<lambda>e v. terminal v \<and> r_entry v = e\<lparr>e_name := entry_name v\<rparr>)
    (rp_entries plan) (or_validations r)"
proof -
  from run_plan_phases_inv [OF assms] have "r = final_result st" "good_store plan (rs_resolved st)"
    "set (dkeys (rs_resolved st)) = {..<length (rp_entries plan)}" by (auto simp: run_inv_def)
  with final_validations [OF this(2,3)] show ?thesis
    by (simp add: final_result_def settles_def [abs_def])
qed

theorem one_outcome_per_validation_witness:
  "\<exists>r report st. run_plan_phases demo_engine demo_options (demo_plan ''fail'') demo_ctx 0 = Some (r, report, st)
    \<and> length (or_validations r) = 2 \<and> list_all terminal (or_validations r)"
proof -
  let ?run = "run_plan_phases demo_engine demo_options (demo_plan ''fail'') demo_ctx 0"
  have "?run \<noteq> None" by code_simp
  then obtain r report st where run: "?run = Some (r, report, st)" by (cases ?run) auto
  have n: "length (rp_entries (demo_plan ''fail'')) = 2" by code_simp
  note all = one_outcome_per_validation [OF run]
  from list_all2_lengthD [OF all] n have "length (or_validations r) = 2" by simp
  moreover from all have "list_all terminal (or_validations r)"
    by (auto simp: list_all2_conv_all_nth list_all_length)
  ultimately show ?thesis using run by blast
qed

text \<open>C2. What a green run means: it is successful exactly when every phase result in it is, and
  then no validation failed or ended in an error.\<close>

theorem green_run:
  assumes "run_plan_phases eng opts plan ctx w = Some (r, report, st)"
  shows "(or_success r \<longleftrightarrow> list_all ph_success (or_phases r))
    \<and> (or_success r \<longrightarrow> list_all (\<lambda>v. r_state v \<in> {Some PASSED, Some SKIPPED}) (or_validations r))"
proof -
  from run_plan_phases_inv [OF assms] have r: "r = final_result st" "run_inv plan st" by auto
  have "resolved_entry_success (the (dget (rs_resolved st) i))"
    if "rs_ok st" "i \<in> set (dkeys (rs_resolved st))" for i
  proof -
    from that(2) obtain v where v: "dget (rs_resolved st) i = Some v" by (metis dget_None_iff option.exhaust)
    then have "(i, v) \<in> set (rs_resolved st)" by (rule map_of_SomeD)
    with r(2) that(1) v show ?thesis by (force simp: run_inv_def all_green_def list_all_iff)
  qed
  then have "list_all resolved_entry_success (or_validations r)" if "rs_ok st"
    using that by (simp add: r(1) final_result_def list_all_iff)
  with r show ?thesis
    by (auto simp: final_result_def run_inv_def resolved_entry_success_def list_all_iff)
qed

theorem green_run_witness:
  "\<exists>r report st. run_plan_phases demo_engine demo_options (demo_plan ''ok'') demo_ctx 0 = Some (r, report, st)
    \<and> list_all (\<lambda>v. r_state v \<in> {Some PASSED, Some SKIPPED}) (or_validations r)"
proof -
  let ?run = "run_plan_phases demo_engine demo_options (demo_plan ''ok'') demo_ctx 0"
  have "?run \<noteq> None" "map_option (\<lambda>(r, _). or_success r) ?run = Some True" by code_simp+
  then obtain r report st where run: "?run = Some (r, report, st)" "or_success r" by (cases ?run) auto
  with green_run [OF run(1)] show ?thesis by blast
qed

section \<open>Capability gates\<close>

text \<open>C6. Gating a step never starves a check that would have run: when a declared capability
  switches off a step through the validations bound to it, each validation bound to that step is
  itself skipped or an error under that capability, never ready. Gating changes nothing of a
  step but its \<open>skip\<close> flag, and never clears it.\<close>

theorem gated_step_starves_no_check:
  assumes "g_skip (gate_step entries cap step)" "\<not> g_skip step"
    and "g_requires step = [] \<or> cap \<in> set (g_requires step)"
    and "e \<in> set entries" "e_step e = Some (g_name step)" "a_capability a = Some cap"
  shows "\<not> is_ready (resolve_entry fr jinja a e)
    \<and> gate_step entries cap step = step\<lparr>g_skip := True\<rparr>"
proof -
  have "\<not> requirements_satisfied (e_requires e) cap"
    using assms by (auto simp: gate_step_def Let_def requirements_satisfied_def list_all_iff split: if_splits)
  then have "\<not> selected a e"
    using assms(6) by (simp add: selected_def requirements_satisfied_def)
  then have "\<not> is_ready (resolve_entry fr jinja a e)"
    by (cases rule: resolve_entry_cases [of fr e jinja a]) (auto simp: entry_builders)
  moreover have "gate_step entries cap step = step\<lparr>g_skip := True\<rparr>"
    using assms(1,2) by (auto simp: gate_step_def Let_def split: if_splits)
  ultimately show ?thesis by blast
qed

theorem gated_step_starves_no_check_witness:
  "\<not> is_ready (resolve_entry (\<lambda>_. []) (\<lambda>_ _. Inl []) demo_args
      (demo_entry\<lparr>e_step := Some ''s'', e_requires := [''slurm'']\<rparr>))"
proof -
  let ?e = "demo_entry\<lparr>e_step := Some ''s'', e_requires := [''slurm'']\<rparr>"
  have "g_skip (gate_step [?e] ''vm'' (demo_step ''run'' []))" by code_simp
  from gated_step_starves_no_check [OF this, of ?e demo_args "\<lambda>_. []" "\<lambda>_ _. Inl []"]
  show ?thesis by (simp add: demo_step_def)
qed

section \<open>When a run returns\<close>

text \<open>The command lines of the steps split, and every text the json module accepts is a dictionary
  with string keys, as the steps promise.\<close>

definition well_behaved :: "'w engine \<Rightarrow> run_plan \<Rightarrow> bool" where
  "well_behaved eng plan \<longleftrightarrow>
     (\<forall>s \<in> set (rp_steps plan). command_base (h_executable (o_host eng)) (g_command s) \<noteq> None)
     \<and> (\<forall>t v. h_loads (o_host eng) t = Some v \<longrightarrow> is_dict v \<and> str_keyed v)"

lemma those_map_Some: "(\<And>x. x \<in> set xs \<Longrightarrow> f x \<noteq> None) \<Longrightarrow> \<exists>ys. those (map f xs) = Some ys"
  by (rule those_map_total) blast

lemma step_detail_returns:
  "x_output r = PNone \<or> is_dict (x_output r) \<and> str_keyed (x_output r) \<Longrightarrow> step_detail r \<noteq> None"
  using redact_dict_total [of "x_output r"] by (auto simp: step_detail_def split: option.splits)

lemma step_status_returns:
  "x_output r = PNone \<or> is_dict (x_output r) \<Longrightarrow> step_status r \<noteq> None"
  by (auto simp: step_status_def split: pval.splits)

lemma create_phase_result_returns:
  assumes "\<forall>r \<in> set (z_steps res). x_output r = PNone \<or> is_dict (x_output r) \<and> str_keyed (x_output r)"
  shows "create_phase_result ph res vs n rc \<noteq> None"
proof -
  obtain ms where "those (map (\<lambda>r. map_option (\<lambda>s. x_name r @ '': '' @ s) (step_status r)) (z_steps res)) = Some ms"
    using assms step_status_returns those_map_Some
      [of "z_steps res" "\<lambda>r. map_option (\<lambda>s. x_name r @ '': '' @ s) (step_status r)"] by fastforce
  moreover obtain ds where "those (map step_detail (z_steps res)) = Some ds"
    using assms step_detail_returns those_map_Some [of "z_steps res" step_detail] by blast
  ultimately show ?thesis by (simp add: create_phase_result_def Let_def)
qed

lemma resolve_returns:
  "has_steps ctx \<Longrightarrow> resolve_validation_entries eng opts plan ctx es \<noteq> None"
  by (auto simp: resolve_validation_entries_def dgetd_def elim: has_stepsE)

lemma run_phase_returns:
  assumes "well_behaved eng plan" "has_steps (rs_ctx st)"
  shows "\<exists>st'. run_phase eng opts plan name st = Some st' \<and> has_steps (rs_ctx st')"
proof (cases "\<not> phase_requested opts name \<or> phase_skip_reason opts name (rs_ok st) (rs_setup_ran st) \<noteq> None")
  case True
  with assms(2) show ?thesis by (auto simp: run_phase_def split: option.splits)
next
  case False
  let ?steps = "filter (\<lambda>s. step_phase s = name) (rp_steps plan)"
  obtain res ctx w where ex: "execute_steps (o_host eng) (name = ''teardown'') ?steps (rs_ctx st) (rs_world st)
      = Some (res, ctx, w)" "has_steps ctx"
    "\<forall>r \<in> set (z_steps res). x_output r = PNone \<or> (\<exists>s. h_loads (o_host eng) s = Some (x_output r))"
    using execute_steps_returns [of ?steps "o_host eng" "rs_ctx st" "name = ''teardown''" "rs_world st"] assms
    by (auto simp: well_behaved_def)
  then obtain st1 where st1: "run_phase_steps eng plan name st = Some (res, st1)" "has_steps (rs_ctx st1)"
    by (auto simp: run_phase_steps_def Let_def)
  have outs: "\<forall>r \<in> set (z_steps res). x_output r = PNone \<or> is_dict (x_output r) \<and> str_keyed (x_output r)"
    using ex(3) assms(1) unfolding well_behaved_def by blast
  let ?is = "phase_indexes plan (rs_resolved st1) (rs_ctx st1) name"
  obtain resolved where resolved:
    "resolve_validation_entries eng opts plan (rs_ctx st1) (map ((!) (rp_entries plan)) ?is) = Some resolved"
    using resolve_returns [OF st1(2)] by blast
  let ?s1 = "write_stub opts plan name ''-resolved'' (filter (\<lambda>r. \<not> is_ready r) resolved) st1"
  obtain rc executed st2 where run: "run_ready eng opts plan name (filter is_ready resolved) ?s1 = (rc, executed, st2)"
    by (cases "run_ready eng opts plan name (filter is_ready resolved) ?s1")
  have ctx2: "rs_ctx st2 = rs_ctx st1" using run_ready_same [OF run] by simp
  have rec: "\<exists>st'. record_phase name res b terms rc s = Some st'" for b terms and s :: "'a run_state"
    using create_phase_result_returns [OF outs, of "phase_enum_for_name name"
        "map resolved_entry_to_result_dict terms" name rc]
    by (auto simp: record_phase_def)
  from st1 resolved run obtain s st' where "record_phase name res
      (list_ex (\<lambda>s. step_phase s = name) (rp_steps plan)) (weave resolved executed) rc s = Some st'"
    "run_validations eng opts plan name res st1 = Some st'" "rs_ctx s = rs_ctx st2"
    using rec by (fastforce simp: run_validations_def Let_def)
  with record_phase_same [OF this(1)] ctx2 st1 False show ?thesis by (auto simp: run_phase_def)
qed

lemma run_phases_return:
  assumes "well_behaved eng plan" "has_steps (rs_ctx st)"
  shows "\<exists>st'. run_phases eng opts plan ps st = Some st' \<and> has_steps (rs_ctx st')"
  using assms(2)
proof (induction ps arbitrary: st)
  case (Cons p ps)
  from run_phase_returns [OF assms(1) Cons.prems] obtain st1
    where "run_phase eng opts plan p st = Some st1" "has_steps (rs_ctx st1)" by blast
  with Cons.IH [of st1] show ?case by simp
qed simp

lemma register_phases_data: "c_data (register_phases ss ctx) = c_data ctx"
  by (induction ss arbitrary: ctx) (simp_all add: set_step_phase_def)

text \<open>The report files of a run: those pytest writes have whole numbers for counters, and so have
  the stubs.\<close>

definition numeric_reports :: "'w engine \<Rightarrow> bool" where
  "numeric_reports eng \<longleftrightarrow> (\<forall>w p vs inv rc raw f w'.
     o_pytest eng w p vs inv = (rc, raw, Some f, w') \<longrightarrow> numeric_file f)"

definition numeric_files :: "'w run_state \<Rightarrow> bool" where
  "numeric_files st \<longleftrightarrow> (\<forall>f \<in> snd ` set (rs_files st). numeric_file f)"

lemma numeric_dput: "\<forall>f \<in> snd ` set d. numeric_file f \<Longrightarrow> numeric_file g \<Longrightarrow> \<forall>f \<in> snd ` set (dput d k g). numeric_file f"
  by (induction d) (auto split: if_splits)

lemma numeric_files_same: "rs_files s = rs_files t \<Longrightarrow> numeric_files s = numeric_files t"
  by (simp add: numeric_files_def)

lemma write_stub_numeric:
  assumes "numeric_files st"
  shows "numeric_files (write_stub opts plan p x es st)"
proof (cases "es \<noteq> [] \<and> ro_junit opts")
  case True
  have "\<forall>f \<in> snd ` set (dput (rs_files st) (junit_name p x)
      (Parsed (terminal_junit_xml es (rp_platform plan @ ''/'' @ p)))). numeric_file f"
    by (rule numeric_dput) (use assms in \<open>simp_all only: numeric_files_def stub_numeric\<close>)
  with True show ?thesis unfolding numeric_files_def write_stub_def by simp
next
  case False
  then have "write_stub opts plan p x es st = st" unfolding write_stub_def by (rule if_not_P)
  with assms show ?thesis by simp
qed

lemma keep_phase_file_numeric: "numeric_files (keep_phase_file opts n st) = numeric_files st"
  by (simp add: numeric_files_def keep_phase_file_def)

lemma run_ready_numeric:
  assumes "run_ready eng opts plan name ready st = (rc, executed, st')" "numeric_files st" "numeric_reports eng"
  shows "numeric_files st'"
proof -
  have pytest: "numeric_file f"
    if "run_validations_via_pytest (\<lambda>vs inv. o_pytest eng (rs_world st) p vs inv) ready ctx = (c, xs, Some (Some f, w))"
    for p ctx c xs f w
  proof -
    have "bridge_run (\<lambda>vs inv. o_pytest eng (rs_world st) p vs inv) ready ctx
        = (c, fst (snd (bridge_run (\<lambda>vs inv. o_pytest eng (rs_world st) p vs inv) ready ctx)), Some f, w)"
      using that by (auto simp: run_validations_via_pytest_def Let_def split: prod.splits if_splits)
    then show ?thesis using assms(3) unfolding numeric_reports_def by metis
  qed
  obtain c xs extra where r: "run_validations_via_pytest
      (\<lambda>vs inv. o_pytest eng (rs_world st) (rp_platform plan @ ''/'' @ name) vs inv) ready
      (Some (get_accumulated_context (rs_ctx st))) = (c, xs, extra)"
    by (metis prod.collapse)
  show ?thesis
  proof (cases "ready = []")
    case True
    have "st' = st" using assms(1) unfolding run_ready_def if_P [OF True] by simp
    then show ?thesis using assms(2) by simp
  next
    case False
    note run = assms(1) [unfolded run_ready_def if_not_P [OF False] r prod.case]
    show ?thesis
    proof (cases extra)
      case None
      then have "st' = st" using run by simp
      then show ?thesis using assms(2) by simp
    next
      case (Some e)
      obtain written w where e: "e = (written, w)" by force
      show ?thesis
      proof (cases written)
        case None
        then have "rs_files st' = rs_files st" using run Some e by auto
        then show ?thesis using assms(2) numeric_files_same by metis
      next
        case f: (Some f)
        then have "rs_files st' = (if ro_junit opts then dput (rs_files st) (junit_name name []) f else rs_files st)"
          using run Some e by auto
        moreover have "numeric_file f" using pytest r Some e f by blast
        ultimately show ?thesis
          using assms(2) numeric_dput unfolding numeric_files_def by metis
      qed
    qed
  qed
qed

lemma run_phase_numeric:
  assumes "run_phase eng opts plan name st = Some st'" "numeric_files st" "numeric_reports eng"
  shows "numeric_files st'"
proof (cases "\<not> phase_requested opts name \<or> phase_skip_reason opts name (rs_ok st) (rs_setup_ran st) \<noteq> None")
  case True
  then show ?thesis using assms(1,2) by (auto simp: run_phase_def numeric_files_def split: option.splits if_splits)
next
  case False
  then obtain res st1 where st1: "run_phase_steps eng plan name st = Some (res, st1)"
    "run_validations eng opts plan name res st1 = Some st'"
    using assms(1) by (auto simp: run_phase_def split: option.splits)
  have n1: "numeric_files st1"
    using st1(1) assms(2) by (auto simp: run_phase_steps_def Let_def numeric_files_def split: option.splits)
  obtain resolved where resolved: "resolve_validation_entries eng opts plan (rs_ctx st1)
      (map ((!) (rp_entries plan)) (phase_indexes plan (rs_resolved st1) (rs_ctx st1) name)) = Some resolved"
    using st1(2) unfolding run_validations_def Let_def by (auto split: option.splits)
  obtain rc executed st2 where
    run: "run_ready eng opts plan name (filter is_ready resolved)
      (write_stub opts plan name ''-resolved'' (filter (\<lambda>r. \<not> is_ready r) resolved) st1) = (rc, executed, st2)"
    by (metis prod.collapse)
  let ?st4 = "write_stub opts plan name ''-deselected''
      (entries_missing_from_junit executed (phase_file opts name st2)) (keep_phase_file opts name st2)"
  obtain b terms d where rec: "record_phase name res b terms rc (?st4\<lparr>rs_resolved := d\<rparr>) = Some st'"
    using st1(2) unfolding run_validations_def Let_def resolved option.case run prod.case by blast
  have "numeric_files st2" using run_ready_numeric [OF run] n1 assms(3) write_stub_numeric by blast
  then have "numeric_files ?st4" using write_stub_numeric keep_phase_file_numeric by blast
  moreover have "rs_files st' = rs_files ?st4"
    using rec by (auto simp: record_phase_def split: if_splits option.splits)
  ultimately show ?thesis using numeric_files_same by metis
qed

lemma run_phases_numeric:
  "run_phases eng opts plan ps st = Some st' \<Longrightarrow> numeric_files st \<Longrightarrow> numeric_reports eng \<Longrightarrow> numeric_files st'"
  by (induction ps arbitrary: st) (auto split: option.splits dest: run_phase_numeric)

lemma updated_files: "rs_files (st\<lparr>rs_results := a, rs_ok := b\<rparr>) = rs_files st"
  by simp

lemma finish_remaining_numeric:
  assumes "finish_remaining eng opts plan st = Some st'" "numeric_files st"
  shows "numeric_files st'"
proof -
  have stubs: "numeric_files (fold (\<lambda>g. write_stub opts plan (fst g) x (snd g)) gs s)"
    if "numeric_files s" for gs x and s :: "'a run_state"
    using that
  proof (induction gs arbitrary: s)
    case (Cons g gs)
    show ?case unfolding fold_Cons comp_apply by (rule Cons.IH [OF write_stub_numeric [OF Cons.prems]])
  qed simp
  show ?thesis
  proof (cases "filter (\<lambda>i. \<not> dhas (rs_resolved st) i) [0..<length (rp_entries plan)] = []")
    case True
    then have "st' = st" using assms(1) unfolding finish_remaining_def Let_def if_P [OF True] by simp
    then show ?thesis using assms(2) by simp
  next
    case False
    let ?is = "filter (\<lambda>i. \<not> dhas (rs_resolved st) i) [0..<length (rp_entries plan)]"
    obtain terms where t: "resolve_remaining eng opts plan (rs_ctx st) (map ((!) (rp_entries plan)) ?is) = Some terms"
      using assms(1) False unfolding finish_remaining_def Let_def by (auto split: option.splits)
    let ?s2 = "fold (\<lambda>g. write_stub opts plan (fst g) ''-unexecuted'' (snd g))
        (group_by_phase (get_all_step_phases (rs_ctx st)) terms [])
        (st\<lparr>rs_resolved := store_results (zip ?is terms) (rs_resolved st)\<rparr>)"
    have "rs_files st' = rs_files ?s2"
      using assms(1) [unfolded finish_remaining_def Let_def if_not_P [OF False] t option.case option.inject]
      by (rule subst) (rule updated_files)
    moreover have "numeric_files ?s2"
      by (rule stubs, rule numeric_files_same [THEN iffD2, OF _ assms(2)]) simp
    ultimately show ?thesis by (rule numeric_files_same [THEN iffD2])
  qed
qed

lemma merged_report_returns:
  assumes "numeric_files st"
  shows "merged_report opts plan st \<noteq> None"
proof -
  have numeric: "numeric_file f" if "Some f \<in> set (map (dget (rs_files st)) (rs_junit st))" for f
  proof -
    from that obtain n where "Some f = dget (rs_files st) n" unfolding set_map by (rule imageE)
    from this [symmetric] have "(n, f) \<in> set (rs_files st)" by (rule map_of_SomeD)
    then have "f \<in> snd ` set (rs_files st)" by (metis imageI snd_conv)
    with assms show ?thesis unfolding numeric_files_def by (rule bspec)
  qed
  have "merge_junit_xmls (map (dget (rs_files st)) (rs_junit st)) names \<noteq> None" for names
    by (rule merge_returns) (rule numeric)
  then show ?thesis by (simp add: merged_report_def)
qed

text \<open>C5. A run returns: when every command line splits into arguments, what the steps print as JSON are
  dictionaries and, where a report is requested, the counters and times in pytest's files are
  numbers, no combination of failing steps, timeouts, schema violations, failing checks or pytest
  exit codes raises out of the phase loop, the final resolution or the merge of the reports. A run
  without a report request has no report.\<close>

theorem run_returns:
  assumes "well_behaved eng plan" "has_steps ctx" "ro_junit opts \<Longrightarrow> numeric_reports eng"
  shows "\<exists>r report st. run_plan_phases eng opts plan ctx w = Some (r, report, st) \<and> (ro_junit opts \<or> report = None)"
proof -
  let ?s0 = "start_state (register_phases (rp_steps plan) ctx) w"
  have "has_steps (rs_ctx ?s0)"
    using assms(2) by (simp add: start_state_def has_steps_def register_phases_data)
  from run_phases_return [OF assms(1) this] obtain st where st:
    "run_phases eng opts plan (rp_config_phases plan) ?s0 = Some st" "has_steps (rs_ctx st)" by blast
  have "resolve_remaining eng opts plan (rs_ctx st) es \<noteq> None" for es
    using resolve_returns [OF st(2)] by (simp add: resolve_remaining_def)
  then have "resolve_remaining eng opts plan (rs_ctx st) (map ((!) (rp_entries plan))
      (filter (\<lambda>i. \<not> dhas (rs_resolved st) i) [0..<length (rp_entries plan)])) \<noteq> None" .
  then have "\<exists>st'. finish_remaining eng opts plan st = Some st'"
    unfolding finish_remaining_def Let_def by auto
  then obtain st' where st': "finish_remaining eng opts plan st = Some st'" by blast
  have "numeric_files ?s0" by (simp add: numeric_files_def start_state_def)
  then have "ro_junit opts \<Longrightarrow> numeric_files st'"
    using run_phases_numeric [OF st(1)] finish_remaining_numeric [OF st'] assms(3) by blast
  then obtain report where "merged_report opts plan st' = Some report" "ro_junit opts \<or> report = None"
    using merged_report_returns [of st' opts plan] by (cases "ro_junit opts") (auto simp: merged_report_def)
  with st(1) st' show ?thesis by (simp add: run_plan_phases_def)
qed

lemma demo_plan_steps:
  "rp_steps (demo_plan c) = [demo_step c [], (demo_step ''clean'' [])\<lparr>g_phase := ''teardown''\<rparr>]"
  by (simp add: demo_plan_def)

text \<open>A run with a failing step, a failing pytest that writes a report, and a report request.\<close>

definition demo_reporting :: "nat engine" where
  "demo_reporting = demo_engine\<lparr>o_pytest := (\<lambda>w suite vs inv.
     (1, [], Some (Parsed (terminal_junit_xml [] suite)), w))\<rparr>"

theorem run_returns_witness:
  "\<exists>r report st. run_plan_phases demo_reporting (demo_options\<lparr>ro_junit := True\<rparr>) (demo_plan ''fail'') demo_ctx 0
     = Some (r, report, st)"
proof -
  have h: "o_host demo_reporting = o_host demo_engine" by (simp add: demo_reporting_def)
  have "command_base (h_executable (o_host demo_engine)) ''fail'' \<noteq> None"
    "command_base (h_executable (o_host demo_engine)) ''clean'' \<noteq> None" by code_simp+
  moreover have "h_loads (o_host demo_engine) = (\<lambda>s. if s = ''{}'' then Some (PDict []) else None)"
    by (simp add: demo_engine_def demo_host_def)
  ultimately have "well_behaved demo_reporting (demo_plan ''fail'')"
    unfolding well_behaved_def h by (auto simp: demo_plan_steps demo_step_def split: if_splits)
  moreover have "has_steps demo_ctx" by code_simp
  moreover have "numeric_reports demo_reporting"
    by (auto simp: numeric_reports_def demo_reporting_def stub_numeric)
  ultimately show ?thesis
    using run_returns [of demo_reporting "demo_plan ''fail''" demo_ctx "demo_options\<lparr>ro_junit := True\<rparr>" 0] by blast
qed

end
