(* ===== verification/Storage_Capabilities.thy ===== *)
theory Storage_Capabilities
  imports Py_Text
begin

text \<open>
  \<open>isvtest.core.storage_provider.capabilities\<close> and the capability registry of
  \<open>storage_provider.api\<close>: the flat list of \<open>Capability\<close> records, its composition from
  detection, configuration overrides and the author's hook, the read tree over the
  advertised list, and the author's write view.

  A mapping with string keys is an association list. The nodes of the two trees share
  their dictionaries; a node is its dotted id next to the shared dictionary, which is
  passed explicitly. The walk from a dotted id to its group prefixes occurs three times
  in the code; its laws are stated once, in the locale \<open>prefix_resolver\<close>.
\<close>

section \<open>The registry\<close>

datatype cap_state = Supported | Unavailable | Disabled | Unimplemented

definition QUAL_ID_ASSIGNMENT :: string where "QUAL_ID_ASSIGNMENT = ''idAssignment''"
definition QUAL_BYTE_GRANULARITY :: string where "QUAL_BYTE_GRANULARITY = ''byteGranularity''"
definition QUAL_MULTI_PATH_BINDING :: string where "QUAL_MULTI_PATH_BINDING = ''multiPathBinding''"
definition QUAL_ACCOUNTING :: string where "QUAL_ACCOUNTING = ''accounting''"
definition QUAL_INODES :: string where "QUAL_INODES = ''inodes''"
definition QUAL_DEFAULT_USER_SLOT :: string where "QUAL_DEFAULT_USER_SLOT = ''defaultUserSlot''"
definition QUAL_MULTI_TENANT :: string where "QUAL_MULTI_TENANT = ''multiTenant''"
definition QUAL_TIERED :: string where "QUAL_TIERED = ''tiered''"

definition CAP_GROUP_TENANT :: string where "CAP_GROUP_TENANT = ''tenant''"
definition CAP_GROUP_VOLUME :: string where "CAP_GROUP_VOLUME = ''volume''"
definition CAP_GROUP_QUOTA :: string where "CAP_GROUP_QUOTA = ''quota''"
definition CAP_GROUP_DIRECTORY_QUOTA :: string where
  "CAP_GROUP_DIRECTORY_QUOTA = CAP_GROUP_QUOTA @ ''.directory''"
definition CAP_GROUP_USER_QUOTA :: string where
  "CAP_GROUP_USER_QUOTA = CAP_GROUP_QUOTA @ ''.user''"

definition CAP_TENANT_LIST :: string where "CAP_TENANT_LIST = CAP_GROUP_TENANT @ ''.list''"
definition CAP_TENANT_GET :: string where "CAP_TENANT_GET = CAP_GROUP_TENANT @ ''.get''"
definition CAP_TENANT_GET_QUOTA :: string where
  "CAP_TENANT_GET_QUOTA = CAP_GROUP_TENANT @ ''.getQuota''"
definition CAP_TENANT_LIST_QUOTAS :: string where
  "CAP_TENANT_LIST_QUOTAS = CAP_GROUP_TENANT @ ''.listQuotas''"
definition CAP_VOLUME_LIST :: string where "CAP_VOLUME_LIST = CAP_GROUP_VOLUME @ ''.list''"
definition CAP_VOLUME_GET :: string where "CAP_VOLUME_GET = CAP_GROUP_VOLUME @ ''.get''"
definition CAP_VOLUME_CREATE :: string where "CAP_VOLUME_CREATE = CAP_GROUP_VOLUME @ ''.create''"
definition CAP_VOLUME_DELETE :: string where "CAP_VOLUME_DELETE = CAP_GROUP_VOLUME @ ''.delete''"
definition CAP_DIRECTORY_QUOTA_LIST :: string where
  "CAP_DIRECTORY_QUOTA_LIST = CAP_GROUP_DIRECTORY_QUOTA @ ''.list''"
definition CAP_DIRECTORY_QUOTA_GET :: string where
  "CAP_DIRECTORY_QUOTA_GET = CAP_GROUP_DIRECTORY_QUOTA @ ''.get''"
definition CAP_DIRECTORY_QUOTA_SET :: string where
  "CAP_DIRECTORY_QUOTA_SET = CAP_GROUP_DIRECTORY_QUOTA @ ''.set''"
definition CAP_DIRECTORY_QUOTA_DELETE :: string where
  "CAP_DIRECTORY_QUOTA_DELETE = CAP_GROUP_DIRECTORY_QUOTA @ ''.delete''"
definition CAP_USER_QUOTA_LIST :: string where
  "CAP_USER_QUOTA_LIST = CAP_GROUP_USER_QUOTA @ ''.list''"
definition CAP_USER_QUOTA_GET :: string where
  "CAP_USER_QUOTA_GET = CAP_GROUP_USER_QUOTA @ ''.get''"
definition CAP_USER_QUOTA_SET :: string where
  "CAP_USER_QUOTA_SET = CAP_GROUP_USER_QUOTA @ ''.set''"
definition CAP_USER_QUOTA_DELETE :: string where
  "CAP_USER_QUOTA_DELETE = CAP_GROUP_USER_QUOTA @ ''.delete''"

lemmas cap_ids = CAP_GROUP_TENANT_def CAP_GROUP_VOLUME_def CAP_GROUP_QUOTA_def
  CAP_GROUP_DIRECTORY_QUOTA_def CAP_GROUP_USER_QUOTA_def CAP_TENANT_LIST_def
  CAP_TENANT_GET_def CAP_TENANT_GET_QUOTA_def CAP_TENANT_LIST_QUOTAS_def CAP_VOLUME_LIST_def
  CAP_VOLUME_GET_def CAP_VOLUME_CREATE_def CAP_VOLUME_DELETE_def CAP_DIRECTORY_QUOTA_LIST_def
  CAP_DIRECTORY_QUOTA_GET_def CAP_DIRECTORY_QUOTA_SET_def CAP_DIRECTORY_QUOTA_DELETE_def
  CAP_USER_QUOTA_LIST_def CAP_USER_QUOTA_GET_def CAP_USER_QUOTA_SET_def
  CAP_USER_QUOTA_DELETE_def

definition CAPABILITY_IDS :: "string list" where
  "CAPABILITY_IDS =
    [CAP_TENANT_LIST, CAP_TENANT_GET, CAP_TENANT_GET_QUOTA, CAP_TENANT_LIST_QUOTAS,
     CAP_VOLUME_LIST, CAP_VOLUME_GET, CAP_VOLUME_CREATE, CAP_VOLUME_DELETE,
     CAP_DIRECTORY_QUOTA_LIST, CAP_DIRECTORY_QUOTA_GET, CAP_DIRECTORY_QUOTA_SET,
     CAP_DIRECTORY_QUOTA_DELETE, CAP_USER_QUOTA_LIST, CAP_USER_QUOTA_GET, CAP_USER_QUOTA_SET,
     CAP_USER_QUOTA_DELETE]"

record capability =
  cap_id :: string
  cap_state :: "cap_state option"
  cap_quals :: "(string \<times> string) list"

type_synonym qual_map = "(string \<times> (string \<times> string) list) list"

section \<open>From an id to its groups\<close>

abbreviation group_of :: "string \<Rightarrow> string option" where
  "group_of key \<equiv> before_last (CHR ''.'') key"

text \<open>The keys \<open>_resolve_qualifiers\<close> collects: the id, then its groups, innermost first.\<close>

function ancestors :: "string \<Rightarrow> string list" where
  "ancestors key = key # (case group_of key of None \<Rightarrow> [] | Some k \<Rightarrow> ancestors k)"
  by pat_completeness auto
termination by (relation "measure length") (auto dest: before_last_shorter)

declare ancestors.simps [simp del]

definition resolve_qualifiers :: "qual_map \<Rightarrow> string \<Rightarrow> (string \<times> string) list" where
  "resolve_qualifiers qmap cid =
    fold (\<lambda>key merged. dupdate merged (dgetd qmap key [])) (rev (ancestors cid)) []"

text \<open>\<open>_resolve_override\<close> and \<open>_resolve_state\<close>: the innermost key that is present.\<close>

function resolve_override :: "(string \<times> bool) list \<Rightarrow> string \<Rightarrow> bool option" where
  "resolve_override overrides key =
    (case dget overrides key of
       Some b \<Rightarrow> Some b
     | None \<Rightarrow> (case group_of key of None \<Rightarrow> None | Some k \<Rightarrow> resolve_override overrides k))"
  by pat_completeness auto
termination by (relation "measure (length \<circ> snd)") (auto dest: before_last_shorter)

function resolve_state :: "(string \<times> cap_state) list \<Rightarrow> string \<Rightarrow> cap_state option" where
  "resolve_state states key =
    (case dget states key of
       Some s \<Rightarrow> Some s
     | None \<Rightarrow> (case group_of key of None \<Rightarrow> None | Some k \<Rightarrow> resolve_state states k))"
  by pat_completeness auto
termination by (relation "measure (length \<circ> snd)") (auto dest: before_last_shorter)

declare resolve_override.simps [simp del] resolve_state.simps [simp del]

section \<open>Composition\<close>

definition compose_capability ::
  "(string \<times> bool) list \<Rightarrow> qual_map \<Rightarrow> capability \<Rightarrow> capability" where
  "compose_capability overrides qualifiers cap =
    (let override = resolve_override overrides (cap_id cap);
         state = (if override = Some False \<and> cap_state cap = Some Supported then Some Disabled
                  else if override = Some True \<and> cap_state cap = Some Disabled then Some Supported
                  else cap_state cap)
     in if state = Some Unimplemented then cap\<lparr>cap_state := state, cap_quals := []\<rparr>
        else cap\<lparr>cap_state := state,
               cap_quals := dupdate (dupdate [] (cap_quals cap))
                 (resolve_qualifiers qualifiers (cap_id cap))\<rparr>)"

definition compose_capabilities ::
  "capability list \<Rightarrow> (string \<times> bool) list \<Rightarrow> qual_map \<Rightarrow> capability list" where
  "compose_capabilities declared overrides qualifiers =
    map (compose_capability overrides qualifiers) declared"

definition STATE_ORDER :: "cap_state list" where
  "STATE_ORDER = [Supported, Unavailable, Disabled, Unimplemented]"

fun state_rank :: "cap_state \<Rightarrow> nat" where
  "state_rank Supported = 0"
| "state_rank Unavailable = 1"
| "state_rank Disabled = 2"
| "state_rank Unimplemented = 3"

definition or_unimplemented :: "cap_state option \<Rightarrow> cap_state" where
  "or_unimplemented s = (case s of None \<Rightarrow> Unimplemented | Some st \<Rightarrow> st)"

definition narrow_capability :: "(string \<times> cap_state) list \<Rightarrow> capability \<Rightarrow> capability" where
  "narrow_capability states cap =
    (case resolve_state states (cap_id cap) of
       None \<Rightarrow> cap
     | Some want \<Rightarrow> if state_rank (or_unimplemented (cap_state cap)) < state_rank want
         then cap\<lparr>cap_state := Some want\<rparr> else cap)"

definition narrow_states ::
  "capability list \<Rightarrow> (string \<times> cap_state) list \<Rightarrow> capability list" where
  "narrow_states caps states = (if states = [] then caps else map (narrow_capability states) caps)"

section \<open>The read tree\<close>

definition leaves_under :: "string \<Rightarrow> string list" where
  "leaves_under node = (if node = [] then CAPABILITY_IDS
     else filter (\<lambda>cid. cid = node \<or> prefix (node @ ''.'') cid) CAPABILITY_IDS)"

definition child_id :: "string \<Rightarrow> string \<Rightarrow> string" where
  "child_id node seg = (if node = [] then seg else node @ ''.'' @ seg)"

type_synonym cap_dict = "(string \<times> capability) list"

definition node_state :: "cap_dict \<Rightarrow> string \<Rightarrow> cap_state" where
  "node_state by_id node =
    (case dget by_id node of
       Some cap \<Rightarrow> or_unimplemented (cap_state cap)
     | None \<Rightarrow>
        (let present = [cap_state (the (dget by_id l)). l \<leftarrow> leaves_under node, dhas by_id l]
         in case filter (\<lambda>s. Some s \<in> set present) STATE_ORDER of
              [] \<Rightarrow> Unimplemented
            | s # _ \<Rightarrow> s))"

definition is_supported :: "cap_dict \<Rightarrow> string \<Rightarrow> bool" where
  "is_supported by_id node \<longleftrightarrow> node_state by_id node = Supported"

definition node_qualifiers :: "cap_dict \<Rightarrow> string \<Rightarrow> (string \<times> string) list" where
  "node_qualifiers by_id node =
    (case dget by_id node of
       Some cap \<Rightarrow> cap_quals cap
     | None \<Rightarrow>
        (case filter (dhas by_id) (leaves_under node) of
           [] \<Rightarrow> []
         | l # _ \<Rightarrow> cap_quals (the (dget by_id l))))"

fun first_qual :: "cap_dict \<Rightarrow> string \<Rightarrow> string list \<Rightarrow> string option" where
  "first_qual by_id key [] = None"
| "first_qual by_id key (l # ls) =
    (case dget by_id l of
       None \<Rightarrow> first_qual by_id key ls
     | Some cap \<Rightarrow> (case dget (cap_quals cap) key of
         None \<Rightarrow> first_qual by_id key ls
       | Some v \<Rightarrow> Some v))"

definition node_qual :: "cap_dict \<Rightarrow> string \<Rightarrow> string \<Rightarrow> string option" where
  "node_qual by_id node key = first_qual by_id key (leaves_under node)"

definition node_bool :: "cap_dict \<Rightarrow> string \<Rightarrow> string \<Rightarrow> bool \<Rightarrow> bool" where
  "node_bool by_id node key dflt =
    (case node_qual by_id node key of None \<Rightarrow> dflt | Some v \<Rightarrow> v = ''true'')"

definition node_int :: "cap_dict \<Rightarrow> string \<Rightarrow> string \<Rightarrow> int \<Rightarrow> int" where
  "node_int by_id node key dflt =
    (case node_qual by_id node key of
       None \<Rightarrow> dflt
     | Some v \<Rightarrow> (case py_int v of None \<Rightarrow> dflt | Some i \<Rightarrow> i))"

text \<open>The typed getters of the views; a fact that is absent has its permissive default.\<close>

definition multi_tenant :: "cap_dict \<Rightarrow> string \<Rightarrow> bool" where
  "multi_tenant by_id node = node_bool by_id node QUAL_MULTI_TENANT False"
definition tiered :: "cap_dict \<Rightarrow> string \<Rightarrow> bool" where
  "tiered by_id node = node_bool by_id node QUAL_TIERED False"
definition byte_granularity :: "cap_dict \<Rightarrow> string \<Rightarrow> int" where
  "byte_granularity by_id node = node_int by_id node QUAL_BYTE_GRANULARITY 1"
definition inodes :: "cap_dict \<Rightarrow> string \<Rightarrow> bool" where
  "inodes by_id node = node_bool by_id node QUAL_INODES True"
definition id_assignment :: "cap_dict \<Rightarrow> string \<Rightarrow> string option" where
  "id_assignment by_id node = node_qual by_id node QUAL_ID_ASSIGNMENT"
definition multi_path_binding :: "cap_dict \<Rightarrow> string \<Rightarrow> bool" where
  "multi_path_binding by_id node = node_bool by_id node QUAL_MULTI_PATH_BINDING False"
definition accounting :: "cap_dict \<Rightarrow> string \<Rightarrow> string option" where
  "accounting by_id node = node_qual by_id node QUAL_ACCOUNTING"
definition default_user_slot :: "cap_dict \<Rightarrow> string \<Rightarrow> bool" where
  "default_user_slot by_id node = node_bool by_id node QUAL_DEFAULT_USER_SLOT True"

text \<open>One record per view class: its node, the nodes its methods navigate to, and what its
  getters return.\<close>

record tenant_leaf_caps =
  tl_node :: string
  tl_multi_tenant :: bool
  tl_tiered :: bool

definition TenantLeafCaps :: "cap_dict \<Rightarrow> string \<Rightarrow> tenant_leaf_caps" where
  "TenantLeafCaps by_id node = \<lparr>tl_node = node, tl_multi_tenant = multi_tenant by_id node,
     tl_tiered = tiered by_id node\<rparr>"

record directory_quota_leaf_caps =
  dl_node :: string
  dl_byte_granularity :: int
  dl_inodes :: bool
  dl_id_assignment :: "string option"
  dl_multi_path_binding :: bool
  dl_accounting :: "string option"

definition DirectoryQuotaLeafCaps :: "cap_dict \<Rightarrow> string \<Rightarrow> directory_quota_leaf_caps" where
  "DirectoryQuotaLeafCaps by_id node = \<lparr>dl_node = node,
     dl_byte_granularity = byte_granularity by_id node, dl_inodes = inodes by_id node,
     dl_id_assignment = id_assignment by_id node,
     dl_multi_path_binding = multi_path_binding by_id node,
     dl_accounting = accounting by_id node\<rparr>"

record user_quota_leaf_caps =
  ul_node :: string
  ul_byte_granularity :: int
  ul_inodes :: bool
  ul_id_assignment :: "string option"
  ul_default_user_slot :: bool

definition UserQuotaLeafCaps :: "cap_dict \<Rightarrow> string \<Rightarrow> user_quota_leaf_caps" where
  "UserQuotaLeafCaps by_id node = \<lparr>ul_node = node,
     ul_byte_granularity = byte_granularity by_id node, ul_inodes = inodes by_id node,
     ul_id_assignment = id_assignment by_id node,
     ul_default_user_slot = default_user_slot by_id node\<rparr>"

record tenant_caps =
  tc_list :: tenant_leaf_caps
  tc_get :: tenant_leaf_caps
  tc_get_quota :: tenant_leaf_caps
  tc_list_quotas :: tenant_leaf_caps
  tc_multi_tenant :: bool
  tc_tiered :: bool

definition TenantCaps :: "cap_dict \<Rightarrow> string \<Rightarrow> tenant_caps" where
  "TenantCaps by_id node = \<lparr>tc_list = TenantLeafCaps by_id (child_id node ''list''),
     tc_get = TenantLeafCaps by_id (child_id node ''get''),
     tc_get_quota = TenantLeafCaps by_id (child_id node ''getQuota''),
     tc_list_quotas = TenantLeafCaps by_id (child_id node ''listQuotas''),
     tc_multi_tenant = multi_tenant by_id node, tc_tiered = tiered by_id node\<rparr>"

record volume_caps =
  vc_list :: string
  vc_get :: string
  vc_create :: string
  vc_delete :: string

definition VolumeCaps :: "string \<Rightarrow> volume_caps" where
  "VolumeCaps node = \<lparr>vc_list = child_id node ''list'', vc_get = child_id node ''get'',
     vc_create = child_id node ''create'', vc_delete = child_id node ''delete''\<rparr>"

record directory_quota_caps =
  dc_list :: directory_quota_leaf_caps
  dc_get :: directory_quota_leaf_caps
  dc_set :: directory_quota_leaf_caps
  dc_delete :: directory_quota_leaf_caps
  dc_group :: directory_quota_leaf_caps

text \<open>The group's own getters are those of its leaves' class, read at the group.\<close>

definition DirectoryQuotaCaps :: "cap_dict \<Rightarrow> string \<Rightarrow> directory_quota_caps" where
  "DirectoryQuotaCaps by_id node =
    \<lparr>dc_list = DirectoryQuotaLeafCaps by_id (child_id node ''list''),
     dc_get = DirectoryQuotaLeafCaps by_id (child_id node ''get''),
     dc_set = DirectoryQuotaLeafCaps by_id (child_id node ''set''),
     dc_delete = DirectoryQuotaLeafCaps by_id (child_id node ''delete''),
     dc_group = DirectoryQuotaLeafCaps by_id node\<rparr>"

record user_quota_caps =
  uc_list :: user_quota_leaf_caps
  uc_get :: user_quota_leaf_caps
  uc_set :: user_quota_leaf_caps
  uc_delete :: user_quota_leaf_caps
  uc_group :: user_quota_leaf_caps

definition UserQuotaCaps :: "cap_dict \<Rightarrow> string \<Rightarrow> user_quota_caps" where
  "UserQuotaCaps by_id node =
    \<lparr>uc_list = UserQuotaLeafCaps by_id (child_id node ''list''),
     uc_get = UserQuotaLeafCaps by_id (child_id node ''get''),
     uc_set = UserQuotaLeafCaps by_id (child_id node ''set''),
     uc_delete = UserQuotaLeafCaps by_id (child_id node ''delete''),
     uc_group = UserQuotaLeafCaps by_id node\<rparr>"

record quota_caps =
  qc_directory :: directory_quota_caps
  qc_user :: user_quota_caps
  qc_byte_granularity :: int
  qc_inodes :: bool
  qc_id_assignment :: "string option"

definition QuotaCaps :: "cap_dict \<Rightarrow> string \<Rightarrow> quota_caps" where
  "QuotaCaps by_id node =
    \<lparr>qc_directory = DirectoryQuotaCaps by_id (child_id node ''directory''),
     qc_user = UserQuotaCaps by_id (child_id node ''user''),
     qc_byte_granularity = byte_granularity by_id node, qc_inodes = inodes by_id node,
     qc_id_assignment = id_assignment by_id node\<rparr>"

definition raw_list :: "cap_dict \<Rightarrow> capability list" where
  "raw_list by_id = map snd by_id"

definition effective_list :: "cap_dict \<Rightarrow> capability list" where
  "effective_list by_id =
    map (\<lambda>cid. \<lparr>cap_id = cid, cap_state = Some (node_state by_id cid),
                cap_quals = node_qualifiers by_id cid\<rparr>) CAPABILITY_IDS"

text \<open>The groups and the leaf shortcuts of \<open>Capabilities\<close>.\<close>

record capabilities =
  c_tenant :: tenant_caps
  c_volume :: volume_caps
  c_quota :: quota_caps
  c_tenant_leaves :: "tenant_leaf_caps list"
  c_volume_leaves :: "string list"
  c_directory_leaves :: "directory_quota_leaf_caps list"
  c_user_leaves :: "user_quota_leaf_caps list"

definition Capabilities :: "cap_dict \<Rightarrow> capabilities" where
  "Capabilities by_id =
    \<lparr>c_tenant = TenantCaps by_id CAP_GROUP_TENANT, c_volume = VolumeCaps CAP_GROUP_VOLUME,
     c_quota = QuotaCaps by_id CAP_GROUP_QUOTA,
     c_tenant_leaves = map (TenantLeafCaps by_id)
       [CAP_TENANT_LIST, CAP_TENANT_GET, CAP_TENANT_GET_QUOTA, CAP_TENANT_LIST_QUOTAS],
     c_volume_leaves = [CAP_VOLUME_LIST, CAP_VOLUME_GET, CAP_VOLUME_CREATE, CAP_VOLUME_DELETE],
     c_directory_leaves = map (DirectoryQuotaLeafCaps by_id)
       [CAP_DIRECTORY_QUOTA_LIST, CAP_DIRECTORY_QUOTA_GET, CAP_DIRECTORY_QUOTA_SET,
        CAP_DIRECTORY_QUOTA_DELETE],
     c_user_leaves = map (UserQuotaLeafCaps by_id)
       [CAP_USER_QUOTA_LIST, CAP_USER_QUOTA_GET, CAP_USER_QUOTA_SET, CAP_USER_QUOTA_DELETE]\<rparr>"

definition new_capabilities :: "capability list \<Rightarrow> cap_dict" where
  "new_capabilities caps = fold (\<lambda>cap d. dput d (cap_id cap) cap) caps []"

section \<open>The author's write view\<close>

record impl_view =
  v_quals :: qual_map
  v_states :: "(string \<times> cap_state) list"

definition new_view :: impl_view where
  "new_view = \<lparr>v_quals = [], v_states = []\<rparr>"

definition set_state :: "impl_view \<Rightarrow> string \<Rightarrow> cap_state \<Rightarrow> impl_view" where
  "set_state v node s = v\<lparr>v_states := dput (v_states v) node s\<rparr>"

definition set_qualifier :: "impl_view \<Rightarrow> string \<Rightarrow> string \<Rightarrow> string \<Rightarrow> impl_view" where
  "set_qualifier v node key val =
    (let quals = dsetdefault (v_quals v) node []
     in v\<lparr>v_quals := dput quals node (dput (dgetd quals node []) key val)\<rparr>)"

definition flag_text :: "bool \<Rightarrow> string" where
  "flag_text b = (if b then ''true'' else ''false'')"

text \<open>The calls of the typed setters. A node class answers the setters it declares;
  \<open>None\<close> is the \<open>AttributeError\<close> of any other.\<close>

datatype fact =
    MultiTenant bool
  | Tiered bool
  | ByteGranularity int
  | Inodes bool
  | IdAssignment string
  | MultiPathBinding bool
  | Accounting string
  | DefaultUserSlot bool

fun TenantLeafImplCaps :: "impl_view \<Rightarrow> string \<Rightarrow> fact \<Rightarrow> impl_view option" where
  "TenantLeafImplCaps v node (MultiTenant b) =
     Some (set_qualifier v node QUAL_MULTI_TENANT (flag_text b))"
| "TenantLeafImplCaps v node (Tiered b) = Some (set_qualifier v node QUAL_TIERED (flag_text b))"
| "TenantLeafImplCaps v node _ = None"

fun QuotaImplCaps :: "impl_view \<Rightarrow> string \<Rightarrow> fact \<Rightarrow> impl_view option" where
  "QuotaImplCaps v node (ByteGranularity i) =
     Some (set_qualifier v node QUAL_BYTE_GRANULARITY (int_str i))"
| "QuotaImplCaps v node (Inodes b) = Some (set_qualifier v node QUAL_INODES (flag_text b))"
| "QuotaImplCaps v node (IdAssignment a) = Some (set_qualifier v node QUAL_ID_ASSIGNMENT a)"
| "QuotaImplCaps v node _ = None"

fun DirectoryQuotaLeafImplCaps :: "impl_view \<Rightarrow> string \<Rightarrow> fact \<Rightarrow> impl_view option" where
  "DirectoryQuotaLeafImplCaps v node (ByteGranularity i) =
     Some (set_qualifier v node QUAL_BYTE_GRANULARITY (int_str i))"
| "DirectoryQuotaLeafImplCaps v node (Inodes b) =
     Some (set_qualifier v node QUAL_INODES (flag_text b))"
| "DirectoryQuotaLeafImplCaps v node (IdAssignment a) =
     Some (set_qualifier v node QUAL_ID_ASSIGNMENT a)"
| "DirectoryQuotaLeafImplCaps v node (MultiPathBinding b) =
     Some (set_qualifier v node QUAL_MULTI_PATH_BINDING (flag_text b))"
| "DirectoryQuotaLeafImplCaps v node (Accounting a) =
     Some (set_qualifier v node QUAL_ACCOUNTING a)"
| "DirectoryQuotaLeafImplCaps v node _ = None"

fun UserQuotaLeafImplCaps :: "impl_view \<Rightarrow> string \<Rightarrow> fact \<Rightarrow> impl_view option" where
  "UserQuotaLeafImplCaps v node (ByteGranularity i) =
     Some (set_qualifier v node QUAL_BYTE_GRANULARITY (int_str i))"
| "UserQuotaLeafImplCaps v node (Inodes b) =
     Some (set_qualifier v node QUAL_INODES (flag_text b))"
| "UserQuotaLeafImplCaps v node (IdAssignment a) =
     Some (set_qualifier v node QUAL_ID_ASSIGNMENT a)"
| "UserQuotaLeafImplCaps v node (DefaultUserSlot b) =
     Some (set_qualifier v node QUAL_DEFAULT_USER_SLOT (flag_text b))"
| "UserQuotaLeafImplCaps v node _ = None"

text \<open>The group classes declare the setters of their leaves' classes.\<close>

definition TenantImplCaps :: "impl_view \<Rightarrow> string \<Rightarrow> fact \<Rightarrow> impl_view option" where
  "TenantImplCaps = TenantLeafImplCaps"
definition DirectoryQuotaImplCaps :: "impl_view \<Rightarrow> string \<Rightarrow> fact \<Rightarrow> impl_view option" where
  "DirectoryQuotaImplCaps = DirectoryQuotaLeafImplCaps"
definition UserQuotaImplCaps :: "impl_view \<Rightarrow> string \<Rightarrow> fact \<Rightarrow> impl_view option" where
  "UserQuotaImplCaps = UserQuotaLeafImplCaps"

section \<open>The most specific entry decides\<close>

fun first_some :: "('a \<Rightarrow> 'b option) \<Rightarrow> 'a list \<Rightarrow> 'b option" where
  "first_some f [] = None"
| "first_some f (x # xs) = (case f x of None \<Rightarrow> first_some f xs | Some y \<Rightarrow> Some y)"

lemma first_some_append:
  "first_some f (xs @ ys) = (case first_some f xs of None \<Rightarrow> first_some f ys | Some y \<Rightarrow> Some y)"
  by (induction xs) (auto split: option.splits)

lemma first_some_None: "first_some f xs = None \<longleftrightarrow> (\<forall>x \<in> set xs. f x = None)"
  by (induction xs) (auto split: option.splits)

lemma ancestors_self [simp]: "key \<in> set (ancestors key)"
  by (subst ancestors.simps) simp

text \<open>
  What a lookup through the groups promises, whatever the values are: it answers at the key
  itself when the key is present, and otherwise as the enclosing group does.
\<close>

locale prefix_resolver =
  fixes resolve :: "(string \<times> 'v) list \<Rightarrow> string \<Rightarrow> 'v option"
  assumes walk: "resolve m key = (case dget m key of
      Some v \<Rightarrow> Some v
    | None \<Rightarrow> (case group_of key of None \<Rightarrow> None | Some k \<Rightarrow> resolve m k))"
begin

lemma resolve_ancestors: "resolve m key = first_some (dget m) (ancestors key)"
proof (induction key rule: ancestors.induct)
  case (1 key)
  then show ?case
    by (subst walk, subst ancestors.simps) (auto split: option.splits)
qed

lemma resolve_own: "dget m key = Some v \<Longrightarrow> resolve m key = Some v"
  by (subst walk) simp

lemma resolve_silent: "(\<forall>k \<in> set (ancestors key). dget m k = None) \<Longrightarrow> resolve m key = None"
  by (simp add: resolve_ancestors first_some_None)

lemma resolve_empty: "resolve [] key = None"
  by (simp add: resolve_silent)
end

interpretation ov: prefix_resolver resolve_override
  by unfold_locales (rule resolve_override.simps)

interpretation st: prefix_resolver resolve_state
  by unfold_locales (rule resolve_state.simps)

text \<open>A Python dictionary never repeats a key.\<close>

definition wf_quals :: "qual_map \<Rightarrow> bool" where
  "wf_quals q \<longleftrightarrow> list_all (\<lambda>(node, kvs). distinct (dkeys kvs)) q"

lemma wf_quals_get: "wf_quals q \<Longrightarrow> distinct (dkeys (dgetd q node []))"
  by (auto simp: wf_quals_def dgetd_def list_all_iff split: option.splits dest: map_of_SomeD)

lemma wf_quals_put: "wf_quals q \<Longrightarrow> distinct (dkeys kvs) \<Longrightarrow> wf_quals (dput q node kvs)"
  unfolding wf_quals_def by (induction q) auto

lemma dget_merge_quals:
  assumes "wf_quals q"
  shows "dget (fold (\<lambda>a merged. dupdate merged (dgetd q a [])) (rev as) d) key =
    (case first_some (\<lambda>a. dget (dgetd q a []) key) as of None \<Rightarrow> dget d key | Some v \<Rightarrow> Some v)"
  using wf_quals_get [OF assms]
  by (induction as arbitrary: d) (auto simp: dget_dupdate split: option.splits)

lemma distinct_merge_quals:
  "distinct (dkeys d) \<Longrightarrow>
    distinct (dkeys (fold (\<lambda>a merged. dupdate merged (dgetd q a [])) as d))"
  by (induction as arbitrary: d) (auto intro: distinct_dupdate)

lemma dget_resolve_qualifiers:
  "wf_quals q \<Longrightarrow> dget (resolve_qualifiers q cid) key =
    first_some (\<lambda>a. dget (dgetd q a []) key) (ancestors cid)"
  by (simp add: resolve_qualifiers_def dget_merge_quals split: option.splits)

lemma distinct_resolve_qualifiers: "distinct (dkeys (resolve_qualifiers q cid))"
  by (simp add: resolve_qualifiers_def distinct_merge_quals)

section \<open>Composition and narrowing\<close>

lemma compose_id [simp]: "cap_id (compose_capability ov q c) = cap_id c"
  by (simp add: compose_capability_def Let_def)

lemma narrow_id [simp]: "cap_id (narrow_capability st c) = cap_id c"
  by (simp add: narrow_capability_def split: option.splits)

lemma narrow_quals [simp]: "cap_quals (narrow_capability st c) = cap_quals c"
  by (simp add: narrow_capability_def split: option.splits)

lemma narrow_states_map: "narrow_states caps states = map (narrow_capability states) caps"
  by (auto simp: narrow_states_def narrow_capability_def st.resolve_empty intro!: map_idI [symmetric])

lemma state_rank_inj: "state_rank s = state_rank t \<longleftrightarrow> s = t"
  by (cases s; cases t) simp_all

lemma narrow_rank:
  "state_rank (or_unimplemented (cap_state (narrow_capability states c))) =
    max (state_rank (or_unimplemented (cap_state c)))
      (case resolve_state states (cap_id c) of None \<Rightarrow> 0 | Some want \<Rightarrow> state_rank want)"
  by (auto simp: narrow_capability_def or_unimplemented_def split: option.splits)

lemma narrow_twice: "narrow_capability states (narrow_capability states c) = narrow_capability states c"
  by (auto simp: narrow_capability_def or_unimplemented_def split: option.splits)

lemma supported_rank: "cap_state c = Some Supported \<longleftrightarrow> state_rank (or_unimplemented (cap_state c)) = 0"
  by (cases "cap_state c"; simp add: or_unimplemented_def)
    (metis state_rank.simps(1) state_rank_inj)

lemma compose_supported:
  "cap_state (compose_capability overrides q c) = Some Supported \<longleftrightarrow>
    (case cap_state c of
       Some Supported \<Rightarrow> resolve_override overrides (cap_id c) \<noteq> Some False
     | Some Disabled \<Rightarrow> resolve_override overrides (cap_id c) = Some True
     | _ \<Rightarrow> False)"
  by (auto simp: compose_capability_def Let_def split: option.splits cap_state.splits)

lemma compose_quals:
  assumes "cap_state c = Some Supported" "wf_quals q"
  shows "dget (cap_quals (compose_capability overrides q c)) key =
    (case first_some (\<lambda>a. dget (dgetd q a []) key) (ancestors (cap_id c)) of
       None \<Rightarrow> dget (dupdate [] (cap_quals c)) key
     | Some v \<Rightarrow> Some v)"
  using assms
  by (auto simp: compose_capability_def Let_def dget_dupdate distinct_resolve_qualifiers
      dget_resolve_qualifiers)

lemma dget_new_capabilities:
  "dget (fold (\<lambda>cap d. dput d (cap_id cap) cap) caps d) cid =
    (case filter (\<lambda>c. cap_id c = cid) (rev caps) of [] \<Rightarrow> dget d cid | c # _ \<Rightarrow> Some c)"
  by (induction caps rule: rev_induct) (auto split: list.splits)

lemma new_capabilities_get:
  assumes "distinct (map cap_id caps)" "c \<in> set caps"
  shows "dget (new_capabilities caps) (cap_id c) = Some c"
proof -
  have "filter (\<lambda>c'. cap_id c' = cap_id c) (rev caps) = [c]"
    using assms by (induction caps) (force simp: filter_empty_conv image_iff)+
  then show ?thesis by (simp add: new_capabilities_def dget_new_capabilities)
qed

lemma all_leaves: "list_all (\<lambda>cid. leaves_under cid = [cid]) CAPABILITY_IDS"
  by code_simp

lemma leaves_under_leaf: "cid \<in> set CAPABILITY_IDS \<Longrightarrow> leaves_under cid = [cid]"
  using all_leaves by (simp add: list_all_iff)

lemma node_qual_leaf:
  "cid \<in> set CAPABILITY_IDS \<Longrightarrow> dget by_id cid = Some c \<Longrightarrow>
    node_qual by_id cid key = dget (cap_quals c) key"
  by (simp add: node_qual_def leaves_under_leaf split: option.splits)

lemma set_qualifier_states [simp]: "v_states (set_qualifier v node key val) = v_states v"
  by (simp add: set_qualifier_def Let_def)

lemma set_qualifier_get:
  "dget (dgetd (v_quals (set_qualifier v node key val)) a []) k =
    (if a = node \<and> k = key then Some val else dget (dgetd (v_quals v) a []) k)"
  by (auto simp: set_qualifier_def Let_def dgetd_def split: option.splits)

lemma set_qualifier_wf: "wf_quals (v_quals v) \<Longrightarrow> wf_quals (v_quals (set_qualifier v node key val))"
  by (auto simp: set_qualifier_def Let_def dsetdefault_def intro!: wf_quals_put wf_quals_get)

lemma first_some_split:
  assumes "g \<in> set as" "f g = Some y" "list_all (\<lambda>a. f a = None) (takeWhile (\<lambda>a. a \<noteq> g) as)"
  shows "first_some f as = Some y"
proof -
  have "as = takeWhile (\<lambda>a. a \<noteq> g) as @ dropWhile (\<lambda>a. a \<noteq> g) as" by simp
  moreover from assms(1) have "dropWhile (\<lambda>a. a \<noteq> g) as = g # tl (dropWhile (\<lambda>a. a \<noteq> g) as)"
    by (induction as) auto
  moreover from assms(3) have "first_some f (takeWhile (\<lambda>a. a \<noteq> g) as) = None"
    by (auto simp: first_some_None list_all_iff)
  ultimately show ?thesis
    using assms(2) by (metis first_some.simps(2) first_some_append option.simps(4,5))
qed

text \<open>The key and the text a typed setter writes.\<close>

fun fact_key :: "fact \<Rightarrow> string" where
  "fact_key (MultiTenant b) = QUAL_MULTI_TENANT"
| "fact_key (Tiered b) = QUAL_TIERED"
| "fact_key (ByteGranularity i) = QUAL_BYTE_GRANULARITY"
| "fact_key (Inodes b) = QUAL_INODES"
| "fact_key (IdAssignment a) = QUAL_ID_ASSIGNMENT"
| "fact_key (MultiPathBinding b) = QUAL_MULTI_PATH_BINDING"
| "fact_key (Accounting a) = QUAL_ACCOUNTING"
| "fact_key (DefaultUserSlot b) = QUAL_DEFAULT_USER_SLOT"

fun fact_text :: "fact \<Rightarrow> string" where
  "fact_text (ByteGranularity i) = int_str i"
| "fact_text (IdAssignment a) = a"
| "fact_text (Accounting a) = a"
| "fact_text (MultiTenant b) = flag_text b"
| "fact_text (Tiered b) = flag_text b"
| "fact_text (Inodes b) = flag_text b"
| "fact_text (MultiPathBinding b) = flag_text b"
| "fact_text (DefaultUserSlot b) = flag_text b"

lemma directory_setter:
  "DirectoryQuotaImplCaps v node f = Some v' \<Longrightarrow> v' = set_qualifier v node (fact_key f) (fact_text f)"
  by (cases f) (auto simp: DirectoryQuotaImplCaps_def)

lemma flag_text_true [simp]: "flag_text b = ''true'' \<longleftrightarrow> b"
  by (simp add: flag_text_def)

text \<open>What the typed getter for a fact returns at a node.\<close>

definition reads_back :: "cap_dict \<Rightarrow> string \<Rightarrow> fact \<Rightarrow> bool" where
  "reads_back by_id node f =
    (case f of
       MultiTenant b \<Rightarrow> multi_tenant by_id node = b
     | Tiered b \<Rightarrow> tiered by_id node = b
     | ByteGranularity i \<Rightarrow> byte_granularity by_id node = i
     | Inodes b \<Rightarrow> inodes by_id node = b
     | IdAssignment a \<Rightarrow> id_assignment by_id node = Some a
     | MultiPathBinding b \<Rightarrow> multi_path_binding by_id node = b
     | Accounting a \<Rightarrow> accounting by_id node = Some a
     | DefaultUserSlot b \<Rightarrow> default_user_slot by_id node = b)"

lemma reads_back_text:
  "node_qual by_id node (fact_key f) = Some (fact_text f) \<Longrightarrow> reads_back by_id node f"
  by (cases f) (auto simp: reads_back_def multi_tenant_def tiered_def byte_granularity_def inodes_def
      id_assignment_def multi_path_binding_def accounting_def default_user_slot_def node_bool_def
      node_int_def py_int_int_str)

section \<open>Properties\<close>

text \<open>C23. A lookup through the groups answers with the most specific entry: the override of a
  surface, its runtime state and each of its qualifiers are those of the innermost among the
  surface's id and its dotted groups that has one.\<close>

theorem most_specific_entry_wins:
  assumes "wf_quals qmap"
  shows "resolve_override overrides cid = first_some (dget overrides) (ancestors cid)
    \<and> resolve_state states cid = first_some (dget states) (ancestors cid)
    \<and> dget (resolve_qualifiers qmap cid) key =
        first_some (\<lambda>a. dget (dgetd qmap a []) key) (ancestors cid)"
  using dget_resolve_qualifiers [OF assms]
  by (simp add: ov.resolve_ancestors st.resolve_ancestors)

definition demo_quals :: qual_map where
  "demo_quals = [(''quota'', [(''inodes'', ''false''), (''byteGranularity'', ''4096'')]),
     (''quota.user'', [(''inodes'', ''true'')])]"

theorem most_specific_entry_wins_witness:
  "dget (resolve_qualifiers demo_quals CAP_USER_QUOTA_SET) QUAL_INODES = Some ''true''"
proof -
  have "wf_quals demo_quals" by code_simp
  moreover have "first_some (\<lambda>a. dget (dgetd demo_quals a []) QUAL_INODES)
      (ancestors CAP_USER_QUOTA_SET) = Some ''true''" by code_simp
  ultimately show ?thesis
    using most_specific_entry_wins [of demo_quals "[]" CAP_USER_QUOTA_SET "[]" QUAL_INODES] by simp
qed

text \<open>Narrowing by runtime states keeps every surface and its qualifiers, leaves each at the
  more restrictive of its state and the most specific state asked for it, and a second narrowing
  changes nothing: a hook can withdraw a surface and never bring one back.\<close>

theorem narrowing_only_restricts:
  "map cap_id (narrow_states caps states) = map cap_id caps
    \<and> map cap_quals (narrow_states caps states) = map cap_quals caps
    \<and> map (\<lambda>c. state_rank (or_unimplemented (cap_state c))) (narrow_states caps states)
        = map (\<lambda>c. max (state_rank (or_unimplemented (cap_state c)))
            (case first_some (dget states) (ancestors (cap_id c)) of
               None \<Rightarrow> 0 | Some want \<Rightarrow> state_rank want)) caps
    \<and> narrow_states (narrow_states caps states) states = narrow_states caps states"
  by (simp add: narrow_states_map comp_def narrow_rank narrow_twice st.resolve_ancestors)

text \<open>A fact the author sets with a typed setter on a node of the directory-quota group is read
  back by the typed getter at every supported leaf below that node, through composition and
  narrowing, unless a node between the leaf and it sets the same fact; numbers and booleans
  survive their text form.\<close>

theorem group_fact_reaches_leaf:
  assumes "DirectoryQuotaImplCaps v g f = Some v'"
    and "cid \<in> set CAPABILITY_IDS" and "g \<in> set (ancestors cid)"
    and "c \<in> set declared" and "cap_id c = cid" and "cap_state c = Some Supported"
    and "distinct (map cap_id declared)" and "wf_quals (v_quals v)"
    and "list_all (\<lambda>a. dget (dgetd (v_quals v) a []) (fact_key f) = None)
      (takeWhile (\<lambda>a. a \<noteq> g) (ancestors cid))"
  shows "reads_back (new_capabilities
      (narrow_states (compose_capabilities declared overrides (v_quals v')) states)) cid f"
proof (rule reads_back_text)
  let ?caps = "narrow_states (compose_capabilities declared overrides (v_quals v')) states"
  let ?c = "narrow_capability states (compose_capability overrides (v_quals v') c)"
  have v': "v' = set_qualifier v g (fact_key f) (fact_text f)" by (rule directory_setter [OF assms(1)])
  have "map cap_id ?caps = map cap_id declared"
    by (simp add: narrow_states_map compose_capabilities_def comp_def)
  then have "distinct (map cap_id ?caps)" using assms(7) by simp
  moreover have "?c \<in> set ?caps"
    using assms(4) by (simp add: narrow_states_map compose_capabilities_def)
  ultimately have get: "dget (new_capabilities ?caps) cid = Some ?c"
    using new_capabilities_get assms(5) by fastforce
  have "first_some (\<lambda>a. dget (dgetd (v_quals v') a []) (fact_key f)) (ancestors cid) = Some (fact_text f)"
    using assms(3,9)
    by (intro first_some_split) (auto simp: v' set_qualifier_get list_all_iff dest: set_takeWhileD)
  then have "dget (cap_quals ?c) (fact_key f) = Some (fact_text f)"
    using compose_quals [OF assms(6), of "v_quals v'" overrides] set_qualifier_wf [OF assms(8)]
    by (simp add: v' assms(5))
  then show "node_qual (new_capabilities ?caps) cid (fact_key f) = Some (fact_text f)"
    by (simp add: node_qual_leaf [OF assms(2) get])
qed

definition demo_cap :: capability where
  "demo_cap = \<lparr>cap_id = CAP_DIRECTORY_QUOTA_SET, cap_state = Some Supported, cap_quals = []\<rparr>"

definition demo_view :: impl_view where
  "demo_view = set_qualifier new_view CAP_GROUP_QUOTA QUAL_INODES ''false''"

theorem group_fact_reaches_leaf_witness:
  "reads_back (new_capabilities (narrow_states (compose_capabilities [demo_cap] []
     (v_quals (set_qualifier demo_view CAP_GROUP_DIRECTORY_QUOTA QUAL_BYTE_GRANULARITY (int_str 4096))))
     [])) CAP_DIRECTORY_QUOTA_SET (ByteGranularity 4096)"
proof (rule group_fact_reaches_leaf)
  show "DirectoryQuotaImplCaps demo_view CAP_GROUP_DIRECTORY_QUOTA (ByteGranularity 4096) =
      Some (set_qualifier demo_view CAP_GROUP_DIRECTORY_QUOTA QUAL_BYTE_GRANULARITY (int_str 4096))"
    by (simp add: DirectoryQuotaImplCaps_def)
  show "CAP_DIRECTORY_QUOTA_SET \<in> set CAPABILITY_IDS" by (simp add: CAPABILITY_IDS_def)
  show "CAP_GROUP_DIRECTORY_QUOTA \<in> set (ancestors CAP_DIRECTORY_QUOTA_SET)" by code_simp
  show "demo_cap \<in> set [demo_cap]" "cap_id demo_cap = CAP_DIRECTORY_QUOTA_SET"
    "cap_state demo_cap = Some Supported" "distinct (map cap_id [demo_cap])"
    by (simp_all add: demo_cap_def)
  show "wf_quals (v_quals demo_view)" by code_simp
  show "list_all (\<lambda>a. dget (dgetd (v_quals demo_view) a []) (fact_key (ByteGranularity 4096)) = None)
      (takeWhile (\<lambda>a. a \<noteq> CAP_GROUP_DIRECTORY_QUOTA) (ancestors CAP_DIRECTORY_QUOTA_SET))"
    by code_simp
qed

end
