(* ===== verification/Storage_Api.thy ===== *)
theory Storage_Api
  imports Storage_Capabilities Py_Repr
begin

text \<open>
  \<open>isvtest.core.storage_provider.api\<close>: the value types, the requests and errors of the
  storage contract, the default methods of \<open>StorageProvider\<close>, and the composition of a
  served provider from an author's \<open>Implementation\<close>.

  A method call takes the backend's state and returns an error or a reply, and the new
  state. A class that overrides methods is the dictionary of the methods it overrides,
  keyed by method name, as Python's class dictionary is; a body is any function of the
  request and the state. A served provider is its properties, its health check and its
  answer to each request. The tenant of a quota record may be missing, as the code that
  fills it allows, although its annotation says \<open>str\<close>. Times are seconds.
\<close>

section \<open>Values\<close>

record tenant =
  t_id :: string
  t_name :: "string option"
  t_attributes :: "(string \<times> string) list"

record tenant_quota =
  tq_tenant_id :: string
  tq_hard_limit_bytes :: int
  tq_used_bytes :: int
  tq_name :: string
  tq_tier :: "string option"
  tq_id :: string

record quota_limits =
  ql_bytes :: "int option"
  ql_inodes :: "int option"

record quota_usage =
  qu_bytes :: "int option"
  qu_inodes :: "int option"

definition no_usage :: quota_usage where
  "no_usage = \<lparr>qu_bytes = None, qu_inodes = None\<rparr>"

record version_metadata =
  vm_vendor_name :: string
  vm_vendor_docs :: string
  vm_name :: string
  vm_version :: string
  vm_description :: string

record provider_properties =
  pp_provider_namespace :: string
  pp_provider_id :: string
  pp_provider_metadata :: version_metadata
  pp_sdk_version :: string
  pp_storage_type :: string
  pp_storage_protocols :: "string list"
  pp_instance_id :: string
  pp_backend_metadata :: "version_metadata option"
  pp_kubernetes_storage_classes :: "string list"
  pp_capability_list :: "capability list"
  pp_attributes :: "(string \<times> string) list"

definition API_VERSION :: string where "API_VERSION = ''v1alpha1''"
definition DEFAULT_INSTANCE_ID :: string where "DEFAULT_INSTANCE_ID = ''default''"

definition instance_or_default :: "string \<Rightarrow> string" where
  "instance_or_default instance_id = (if instance_id = [] then DEFAULT_INSTANCE_ID else instance_id)"

definition capabilities_of :: "provider_properties \<Rightarrow> cap_dict" where
  "capabilities_of props = new_capabilities (pp_capability_list props)"

record directory_quota =
  dq_tenant_id :: "string option"
  dq_volume_id :: string
  dq_path :: "string option"
  dq_id :: "string option"
  dq_hard :: "quota_limits option"
  dq_usage :: quota_usage
  dq_attributes :: "(string \<times> string) list"

record user_quota =
  uq_tenant_id :: "string option"
  uq_volume_id :: string
  uq_user :: "string option"
  uq_hard :: "quota_limits option"
  uq_usage :: quota_usage
  uq_attributes :: "(string \<times> string) list"

record mount_spec =
  mt_fs_type :: string
  mt_source :: string
  mt_options :: "string option"

record csi_spec =
  csi_driver :: string
  csi_volume_handle :: string
  csi_fs_type :: "string option"
  csi_volume_attributes :: "(string \<times> string) list"

datatype volume_type = Block | File
datatype volume_state = Creating | Available | Failed | Deleting

record volume =
  vol_tenant_id :: string
  vol_id :: string
  vol_size_bytes :: int
  vol_created_at :: int
  vol_type :: volume_type
  vol_state :: volume_state
  vol_name :: "string option"
  vol_mount :: "mount_spec option"
  vol_csi :: "csi_spec option"
  vol_tier :: "string option"
  vol_tags :: "(string \<times> string) list"
  vol_attributes :: "(string \<times> string) list"
  vol_used_bytes :: "int option"
  vol_available_bytes :: "int option"
  vol_used_inodes :: "int option"
  vol_available_inodes :: "int option"

record tag_filter =
  tf_key :: string
  tf_values :: "string list"

section \<open>Requests, replies and errors\<close>

record list_tenants_request =
  lt_ids :: "string list"

record get_tenant_request =
  gt_tenant_id :: "string option"

record get_tenant_quota_request =
  gq_tenant_id :: "string option"
  gq_tier :: "string option"
  gq_id :: "string option"

record list_tenant_quotas_request =
  ltq_tenant_id :: "string option"

record create_volume_request =
  cv_size_bytes :: int
  cv_volume_type :: volume_type
  cv_tenant_id :: "string option"
  cv_name :: "string option"
  cv_tier :: "string option"
  cv_tags :: "(string \<times> string) list option"

record delete_volume_request =
  dv_volume_id :: string
  dv_tenant_id :: "string option"

record list_volumes_request =
  lv_tenant_id :: "string option"
  lv_ids :: "string list"
  lv_tag_filters :: "tag_filter list"

record get_volume_request =
  gv_volume_id :: string
  gv_tenant_id :: "string option"

record list_directory_quotas_request =
  ldq_volume_id :: string
  ldq_tenant_id :: "string option"

record get_directory_quota_request =
  gdq_volume_id :: string
  gdq_tenant_id :: "string option"
  gdq_path :: "string option"
  gdq_id :: "string option"

record set_directory_quota_request =
  sdq_quota :: directory_quota

record delete_directory_quota_request =
  ddq_volume_id :: string
  ddq_tenant_id :: "string option"
  ddq_path :: "string option"
  ddq_id :: "string option"

record list_user_quotas_request =
  luq_volume_id :: string
  luq_tenant_id :: "string option"

record get_user_quota_request =
  guq_volume_id :: string
  guq_tenant_id :: "string option"
  guq_user :: "string option"

record set_user_quota_request =
  suq_quota :: user_quota

record delete_user_quota_request =
  duq_volume_id :: string
  duq_tenant_id :: "string option"
  duq_user :: "string option"

text \<open>A call of one of the sixteen methods of the contract, and what it may return.\<close>

datatype request =
    ListTenants list_tenants_request
  | GetTenant get_tenant_request
  | GetTenantQuota get_tenant_quota_request
  | ListTenantQuotas list_tenant_quotas_request
  | CreateVolume create_volume_request
  | DeleteVolume delete_volume_request
  | ListVolumes list_volumes_request
  | GetVolume get_volume_request
  | ListDirectoryQuotas list_directory_quotas_request
  | GetDirectoryQuota get_directory_quota_request
  | SetDirectoryQuota set_directory_quota_request
  | DeleteDirectoryQuota delete_directory_quota_request
  | ListUserQuotas list_user_quotas_request
  | GetUserQuota get_user_quota_request
  | SetUserQuota set_user_quota_request
  | DeleteUserQuota delete_user_quota_request

datatype reply =
    Tenants "tenant list"
  | TenantReply tenant
  | TenantQuotaReply tenant_quota
  | TenantQuotas "tenant_quota list"
  | VolumeReply volume
  | Volumes "volume list"
  | DirectoryQuotas "directory_quota list"
  | DirectoryQuotaReply directory_quota
  | UserQuotas "user_quota list"
  | UserQuotaReply user_quota
  | NoReply

datatype storage_error =
    AuthenticationError string
  | NotFoundError string
  | NotSupportedError string
  | QuotaExceededError string
  | ValidationError string
  | ConflictError string
  | UnavailableError string
  | PythonError string

type_synonym ('s, 'a) effect = "'s \<Rightarrow> (storage_error + 'a) \<times> 's"

definition raises :: "storage_error \<Rightarrow> ('s, 'a) effect" where
  "raises e s = (Inl e, s)"

text \<open>Reading the list of a response that has no such field is an \<open>AttributeError\<close>.\<close>

definition wrong_reply :: storage_error where
  "wrong_reply = PythonError ''AttributeError''"

definition repr_opt :: "string option \<Rightarrow> string" where
  "repr_opt v = (case v of None \<Rightarrow> ''None'' | Some t \<Rightarrow> repr_str t)"

section \<open>The default methods\<close>

text \<open>The methods by name, as the class dictionary has them.\<close>

fun method_name :: "request \<Rightarrow> string" where
  "method_name (ListTenants r) = ''list_tenants''"
| "method_name (GetTenant r) = ''get_tenant''"
| "method_name (GetTenantQuota r) = ''get_tenant_quota''"
| "method_name (ListTenantQuotas r) = ''list_tenant_quotas''"
| "method_name (CreateVolume r) = ''create_volume''"
| "method_name (DeleteVolume r) = ''delete_volume''"
| "method_name (ListVolumes r) = ''list_volumes''"
| "method_name (GetVolume r) = ''get_volume''"
| "method_name (ListDirectoryQuotas r) = ''list_directory_quotas''"
| "method_name (GetDirectoryQuota r) = ''get_directory_quota''"
| "method_name (SetDirectoryQuota r) = ''set_directory_quota''"
| "method_name (DeleteDirectoryQuota r) = ''delete_directory_quota''"
| "method_name (ListUserQuotas r) = ''list_user_quotas''"
| "method_name (GetUserQuota r) = ''get_user_quota''"
| "method_name (SetUserQuota r) = ''set_user_quota''"
| "method_name (DeleteUserQuota r) = ''delete_user_quota''"

definition not_implemented :: "request \<Rightarrow> storage_error" where
  "not_implemented rq = NotSupportedError (method_name rq @ '' not implemented by this backend'')"

definition get_tenant :: "(request \<Rightarrow> ('s, reply) effect) \<Rightarrow> get_tenant_request \<Rightarrow> ('s, reply) effect" where
  "get_tenant self req s =
    (case self (ListTenants \<lparr>lt_ids = (case gt_tenant_id req of None \<Rightarrow> [] | Some t \<Rightarrow> [t])\<rparr>) s of
       (Inl e, s') \<Rightarrow> (Inl e, s')
     | (Inr (Tenants tenants), s') \<Rightarrow>
         ((case gt_tenant_id req of
             None \<Rightarrow> (if length tenants = 1 then Inr (TenantReply (hd tenants))
               else Inl (ValidationError
                 (''get_tenant requires an explicit tenant_id when the backend exposes ''
                  @ nat_str (length tenants)
                  @ '' tenants; override get_tenant to resolve the configured default'')))
           | Some tid \<Rightarrow> (case find (\<lambda>t. t_id t = tid) tenants of
               Some t \<Rightarrow> Inr (TenantReply t)
             | None \<Rightarrow> Inl (NotFoundError (''tenant '' @ repr_str tid @ '' not found'')))), s')
     | (Inr _, s') \<Rightarrow> (Inl wrong_reply, s'))"

definition get_volume :: "(request \<Rightarrow> ('s, reply) effect) \<Rightarrow> get_volume_request \<Rightarrow> ('s, reply) effect" where
  "get_volume self req s =
    (case self (ListVolumes \<lparr>lv_tenant_id = gv_tenant_id req, lv_ids = [gv_volume_id req],
         lv_tag_filters = []\<rparr>) s of
       (Inl e, s') \<Rightarrow> (Inl e, s')
     | (Inr (Volumes vols), s') \<Rightarrow>
         ((case find (\<lambda>v. vol_id v = gv_volume_id req) vols of
             Some v \<Rightarrow> Inr (VolumeReply v)
           | None \<Rightarrow> Inl (NotFoundError (''volume '' @ repr_str (gv_volume_id req) @ '' not found''))), s')
     | (Inr _, s') \<Rightarrow> (Inl wrong_reply, s'))"

record directory_quota_match =
  dm_full :: "directory_quota option"
  dm_partial :: "directory_quota option"

text \<open>\<open>path is None or q.path == path\<close>.\<close>

definition key_agrees :: "string option \<Rightarrow> string option \<Rightarrow> bool" where
  "key_agrees wanted actual \<longleftrightarrow> wanted = None \<or> actual = wanted"

fun match_quotas ::
  "string option \<Rightarrow> string option \<Rightarrow> directory_quota option \<Rightarrow> directory_quota list
    \<Rightarrow> directory_quota_match" where
  "match_quotas path i partial [] = \<lparr>dm_full = None, dm_partial = partial\<rparr>"
| "match_quotas path i partial (q # qs) =
    (if key_agrees path (dq_path q) \<and> key_agrees i (dq_id q)
     then \<lparr>dm_full = Some q, dm_partial = partial\<rparr>
     else match_quotas path i
       (if path \<noteq> None \<and> i \<noteq> None \<and> (dq_path q = path \<or> dq_id q = i) then Some q else partial) qs)"

definition match_directory_quota ::
  "directory_quota list \<Rightarrow> string option \<Rightarrow> string option \<Rightarrow> directory_quota_match" where
  "match_directory_quota quotas path i = match_quotas path i None quotas"

definition get_directory_quota ::
  "(request \<Rightarrow> ('s, reply) effect) \<Rightarrow> get_directory_quota_request \<Rightarrow> ('s, reply) effect" where
  "get_directory_quota self req s =
    (if gdq_path req = None \<and> gdq_id req = None
     then (Inl (ValidationError ''get_directory_quota requires at least one of `path` or `id`''), s)
     else case self (ListDirectoryQuotas
           \<lparr>ldq_volume_id = gdq_volume_id req, ldq_tenant_id = gdq_tenant_id req\<rparr>) s of
       (Inl e, s') \<Rightarrow> (Inl e, s')
     | (Inr (DirectoryQuotas quotas), s') \<Rightarrow>
         (let match = match_directory_quota quotas (gdq_path req) (gdq_id req)
          in (case dm_full match of
                Some q \<Rightarrow> Inr (DirectoryQuotaReply q)
              | None \<Rightarrow> (case dm_partial match of
                  Some p \<Rightarrow> Inl (ConflictError (''directory quota lookup mismatch: requested path=''
                    @ repr_opt (gdq_path req) @ '', id='' @ repr_opt (gdq_id req) @ ''; found path=''
                    @ repr_opt (dq_path p) @ '', id='' @ repr_opt (dq_id p)))
                | None \<Rightarrow> Inl (NotFoundError (''directory quota not found (volume_id=''
                    @ repr_str (gdq_volume_id req) @ '', path='' @ repr_opt (gdq_path req) @ '', id=''
                    @ repr_opt (gdq_id req) @ '')'')))), s')
     | (Inr _, s') \<Rightarrow> (Inl wrong_reply, s'))"

definition get_user_quota ::
  "(request \<Rightarrow> ('s, reply) effect) \<Rightarrow> get_user_quota_request \<Rightarrow> ('s, reply) effect" where
  "get_user_quota self req s =
    (case self (ListUserQuotas \<lparr>luq_volume_id = guq_volume_id req,
         luq_tenant_id = guq_tenant_id req\<rparr>) s of
       (Inl e, s') \<Rightarrow> (Inl e, s')
     | (Inr (UserQuotas quotas), s') \<Rightarrow>
         ((case find (\<lambda>q. uq_user q = guq_user req) quotas of
             Some q \<Rightarrow> Inr (UserQuotaReply q)
           | None \<Rightarrow> Inl (NotFoundError (''user quota not found (volume_id=''
               @ repr_str (guq_volume_id req) @ '', user='' @ repr_opt (guq_user req) @ '')''))), s')
     | (Inr _, s') \<Rightarrow> (Inl wrong_reply, s'))"

section \<open>Implementations\<close>

record 's implementation =
  i_methods :: "(string \<times> (request \<Rightarrow> ('s, reply) effect)) list"
  i_health_check :: "('s, unit) effect"
  i_capability_qualifiers :: "impl_view \<Rightarrow> impl_view"
  i_backend_metadata :: "version_metadata option"

text \<open>A method that is overridden, or the raise of the base class.\<close>

definition own_call :: "'s implementation \<Rightarrow> request \<Rightarrow> ('s, reply) effect" where
  "own_call impl rq = (case dget (i_methods impl) (method_name rq) of
     Some body \<Rightarrow> body rq
   | None \<Rightarrow> raises (not_implemented rq))"

text \<open>A method of the object: the override, the delegating default of a single-record getter,
  or the raise.\<close>

definition impl_call :: "'s implementation \<Rightarrow> request \<Rightarrow> ('s, reply) effect" where
  "impl_call impl rq = (case dget (i_methods impl) (method_name rq) of
     Some body \<Rightarrow> body rq
   | None \<Rightarrow> (case rq of
       GetTenant r \<Rightarrow> get_tenant (own_call impl) r
     | GetVolume r \<Rightarrow> get_volume (own_call impl) r
     | GetDirectoryQuota r \<Rightarrow> get_directory_quota (own_call impl) r
     | GetUserQuota r \<Rightarrow> get_user_quota (own_call impl) r
     | _ \<Rightarrow> raises (not_implemented rq)))"

definition CAPABILITY_METHODS :: "(string \<times> string list) list" where
  "CAPABILITY_METHODS =
    [(CAP_TENANT_LIST, [''list_tenants'']),
     (CAP_TENANT_GET, [''get_tenant'', ''list_tenants'']),
     (CAP_TENANT_GET_QUOTA, [''get_tenant_quota'']),
     (CAP_TENANT_LIST_QUOTAS, [''list_tenant_quotas'']),
     (CAP_VOLUME_LIST, [''list_volumes'']),
     (CAP_VOLUME_GET, [''get_volume'', ''list_volumes'']),
     (CAP_VOLUME_CREATE, [''create_volume'']),
     (CAP_VOLUME_DELETE, [''delete_volume'']),
     (CAP_DIRECTORY_QUOTA_LIST, [''list_directory_quotas'']),
     (CAP_DIRECTORY_QUOTA_GET, [''get_directory_quota'', ''list_directory_quotas'']),
     (CAP_DIRECTORY_QUOTA_SET, [''set_directory_quota'']),
     (CAP_DIRECTORY_QUOTA_DELETE, [''delete_directory_quota'']),
     (CAP_USER_QUOTA_LIST, [''list_user_quotas'']),
     (CAP_USER_QUOTA_GET, [''get_user_quota'', ''list_user_quotas'']),
     (CAP_USER_QUOTA_SET, [''set_user_quota'']),
     (CAP_USER_QUOTA_DELETE, [''delete_user_quota''])]"

definition implements :: "'s implementation \<Rightarrow> string \<Rightarrow> bool" where
  "implements impl m \<longleftrightarrow> dhas (i_methods impl) m"

definition detect_capability :: "'s implementation \<Rightarrow> string \<Rightarrow> capability" where
  "detect_capability impl cid =
    (let served = list_ex (implements impl) (dgetd CAPABILITY_METHODS cid [])
     in \<lparr>cap_id = cid, cap_state = Some (if served then Supported else Unimplemented),
         cap_quals = []\<rparr>)"

definition detect_capabilities :: "'s implementation \<Rightarrow> capability list" where
  "detect_capabilities impl = map (detect_capability impl) CAPABILITY_IDS"

section \<open>The served provider\<close>

definition gate_error :: "string \<Rightarrow> cap_state option \<Rightarrow> storage_error" where
  "gate_error cid state =
    (if state = Some Unavailable then UnavailableError (cid @ '' is currently unavailable'')
     else if state = Some Disabled then NotSupportedError (cid @ '' is disabled by configuration'')
     else NotSupportedError (cid @ '' is not implemented by this backend''))"

text \<open>\<open>self._gate(cid)\<close> before the rest of a method.\<close>

definition gated ::
  "(string \<times> cap_state option) list \<Rightarrow> string \<Rightarrow> ('s, 'a) effect \<Rightarrow> ('s, 'a) effect" where
  "gated states cid body s =
    (let state = dgetd states cid None
     in if state = Some Supported then body s else (Inl (gate_error cid state), s))"

text \<open>A call whose result is dropped.\<close>

definition no_reply :: "('s, reply) effect \<Rightarrow> ('s, reply) effect" where
  "no_reply body s = (case body s of (Inl e, s') \<Rightarrow> (Inl e, s') | (Inr _, s') \<Rightarrow> (Inr NoReply, s'))"

fun served_call ::
  "(string \<times> cap_state option) list \<Rightarrow> (request \<Rightarrow> ('s, reply) effect) \<Rightarrow> request
    \<Rightarrow> ('s, reply) effect" where
  "served_call states impl (ListTenants r) = gated states CAP_TENANT_LIST (impl (ListTenants r))"
| "served_call states impl (GetTenant r) = gated states CAP_TENANT_GET (impl (GetTenant r))"
| "served_call states impl (GetTenantQuota r) =
     gated states CAP_TENANT_GET_QUOTA (impl (GetTenantQuota r))"
| "served_call states impl (ListTenantQuotas r) =
     gated states CAP_TENANT_LIST_QUOTAS (impl (ListTenantQuotas r))"
| "served_call states impl (CreateVolume r) = gated states CAP_VOLUME_CREATE (impl (CreateVolume r))"
| "served_call states impl (DeleteVolume r) =
     gated states CAP_VOLUME_DELETE (no_reply (impl (DeleteVolume r)))"
| "served_call states impl (ListVolumes r) = gated states CAP_VOLUME_LIST (impl (ListVolumes r))"
| "served_call states impl (GetVolume r) = gated states CAP_VOLUME_GET (impl (GetVolume r))"
| "served_call states impl (ListDirectoryQuotas r) =
     gated states CAP_DIRECTORY_QUOTA_LIST (impl (ListDirectoryQuotas r))"
| "served_call states impl (GetDirectoryQuota r) =
     gated states CAP_DIRECTORY_QUOTA_GET (impl (GetDirectoryQuota r))"
| "served_call states impl (SetDirectoryQuota r) =
     gated states CAP_DIRECTORY_QUOTA_SET (impl (SetDirectoryQuota r))"
| "served_call states impl (DeleteDirectoryQuota r) =
     gated states CAP_DIRECTORY_QUOTA_DELETE (no_reply (impl (DeleteDirectoryQuota r)))"
| "served_call states impl (ListUserQuotas r) =
     gated states CAP_USER_QUOTA_LIST (impl (ListUserQuotas r))"
| "served_call states impl (GetUserQuota r) = gated states CAP_USER_QUOTA_GET (impl (GetUserQuota r))"
| "served_call states impl (SetUserQuota r) = gated states CAP_USER_QUOTA_SET (impl (SetUserQuota r))"
| "served_call states impl (DeleteUserQuota r) =
     gated states CAP_USER_QUOTA_DELETE (no_reply (impl (DeleteUserQuota r)))"

record 's provider =
  p_properties :: provider_properties
  p_health_check :: "('s, unit) effect"
  p_call :: "request \<Rightarrow> ('s, reply) effect"

definition state_dict :: "capability list \<Rightarrow> (string \<times> cap_state option) list" where
  "state_dict caps = fold (\<lambda>cap d. dput d (cap_id cap) (cap_state cap)) caps []"

definition served_provider ::
  "'s implementation \<Rightarrow> provider_properties \<Rightarrow> capability list \<Rightarrow> 's provider" where
  "served_provider impl props caps =
    \<lparr>p_properties = props, p_health_check = i_health_check impl,
     p_call = served_call (state_dict caps) (impl_call impl)\<rparr>"

section \<open>The default tenant\<close>

definition or_tenant :: "string option \<Rightarrow> string \<Rightarrow> string option" where
  "or_tenant t default_tenant = (if t = None then Some default_tenant else t)"

text \<open>A quota record counts as naming no tenant when its tenant is empty, too.\<close>

definition or_quota_tenant :: "string option \<Rightarrow> string \<Rightarrow> string option" where
  "or_quota_tenant t default_tenant = (if t \<in> {None, Some []} then Some default_tenant else t)"

fun with_default_tenant_req :: "request \<Rightarrow> string \<Rightarrow> request" where
  "with_default_tenant_req (ListTenants r) d = ListTenants r"
| "with_default_tenant_req (GetTenant r) d =
     GetTenant (r\<lparr>gt_tenant_id := or_tenant (gt_tenant_id r) d\<rparr>)"
| "with_default_tenant_req (GetTenantQuota r) d =
     GetTenantQuota (r\<lparr>gq_tenant_id := or_tenant (gq_tenant_id r) d\<rparr>)"
| "with_default_tenant_req (ListTenantQuotas r) d =
     ListTenantQuotas (r\<lparr>ltq_tenant_id := or_tenant (ltq_tenant_id r) d\<rparr>)"
| "with_default_tenant_req (CreateVolume r) d =
     CreateVolume (r\<lparr>cv_tenant_id := or_tenant (cv_tenant_id r) d\<rparr>)"
| "with_default_tenant_req (DeleteVolume r) d =
     DeleteVolume (r\<lparr>dv_tenant_id := or_tenant (dv_tenant_id r) d\<rparr>)"
| "with_default_tenant_req (ListVolumes r) d =
     ListVolumes (r\<lparr>lv_tenant_id := or_tenant (lv_tenant_id r) d\<rparr>)"
| "with_default_tenant_req (GetVolume r) d =
     GetVolume (r\<lparr>gv_tenant_id := or_tenant (gv_tenant_id r) d\<rparr>)"
| "with_default_tenant_req (ListDirectoryQuotas r) d =
     ListDirectoryQuotas (r\<lparr>ldq_tenant_id := or_tenant (ldq_tenant_id r) d\<rparr>)"
| "with_default_tenant_req (GetDirectoryQuota r) d =
     GetDirectoryQuota (r\<lparr>gdq_tenant_id := or_tenant (gdq_tenant_id r) d\<rparr>)"
| "with_default_tenant_req (SetDirectoryQuota r) d =
     SetDirectoryQuota (r\<lparr>sdq_quota := (sdq_quota r)
       \<lparr>dq_tenant_id := or_quota_tenant (dq_tenant_id (sdq_quota r)) d\<rparr>\<rparr>)"
| "with_default_tenant_req (DeleteDirectoryQuota r) d =
     DeleteDirectoryQuota (r\<lparr>ddq_tenant_id := or_tenant (ddq_tenant_id r) d\<rparr>)"
| "with_default_tenant_req (ListUserQuotas r) d =
     ListUserQuotas (r\<lparr>luq_tenant_id := or_tenant (luq_tenant_id r) d\<rparr>)"
| "with_default_tenant_req (GetUserQuota r) d =
     GetUserQuota (r\<lparr>guq_tenant_id := or_tenant (guq_tenant_id r) d\<rparr>)"
| "with_default_tenant_req (SetUserQuota r) d =
     SetUserQuota (r\<lparr>suq_quota := (suq_quota r)
       \<lparr>uq_tenant_id := or_quota_tenant (uq_tenant_id (suq_quota r)) d\<rparr>\<rparr>)"
| "with_default_tenant_req (DeleteUserQuota r) d =
     DeleteUserQuota (r\<lparr>duq_tenant_id := or_tenant (duq_tenant_id r) d\<rparr>)"

fun is_delete :: "request \<Rightarrow> bool" where
  "is_delete (DeleteVolume r) = True"
| "is_delete (DeleteDirectoryQuota r) = True"
| "is_delete (DeleteUserQuota r) = True"
| "is_delete _ = False"

text \<open>\<open>_DefaultTenantApi\<close>: the request with its tenant filled in goes to the wrapped provider; a
  delete returns nothing.\<close>

definition default_tenant_call ::
  "(request \<Rightarrow> ('s, reply) effect) \<Rightarrow> string \<Rightarrow> request \<Rightarrow> ('s, reply) effect" where
  "default_tenant_call inner d rq =
    (if is_delete rq then no_reply (inner (with_default_tenant_req rq d))
     else inner (with_default_tenant_req rq d))"

definition with_default_tenant :: "'s provider \<Rightarrow> string \<Rightarrow> 's provider" where
  "with_default_tenant api d =
    (if d = [] then api else api\<lparr>p_call := default_tenant_call (p_call api) d\<rparr>)"

definition effective_capabilities ::
  "'s implementation \<Rightarrow> (string \<times> bool) list \<Rightarrow> capability list" where
  "effective_capabilities impl overrides =
    (let detected = detect_capabilities impl;
         view = i_capability_qualifiers impl new_view;
         composed = compose_capabilities detected overrides (v_quals view)
     in narrow_states composed (v_states view))"

definition new_implementation ::
  "provider_properties \<Rightarrow> 's implementation \<Rightarrow> (string \<times> bool) list \<Rightarrow> string \<Rightarrow> 's provider" where
  "new_implementation core impl overrides default_tenant =
    (let narrowed = effective_capabilities impl overrides;
         props = core\<lparr>pp_instance_id := instance_or_default (pp_instance_id core),
           pp_capability_list := narrowed, pp_backend_metadata := i_backend_metadata impl\<rparr>
     in with_default_tenant (served_provider impl props narrowed) default_tenant)"

section \<open>The capability of a call\<close>

fun surface :: "request \<Rightarrow> string" where
  "surface (ListTenants r) = CAP_TENANT_LIST"
| "surface (GetTenant r) = CAP_TENANT_GET"
| "surface (GetTenantQuota r) = CAP_TENANT_GET_QUOTA"
| "surface (ListTenantQuotas r) = CAP_TENANT_LIST_QUOTAS"
| "surface (CreateVolume r) = CAP_VOLUME_CREATE"
| "surface (DeleteVolume r) = CAP_VOLUME_DELETE"
| "surface (ListVolumes r) = CAP_VOLUME_LIST"
| "surface (GetVolume r) = CAP_VOLUME_GET"
| "surface (ListDirectoryQuotas r) = CAP_DIRECTORY_QUOTA_LIST"
| "surface (GetDirectoryQuota r) = CAP_DIRECTORY_QUOTA_GET"
| "surface (SetDirectoryQuota r) = CAP_DIRECTORY_QUOTA_SET"
| "surface (DeleteDirectoryQuota r) = CAP_DIRECTORY_QUOTA_DELETE"
| "surface (ListUserQuotas r) = CAP_USER_QUOTA_LIST"
| "surface (GetUserQuota r) = CAP_USER_QUOTA_GET"
| "surface (SetUserQuota r) = CAP_USER_QUOTA_SET"
| "surface (DeleteUserQuota r) = CAP_USER_QUOTA_DELETE"

definition answered :: "(request \<Rightarrow> ('s, reply) effect) \<Rightarrow> request \<Rightarrow> ('s, reply) effect" where
  "answered impl rq = (if is_delete rq then no_reply (impl rq) else impl rq)"

lemma surface_registered: "surface rq \<in> set CAPABILITY_IDS"
  by (cases rq) (simp_all add: CAPABILITY_IDS_def)

lemma served_call_gated: "served_call states impl rq = gated states (surface rq) (answered impl rq)"
  by (cases rq) (simp_all add: answered_def)

lemma surface_default [simp]: "surface (with_default_tenant_req rq d) = surface rq"
  by (cases rq) simp_all

lemma is_delete_default [simp]: "is_delete (with_default_tenant_req rq d) = is_delete rq"
  by (cases rq) simp_all

lemma no_reply_twice: "no_reply (no_reply body) = no_reply body"
  by (auto simp: no_reply_def fun_eq_iff split: prod.splits sum.splits)

lemma no_reply_gated: "no_reply (gated states cid body) = gated states cid (no_reply body)"
  by (auto simp: no_reply_def gated_def Let_def fun_eq_iff split: prod.splits sum.splits)

lemma default_tenant_served:
  "default_tenant_call (served_call states impl) d rq =
    gated states (surface rq) (answered impl (with_default_tenant_req rq d))"
  by (simp add: default_tenant_call_def served_call_gated answered_def no_reply_gated no_reply_twice)

section \<open>Effective states\<close>

definition surface_state :: "'s implementation \<Rightarrow> (string \<times> bool) list \<Rightarrow> string \<Rightarrow> cap_state" where
  "surface_state impl overrides cid =
    or_unimplemented (cap_state (narrow_capability (v_states (i_capability_qualifiers impl new_view))
      (compose_capability overrides (v_quals (i_capability_qualifiers impl new_view))
        (detect_capability impl cid))))"

lemma detect_id [simp]: "cap_id (detect_capability impl cid) = cid"
  by (simp add: detect_capability_def Let_def)

lemma detect_state: "cap_state (detect_capability impl cid) =
    Some (if list_ex (implements impl) (dgetd CAPABILITY_METHODS cid []) then Supported else Unimplemented)"
  by (simp add: detect_capability_def Let_def)

lemma compose_state_known: "cap_state c \<noteq> None \<Longrightarrow> cap_state (compose_capability ov q c) \<noteq> None"
  by (simp add: compose_capability_def Let_def)

lemma narrow_state_known: "cap_state c \<noteq> None \<Longrightarrow> cap_state (narrow_capability st c) \<noteq> None"
  by (auto simp: narrow_capability_def split: option.splits)

lemma effective_map:
  "effective_capabilities impl overrides =
    map (\<lambda>cid. narrow_capability (v_states (i_capability_qualifiers impl new_view))
      (compose_capability overrides (v_quals (i_capability_qualifiers impl new_view))
        (detect_capability impl cid))) CAPABILITY_IDS"
  by (simp add: effective_capabilities_def Let_def narrow_states_map compose_capabilities_def
      detect_capabilities_def comp_def)

lemma known_state: "s \<noteq> None \<Longrightarrow> s = Some (or_unimplemented s)"
  by (auto simp: or_unimplemented_def)

lemma effective_state:
  "cap_state (narrow_capability (v_states (i_capability_qualifiers impl new_view))
      (compose_capability overrides (v_quals (i_capability_qualifiers impl new_view))
        (detect_capability impl cid))) = Some (surface_state impl overrides cid)"
  unfolding surface_state_def
  by (intro known_state narrow_state_known compose_state_known) (simp add: detect_state)

lemma dict_of_list_get:
  assumes "\<And>i. cap_id (g i) = i" "cid \<in> set ids"
  shows "dget (fold (\<lambda>c d. dput d (cap_id c) (h c)) (map g ids) e) cid = Some (h (g cid))"
proof -
  have "fold (\<lambda>c d. dput d (cap_id c) (h c)) (map g ids) e
      = fold (\<lambda>(k, v) s. dput s k v) (map (\<lambda>i. (i, h (g i))) ids) e"
    using assms(1) by (induction ids arbitrary: e) auto
  then show ?thesis
    using assms(2) by (simp add: pd.get_puts rev_map map_of_map_restrict restrict_map_def)
qed

lemma state_dict_effective:
  "cid \<in> set CAPABILITY_IDS \<Longrightarrow>
    dgetd (state_dict (effective_capabilities impl overrides)) cid None
      = Some (surface_state impl overrides cid)"
  unfolding state_dict_def effective_map dgetd_def
  by (subst dict_of_list_get) (simp_all add: effective_state)

lemma advertised_effective:
  "cid \<in> set CAPABILITY_IDS \<Longrightarrow>
    node_state (new_capabilities (effective_capabilities impl overrides)) cid
      = surface_state impl overrides cid"
  unfolding new_capabilities_def effective_map node_state_def
  by (subst dict_of_list_get [where h = "\<lambda>c. c"]) (simp_all add: effective_state or_unimplemented_def)

lemma new_implementation_caps:
  "capabilities_of (p_properties (new_implementation core impl overrides d)) =
    new_capabilities (effective_capabilities impl overrides)"
  by (simp add: new_implementation_def Let_def with_default_tenant_def served_provider_def
      capabilities_of_def)

lemma new_implementation_call:
  "p_call (new_implementation core impl overrides d) rq =
    gated (state_dict (effective_capabilities impl overrides)) (surface rq)
      (answered (impl_call impl) (if d = [] then rq else with_default_tenant_req rq d))"
  by (simp add: new_implementation_def Let_def with_default_tenant_def served_provider_def
      default_tenant_served served_call_gated)

lemma surface_state_supported:
  "surface_state impl overrides cid = Supported \<longleftrightarrow>
    list_ex (implements impl) (dgetd CAPABILITY_METHODS cid [])
    \<and> resolve_override overrides cid \<noteq> Some False
    \<and> resolve_state (v_states (i_capability_qualifiers impl new_view)) cid \<in> {None, Some Supported}"
proof -
  let ?c = "compose_capability overrides (v_quals (i_capability_qualifiers impl new_view))
    (detect_capability impl cid)"
  let ?s = "resolve_state (v_states (i_capability_qualifiers impl new_view)) cid"
  have "surface_state impl overrides cid = Supported \<longleftrightarrow>
      state_rank (or_unimplemented (cap_state ?c)) = 0 \<and> (case ?s of None \<Rightarrow> 0 | Some w \<Rightarrow> state_rank w) = 0"
    using narrow_rank [of "v_states (i_capability_qualifiers impl new_view)" ?c]
      state_rank_inj [of "surface_state impl overrides cid" Supported]
    by (simp add: surface_state_def)
  moreover have "(case ?s of None \<Rightarrow> 0 | Some w \<Rightarrow> state_rank w) = 0 \<longleftrightarrow> ?s \<in> {None, Some Supported}"
    using state_rank_inj [of _ Supported] by (auto split: option.splits)
  moreover have "state_rank (or_unimplemented (cap_state ?c)) = 0 \<longleftrightarrow>
      list_ex (implements impl) (dgetd CAPABILITY_METHODS cid []) \<and> resolve_override overrides cid \<noteq> Some False"
    by (simp add: supported_rank [symmetric] compose_supported detect_state)
  ultimately show ?thesis by simp
qed

section \<open>Runs\<close>

text \<open>The states a provider's backend goes through, one allowed call after the other.\<close>

inductive serves :: "'s provider \<Rightarrow> (request \<Rightarrow> bool) \<Rightarrow> 's \<Rightarrow> 's \<Rightarrow> bool"
  for api allowed s where
  start: "serves api allowed s s"
| call: "serves api allowed s t \<Longrightarrow> allowed rq \<Longrightarrow> serves api allowed s (snd (p_call api rq t))"

inductive_cases servesE: "serves api allowed s t"

text \<open>What every method of the implementation keeps, every run of the composed provider keeps.\<close>

lemma new_implementation_state:
  assumes "I s" and "\<And>rq s. allowed rq \<Longrightarrow> I s \<Longrightarrow> I (snd (impl_call impl rq s))"
    and "\<And>rq. allowed rq \<Longrightarrow> allowed (with_default_tenant_req rq d)" and "allowed rq"
  shows "I (snd (p_call (new_implementation core impl overrides d) rq s))"
  using assms
  by (auto simp: new_implementation_call gated_def answered_def no_reply_def Let_def
      split: prod.splits sum.splits) (metis snd_conv)+

lemma serves_keeps:
  assumes "serves (new_implementation core impl overrides d) allowed s t" and "I s"
    and "\<And>rq s. allowed rq \<Longrightarrow> I s \<Longrightarrow> I (snd (impl_call impl rq s))"
    and "\<And>rq. allowed rq \<Longrightarrow> allowed (with_default_tenant_req rq d)"
  shows "I t"
  using assms(1)
  by (induction rule: serves.induct) (auto intro: assms new_implementation_state)

section \<open>Properties\<close>

text \<open>C22. A call of the served provider reaches the implementation exactly when its surface is
  advertised as supported, with the request as it came or with the default tenant filled in;
  otherwise it raises the error of the advertised state, and the backend's state does not change.\<close>

theorem gate_matches_advertisement:
  "p_call (new_implementation core impl overrides d) rq s =
    (let st = node_state (capabilities_of (p_properties (new_implementation core impl overrides d)))
           (surface rq);
         rq' = (if d = [] then rq else with_default_tenant_req rq d)
     in if st = Supported
        then (if is_delete rq then no_reply (impl_call impl rq') s else impl_call impl rq' s)
        else (Inl (gate_error (surface rq) (Some st)), s))"
  by (simp add: new_implementation_call new_implementation_caps gated_def answered_def Let_def
      state_dict_effective advertised_effective surface_registered)

text \<open>A surface is advertised as supported exactly when the implementation overrides one of the
  methods that back it, the most specific configuration override does not turn it off, and the
  most specific runtime state the author's hook sets, if any, is supported: nothing resurrects a
  surface without code behind it.\<close>

theorem supported_exactly_when:
  "is_supported (capabilities_of (p_properties (new_implementation core impl overrides d))) (surface rq)
    \<longleftrightarrow> list_ex (implements impl) (dgetd CAPABILITY_METHODS (surface rq) [])
      \<and> first_some (dget overrides) (ancestors (surface rq)) \<noteq> Some False
      \<and> first_some (dget (v_states (i_capability_qualifiers impl new_view))) (ancestors (surface rq))
          \<in> {None, Some Supported}"
  by (simp add: is_supported_def new_implementation_caps advertised_effective surface_registered
      surface_state_supported ov.resolve_ancestors st.resolve_ancestors)

end
