(* ===== verification/Validation_Core.thy ===== *)
theory Validation_Core
  imports Pytest_Bridge
begin

text \<open>
  \<open>isvtest.core.validation\<close>, \<open>isvtest.core.composite\<close>, the generic checks of
  \<open>isvtest.validations.generic\<close> and the test function of \<open>tests/test_validations.py\<close>: what a
  check is, how it is executed, and how a composite assembles one verdict from its members.

  A check's \<open>run()\<close> is a function of its configuration and of the verdict so far. It finishes,
  raises \<open>pytest.skip\<close>, or raises an exception, with the verdict at that point. The text of
  an exception is the parameter \<open>et\<close>, the text of a float the parameter \<open>fr\<close>. Durations are
  zero, logging and the live report of subtests to pytest are left out. The registry of check
  classes is a parameter: a list of names and \<open>run\<close> methods.
\<close>

section \<open>Verdicts\<close>

datatype exn =
    NoAttribute pval string
  | NotAContainer pval
  | Unhashable pval
  | NotIterable pval
  | NotSliceable pval
  | JoinItem nat pval
  | CheckError string
  | ValueError string
  | KeyError string
  | NotSubscriptable pval string
  | NoLength pval

record verdict =
  vd_passed :: bool
  vd_output :: pval
  vd_error :: string
  vd_subtests :: "subtest list"

definition fresh_verdict :: verdict where
  "fresh_verdict = \<lparr>vd_passed = False, vd_output = PStr [], vd_error = [], vd_subtests = []\<rparr>"

datatype ran =
    Finished verdict
  | SkipRaised string
  | ExnRaised exn verdict

definition set_passed :: "verdict \<Rightarrow> pval \<Rightarrow> verdict" where
  "set_passed v message =
    (if truthy message then v\<lparr>vd_passed := True, vd_output := message\<rparr> else v\<lparr>vd_passed := True\<rparr>)"

definition set_failed :: "verdict \<Rightarrow> string \<Rightarrow> verdict" where
  "set_failed v err = v\<lparr>vd_passed := False, vd_error := err\<rparr>"

text \<open>A skipped subtest is never a passed one.\<close>

definition report_subtest :: "verdict \<Rightarrow> string \<Rightarrow> bool \<Rightarrow> string \<Rightarrow> bool \<Rightarrow> verdict" where
  "report_subtest v name passed message skipped =
    v\<lparr>vd_subtests := vd_subtests v @
      [\<lparr>t_name = name, t_passed = (if skipped then False else passed), t_skipped = skipped,
        t_message = message, t_duration = 0\<rparr>]\<rparr>"

section \<open>Python values in checks\<close>

definition cget :: "dict \<Rightarrow> string \<Rightarrow> pval \<Rightarrow> pval" where
  "cget cfg k dflt = (case sget cfg k of None \<Rightarrow> dflt | Some v \<Rightarrow> v)"

text \<open>\<open>x or y\<close>, and \<open>d.get(k)\<close>.\<close>

definition py_or :: "pval \<Rightarrow> pval \<Rightarrow> pval" where
  "py_or x y = (if truthy x then x else y)"

abbreviation field_of :: "dict \<Rightarrow> string \<Rightarrow> pval" where
  "field_of d k \<equiv> cget d k PNone"

text \<open>\<open>v.get(k, default)\<close>.\<close>

fun attr_get :: "pval \<Rightarrow> string \<Rightarrow> pval \<Rightarrow> exn + pval" where
  "attr_get (PDict d) k dflt = Inr (cget d k dflt)"
| "attr_get v k dflt = Inl (NoAttribute v ''get'')"

fun py_number :: "pval \<Rightarrow> rat option" where
  "py_number (PBool b) = Some (if b then 1 else 0)"
| "py_number (PInt i) = Some (of_int i)"
| "py_number (PFloat r) = Some r"
| "py_number _ = None"

text \<open>\<open>==\<close>: numbers by value, the rest by type and contents, dictionaries whatever their order.\<close>

fun py_eq :: "pval \<Rightarrow> pval \<Rightarrow> bool"
  and py_eq_list :: "pval list \<Rightarrow> pval list \<Rightarrow> bool"
  and py_eq_dict :: "(pkey \<times> pval) list \<Rightarrow> dict \<Rightarrow> bool" where
  "py_eq (PStr s) w = (w = PStr s)"
| "py_eq PNone w = (w = PNone)"
| "py_eq (PBool b) w = (py_number w = Some (if b then 1 else 0))"
| "py_eq (PInt i) w = (py_number w = Some (of_int i))"
| "py_eq (PFloat r) w = (py_number w = Some r)"
| "py_eq (PList xs) w = (case w of PList ys \<Rightarrow> py_eq_list xs ys | _ \<Rightarrow> False)"
| "py_eq (PDict d) w = (case w of PDict e \<Rightarrow> length d = length e \<and> py_eq_dict d e | _ \<Rightarrow> False)"
| "py_eq_list [] ys = (ys = [])"
| "py_eq_list (x # xs) ys = (case ys of [] \<Rightarrow> False | y # ys' \<Rightarrow> py_eq x y \<and> py_eq_list xs ys')"
| "py_eq_dict [] e = True"
| "py_eq_dict ((k, v) # d) e = (case dget e k of None \<Rightarrow> False | Some w \<Rightarrow> py_eq v w \<and> py_eq_dict d e)"

text \<open>The key a value is in a dictionary; \<open>Inl\<close> when it has no hash. No key here is a float.\<close>

fun key_of :: "pval \<Rightarrow> exn + pkey option" where
  "key_of (PStr s) = Inr (Some (KStr s))"
| "key_of (PInt i) = Inr (Some (KInt i))"
| "key_of (PBool b) = Inr (Some (KBool b))"
| "key_of PNone = Inr (Some KNone)"
| "key_of (PFloat r) = Inr None"
| "key_of v = Inl (Unhashable v)"

fun pval_of_key :: "pkey \<Rightarrow> pval" where
  "pval_of_key (KStr s) = PStr s"
| "pval_of_key (KInt i) = PInt i"
| "pval_of_key (KBool b) = PBool b"
| "pval_of_key KNone = PNone"

text \<open>\<open>x in container\<close>.\<close>

fun py_in :: "pval \<Rightarrow> pval \<Rightarrow> exn + bool" where
  "py_in x (PDict d) = (case key_of x of
     Inl e \<Rightarrow> Inl e | Inr None \<Rightarrow> Inr False | Inr (Some k) \<Rightarrow> Inr (dhas d k))"
| "py_in x (PList ys) = Inr (list_ex (py_eq x) ys)"
| "py_in (PStr t) (PStr s) = Inr (contains_text t s)"
| "py_in x v = Inl (NotAContainer v)"

fun py_iter :: "pval \<Rightarrow> exn + pval list" where
  "py_iter (PList xs) = Inr xs"
| "py_iter (PStr s) = Inr (map (\<lambda>c. PStr [c]) s)"
| "py_iter (PDict d) = Inr (map pval_of_key (dkeys d))"
| "py_iter v = Inl (NotIterable v)"

text \<open>\<open>', '.join(xs)\<close>: an element that is no string raises.\<close>

fun join_items :: "nat \<Rightarrow> pval list \<Rightarrow> exn + string list" where
  "join_items n [] = Inr []"
| "join_items n (PStr s # xs) = (case join_items (Suc n) xs of Inl e \<Rightarrow> Inl e | Inr ss \<Rightarrow> Inr (s # ss))"
| "join_items n (x # xs) = Inl (JoinItem n x)"

definition comma_join :: "pval list \<Rightarrow> exn + string" where
  "comma_join xs = (case join_items 0 xs of Inl e \<Rightarrow> Inl e | Inr ss \<Rightarrow> Inr (join '', '' ss))"

text \<open>\<open>v[:500]\<close>.\<close>

fun first_500 :: "pval \<Rightarrow> exn + pval" where
  "first_500 (PStr s) = Inr (PStr (take 500 s))"
| "first_500 (PList xs) = Inr (PList (take 500 xs))"
| "first_500 v = Inl (NotSliceable v)"

fun type_name :: "pval \<Rightarrow> string" where
  "type_name PNone = ''NoneType''"
| "type_name (PBool b) = ''bool''"
| "type_name (PInt i) = ''int''"
| "type_name (PFloat r) = ''float''"
| "type_name (PStr s) = ''str''"
| "type_name (PList xs) = ''list''"
| "type_name (PDict d) = ''dict''"

text \<open>\<open>int(raw)\<close> of any value: a float loses its fraction, \<open>None\<close> is \<open>TypeError\<close> or \<open>ValueError\<close>.\<close>

fun int_of :: "pval \<Rightarrow> int option" where
  "int_of (PInt i) = Some i"
| "int_of (PBool b) = Some (if b then 1 else 0)"
| "int_of (PFloat r) = Some (if r < 0 then \<lceil>r\<rceil> else \<lfloor>r\<rfloor>)"
| "int_of (PStr s) = py_int s"
| "int_of _ = None"

definition parse_positive_int ::
  "(rat \<Rightarrow> string) \<Rightarrow> dict \<Rightarrow> string \<Rightarrow> int \<Rightarrow> verdict \<Rightarrow> int option \<times> verdict" where
  "parse_positive_int fr cfg key dflt v =
    (let raw = cget cfg key (PInt dflt)
     in case raw of
       PBool b \<Rightarrow> (None, set_failed v (''`'' @ key @ ''` must be an integer, got bool: '' @ py_repr fr raw))
     | _ \<Rightarrow> (case int_of raw of
         None \<Rightarrow> (None, set_failed v (''`'' @ key @ ''` must be an integer, got '' @ type_name raw
           @ '': '' @ py_repr fr raw))
       | Some i \<Rightarrow> if i < 1
           then (None, set_failed v (key @ '' must be >= 1 (got '' @ int_str i @ '')''))
           else (Some i, v)))"

section \<open>Required tests\<close>

text \<open>One required entry: its subtest, and what it adds to the failed and to the skipped list.\<close>

definition required_test ::
  "(rat \<Rightarrow> string) \<Rightarrow> dict \<Rightarrow> pval \<Rightarrow> verdict \<Rightarrow> exn + verdict \<times> string list \<times> string list" where
  "required_test fr tests test_name v =
    (case key_of test_name of
       Inl e \<Rightarrow> Inl e
     | Inr k \<Rightarrow>
        (let name = py_str fr test_name;
             test_result = (case k of None \<Rightarrow> PDict [] | Some key \<Rightarrow> dgetd tests key (PDict []))
         in case test_result of
           PDict r \<Rightarrow>
             if cget r ''skipped'' PNone = PBool True
             then (let reason = py_str fr
                     (if truthy (cget r ''skip_reason'' PNone) then cget r ''skip_reason'' PNone
                      else if truthy (cget r ''message'' PNone) then cget r ''message'' PNone
                      else PStr ''skipped'')
                   in Inr (report_subtest v name False reason True, [], [name @ '': '' @ reason]))
             else if \<not> truthy (cget r ''passed'' PNone)
             then (let err = py_str fr (cget r ''error'' (PStr ''test not found''))
                   in Inr (report_subtest v name False err False, [name @ '': '' @ err], []))
             else Inr (report_subtest v name True (py_str fr (cget r ''message'' (PStr []))) False, [], [])
         | w \<Rightarrow> Inl (NoAttribute w ''get'')))"

fun required_loop ::
  "(rat \<Rightarrow> string) \<Rightarrow> dict \<Rightarrow> pval list \<Rightarrow> verdict \<Rightarrow> string list \<Rightarrow> string list
    \<Rightarrow> exn \<times> verdict + verdict \<times> string list \<times> string list" where
  "required_loop fr tests [] v failed skipped = Inr (v, failed, skipped)"
| "required_loop fr tests (t # ts) v failed skipped =
     (case required_test fr tests t v of
        Inl e \<Rightarrow> Inl (e, v)
      | Inr (v', f, s) \<Rightarrow> required_loop fr tests ts v' (failed @ f) (skipped @ s))"

text \<open>\<open>Inl\<close> is the end of the check; \<open>Inr\<close> goes on with the returned verdict.\<close>

definition check_required_tests ::
  "(rat \<Rightarrow> string) \<Rightarrow> dict \<Rightarrow> pval list \<Rightarrow> string \<Rightarrow> string \<Rightarrow> verdict \<Rightarrow> ran + verdict" where
  "check_required_tests fr cfg required fail_label key v =
    (case attr_get (cget cfg ''step_output'' (PDict [])) key (PDict []) of
       Inl e \<Rightarrow> Inl (ExnRaised e v)
     | Inr tests \<Rightarrow>
        if \<not> truthy tests then Inl (Finished (set_failed v (''No '' @ quoted key @ '' in step output'')))
        else (case tests of
          PDict d \<Rightarrow>
            (case required_loop fr d required v [] [] of
               Inl (e, v') \<Rightarrow> Inl (ExnRaised e v')
             | Inr (v', failed, skipped) \<Rightarrow>
                 if failed \<noteq> [] then Inl (Finished (set_failed v' (fail_label @ '': '' @ join ''; '' failed)))
                 else if skipped \<noteq> []
                 then Inl (SkipRaised (''Required test(s) skipped: '' @ join ''; '' skipped))
                 else Inr v')
        | w \<Rightarrow> (case required of [] \<Rightarrow> Inr v | _ \<Rightarrow> Inl (ExnRaised (NoAttribute w ''get'') v))))"

section \<open>Generic checks\<close>

text \<open>The names that are not in the container; the first failing test of membership raises.\<close>

fun missing_items :: "pval list \<Rightarrow> pval \<Rightarrow> exn + pval list" where
  "missing_items [] container = Inr []"
| "missing_items (f # fs) container = (case py_in f container of
     Inl e \<Rightarrow> Inl e
   | Inr found \<Rightarrow> (case missing_items fs container of
       Inl e \<Rightarrow> Inl e
     | Inr ms \<Rightarrow> Inr (if found then ms else f # ms)))"

definition field_exists_check :: "dict \<Rightarrow> verdict \<Rightarrow> ran" where
  "field_exists_check cfg v =
    (let step_output = cget cfg ''step_output'' (PDict []);
         fields = cget cfg ''fields'' (PList []);
         single = cget cfg ''field'' PNone;
         fields' = (if truthy single \<and> \<not> truthy fields then PList [single] else fields)
     in if \<not> truthy fields' then Finished (set_failed v (''No '' @ quoted ''fields'' @ '' or '' @ quoted ''field'' @ '' specified''))
        else (case py_iter fields' of
          Inl e \<Rightarrow> ExnRaised e v
        | Inr names \<Rightarrow> (case missing_items names step_output of
            Inl e \<Rightarrow> ExnRaised e v
          | Inr missing \<Rightarrow>
              if missing \<noteq> [] then (case comma_join missing of
                  Inl e \<Rightarrow> ExnRaised e v
                | Inr t \<Rightarrow> Finished (set_failed v (''Missing fields: '' @ t)))
              else (case comma_join names of
                  Inl e \<Rightarrow> ExnRaised e v
                | Inr t \<Rightarrow> Finished (set_passed v (PStr (''All required fields present: '' @ t)))))))"

definition step_success_check :: "(rat \<Rightarrow> string) \<Rightarrow> dict \<Rightarrow> verdict \<Rightarrow> ran" where
  "step_success_check fr cfg v =
    (case cget cfg ''step_output'' (PDict []) of
       PDict so \<Rightarrow>
        (let success = cget so ''success'' PNone; status = cget so ''status'' PNone
         in if success = PBool True
            then Finished (set_passed v (cget so ''message'' (PStr ''Step completed successfully'')))
            else if success = PBool False
            then (let error_type = cget so ''error_type'' (PStr []);
                      err = py_str fr (cget so ''error'' (cget so ''message'' (PStr ''Unknown error'')))
                  in Finished (set_failed v (if truthy error_type
                       then ''Step failed ['' @ py_str fr error_type @ '']: '' @ err
                       else ''Step failed: '' @ err)))
            else if status = PStr ''passed''
            then Finished (set_passed v (cget so ''message'' (PStr ''Step completed successfully'')))
            else if status = PStr ''skipped'' then Finished (set_passed v (PStr ''Step skipped''))
            else if truthy status
            then (case first_500 (cget so ''error'' (cget so ''logs'' (PStr []))) of
                Inl e \<Rightarrow> ExnRaised e v
              | Inr err \<Rightarrow> Finished (set_failed v (if truthy err then ''Step failed: '' @ py_str fr err
                  else ''Step failed'')))
            else Finished (set_failed v (''No '' @ quoted ''success'' @ '' or '' @ quoted ''status''
              @ '' in step output'')))
     | w \<Rightarrow> ExnRaised (NoAttribute w ''get'') v)"

definition crud_operations_check :: "(rat \<Rightarrow> string) \<Rightarrow> dict \<Rightarrow> verdict \<Rightarrow> ran" where
  "crud_operations_check fr cfg v =
    (case attr_get (cget cfg ''step_output'' (PDict [])) ''operations'' PNone of
       Inl e \<Rightarrow> ExnRaised e v
     | Inr ops \<Rightarrow>
        if \<not> is_dict ops
        then Finished (set_failed v (''No '' @ quoted ''operations'' @ '' dict in step output''))
        else (let expected = cget cfg ''operations'' PNone
              in if \<not> truthy expected
                 then Finished (set_failed v ''`operations` must list the operation names to check'')
                 else (case py_iter expected of
                   Inl e \<Rightarrow> ExnRaised e v
                 | Inr names \<Rightarrow>
                    (case check_required_tests fr cfg names ''CRUD operations failed'' ''operations'' v of
                       Inl r \<Rightarrow> r
                     | Inr v' \<Rightarrow> (case comma_join names of
                         Inl e \<Rightarrow> ExnRaised e v'
                       | Inr t \<Rightarrow> Finished (set_passed v'
                           (PStr (''All CRUD operations passed: '' @ t))))))))"

section \<open>Execution\<close>

type_synonym check = "dict \<Rightarrow> verdict \<Rightarrow> ran"

datatype executed =
    Result verdict "ErrorReason option"
  | SkippedTest string

text \<open>The reason of a step output that says it was skipped.\<close>

definition skip_marked :: "(rat \<Rightarrow> string) \<Rightarrow> string \<Rightarrow> dict \<Rightarrow> string option" where
  "skip_marked fr name cfg = (case sget cfg ''step_output'' of
     Some (PDict so) \<Rightarrow>
       (if sget so ''skipped'' = Some (PBool True)
        then Some (if truthy (cget so ''skip_reason'' PNone) then py_str fr (cget so ''skip_reason'' PNone)
          else name @ '' skipped'')
        else None)
   | _ \<Rightarrow> None)"

text \<open>\<open>except Exception\<close> does not catch \<open>pytest.skip\<close>, which is no \<open>Exception\<close>.\<close>

definition execute ::
  "(exn \<Rightarrow> string) \<Rightarrow> (rat \<Rightarrow> string) \<Rightarrow> string \<Rightarrow> check \<Rightarrow> dict \<Rightarrow> executed" where
  "execute et fr name run cfg =
    (case skip_marked fr name cfg of
       Some reason \<Rightarrow> SkippedTest reason
     | None \<Rightarrow> (case run cfg fresh_verdict of
         Finished v \<Rightarrow> Result v None
       | SkipRaised reason \<Rightarrow> SkippedTest reason
       | ExnRaised e v \<Rightarrow> Result (set_failed v (''Validation raised exception: '' @ et e))
           (Some RUNTIME_EXCEPTION)))"

section \<open>Composites\<close>

definition COMPOSE_KEY :: string where "COMPOSE_KEY = ''compose''"

definition WIRING_KEYS :: "string list" where
  "WIRING_KEYS = [COMPOSE_KEY, ''test_id'', ''labels'', ''description'']"

fun member_of :: "pval \<Rightarrow> (string \<times> dict) list" where
  "member_of (PStr s) = (if s = [] then [] else [(s, [])])"
| "member_of (PDict d) =
     map (\<lambda>(name, params). (key_text name, case params of PDict p \<Rightarrow> p | _ \<Rightarrow> [])) d"
| "member_of _ = []"

fun composed_members :: "pval \<Rightarrow> (string \<times> dict) list" where
  "composed_members (PList items) = concat (map member_of items)"
| "composed_members _ = []"

text \<open>The outcome of one member: unknown, skipped, or executed.\<close>

datatype member_outcome =
    UnknownClass
  | MemberSkipped string
  | MemberRan verdict

definition run_member ::
  "(exn \<Rightarrow> string) \<Rightarrow> (rat \<Rightarrow> string) \<Rightarrow> (string \<times> check) list \<Rightarrow> dict \<Rightarrow> string \<times> dict
    \<Rightarrow> member_outcome" where
  "run_member et fr classes shared member =
    (case dget classes (fst member) of
       None \<Rightarrow> UnknownClass
     | Some run \<Rightarrow> (case execute et fr (fst member) run (dupdate shared (snd member)) of
         SkippedTest reason \<Rightarrow> MemberSkipped reason
       | Result v _ \<Rightarrow> MemberRan v))"

record tally =
  ty_outputs :: "string list"
  ty_failures :: "string list"
  ty_skips :: "string list"

definition count_member ::
  "(rat \<Rightarrow> string) \<Rightarrow> string \<Rightarrow> member_outcome \<Rightarrow> verdict \<times> tally \<Rightarrow> verdict \<times> tally" where
  "count_member fr name out vt =
    (let (v, t) = vt in
     case out of
       UnknownClass \<Rightarrow> (report_subtest v name False ''unknown validation class'' False,
         t\<lparr>ty_failures := ty_failures t @ [name @ '': unknown validation class'']\<rparr>)
     | MemberSkipped reason \<Rightarrow> (report_subtest v name False reason True,
         t\<lparr>ty_skips := ty_skips t @ [name @ '': '' @ reason]\<rparr>)
     | MemberRan m \<Rightarrow>
         (let message = (if vd_passed m then vd_output m else PStr (vd_error m));
              v' = report_subtest v name (vd_passed m) (py_str fr message) False
          in if vd_passed m
             then (v', t\<lparr>ty_outputs := ty_outputs t
                 @ [if truthy message then name @ '': '' @ py_str fr message else name]\<rparr>)
             else (v', t\<lparr>ty_failures := ty_failures t @ [name @ '': '' @ py_str fr message]\<rparr>)))"

definition composite_check ::
  "(exn \<Rightarrow> string) \<Rightarrow> (rat \<Rightarrow> string) \<Rightarrow> (string \<times> check) list \<Rightarrow> check" where
  "composite_check et fr classes cfg v =
    (let raw = cget cfg COMPOSE_KEY PNone;
         members = composed_members raw
     in if members = [] then Finished (set_failed v (quoted COMPOSE_KEY @ '' must be a non-empty list of check names''))
        else (case raw of
          PList items \<Rightarrow>
            if length members \<noteq> length items
            then Finished (set_failed v (quoted COMPOSE_KEY @ '' has ''
              @ int_str (int (length items) - int (length members)) @ '' malformed member(s); ''
              @ ''each must be '' @ quoted ''CheckName'' @ '' or '' @ quoted ''CheckName: {params}''))
            else
             (let shared = filter (\<lambda>(k, x). k \<notin> KStr ` set WIRING_KEYS) cfg;
                  (v', t) = fold (\<lambda>m. count_member fr (fst m) (run_member et fr classes shared m)) members
                    (v, \<lparr>ty_outputs = [], ty_failures = [], ty_skips = []\<rparr>)
              in if ty_failures t \<noteq> [] then Finished (set_failed v' (join ''; '' (ty_failures t)))
                 else if ty_skips t \<noteq> [] then SkipRaised (join ''; '' (ty_skips t))
                 else Finished (set_passed v' (PStr (join ''; '' (ty_outputs t)))))
        | _ \<Rightarrow> Finished v))"

section \<open>The test function\<close>

definition resolve_validation_class ::
  "(exn \<Rightarrow> string) \<Rightarrow> (rat \<Rightarrow> string) \<Rightarrow> (string \<times> check) list \<Rightarrow> string \<Rightarrow> dict \<Rightarrow> check option" where
  "resolve_validation_class et fr classes name cfg =
    (if is_composite (PDict cfg) then Some (composite_check et fr classes)
     else (case resolve_class_key name (map fst classes) of
       None \<Rightarrow> None
     | Some key \<Rightarrow> dget classes key))"

datatype test_outcome = TestPassed | TestFailed | TestSkipped

definition test_validation ::
  "(exn \<Rightarrow> string) \<Rightarrow> (rat \<Rightarrow> string) \<Rightarrow> check \<Rightarrow> dict \<Rightarrow> string \<Rightarrow> raw_result \<times> test_outcome" where
  "test_validation et fr run cfg name =
    (case execute et fr name run cfg of
       SkippedTest reason \<Rightarrow>
         (\<lparr>q_name = name, q_passed = True, q_skipped = True, q_message = reason, q_duration = 0,
           q_error_reason = None, q_subtests = None\<rparr>, TestSkipped)
     | Result v reason \<Rightarrow>
         (\<lparr>q_name = name, q_passed = vd_passed v, q_skipped = False,
           q_message = (if vd_passed v then py_str fr (vd_output v) else vd_error v), q_duration = 0,
           q_error_reason = map_option error_value reason,
           q_subtests = Some (count_outcomes \<lparr>s_passed = 0, s_failed = 0, s_skipped = 0\<rparr> (vd_subtests v))\<rparr>,
          if vd_passed v then TestPassed else TestFailed))"

section \<open>What a composite reports\<close>

fun out_failed :: "member_outcome \<Rightarrow> bool" where
  "out_failed UnknownClass = True"
| "out_failed (MemberSkipped r) = False"
| "out_failed (MemberRan m) = (\<not> vd_passed m)"

fun out_skipped :: "member_outcome \<Rightarrow> bool" where
  "out_skipped (MemberSkipped r) = True"
| "out_skipped _ = False"

fun out_passed :: "member_outcome \<Rightarrow> bool" where
  "out_passed (MemberRan m) = vd_passed m"
| "out_passed _ = False"

lemma set_passed_fields [simp]:
  "vd_passed (set_passed v x)" "vd_subtests (set_passed v x) = vd_subtests v"
  by (simp_all add: set_passed_def)

lemma set_failed_fields [simp]:
  "\<not> vd_passed (set_failed v x)" "vd_subtests (set_failed v x) = vd_subtests v"
  "vd_error (set_failed v x) = x"
  by (simp_all add: set_failed_def)

lemma report_subtest_fields [simp]:
  "vd_subtests (report_subtest v n p m s) = vd_subtests v @
    [\<lparr>t_name = n, t_passed = (if s then False else p), t_skipped = s, t_message = m, t_duration = 0\<rparr>]"
  by (simp add: report_subtest_def)

lemma count_member_spec:
  "ty_failures (snd (count_member fr n out (v, t))) = [] \<longleftrightarrow> ty_failures t = [] \<and> \<not> out_failed out"
  "ty_skips (snd (count_member fr n out (v, t))) = [] \<longleftrightarrow> ty_skips t = [] \<and> \<not> out_skipped out"
  "map t_name (vd_subtests (fst (count_member fr n out (v, t)))) = map t_name (vd_subtests v) @ [n]"
  "map t_passed (vd_subtests (fst (count_member fr n out (v, t)))) = map t_passed (vd_subtests v) @ [out_passed out]"
  "map t_skipped (vd_subtests (fst (count_member fr n out (v, t)))) = map t_skipped (vd_subtests v) @ [out_skipped out]"
  by (cases out; simp add: count_member_def Let_def)+

lemma fold_members_spec:
  shows "(ty_failures (snd (fold (\<lambda>m. count_member fr (fst m) (run m)) ms (v, t))) = [] \<longleftrightarrow>
      ty_failures t = [] \<and> list_all (\<lambda>m. \<not> out_failed (run m)) ms)
    \<and> (ty_skips (snd (fold (\<lambda>m. count_member fr (fst m) (run m)) ms (v, t))) = [] \<longleftrightarrow>
      ty_skips t = [] \<and> list_all (\<lambda>m. \<not> out_skipped (run m)) ms)
    \<and> map t_name (vd_subtests (fst (fold (\<lambda>m. count_member fr (fst m) (run m)) ms (v, t)))) = map t_name (vd_subtests v) @ map fst ms
    \<and> map t_passed (vd_subtests (fst (fold (\<lambda>m. count_member fr (fst m) (run m)) ms (v, t))))
        = map t_passed (vd_subtests v) @ map (out_passed \<circ> run) ms
    \<and> map t_skipped (vd_subtests (fst (fold (\<lambda>m. count_member fr (fst m) (run m)) ms (v, t))))
        = map t_skipped (vd_subtests v) @ map (out_skipped \<circ> run) ms"
proof (induction ms arbitrary: v t)
  case (Cons m ms)
  obtain v1 t1 where c: "count_member fr (fst m) (run m) (v, t) = (v1, t1)" by fastforce
  note spec = count_member_spec [of fr "fst m" "run m" v t, unfolded c fst_conv snd_conv]
  from Cons.IH [of v1 t1] spec show ?case by (simp add: c)
qed simp

lemma outcome_trichotomy: "out_passed out \<longleftrightarrow> \<not> out_failed out \<and> \<not> out_skipped out"
  by (cases out) auto

lemma composite_runs:
  assumes "cget cfg COMPOSE_KEY PNone = PList items"
    and "composed_members (PList items) \<noteq> []" "length (composed_members (PList items)) = length items"
    and "fold (\<lambda>m. count_member fr (fst m) (run_member et fr classes
            (filter (\<lambda>(k, x). k \<notin> KStr ` set WIRING_KEYS) cfg) m)) (composed_members (PList items))
          (v, \<lparr>ty_outputs = [], ty_failures = [], ty_skips = []\<rparr>) = (v', t)"
  shows "composite_check et fr classes cfg v =
    (if ty_failures t \<noteq> [] then Finished (set_failed v' (join ''; '' (ty_failures t)))
     else if ty_skips t \<noteq> [] then SkipRaised (join ''; '' (ty_skips t))
     else Finished (set_passed v' (PStr (join ''; '' (ty_outputs t)))))"
  using assms unfolding composite_check_def Let_def assms(1) by (simp only: pval.case if_False split) simp

section \<open>What the required entries decide\<close>

text \<open>An operation passed: it is a dictionary that is not marked skipped and whose \<open>passed\<close> is true.\<close>

definition op_skipped :: "dict \<Rightarrow> string \<Rightarrow> bool" where
  "op_skipped ops n \<longleftrightarrow> (case dgetd ops (KStr n) (PDict []) of
     PDict r \<Rightarrow> cget r ''skipped'' PNone = PBool True | _ \<Rightarrow> False)"

definition op_passed :: "dict \<Rightarrow> string \<Rightarrow> bool" where
  "op_passed ops n \<longleftrightarrow> (case dgetd ops (KStr n) (PDict []) of
     PDict r \<Rightarrow> cget r ''skipped'' PNone \<noteq> PBool True \<and> truthy (cget r ''passed'' PNone) | _ \<Rightarrow> False)"

lemma required_test_spec:
  assumes "list_all (\<lambda>(k, x). is_dict x) ops"
  shows "\<exists>v1 f s. required_test fr ops (PStr n) v = Inr (v1, f, s)
    \<and> map t_name (vd_subtests v1) = map t_name (vd_subtests v) @ [n]
    \<and> (f = [] \<longleftrightarrow> op_passed ops n \<or> op_skipped ops n) \<and> (s = [] \<longleftrightarrow> \<not> op_skipped ops n)"
proof -
  have "is_dict (dgetd ops (KStr n) (PDict []))"
    using assms by (auto simp: dgetd_def list_all_iff split: option.splits dest!: map_of_SomeD)
  then obtain r where r: "dgetd ops (KStr n) (PDict []) = PDict r" by (rule is_dictE)
  show ?thesis
    by (cases "cget r ''skipped'' PNone = PBool True"; cases "truthy (cget r ''passed'' PNone)")
      (simp_all add: required_test_def r op_passed_def op_skipped_def Let_def)
qed

lemma required_loop_spec:
  assumes "list_all (\<lambda>(k, x). is_dict x) ops"
  shows "\<exists>v' f' s'. required_loop fr ops (map PStr names) v f s = Inr (v', f', s')
    \<and> (f' = [] \<longleftrightarrow> f = [] \<and> list_all (\<lambda>n. op_passed ops n \<or> op_skipped ops n) names)
    \<and> (s' = [] \<longleftrightarrow> s = [] \<and> list_all (\<lambda>n. \<not> op_skipped ops n) names)
    \<and> map t_name (vd_subtests v') = map t_name (vd_subtests v) @ names"
proof (induction names arbitrary: v f s)
  case (Cons n names)
  from required_test_spec [OF assms, of fr n v] obtain v1 f1 s1
    where "required_test fr ops (PStr n) v = Inr (v1, f1, s1)"
      and "map t_name (vd_subtests v1) = map t_name (vd_subtests v) @ [n]"
      and "f1 = [] \<longleftrightarrow> op_passed ops n \<or> op_skipped ops n" and "s1 = [] \<longleftrightarrow> \<not> op_skipped ops n"
    by blast
  with Cons.IH [of v1 "f @ f1" "s @ s1"] show ?case by auto
qed simp

section \<open>Properties\<close>

lemma composite_members_verdict:
  assumes "cget cfg COMPOSE_KEY PNone = PList items" and "composed_members (PList items) = ms"
    and "ms \<noteq> []" and "length ms = length items"
    and "run = run_member et fr classes (filter (\<lambda>(k, x). k \<notin> KStr ` set WIRING_KEYS) cfg)"
  shows "case composite_check et fr classes cfg v of
      Finished v' \<Rightarrow> (vd_passed v' \<longleftrightarrow> list_all (\<lambda>m. out_passed (run m)) ms)
        \<and> (vd_passed v' \<longleftrightarrow> \<not> list_ex (\<lambda>m. out_failed (run m)) ms)
        \<and> map t_name (vd_subtests v') = map t_name (vd_subtests v) @ map fst ms
        \<and> map t_passed (vd_subtests v') = map t_passed (vd_subtests v) @ map (out_passed \<circ> run) ms
        \<and> map t_skipped (vd_subtests v') = map t_skipped (vd_subtests v) @ map (out_skipped \<circ> run) ms
    | SkipRaised reason \<Rightarrow> list_ex (\<lambda>m. out_skipped (run m)) ms \<and> \<not> list_ex (\<lambda>m. out_failed (run m)) ms
    | ExnRaised e v' \<Rightarrow> False"
proof -
  let ?t0 = "\<lparr>ty_outputs = [], ty_failures = [], ty_skips = []\<rparr> :: tally"
  obtain v' t where f: "fold (\<lambda>m. count_member fr (fst m) (run m)) ms (v, ?t0) = (v', t)" by fastforce
  note spec = fold_members_spec [of fr run ms v ?t0, unfolded f fst_conv snd_conv]
  have run: "composite_check et fr classes cfg v =
    (if ty_failures t \<noteq> [] then Finished (set_failed v' (join ''; '' (ty_failures t)))
     else if ty_skips t \<noteq> [] then SkipRaised (join ''; '' (ty_skips t))
     else Finished (set_passed v' (PStr (join ''; '' (ty_outputs t)))))"
    using assms(1,3,4) f unfolding assms(2) [symmetric] assms(5) by (rule composite_runs)
  have fails: "list_ex (\<lambda>m. out_failed (run m)) ms \<longleftrightarrow> ty_failures t \<noteq> []"
    using spec by (auto simp: list_ex_iff list_all_iff)
  have skips: "list_ex (\<lambda>m. out_skipped (run m)) ms \<longleftrightarrow> ty_skips t \<noteq> []"
    using spec by (auto simp: list_ex_iff list_all_iff)
  have pass: "list_all (\<lambda>m. out_passed (run m)) ms \<longleftrightarrow> ty_failures t = [] \<and> ty_skips t = []"
    using spec by (auto simp: outcome_trichotomy list_all_iff)
  show ?thesis
    unfolding run using spec by (auto simp: fails skips pass)
qed

text \<open>The two documented forms of an item: \<open>CheckName\<close> and \<open>CheckName: {params}\<close>.\<close>

definition names_one :: "pval \<Rightarrow> bool" where
  "names_one item \<longleftrightarrow> (case item of PStr s \<Rightarrow> s \<noteq> [] | PDict d \<Rightarrow> length d = 1 | _ \<Rightarrow> False)"

definition names_several :: "pval \<Rightarrow> bool" where
  "names_several item \<longleftrightarrow> (case item of PDict d \<Rightarrow> 1 < length d | _ \<Rightarrow> False)"

lemma member_of_one: "names_one item \<Longrightarrow> length (member_of item) = 1"
  by (cases item) (auto simp: names_one_def)

lemma member_of_none: "\<not> names_one item \<Longrightarrow> \<not> names_several item \<Longrightarrow> member_of item = []"
  by (cases item) (auto simp: names_one_def names_several_def not_less le_Suc_eq)

lemma length_composed_members:
  assumes "\<forall>i \<in> set items. \<not> names_several i"
  shows "length (composed_members (PList items)) = length (filter names_one items)"
  using assms
proof (induction items)
  case (Cons i items)
  then show ?case using member_of_one [of i] member_of_none [of i] by simp
qed simp

lemma composed_members_all:
  assumes "\<forall>i \<in> set items. \<not> names_several i"
  shows "length (composed_members (PList items)) = length items \<longleftrightarrow> list_all names_one items"
proof -
  have "length (filter names_one items) = length items \<longleftrightarrow> list_all names_one items"
    by (metis filter_id_conv filter_True length_filter_less less_irrefl list_all_iff)
  then show ?thesis using length_composed_members [OF assms] by simp
qed

lemma malformed_composite_fails:
  assumes "cget cfg COMPOSE_KEY PNone = PList items"
    and "composed_members (PList items) = [] \<or> length (composed_members (PList items)) \<noteq> length items"
  shows "\<exists>m. composite_check et fr classes cfg v = Finished (set_failed v m)"
  using assms unfolding composite_check_def Let_def assms(1) by (auto simp del: composed_members.simps)

text \<open>C14. A composite ends without an exception. When an item is in neither of the two documented forms, or
  there is no item, it fails and no member is run. Otherwise it passes exactly when every member ran
  and passed, is skipped only when a member was skipped and none failed or was unknown, and
  otherwise fails; when it passes or fails it has reported one subtest per item, in order, with the
  outcome of that member. Mappings with more than one key, which the code takes for several members,
  are excluded: they can hide a malformed item, as \<open>malformed_member_unnoticed\<close> below shows.\<close>

theorem composite_verdict:
  assumes "cget cfg COMPOSE_KEY PNone = PList items" and "\<forall>i \<in> set items. \<not> names_several i"
    and "composed_members (PList items) = ms"
    and "run = run_member et fr classes (filter (\<lambda>(k, x). k \<notin> KStr ` set WIRING_KEYS) cfg)"
  shows "if items = [] \<or> \<not> list_all names_one items
    then \<exists>m. composite_check et fr classes cfg v = Finished (set_failed v m)
    else length ms = length items \<and> (case composite_check et fr classes cfg v of
      Finished v' \<Rightarrow> (vd_passed v' \<longleftrightarrow> list_all (\<lambda>m. out_passed (run m)) ms)
        \<and> (vd_passed v' \<longleftrightarrow> \<not> list_ex (\<lambda>m. out_failed (run m)) ms)
        \<and> map t_name (vd_subtests v') = map t_name (vd_subtests v) @ map fst ms
        \<and> map t_passed (vd_subtests v') = map t_passed (vd_subtests v) @ map (out_passed \<circ> run) ms
        \<and> map t_skipped (vd_subtests v') = map t_skipped (vd_subtests v) @ map (out_skipped \<circ> run) ms
    | SkipRaised reason \<Rightarrow> list_ex (\<lambda>m. out_skipped (run m)) ms \<and> \<not> list_ex (\<lambda>m. out_failed (run m)) ms
    | ExnRaised e v' \<Rightarrow> False)"
proof (cases "items = [] \<or> \<not> list_all names_one items")
  case True
  then have "composed_members (PList items) = [] \<or> length (composed_members (PList items)) \<noteq> length items"
    using composed_members_all [OF assms(2)] by auto
  then show ?thesis using True malformed_composite_fails [OF assms(1)] by simp
next
  case False
  then have n: "length ms = length items" "ms \<noteq> []"
    using composed_members_all [OF assms(2)] unfolding assms(3) by auto
  show ?thesis
    unfolding if_not_P [OF False]
    using composite_members_verdict [OF assms(1,3) n(2,1) assms(4), of v] n(1) by (rule conjI [rotated])
qed

definition demo_classes :: "(string \<times> check) list" where
  "demo_classes = [(''StepSuccessCheck'', step_success_check (\<lambda>_. [])),
     (''FieldExistsCheck'', field_exists_check)]"

definition demo_items :: "pval list" where
  "demo_items = [PStr ''StepSuccessCheck'',
     PDict [(KStr ''FieldExistsCheck'', PDict [(KStr ''fields'', PList [PStr ''id''])])]]"

definition demo_composite :: dict where
  "demo_composite = [(KStr ''compose'', PList demo_items),
     (KStr ''step_output'', PDict [(KStr ''success'', PBool True), (KStr ''name'', PStr ''x'')])]"

definition demo_run :: "string \<times> dict \<Rightarrow> member_outcome" where
  "demo_run = run_member (\<lambda>_. []) (\<lambda>_. []) demo_classes
     (filter (\<lambda>(k, x). k \<notin> KStr ` set WIRING_KEYS) demo_composite)"

text \<open>The step succeeded, and the field is missing.\<close>

theorem composite_verdict_witness:
  "case composite_check (\<lambda>_. []) (\<lambda>_. []) demo_classes demo_composite fresh_verdict of
      Finished v' \<Rightarrow> \<not> vd_passed v' \<and> map t_passed (vd_subtests v') = [True, False]
    | _ \<Rightarrow> False"
proof -
  let ?ms = "composed_members (PList demo_items)"
  have c: "cget demo_composite COMPOSE_KEY PNone = PList demo_items" by code_simp
  have n: "\<forall>i \<in> set demo_items. \<not> names_several i" "\<not> (demo_items = [] \<or> \<not> list_all names_one demo_items)"
    by code_simp+
  have o: "map (out_passed \<circ> demo_run) ?ms = [True, False]" by code_simp
  have f: "list_ex (\<lambda>m. out_failed (demo_run m)) ?ms" by code_simp
  have e: "vd_subtests fresh_verdict = []" by (simp add: fresh_verdict_def)
  from composite_verdict [OF c n(1) refl demo_run_def, of fresh_verdict, unfolded if_not_P [OF n(2)]] o f e
  show ?thesis by (auto split: ran.splits)
qed

text \<open>The check of create, read, update and delete operations passes exactly when every operation it
  requires is in the output, is not marked as skipped and passed; it is skipped only when none
  failed, and it reports one subtest per required operation.\<close>

theorem crud_verdict:
  assumes "cget cfg ''step_output'' (PDict []) = PDict so" and "cget so ''operations'' PNone = PDict ops"
    and "sget so ''operations'' \<noteq> None" and "ops \<noteq> []" and "list_all (\<lambda>(k, x). is_dict x) ops"
    and "cget cfg ''operations'' PNone = PList (map PStr names)" and "names \<noteq> []"
  shows "case crud_operations_check fr cfg v of
      Finished v' \<Rightarrow> (vd_passed v' \<longleftrightarrow> list_all (op_passed ops) names)
        \<and> (vd_passed v' \<longleftrightarrow> list_all (\<lambda>n. op_passed ops n \<or> op_skipped ops n) names)
        \<and> map t_name (vd_subtests v') = map t_name (vd_subtests v) @ names
    | SkipRaised reason \<Rightarrow> list_ex (op_skipped ops) names
        \<and> list_all (\<lambda>n. op_passed ops n \<or> op_skipped ops n) names
    | ExnRaised e v' \<Rightarrow> False"
proof -
  from required_loop_spec [OF assms(5), of fr names v "[]" "[]"] obtain v' f s
    where loop: "required_loop fr ops (map PStr names) v [] [] = Inr (v', f, s)"
      and f: "f = [] \<longleftrightarrow> list_all (\<lambda>n. op_passed ops n \<or> op_skipped ops n) names"
      and s: "s = [] \<longleftrightarrow> list_all (\<lambda>n. \<not> op_skipped ops n) names"
      and subs: "map t_name (vd_subtests v') = map t_name (vd_subtests v) @ names" by auto
  have get: "cget so ''operations'' (PDict []) = PDict ops"
    using assms(2,3) by (auto simp: cget_def split: option.splits)
  have j: "\<exists>t. comma_join (map PStr names) = Inr t"
  proof -
    have "\<exists>ss. join_items n (map PStr names) = Inr ss" for n
      by (induction names arbitrary: n) (auto split: sum.splits, metis Inl_Inr_False)
    then obtain ss where "join_items 0 (map PStr names) = Inr ss" by blast
    then show ?thesis by (simp add: comma_join_def)
  qed
  have both: "list_all (op_passed ops) names \<longleftrightarrow> f = [] \<and> s = []"
    by (auto simp: f s list_all_iff op_passed_def op_skipped_def split: pval.splits)
  have skip: "list_ex (op_skipped ops) names \<longleftrightarrow> s \<noteq> []" by (auto simp: s list_all_iff list_ex_iff)
  have req: "check_required_tests fr cfg (map PStr names) ''CRUD operations failed'' ''operations'' v =
      (if f \<noteq> [] then Inl (Finished (set_failed v' (''CRUD operations failed'' @ '': '' @ join ''; '' f)))
       else if s \<noteq> [] then Inl (SkipRaised (''Required test(s) skipped: '' @ join ''; '' s)) else Inr v')"
    using assms(4) by (simp add: check_required_tests_def assms(1) get loop)
  from j obtain t where t: "comma_join (map PStr names) = Inr t" by blast
  have "crud_operations_check fr cfg v =
      (if f \<noteq> [] then Finished (set_failed v' (''CRUD operations failed'' @ '': '' @ join ''; '' f))
       else if s \<noteq> [] then SkipRaised (''Required test(s) skipped: '' @ join ''; '' s)
       else Finished (set_passed v' (PStr (''All CRUD operations passed: '' @ t))))"
    using assms(7) by (simp add: crud_operations_check_def assms(1,2,6) req t)
  then show ?thesis using subs by (simp add: f [symmetric] both skip)
qed

definition demo_crud :: dict where
  "demo_crud = [(KStr ''operations'', PList [PStr ''get'', PStr ''list'']),
     (KStr ''step_output'', PDict [(KStr ''operations'', PDict
        [(KStr ''get'', PDict [(KStr ''passed'', PBool True)]),
         (KStr ''list'', PDict [(KStr ''passed'', PBool True), (KStr ''skipped'', PBool True)])])])]"

definition demo_ops :: dict where
  "demo_ops = [(KStr ''get'', PDict [(KStr ''passed'', PBool True)]),
     (KStr ''list'', PDict [(KStr ''passed'', PBool True), (KStr ''skipped'', PBool True)])]"

text \<open>One operation passed, the other is marked as skipped.\<close>

theorem crud_verdict_witness:
  "\<exists>reason. crud_operations_check (\<lambda>_. []) demo_crud fresh_verdict = SkipRaised reason"
proof -
  have "case crud_operations_check (\<lambda>_. []) demo_crud fresh_verdict of
      Finished v' \<Rightarrow> (vd_passed v' \<longleftrightarrow> list_all (op_passed demo_ops) [''get'', ''list''])
        \<and> (vd_passed v' \<longleftrightarrow> list_all (\<lambda>n. op_passed demo_ops n \<or> op_skipped demo_ops n) [''get'', ''list''])
        \<and> map t_name (vd_subtests v') = map t_name (vd_subtests fresh_verdict) @ [''get'', ''list'']
    | SkipRaised reason \<Rightarrow> list_ex (op_skipped demo_ops) [''get'', ''list'']
        \<and> list_all (\<lambda>n. op_passed demo_ops n \<or> op_skipped demo_ops n) [''get'', ''list'']
    | ExnRaised e v' \<Rightarrow> False"
  proof (rule crud_verdict)
    show "cget demo_crud ''step_output'' (PDict []) = PDict [(KStr ''operations'', PDict demo_ops)]"
      by code_simp
    show "cget [(KStr ''operations'', PDict demo_ops)] ''operations'' PNone = PDict demo_ops"
      by (simp add: cget_def)
    show "sget [(KStr ''operations'', PDict demo_ops)] ''operations'' \<noteq> None" by simp
    show "demo_ops \<noteq> []" "list_all (\<lambda>(k, x). is_dict x) demo_ops" by code_simp+
    show "cget demo_crud ''operations'' PNone = PList (map PStr [''get'', ''list''])" by code_simp
  qed simp
  moreover have "list_all (op_passed demo_ops) [''get'', ''list''] = False"
    and "list_all (\<lambda>n. op_passed demo_ops n \<or> op_skipped demo_ops n) [''get'', ''list''] = True"
    by code_simp+
  ultimately show ?thesis by (auto split: ran.splits)
qed

text \<open>The count of members does not notice a malformed item next to an item with two names: the
  composite passes although one of its items was dropped.\<close>

lemma malformed_member_unnoticed:
  "\<exists>v'. composite_check (\<lambda>_. []) (\<lambda>_. [])
     [(''A'', \<lambda>_ v. Finished (set_passed v PNone)), (''B'', \<lambda>_ v. Finished (set_passed v PNone))]
     [(KStr ''compose'', PList [PDict [(KStr ''A'', PNone), (KStr ''B'', PNone)], PInt 42])] fresh_verdict
     = Finished v' \<and> vd_passed v'"
  by (intro exI conjI, code_simp) (simp add: fresh_verdict_def)

end
