(* ===== verification/Storage_Manifest.thy ===== *)
theory Storage_Manifest
  imports Storage_Api Validation_Core
begin

text \<open>
  \<open>isvtest.core.storage\<close>: the provider manifest, its lowering of the capability block to
  the surfaces a provider claims, the optional per-instance configuration laid over it, and
  the registry of providers it yields.

  The files, their YAML and the loading of a shim module are parameters, collected in the
  record \<open>manifest_world\<close>. \<open>Inl\<close> is a \<open>ManifestError\<close> with its message. The log line for
  skipped REST shims is left out, and a file that cannot be read is not modelled.
\<close>

section \<open>Errors and optional values\<close>

definition coerce_mapping :: "pval \<Rightarrow> string \<Rightarrow> string + dict" where
  "coerce_mapping v field_name = (case v of
     PNone \<Rightarrow> Inr []
   | PDict d \<Rightarrow> Inr d
   | _ \<Rightarrow> Inl (field_name @ '': must be a mapping''))"

definition coerce_protocols :: "(rat \<Rightarrow> string) \<Rightarrow> pval \<Rightarrow> string \<Rightarrow> string + string list" where
  "coerce_protocols fr v field_name = (case v of
     PNone \<Rightarrow> Inr []
   | PStr s \<Rightarrow> Inr [s]
   | PList xs \<Rightarrow> Inr (map (py_str fr) xs)
   | _ \<Rightarrow> Inl (field_name @ '': must be a string or list of strings''))"

text \<open>\<open>{str(k): str(v) for k, v in d.items()}\<close>.\<close>

definition string_dict :: "(rat \<Rightarrow> string) \<Rightarrow> dict \<Rightarrow> (string \<times> string) list" where
  "string_dict fr d = fold (\<lambda>(k, v) e. dput e (key_text k) (py_str fr v)) d []"

definition coerce_string_mapping ::
  "(rat \<Rightarrow> string) \<Rightarrow> pval \<Rightarrow> string \<Rightarrow> string + (string \<times> string) list" where
  "coerce_string_mapping fr v field_name = (case v of
     PNone \<Rightarrow> Inr []
   | PDict d \<Rightarrow> Inr (string_dict fr d)
   | _ \<Rightarrow> Inl (field_name @ '': must be a mapping of string values''))"

fun qualifier_entries :: "(rat \<Rightarrow> string) \<Rightarrow> string \<Rightarrow> dict \<Rightarrow> qual_map \<Rightarrow> string + qual_map" where
  "qualifier_entries fr field_name [] out = Inr out"
| "qualifier_entries fr field_name ((k, v) # d) out = (case v of
     PDict quals \<Rightarrow> qualifier_entries fr field_name d (dput out (key_text k) (string_dict fr quals))
   | _ \<Rightarrow> Inl (field_name @ ''.'' @ key_text k @ '': must be a mapping of qualifier keys to values''))"

definition coerce_qualifiers :: "(rat \<Rightarrow> string) \<Rightarrow> pval \<Rightarrow> string \<Rightarrow> string + qual_map" where
  "coerce_qualifiers fr v field_name = (case v of
     PNone \<Rightarrow> Inr []
   | PDict d \<Rightarrow> qualifier_entries fr field_name d []
   | _ \<Rightarrow> Inl (field_name @ '': must be a mapping of capability id/group to qualifiers''))"

section \<open>Declared capabilities\<close>

definition CAPABILITY_STATES :: "string list" where
  "CAPABILITY_STATES = [''native'', ''default'', ''none'']"

datatype cap_tree =
    CapLeaf string
  | CapGroup "(string \<times> cap_tree) list"

definition CAPABILITY_TREE :: "(string \<times> cap_tree) list" where
  "CAPABILITY_TREE =
    [(''tenantManagement'', CapGroup
       [(''list'', CapLeaf CAP_TENANT_LIST), (''get'', CapLeaf CAP_TENANT_GET),
        (''getQuota'', CapLeaf CAP_TENANT_GET_QUOTA), (''listQuotas'', CapLeaf CAP_TENANT_LIST_QUOTAS)]),
     (''volumeManagement'', CapGroup
       [(''list'', CapLeaf CAP_VOLUME_LIST), (''get'', CapLeaf CAP_VOLUME_GET),
        (''create'', CapLeaf CAP_VOLUME_CREATE), (''delete'', CapLeaf CAP_VOLUME_DELETE)]),
     (''quotaManagement'', CapGroup
       [(''directory'', CapGroup
          [(''list'', CapLeaf CAP_DIRECTORY_QUOTA_LIST), (''get'', CapLeaf CAP_DIRECTORY_QUOTA_GET),
           (''set'', CapLeaf CAP_DIRECTORY_QUOTA_SET), (''delete'', CapLeaf CAP_DIRECTORY_QUOTA_DELETE)]),
        (''user'', CapGroup
          [(''list'', CapLeaf CAP_USER_QUOTA_LIST), (''get'', CapLeaf CAP_USER_QUOTA_GET),
           (''set'', CapLeaf CAP_USER_QUOTA_SET), (''delete'', CapLeaf CAP_USER_QUOTA_DELETE)])])]"

fun tree_leaves :: "string list \<Rightarrow> cap_tree \<Rightarrow> (string \<times> string list) list"
  and group_leaves :: "string list \<Rightarrow> (string \<times> cap_tree) list \<Rightarrow> (string \<times> string list) list" where
  "tree_leaves path (CapLeaf cid) = [(cid, path)]"
| "tree_leaves path (CapGroup g) = group_leaves path g"
| "group_leaves path [] = []"
| "group_leaves path ((key, t) # g) = tree_leaves (path @ [key]) t @ group_leaves path g"

definition capability_leaves :: "(string \<times> string list) list" where
  "capability_leaves = group_leaves [] CAPABILITY_TREE"

text \<open>The deepest state on the path.\<close>

fun lookup_from :: "pval \<Rightarrow> string list \<Rightarrow> string option \<Rightarrow> string option" where
  "lookup_from node [] found = found"
| "lookup_from node (key # path) found = (case node of
     PDict d \<Rightarrow> (case sget d key of
         None \<Rightarrow> found
       | Some v \<Rightarrow> lookup_from v path (case v of PStr s \<Rightarrow> Some s | _ \<Rightarrow> found))
   | _ \<Rightarrow> found)"

definition lookup_capability :: "dict \<Rightarrow> string list \<Rightarrow> string option" where
  "lookup_capability caps path = lookup_from (PDict caps) path None"

definition default_state :: "dict \<Rightarrow> dict \<Rightarrow> string option" where
  "default_state provider_caps package_caps = (case field_of provider_caps ''default'' of
     PStr s \<Rightarrow> Some s
   | _ \<Rightarrow> (case field_of package_caps ''default'' of PStr s \<Rightarrow> Some s | _ \<Rightarrow> None))"

text \<open>The first value that is no state and no subgroup, as the message it is rejected with.\<close>

fun invalid_state :: "(rat \<Rightarrow> string) \<Rightarrow> string \<Rightarrow> string \<Rightarrow> dict \<Rightarrow> string option" where
  "invalid_state fr field_name path [] = None"
| "invalid_state fr field_name path ((key, v) # caps) =
     (case (case v of
        PDict sub \<Rightarrow> invalid_state fr field_name (path @ key_text key @ ''.'') sub
      | _ \<Rightarrow> if v \<in> PStr ` set CAPABILITY_STATES then None
          else Some (field_name @ ''.'' @ path @ key_text key @ '': capability state must be one of ''
            @ py_repr fr (PList (map PStr CAPABILITY_STATES)) @ '' (got '' @ py_repr fr v @ '')'')) of
      Some e \<Rightarrow> Some e
    | None \<Rightarrow> invalid_state fr field_name path caps)"

definition validate_capability_block :: "(rat \<Rightarrow> string) \<Rightarrow> string \<Rightarrow> dict \<Rightarrow> string + unit" where
  "validate_capability_block fr field_name caps =
    (case invalid_state fr field_name [] caps of None \<Rightarrow> Inr () | Some e \<Rightarrow> Inl e)"

definition leaf_state :: "dict \<Rightarrow> dict \<Rightarrow> string list \<Rightarrow> string option" where
  "leaf_state provider_caps package_caps path =
    (let has_default = (dhas provider_caps (KStr ''default'') \<or> dhas package_caps (KStr ''default''));
         state = (case lookup_capability provider_caps path of
             None \<Rightarrow> lookup_capability package_caps path | Some s \<Rightarrow> Some s);
         explicit = (state \<noteq> None);
         state' = (case state of None \<Rightarrow> default_state provider_caps package_caps | Some s \<Rightarrow> Some s)
     in if state' = None then None else if \<not> explicit \<and> \<not> has_default then None else state')"

definition resolve_capability_states ::
  "(rat \<Rightarrow> string) \<Rightarrow> dict \<Rightarrow> dict \<Rightarrow> string \<Rightarrow> string + (string \<times> string) list" where
  "resolve_capability_states fr provider_caps package_caps field_name =
    and_then (validate_capability_block fr field_name provider_caps) (\<lambda>_.
    and_then (validate_capability_block fr ''default_capabilities'' package_caps) (\<lambda>_.
      Inr (fold (\<lambda>(cid, path) resolved. case leaf_state provider_caps package_caps path of
          None \<Rightarrow> resolved | Some s \<Rightarrow> dput resolved cid s) capability_leaves [])))"

definition expected_of :: "(string \<times> string) list \<Rightarrow> (string \<times> bool) list" where
  "expected_of states = map (\<lambda>(cid, s). (cid, s \<noteq> ''none'')) states"

section \<open>Providers\<close>

record 's manifest_provider =
  mp_name :: string
  mp_volume_type :: string
  mp_tenant_id :: "string option"
  mp_provider_namespace :: "string option"
  mp_provider_id :: "string option"
  mp_provider_version :: "string option"
  mp_storage_protocols :: "string list"
  mp_vendor :: dict
  mp_backend :: dict
  mp_sdk_version :: "string option"
  mp_expected :: "(string \<times> bool) list"
  mp_states :: "(string \<times> string) list"
  mp_qualifiers :: qual_map
  mp_attributes :: "(string \<times> string) list"
  mp_storage_classes :: "string list"
  mp_shim_kind :: "string option"
  mp_api :: "'s provider option"

definition has_shim :: "'s manifest_provider \<Rightarrow> bool" where
  "has_shim p \<longleftrightarrow> mp_api p \<noteq> None"

text \<open>\<open>Path(s).expanduser()\<close>, \<open>is_file\<close>, the parsed YAML of a file, the \<open>config.yaml\<close> next to a
  file, a module path resolved against the manifest, and the loaded shim.\<close>

record 's manifest_world =
  mw_expand :: "string \<Rightarrow> string"
  mw_is_file :: "string \<Rightarrow> bool"
  mw_yaml :: "string \<Rightarrow> string + pval"
  mw_sibling_config :: "string \<Rightarrow> string"
  mw_module :: "string \<Rightarrow> string \<Rightarrow> string"
  mw_build_api :: "string \<Rightarrow> (string \<times> string) list \<Rightarrow> string + 's provider"

definition load_shim ::
  "(rat \<Rightarrow> string) \<Rightarrow> 's manifest_world \<Rightarrow> string \<Rightarrow> pval \<Rightarrow> string \<Rightarrow> (string \<times> string) list
    \<Rightarrow> string + string option \<times> 's provider option" where
  "load_shim fr w manifest shim name attributes = (case shim of
     PNone \<Rightarrow> Inr (None, None)
   | PDict entry \<Rightarrow>
      (let kind = field_of entry ''kind''; module = field_of entry ''module''
       in if kind \<noteq> PStr ''python'' \<and> kind \<noteq> PStr ''rest''
          then Inl (''provider '' @ repr_str name @ '': shim.kind must be '' @ quoted ''python'' @ '' or ''
            @ quoted ''rest'' @ '' (got '' @ py_repr fr kind @ '')'')
          else if kind = PStr ''rest'' then Inr (Some ''rest'', None)
          else (case module of
            PStr m \<Rightarrow>
              if m = [] then Inl (''provider '' @ repr_str name @ '': shim.module is required for shim.kind=python'')
              else (let shim_path = mw_module w manifest m
                    in case mw_build_api w shim_path attributes of
                      Inl e \<Rightarrow> Inl (''provider '' @ repr_str name @ '': failed to load shim '' @ shim_path
                        @ '': '' @ e)
                    | Inr api \<Rightarrow> Inr (Some ''python'', Some api))
          | _ \<Rightarrow> Inl (''provider '' @ repr_str name @ '': shim.module is required for shim.kind=python'')))
   | _ \<Rightarrow> Inl (''provider '' @ repr_str name @ '': shim must be a mapping''))"

definition some_str :: "(rat \<Rightarrow> string) \<Rightarrow> pval \<Rightarrow> string option" where
  "some_str fr v = (if truthy v then Some (py_str fr v) else None)"

definition provider_name :: "dict \<Rightarrow> dict \<Rightarrow> nat \<Rightarrow> string + string" where
  "provider_name entry identity_provider index =
    (let from_candidate = (case py_or (field_of entry ''id'') (field_of identity_provider ''id'') of
           PStr c \<Rightarrow> c | _ \<Rightarrow> []);
         name = (case field_of entry ''name'' of PStr n \<Rightarrow> if n = [] then from_candidate else n
           | _ \<Rightarrow> from_candidate)
     in if name = [] then Inl (''providers['' @ nat_str index @ '']: name (or id / identity.provider.id) is ''
          @ ''required and must be a non-empty string'')
        else Inr name)"

definition provider_type ::
  "(rat \<Rightarrow> string) \<Rightarrow> dict \<Rightarrow> dict \<Rightarrow> dict \<Rightarrow> nat \<Rightarrow> string \<Rightarrow> string + string" where
  "provider_type fr entry provider_block identity index name =
    (let raw = (if field_of entry ''type'' \<noteq> PNone then field_of entry ''type''
           else if field_of provider_block ''type'' \<noteq> PNone then field_of provider_block ''type''
           else field_of identity ''storage_type'');
         raw' = (case raw of PStr s \<Rightarrow> PStr (lower s) | _ \<Rightarrow> raw)
     in if raw' = PStr ''file'' then Inr ''file'' else if raw' = PStr ''block'' then Inr ''block''
        else Inl (''providers['' @ nat_str index @ ''] ('' @ repr_str name @ ''): type must be ''
          @ quoted ''file'' @ '' or '' @ quoted ''block'' @ '' (set providers[].type, provider.type, or ''
          @ ''identity.storage_type; got '' @ py_repr fr raw' @ '')''))"

definition tenant_of :: "(rat \<Rightarrow> string) \<Rightarrow> dict \<Rightarrow> nat \<Rightarrow> string \<Rightarrow> string + string option" where
  "tenant_of fr entry index name = (case field_of entry ''tenant_id'' of
     PNone \<Rightarrow> Inr None
   | PStr s \<Rightarrow> Inr (Some s)
   | PInt i \<Rightarrow> Inr (Some (int_str i))
   | PBool b \<Rightarrow> Inr (Some (py_str fr (PBool b)))
   | _ \<Rightarrow> Inl (''providers['' @ nat_str index @ ''] ('' @ repr_str name @ ''): tenant_id must be a string or int''))"

definition add_vendor_names :: "dict \<Rightarrow> dict \<Rightarrow> dict" where
  "add_vendor_names provider_block vendor =
    fold (\<lambda>key v. if field_of provider_block key \<noteq> PNone \<and> \<not> dhas v (KStr key)
      then dput v (KStr key) (field_of provider_block key) else v) [''name'', ''description''] vendor"

definition build_provider ::
  "(rat \<Rightarrow> string) \<Rightarrow> 's manifest_world \<Rightarrow> string \<Rightarrow> pval \<Rightarrow> dict \<Rightarrow> dict \<Rightarrow> nat \<Rightarrow> dict
    \<Rightarrow> string + 's manifest_provider" where
  "build_provider fr w manifest package_namespace package_vendor package_default_caps index entry =
    (let entry_at = ''providers['' @ nat_str index @ '']''
     in and_then (coerce_mapping (field_of entry ''provider'') (entry_at @ ''.provider'')) (\<lambda>block.
        and_then (coerce_mapping (field_of entry ''identity'') (entry_at @ ''.identity'')) (\<lambda>identity.
        and_then (coerce_mapping (field_of identity ''provider'') (entry_at @ ''.identity.provider'')) (\<lambda>ip.
        and_then (provider_name entry ip index) (\<lambda>name.
        and_then (provider_type fr entry block identity index name) (\<lambda>vtype.
        and_then (tenant_of fr entry index name) (\<lambda>tenant.
        (let here = entry_at @ '' ('' @ repr_str name @ '')'';
             namespace = py_or (field_of entry ''namespace'') (py_or (field_of block ''namespace'')
               (py_or (field_of ip ''namespace'') (py_or (field_of ip ''domain'') package_namespace)));
             pid = py_or (field_of entry ''id'') (py_or (field_of block ''id'')
               (py_or (field_of ip ''id'') (PStr name)));
             version = py_or (field_of block ''version'') (field_of ip ''version'');
             sdk = py_or (field_of entry ''sdk_version'') (field_of identity ''sdk_version'')
         in and_then (coerce_protocols fr (py_or (field_of entry ''protocols'')
               (py_or (field_of block ''protocols'') (py_or (field_of identity ''storage_protocols'')
                 (field_of identity ''storage_protocol'')))) (here @ ''.protocols'')) (\<lambda>protocols.
            and_then (coerce_mapping (field_of entry ''vendor'') (here @ ''.vendor'')) (\<lambda>own_vendor.
            and_then (coerce_mapping (py_or (field_of entry ''backend'') (field_of identity ''backend''))
               (here @ ''.backend'')) (\<lambda>backend.
            and_then (coerce_mapping (field_of entry ''capabilities'') (here @ ''.capabilities'')) (\<lambda>caps.
            and_then (resolve_capability_states fr caps package_default_caps (here @ ''.capabilities'')) (\<lambda>states.
            and_then (coerce_qualifiers fr (field_of entry ''capability_qualifiers'')
               (here @ ''.capability_qualifiers'')) (\<lambda>quals.
            and_then (coerce_string_mapping fr (field_of entry ''attributes'') (here @ ''.attributes'')) (\<lambda>attributes.
            and_then (load_shim fr w manifest (field_of entry ''shim'') name attributes) (\<lambda>(kind, api).
              Inr \<lparr>mp_name = name, mp_volume_type = vtype, mp_tenant_id = tenant,
                mp_provider_namespace = some_str fr namespace, mp_provider_id = some_str fr pid,
                mp_provider_version = (if version = PNone then None else Some (py_str fr version)),
                mp_storage_protocols = protocols,
                mp_vendor = add_vendor_names block (if own_vendor = [] then package_vendor else own_vendor),
                mp_backend = backend, mp_sdk_version = some_str fr sdk,
                mp_expected = expected_of states, mp_states = states, mp_qualifiers = quals,
                mp_attributes = attributes, mp_storage_classes = [], mp_shim_kind = kind,
                mp_api = api\<rparr>))))))))))))))))"

section \<open>The instance configuration\<close>

text \<open>\<open>str(config.get(key) or "").strip()\<close>.\<close>

definition path_setting :: "(rat \<Rightarrow> string) \<Rightarrow> dict \<Rightarrow> string \<Rightarrow> string" where
  "path_setting fr config key = strip (py_str fr (py_or (field_of config key) (PStr [])))"

definition read_mapping :: "'s manifest_world \<Rightarrow> string \<Rightarrow> string \<Rightarrow> string + dict" where
  "read_mapping w what path = (case mw_yaml w path of
     Inl e \<Rightarrow> Inl (''failed to parse '' @ what @ '' '' @ path @ '': '' @ e)
   | Inr v \<Rightarrow> (case py_or v (PDict []) of
       PDict d \<Rightarrow> Inr d
     | _ \<Rightarrow> Inl (what @ '' '' @ path @ '' must be a YAML mapping at the top level'')))"

definition load_instance_config ::
  "(rat \<Rightarrow> string) \<Rightarrow> 's manifest_world \<Rightarrow> dict \<Rightarrow> string \<Rightarrow> string + dict option" where
  "load_instance_config fr w config manifest =
    (let explicit = path_setting fr config ''instance_config_path'';
         path = (if explicit = [] then mw_sibling_config w manifest else mw_expand w explicit)
     in if \<not> mw_is_file w path
        then (if explicit = [] then Inr None else Inl (''instance config file not found: '' @ path))
        else and_then (read_mapping w ''instance config'' path) (\<lambda>raw.
             and_then (coerce_mapping (field_of raw ''instance'') ''instance'') (\<lambda>d. Inr (Some d))))"

definition capability_override_keys :: "string list" where
  "capability_override_keys = concat (map ancestors CAPABILITY_IDS)"

definition coerce_override_value :: "(rat \<Rightarrow> string) \<Rightarrow> string \<Rightarrow> pval \<Rightarrow> string + bool" where
  "coerce_override_value fr key v =
    (let bad = Inl (''instance.provider.capabilities.'' @ key @ '': must be '' @ quoted ''enabled''
           @ '' or '' @ quoted ''disabled'' @ '' (got '' @ py_repr fr v @ '')'')
     in case v of
       PBool b \<Rightarrow> Inr b
     | PStr s \<Rightarrow> if lower (strip s) = ''enabled'' then Inr True
         else if lower (strip s) = ''disabled'' then Inr False else bad
     | _ \<Rightarrow> bad)"

fun parse_overrides ::
  "(rat \<Rightarrow> string) \<Rightarrow> dict \<Rightarrow> (string \<times> bool) list \<Rightarrow> string + (string \<times> bool) list" where
  "parse_overrides fr [] overrides = Inr overrides"
| "parse_overrides fr ((k, v) # raw) overrides =
    (let key = key_text k
     in if key \<notin> set capability_override_keys
        then Inl (''instance.provider.capabilities: unknown capability key '' @ repr_str key)
        else and_then (coerce_override_value fr key v) (\<lambda>b.
          parse_overrides fr raw (dput overrides key b)))"

function resolve_capability_override :: "(string \<times> bool) list \<Rightarrow> string \<Rightarrow> bool option" where
  "resolve_capability_override overrides key =
    (case dget overrides key of
       Some b \<Rightarrow> Some b
     | None \<Rightarrow> (case group_of key of
         None \<Rightarrow> None
       | Some k \<Rightarrow> resolve_capability_override overrides k))"
  by pat_completeness auto
termination by (relation "measure (length \<circ> snd)") (auto dest: before_last_shorter)

declare resolve_capability_override.simps [simp del]

interpretation mo: prefix_resolver resolve_capability_override
  by unfold_locales (rule resolve_capability_override.simps)

definition override_state :: "(string \<times> string) list \<Rightarrow> string \<Rightarrow> bool \<Rightarrow> string" where
  "override_state states cid b =
    (if b then (if dget states cid \<noteq> Some ''none'' then dgetd states cid ''native'' else ''native'')
     else ''none'')"

definition apply_overrides ::
  "(string \<times> bool) list \<Rightarrow> (string \<times> bool) list \<times> (string \<times> string) list
    \<Rightarrow> (string \<times> bool) list \<times> (string \<times> string) list" where
  "apply_overrides overrides maps = fold (\<lambda>cid (expected, states).
     case resolve_capability_override overrides cid of
       None \<Rightarrow> (expected, states)
     | Some b \<Rightarrow> (dput expected cid b, dput states cid (override_state states cid b)))
     CAPABILITY_IDS maps"

definition apply_instance_config ::
  "(rat \<Rightarrow> string) \<Rightarrow> dict \<Rightarrow> 's manifest_provider \<Rightarrow> string + 's manifest_provider" where
  "apply_instance_config fr instance_cfg p =
    and_then (coerce_mapping (field_of instance_cfg ''provider'') ''instance.provider'') (\<lambda>block.
    and_then (case field_of block ''defaultTenant'' of
        PNone \<Rightarrow> Inr []
      | PStr t \<Rightarrow> Inr t
      | _ \<Rightarrow> Inl ''instance.provider.defaultTenant: must be a string'') (\<lambda>tenant.
    and_then (coerce_protocols fr (field_of block ''storageClasses'')
        ''instance.provider.storageClasses'') (\<lambda>classes.
    and_then (coerce_mapping (field_of block ''capabilities'') ''instance.provider.capabilities'') (\<lambda>raw.
    and_then (parse_overrides fr raw []) (\<lambda>overrides.
      (let maps = apply_overrides overrides (mp_expected p, mp_states p)
       in Inr (p\<lparr>mp_tenant_id := (if tenant = [] then mp_tenant_id p else Some tenant),
            mp_storage_classes := (if classes = [] then mp_storage_classes p else classes),
            mp_expected := fst maps, mp_states := snd maps\<rparr>)))))))"

section \<open>The registry\<close>

definition SUPPORTED_SCHEMA_VERSIONS :: "string list" where
  "SUPPORTED_SCHEMA_VERSIONS = [''v1alpha1'', ''v1alpha2'']"

text \<open>The loop over the entries, from the given index on, with the names seen so far.\<close>

fun build_providers ::
  "(nat \<Rightarrow> dict \<Rightarrow> string + 's manifest_provider) \<Rightarrow> string \<Rightarrow> nat \<Rightarrow> string list \<Rightarrow> pval list
    \<Rightarrow> string + 's manifest_provider list" where
  "build_providers build path index seen_names [] = Inr []"
| "build_providers build path index seen_names (entry # entries) = (case entry of
     PDict d \<Rightarrow> and_then (build index d) (\<lambda>p.
       if mp_name p \<in> set seen_names
       then Inl (''manifest '' @ path @ '': duplicate provider name '' @ repr_str (mp_name p))
       else and_then (build_providers build path (Suc index) (mp_name p # seen_names) entries)
         (\<lambda>ps. Inr (p # ps)))
   | _ \<Rightarrow> Inl (''manifest '' @ path @ '': providers['' @ nat_str index @ ''] must be a mapping''))"

definition manifest_providers ::
  "(rat \<Rightarrow> string) \<Rightarrow> 's manifest_world \<Rightarrow> string \<Rightarrow> string + 's manifest_provider list" where
  "manifest_providers fr w path =
    (if \<not> mw_is_file w path then Inl (''manifest file not found: '' @ path)
     else and_then (read_mapping w ''manifest'' path) (\<lambda>raw.
       if field_of raw ''schema_version'' \<notin> PStr ` set SUPPORTED_SCHEMA_VERSIONS
       then Inl (''manifest '' @ path @ '': schema_version='' @ py_repr fr (field_of raw ''schema_version'')
         @ '' not supported (expected one of ''
         @ py_repr fr (PList (map PStr SUPPORTED_SCHEMA_VERSIONS)) @ '')'')
       else (case field_of raw ''providers'' of
         PList entries \<Rightarrow>
           and_then (coerce_mapping (field_of raw ''vendor'') ''vendor'') (\<lambda>vendor.
             (let caps_key = (if dhas raw (KStr ''defaultCapabilities'') then ''defaultCapabilities''
                 else ''default_capabilities'')
              in and_then (coerce_mapping (field_of raw caps_key) caps_key) (\<lambda>caps.
                build_providers (build_provider fr w path (field_of raw ''namespace'') vendor caps)
                  path 0 [] entries)))
       | v \<Rightarrow> Inl (''manifest '' @ path @ '': providers must be a list (got '' @ type_name v @ '')''))))"

definition load_provider_registry ::
  "(rat \<Rightarrow> string) \<Rightarrow> 's manifest_world \<Rightarrow> dict \<Rightarrow> string + 's manifest_provider list" where
  "load_provider_registry fr w config =
    (let manifest_path = path_setting fr config ''manifest_path''
     in if manifest_path = [] then Inr []
        else (let path = mw_expand w manifest_path
          in and_then (manifest_providers fr w path) (\<lambda>providers.
             and_then (load_instance_config fr w config path) (\<lambda>inst. case inst of
               None \<Rightarrow> Inr providers
             | Some cfg \<Rightarrow> gather (map (apply_instance_config fr cfg) providers)))))"

section \<open>Well-formed providers\<close>

definition states_ok :: "(string \<times> string) list \<Rightarrow> bool" where
  "states_ok states \<longleftrightarrow> distinct (dkeys states)
    \<and> list_all (\<lambda>(cid, s). cid \<in> set CAPABILITY_IDS \<and> s \<in> set CAPABILITY_STATES) states"

definition provider_ok :: "'s manifest_provider \<Rightarrow> bool" where
  "provider_ok p \<longleftrightarrow> mp_name p \<noteq> [] \<and> mp_volume_type p \<in> {''file'', ''block''}
    \<and> states_ok (mp_states p) \<and> mp_expected p = expected_of (mp_states p)"

lemma gather_Inr: "gather xs = Inr ys \<longleftrightarrow> xs = map Inr ys"
proof
  show "gather xs = Inr ys \<Longrightarrow> xs = map Inr ys"
    by (induction xs arbitrary: ys) (auto split: sum.splits)
qed (use gather_Inr_map [of "\<lambda>y. y" ys] in simp)

lemma states_ok_dput:
  assumes "states_ok d" "cid \<in> set CAPABILITY_IDS" "s \<in> set CAPABILITY_STATES"
  shows "states_ok (dput d cid s)"
  using assms by (auto simp: states_ok_def intro: list_all_dput)

lemma states_ok_get: "states_ok d \<Longrightarrow> dget d cid = Some s \<Longrightarrow> s \<in> set CAPABILITY_STATES"
  by (auto simp: states_ok_def dest: list_all_dget)

lemma expected_of_dput: "expected_of (dput d k s) = dput (expected_of d) k (s \<noteq> ''none'')"
  by (induction d) (auto simp: expected_of_def)

lemma dget_expected_of: "dget (expected_of d) k = map_option (\<lambda>s. s \<noteq> ''none'') (dget d k)"
  by (induction d) (auto simp: expected_of_def)

text \<open>Every value of a block that validates is a state or a block that validates.\<close>

definition valid_value :: "pval \<Rightarrow> bool" where
  "valid_value v \<longleftrightarrow> (case v of
     PDict sub \<Rightarrow> \<exists>fr field path. invalid_state fr field path sub = None
   | _ \<Rightarrow> v \<in> PStr ` set CAPABILITY_STATES)"

lemma valid_entry:
  "invalid_state fr field path caps = None \<Longrightarrow> dget caps k = Some v \<Longrightarrow> valid_value v"
proof (induction caps)
  case (Cons e caps)
  obtain k' v' where e: "e = (k', v')" by fastforce
  show ?case
    using Cons by (cases v'; fastforce simp: e valid_value_def split: if_splits option.splits)
qed simp

lemma lookup_valid:
  "valid_value node \<Longrightarrow> (\<forall>s. found = Some s \<longrightarrow> s \<in> set CAPABILITY_STATES) \<Longrightarrow>
    lookup_from node path found = Some t \<Longrightarrow> t \<in> set CAPABILITY_STATES"
proof (induction path arbitrary: node found)
  case (Cons key path)
  show ?case
  proof (cases node)
    case (PDict d)
    show ?thesis
    proof (cases "sget d key")
      case None
      then show ?thesis using Cons.prems PDict by simp
    next
      case (Some v)
      have v: "valid_value v"
        using Cons.prems(1) PDict Some valid_entry [OF _ Some] unfolding valid_value_def [of node] by auto
      have "\<forall>s. (case v of PStr s \<Rightarrow> Some s | _ \<Rightarrow> found) = Some s \<longrightarrow> s \<in> set CAPABILITY_STATES"
        using v Cons.prems(2) by (cases v) (auto simp: valid_value_def)
      then show ?thesis using Cons.IH [OF v] Cons.prems(3) PDict Some by simp
    qed
  qed (use Cons.prems in simp_all)
qed simp

lemma lookup_capability_valid:
  "invalid_state fr field path caps = None \<Longrightarrow> lookup_capability caps leaf = Some s \<Longrightarrow>
    s \<in> set CAPABILITY_STATES"
  by (rule lookup_valid [of "PDict caps" None leaf])
    (auto simp: lookup_capability_def valid_value_def)

lemma default_state_valid:
  assumes "invalid_state fr f p caps = None" "invalid_state fr f' p' package = None"
    and "default_state caps package = Some s"
  shows "s \<in> set CAPABILITY_STATES"
proof -
  have "sget caps ''default'' = Some (PStr s) \<or> sget package ''default'' = Some (PStr s)"
    using assms(3) by (auto simp: default_state_def cget_def split: pval.splits option.splits)
  then have "valid_value (PStr s)" using assms(1,2) by (auto intro: valid_entry)
  then show ?thesis by (auto simp: valid_value_def)
qed

lemma leaf_state_valid:
  assumes "invalid_state fr f p caps = None" "invalid_state fr f' p' package = None"
    and "leaf_state caps package leaf = Some s"
  shows "s \<in> set CAPABILITY_STATES"
  using assms(3) lookup_capability_valid [OF assms(1)] lookup_capability_valid [OF assms(2)]
    default_state_valid [OF assms(1,2)]
  by (auto simp: leaf_state_def Let_def split: if_splits option.splits)

lemma leaves_registered: "list_all (\<lambda>(cid, path). cid \<in> set CAPABILITY_IDS) capability_leaves"
  by code_simp

lemma resolved_states_ok:
  assumes "resolve_capability_states fr caps package field = Inr states"
  shows "states_ok states"
proof -
  have valid: "invalid_state fr field [] caps = None"
      "invalid_state fr ''default_capabilities'' [] package = None"
    and states: "states = fold (\<lambda>(cid, path) resolved. case leaf_state caps package path of
        None \<Rightarrow> resolved | Some s \<Rightarrow> dput resolved cid s) capability_leaves []"
    using assms by (auto simp: resolve_capability_states_def and_then_Inr validate_capability_block_def
        split: option.splits)
  have "states_ok d \<Longrightarrow> list_all (\<lambda>(cid, path). cid \<in> set CAPABILITY_IDS) ls \<Longrightarrow>
      states_ok (fold (\<lambda>(cid, path) resolved. case leaf_state caps package path of
        None \<Rightarrow> resolved | Some s \<Rightarrow> dput resolved cid s) ls d)" for ls d
  proof (induction ls arbitrary: d)
    case (Cons l ls)
    then show ?case
      by (cases l; cases "leaf_state caps package (snd l)")
        (auto intro!: Cons.IH states_ok_dput leaf_state_valid [OF valid])
  qed simp
  then show ?thesis
    unfolding states using leaves_registered by (simp add: states_ok_def)
qed

lemma provider_name_nonempty: "provider_name entry ip index = Inr n \<Longrightarrow> n \<noteq> []"
  by (auto simp: provider_name_def Let_def split: if_splits)

lemma provider_type_known: "provider_type fr entry block identity index n = Inr t \<Longrightarrow> t \<in> {''file'', ''block''}"
  by (auto simp: provider_type_def Let_def split: if_splits)

lemma build_provider_ok:
  assumes "build_provider fr w path ns vendor package index entry = Inr p"
  shows "provider_ok p"
  using assms
  by (auto simp: build_provider_def Let_def and_then_Inr provider_ok_def split: prod.splits
      intro: resolved_states_ok dest: provider_name_nonempty provider_type_known)

text \<open>The overrides, one surface at a time.\<close>

definition override_step ::
  "(string \<times> bool) list \<Rightarrow> string \<Rightarrow> (string \<times> bool) list \<times> (string \<times> string) list
    \<Rightarrow> (string \<times> bool) list \<times> (string \<times> string) list" where
  "override_step overrides cid maps = (case resolve_capability_override overrides cid of
     None \<Rightarrow> maps
   | Some b \<Rightarrow> (dput (fst maps) cid b, dput (snd maps) cid (override_state (snd maps) cid b)))"

lemma apply_overrides_steps: "apply_overrides overrides maps = fold (override_step overrides) CAPABILITY_IDS maps"
proof -
  have "(\<lambda>cid (expected, states). case resolve_capability_override overrides cid of
       None \<Rightarrow> (expected, states)
     | Some b \<Rightarrow> (dput expected cid b, dput states cid (override_state states cid b)))
     = override_step overrides"
    by (auto simp: fun_eq_iff override_step_def split: option.splits)
  then show ?thesis by (simp add: apply_overrides_def)
qed

lemma override_state_valid: "states_ok states \<Longrightarrow> override_state states cid b \<in> set CAPABILITY_STATES"
  using states_ok_get [of states cid]
  by (cases "dget states cid") (auto simp: override_state_def dgetd_def CAPABILITY_STATES_def)

lemma override_state_none: "override_state states cid b \<noteq> ''none'' \<longleftrightarrow> b"
  by (cases "dget states cid") (auto simp: override_state_def dgetd_def)

lemma override_steps_ok:
  assumes "states_ok (snd maps)" "fst maps = expected_of (snd maps)" "set cids \<subseteq> set CAPABILITY_IDS"
  shows "states_ok (snd (fold (override_step ovs) cids maps))
    \<and> fst (fold (override_step ovs) cids maps) = expected_of (snd (fold (override_step ovs) cids maps))"
  using assms
proof (induction cids arbitrary: maps)
  case (Cons cid cids)
  have "states_ok (snd (override_step ovs cid maps))
      \<and> fst (override_step ovs cid maps) = expected_of (snd (override_step ovs cid maps))"
    using Cons.prems
    by (auto simp: override_step_def expected_of_dput override_state_none split: option.splits
        intro!: states_ok_dput override_state_valid)
  then show ?case using Cons.IH Cons.prems(3) by simp
qed simp

lemma override_steps_get:
  "dget (fst (fold (override_step ovs) cids maps)) cid =
    (if cid \<in> set cids \<and> resolve_capability_override ovs cid \<noteq> None
     then resolve_capability_override ovs cid else dget (fst maps) cid)"
  by (induction cids arbitrary: maps) (auto simp: override_step_def split: option.splits)

lemma apply_instance_ok:
  assumes "apply_instance_config fr cfg p = Inr p'" "provider_ok p"
  shows "provider_ok p' \<and> mp_name p' = mp_name p \<and> mp_api p' = mp_api p"
proof -
  obtain tenant classes ovs where p': "p' = p\<lparr>mp_tenant_id := tenant, mp_storage_classes := classes,
      mp_expected := fst (apply_overrides ovs (mp_expected p, mp_states p)),
      mp_states := snd (apply_overrides ovs (mp_expected p, mp_states p))\<rparr>"
    using assms(1) unfolding apply_instance_config_def by (auto simp: and_then_Inr Let_def)
  show ?thesis
    using override_steps_ok [of "(mp_expected p, mp_states p)" CAPABILITY_IDS ovs] assms(2)
    by (simp add: p' provider_ok_def apply_overrides_steps)
qed

lemma build_providers_ok:
  assumes "build_providers build path index seen entries = Inr ps"
    and "\<And>i d p. build i d = Inr p \<Longrightarrow> provider_ok p"
  shows "list_all provider_ok ps \<and> distinct (map mp_name ps) \<and> set (map mp_name ps) \<inter> set seen = {}"
  using assms(1)
proof (induction entries arbitrary: index seen ps)
  case (Cons e entries)
  obtain d p ps' where "build index d = Inr p" and new: "mp_name p \<notin> set seen"
    and ps': "build_providers build path (Suc index) (mp_name p # seen) entries = Inr ps'" "ps = p # ps'"
    using Cons.prems by (auto simp: and_then_Inr split: pval.splits if_splits)
  then show ?case using Cons.IH [OF ps'(1)] assms(2) by auto
qed simp

lemma manifest_providers_ok:
  "manifest_providers fr w path = Inr ps \<Longrightarrow> list_all provider_ok ps \<and> distinct (map mp_name ps)"
  by (auto simp: manifest_providers_def Let_def and_then_Inr split: if_splits pval.splits
      dest!: build_providers_ok intro: build_provider_ok)

lemma map_Inr_all2: "map f xs = map Inr ys \<longleftrightarrow> list_all2 (\<lambda>x y. f x = Inr y) xs ys"
  by (induction xs arbitrary: ys) (auto simp: Cons_eq_map_conv list_all2_Cons1)

section \<open>Properties\<close>

text \<open>Whatever the manifest and the instance configuration say, a registry that loads is well
  formed: no two providers share a name, and every provider has a name, is of type file or
  block, claims registered capabilities only, each as native, default or none, and expects
  exactly those supported that it does not declare as none.\<close>

theorem registry_invariant:
  assumes "load_provider_registry fr w config = Inr providers"
  shows "distinct (map mp_name providers) \<and> list_all provider_ok providers"
proof (cases "path_setting fr config ''manifest_path'' = []")
  case True
  then show ?thesis using assms by (simp add: load_provider_registry_def)
next
  case False
  then obtain path ps inst where ps: "manifest_providers fr w path = Inr ps"
    and laid: "(case inst of None \<Rightarrow> Inr ps | Some cfg \<Rightarrow> gather (map (apply_instance_config fr cfg) ps))
      = Inr providers"
    using assms by (auto simp: load_provider_registry_def Let_def and_then_Inr)
  have ok: "list_all provider_ok ps" "distinct (map mp_name ps)" using manifest_providers_ok [OF ps] by auto
  show ?thesis
  proof (cases inst)
    case None
    then show ?thesis using laid ok by simp
  next
    case (Some cfg)
    then have "list_all2 (\<lambda>p q. apply_instance_config fr cfg p = Inr q) ps providers"
      using laid by (simp add: gather_Inr map_Inr_all2)
    then have "map mp_name providers = map mp_name ps \<and> list_all provider_ok providers"
      using ok(1) by (induction rule: list_all2_induct) (auto dest: apply_instance_ok)
    then show ?thesis using ok(2) by simp
  qed
qed

definition demo_manifest :: pval where
  "demo_manifest = PDict [(KStr ''schema_version'', PStr ''v1alpha2''),
     (KStr ''default_capabilities'', PDict [(KStr ''volumeManagement'', PStr ''native'')]),
     (KStr ''providers'', PList
       [PDict [(KStr ''name'', PStr ''a''), (KStr ''type'', PStr ''FILE'')],
        PDict [(KStr ''id'', PStr ''b''), (KStr ''type'', PStr ''block''),
          (KStr ''capabilities'', PDict [(KStr ''default'', PStr ''none'')])]])]"

definition demo_instance :: pval where
  "demo_instance = PDict [(KStr ''instance'', PDict [(KStr ''provider'', PDict
     [(KStr ''capabilities'', PDict [(KStr ''volume'', PStr ''disabled''),
        (KStr ''volume.list'', PBool True)])])])]"

definition demo_files :: "unit manifest_world" where
  "demo_files = \<lparr>mw_expand = (\<lambda>p. p), mw_is_file = (\<lambda>p. True),
     mw_yaml = (\<lambda>p. Inr (if p = ''m'' then demo_manifest else demo_instance)),
     mw_sibling_config = (\<lambda>p. ''c''), mw_module = (\<lambda>p m. m), mw_build_api = (\<lambda>p a. Inl ''no module'')\<rparr>"

definition demo_registry :: "unit manifest_provider list" where
  "demo_registry = (case load_provider_registry (\<lambda>r. []) demo_files [(KStr ''manifest_path'', PStr ''m'')] of
     Inl e \<Rightarrow> [] | Inr ps \<Rightarrow> ps)"

theorem registry_invariant_witness:
  "map mp_name demo_registry = [''a'', ''b''] \<and> list_all provider_ok demo_registry"
proof -
  have "case load_provider_registry (\<lambda>r. []) demo_files [(KStr ''manifest_path'', PStr ''m'')] of
      Inl e \<Rightarrow> False | Inr ps \<Rightarrow> map mp_name ps = [''a'', ''b'']"
    by code_simp
  then have load: "load_provider_registry (\<lambda>r. []) demo_files [(KStr ''manifest_path'', PStr ''m'')]
      = Inr demo_registry" and names: "map mp_name demo_registry = [''a'', ''b'']"
    by (auto simp: demo_registry_def split: sum.splits)
  show ?thesis using registry_invariant [OF load] names by simp
qed

text \<open>An instance configuration decides a surface by its most specific entry: the surface's own
  id or else the innermost group that is listed. Enabled and disabled become what the provider
  is expected to support, and a surface that no entry covers stays as the manifest has it.\<close>

theorem instance_entry_wins:
  assumes "apply_instance_config fr [(KStr ''provider'', PDict [(KStr ''capabilities'', PDict raw)])] p = Inr p'"
    and "parse_overrides fr raw [] = Inr overrides" and "cid \<in> set CAPABILITY_IDS"
  shows "dget (mp_expected p') cid =
    (case first_some (dget overrides) (ancestors cid) of
       Some b \<Rightarrow> Some b
     | None \<Rightarrow> dget (mp_expected p) cid)"
  using assms override_steps_get [of overrides CAPABILITY_IDS "(mp_expected p, mp_states p)" cid]
  by (auto simp: apply_instance_config_def and_then_Inr Let_def apply_overrides_steps cget_def
      coerce_mapping_def mo.resolve_ancestors split: option.splits)

definition demo_overrides :: dict where
  "demo_overrides = [(KStr ''quota'', PStr ''disabled''), (KStr ''quota.user.list'', PBool True)]"

definition demo_claims :: "(rat \<Rightarrow> string) \<Rightarrow> unit manifest_provider \<Rightarrow> unit manifest_provider" where
  "demo_claims fr p = (case apply_instance_config fr
       [(KStr ''provider'', PDict [(KStr ''capabilities'', PDict demo_overrides)])] p of
     Inl e \<Rightarrow> p | Inr p' \<Rightarrow> p')"

theorem instance_entry_wins_witness:
  "dget (mp_expected (demo_claims (\<lambda>r. []) (hd demo_registry))) CAP_USER_QUOTA_LIST = Some True"
proof -
  have parsed: "parse_overrides (\<lambda>r. []) demo_overrides [] = Inr [(''quota'', False), (''quota.user.list'', True)]"
    and found: "first_some (dget [(''quota'', False), (''quota.user.list'', True)])
      (ancestors CAP_USER_QUOTA_LIST) = Some True"
    by code_simp+
  have "apply_instance_config (\<lambda>r. []) [(KStr ''provider'', PDict [(KStr ''capabilities'', PDict demo_overrides)])]
      (hd demo_registry) = Inr (demo_claims (\<lambda>r. []) (hd demo_registry))"
    using parsed by (simp add: demo_claims_def apply_instance_config_def cget_def coerce_mapping_def
        coerce_protocols_def Let_def)
  from instance_entry_wins [OF this parsed, of CAP_USER_QUOTA_LIST] show ?thesis
    unfolding found by (simp add: CAPABILITY_IDS_def)
qed

end
