(* ===== verification/Storage_Mock.thy ===== *)
theory Storage_Mock
  imports Storage_Api
begin

text \<open>
  \<open>isvtest.core.storage_provider.mock\<close>: the in-memory reference backend, authored on
  \<open>Implementation\<close>. Its configuration is the record \<open>mock\<close>, its dictionaries the record
  \<open>mock_state\<close>. Each method runs under one lock, so a run is a sequence of calls. The texts
  of \<open>uuid4().hex\<close> and the clock are parameters, indexed by the number of draws so far.

  A user quota is a keyed store (\<open>keyed_store\<close> is interpreted on it).
\<close>

section \<open>Configuration and state\<close>

record mock =
  mk_default_tenant :: string
  mk_tenant_name :: string
  mk_hard_limit_bytes :: int
  mk_healthy :: bool
  mk_backend_metadata :: "version_metadata option"
  mk_qualifiers :: qual_map
  mk_uuid_hex :: "nat \<Rightarrow> string"
  mk_now :: "nat \<Rightarrow> int"

record mock_state =
  ms_volumes :: "(string \<times> volume) list"
  ms_directory_quotas :: "((string \<times> string) \<times> directory_quota list) list"
  ms_user_quotas :: "((string \<times> string) \<times> (string option \<times> user_quota) list) list"
  ms_draws :: nat

definition empty_state :: mock_state where
  "empty_state = \<lparr>ms_volumes = [], ms_directory_quotas = [], ms_user_quotas = [], ms_draws = 0\<rparr>"

definition default_mock_core :: provider_properties where
  "default_mock_core = \<lparr>pp_provider_namespace = ''mock.nvidia.com'', pp_provider_id = ''mock'',
     pp_provider_metadata = \<lparr>vm_vendor_name = ''NVIDIA'', vm_vendor_docs = [], vm_name = ''Mock'',
       vm_version = ''0.1.0'', vm_description = []\<rparr>,
     pp_sdk_version = API_VERSION, pp_storage_type = ''file'', pp_storage_protocols = [''mock''],
     pp_instance_id = [], pp_backend_metadata = None, pp_kubernetes_storage_classes = [],
     pp_capability_list = [], pp_attributes = []\<rparr>"

definition mock_qual :: "mock \<Rightarrow> string \<Rightarrow> string \<Rightarrow> string option \<Rightarrow> string option" where
  "mock_qual m cid key dflt = (case dget (resolve_qualifiers (mk_qualifiers m) cid) key of
     None \<Rightarrow> dflt | Some v \<Rightarrow> Some v)"

definition dir_qual :: "mock \<Rightarrow> string \<Rightarrow> string option \<Rightarrow> string option" where
  "dir_qual m key dflt = mock_qual m CAP_DIRECTORY_QUOTA_SET key dflt"

definition user_qual :: "mock \<Rightarrow> string \<Rightarrow> string option \<Rightarrow> string option" where
  "user_qual m key dflt = mock_qual m CAP_USER_QUOTA_SET key dflt"

text \<open>The constructor refuses the one qualifier value the mock does not implement.\<close>

definition new_mock :: "mock \<Rightarrow> storage_error + mock_state" where
  "new_mock m = (if dir_qual m QUAL_MULTI_PATH_BINDING (Some ''false'') = Some ''true''
     then Inl (PythonError ''NotImplementedError'') else Inr empty_state)"

definition capability_qualifiers :: "mock \<Rightarrow> impl_view \<Rightarrow> impl_view" where
  "capability_qualifiers m view =
    fold (\<lambda>(node, kvs) v. fold (\<lambda>(key, val) v. set_qualifier v node key val) kvs v)
      (mk_qualifiers m) view"

section \<open>Quota limits\<close>

text \<open>\<open>int(value) if value else None\<close>.\<close>

definition mock_granularity :: "string option \<Rightarrow> storage_error + int option" where
  "mock_granularity value = (case value of
     None \<Rightarrow> Inr None
   | Some t \<Rightarrow> if t = [] then Inr None
       else (case py_int t of None \<Rightarrow> Inl (PythonError ''ValueError'') | Some i \<Rightarrow> Inr (Some i)))"

text \<open>Python's \<open>//\<close> rounds down, as \<open>div\<close> does, and raises at zero.\<close>

definition normalize_quota_hard ::
  "quota_limits option \<Rightarrow> int option \<Rightarrow> bool \<Rightarrow> storage_error + quota_limits option" where
  "normalize_quota_hard hard granularity inodes_supported =
    (case hard of
       None \<Rightarrow> Inr None
     | Some h \<Rightarrow>
        (let inodes_value = (if inodes_supported then ql_inodes h else None)
         in case (ql_bytes h, granularity) of
           (Some b, Some g) \<Rightarrow>
              if g = 0 then Inl (PythonError ''ZeroDivisionError'')
              else Inr (Some \<lparr>ql_bytes = Some (((b + g - 1) div g) * g), ql_inodes = inodes_value\<rparr>)
         | _ \<Rightarrow> Inr (Some \<lparr>ql_bytes = ql_bytes h, ql_inodes = inodes_value\<rparr>)))"

definition normalized ::
  "(string \<Rightarrow> string option \<Rightarrow> string option) \<Rightarrow> quota_limits option
    \<Rightarrow> storage_error + quota_limits option" where
  "normalized qual hard =
    (case mock_granularity (qual QUAL_BYTE_GRANULARITY None) of
       Inl e \<Rightarrow> Inl e
     | Inr g \<Rightarrow> normalize_quota_hard hard g (qual QUAL_INODES (Some ''true'') \<noteq> Some ''false''))"

definition tag_matches :: "(string \<times> string) list \<Rightarrow> tag_filter \<Rightarrow> bool" where
  "tag_matches tags f = (case dget tags (tf_key f) of
     None \<Rightarrow> False
   | Some v \<Rightarrow> tf_values f = [] \<or> v \<in> set (tf_values f))"

section \<open>Tenants and volumes\<close>

definition resolve_tenant :: "mock \<Rightarrow> string option \<Rightarrow> storage_error + string" where
  "resolve_tenant m tenant_id =
    (let resolved = (case tenant_id of
         None \<Rightarrow> mk_default_tenant m
       | Some t \<Rightarrow> if t = [] then mk_default_tenant m else t)
     in if resolved \<noteq> mk_default_tenant m
        then Inl (NotFoundError (''tenant '' @ repr_str resolved @ '' not found (mock has only ''
          @ repr_str (mk_default_tenant m) @ '')''))
        else Inr resolved)"

text \<open>\<open>resolved = self._resolve_tenant(t)\<close> before the rest of a method.\<close>

definition for_tenant :: "mock \<Rightarrow> string option \<Rightarrow> (string \<Rightarrow> (mock_state, 'a) effect) \<Rightarrow> (mock_state, 'a) effect" where
  "for_tenant m t body s = (case resolve_tenant m t of Inl e \<Rightarrow> (Inl e, s) | Inr r \<Rightarrow> body r s)"

definition mock_health_check :: "mock \<Rightarrow> (mock_state, unit) effect" where
  "mock_health_check m s =
    (if mk_healthy m then (Inr (), s) else (Inl (AuthenticationError ''mock backend marked unhealthy''), s))"

definition mock_list_tenants :: "mock \<Rightarrow> list_tenants_request \<Rightarrow> (mock_state, reply) effect" where
  "mock_list_tenants m req s =
    (let tenant = \<lparr>t_id = mk_default_tenant m, t_name = Some (mk_tenant_name m), t_attributes = []\<rparr>
     in (Inr (Tenants (if lt_ids req = [] \<or> t_id tenant \<in> set (lt_ids req) then [tenant] else [])), s))"

definition used_bytes :: "mock_state \<Rightarrow> string \<Rightarrow> int" where
  "used_bytes s t = sum_list (map vol_size_bytes
     (filter (\<lambda>v. vol_tenant_id v = t) (map snd (ms_volumes s))))"

definition tenant_quota_of :: "mock \<Rightarrow> string option \<Rightarrow> (mock_state, tenant_quota) effect" where
  "tenant_quota_of m t = for_tenant m t (\<lambda>resolved s.
     (Inr \<lparr>tq_tenant_id = resolved, tq_hard_limit_bytes = mk_hard_limit_bytes m,
        tq_used_bytes = used_bytes s resolved, tq_name = mk_tenant_name m, tq_tier = None,
        tq_id = []\<rparr>, s))"

definition mock_get_tenant_quota :: "mock \<Rightarrow> get_tenant_quota_request \<Rightarrow> (mock_state, reply) effect" where
  "mock_get_tenant_quota m req s = (case tenant_quota_of m (gq_tenant_id req) s of
     (Inl e, s') \<Rightarrow> (Inl e, s') | (Inr q, s') \<Rightarrow> (Inr (TenantQuotaReply q), s'))"

definition mock_list_tenant_quotas :: "mock \<Rightarrow> list_tenant_quotas_request \<Rightarrow> (mock_state, reply) effect" where
  "mock_list_tenant_quotas m req s = (case tenant_quota_of m (ltq_tenant_id req) s of
     (Inl e, s') \<Rightarrow> (Inl e, s') | (Inr q, s') \<Rightarrow> (Inr (TenantQuotas [q]), s'))"

definition mock_create_volume :: "mock \<Rightarrow> create_volume_request \<Rightarrow> (mock_state, reply) effect" where
  "mock_create_volume m req = for_tenant m (cv_tenant_id req) (\<lambda>resolved s.
    (let used = used_bytes s resolved
     in if used + cv_size_bytes req > mk_hard_limit_bytes m
        then (Inl (QuotaExceededError (''create_volume would exceed tenant quota: ''
            @ int_str (used + cv_size_bytes req) @ '' > '' @ int_str (mk_hard_limit_bytes m))), s)
        else
         (let v = \<lparr>vol_tenant_id = resolved,
                vol_id = ''vol-'' @ take 12 (mk_uuid_hex m (ms_draws s)),
                vol_size_bytes = cv_size_bytes req, vol_created_at = mk_now m (ms_draws s),
                vol_type = cv_volume_type req, vol_state = Available, vol_name = cv_name req,
                vol_mount = None, vol_csi = None, vol_tier = cv_tier req,
                vol_tags = (case cv_tags req of None \<Rightarrow> [] | Some tags \<Rightarrow> tags),
                vol_attributes = [], vol_used_bytes = Some 0,
                vol_available_bytes = Some (cv_size_bytes req),
                vol_used_inodes = None, vol_available_inodes = None\<rparr>
          in (Inr (VolumeReply v), s\<lparr>ms_volumes := dput (ms_volumes s) (vol_id v) v,
                ms_draws := Suc (ms_draws s)\<rparr>))))"

definition mock_delete_volume :: "mock \<Rightarrow> delete_volume_request \<Rightarrow> (mock_state, reply) effect" where
  "mock_delete_volume m req = for_tenant m (dv_tenant_id req) (\<lambda>_ s.
    (Inr NoReply, s\<lparr>ms_volumes := ddel (ms_volumes s) (dv_volume_id req)\<rparr>))"

definition mock_list_volumes :: "mock \<Rightarrow> list_volumes_request \<Rightarrow> (mock_state, reply) effect" where
  "mock_list_volumes m req = for_tenant m (lv_tenant_id req) (\<lambda>resolved s.
    (Inr (Volumes (filter (\<lambda>v. vol_tenant_id v = resolved
        \<and> (lv_ids req = [] \<or> vol_id v \<in> set (lv_ids req))
        \<and> list_all (tag_matches (vol_tags v)) (lv_tag_filters req))
      (map snd (ms_volumes s)))), s))"

section \<open>Directory quotas\<close>

definition id_mode :: "mock \<Rightarrow> string option" where
  "id_mode m = dir_qual m QUAL_ID_ASSIGNMENT (Some ''backend'')"

definition natural_key :: "mock \<Rightarrow> directory_quota \<Rightarrow> string option" where
  "natural_key m q = (if id_mode m = Some ''caller'' then dq_id q else dq_path q)"

text \<open>The index of the first element with the property.\<close>

fun first_index :: "('a \<Rightarrow> bool) \<Rightarrow> 'a list \<Rightarrow> nat option" where
  "first_index P [] = None"
| "first_index P (x # xs) = (if P x then Some 0 else map_option Suc (first_index P xs))"

definition mock_set_directory_quota ::
  "mock \<Rightarrow> set_directory_quota_request \<Rightarrow> (mock_state, reply) effect" where
  "mock_set_directory_quota m req = for_tenant m (dq_tenant_id (sdq_quota req)) (\<lambda>resolved s.
    (let quota = sdq_quota req
     in if id_mode m = Some ''caller'' \<and> dq_id quota = None
        then (Inl (ValidationError (''directory quota id is required when id_assignment='' @ quoted ''caller'')), s)
        else if id_mode m = Some ''backend'' \<and> dq_path quota = None
        then (Inl (ValidationError (''directory quota path is required when id_assignment='' @ quoted ''backend'')), s)
        else (case normalized (dir_qual m) (dq_hard quota) of
          Inl e \<Rightarrow> (Inl e, s)
        | Inr new_hard \<Rightarrow>
            (let key = (resolved, dq_volume_id quota);
                 records = dgetd (ms_directory_quotas s) key [];
                 match = first_index (\<lambda>r. natural_key m r = natural_key m quota) records;
                 fresh = id_mode m = Some ''backend'' \<and> dq_id quota = None \<and> match = None;
                 new_id = (if id_mode m = Some ''backend'' \<and> dq_id quota = None
                   then (case match of
                       Some i \<Rightarrow> dq_id (records ! i)
                     | None \<Rightarrow> Some (''dq-'' @ take 8 (mk_uuid_hex m (ms_draws s))))
                   else dq_id quota);
                 stored = quota\<lparr>dq_tenant_id := Some resolved, dq_id := new_id, dq_hard := new_hard,
                   dq_usage := no_usage\<rparr>;
                 records' = (case match of Some i \<Rightarrow> records[i := stored] | None \<Rightarrow> records @ [stored])
             in (Inr (DirectoryQuotaReply stored),
                 s\<lparr>ms_directory_quotas := dput (ms_directory_quotas s) key records',
                   ms_draws := (if fresh then Suc (ms_draws s) else ms_draws s)\<rparr>)))))"

text \<open>The scan of the records to delete: the index of a full match, or the last record that
  agrees on one key.\<close>

fun delete_scan ::
  "string option \<Rightarrow> string option \<Rightarrow> nat \<Rightarrow> directory_quota option \<Rightarrow> directory_quota list
    \<Rightarrow> nat option \<times> directory_quota option" where
  "delete_scan path i n partial [] = (None, partial)"
| "delete_scan path i n partial (r # rs) =
    (if key_agrees path (dq_path r) \<and> key_agrees i (dq_id r) then (Some n, partial)
     else delete_scan path i (Suc n)
       (if path \<noteq> None \<and> i \<noteq> None \<and> (dq_path r = path \<or> dq_id r = i) then Some r else partial) rs)"

definition delete_at :: "nat \<Rightarrow> 'a list \<Rightarrow> 'a list" where
  "delete_at n xs = take n xs @ drop (Suc n) xs"

definition mock_delete_directory_quota ::
  "mock \<Rightarrow> delete_directory_quota_request \<Rightarrow> (mock_state, reply) effect" where
  "mock_delete_directory_quota m req s =
    (if ddq_path req = None \<and> ddq_id req = None
     then (Inl (ValidationError ''delete_directory_quota requires at least one of `path` or `id`''), s)
     else for_tenant m (ddq_tenant_id req) (\<lambda>resolved s.
       (let key = (resolved, ddq_volume_id req);
            records = dgetd (ms_directory_quotas s) key []
        in if records = [] then (Inr NoReply, s)
           else (case delete_scan (ddq_path req) (ddq_id req) 0 None records of
             (Some n, _) \<Rightarrow> (Inr NoReply,
               s\<lparr>ms_directory_quotas := dput (ms_directory_quotas s) key (delete_at n records)\<rparr>)
           | (None, Some p) \<Rightarrow> (Inl (ConflictError
               (''directory quota lookup mismatch on volume '' @ repr_str (ddq_volume_id req)
                @ '': requested path='' @ repr_opt (ddq_path req) @ '', id='' @ repr_opt (ddq_id req)
                @ ''; found path='' @ repr_opt (dq_path p) @ '', id='' @ repr_opt (dq_id p))), s)
           | (None, None) \<Rightarrow> (Inr NoReply, s)))) s)"

definition mock_list_directory_quotas ::
  "mock \<Rightarrow> list_directory_quotas_request \<Rightarrow> (mock_state, reply) effect" where
  "mock_list_directory_quotas m req = for_tenant m (ldq_tenant_id req) (\<lambda>resolved s.
    (Inr (DirectoryQuotas (dgetd (ms_directory_quotas s) (resolved, ldq_volume_id req) [])), s))"

section \<open>User quotas\<close>

definition slot_refused :: "mock \<Rightarrow> string option \<Rightarrow> bool" where
  "slot_refused m user \<longleftrightarrow>
    user = None \<and> user_qual m QUAL_DEFAULT_USER_SLOT (Some ''true'') = Some ''false''"

definition slot_error :: storage_error where
  "slot_error = NotSupportedError ''default-user slot (user=None) not supported by this mock''"

text \<open>\<open>inner = self._user_quotas.setdefault((tenant, volume), {}); inner[user] = quota\<close>.\<close>

definition put_user :: "mock_state \<Rightarrow> string \<times> string \<times> string option \<Rightarrow> user_quota \<Rightarrow> mock_state" where
  "put_user s k q = (case k of (t, vid, user) \<Rightarrow>
     (let quotas = dsetdefault (ms_user_quotas s) (t, vid) []
      in s\<lparr>ms_user_quotas := dput quotas (t, vid) (dput (dgetd quotas (t, vid) []) user q)\<rparr>))"

definition get_user :: "mock_state \<Rightarrow> string \<times> string \<times> string option \<Rightarrow> user_quota option" where
  "get_user s k = (case k of (t, vid, user) \<Rightarrow> dget (dgetd (ms_user_quotas s) (t, vid) []) user)"

definition mock_set_user_quota :: "mock \<Rightarrow> set_user_quota_request \<Rightarrow> (mock_state, reply) effect" where
  "mock_set_user_quota m req s =
    (let quota = suq_quota req
     in if slot_refused m (uq_user quota) then (Inl slot_error, s)
        else for_tenant m (uq_tenant_id quota) (\<lambda>resolved s.
          (case normalized (user_qual m) (uq_hard quota) of
             Inl e \<Rightarrow> (Inl e, s)
           | Inr new_hard \<Rightarrow>
              (let stored = quota\<lparr>uq_tenant_id := Some resolved, uq_hard := new_hard, uq_usage := no_usage\<rparr>
               in (Inr (UserQuotaReply stored),
                   put_user s (resolved, uq_volume_id quota, uq_user quota) stored)))) s)"

definition mock_delete_user_quota :: "mock \<Rightarrow> delete_user_quota_request \<Rightarrow> (mock_state, reply) effect" where
  "mock_delete_user_quota m req s =
    (if slot_refused m (duq_user req) then (Inl slot_error, s)
     else for_tenant m (duq_tenant_id req) (\<lambda>resolved s.
       (case dget (ms_user_quotas s) (resolved, duq_volume_id req) of
          None \<Rightarrow> (Inr NoReply, s)
        | Some inner \<Rightarrow> (Inr NoReply, s\<lparr>ms_user_quotas :=
            dput (ms_user_quotas s) (resolved, duq_volume_id req) (ddel inner (duq_user req))\<rparr>))) s)"

definition mock_list_user_quotas :: "mock \<Rightarrow> list_user_quotas_request \<Rightarrow> (mock_state, reply) effect" where
  "mock_list_user_quotas m req = for_tenant m (luq_tenant_id req) (\<lambda>resolved s.
    (Inr (UserQuotas (map snd (dgetd (ms_user_quotas s) (resolved, luq_volume_id req) []))), s))"

section \<open>The classes\<close>

fun mock_body :: "mock \<Rightarrow> request \<Rightarrow> (mock_state, reply) effect" where
  "mock_body m (ListTenants r) = mock_list_tenants m r"
| "mock_body m (GetTenantQuota r) = mock_get_tenant_quota m r"
| "mock_body m (ListTenantQuotas r) = mock_list_tenant_quotas m r"
| "mock_body m (CreateVolume r) = mock_create_volume m r"
| "mock_body m (DeleteVolume r) = mock_delete_volume m r"
| "mock_body m (ListVolumes r) = mock_list_volumes m r"
| "mock_body m (ListDirectoryQuotas r) = mock_list_directory_quotas m r"
| "mock_body m (SetDirectoryQuota r) = mock_set_directory_quota m r"
| "mock_body m (DeleteDirectoryQuota r) = mock_delete_directory_quota m r"
| "mock_body m (ListUserQuotas r) = mock_list_user_quotas m r"
| "mock_body m (SetUserQuota r) = mock_set_user_quota m r"
| "mock_body m (DeleteUserQuota r) = mock_delete_user_quota m r"
| "mock_body m rq = raises (not_implemented rq)"

text \<open>The methods each class of the hierarchy defines.\<close>

definition CORE_METHODS :: "string list" where
  "CORE_METHODS = [''list_tenants'', ''get_tenant_quota'', ''list_tenant_quotas'', ''create_volume'',
     ''delete_volume'', ''list_volumes'']"
definition DIRECTORY_SET_METHODS :: "string list" where
  "DIRECTORY_SET_METHODS = [''set_directory_quota'', ''delete_directory_quota'']"
definition DIRECTORY_METHODS :: "string list" where
  "DIRECTORY_METHODS = ''list_directory_quotas'' # DIRECTORY_SET_METHODS"
definition USER_SET_METHODS :: "string list" where
  "USER_SET_METHODS = [''set_user_quota'', ''delete_user_quota'']"
definition USER_METHODS :: "string list" where
  "USER_METHODS = ''list_user_quotas'' # USER_SET_METHODS"

definition mock_with :: "mock \<Rightarrow> string list \<Rightarrow> mock_state implementation" where
  "mock_with m names = \<lparr>i_methods = map (\<lambda>n. (n, mock_body m)) names,
     i_health_check = mock_health_check m, i_capability_qualifiers = capability_qualifiers m,
     i_backend_metadata = mk_backend_metadata m\<rparr>"

definition MockStorageApi :: "mock \<Rightarrow> mock_state implementation" where
  "MockStorageApi m = mock_with m (DIRECTORY_METHODS @ USER_METHODS @ CORE_METHODS)"

section \<open>Calls of the mock\<close>

lemmas mock_methods = MockStorageApi_def mock_with_def CORE_METHODS_def DIRECTORY_METHODS_def
  DIRECTORY_SET_METHODS_def USER_METHODS_def USER_SET_METHODS_def

lemma mock_own_call:
  assumes "method_name rq \<in> set (DIRECTORY_METHODS @ USER_METHODS @ CORE_METHODS)"
  shows "own_call (MockStorageApi m) rq = mock_body m rq"
    and "impl_call (MockStorageApi m) rq = mock_body m rq"
proof -
  have "dget (map (\<lambda>n. (n, mock_body m)) names) k = (if k \<in> set names then Some (mock_body m) else None)"
    for names k by (induction names) auto
  then have "dget (i_methods (MockStorageApi m)) (method_name rq) = Some (mock_body m)"
    unfolding MockStorageApi_def mock_with_def implementation.select_convs using assms by metis
  then show "own_call (MockStorageApi m) rq = mock_body m rq"
    "impl_call (MockStorageApi m) rq = mock_body m rq"
    by (simp_all add: own_call_def impl_call_def)
qed

lemma mock_listed: "method_name rq \<in> set (DIRECTORY_METHODS @ USER_METHODS @ CORE_METHODS) \<longleftrightarrow>
    (case rq of GetTenant r \<Rightarrow> False | GetVolume r \<Rightarrow> False | GetDirectoryQuota r \<Rightarrow> False
     | GetUserQuota r \<Rightarrow> False | _ \<Rightarrow> True)"
  by (cases rq) (simp_all add: mock_methods)

lemma mock_getters:
  "impl_call (MockStorageApi m) (GetTenant a) = get_tenant (own_call (MockStorageApi m)) a"
  "impl_call (MockStorageApi m) (GetVolume b) = get_volume (own_call (MockStorageApi m)) b"
  "impl_call (MockStorageApi m) (GetDirectoryQuota c) = get_directory_quota (own_call (MockStorageApi m)) c"
  "impl_call (MockStorageApi m) (GetUserQuota u) = get_user_quota (own_call (MockStorageApi m)) u"
  by (simp_all add: impl_call_def mock_methods)

lemma mock_lists:
  "own_call (MockStorageApi m) (ListTenants a) = mock_list_tenants m a"
  "own_call (MockStorageApi m) (ListVolumes b) = mock_list_volumes m b"
  "own_call (MockStorageApi m) (ListDirectoryQuotas c) = mock_list_directory_quotas m c"
  "own_call (MockStorageApi m) (ListUserQuotas u) = mock_list_user_quotas m u"
  by (simp_all add: mock_own_call(1) [unfolded mock_listed])

lemma resolve_tenant_default: "resolve_tenant m t = Inr r \<Longrightarrow> r = mk_default_tenant m"
  by (auto simp: resolve_tenant_def Let_def split: if_splits option.splits)

lemma resolve_tenant_None [simp]: "resolve_tenant m None = Inr (mk_default_tenant m)"
  by (simp add: resolve_tenant_def)

lemma for_tenant_same:
  "(\<And>r s. snd (body r s) = s) \<Longrightarrow> snd (for_tenant m t body s) = s"
  by (simp add: for_tenant_def split: sum.splits)

section \<open>Stores\<close>

interpretation uq: keyed_store get_user put_user
  by unfold_locales (auto simp: get_user_def put_user_def Let_def dgetd_def split: prod.splits option.splits)

text \<open>What \<open>set_directory_quota\<close> does to the records: the first one with the same key is
  replaced, or the new one goes to the end.\<close>

definition upsert :: "('a \<Rightarrow> bool) \<Rightarrow> 'a list \<Rightarrow> 'a \<Rightarrow> 'a list" where
  "upsert P xs y = (case first_index P xs of Some i \<Rightarrow> xs[i := y] | None \<Rightarrow> xs @ [y])"

lemma upsert_simps [simp]:
  "upsert P [] y = [y]"
  "upsert P (x # xs) y = (if P x then y # xs else x # upsert P xs y)"
  by (auto simp: upsert_def split: option.splits)

lemma find_upsert: "P y \<Longrightarrow> find P (upsert P xs y) = Some y"
  by (induction xs) auto

lemma find_upsert_other:
  "\<not> Q y \<Longrightarrow> (\<And>x. P x \<Longrightarrow> \<not> Q x) \<Longrightarrow> find Q (upsert P xs y) = find Q xs"
  by (induction xs) auto

lemma set_upsert: "x \<in> set (upsert P xs y) \<Longrightarrow> x = y \<or> x \<in> set xs"
  by (induction xs) (auto split: if_splits)

lemma distinct_upsert:
  "distinct (map f xs) \<Longrightarrow> distinct (map f (upsert (\<lambda>r. f r = f y) xs y))"
  by (induction xs) (auto dest!: set_upsert)

lemma set_delete_at: "set (delete_at n xs) \<subseteq> set xs"
  using set_take_subset [of n xs] set_drop_subset [of "Suc n" xs] by (auto simp: delete_at_def)

lemma delete_at_simps [simp]:
  "delete_at n [] = []" "delete_at 0 (x # xs) = xs"
  "delete_at (Suc n) (x # xs) = x # delete_at n xs"
  by (simp_all add: delete_at_def)

lemma distinct_delete_at: "distinct (map f xs) \<Longrightarrow> distinct (map f (delete_at n xs))"
proof (induction xs arbitrary: n)
  case (Cons x xs)
  then show ?case using set_delete_at [of "n - 1" xs] by (cases n) auto
qed simp

section \<open>The invariant of the mock\<close>

fun sizes_ok :: "request \<Rightarrow> bool" where
  "sizes_ok (CreateVolume r) \<longleftrightarrow> 0 \<le> cv_size_bytes r"
| "sizes_ok _ \<longleftrightarrow> True"

definition keyed_modes :: "string option set" where
  "keyed_modes = {Some ''backend'', Some ''caller''}"

definition volumes_inv :: "mock \<Rightarrow> mock_state \<Rightarrow> bool" where
  "volumes_inv m s \<longleftrightarrow> used_bytes s (mk_default_tenant m) \<le> mk_hard_limit_bytes m
    \<and> distinct (dkeys (ms_volumes s))
    \<and> list_all (\<lambda>(k, v). vol_id v = k \<and> vol_tenant_id v = mk_default_tenant m
        \<and> 0 \<le> vol_size_bytes v) (ms_volumes s)"

definition records_ok :: "mock \<Rightarrow> directory_quota list \<Rightarrow> bool" where
  "records_ok m rs \<longleftrightarrow> distinct (map (natural_key m) rs)
    \<and> (if id_mode m \<in> keyed_modes then list_all (\<lambda>r. dq_id r \<noteq> None) rs else True)"

definition directory_inv :: "mock \<Rightarrow> mock_state \<Rightarrow> bool" where
  "directory_inv m s \<longleftrightarrow> list_all (\<lambda>(k, rs). records_ok m rs) (ms_directory_quotas s)"

definition slots_ok :: "(string option \<times> user_quota) list \<Rightarrow> bool" where
  "slots_ok inner \<longleftrightarrow> distinct (dkeys inner) \<and> list_all (\<lambda>(u, q). uq_user q = u) inner"

definition users_inv :: "mock_state \<Rightarrow> bool" where
  "users_inv s \<longleftrightarrow> list_all (\<lambda>(k, inner). slots_ok inner) (ms_user_quotas s)"

definition mock_inv :: "mock \<Rightarrow> mock_state \<Rightarrow> bool" where
  "mock_inv m s \<longleftrightarrow> volumes_inv m s \<and> directory_inv m s \<and> users_inv s"

text \<open>The used bytes after storing and after dropping a volume.\<close>

definition stored_bytes :: "(string \<times> volume) list \<Rightarrow> int" where
  "stored_bytes vs = sum_list (map (vol_size_bytes \<circ> snd) vs)"

lemma stored_bytes_nonneg: "list_all (\<lambda>(k, v). 0 \<le> vol_size_bytes v) vs \<Longrightarrow> 0 \<le> stored_bytes vs"
  by (induction vs) (auto simp: stored_bytes_def)

lemma stored_bytes_dput:
  "list_all (\<lambda>(k, v). 0 \<le> vol_size_bytes v) vs \<Longrightarrow>
    stored_bytes (dput vs k v) \<le> stored_bytes vs + vol_size_bytes v"
  by (induction vs) (auto simp: stored_bytes_def)

lemma stored_bytes_ddel:
  "list_all (\<lambda>(k, v). 0 \<le> vol_size_bytes v) vs \<Longrightarrow> stored_bytes (ddel vs k) \<le> stored_bytes vs"
  by (induction vs) (auto simp: stored_bytes_def)

lemma used_stored:
  "list_all (\<lambda>(k, v). vol_tenant_id v = t) (ms_volumes s) \<Longrightarrow>
    used_bytes s t = stored_bytes (ms_volumes s)"
  by (simp add: used_bytes_def stored_bytes_def filter_True list_all_iff case_prod_beta)

lemma volumes_inv_used:
  "volumes_inv m s \<Longrightarrow> used_bytes s (mk_default_tenant m) = stored_bytes (ms_volumes s)
    \<and> list_all (\<lambda>(k, v). 0 \<le> vol_size_bytes v) (ms_volumes s)"
  by (auto simp: volumes_inv_def list_all_iff intro!: used_stored)

lemma volumes_invI:
  assumes "stored_bytes (ms_volumes s) \<le> mk_hard_limit_bytes m" "distinct (dkeys (ms_volumes s))"
    "list_all (\<lambda>(k, v). vol_id v = k \<and> vol_tenant_id v = mk_default_tenant m
        \<and> 0 \<le> vol_size_bytes v) (ms_volumes s)"
  shows "volumes_inv m s"
proof -
  have "used_bytes s (mk_default_tenant m) = stored_bytes (ms_volumes s)"
    using assms(3) by (intro used_stored) (auto simp: list_all_iff)
  then show ?thesis using assms by (simp add: volumes_inv_def)
qed

lemma volumes_inv_put:
  assumes "volumes_inv m s" "0 \<le> vol_size_bytes v" "vol_tenant_id v = mk_default_tenant m"
    "used_bytes s (mk_default_tenant m) + vol_size_bytes v \<le> mk_hard_limit_bytes m"
  shows "volumes_inv m (s\<lparr>ms_volumes := dput (ms_volumes s) (vol_id v) v, ms_draws := n\<rparr>)"
proof (rule volumes_invI)
  have "stored_bytes (dput (ms_volumes s) (vol_id v) v) \<le> stored_bytes (ms_volumes s) + vol_size_bytes v"
    using volumes_inv_used [OF assms(1)] by (intro stored_bytes_dput) simp
  then show "stored_bytes (ms_volumes (s\<lparr>ms_volumes := dput (ms_volumes s) (vol_id v) v, ms_draws := n\<rparr>))
      \<le> mk_hard_limit_bytes m"
    using volumes_inv_used [OF assms(1)] assms(4) by simp
qed (use assms in \<open>auto simp: volumes_inv_def intro: list_all_dput\<close>)

lemma create_volume_inv:
  assumes "volumes_inv m s" "0 \<le> cv_size_bytes r"
  shows "volumes_inv m (snd (mock_create_volume m r s))"
proof (cases "resolve_tenant m (cv_tenant_id r)")
  case (Inl e)
  then show ?thesis using assms(1) by (simp add: mock_create_volume_def for_tenant_def)
next
  case (Inr t)
  then have t: "t = mk_default_tenant m" by (rule resolve_tenant_default)
  show ?thesis
  proof (cases "used_bytes s t + cv_size_bytes r > mk_hard_limit_bytes m")
    case True
    then show ?thesis using Inr assms(1) by (simp add: mock_create_volume_def for_tenant_def Let_def)
  next
    case False
    then show ?thesis
      unfolding mock_create_volume_def for_tenant_def Inr Let_def
      by (simp only: sum.case if_False snd_conv)
        (rule volumes_inv_put [OF assms(1)], use assms(2) t in simp_all)
  qed
qed

lemma delete_volume_inv:
  assumes "volumes_inv m s"
  shows "volumes_inv m (snd (mock_delete_volume m r s))"
proof (cases "resolve_tenant m (dv_tenant_id r)")
  case (Inl e)
  then show ?thesis using assms by (simp add: mock_delete_volume_def for_tenant_def)
next
  case (Inr t)
  have "stored_bytes (ddel (ms_volumes s) (dv_volume_id r)) \<le> mk_hard_limit_bytes m"
    using volumes_inv_used [OF assms] assms
      stored_bytes_ddel [of "ms_volumes s" "dv_volume_id r"] by (auto simp: volumes_inv_def)
  then show ?thesis
    using assms Inr
    by (intro volumes_invI)
      (auto simp: mock_delete_volume_def for_tenant_def volumes_inv_def distinct_ddel
        intro!: list_all_ddel)
qed

text \<open>What a successful \<open>set_directory_quota\<close> returns and stores.\<close>

definition directory_records :: "mock_state \<Rightarrow> string \<Rightarrow> string \<Rightarrow> directory_quota list" where
  "directory_records s t vid = dgetd (ms_directory_quotas s) (t, vid) []"

lemma first_index_less: "first_index P xs = Some i \<Longrightarrow> i < length xs"
  by (induction xs arbitrary: i) (auto split: if_splits)

definition store_quota :: "mock \<Rightarrow> mock_state \<Rightarrow> directory_quota \<Rightarrow> nat \<Rightarrow> mock_state" where
  "store_quota m s q n = s\<lparr>ms_directory_quotas := dput (ms_directory_quotas s)
       (mk_default_tenant m, dq_volume_id q)
       (upsert (\<lambda>x. natural_key m x = natural_key m q)
         (directory_records s (mk_default_tenant m) (dq_volume_id q)) q),
     ms_draws := n\<rparr>"

definition accepts :: "mock \<Rightarrow> set_directory_quota_request \<Rightarrow> mock_state \<Rightarrow> directory_quota \<Rightarrow> bool" where
  "accepts m r s q \<longleftrightarrow> normalized (dir_qual m) (dq_hard (sdq_quota r)) = Inr (dq_hard q)
    \<and> natural_key m q = natural_key m (sdq_quota r)
    \<and> dq_volume_id q = dq_volume_id (sdq_quota r) \<and> dq_path q = dq_path (sdq_quota r)
    \<and> dq_attributes q = dq_attributes (sdq_quota r) \<and> dq_usage q = no_usage
    \<and> dq_tenant_id q = Some (mk_default_tenant m)
    \<and> (if id_mode m \<in> keyed_modes then natural_key m q \<noteq> None else True)
    \<and> (if id_mode m \<in> keyed_modes
           \<and> list_all (\<lambda>x. dq_id x \<noteq> None) (directory_records s (mk_default_tenant m) (dq_volume_id q))
       then dq_id q \<noteq> None else True)"

lemma set_directory_quota_cases:
  "(\<exists>e. mock_set_directory_quota m r s = (Inl e, s))
    \<or> (\<exists>q n. mock_set_directory_quota m r s = (Inr (DirectoryQuotaReply q), store_quota m s q n)
        \<and> accepts m r s q)"
proof (cases "resolve_tenant m (dq_tenant_id (sdq_quota r))")
  case (Inl e)
  then show ?thesis by (simp add: mock_set_directory_quota_def for_tenant_def)
next
  case (Inr t)
  then have t: "t = mk_default_tenant m" by (rule resolve_tenant_default)
  show ?thesis
  proof (cases "normalized (dir_qual m) (dq_hard (sdq_quota r))")
    case (Inl e)
    then show ?thesis using Inr by (simp add: mock_set_directory_quota_def for_tenant_def Let_def)
  next
    case norm: (Inr hard)
    let ?q = "sdq_quota r"
    let ?rs = "directory_records s t (dq_volume_id ?q)"
    let ?i = "first_index (\<lambda>x. natural_key m x = natural_key m ?q) ?rs"
    let ?backend = "id_mode m = Some ''backend'' \<and> dq_id ?q = None"
    let ?id = "if ?backend then (case ?i of Some i \<Rightarrow> dq_id (?rs ! i)
      | None \<Rightarrow> Some (''dq-'' @ take 8 (mk_uuid_hex m (ms_draws s)))) else dq_id ?q"
    let ?st = "?q\<lparr>dq_tenant_id := Some t, dq_id := ?id, dq_hard := hard, dq_usage := no_usage\<rparr>"
    have nat: "natural_key m ?st = natural_key m ?q" by (auto simp: natural_key_def)
    show ?thesis
    proof (cases "id_mode m = Some ''caller'' \<and> dq_id ?q = None \<or> id_mode m = Some ''backend'' \<and> dq_path ?q = None")
      case True
      then show ?thesis using Inr by (auto simp: mock_set_directory_quota_def for_tenant_def Let_def)
    next
      case False
      have run: "mock_set_directory_quota m r s = (Inr (DirectoryQuotaReply ?st),
          store_quota m s ?st (if ?backend \<and> ?i = None then Suc (ms_draws s) else ms_draws s))"
        using False Inr norm nat t
        by (auto simp: mock_set_directory_quota_def for_tenant_def Let_def directory_records_def upsert_def
            store_quota_def split: option.splits)
      define st where "st = ?st"
      define n where "n = (if ?backend \<and> ?i = None then Suc (ms_draws s) else ms_draws s)"
      have fields: "dq_volume_id st = dq_volume_id ?q" "dq_path st = dq_path ?q" "dq_hard st = hard"
        "dq_attributes st = dq_attributes ?q" "dq_usage st = no_usage" "dq_tenant_id st = Some t"
        by (simp_all add: st_def)
      have key: "if id_mode m \<in> keyed_modes then natural_key m st \<noteq> None else True"
        using False nat by (auto simp: keyed_modes_def natural_key_def st_def)
      have ids: "if id_mode m \<in> keyed_modes \<and> list_all (\<lambda>x. dq_id x \<noteq> None) ?rs then dq_id st \<noteq> None else True"
        using False
        by (auto simp: st_def keyed_modes_def list_all_iff dest!: first_index_less split: option.splits)
      have "accepts m r s st"
        unfolding accepts_def t [symmetric]
        using fields key ids nat norm unfolding st_def [symmetric]
        by (intro conjI) (simp_all only: fields)
      with run show ?thesis unfolding st_def [symmetric] n_def [symmetric] by blast
    qed
  qed
qed

text \<open>Each method writes one of the three dictionaries at most.\<close>

lemma mock_inv_volumes:
  assumes "mock_inv m s" "volumes_inv m s'" "ms_directory_quotas s' = ms_directory_quotas s"
    "ms_user_quotas s' = ms_user_quotas s"
  shows "mock_inv m s'"
  using assms by (simp add: mock_inv_def directory_inv_def users_inv_def)

lemma mock_inv_directory:
  assumes "mock_inv m s" "directory_inv m s'" "ms_volumes s' = ms_volumes s"
    "ms_user_quotas s' = ms_user_quotas s"
  shows "mock_inv m s'"
  using assms by (simp add: mock_inv_def volumes_inv_def used_bytes_def users_inv_def)

lemma mock_inv_users:
  assumes "mock_inv m s" "users_inv s'" "ms_volumes s' = ms_volumes s"
    "ms_directory_quotas s' = ms_directory_quotas s"
  shows "mock_inv m s'"
  using assms by (simp add: mock_inv_def volumes_inv_def used_bytes_def directory_inv_def)

lemma records_ok_Nil [simp]: "records_ok m []"
  by (simp add: records_ok_def)

lemma directory_records_ok: "directory_inv m s \<Longrightarrow> records_ok m (directory_records s t vid)"
  using list_all_dgetd [of "\<lambda>(k, rs). records_ok m rs" "ms_directory_quotas s" "(t, vid)" "[]"]
  by (simp add: directory_records_def directory_inv_def)

lemma records_ok_upsert:
  assumes "records_ok m rs"
    and "if id_mode m \<in> keyed_modes \<and> list_all (\<lambda>x. dq_id x \<noteq> None) rs then dq_id q \<noteq> None else True"
  shows "records_ok m (upsert (\<lambda>x. natural_key m x = natural_key m q) rs q)"
proof -
  have "distinct (map (natural_key m) (upsert (\<lambda>x. natural_key m x = natural_key m q) rs q))"
    using assms(1) by (intro distinct_upsert) (simp add: records_ok_def)
  then show ?thesis
    using assms by (auto simp: records_ok_def list_all_iff dest!: set_upsert split: if_splits)
qed

lemma directory_inv_put:
  "directory_inv m s \<Longrightarrow> records_ok m rs \<Longrightarrow>
    ms_directory_quotas s' = dput (ms_directory_quotas s) k rs \<Longrightarrow> directory_inv m s'"
  by (simp add: directory_inv_def list_all_dput)

lemma set_directory_inv:
  assumes "mock_inv m s"
  shows "mock_inv m (snd (mock_set_directory_quota m r s))"
proof -
  consider (same) "snd (mock_set_directory_quota m r s) = s"
    | (put) q n where "snd (mock_set_directory_quota m r s) = store_quota m s q n" "accepts m r s q"
    by (metis set_directory_quota_cases snd_conv)
  then show ?thesis
  proof cases
    case same
    then show ?thesis using assms by simp
  next
    case put
    have inv: "directory_inv m s" using assms by (simp add: mock_inv_def)
    let ?rs = "directory_records s (mk_default_tenant m) (dq_volume_id q)"
    have "records_ok m ?rs" by (rule directory_records_ok [OF inv])
    moreover have "if id_mode m \<in> keyed_modes \<and> list_all (\<lambda>x. dq_id x \<noteq> None) ?rs
        then dq_id q \<noteq> None else True"
      using put(2) unfolding accepts_def by (elim conjE)
    ultimately have "records_ok m (upsert (\<lambda>x. natural_key m x = natural_key m q) ?rs q)"
      by (rule records_ok_upsert)
    from directory_inv_put [OF inv this]
    show ?thesis unfolding put(1) store_quota_def by (intro mock_inv_directory [OF assms]) simp_all
  qed
qed

lemma delete_directory_cases:
  "snd (mock_delete_directory_quota m r s) = s
    \<or> (\<exists>t n. snd (mock_delete_directory_quota m r s) =
        s\<lparr>ms_directory_quotas := dput (ms_directory_quotas s) (t, ddq_volume_id r)
          (delete_at n (directory_records s t (ddq_volume_id r)))\<rparr>)"
proof (cases "resolve_tenant m (ddq_tenant_id r)")
  case (Inl e)
  then show ?thesis by (simp add: mock_delete_directory_quota_def for_tenant_def)
next
  case (Inr t)
  show ?thesis
  proof (cases "delete_scan (ddq_path r) (ddq_id r) 0 None (directory_records s t (ddq_volume_id r))")
    case (Pair a b)
    then show ?thesis
      using Inr
      by (cases a; cases b)
        (auto simp: mock_delete_directory_quota_def for_tenant_def Let_def directory_records_def)
  qed
qed

lemma delete_directory_inv:
  assumes "mock_inv m s"
  shows "mock_inv m (snd (mock_delete_directory_quota m r s))"
proof -
  have inv: "directory_inv m s" using assms by (simp add: mock_inv_def)
  consider (same) "snd (mock_delete_directory_quota m r s) = s"
    | (put) t n where "snd (mock_delete_directory_quota m r s) =
        s\<lparr>ms_directory_quotas := dput (ms_directory_quotas s) (t, ddq_volume_id r)
          (delete_at n (directory_records s t (ddq_volume_id r)))\<rparr>"
    using delete_directory_cases [of m r s] by blast
  then show ?thesis
  proof cases
    case same
    then show ?thesis using assms by simp
  next
    case put
    have "records_ok m (delete_at n (directory_records s t (ddq_volume_id r)))"
      using directory_records_ok [OF inv, of t "ddq_volume_id r"]
        set_delete_at [of n "directory_records s t (ddq_volume_id r)"]
      by (auto simp: records_ok_def distinct_delete_at list_all_iff split: if_splits)
    from directory_inv_put [OF inv this]
    show ?thesis unfolding put by (intro mock_inv_directory [OF assms]) simp_all
  qed
qed

lemma users_inv_put:
  "users_inv s \<Longrightarrow> slots_ok inner \<Longrightarrow> ms_user_quotas s' = dput (ms_user_quotas s) k inner \<Longrightarrow> users_inv s'"
  by (simp add: users_inv_def list_all_dput)

lemma slots_ok_Nil [simp]: "slots_ok []"
  by (simp add: slots_ok_def)

lemma slots_ok_get: "users_inv s \<Longrightarrow> slots_ok (dgetd (ms_user_quotas s) k [])"
  using list_all_dgetd [of "\<lambda>(k, inner). slots_ok inner" "ms_user_quotas s" k "[]"]
  by (simp add: users_inv_def)

lemma put_user_frame [simp]:
  "ms_volumes (put_user s k q) = ms_volumes s" "ms_directory_quotas (put_user s k q) = ms_directory_quotas s"
  by (auto simp: put_user_def Let_def split: prod.splits)

lemma put_user_inv:
  assumes "users_inv s" "uq_user q = u"
  shows "users_inv (put_user s (t, vid, u) q)"
proof -
  let ?d = "dsetdefault (ms_user_quotas s) (t, vid) []"
  have d: "users_inv (s\<lparr>ms_user_quotas := ?d\<rparr>)"
    using assms(1) by (auto simp: dsetdefault_def users_inv_def slots_ok_def intro!: list_all_dput)
  then have "slots_ok (dgetd ?d (t, vid) [])" using slots_ok_get by fastforce
  then have "slots_ok (dput (dgetd ?d (t, vid) []) u q)"
    using assms(2) by (simp add: slots_ok_def distinct_dput list_all_dput)
  from users_inv_put [OF d this] show ?thesis by (simp add: put_user_def Let_def)
qed

lemma set_user_quota_cases:
  "(\<exists>e. mock_set_user_quota m r s = (Inl e, s))
    \<or> (\<exists>q. mock_set_user_quota m r s =
          (Inr (UserQuotaReply q), put_user s (mk_default_tenant m, uq_volume_id q, uq_user q) q)
        \<and> normalized (user_qual m) (uq_hard (suq_quota r)) = Inr (uq_hard q)
        \<and> uq_user q = uq_user (suq_quota r) \<and> uq_volume_id q = uq_volume_id (suq_quota r)
        \<and> uq_attributes q = uq_attributes (suq_quota r) \<and> uq_usage q = no_usage
        \<and> \<not> slot_refused m (uq_user q))"
proof (cases "slot_refused m (uq_user (suq_quota r))")
  case False
  note slot = False
  show ?thesis
  proof (cases "resolve_tenant m (uq_tenant_id (suq_quota r))")
    case (Inl e)
    then show ?thesis using slot by (simp add: mock_set_user_quota_def for_tenant_def Let_def)
  next
    case (Inr t)
    note t = resolve_tenant_default [OF Inr]
    show ?thesis
    proof (cases "normalized (user_qual m) (uq_hard (suq_quota r))")
      case (Inl e)
      then show ?thesis using slot Inr by (simp add: mock_set_user_quota_def for_tenant_def Let_def)
    next
      case norm: (Inr hard)
      let ?q = "(suq_quota r)\<lparr>uq_tenant_id := Some t, uq_hard := hard, uq_usage := no_usage\<rparr>"
      show ?thesis
        using slot Inr norm t
        by (intro disjI2 exI [of _ ?q]) (simp add: mock_set_user_quota_def for_tenant_def Let_def)
    qed
  qed
qed (simp add: mock_set_user_quota_def Let_def)

lemma set_user_inv:
  assumes "mock_inv m s"
  shows "mock_inv m (snd (mock_set_user_quota m r s))"
proof -
  consider (same) "snd (mock_set_user_quota m r s) = s"
    | (put) t vid q where "snd (mock_set_user_quota m r s) = put_user s (t, vid, uq_user q) q"
    by (metis set_user_quota_cases snd_conv)
  then show ?thesis
  proof cases
    case put
    have "users_inv (put_user s (t, vid, uq_user q) q)"
      using assms by (intro put_user_inv) (simp_all add: mock_inv_def)
    then show ?thesis unfolding put by (intro mock_inv_users [OF assms]) simp_all
  qed (use assms in simp)
qed

lemma delete_user_cases:
  "snd (mock_delete_user_quota m r s) = s
    \<or> (\<exists>k inner. dget (ms_user_quotas s) k = Some inner \<and> snd (mock_delete_user_quota m r s) =
          s\<lparr>ms_user_quotas := dput (ms_user_quotas s) k (ddel inner (duq_user r))\<rparr>)"
proof (cases "resolve_tenant m (duq_tenant_id r)")
  case (Inr t)
  then show ?thesis
    by (cases "dget (ms_user_quotas s) (t, duq_volume_id r)")
      (auto simp: mock_delete_user_quota_def for_tenant_def)
qed (simp add: mock_delete_user_quota_def for_tenant_def)

lemma delete_user_inv:
  assumes "mock_inv m s"
  shows "mock_inv m (snd (mock_delete_user_quota m r s))"
proof -
  have inv: "users_inv s" using assms by (simp add: mock_inv_def)
  consider (same) "snd (mock_delete_user_quota m r s) = s"
    | (put) k inner where "dget (ms_user_quotas s) k = Some inner"
        "snd (mock_delete_user_quota m r s) =
          s\<lparr>ms_user_quotas := dput (ms_user_quotas s) k (ddel inner (duq_user r))\<rparr>"
    using delete_user_cases [of m r s] by blast
  then show ?thesis
  proof cases
    case put
    from slots_ok_get [OF inv, of k] put(1) have "slots_ok (ddel inner (duq_user r))"
      by (simp add: dgetd_def slots_ok_def distinct_ddel list_all_ddel)
    from users_inv_put [OF inv this]
    show ?thesis unfolding put(2) by (intro mock_inv_users [OF assms]) simp_all
  qed (use assms in simp)
qed

text \<open>Reading does not change the state.\<close>

lemma lists_same [simp]:
  "snd (mock_list_tenants m a s) = s" "snd (mock_list_volumes m b s) = s"
  "snd (mock_list_directory_quotas m c s) = s" "snd (mock_list_user_quotas m u s) = s"
  "snd (mock_get_tenant_quota m g s) = s" "snd (mock_list_tenant_quotas m l s) = s"
  by (simp_all add: mock_list_tenants_def Let_def mock_list_volumes_def mock_list_directory_quotas_def
      mock_list_user_quotas_def mock_get_tenant_quota_def mock_list_tenant_quotas_def
      tenant_quota_of_def for_tenant_def split: sum.splits)

lemma snd_reply_case:
  "snd (case p of (Inl e, s') \<Rightarrow> (Inl e, s') | (Inr (Tenants x), s') \<Rightarrow> (f1 x, s')
      | (Inr _, s') \<Rightarrow> (Inl w, s')) = snd p"
  "snd (case p of (Inl e, s') \<Rightarrow> (Inl e, s') | (Inr (Volumes x2), s') \<Rightarrow> (f2 x2, s')
      | (Inr _, s') \<Rightarrow> (Inl w, s')) = snd p"
  "snd (case p of (Inl e, s') \<Rightarrow> (Inl e, s') | (Inr (DirectoryQuotas x3), s') \<Rightarrow> (f3 x3, s')
      | (Inr _, s') \<Rightarrow> (Inl w, s')) = snd p"
  "snd (case p of (Inl e, s') \<Rightarrow> (Inl e, s') | (Inr (UserQuotas x4), s') \<Rightarrow> (f4 x4, s')
      | (Inr _, s') \<Rightarrow> (Inl w, s')) = snd p"
  by (cases p; cases "fst p"; auto split: reply.splits)+

lemma getters_same [simp]:
  "snd (impl_call (MockStorageApi m) (GetTenant a) s) = s"
  "snd (impl_call (MockStorageApi m) (GetVolume b) s) = s"
  "snd (impl_call (MockStorageApi m) (GetDirectoryQuota c) s) = s"
  "snd (impl_call (MockStorageApi m) (GetUserQuota u) s) = s"
  by (simp_all add: mock_getters get_tenant_def get_volume_def get_directory_quota_def
      get_user_quota_def mock_lists snd_reply_case)

lemma mock_call_body:
  "(case rq of GetTenant r \<Rightarrow> False | GetVolume r \<Rightarrow> False | GetDirectoryQuota r \<Rightarrow> False
     | GetUserQuota r \<Rightarrow> False | _ \<Rightarrow> True) \<Longrightarrow> impl_call (MockStorageApi m) rq = mock_body m rq"
  by (rule mock_own_call(2) [unfolded mock_listed])

lemma mock_call_inv:
  assumes "mock_inv m s" "sizes_ok rq"
  shows "mock_inv m (snd (impl_call (MockStorageApi m) rq s))"
proof -
  have c: "mock_inv m (snd (mock_create_volume m r s))" if "0 \<le> cv_size_bytes r" for r
  proof (rule mock_inv_volumes [OF assms(1)])
    show "volumes_inv m (snd (mock_create_volume m r s))"
      using assms(1) that by (intro create_volume_inv) (simp_all add: mock_inv_def)
  qed (simp_all add: mock_create_volume_def for_tenant_def Let_def split: sum.splits)
  have d: "mock_inv m (snd (mock_delete_volume m r s))" for r
  proof (rule mock_inv_volumes [OF assms(1)])
    show "volumes_inv m (snd (mock_delete_volume m r s))"
      using assms(1) by (intro delete_volume_inv) (simp add: mock_inv_def)
  qed (simp_all add: mock_delete_volume_def for_tenant_def split: sum.splits)
  show ?thesis
    using assms c d
    by (cases rq) (simp_all add: mock_call_body set_directory_inv delete_directory_inv set_user_inv
        delete_user_inv)
qed

lemma mock_inv_empty: "0 \<le> mk_hard_limit_bytes m \<Longrightarrow> mock_inv m empty_state"
  by (simp add: mock_inv_def volumes_inv_def directory_inv_def users_inv_def empty_state_def used_bytes_def)

lemma sizes_ok_default: "sizes_ok rq \<Longrightarrow> sizes_ok (with_default_tenant_req rq d)"
  by (cases rq) simp_all

lemma mock_run_inv:
  assumes "serves (new_implementation core (MockStorageApi m) overrides d) sizes_ok empty_state s"
    and "0 \<le> mk_hard_limit_bytes m"
  shows "mock_inv m s"
  by (rule serves_keeps [where I = "mock_inv m", OF assms(1) mock_inv_empty [OF assms(2)]])
    (auto intro: mock_call_inv sizes_ok_default)

section \<open>Looking up what was set\<close>

lemma find_filtered: "dm_full (match_quotas path i p qs) =
    find (\<lambda>q. key_agrees path (dq_path q) \<and> key_agrees i (dq_id q)) qs"
  by (induction path i p qs rule: match_quotas.induct) auto

text \<open>The request that looks a directory quota up by its natural key.\<close>

definition by_key :: "mock \<Rightarrow> string \<Rightarrow> string \<Rightarrow> get_directory_quota_request" where
  "by_key m vid k = (if id_mode m = Some ''caller''
     then \<lparr>gdq_volume_id = vid, gdq_tenant_id = None, gdq_path = None, gdq_id = Some k\<rparr>
     else \<lparr>gdq_volume_id = vid, gdq_tenant_id = None, gdq_path = Some k, gdq_id = None\<rparr>)"

lemma match_one_key:
  "path = None \<or> i = None \<Longrightarrow> dm_partial (match_quotas path i p qs) = p"
  by (induction path i p qs rule: match_quotas.induct) auto

lemma get_by_key:
  "impl_call (MockStorageApi m) (GetDirectoryQuota (by_key m vid k)) s =
    (case find (\<lambda>q. natural_key m q = Some k) (directory_records s (mk_default_tenant m) vid) of
       Some q \<Rightarrow> (Inr (DirectoryQuotaReply q), s)
     | None \<Rightarrow> (fst (get_directory_quota (\<lambda>_ s. (Inr (DirectoryQuotas []), s)) (by_key m vid k) s), s))"
  unfolding mock_getters get_directory_quota_def mock_lists mock_list_directory_quotas_def
  by (simp add: by_key_def for_tenant_def match_directory_quota_def find_filtered match_one_key
      key_agrees_def natural_key_def directory_records_def Let_def split: option.splits)

lemma records_after_store:
  "directory_records (store_quota m s q n) (mk_default_tenant m) vid =
    (if vid = dq_volume_id q
     then upsert (\<lambda>x. natural_key m x = natural_key m q)
       (directory_records s (mk_default_tenant m) vid) q
     else directory_records s (mk_default_tenant m) vid)"
  by (simp add: store_quota_def directory_records_def dgetd_def)

lemma find_after_store:
  "find (\<lambda>x. natural_key m x = Some k) (directory_records (store_quota m s q n) (mk_default_tenant m) vid) =
    (if vid = dq_volume_id q \<and> natural_key m q = Some k then Some q
     else find (\<lambda>x. natural_key m x = Some k) (directory_records s (mk_default_tenant m) vid))"
  unfolding records_after_store
  by (auto intro!: find_upsert find_upsert_other)

lemma find_slot:
  "list_all (\<lambda>(u, q). uq_user q = u) inner \<Longrightarrow> find (\<lambda>q. uq_user q = u) (map snd inner) = dget inner u"
  by (induction inner) auto

definition slot_missing :: "string \<Rightarrow> string option \<Rightarrow> storage_error" where
  "slot_missing vid user = NotFoundError (''user quota not found (volume_id='' @ repr_str vid
     @ '', user='' @ repr_opt user @ '')'')"

lemma get_user_call:
  assumes "users_inv s"
  shows "impl_call (MockStorageApi m)
      (GetUserQuota \<lparr>guq_volume_id = vid, guq_tenant_id = None, guq_user = user\<rparr>) s =
    (case get_user s (mk_default_tenant m, vid, user) of
       Some q \<Rightarrow> (Inr (UserQuotaReply q), s) | None \<Rightarrow> (Inl (slot_missing vid user), s))"
  using slots_ok_get [OF assms, of "(mk_default_tenant m, vid)"]
  unfolding mock_getters get_user_quota_def mock_lists mock_list_user_quotas_def
  by (simp add: for_tenant_def slots_ok_def find_slot get_user_def slot_missing_def split: option.splits)

lemma ceil_rounding:
  assumes "0 < (g :: int)"
  shows "g dvd (b + g - 1) div g * g" "b \<le> (b + g - 1) div g * g" "(b + g - 1) div g * g < b + g"
proof -
  show "g dvd (b + g - 1) div g * g" by simp
  have "(b + g - 1) div g * g = (b + g - 1) - (b + g - 1) mod g"
    by (simp add: minus_mod_eq_div_mult [symmetric])
  moreover have "0 \<le> (b + g - 1) mod g" "(b + g - 1) mod g < g" using assms by simp_all
  ultimately show "b \<le> (b + g - 1) div g * g" "(b + g - 1) div g * g < b + g" by linarith+
qed

section \<open>Properties\<close>

text \<open>C24. Along every run of the served mock that asks for no volume of negative size, the bytes used
  never exceed the tenant's hard limit, no two volumes share an id, no two directory quotas of a
  volume share their natural key, and under the two id-assignment modes of the contract every
  stored record has an id.\<close>

theorem mock_stays_within_quota:
  assumes "serves (new_implementation core (MockStorageApi m) overrides d) sizes_ok empty_state s"
    and "0 \<le> mk_hard_limit_bytes m"
  shows "used_bytes s (mk_default_tenant m) \<le> mk_hard_limit_bytes m
    \<and> distinct (map vol_id (map snd (ms_volumes s)))
    \<and> distinct (map (natural_key m) (directory_records s (mk_default_tenant m) vid))
    \<and> (if id_mode m \<in> {Some ''backend'', Some ''caller''}
       then list_all (\<lambda>r. dq_id r \<noteq> None) (directory_records s (mk_default_tenant m) vid) else True)"
proof -
  have inv: "mock_inv m s" by (rule mock_run_inv [OF assms])
  then have v: "volumes_inv m s" and d: "directory_inv m s" by (simp_all add: mock_inv_def)
  have "map vol_id (map snd (ms_volumes s)) = dkeys (ms_volumes s)"
    using v by (auto simp: volumes_inv_def list_all_iff)
  then have "distinct (map vol_id (map snd (ms_volumes s)))"
    using v by (simp only: volumes_inv_def)
  moreover have "used_bytes s (mk_default_tenant m) \<le> mk_hard_limit_bytes m"
    using v by (simp only: volumes_inv_def)
  ultimately show ?thesis
    using directory_records_ok [OF d, of "mk_default_tenant m" vid]
    unfolding records_ok_def keyed_modes_def by (elim conjE, intro conjI) assumption+
qed

definition demo_mock :: mock where
  "demo_mock = \<lparr>mk_default_tenant = ''t'', mk_tenant_name = ''tenant'', mk_hard_limit_bytes = 10,
     mk_healthy = True, mk_backend_metadata = None,
     mk_qualifiers = [(''quota.directory'', [(''byteGranularity'', ''4'')])],
     mk_uuid_hex = nat_str, mk_now = int\<rparr>"

definition demo_volume :: create_volume_request where
  "demo_volume = \<lparr>cv_size_bytes = 6, cv_volume_type = File, cv_tenant_id = None, cv_name = None,
     cv_tier = None, cv_tags = None\<rparr>"

definition demo_api :: "mock_state provider" where
  "demo_api = new_implementation default_mock_core (MockStorageApi demo_mock) [] ''t''"

definition demo_state :: mock_state where
  "demo_state = snd (p_call demo_api (CreateVolume demo_volume) empty_state)"

text \<open>The first volume fits, the second would not.\<close>

theorem mock_stays_within_quota_witness:
  "used_bytes demo_state ''t'' \<le> 10 \<and> used_bytes demo_state ''t'' = 6
    \<and> snd (p_call demo_api (CreateVolume demo_volume) demo_state) = demo_state"
proof -
  have "serves demo_api sizes_ok empty_state demo_state"
    unfolding demo_state_def by (intro serves.intros) (simp add: demo_volume_def)
  from mock_stays_within_quota [of default_mock_core demo_mock "[]" "''t''" demo_state "[]"] this
  have "used_bytes demo_state ''t'' \<le> 10"
    unfolding demo_api_def by (simp add: demo_mock_def)
  moreover have "used_bytes demo_state ''t'' = 6" by code_simp
  moreover have "snd (p_call demo_api (CreateVolume demo_volume) demo_state) = demo_state" by code_simp
  ultimately show ?thesis by blast
qed

text \<open>A directory quota that was set is what a lookup by its natural key returns from then on, with
  the limits normalised to the backend's rules and the usage cleared; lookups of other keys and
  of other volumes are answered as before.\<close>

theorem directory_quota_roundtrip:
  assumes "impl_call (MockStorageApi m) (SetDirectoryQuota r) s = (Inr (DirectoryQuotaReply q), s')"
    and "natural_key m q = Some k"
  shows "impl_call (MockStorageApi m) (GetDirectoryQuota (by_key m (dq_volume_id q) k)) s'
      = (Inr (DirectoryQuotaReply q), s')
    \<and> normalized (dir_qual m) (dq_hard (sdq_quota r)) = Inr (dq_hard q)
    \<and> natural_key m (sdq_quota r) = Some k \<and> dq_usage q = no_usage
    \<and> dq_attributes q = dq_attributes (sdq_quota r)
    \<and> (if vid = dq_volume_id q \<and> k' = k then True
       else fst (impl_call (MockStorageApi m) (GetDirectoryQuota (by_key m vid k')) s')
          = fst (impl_call (MockStorageApi m) (GetDirectoryQuota (by_key m vid k')) s))"
proof -
  from assms(1) have "mock_set_directory_quota m r s = (Inr (DirectoryQuotaReply q), s')"
    by (simp add: mock_call_body)
  with set_directory_quota_cases [of m r s] obtain n where n: "s' = store_quota m s q n"
    and acc: "accepts m r s q" by auto
  have err: "fst (get_directory_quota (\<lambda>_ s. (Inr (DirectoryQuotas []), s)) (by_key m v x) s1)
      = fst (get_directory_quota (\<lambda>_ s. (Inr (DirectoryQuotas []), s)) (by_key m v x) s2)" for v x s1 s2
    by (simp add: get_directory_quota_def Let_def)
  have frame: "if vid = dq_volume_id q \<and> k' = k then True
    else fst (impl_call (MockStorageApi m) (GetDirectoryQuota (by_key m vid k')) s')
      = fst (impl_call (MockStorageApi m) (GetDirectoryQuota (by_key m vid k')) s)"
  proof (cases "vid = dq_volume_id q \<and> k' = k")
    case False
    then have "find (\<lambda>x. natural_key m x = Some k') (directory_records s' (mk_default_tenant m) vid)
        = find (\<lambda>x. natural_key m x = Some k') (directory_records s (mk_default_tenant m) vid)"
      using assms(2) unfolding n find_after_store by auto
    with False err [of vid k' s' s] show ?thesis
      unfolding get_by_key by (simp split: option.splits)
  qed simp
  have "impl_call (MockStorageApi m) (GetDirectoryQuota (by_key m (dq_volume_id q) k)) s'
      = (Inr (DirectoryQuotaReply q), s')"
    unfolding n get_by_key find_after_store using assms(2) by simp
  with frame acc assms(2) show ?thesis
    unfolding accepts_def by (elim conjE, intro conjI) simp_all
qed

definition demo_quota :: set_directory_quota_request where
  "demo_quota = \<lparr>sdq_quota = \<lparr>dq_tenant_id = None, dq_volume_id = ''v'', dq_path = Some ''/a'', dq_id = None,
     dq_hard = Some \<lparr>ql_bytes = Some 5, ql_inodes = None\<rparr>, dq_usage = no_usage, dq_attributes = []\<rparr>\<rparr>"

definition demo_record :: directory_quota where
  "demo_record = \<lparr>dq_tenant_id = Some ''t'', dq_volume_id = ''v'', dq_path = Some ''/a'',
     dq_id = Some ''dq-0'', dq_hard = Some \<lparr>ql_bytes = Some 8, ql_inodes = None\<rparr>,
     dq_usage = no_usage, dq_attributes = []\<rparr>"

definition demo_after :: mock_state where
  "demo_after = snd (impl_call (MockStorageApi demo_mock) (SetDirectoryQuota demo_quota) empty_state)"

theorem directory_quota_roundtrip_witness:
  "impl_call (MockStorageApi demo_mock) (GetDirectoryQuota (by_key demo_mock ''v'' ''/a'')) demo_after
    = (Inr (DirectoryQuotaReply demo_record), demo_after)"
proof -
  have "impl_call (MockStorageApi demo_mock) (SetDirectoryQuota demo_quota) empty_state
      = (Inr (DirectoryQuotaReply demo_record), demo_after)" by code_simp
  moreover have "natural_key demo_mock demo_record = Some ''/a''" by code_simp
  moreover have "dq_volume_id demo_record = ''v''" by (simp add: demo_record_def)
  ultimately show ?thesis using directory_quota_roundtrip by metis
qed

text \<open>A user quota that was set is what a lookup of the same user returns from then on, the default
  slot included, and lookups of other users and volumes are answered as before; the store keeps
  one record per user.\<close>

theorem user_quota_roundtrip:
  assumes "impl_call (MockStorageApi m) (SetUserQuota r) s = (Inr (UserQuotaReply q), s')"
    and "mock_inv m s"
  shows "impl_call (MockStorageApi m) (GetUserQuota
        \<lparr>guq_volume_id = uq_volume_id (suq_quota r), guq_tenant_id = None,
         guq_user = uq_user (suq_quota r)\<rparr>) s' = (Inr (UserQuotaReply q), s')
    \<and> normalized (user_qual m) (uq_hard (suq_quota r)) = Inr (uq_hard q) \<and> uq_usage q = no_usage
    \<and> (if vid = uq_volume_id (suq_quota r) \<and> u = uq_user (suq_quota r) then True
       else fst (impl_call (MockStorageApi m) (GetUserQuota
              \<lparr>guq_volume_id = vid, guq_tenant_id = None, guq_user = u\<rparr>) s')
          = fst (impl_call (MockStorageApi m) (GetUserQuota
              \<lparr>guq_volume_id = vid, guq_tenant_id = None, guq_user = u\<rparr>) s))"
proof -
  from assms(1) have set: "mock_set_user_quota m r s = (Inr (UserQuotaReply q), s')"
    by (simp add: mock_call_body)
  with set_user_quota_cases [of m r s]
  have s': "s' = put_user s (mk_default_tenant m, uq_volume_id q, uq_user q) q"
    and acc: "normalized (user_qual m) (uq_hard (suq_quota r)) = Inr (uq_hard q)"
      "uq_user q = uq_user (suq_quota r)" "uq_volume_id q = uq_volume_id (suq_quota r)"
      "uq_usage q = no_usage" by auto
  have inv: "users_inv s" "users_inv s'"
    using assms(2) set_user_inv [OF assms(2), of r] set by (simp_all add: mock_inv_def)
  have get: "get_user s' (mk_default_tenant m, v, w) =
      (if v = uq_volume_id (suq_quota r) \<and> w = uq_user (suq_quota r) then Some q
       else get_user s (mk_default_tenant m, v, w))" for v w
    unfolding s' uq.get_put acc by simp
  show ?thesis
    unfolding get_user_call [OF inv(1)] get_user_call [OF inv(2)] get
    using acc by (intro conjI) (simp_all split: option.splits)
qed

definition demo_user :: set_user_quota_request where
  "demo_user = \<lparr>suq_quota = \<lparr>uq_tenant_id = None, uq_volume_id = ''v'', uq_user = Some ''u'',
     uq_hard = None, uq_usage = no_usage, uq_attributes = []\<rparr>\<rparr>"

definition demo_user_record :: user_quota where
  "demo_user_record = (suq_quota demo_user)\<lparr>uq_tenant_id := Some ''t''\<rparr>"

definition demo_user_state :: mock_state where
  "demo_user_state = snd (impl_call (MockStorageApi demo_mock) (SetUserQuota demo_user) empty_state)"

theorem user_quota_roundtrip_witness:
  "impl_call (MockStorageApi demo_mock) (GetUserQuota
      \<lparr>guq_volume_id = ''v'', guq_tenant_id = None, guq_user = Some ''u''\<rparr>) demo_user_state
    = (Inr (UserQuotaReply demo_user_record), demo_user_state)"
proof -
  have "impl_call (MockStorageApi demo_mock) (SetUserQuota demo_user) empty_state
      = (Inr (UserQuotaReply demo_user_record), demo_user_state)" by code_simp
  moreover have "mock_inv demo_mock empty_state"
    by (rule mock_inv_empty) (simp add: demo_mock_def)
  moreover have "uq_volume_id (suq_quota demo_user) = ''v''" "uq_user (suq_quota demo_user) = Some ''u''"
    by (simp_all add: demo_user_def)
  ultimately show ?thesis using user_quota_roundtrip by metis
qed

text \<open>A byte limit is rounded up to the backend's granularity: the stored limit is a multiple of it,
  is not below the limit asked for and less than one granule above it, and storing it again
  changes nothing.\<close>

theorem limit_rounded_up:
  assumes "0 < g" "ql_bytes h = Some b"
    and "normalize_quota_hard (Some h) (Some g) inodes_on = Inr (Some h')"
  shows "\<exists>b'. ql_bytes h' = Some b' \<and> g dvd b' \<and> b \<le> b' \<and> b' < b + g
    \<and> ql_inodes h' = (if inodes_on then ql_inodes h else None)
    \<and> normalize_quota_hard (Some h') (Some g) inodes_on = Inr (Some h')"
proof -
  let ?b = "(b + g - 1) div g * g"
  have h': "h' = \<lparr>ql_bytes = Some ?b, ql_inodes = if inodes_on then ql_inodes h else None\<rparr>"
    using assms by (simp add: normalize_quota_hard_def)
  have "(?b + g - 1) div g * g = ?b"
  proof -
    have "(?b + g - 1) div g = (b + g - 1) div g + (g - 1) div g"
      using assms(1) by (metis add_diff_eq div_mult_self3 add.commute less_irrefl)
    then show ?thesis using assms(1) by (simp add: div_pos_pos_trivial)
  qed
  then show ?thesis
    using ceil_rounding [OF assms(1), of b] assms(1) by (auto simp: h' normalize_quota_hard_def)
qed

theorem limit_rounded_up_witness:
  "\<exists>b'. Some 8192 = Some b' \<and> (4096 :: int) dvd b' \<and> 5000 \<le> b' \<and> b' < 5000 + 4096"
  using limit_rounded_up [of 4096 "\<lparr>ql_bytes = Some 5000, ql_inodes = Some 7\<rparr>" 5000 True
      "\<lparr>ql_bytes = Some 8192, ql_inodes = Some 7\<rparr>"]
  by (simp add: normalize_quota_hard_def)

end
