(* ===== verification/Storage_Conformance.thy ===== *)
theory Storage_Conformance
  imports Storage_Manifest Storage_Mock
begin

text \<open>
  \<open>isvtest.validations.storage_provider\<close>: the check that drives the tenant-level subset of the
  storage contract against every provider of the manifest that has a shim.

  The state of the provider's backend is passed along: a step takes the verdict and that state
  and returns both, with the boolean the code returns or the exception that ends the check. The
  text of an exception of Python's own is the parameter \<open>pt\<close>, and the fresh run id of
  \<open>uuid4\<close> a parameter as well. A reply of another type than the one the method is annotated
  with ends the check with an \<open>AttributeError\<close>. The log lines of a failed clean-up are left out.
\<close>

section \<open>Errors and requests\<close>

fun error_class :: "storage_error \<Rightarrow> string" where
  "error_class (AuthenticationError m) = ''AuthenticationError''"
| "error_class (NotFoundError m) = ''NotFoundError''"
| "error_class (NotSupportedError m) = ''NotSupportedError''"
| "error_class (QuotaExceededError m) = ''QuotaExceededError''"
| "error_class (ValidationError m) = ''ValidationError''"
| "error_class (ConflictError m) = ''ConflictError''"
| "error_class (UnavailableError m) = ''UnavailableError''"
| "error_class (PythonError c) = c"

fun error_text :: "(string \<Rightarrow> string) \<Rightarrow> storage_error \<Rightarrow> string" where
  "error_text pt (AuthenticationError m) = m"
| "error_text pt (NotFoundError m) = m"
| "error_text pt (NotSupportedError m) = m"
| "error_text pt (QuotaExceededError m) = m"
| "error_text pt (ValidationError m) = m"
| "error_text pt (ConflictError m) = m"
| "error_text pt (UnavailableError m) = m"
| "error_text pt (PythonError c) = pt c"

text \<open>\<open>except (NotSupportedError, NotImplementedError)\<close>, and \<open>except NotSupportedError\<close>.\<close>

definition is_sentinel :: "storage_error \<Rightarrow> bool" where
  "is_sentinel e \<longleftrightarrow> error_class e \<in> {''NotSupportedError'', ''NotImplementedError''}"

definition is_unsupported :: "storage_error \<Rightarrow> bool" where
  "is_unsupported e \<longleftrightarrow> (case e of NotSupportedError m \<Rightarrow> True | _ \<Rightarrow> False)"

definition PROBE_ID :: string where "PROBE_ID = ''__isvtest_capability_probe__''"
definition PROBE_PATH :: string where "PROBE_PATH = ''/__isvtest_capability_probe__''"

definition probe_directory_quota :: directory_quota where
  "probe_directory_quota = \<lparr>dq_tenant_id = Some PROBE_ID, dq_volume_id = PROBE_ID,
     dq_path = Some PROBE_PATH, dq_id = None, dq_hard = None, dq_usage = no_usage,
     dq_attributes = []\<rparr>"

definition probe_user_quota :: user_quota where
  "probe_user_quota = \<lparr>uq_tenant_id = Some PROBE_ID, uq_volume_id = PROBE_ID,
     uq_user = Some PROBE_ID, uq_hard = None, uq_usage = no_usage, uq_attributes = []\<rparr>"

definition all_volumes :: request where
  "all_volumes = ListVolumes \<lparr>lv_tenant_id = None, lv_ids = [], lv_tag_filters = []\<rparr>"

definition default_quota :: request where
  "default_quota = GetTenantQuota \<lparr>gq_tenant_id = None, gq_tier = None, gq_id = None\<rparr>"

definition CAPABILITY_PROBES :: "(string \<times> request) list" where
  "CAPABILITY_PROBES =
    [(CAP_TENANT_LIST, ListTenants \<lparr>lt_ids = []\<rparr>),
     (CAP_TENANT_GET, GetTenant \<lparr>gt_tenant_id = None\<rparr>),
     (CAP_TENANT_GET_QUOTA, default_quota),
     (CAP_TENANT_LIST_QUOTAS, ListTenantQuotas \<lparr>ltq_tenant_id = None\<rparr>),
     (CAP_VOLUME_LIST, all_volumes),
     (CAP_VOLUME_GET, GetVolume \<lparr>gv_volume_id = PROBE_ID, gv_tenant_id = None\<rparr>),
     (CAP_DIRECTORY_QUOTA_LIST, ListDirectoryQuotas \<lparr>ldq_volume_id = PROBE_ID, ldq_tenant_id = None\<rparr>),
     (CAP_DIRECTORY_QUOTA_GET, GetDirectoryQuota \<lparr>gdq_volume_id = PROBE_ID, gdq_tenant_id = None,
        gdq_path = Some PROBE_PATH, gdq_id = None\<rparr>),
     (CAP_DIRECTORY_QUOTA_SET, SetDirectoryQuota \<lparr>sdq_quota = probe_directory_quota\<rparr>),
     (CAP_DIRECTORY_QUOTA_DELETE, DeleteDirectoryQuota \<lparr>ddq_volume_id = PROBE_ID, ddq_tenant_id = None,
        ddq_path = Some PROBE_PATH, ddq_id = None\<rparr>),
     (CAP_USER_QUOTA_LIST, ListUserQuotas \<lparr>luq_volume_id = PROBE_ID, luq_tenant_id = None\<rparr>),
     (CAP_USER_QUOTA_GET, GetUserQuota \<lparr>guq_volume_id = PROBE_ID, guq_tenant_id = None,
        guq_user = Some PROBE_ID\<rparr>),
     (CAP_USER_QUOTA_SET, SetUserQuota \<lparr>suq_quota = probe_user_quota\<rparr>),
     (CAP_USER_QUOTA_DELETE, DeleteUserQuota \<lparr>duq_volume_id = PROBE_ID, duq_tenant_id = None,
        duq_user = Some PROBE_ID\<rparr>)]"

section \<open>Manifest against shim\<close>

definition subtest_name :: "string \<Rightarrow> string \<Rightarrow> string" where
  "subtest_name area tag = area @ ''['' @ tag @ '']''"

text \<open>\<open>self.report_subtest(f"area[{tag}]", passed=ok, message=m)\<close>.\<close>

definition report :: "verdict \<Rightarrow> string \<Rightarrow> string \<Rightarrow> bool \<Rightarrow> string \<Rightarrow> verdict" where
  "report v area tag ok m = report_subtest v (subtest_name area tag) ok m False"

definition report_skip :: "verdict \<Rightarrow> string \<Rightarrow> string \<Rightarrow> string \<Rightarrow> verdict" where
  "report_skip v area tag m = report_subtest v (subtest_name area tag) True m True"

definition list_repr :: "string list \<Rightarrow> string" where
  "list_repr xs = py_repr (\<lambda>r. []) (PList (map PStr xs))"

definition raised :: "(string \<Rightarrow> string) \<Rightarrow> string \<Rightarrow> storage_error \<Rightarrow> string" where
  "raised pt call e = call @ '' raised '' @ error_class e @ '': '' @ error_text pt e"

definition type_mismatches :: "'p manifest_provider \<Rightarrow> provider_properties \<Rightarrow> string list" where
  "type_mismatches p props =
    (if pp_storage_type props \<noteq> mp_volume_type p
     then [''storage_type: manifest='' @ repr_str (mp_volume_type p) @ '' != shim.properties()=''
       @ repr_str (pp_storage_type props)]
     else [])"

definition protocol_mismatches :: "'p manifest_provider \<Rightarrow> provider_properties \<Rightarrow> string list" where
  "protocol_mismatches p props =
    (if mp_storage_protocols p = [] then []
     else (let declared = map lower (mp_storage_protocols p);
               advertised = map lower (pp_storage_protocols props);
               missing = filter (\<lambda>x. x \<notin> set advertised) declared
           in if missing = [] then []
              else [''storage_protocols: manifest declares '' @ list_repr (sorted_set declared)
                @ '' but shim advertises '' @ list_repr (sorted_set advertised)
                @ '' (missing '' @ list_repr (sorted_set missing) @ '')'']))"

definition version_mismatches :: "'p manifest_provider \<Rightarrow> provider_properties \<Rightarrow> string list" where
  "version_mismatches p props = (case mp_provider_version p of
     None \<Rightarrow> []
   | Some v \<Rightarrow> if v \<noteq> vm_version (pp_provider_metadata props)
       then [''provider.version: manifest='' @ repr_str v @ '' != shim=''
         @ repr_str (vm_version (pp_provider_metadata props))]
       else [])"

text \<open>The loop over the probes: what the answers contradict, and the state they leave.\<close>

fun probe_mismatches ::
  "(string \<Rightarrow> string) \<Rightarrow> 's provider \<Rightarrow> (string \<times> bool) list \<Rightarrow> (string \<times> request) list \<Rightarrow> 's
    \<Rightarrow> string list \<times> 's" where
  "probe_mismatches pt api expected [] s = ([], s)"
| "probe_mismatches pt api expected ((cid, rq) # probes) s =
    (if dget expected cid \<noteq> Some True then probe_mismatches pt api expected probes s
     else (case p_call api rq s of (answer, s') \<Rightarrow>
       (case probe_mismatches pt api expected probes s' of (ms, t) \<Rightarrow>
         (case answer of
            Inl e \<Rightarrow> if is_sentinel e
              then ((cid @ '': manifest declares supported but the shim raised '' @ error_class e
                @ '' when probed ('' @ error_text pt e @ '')'') # ms, t)
              else (ms, t)
          | Inr _ \<Rightarrow> (ms, t)))))"

text \<open>\<open>props\<close> is what \<open>api.properties()\<close> returns or raises.\<close>

definition exercise_manifest_consistency ::
  "(string \<Rightarrow> string) \<Rightarrow> 'p manifest_provider \<Rightarrow> 's provider \<Rightarrow> storage_error + provider_properties
    \<Rightarrow> verdict \<Rightarrow> 's \<Rightarrow> bool \<times> verdict \<times> 's" where
  "exercise_manifest_consistency pt p api properties v s = (case properties of
     Inl e \<Rightarrow> (False, report v ''manifest-consistency'' (mp_name p) False (raised pt ''properties()'' e), s)
   | Inr props \<Rightarrow>
      (case probe_mismatches pt api (mp_expected p) CAPABILITY_PROBES s of (probed, s') \<Rightarrow>
        (let mismatches = type_mismatches p props @ protocol_mismatches p props
               @ version_mismatches p props @ probed
         in if mismatches \<noteq> []
            then (False, report v ''manifest-consistency'' (mp_name p) False
              (''manifest disagrees with shim: '' @ join ''; '' mismatches), s')
            else (True, report v ''manifest-consistency'' (mp_name p) True
              (''manifest matches shim (type='' @ pp_storage_type props @ '', protocols=''
               @ list_repr (pp_storage_protocols props) @ '', version=''
               @ vm_version (pp_provider_metadata props) @ '')''), s'))))"

section \<open>Volumes and quotas\<close>

definition attribute_error :: exn where
  "attribute_error = CheckError ''AttributeError''"

fun state_text :: "volume_state \<Rightarrow> string" where
  "state_text Creating = ''creating''"
| "state_text Available = ''available''"
| "state_text Failed = ''failed''"
| "state_text Deleting = ''deleting''"

definition volume_type_of :: "string \<Rightarrow> volume_type" where
  "volume_type_of t = (if t = ''block'' then Block else File)"

definition volume_request :: "string \<Rightarrow> string \<Rightarrow> int \<Rightarrow> string \<Rightarrow> request" where
  "volume_request tag run_id nbytes vtype = CreateVolume
     \<lparr>cv_size_bytes = nbytes, cv_volume_type = volume_type_of vtype, cv_tenant_id = None,
      cv_name = Some (''isvtest-'' @ run_id @ ''-'' @ tag), cv_tier = None,
      cv_tags = Some [(''isvtest-run-id'', run_id), (''provider'', tag), (''test-case'', ''N-020'')]\<rparr>"

definition access_text :: "volume \<Rightarrow> string" where
  "access_text vol = (case vol_mount vol of
     Some m \<Rightarrow> ''mount='' @ mt_source m
   | None \<Rightarrow> (case vol_csi vol of
       Some c \<Rightarrow> ''csi='' @ csi_driver c @ ''#'' @ csi_volume_handle c
     | None \<Rightarrow> ''access=n/a''))"

text \<open>The body of the \<open>try\<close> whose \<open>finally\<close> deletes the volume.\<close>

definition judge_volume :: "string \<Rightarrow> bool option \<Rightarrow> volume \<Rightarrow> verdict \<Rightarrow> bool \<times> verdict" where
  "judge_volume tag declared_create vol v =
    (if declared_create = Some False
     then (False, report v ''volume-provisioning'' tag False
       (''manifest volume.create=false but create_volume succeeded (returned volume ''
        @ vol_id vol @ ''; contract violation)''))
     else if vol_state vol \<notin> {Creating, Available}
     then (False, report v ''volume-provisioning'' tag False
       (''create_volume returned volume '' @ vol_id vol @ '' in unexpected state ''
        @ repr_str (state_text (vol_state vol)) @ '' (expected creating/available)''))
     else (True, report v ''volume-provisioning'' tag True
       (''created volume '' @ vol_id vol @ '' (state='' @ state_text (vol_state vol) @ '', ''
        @ access_text vol @ '', size_bytes='' @ int_str (vol_size_bytes vol) @ '')'')))"

text \<open>A shim that leaves provisioning to its CSI driver must show the volumes it has.\<close>

definition observe_volumes ::
  "(string \<Rightarrow> string) \<Rightarrow> 's provider \<Rightarrow> string \<Rightarrow> verdict \<Rightarrow> 's \<Rightarrow> (exn + bool) \<times> verdict \<times> 's" where
  "observe_volumes pt api tag v s = (case p_call api all_volumes s of (answer, s') \<Rightarrow>
     (case answer of
        Inr (Volumes vs) \<Rightarrow> (Inr True, report_skip v ''volume-provisioning'' tag
          (''create_volume not implemented; observed '' @ nat_str (length vs)
           @ '' CSI-provisioned volume(s) via list_volumes()''), s')
      | _ \<Rightarrow> (let e = (case answer of Inl e \<Rightarrow> e | Inr _ \<Rightarrow> wrong_reply)
          in (Inr False, report v ''volume-provisioning'' tag False
            (''create_volume not implemented and '' @ raised pt ''list_volumes()'' e), s'))))"

definition exercise_volume_provisioning ::
  "(string \<Rightarrow> string) \<Rightarrow> 's provider \<Rightarrow> string \<Rightarrow> string \<Rightarrow> int \<Rightarrow> string \<Rightarrow> bool option
    \<Rightarrow> verdict \<Rightarrow> 's \<Rightarrow> (exn + bool) \<times> verdict \<times> 's" where
  "exercise_volume_provisioning pt api tag run_id nbytes vtype declared_create v s =
    (case p_call api (volume_request tag run_id nbytes vtype) s of (answer, s') \<Rightarrow>
      (case answer of
         Inl e \<Rightarrow>
          (if is_unsupported e
           then (if declared_create = Some True
             then (Inr False, report v ''volume-provisioning'' tag False
               ''manifest volume.create=true but create_volume raised NotSupportedError (contract violation)'', s')
             else observe_volumes pt api tag v s')
           else (Inr False, report v ''volume-provisioning'' tag False (raised pt ''create_volume'' e), s'))
       | Inr (VolumeReply vol) \<Rightarrow>
          (case judge_volume tag declared_create vol v of (ok, v') \<Rightarrow>
            (Inr ok, v', snd (p_call api
              (DeleteVolume \<lparr>dv_volume_id = vol_id vol, dv_tenant_id = None\<rparr>) s')))
       | Inr _ \<Rightarrow> (Inl attribute_error, v, s')))"

definition exercise_tenant_quota ::
  "(string \<Rightarrow> string) \<Rightarrow> 's provider \<Rightarrow> string \<Rightarrow> string option \<Rightarrow> verdict \<Rightarrow> 's
    \<Rightarrow> (exn + bool) \<times> verdict \<times> 's" where
  "exercise_tenant_quota pt api tag declared v s =
    (case p_call api default_quota s of (answer, s') \<Rightarrow>
      (case answer of
         Inl e \<Rightarrow> (Inr False, report v ''tenant-quota'' tag False (raised pt ''get_tenant_quota()'' e), s')
       | Inr (TenantQuotaReply q) \<Rightarrow>
          (if declared \<notin> {None, Some []} \<and> declared \<noteq> Some (tq_tenant_id q)
           then (Inr False, report v ''tenant-quota'' tag False
             (''manifest tenant_id='' @ repr_opt declared @ '' != get_tenant_quota().tenant_id=''
              @ repr_str (tq_tenant_id q) @ '' (contract violation)''), s')
           else if tq_hard_limit_bytes q \<le> 0
           then (Inr False, report v ''tenant-quota'' tag False
             (''get_tenant_quota() returned hard_limit_bytes='' @ int_str (tq_hard_limit_bytes q)
              @ '' for tenant '' @ repr_str (tq_tenant_id q) @ '' (expected > 0)''), s')
           else (Inr True, report v ''tenant-quota'' tag True
             (''tenant '' @ repr_str (tq_tenant_id q) @ '' hard_limit_bytes=''
              @ int_str (tq_hard_limit_bytes q) @ '', used_bytes='' @ int_str (tq_used_bytes q)), s'))
       | Inr _ \<Rightarrow> (Inl attribute_error, v, s')))"

section \<open>A provider\<close>

text \<open>The two subtests after authentication; an exception ends the check.\<close>

definition exercise_storage ::
  "(string \<Rightarrow> string) \<Rightarrow> 'p manifest_provider \<Rightarrow> 's provider \<Rightarrow> string \<Rightarrow> int \<Rightarrow> bool \<Rightarrow> verdict \<Rightarrow> 's
    \<Rightarrow> (exn + bool) \<times> verdict \<times> 's" where
  "exercise_storage pt p api run_id nbytes ok v s =
    (case exercise_volume_provisioning pt api (mp_name p) run_id nbytes (mp_volume_type p)
        (dget (mp_expected p) CAP_VOLUME_CREATE) v s of
       (Inl e, v', s') \<Rightarrow> (Inl e, v', s')
     | (Inr volume_ok, v', s') \<Rightarrow>
        (case exercise_tenant_quota pt api (mp_name p) (mp_tenant_id p) v' s' of
           (Inl e, v'', s'') \<Rightarrow> (Inl e, v'', s'')
         | (Inr quota_ok, v'', s'') \<Rightarrow> (Inr (ok \<and> volume_ok \<and> quota_ok), v'', s'')))"

definition exercise_provider ::
  "(string \<Rightarrow> string) \<Rightarrow> 'p manifest_provider \<Rightarrow> 's provider \<Rightarrow> string \<Rightarrow> int \<Rightarrow> verdict \<Rightarrow> 's
    \<Rightarrow> (exn + bool) \<times> verdict \<times> 's" where
  "exercise_provider pt p api run_id nbytes v s =
    (let tag = mp_name p
     in case exercise_manifest_consistency pt p api (Inr (p_properties api)) v s of (ok, v1, s1) \<Rightarrow>
        (case p_health_check api s1 of
           (Inr _, s2) \<Rightarrow> exercise_storage pt p api run_id nbytes ok
             (report v1 ''api-authentication'' tag True ''health_check() ok'') s2
         | (Inl e, s2) \<Rightarrow>
            (case e of
               AuthenticationError m \<Rightarrow>
                (Inr False, report_skip (report_skip
                   (report v1 ''api-authentication'' tag False (raised pt ''health_check()'' e))
                   ''volume-provisioning'' tag ''api-authentication failed; volume-provisioning skipped'')
                   ''tenant-quota'' tag ''api-authentication failed; tenant-quota skipped'', s2)
             | _ \<Rightarrow> exercise_storage pt p api run_id nbytes False
                 (report v1 ''api-authentication'' tag False (raised pt ''health_check()'' e)) s2)))"

section \<open>The check\<close>

text \<open>The providers with a shim in the order of the manifest, each with its own backend; the
  backends' states are one state here, which every shim's calls pass on.\<close>

fun exercise_all ::
  "(string \<Rightarrow> string) \<Rightarrow> string \<Rightarrow> int \<Rightarrow> 's manifest_provider list \<Rightarrow> bool \<Rightarrow> verdict \<Rightarrow> 's
    \<Rightarrow> (exn + bool) \<times> verdict \<times> 's" where
  "exercise_all pt run_id nbytes [] any_failed v s = (Inr any_failed, v, s)"
| "exercise_all pt run_id nbytes (p # ps) any_failed v s = (case mp_api p of
     None \<Rightarrow> exercise_all pt run_id nbytes ps any_failed v s
   | Some api \<Rightarrow> (case exercise_provider pt p api run_id nbytes v s of
       (Inl e, v', s') \<Rightarrow> (Inl e, v', s')
     | (Inr ok, v', s') \<Rightarrow> exercise_all pt run_id nbytes ps (any_failed \<or> \<not> ok) v' s'))"

definition skip_reason :: "'s manifest_provider list \<Rightarrow> string" where
  "skip_reason providers =
    (let rest_only = [mp_name p. p \<leftarrow> providers, mp_shim_kind p = Some ''rest''];
         csi_only = [mp_name p. p \<leftarrow> providers, mp_shim_kind p = None];
         note = (if rest_only = [] then [] else [''REST shims skipped: '' @ join '', '' (sort rest_only)])
           @ (if csi_only = [] then []
              else [''CSI-only providers (no management API to test) skipped: '' @ join '', '' (sort csi_only)])
     in if note = [] then ''No provider in the manifest declares a Python `shim:` block.''
        else ''No provider in the manifest declares a Python `shim:` block; '' @ join ''; '' note)"

definition storage_provider_check ::
  "(rat \<Rightarrow> string) \<Rightarrow> (string \<Rightarrow> string) \<Rightarrow> string \<Rightarrow> 's manifest_world \<Rightarrow> dict \<Rightarrow> verdict \<Rightarrow> 's
    \<Rightarrow> ran \<times> 's" where
  "storage_provider_check fr pt fresh_id w config v s =
    (case load_provider_registry fr w config of
       Inl e \<Rightarrow> (Finished (set_failed v (''Failed to load provider manifest: '' @ e)), s)
     | Inr providers \<Rightarrow>
        (if providers = [] then (SkipRaised ''No provider manifest configured (manifest_path unset)'', s)
         else (let shims = filter has_shim providers
           in if shims = [] then (SkipRaised (skip_reason providers), s)
              else (let run_id = py_str fr (py_or (field_of config ''run_id'') (PStr fresh_id))
                in case int_of (py_or (field_of config ''volume_size_bytes'') (PInt (2 ^ 30))) of
                     None \<Rightarrow> (ExnRaised (CheckError ''volume_size_bytes'') v, s)
                   | Some nbytes \<Rightarrow> (case exercise_all pt run_id nbytes shims False v s of
                       (Inl e, v', s') \<Rightarrow> (ExnRaised e v', s')
                     | (Inr True, v', s') \<Rightarrow> (Finished (set_failed v'
                         ''One or more provider shim subtests failed; see subtest details''), s')
                     | (Inr False, v', s') \<Rightarrow> (Finished (set_passed v'
                         (PStr (''Storage shim verified for '' @ join '', '' (sort (map mp_name shims)) @ '' ''))), s'))))))"

section \<open>What a passing check establishes\<close>

lemma judge_volume_cases: "judge_volume tag declared vol v = (ok, v') \<Longrightarrow> ok \<Longrightarrow> declared \<noteq> Some False"
  by (auto simp: judge_volume_def split: if_splits)

definition volume_agrees :: "'s provider \<Rightarrow> request \<Rightarrow> bool option \<Rightarrow> 's \<Rightarrow> bool" where
  "volume_agrees api rq declared s \<longleftrightarrow> (case fst (p_call api rq s) of
     Inl e \<Rightarrow> is_unsupported e \<and> declared \<noteq> Some True
   | Inr answer \<Rightarrow> declared \<noteq> Some False)"

lemma provisioning_agrees:
  assumes "exercise_volume_provisioning pt api tag run_id n vtype declared v s = (Inr True, v', s')"
  shows "volume_agrees api (volume_request tag run_id n vtype) declared s"
  using assms
  by (auto simp: exercise_volume_provisioning_def volume_agrees_def split: prod.splits sum.splits
      if_splits reply.splits dest: judge_volume_cases)

lemma probes_agree:
  assumes "probe_mismatches pt api expected probes s = ([], t)" "(cid, rq) \<in> set probes"
    and "dget expected cid = Some True"
  shows "\<exists>s'. case fst (p_call api rq s') of Inl e \<Rightarrow> \<not> is_sentinel e | Inr r \<Rightarrow> True"
  using assms(1,2)
proof (induction probes arbitrary: s)
  case (Cons probe probes)
  obtain cid' rq' where probe: "probe = (cid', rq')" by fastforce
  obtain answer s2 where call: "p_call api rq' s = (answer, s2)" by fastforce
  obtain ms t2 where rest: "probe_mismatches pt api expected probes s2 = (ms, t2)" by fastforce
  show ?case
  proof (cases "dget expected cid' = Some True")
    case False
    then show ?thesis using Cons probe assms(3) by auto
  next
    case True
    then have "ms = [] \<and> t2 = t" and here: "case answer of Inl e \<Rightarrow> \<not> is_sentinel e | Inr r \<Rightarrow> True"
      using Cons.prems(1) probe call rest by (auto split: sum.splits if_splits)
    have "\<exists>s'. case fst (p_call api rq' s') of Inl e \<Rightarrow> \<not> is_sentinel e | Inr r \<Rightarrow> True"
      using here call by (intro exI [of _ s]) simp
    then show ?thesis
      using Cons.IH [of s2] rest \<open>ms = [] \<and> t2 = t\<close> Cons.prems(2) probe by auto
  qed
qed simp

text \<open>On a provider composed from an implementation, the gate answers for the advertised state.\<close>

lemma unsupported_answer:
  assumes "surface rq = cid"
    and "node_state (capabilities_of (p_properties (new_implementation core impl ovs d))) cid \<noteq> Supported"
  shows "fst (p_call (new_implementation core impl ovs d) rq s) =
    Inl (gate_error cid (Some (node_state
      (capabilities_of (p_properties (new_implementation core impl ovs d))) cid)))"
proof -
  have "surface_state impl ovs cid \<noteq> Supported"
    using assms surface_registered [of rq] by (simp add: new_implementation_caps advertised_effective)
  then show ?thesis
    using assms surface_registered [of rq]
    by (simp add: new_implementation_call gated_def Let_def state_dict_effective
        new_implementation_caps advertised_effective)
qed

lemma gate_error_unsupported: "is_unsupported (gate_error cid (Some st)) \<longleftrightarrow> st \<noteq> Unavailable"
  by (simp add: gate_error_def is_unsupported_def)

lemma gate_error_sentinel: "is_sentinel (gate_error cid (Some st)) \<longleftrightarrow> st \<noteq> Unavailable"
  by (simp add: gate_error_def is_sentinel_def)

lemma probed_surface: "list_all (\<lambda>(cid, rq). surface rq = cid) CAPABILITY_PROBES"
  by (simp add: CAPABILITY_PROBES_def default_quota_def all_volumes_def)

lemma probed_ids:
  "set CAPABILITY_IDS = set (map fst CAPABILITY_PROBES) \<union> {CAP_VOLUME_CREATE, CAP_VOLUME_DELETE}"
  by (simp add: CAPABILITY_PROBES_def CAPABILITY_IDS_def) blast

lemma consistency_passes:
  assumes "exercise_manifest_consistency pt p api (Inr props) v s = (True, v', s')"
  shows "type_mismatches p props = [] \<and> protocol_mismatches p props = [] \<and> version_mismatches p props = []
    \<and> (\<exists>t. probe_mismatches pt api (mp_expected p) CAPABILITY_PROBES s = ([], t))"
  using assms by (auto simp: exercise_manifest_consistency_def Let_def split: prod.splits if_splits)

lemma provider_passes:
  assumes "exercise_provider pt p api run_id n v s = (Inr True, v', s')"
  shows "\<exists>v1 s1 v2 s2 v3 s3. exercise_manifest_consistency pt p api (Inr (p_properties api)) v s = (True, v1, s1)
    \<and> exercise_volume_provisioning pt api (mp_name p) run_id n (mp_volume_type p)
        (dget (mp_expected p) CAP_VOLUME_CREATE) v2 s2 = (Inr True, v3, s3)
    \<and> fst (exercise_tenant_quota pt api (mp_name p) (mp_tenant_id p) v3 s3) = Inr True"
proof -
  have storage: "\<exists>v3 s3. exercise_volume_provisioning pt api (mp_name p) run_id n (mp_volume_type p)
        (dget (mp_expected p) CAP_VOLUME_CREATE) v2 s2 = (Inr True, v3, s3)
    \<and> fst (exercise_tenant_quota pt api (mp_name p) (mp_tenant_id p) v3 s3) = Inr True \<and> ok"
    if "exercise_storage pt p api run_id n ok v2 s2 = (Inr True, v', s')" for ok v2 s2
    using that by (fastforce simp: exercise_storage_def split: prod.splits sum.splits)
  obtain ok v1 s1 where first:
      "exercise_manifest_consistency pt p api (Inr (p_properties api)) v s = (ok, v1, s1)"
    by (metis prod.collapse)
  have "\<exists>v2 s2. exercise_storage pt p api run_id n ok v2 s2 = (Inr True, v', s')"
    using assms first
    by (auto simp: exercise_provider_def Let_def split: prod.splits sum.splits storage_error.splits
        dest: storage)
  then obtain v2 s2 where "exercise_storage pt p api run_id n ok v2 s2 = (Inr True, v', s')" by blast
  from storage [OF this] obtain v3 s3 where "exercise_volume_provisioning pt api (mp_name p) run_id n
        (mp_volume_type p) (dget (mp_expected p) CAP_VOLUME_CREATE) v2 s2 = (Inr True, v3, s3)"
      "fst (exercise_tenant_quota pt api (mp_name p) (mp_tenant_id p) v3 s3) = Inr True" "ok"
    by blast
  with first show ?thesis by (intro exI conjI) simp_all
qed

text \<open>What a passing quota subtest has read: a positive limit of the tenant the manifest names, if it
  names one.\<close>

definition quota_backs :: "'s provider \<Rightarrow> string option \<Rightarrow> 's \<Rightarrow> bool" where
  "quota_backs api tenant s \<longleftrightarrow> (case fst (p_call api default_quota s) of
     Inr (TenantQuotaReply q) \<Rightarrow>
       0 < tq_hard_limit_bytes q \<and> tenant \<in> {None, Some [], Some (tq_tenant_id q)}
   | _ \<Rightarrow> False)"

lemma quota_passes:
  assumes "fst (exercise_tenant_quota pt api tag tenant v s) = Inr True"
  shows "quota_backs api tenant s"
  using assms
  by (auto simp: exercise_tenant_quota_def quota_backs_def split: prod.splits sum.splits reply.splits if_splits)

section \<open>The mock leaves nothing behind\<close>

lemma answered_state [simp]: "snd (answered f rq s) = snd (f rq s)"
  by (auto simp: answered_def no_reply_def split: prod.splits sum.splits)

lemma call_same:
  assumes "snd (impl_call impl (if d = [] then rq else with_default_tenant_req rq d) s) = s"
  shows "snd (p_call (new_implementation core impl ovs d) rq s) = s"
  using assms by (simp add: new_implementation_call gated_def Let_def)

lemma refused_tenant: "mk_default_tenant m \<noteq> PROBE_ID \<Longrightarrow> snd (for_tenant m (Some PROBE_ID) body s) = s"
  by (simp add: for_tenant_def resolve_tenant_def PROBE_ID_def Let_def)

lemma set_user_refused:
  "mk_default_tenant m \<noteq> PROBE_ID \<Longrightarrow> uq_tenant_id (suq_quota r) = Some PROBE_ID \<Longrightarrow>
    snd (mock_set_user_quota m r s) = s"
  by (simp add: mock_set_user_quota_def Let_def refused_tenant)

lemma delete_directory_absent:
  assumes "dget (ms_directory_quotas s) (mk_default_tenant m, ddq_volume_id r) = None"
  shows "snd (mock_delete_directory_quota m r s) = s"
  using assms by (auto simp: mock_delete_directory_quota_def for_tenant_def dgetd_def Let_def
      split: sum.splits dest: resolve_tenant_default)

lemma delete_user_absent:
  assumes "dget (ms_user_quotas s) (mk_default_tenant m, duq_volume_id r) = None"
  shows "snd (mock_delete_user_quota m r s) = s"
  using assms by (auto simp: mock_delete_user_quota_def for_tenant_def Let_def
      split: sum.splits dest: resolve_tenant_default)

text \<open>No quota record is kept for the volume that the probes name.\<close>

definition no_probe_records :: "mock \<Rightarrow> mock_state \<Rightarrow> bool" where
  "no_probe_records m s \<longleftrightarrow> mk_default_tenant m \<noteq> PROBE_ID
    \<and> \<not> dhas (ms_directory_quotas s) (mk_default_tenant m, PROBE_ID)
    \<and> \<not> dhas (ms_user_quotas s) (mk_default_tenant m, PROBE_ID)"

lemma probes_same:
  assumes "no_probe_records m s"
  shows "list_all (\<lambda>(cid, rq). snd (p_call (new_implementation core (MockStorageApi m) ovs d) rq s) = s)
    CAPABILITY_PROBES"
proof -
  have absent: "dget (ms_directory_quotas s) (mk_default_tenant m, PROBE_ID) = None"
    "dget (ms_user_quotas s) (mk_default_tenant m, PROBE_ID) = None"
    and tenant: "mk_default_tenant m \<noteq> PROBE_ID"
    using assms by (simp_all add: no_probe_records_def)
  have "PROBE_ID \<noteq> []" by (simp add: PROBE_ID_def)
  with tenant absent show ?thesis
    by (simp add: CAPABILITY_PROBES_def call_same mock_call_body delete_directory_absent
        delete_user_absent default_quota_def all_volumes_def probe_directory_quota_def
        probe_user_quota_def or_quota_tenant_def mock_set_directory_quota_def
        set_user_refused refused_tenant)
qed

lemma probe_loop_same:
  "list_all (\<lambda>(cid, rq). snd (p_call api rq s) = s) probes \<Longrightarrow>
    snd (probe_mismatches pt api expected probes s) = s"
  by (induction probes) (auto split: prod.splits sum.splits)

lemma mock_create_cases:
  "(\<exists>e. mock_create_volume m r s = (Inl e, s))
    \<or> (\<exists>vol. mock_create_volume m r s = (Inr (VolumeReply vol), s\<lparr>ms_volumes :=
          dput (ms_volumes s) (vol_id vol) vol, ms_draws := Suc (ms_draws s)\<rparr>)
        \<and> vol_id vol = ''vol-'' @ take 12 (mk_uuid_hex m (ms_draws s))
        \<and> resolve_tenant m (cv_tenant_id r) = Inr (mk_default_tenant m))"
  by (cases "resolve_tenant m (cv_tenant_id r)")
    (auto simp: mock_create_volume_def for_tenant_def Let_def dest: resolve_tenant_default)

lemma created_and_deleted:
  assumes fresh: "\<not> dhas (ms_volumes s) (''vol-'' @ take 12 (mk_uuid_hex m (ms_draws s)))"
    and delete: "is_supported (capabilities_of (p_properties api)) CAP_VOLUME_DELETE"
    and api: "api = new_implementation core (MockStorageApi m) ovs d"
    and created: "p_call api (volume_request tag run_id n vtype) s = (answer, s')"
  shows "(\<exists>e. answer = Inl e \<and> s' = s) \<or> (\<exists>vol. answer = Inr (VolumeReply vol)
    \<and> (snd (p_call api (DeleteVolume \<lparr>dv_volume_id = vol_id vol, dv_tenant_id = None\<rparr>) s'))
        \<lparr>ms_draws := ms_draws s\<rparr> = s)"
proof -
  let ?t = "if d = [] then None else Some d"
  have gate: "dgetd (state_dict (effective_capabilities (MockStorageApi m) ovs)) CAP_VOLUME_DELETE None
      = Some Supported"
    using delete by (simp add: api is_supported_def new_implementation_caps advertised_effective
        state_dict_effective CAPABILITY_IDS_def)
  have deleted: "snd (p_call api (DeleteVolume \<lparr>dv_volume_id = i, dv_tenant_id = None\<rparr>) u) =
      snd (mock_delete_volume m \<lparr>dv_volume_id = i, dv_tenant_id = ?t\<rparr> u)" for i u
    by (simp add: api new_implementation_call gated_def gate Let_def mock_call_body or_tenant_def)
  obtain rq where rq: "volume_request tag run_id n vtype = CreateVolume rq" "cv_tenant_id rq = None"
    by (simp add: volume_request_def)
  let ?r = "if d = [] then rq else rq\<lparr>cv_tenant_id := Some d\<rparr>"
  have r: "cv_tenant_id ?r = ?t" by (simp add: rq)
  have "p_call api (volume_request tag run_id n vtype) s =
      gated (state_dict (effective_capabilities (MockStorageApi m) ovs)) CAP_VOLUME_CREATE
        (mock_create_volume m ?r) s"
    using rq by (simp add: api new_implementation_call answered_def mock_call_body or_tenant_def)
  then consider e where "answer = Inl e" "s' = s"
    | "mock_create_volume m ?r s = (answer, s')"
    using created by (auto simp: gated_def Let_def split: if_splits)
  then show ?thesis
  proof cases
    case 2
    from mock_create_cases [of m ?r s] show ?thesis
    proof
      assume "\<exists>vol. mock_create_volume m ?r s = (Inr (VolumeReply vol), s\<lparr>ms_volumes :=
          dput (ms_volumes s) (vol_id vol) vol, ms_draws := Suc (ms_draws s)\<rparr>)
        \<and> vol_id vol = ''vol-'' @ take 12 (mk_uuid_hex m (ms_draws s))
        \<and> resolve_tenant m (cv_tenant_id ?r) = Inr (mk_default_tenant m)"
      then obtain vol where vol: "answer = Inr (VolumeReply vol)"
          "s' = s\<lparr>ms_volumes := dput (ms_volumes s) (vol_id vol) vol, ms_draws := Suc (ms_draws s)\<rparr>"
          "\<not> dhas (ms_volumes s) (vol_id vol)"
        and t: "resolve_tenant m ?t = Inr (mk_default_tenant m)"
        using 2 fresh unfolding r by auto
      then have "(snd (p_call api (DeleteVolume \<lparr>dv_volume_id = vol_id vol, dv_tenant_id = None\<rparr>) s'))
          \<lparr>ms_draws := ms_draws s\<rparr> = s"
        by (simp add: deleted mock_delete_volume_def for_tenant_def ddel_dput_fresh del: if_split)
      then show ?thesis using vol(1) by blast
    qed (use 2 in auto)
  qed blast
qed

section \<open>Properties\<close>

lemma health_same: "snd (p_health_check (new_implementation core (MockStorageApi m) ovs d) s) = s"
  by (simp add: new_implementation_def Let_def with_default_tenant_def served_provider_def
      MockStorageApi_def mock_with_def mock_health_check_def)

lemma read_same:
  "snd (p_call (new_implementation core (MockStorageApi m) ovs d) default_quota s) = s"
  "snd (p_call (new_implementation core (MockStorageApi m) ovs d) all_volumes s) = s"
  by (simp_all add: call_same default_quota_def all_volumes_def mock_call_body)

lemma observe_state: "snd (snd (observe_volumes pt api tag v s)) = snd (p_call api all_volumes s)"
  by (auto simp: observe_volumes_def Let_def split: prod.splits sum.splits reply.splits)

lemma quota_state: "snd (snd (exercise_tenant_quota pt api tag declared v s)) = snd (p_call api default_quota s)"
  by (auto simp: exercise_tenant_quota_def split: prod.splits sum.splits reply.splits)

lemma consistency_state:
  "snd (snd (exercise_manifest_consistency pt p api (Inr props) v s)) =
    snd (probe_mismatches pt api (mp_expected p) CAPABILITY_PROBES s)"
  by (auto simp: exercise_manifest_consistency_def Let_def split: prod.splits)

lemma provisioning_state:
  assumes "\<not> dhas (ms_volumes s) (''vol-'' @ take 12 (mk_uuid_hex m (ms_draws s)))"
    and "is_supported (capabilities_of (p_properties api)) CAP_VOLUME_DELETE"
    and api: "api = new_implementation core (MockStorageApi m) ovs d"
  shows "(snd (snd (exercise_volume_provisioning pt api tag run_id n vtype declared v s)))
    \<lparr>ms_draws := ms_draws s\<rparr> = s"
proof -
  obtain answer s' where call: "p_call api (volume_request tag run_id n vtype) s = (answer, s')" by fastforce
  from created_and_deleted [OF assms this] consider e where "answer = Inl e" "s' = s"
    | vol where "answer = Inr (VolumeReply vol)"
      "(snd (p_call api (DeleteVolume \<lparr>dv_volume_id = vol_id vol, dv_tenant_id = None\<rparr>) s'))
        \<lparr>ms_draws := ms_draws s\<rparr> = s"
    by blast
  then show ?thesis
  proof cases
    case 1
    then show ?thesis
      by (simp add: exercise_volume_provisioning_def call observe_state read_same [where core = core and m = m and ovs = ovs and d = d, folded api])
  next
    case 2
    then show ?thesis by (simp add: exercise_volume_provisioning_def call split: prod.splits)
  qed
qed

text \<open>C25. A conformance check that passes has compared the manifest with the running shim: storage
  type, version and protocols are the declared ones; the shim answered a quota request with a
  positive limit, for the declared tenant where one is declared; a volume creation claimed
  absent was refused as unsupported, and one claimed present is advertised; and every other claim
  of a supported capability, except volume deletion, meets a surface that is advertised as
  supported or as unavailable for now. What passing does not show: the claim on volume
  deletion, which no subtest tries; the claims of absence other than volume creation's; and the
  manifest's capability qualifiers, which the check never reads.\<close>

theorem passing_check_backs_claims:
  assumes pass: "exercise_provider pt p api run_id n v s = (Inr True, v', s')"
    and api: "api = new_implementation core impl ovs d"
    and caps: "caps = capabilities_of (p_properties api)"
  shows "pp_storage_type core = mp_volume_type p
    \<and> set (map lower (mp_storage_protocols p)) \<subseteq> set (map lower (pp_storage_protocols core))
    \<and> mp_provider_version p \<in> {None, Some (vm_version (pp_provider_metadata core))}
    \<and> (\<exists>t. quota_backs api (mp_tenant_id p) t)
    \<and> (dget (mp_expected p) CAP_VOLUME_CREATE = Some False \<longrightarrow>
        (\<exists>t e. fst (p_call api (volume_request (mp_name p) run_id n (mp_volume_type p)) t) = Inl e
          \<and> is_unsupported e))
    \<and> (dget (mp_expected p) CAP_VOLUME_CREATE = Some True \<longrightarrow> node_state caps CAP_VOLUME_CREATE = Supported)
    \<and> (\<forall>cid \<in> set CAPABILITY_IDS - {CAP_VOLUME_CREATE, CAP_VOLUME_DELETE}.
        dget (mp_expected p) cid = Some True \<longrightarrow> node_state caps cid \<in> {Supported, Unavailable})"
proof -
  obtain v1 s1 v2 s2 v3 s3 where first:
      "exercise_manifest_consistency pt p api (Inr (p_properties api)) v s = (True, v1, s1)"
    and second: "exercise_volume_provisioning pt api (mp_name p) run_id n (mp_volume_type p)
        (dget (mp_expected p) CAP_VOLUME_CREATE) v2 s2 = (Inr True, v3, s3)"
    and third: "fst (exercise_tenant_quota pt api (mp_name p) (mp_tenant_id p) v3 s3) = Inr True"
    using provider_passes [OF pass] by blast
  have identity: "pp_storage_type (p_properties api) = pp_storage_type core"
    "pp_storage_protocols (p_properties api) = pp_storage_protocols core"
    "pp_provider_metadata (p_properties api) = pp_provider_metadata core"
    by (simp_all add: api new_implementation_def Let_def with_default_tenant_def served_provider_def)
  note agreed = consistency_passes [OF first] and volumes = provisioning_agrees [OF second]
  have "set (map lower (mp_storage_protocols p)) \<subseteq> set (map lower (pp_storage_protocols core))"
    using agreed by (auto simp: protocol_mismatches_def identity Let_def filter_empty_conv split: if_splits)
  moreover have "pp_storage_type core = mp_volume_type p"
    using agreed by (simp add: type_mismatches_def identity split: if_splits)
  moreover have "mp_provider_version p \<in> {None, Some (vm_version (pp_provider_metadata core))}"
    using agreed by (auto simp: version_mismatches_def identity split: option.splits if_splits)
  moreover have "\<exists>t. quota_backs api (mp_tenant_id p) t"
    using quota_passes [OF third] by blast
  moreover have "\<exists>t e. fst (p_call api (volume_request (mp_name p) run_id n (mp_volume_type p)) t) = Inl e
      \<and> is_unsupported e" if "dget (mp_expected p) CAP_VOLUME_CREATE = Some False"
    using volumes that unfolding volume_agrees_def by (auto split: sum.splits)
  moreover have "node_state caps CAP_VOLUME_CREATE = Supported"
    if "dget (mp_expected p) CAP_VOLUME_CREATE = Some True"
  proof (rule ccontr)
    obtain rq where rq: "volume_request (mp_name p) run_id n (mp_volume_type p) = CreateVolume rq"
      by (simp add: volume_request_def)
    assume "node_state caps CAP_VOLUME_CREATE \<noteq> Supported"
    then show False
      using volumes that unsupported_answer [of "CreateVolume rq" CAP_VOLUME_CREATE core impl ovs d s2]
      by (simp add: volume_agrees_def rq caps api)
  qed
  moreover have "node_state caps cid \<in> {Supported, Unavailable}"
    if claim: "cid \<in> set CAPABILITY_IDS - {CAP_VOLUME_CREATE, CAP_VOLUME_DELETE}"
      "dget (mp_expected p) cid = Some True" for cid
  proof -
    obtain rq where probe: "(cid, rq) \<in> set CAPABILITY_PROBES"
      using claim(1) by (auto simp: probed_ids)
    then have "surface rq = cid" using probed_surface by (auto simp: list_all_iff)
    moreover obtain t where t: "probe_mismatches pt api (mp_expected p) CAPABILITY_PROBES s = ([], t)"
      using agreed by blast
    moreover obtain s2 where "case fst (p_call api rq s2) of Inl e \<Rightarrow> \<not> is_sentinel e | Inr r \<Rightarrow> True"
      using probes_agree [OF t probe claim(2)] by blast
    ultimately show ?thesis
      using unsupported_answer [of rq cid core impl ovs d s2] claim(1)
      by (cases "node_state caps cid = Supported") (auto simp: caps api gate_error_sentinel)
  qed
  ultimately show ?thesis by blast
qed

definition demo_claim :: "(string \<times> bool) list \<Rightarrow> unit manifest_provider" where
  "demo_claim expected = \<lparr>mp_name = ''p'', mp_volume_type = ''file'', mp_tenant_id = Some ''t'',
     mp_provider_namespace = None, mp_provider_id = None, mp_provider_version = Some ''0.1.0'',
     mp_storage_protocols = [''MOCK''], mp_vendor = [], mp_backend = [], mp_sdk_version = None,
     mp_expected = expected, mp_states = [], mp_qualifiers = [], mp_attributes = [],
     mp_storage_classes = [], mp_shim_kind = None, mp_api = None\<rparr>"

text \<open>A shim that can create volumes and not delete them.\<close>

definition demo_shim :: "unit provider" where
  "demo_shim = new_implementation default_mock_core
     \<lparr>i_methods =
        [(''create_volume'', \<lambda>rq s. (Inr (VolumeReply \<lparr>vol_tenant_id = ''t'', vol_id = ''v'',
            vol_size_bytes = 1, vol_created_at = 0, vol_type = File, vol_state = Creating,
            vol_name = None, vol_mount = None, vol_csi = None, vol_tier = None, vol_tags = [],
            vol_attributes = [], vol_used_bytes = None, vol_available_bytes = None,
            vol_used_inodes = None, vol_available_inodes = None\<rparr>), s)),
         (''get_tenant_quota'', \<lambda>rq s. (Inr (TenantQuotaReply \<lparr>tq_tenant_id = ''t'',
            tq_hard_limit_bytes = 5, tq_used_bytes = 0, tq_name = [], tq_tier = None, tq_id = []\<rparr>), s))],
      i_health_check = (\<lambda>s. (Inr (), s)), i_capability_qualifiers = (\<lambda>v. v),
      i_backend_metadata = None\<rparr> [] []"

definition demo_pass :: "(exn + bool) \<times> verdict \<times> unit" where
  "demo_pass = exercise_provider (\<lambda>c. []) (demo_claim [(CAP_VOLUME_CREATE, True),
     (CAP_TENANT_GET_QUOTA, True), (CAP_VOLUME_DELETE, True)]) demo_shim ''r'' 1 fresh_verdict ()"

lemma demo_passes: "fst demo_pass = Inr True"
  by code_simp

text \<open>The claim on volume deletion is the one that no subtest enforces: the check of the shim above
  passes although its manifest claims it.\<close>

lemma delete_claim_not_enforced:
  "fst demo_pass = Inr True
    \<and> node_state (capabilities_of (p_properties demo_shim)) CAP_VOLUME_DELETE = Unimplemented"
  using demo_passes by (intro conjI) (assumption, code_simp)

theorem passing_check_backs_claims_witness:
  "node_state (capabilities_of (p_properties demo_shim)) CAP_VOLUME_CREATE = Supported
    \<and> (\<exists>t. quota_backs demo_shim (Some ''t'') t)"
proof -
  obtain v' s' where "demo_pass = (Inr True, v', s')"
    using demo_passes by (metis prod.collapse)
  from passing_check_backs_claims [OF this [unfolded demo_pass_def] demo_shim_def refl]
  show ?thesis by (simp add: demo_claim_def)
qed

text \<open>C26. A conformance run leaves no trace in the mock's backend, whatever the manifest claims and
  whatever fails on the way: volumes and quotas are afterwards what they were before. The
  mutating probes are refused or find nothing, and the created volume is deleted again, provided
  deletion is supported, the fresh volume id is new, and no record is stored under the probes'
  own identifiers.\<close>

theorem check_leaves_no_trace:
  assumes "\<not> dhas (ms_volumes s) (''vol-'' @ take 12 (mk_uuid_hex m (ms_draws s)))"
    and "is_supported (capabilities_of (p_properties api)) CAP_VOLUME_DELETE"
    and api: "api = new_implementation core (MockStorageApi m) ovs d"
    and "no_probe_records m s"
  shows "(snd (snd (exercise_provider pt p api run_id n v s)))\<lparr>ms_draws := ms_draws s\<rparr> = s"
proof -
  obtain ok v1 s1 where first:
      "exercise_manifest_consistency pt p api (Inr (p_properties api)) v s = (ok, v1, s1)"
    by (metis prod.collapse)
  then have "s1 = s"
    using consistency_state [of pt p api "p_properties api" v s]
      probe_loop_same [OF probes_same [OF assms(4), of core ovs d], folded api] by (simp add: first)
  have storage: "(snd (snd (exercise_storage pt p api run_id n ok v s)))\<lparr>ms_draws := ms_draws s\<rparr> = s" for ok v
  proof -
    obtain r v2 s2 where prov: "exercise_volume_provisioning pt api (mp_name p) run_id n (mp_volume_type p)
        (dget (mp_expected p) CAP_VOLUME_CREATE) v s = (r, v2, s2)"
      by (metis prod.collapse)
    then have "s2\<lparr>ms_draws := ms_draws s\<rparr> = s"
      using provisioning_state [OF assms(1-3)] by (metis snd_conv)
    moreover have "snd (snd (exercise_tenant_quota pt api (mp_name p) (mp_tenant_id p) v2 s2)) = s2"
      unfolding quota_state unfolding api by (rule read_same)
    ultimately show ?thesis
      by (cases r) (auto simp: exercise_storage_def prov split: prod.splits sum.splits)
  qed
  have "snd (p_health_check api s) = s" unfolding api by (rule health_same)
  then show ?thesis
    using \<open>s1 = s\<close> storage
    by (cases "p_health_check api s")
      (auto simp: exercise_provider_def Let_def first split: sum.splits storage_error.splits)
qed

theorem check_leaves_no_trace_witness:
  "(snd (snd (exercise_provider (\<lambda>c. []) (demo_claim [(CAP_USER_QUOTA_SET, True)]) demo_api ''r'' 3
      fresh_verdict demo_state)))\<lparr>ms_draws := ms_draws demo_state\<rparr> = demo_state
    \<and> length (ms_volumes demo_state) = 1"
proof -
  have "\<not> dhas (ms_volumes demo_state) (''vol-'' @ take 12 (mk_uuid_hex demo_mock (ms_draws demo_state)))"
    "is_supported (capabilities_of (p_properties demo_api)) CAP_VOLUME_DELETE"
    "no_probe_records demo_mock demo_state" "length (ms_volumes demo_state) = 1"
    by code_simp+
  then show ?thesis using check_leaves_no_trace [OF _ _ demo_api_def] by blast
qed

end
