(* ===== verification/Junit_Reader.thy ===== *)
theory Junit_Reader
  imports Junit_Report
begin

text \<open>
  \<open>isvreporter.junit_parser\<close>: the reader of the report file whose results are uploaded, and the
  payload built from them.

  A file is absent, no XML, or an element; \<open>Inl\<close> is the exception that the reader raises. Times
  are rationals in decimal notation, as in \<open>Junit_Report\<close>. The lemmas follow a report from the
  files of the phases through merging to what the reader makes of it.
\<close>

section \<open>Results\<close>

datatype read_error = NoSuchReport | ParseFailure | BadNumber string

record test_result =
  tr_name :: string
  tr_classname :: string
  tr_duration_seconds :: rat
  tr_status :: string
  tr_error_message :: "string option"
  tr_error_type :: "string option"
  tr_error_details :: "string option"
  tr_system_out :: "string option"
  tr_system_err :: "string option"

record test_suite =
  ts_name :: string
  ts_tests :: int
  ts_failures :: int
  ts_errors :: int
  ts_skipped :: int
  ts_duration_seconds :: rat
  ts_timestamp :: "string option"
  ts_hostname :: "string option"

record junit_report =
  jr_suites :: "test_suite list"
  jr_results :: "test_result list"
  jr_total_tests :: int
  jr_total_failures :: int
  jr_total_errors :: int
  jr_total_skipped :: int
  jr_total_duration_seconds :: rat

section \<open>Reading\<close>

text \<open>\<open>elem.get(k, dflt)\<close>, \<open>elem.find(tag)\<close> and \<open>doc.findall(".//testsuite")\<close>.\<close>

definition xget_or :: "xml \<Rightarrow> string \<Rightarrow> string \<Rightarrow> string" where
  "xget_or x k dflt = (case xget x k of None \<Rightarrow> dflt | Some v \<Rightarrow> v)"

definition find_kid :: "xml \<Rightarrow> string \<Rightarrow> xml option" where
  "find_kid x tag = find (\<lambda>k. xml_tag k = tag) (xml_kids x)"

fun inner_suites :: "xml \<Rightarrow> xml list" where
  "inner_suites (Xml tag attrs txt kids) =
     concat (map (\<lambda>k. (if xml_tag k = ''testsuite'' then [k] else []) @ inner_suites k) kids)"

definition int_attr :: "xml \<Rightarrow> string \<Rightarrow> read_error + int" where
  "int_attr x k = (case py_int (xget_or x k ''0'') of
     None \<Rightarrow> Inl (BadNumber (xget_or x k ''0'')) | Some i \<Rightarrow> Inr i)"

definition time_attr :: "xml \<Rightarrow> read_error + rat" where
  "time_attr x = (case py_float (xget_or x ''time'' ''0'') of
     None \<Rightarrow> Inl (BadNumber (xget_or x ''time'' ''0'')) | Some r \<Rightarrow> Inr r)"

definition read_suite :: "xml \<Rightarrow> read_error + test_suite" where
  "read_suite x = (case int_attr x ''tests'' of
     Inl e \<Rightarrow> Inl e
   | Inr n \<Rightarrow> (case int_attr x ''failures'' of
       Inl e \<Rightarrow> Inl e
     | Inr f \<Rightarrow> (case int_attr x ''errors'' of
         Inl e \<Rightarrow> Inl e
       | Inr er \<Rightarrow> (case int_attr x ''skipped'' of
           Inl e \<Rightarrow> Inl e
         | Inr sk \<Rightarrow> (case time_attr x of
             Inl e \<Rightarrow> Inl e
           | Inr t \<Rightarrow> Inr \<lparr>ts_name = xget_or x ''name'' ''unknown'', ts_tests = n, ts_failures = f,
               ts_errors = er, ts_skipped = sk, ts_duration_seconds = t,
               ts_timestamp = xget x ''timestamp'', ts_hostname = xget x ''hostname''\<rparr>)))))"

text \<open>Status, message, type and details: the last of failure, error and skipped that is there.\<close>

definition case_verdict :: "xml \<Rightarrow> string \<times> string option \<times> string option \<times> string option" where
  "case_verdict c = (case find_kid c ''skipped'' of
     Some s \<Rightarrow> (''SKIPPED'', xget s ''message'', xget s ''type'', xml_text s)
   | None \<Rightarrow> (case find_kid c ''error'' of
       Some e \<Rightarrow> (''ERROR'', xget e ''message'', Some (xget_or e ''type'' ''Error''), xml_text e)
     | None \<Rightarrow> (case find_kid c ''failure'' of
         Some f \<Rightarrow> (''FAILED'', xget f ''message'', Some (xget_or f ''type'' ''AssertionError''), xml_text f)
       | None \<Rightarrow> (''PASSED'', None, None, None))))"

definition text_of_kid :: "xml \<Rightarrow> string \<Rightarrow> string option" where
  "text_of_kid c tag = (case find_kid c tag of None \<Rightarrow> None | Some k \<Rightarrow> xml_text k)"

definition read_case :: "xml \<Rightarrow> read_error + test_result" where
  "read_case c = (case time_attr c of
     Inl e \<Rightarrow> Inl e
   | Inr t \<Rightarrow> (case case_verdict c of (status, message, type, details) \<Rightarrow>
       Inr \<lparr>tr_name = xget_or c ''name'' ''unknown'', tr_classname = xget_or c ''classname'' ''unknown'',
         tr_duration_seconds = t, tr_status = status, tr_error_message = message,
         tr_error_type = type, tr_error_details = details,
         tr_system_out = text_of_kid c ''system-out'', tr_system_err = text_of_kid c ''system-err''\<rparr>))"

definition report_suites :: "xml \<Rightarrow> xml list" where
  "report_suites doc = (if inner_suites doc = [] \<and> xml_tag doc = ''testsuite'' then [doc]
     else inner_suites doc)"

text \<open>The loop over the suites: the summary of each, then its test cases.\<close>

fun read_suites :: "xml list \<Rightarrow> read_error + (test_suite list \<times> test_result list)" where
  "read_suites [] = Inr ([], [])"
| "read_suites (s # ss) = (case read_suite s of
     Inl e \<Rightarrow> Inl e
   | Inr suite \<Rightarrow> (case gather (map read_case (xcases s)) of
       Inl e \<Rightarrow> Inl e
     | Inr rs \<Rightarrow> (case read_suites ss of
         Inl e \<Rightarrow> Inl e
       | Inr (suites, results) \<Rightarrow> Inr (suite # suites, rs @ results))))"

definition read_report :: "xml \<Rightarrow> read_error + junit_report" where
  "read_report doc = (case read_suites (report_suites doc) of
     Inl e \<Rightarrow> Inl e
   | Inr (suites, results) \<Rightarrow> Inr \<lparr>jr_suites = suites, jr_results = results,
       jr_total_tests = sum_list (map ts_tests suites),
       jr_total_failures = sum_list (map ts_failures suites),
       jr_total_errors = sum_list (map ts_errors suites),
       jr_total_skipped = sum_list (map ts_skipped suites),
       jr_total_duration_seconds = sum_list (map ts_duration_seconds suites)\<rparr>)"

definition parse_junit_xml :: "junit_file option \<Rightarrow> read_error + junit_report" where
  "parse_junit_xml f = (case f of
     None \<Rightarrow> Inl NoSuchReport
   | Some Broken \<Rightarrow> Inl ParseFailure
   | Some (Parsed doc) \<Rightarrow> read_report doc)"

section \<open>The payload\<close>

definition round3 :: "rat \<Rightarrow> pval" where
  "round3 r = PFloat (of_int (thousandths r) / 1000)"

text \<open>The optional fields: only a non-empty text is sent.\<close>

definition sent :: "string \<Rightarrow> string option \<Rightarrow> dict" where
  "sent key v = (case v of None \<Rightarrow> [] | Some t \<Rightarrow> if t = [] then [] else [(KStr key, PStr t)])"

definition result_dict :: "test_result \<Rightarrow> dict" where
  "result_dict r =
    [(KStr ''testName'', PStr (tr_name r)), (KStr ''testClass'', PStr (tr_classname r)),
     (KStr ''testDurationInSeconds'', round3 (tr_duration_seconds r)),
     (KStr ''testStatus'', PStr (tr_status r))]
    @ sent ''errorMessage'' (tr_error_message r) @ sent ''errorType'' (tr_error_type r)
    @ sent ''errorDetails'' (tr_error_details r) @ sent ''systemOut'' (tr_system_out r)
    @ sent ''systemErr'' (tr_system_err r)"

definition suite_dict :: "test_suite \<Rightarrow> dict" where
  "suite_dict s =
    [(KStr ''suiteName'', PStr (ts_name s)), (KStr ''totalTests'', PInt (ts_tests s)),
     (KStr ''failedTests'', PInt (ts_failures s)), (KStr ''errorTests'', PInt (ts_errors s)),
     (KStr ''skippedTests'', PInt (ts_skipped s)),
     (KStr ''suiteDurationInSeconds'', round3 (ts_duration_seconds s))]
    @ sent ''timestamp'' (ts_timestamp s) @ sent ''hostname'' (ts_hostname s)"

definition report_dict :: "junit_report \<Rightarrow> dict" where
  "report_dict r =
    [(KStr ''summary'', PDict
       [(KStr ''totalTests'', PInt (jr_total_tests r)),
        (KStr ''totalFailures'', PInt (jr_total_failures r)),
        (KStr ''totalErrors'', PInt (jr_total_errors r)),
        (KStr ''totalSkipped'', PInt (jr_total_skipped r)),
        (KStr ''totalPassed'', PInt (jr_total_tests r - jr_total_failures r - jr_total_errors r
           - jr_total_skipped r)),
        (KStr ''totalDurationInSeconds'', round3 (jr_total_duration_seconds r))]),
     (KStr ''testSuites'', PList (map (PDict \<circ> suite_dict) (jr_suites r))),
     (KStr ''testResults'', PList (map (PDict \<circ> result_dict) (jr_results r)))]"

section \<open>What the reader sees of a merged report\<close>

definition flat_suite :: "xml \<Rightarrow> bool" where
  "flat_suite s \<longleftrightarrow> inner_suites s = []"

lemma flat_suite_kids:
  "flat_suite s \<longleftrightarrow> list_all (\<lambda>k. xml_tag k \<noteq> ''testsuite'' \<and> inner_suites k = []) (xml_kids s)"
  by (cases s) (auto simp: flat_suite_def list_all_iff)

lemma fold_suite_kids: "fold_suite t src = Some t' \<Longrightarrow> xml_kids t' = xml_kids t @ xcases src"
proof -
  assume "fold_suite t src = Some t'"
  then obtain u v where u: "add_counters src COUNTERS (xappend t (xcases src)) = Some u"
    and t': "t' = xset ''time'' v u"
    by (auto simp: fold_suite_def split: option.splits)
  have "distinct COUNTERS" by (simp add: COUNTERS_def)
  from add_counters_spec [OF u this] show ?thesis by (simp add: t')
qed

lemma fold_suite_flat: "fold_suite t src = Some t' \<Longrightarrow> flat_suite t \<Longrightarrow> flat_suite src \<Longrightarrow> flat_suite t'"
  by (auto simp: flat_suite_kids fold_suite_kids list_all_iff)

lemma collect_suites_flat:
  "collect_suites ss acc = Some out \<Longrightarrow> list_all flat_suite ss \<Longrightarrow> list_all (\<lambda>(n, s). flat_suite s) acc \<Longrightarrow>
    list_all (\<lambda>(n, s). flat_suite s) out"
proof (induction ss acc rule: collect_suites.induct)
  case (2 s ss acc)
  show ?case
  proof (cases "dget acc (case_name s)")
    case None
    then show ?thesis using 2 by (simp add: Let_def list_all_dput)
  next
    case (Some e)
    then obtain m where m: "fold_suite e s = Some m" "collect_suites ss (dput acc (case_name s) m) = Some out"
      using 2(3) by (auto simp: Let_def split: option.splits)
    have "flat_suite e" using list_all_dget [OF 2(5) Some] by simp
    then show ?thesis
      using 2(2) [OF refl Some m] 2(4,5) fold_suite_flat [OF m(1)] by (simp add: list_all_dput)
  qed
qed simp

lemma inner_redacted: "inner_suites x = [] \<Longrightarrow> inner_suites (redact_junit_xml_tree x) = []"
  by (induction x) (auto simp: list_all_iff)

lemma redact_flat: "flat_suite s \<Longrightarrow> flat_suite (redact_junit_xml_tree s)"
  by (simp add: flat_suite_def inner_redacted)

lemma sort_flat: "flat_suite s \<Longrightarrow> flat_suite (sort_suite_testcases s ns)"
  by (auto simp: flat_suite_kids sort_suite_testcases_def list_all_iff)

lemma merged_flat:
  assumes "merge_junit_xmls files ns = Some r" "list_all flat_suite (input_suites files)"
  shows "list_all flat_suite (xml_kids r) \<and> list_all (\<lambda>s. xml_tag s = ''testsuite'') (xml_kids r)
    \<and> xml_tag r = ''testsuites''"
proof -
  from assms obtain out where out: "collect_suites (input_suites files) [] = Some out"
    and r: "r = redact_junit_xml_tree (Xml ''testsuites'' [(''name'', ''isvctl validation tests'')] None
      (map (\<lambda>s. if ns \<noteq> [] then sort_suite_testcases s ns else s) (map snd out)))"
    by (auto simp: merge_junit_xmls_def input_suites_def comp_def)
  have "list_all (\<lambda>(n, s). flat_suite s) out"
    using collect_suites_flat [OF out assms(2)] by simp
  moreover have "\<forall>(n, s) \<in> set out. xml_tag s = ''testsuite''"
    using collect_suites_spec [OF out, of "''tests''"] input_suites_tag by (auto simp: COUNTERS_def)
  ultimately show ?thesis
    by (auto simp: r list_all_iff sort_suite_fields intro!: redact_flat sort_flat)
qed

lemma flat_report_suites:
  assumes "list_all flat_suite (xml_kids r)" "list_all (\<lambda>s. xml_tag s = ''testsuite'') (xml_kids r)"
    and "xml_tag r = ''testsuites''"
  shows "report_suites r = xml_kids r"
proof -
  have "inner_suites r = xml_kids r"
  proof (cases r)
    case (Xml tag as t kids)
    have "list_all flat_suite ks \<Longrightarrow> list_all (\<lambda>s. xml_tag s = ''testsuite'') ks \<Longrightarrow>
        concat (map (\<lambda>k. (if xml_tag k = ''testsuite'' then [k] else []) @ inner_suites k) ks) = ks" for ks
      by (induction ks) (simp_all add: flat_suite_def)
    then show ?thesis using assms(1,2) Xml by simp
  qed
  then show ?thesis using assms(3) by (simp add: report_suites_def)
qed

text \<open>Name and status of a test case as the reader has them.\<close>

definition seen :: "xml \<Rightarrow> string \<times> string" where
  "seen c = (xget_or c ''name'' ''unknown'', fst (case_verdict c))"

lemma read_case_seen: "read_case c = Inr t \<Longrightarrow> (tr_name t, tr_status t) = seen c"
  by (auto simp: read_case_def seen_def split: sum.splits prod.splits)

lemma read_cases_seen: "gather (map read_case cs) = Inr rs \<Longrightarrow> map (\<lambda>t. (tr_name t, tr_status t)) rs = map seen cs"
  by (induction cs arbitrary: rs) (auto simp: read_case_seen split: sum.splits)

lemma int_attr_counter: "int_attr x k = Inr i \<Longrightarrow> i = counter x k"
  by (auto simp: int_attr_def counter_def xget_or_def split: option.splits)

lemma read_suite_counts:
  "read_suite x = Inr s \<Longrightarrow> ts_tests s = counter x ''tests'' \<and> ts_failures s = counter x ''failures''
    \<and> ts_errors s = counter x ''errors'' \<and> ts_skipped s = counter x ''skipped''"
  by (auto simp: read_suite_def dest: int_attr_counter split: sum.splits)

lemma read_suites_seen:
  "read_suites ss = Inr (suites, results) \<Longrightarrow>
    mset (map (\<lambda>t. (tr_name t, tr_status t)) results) = image_mset seen (cases_of ss)
    \<and> sum_list (map ts_tests suites) = counter_sum ''tests'' ss
    \<and> sum_list (map ts_failures suites) = counter_sum ''failures'' ss
    \<and> sum_list (map ts_errors suites) = counter_sum ''errors'' ss
    \<and> sum_list (map ts_skipped suites) = counter_sum ''skipped'' ss
    \<and> length suites = length ss"
proof (induction ss arbitrary: suites results)
  case (Cons s ss)
  then obtain suite rs suites' results' where
      read: "read_suite s = Inr suite" "gather (map read_case (xcases s)) = Inr rs"
      "read_suites ss = Inr (suites', results')" "suites = suite # suites'" "results = rs @ results'"
    by (auto split: sum.splits)
  show ?case
    using Cons.IH [OF read(3)] read_suite_counts [OF read(1)] read_cases_seen [OF read(2)]
    by (simp add: read(4,5) cases_of_def counter_sum_def)
qed (auto simp: cases_of_def counter_sum_def)

text \<open>Redaction changes texts and messages, neither names nor statuses.\<close>

lemma find_kid_redacted:
  "(find_kid (redact_junit_xml_tree c) tag = None) = (find_kid c tag = None)"
  by (cases c) (auto simp: find_kid_def find_None_iff)

lemma status_of_kids: "fst (case_verdict c) =
    (if find_kid c ''skipped'' \<noteq> None then ''SKIPPED'' else if find_kid c ''error'' \<noteq> None then ''ERROR''
     else if find_kid c ''failure'' \<noteq> None then ''FAILED'' else ''PASSED'')"
  by (simp add: case_verdict_def split: option.splits)

lemma status_redacted: "fst (case_verdict (redact_junit_xml_tree c)) = fst (case_verdict c)"
  by (simp only: status_of_kids find_kid_redacted)

lemma seen_redacted: "is_case c \<Longrightarrow> seen (redact_junit_xml_tree c) = seen c"
  unfolding seen_def status_redacted
  by (cases c) (simp add: xget_or_def xget_def is_case_def JUNIT_MSG_TAGS_def)

section \<open>Properties\<close>

text \<open>C27. The uploaded results are those of the run: when the report merged from the files of all
  phases is read back, the names and statuses of its results are exactly those of the test
  cases of the files, with nothing lost, added or turned by merging, sorting or redaction, and
  every total is the sum of that counter over the files.\<close>

theorem uploaded_results_conserved:
  assumes merged: "merge_junit_xmls files name_order = Some r"
    and read: "parse_junit_xml (Some (Parsed r)) = Inr report"
    and flat: "list_all flat_suite (input_suites files)"
  shows "mset (map (\<lambda>t. (tr_name t, tr_status t)) (jr_results report))
      = image_mset seen (cases_of (input_suites files))
    \<and> jr_total_tests report = counter_sum ''tests'' (input_suites files)
    \<and> jr_total_failures report = counter_sum ''failures'' (input_suites files)
    \<and> jr_total_errors report = counter_sum ''errors'' (input_suites files)
    \<and> jr_total_skipped report = counter_sum ''skipped'' (input_suites files)"
proof -
  have suites: "report_suites r = xml_kids r"
    using merged_flat [OF merged flat] by (intro flat_report_suites) simp_all
  obtain ss rs where rs: "read_suites (xml_kids r) = Inr (ss, rs)" and report: "jr_results report = rs"
      "jr_total_tests report = sum_list (map ts_tests ss)"
      "jr_total_failures report = sum_list (map ts_failures ss)"
      "jr_total_errors report = sum_list (map ts_errors ss)"
      "jr_total_skipped report = sum_list (map ts_skipped ss)"
    using read by (auto simp: parse_junit_xml_def read_report_def suites split: sum.splits)
  have cases: "cases_of (xml_kids r) = image_mset redact_junit_xml_tree (cases_of (input_suites files))"
    and counts: "list_all (\<lambda>a. counter_sum a (xml_kids r) = counter_sum a (input_suites files)) COUNTERS"
    using merge_keeps [OF merged] by blast+
  have "image_mset (seen \<circ> redact_junit_xml_tree) (cases_of (input_suites files))
      = image_mset seen (cases_of (input_suites files))"
    by (intro image_mset_cong) (auto simp: cases_of_def intro: seen_redacted)
  then show ?thesis
    using read_suites_seen [OF rs] counts
    by (simp add: report cases COUNTERS_def multiset.map_comp)
qed

theorem uploaded_results_conserved_witness:
  "case merge_junit_xmls demo_files [''A''] of
     None \<Rightarrow> False
   | Some r \<Rightarrow> (case parse_junit_xml (Some (Parsed r)) of
       Inl e \<Rightarrow> False
     | Inr report \<Rightarrow> jr_total_tests report = 1
         \<and> mset (map (\<lambda>t. (tr_name t, tr_status t)) (jr_results report)) = {#(''A'', ''PASSED'')#})"
proof -
  have some: "case merge_junit_xmls demo_files [''A''] of
      None \<Rightarrow> False | Some r \<Rightarrow> (case parse_junit_xml (Some (Parsed r)) of Inl e \<Rightarrow> False | Inr report \<Rightarrow> True)"
    by code_simp
  then obtain r report where r: "merge_junit_xmls demo_files [''A''] = Some r"
      "parse_junit_xml (Some (Parsed r)) = Inr report"
    by (auto split: option.splits sum.splits)
  have flat: "list_all flat_suite (input_suites demo_files)"
    and cases: "map seen (concat (map xcases (input_suites demo_files))) = [(''A'', ''PASSED'')]"
    and tests: "counter_sum ''tests'' (input_suites demo_files) = 1"
    by code_simp+
  have "image_mset seen (cases_of (input_suites demo_files)) = {#(''A'', ''PASSED'')#}"
    unfolding cases_of_def mset_map [symmetric] cases by simp
  then show ?thesis
    using uploaded_results_conserved [OF r flat] by (simp add: r tests)
qed

end
