(* ===== verification/Config_Loader.thy ===== *)
theory Config_Loader
  imports Config_Merger
begin

text \<open>
  The recursive loader of \<open>isvctl/config/merger.py\<close>: \<open>_load_yaml_with_imports\<close> and
  \<open>merge_yaml_files\<close>. Every call of the loader spends one unit of fuel; \<open>None\<close> is
  "out of fuel", \<open>Some (Inl e)\<close> a raised exception, \<open>Some (Inr d)\<close> the mapping.
\<close>

section \<open>The loader\<close>

text \<open>\<open>import_list\<close>: a missing or falsy entry is no import, a single entry a list of one.\<close>

definition import_list :: "dict \<Rightarrow> pval list" where
  "import_list content = (case sget content ''import'' of
     None \<Rightarrow> []
   | Some v \<Rightarrow> if \<not> truthy v then [] else (case v of PList xs \<Rightarrow> xs | _ \<Rightarrow> [v]))"

text \<open>
  One file: it must exist, pass the \<open>on_load\<close> check, parse, and hold a mapping or
  nothing at all.
\<close>

definition read_config :: "world \<Rightarrow> path \<Rightarrow> merge_error + dict" where
  "read_config w p =
     (if \<not> w_exists w p then Inl (FileNotFound (path_str p))
      else (case w_on_load w p of
        Some m \<Rightarrow> Inl (LoadRefused m)
      | None \<Rightarrow>
         (case w_yaml w p of
            Inl e \<Rightarrow> Inl (YamlError e)
          | Inr PNone \<Rightarrow> Inr []
          | Inr (PDict content) \<Rightarrow> Inr content
          | Inr v \<Rightarrow> Inl (NotAMapping (path_str p)))))"

fun load_yaml :: "nat \<Rightarrow> world \<Rightarrow> path \<Rightarrow> path list \<Rightarrow> (merge_error + dict) option"
and load_imports :: "nat \<Rightarrow> world \<Rightarrow> path \<Rightarrow> path list \<Rightarrow> dict \<Rightarrow> pval list
    \<Rightarrow> (merge_error + dict) option" where
  "load_yaml 0 w p visited = None"
| "load_yaml (Suc fuel) w p visited =
     (if w_resolve w p \<in> set visited then Some (Inl (CircularImport (path_str p)))
      else (case read_config w p of
        Inl e \<Rightarrow> Some (Inl e)
      | Inr content \<Rightarrow>
          if import_list content = [] then Some (Inr (ddel content (KStr ''import'')))
          else (case load_imports fuel w p (w_resolve w p # visited) [] (import_list content) of
              Some (Inr base) \<Rightarrow> Some (Inr (deep_merge base (ddel content (KStr ''import''))))
            | r \<Rightarrow> r)))"
| "load_imports fuel w p visited base [] = Some (Inr base)"
| "load_imports fuel w p visited base (imp # imps) =
     (case resolve_import_path w p imp of
        Inl e \<Rightarrow> Some (Inl e)
      | Inr q \<Rightarrow>
          (case load_yaml fuel w q visited of
             Some (Inr imported) \<Rightarrow> load_imports fuel w p visited (deep_merge base imported) imps
           | r \<Rightarrow> r))"

text \<open>\<open>merge_yaml_files\<close>: the files in order, then the \<open>--set\<close> overrides.\<close>

fun merge_files :: "nat \<Rightarrow> world \<Rightarrow> dict \<Rightarrow> path list \<Rightarrow> (merge_error + dict) option" where
  "merge_files fuel w result [] = Some (Inr result)"
| "merge_files fuel w result (p # ps) =
     (case load_yaml fuel w p [] of
        Some (Inr content) \<Rightarrow>
          merge_files fuel w (if content = [] then result else deep_merge result content) ps
      | r \<Rightarrow> r)"

fun apply_sets :: "(string \<Rightarrow> pval option) \<Rightarrow> dict \<Rightarrow> string list \<Rightarrow> merge_error + dict" where
  "apply_sets yaml config [] = Inr config"
| "apply_sets yaml config (s # ss) =
     (case parse_set_value yaml s of
        Inl e \<Rightarrow> Inl e
      | Inr (parts, v) \<Rightarrow>
          (case apply_set_value config parts v of
             Inl e \<Rightarrow> Inl e
           | Inr config' \<Rightarrow> apply_sets yaml config' ss))"

definition merge_yaml_files ::
    "nat \<Rightarrow> world \<Rightarrow> (string \<Rightarrow> pval option) \<Rightarrow> path list \<Rightarrow> string list \<Rightarrow> (merge_error + dict) option" where
  "merge_yaml_files fuel w yaml files sets =
     (case merge_files fuel w [] files of
        Some (Inr d) \<Rightarrow> Some (apply_sets yaml d sets)
      | r \<Rightarrow> r)"

section \<open>Fuel\<close>

lemma read_config_exists: "read_config w p = Inr content \<Longrightarrow> w_exists w p"
  by (simp add: read_config_def split: if_splits)

declare load_yaml.simps(2) [simp del] load_imports.simps(2) [simp del]

lemmas load_step = load_yaml.simps(2) load_imports.simps(2)

lemma load_mono:
  "load_yaml fuel w p visited = Some r \<Longrightarrow> load_yaml (Suc fuel) w p visited = Some r"
  "load_imports fuel w p visited base imps = Some r \<Longrightarrow>
    load_imports (Suc fuel) w p visited base imps = Some r"
proof (induction fuel w p visited and fuel w p visited base imps arbitrary: r and r
    rule: load_yaml_load_imports.induct)
  case (2 fuel w p visited)
  then show ?case
    by (auto simp: load_yaml.simps(2) split: if_splits option.splits sum.splits)
next
  case (4 fuel w p visited base imp imps)
  then show ?case
    by (auto simp: load_imports.simps(2) split: option.splits sum.splits)
qed auto

lemma load_mono_le:
  "fuel \<le> fuel' \<Longrightarrow> load_yaml fuel w p visited = Some r \<Longrightarrow> load_yaml fuel' w p visited = Some r"
  by (induction rule: dec_induct) (auto intro: load_mono)

text \<open>
  Every call adds a resolved path to \<open>visited\<close>, and only existing files are read, so the
  number of resolved existing paths not visited yet bounds the depth of the calls.
\<close>

definition covers :: "path set \<Rightarrow> world \<Rightarrow> bool" where
  "covers S w \<longleftrightarrow> finite S \<and> (\<forall>p. w_exists w p \<longrightarrow> w_resolve w p \<in> S)"

lemma load_enough:
  "covers S w \<Longrightarrow> card (S - set visited) < fuel \<Longrightarrow> \<exists>r. load_yaml fuel w p visited = Some r"
  "covers S w \<Longrightarrow> card (S - set visited) < fuel \<Longrightarrow>
    \<exists>r. load_imports fuel w p visited base imps = Some r"
proof (induction fuel w p visited and fuel w p visited base imps
    rule: load_yaml_load_imports.induct)
  case (2 fuel w p visited)
  show ?case
  proof (cases "w_resolve w p \<in> set visited \<or> (\<exists>e. read_config w p = Inl e)")
    case True
    then show ?thesis by (auto simp: load_step)
  next
    case False
    then obtain content where c: "read_config w p = Inr content" by (cases "read_config w p") auto
    with "2.prems"(1) have S: "finite S" "w_resolve w p \<in> S"
      by (auto simp: covers_def dest: read_config_exists)
    have "S - set (w_resolve w p # visited) = (S - set visited) - {w_resolve w p}" by auto
    with S False "2.prems"(2) have "card (S - set (w_resolve w p # visited)) < fuel"
      using card_Diff1_less [of "S - set visited" "w_resolve w p"] by simp
    with 2(1) [OF _ c] 2(2) False
    have "import_list content \<noteq> [] \<Longrightarrow>
        \<exists>r. load_imports fuel w p (w_resolve w p # visited) [] (import_list content) = Some r"
      by auto
    with c False show ?thesis
      by (cases "import_list content = []") (auto simp: load_step split: sum.splits)
  qed
next
  case (4 fuel w p visited base imp imps)
  show ?case
  proof (cases "resolve_import_path w p imp")
    case (Inr q)
    with "4.IH"(1) "4.prems" obtain r where r: "load_yaml fuel w q visited = Some r" by blast
    show ?thesis
    proof (cases r)
      case (Inr d)
      with "4.IH"(2) [OF \<open>resolve_import_path w p imp = Inr q\<close> r Inr "4.prems"] r
      show ?thesis by (simp add: load_step \<open>resolve_import_path w p imp = Inr q\<close>)
    qed (simp add: load_step r \<open>resolve_import_path w p imp = Inr q\<close>)
  qed (simp add: load_step)
qed auto

section \<open>What a loaded mapping looks like\<close>

text \<open>PyYAML builds dictionaries, so the mappings it returns have distinct keys.\<close>

definition wf_world :: "world \<Rightarrow> bool" where
  "wf_world w \<longleftrightarrow> (\<forall>p v. w_yaml w p = Inr v \<longrightarrow> wf_val v)"

lemma wf_dict_Nil [simp]: "wf_dict []"
  by (simp add: wf_val.simps)

lemma read_config_wf: "wf_world w \<Longrightarrow> read_config w p = Inr content \<Longrightarrow> wf_dict content"
  by (auto simp: read_config_def wf_world_def split: if_splits option.splits sum.splits pval.splits)

text \<open>
  A property of mappings that every file's own content has and that the merge keeps holds
  for every loaded mapping.
\<close>

definition kept_by_loading :: "(dict \<Rightarrow> bool) \<Rightarrow> world \<Rightarrow> bool" where
  "kept_by_loading I w \<longleftrightarrow> I [] \<and> (\<forall>x y. I x \<longrightarrow> I y \<longrightarrow> I (deep_merge x y)) \<and>
     (\<forall>p content. read_config w p = Inr content \<longrightarrow> I (ddel content (KStr ''import'')))"

lemma kept_by_loadingD:
  assumes "kept_by_loading I w"
  shows "I []" and "I x \<Longrightarrow> I y \<Longrightarrow> I (deep_merge x y)"
    and "read_config w p = Inr content \<Longrightarrow> I (ddel content (KStr ''import''))"
  using assms unfolding kept_by_loading_def by blast+

lemma load_invariant:
  "kept_by_loading I w \<Longrightarrow> load_yaml fuel w p visited = Some (Inr d) \<Longrightarrow> I d"
  "kept_by_loading I w \<Longrightarrow> I base \<Longrightarrow>
    load_imports fuel w p visited base imps = Some (Inr d) \<Longrightarrow> I d"
proof (induction fuel w p visited and fuel w p visited base imps arbitrary: d and d
    rule: load_yaml_load_imports.induct)
  case (2 fuel w p visited)
  from 2(3) obtain content where c: "w_resolve w p \<notin> set visited" "read_config w p = Inr content"
    by (auto simp: load_step split: if_splits sum.splits)
  show ?case
  proof (cases "import_list content = []")
    case True
    with 2(2,3) c show ?thesis by (auto simp: load_step dest: kept_by_loadingD(3))
  next
    case False
    with 2(3) c obtain base where base: "d = deep_merge base (ddel content (KStr ''import''))"
      "load_imports fuel w p (w_resolve w p # visited) [] (import_list content) = Some (Inr base)"
      by (auto simp: load_step split: option.splits sum.splits)
    note k = kept_by_loadingD [OF 2(2)]
    from 2(1) [OF c False 2(2) k(1) base(2)] k(3) [OF c(2)] show ?thesis
      unfolding base(1) by (rule k(2))
  qed
next
  case (4 fuel w p visited base imp imps)
  from 4(5) obtain q e where q: "resolve_import_path w p imp = Inr q"
    "load_yaml fuel w q visited = Some (Inr e)"
    "load_imports fuel w p visited (deep_merge base e) imps = Some (Inr d)"
    by (auto simp: load_step split: option.splits sum.splits)
  have "I (deep_merge base e)"
    by (rule kept_by_loadingD(2) [OF 4(3) 4(4) 4(1) [OF q(1) 4(3) q(2)]])
  from 4(2) [OF q(1,2) refl 4(3) this q(3)] show ?case .
qed auto

lemma load_wf:
  assumes "wf_world w" "load_yaml fuel w p visited = Some (Inr d)"
  shows "wf_dict d"
proof -
  have "kept_by_loading wf_dict w"
    using assms(1) by (auto simp: kept_by_loading_def intro: wf_deep_merge wf_ddel read_config_wf)
  from load_invariant(1) [OF this assms(2)] show ?thesis .
qed

lemma load_no_import:
  assumes "wf_world w" "load_yaml fuel w p visited = Some (Inr d)"
  shows "sget d ''import'' = None"
proof -
  have "kept_by_loading (\<lambda>d. wf_dict d \<and> sget d ''import'' = None) w"
    using assms(1) unfolding kept_by_loading_def
    by (auto simp: dget_deep_merge wf_dict_distinct intro: wf_deep_merge wf_ddel read_config_wf)
  from load_invariant(1) [OF this assms(2)] show ?thesis by simp
qed

text \<open>The result of a file is its imports merged under its own content.\<close>

lemma load_yaml_okE:
  assumes "load_yaml fuel w p visited = Some (Inr d)"
  obtains content base n where "fuel = Suc n" "read_config w p = Inr content"
    "w_resolve w p \<notin> set visited"
    "d = deep_merge base (ddel content (KStr ''import'')) \<or>
      import_list content = [] \<and> d = ddel content (KStr ''import'')"
    "load_imports n w p (w_resolve w p # visited) [] (import_list content) = Some (Inr base)"
proof (cases fuel)
  case (Suc n)
  with assms show ?thesis
    by (auto simp: load_step split: if_splits sum.splits option.splits intro: that)
qed (use assms in simp)

lemma load_own_value:
  assumes w: "wf_world w" and d: "load_yaml fuel w p visited = Some (Inr d)"
    and c: "read_config w p = Inr content"
    and q: "q \<noteq> []" "hd q \<noteq> KStr ''import''" "vpath (PDict content) q = Some v" "\<not> is_dict v"
  shows "vpath (PDict d) q = Some v"
proof -
  have own: "vpath (PDict (ddel content (KStr ''import''))) q = Some v"
    using q by (cases q) auto
  have "wf_dict (ddel content (KStr ''import''))" using w c by (intro wf_ddel) (rule read_config_wf)
  with own q(4) d c show ?thesis
    by (elim load_yaml_okE) (auto intro: vpath_deep_merge_override)
qed

section \<open>Imports of a loaded file\<close>

inductive imports_file :: "world \<Rightarrow> path \<Rightarrow> path \<Rightarrow> bool" for w where
  imports_file: "read_config w p = Inr content \<Longrightarrow> imp \<in> set (import_list content) \<Longrightarrow>
    resolve_import_path w p imp = Inr q \<Longrightarrow> imports_file w p q"

inductive_cases imports_fileE: "imports_file w p q"

lemma load_imports_each:
  "load_imports fuel w p visited base imps = Some (Inr d) \<Longrightarrow> imp \<in> set imps \<Longrightarrow>
    resolve_import_path w p imp = Inr q \<Longrightarrow> \<exists>e. load_yaml fuel w q visited = Some (Inr e)"
proof (induction imps arbitrary: base)
  case (Cons a imps)
  then show ?case by (auto simp: load_step split: sum.splits option.splits)
qed simp

lemma load_reaches:
  "(imports_file w)\<^sup>+\<^sup>+ p q \<Longrightarrow> load_yaml fuel w p visited = Some (Inr d) \<Longrightarrow>
    \<exists>n vs e. load_yaml n w q vs = Some (Inr e) \<and> w_resolve w p \<in> set vs \<and> set visited \<subseteq> set vs"
proof (induction rule: tranclp_induct)
  case (base q)
  then show ?case
    by (elim imports_fileE load_yaml_okE) (use load_imports_each in \<open>fastforce\<close>)
next
  case (step q r)
  then obtain n vs e where q: "load_yaml n w q vs = Some (Inr e)" "w_resolve w p \<in> set vs"
    "set visited \<subseteq> set vs" by blast
  from q(1) step.hyps(2) obtain m e' where
      "load_yaml m w r (w_resolve w q # vs) = Some (Inr e')"
    by (elim imports_fileE load_yaml_okE) (use load_imports_each in \<open>fastforce\<close>)
  with q show ?case by (intro exI [of _ m] exI [of _ "w_resolve w q # vs"]) auto
qed

lemma loaded_file_sound:
  "load_yaml n w q vs = Some (Inr e) \<Longrightarrow> w_exists w q \<and> w_resolve w q \<notin> set vs"
  by (elim load_yaml_okE) (auto dest: read_config_exists)

section \<open>Several files and overrides\<close>

lemma merge_files_append:
  "merge_files fuel w r (ps @ qs) = (case merge_files fuel w r ps of
     Some (Inr d) \<Rightarrow> merge_files fuel w d qs | x \<Rightarrow> x)"
  by (induction fuel w r ps rule: merge_files.induct) (auto split: option.splits sum.splits)

lemma apply_sets_append:
  "apply_sets yaml c (ss @ ts) = (case apply_sets yaml c ss of
     Inl e \<Rightarrow> Inl e | Inr d \<Rightarrow> apply_sets yaml d ts)"
  by (induction yaml c ss rule: apply_sets.induct) (auto split: sum.splits)

lemma merge_files_last:
  assumes "wf_world w" "merge_files fuel w r (ps @ [p]) = Some (Inr d)"
    "load_yaml fuel w p [] = Some (Inr content)"
    "vpath (PDict content) q = Some v" "\<not> is_dict v"
  shows "vpath (PDict d) q = Some v"
proof -
  from assms(2,3) obtain r' where
      d: "d = (if content = [] then r' else deep_merge r' content)"
    by (auto simp: merge_files_append split: option.splits sum.splits)
  from assms(4,5) have "content \<noteq> []" by (cases q) auto
  with d load_wf [OF assms(1,3)] assms(4,5) show ?thesis
    by (simp add: vpath_deep_merge_override)
qed

section \<open>A small file system for the witnesses\<close>

text \<open>\<open>top\<close> imports \<open>left\<close> and \<open>right\<close>, which both import \<open>base\<close>.\<close>

definition demo_file :: "path \<Rightarrow> dict option" where
  "demo_file p = map_of
    [(path_of ''/c/top'', [(KStr ''import'', PList [PStr ''left'', PStr ''right'']), (KStr ''n'', PInt 9)]),
     (path_of ''/c/left'', [(KStr ''import'', PStr ''base''), (KStr ''n'', PInt 1)]),
     (path_of ''/c/right'', [(KStr ''import'', PStr ''base''), (KStr ''m'', PInt 2)]),
     (path_of ''/c/base'', [(KStr ''m'', PInt 0)])] p"

definition demo_world :: world where
  "demo_world = \<lparr>w_exists = (\<lambda>p. demo_file p \<noteq> None), w_resolve = (\<lambda>p. p),
     w_expanduser = (\<lambda>p. p), w_cwd = path_of ''/'',
     w_yaml = (\<lambda>p. case demo_file p of None \<Rightarrow> Inl ''unreadable'' | Some d \<Rightarrow> Inr (PDict d)),
     w_on_load = (\<lambda>_. None)\<rparr>"

abbreviation demo_result :: dict where
  "demo_result \<equiv> [(KStr ''m'', PInt 2), (KStr ''n'', PInt 9)]"

lemma demo_loads: "load_yaml 4 demo_world (path_of ''/c/top'') [] = Some (Inr demo_result)"
  by code_simp

lemma demo_wf: "wf_world demo_world"
  by (auto simp: wf_world_def demo_world_def demo_file_def wf_val.simps
      split: option.splits if_splits)

lemma demo_covers:
  "covers {path_of ''/c/top'', path_of ''/c/left'', path_of ''/c/right'', path_of ''/c/base''} demo_world"
  by (auto simp: covers_def demo_world_def demo_file_def split: if_splits)

section \<open>Properties\<close>

text \<open>C19. The deep merge, at every path of keys: a value the override gives there that is not
  a mapping is the value of the merge, and where the override has no key on the way the
  merge has the value of the base; the keys keep the base's order, new ones follow in the
  override's order.\<close>

theorem deep_merge_paths:
  assumes "wf_dict over"
  shows "(vpath (PDict over) p = Some v \<and> \<not> is_dict v \<longrightarrow>
      vpath (PDict (deep_merge base over)) p = Some v)
    \<and> (silent_at (PDict over) p \<longrightarrow>
      vpath (PDict (deep_merge base over)) p = vpath (PDict base) p)
    \<and> dkeys (deep_merge base over) =
      dkeys base @ filter (\<lambda>k. k \<notin> set (dkeys base)) (dkeys over)"
  using assms
  by (auto simp: vpath_deep_merge_override vpath_deep_merge_silent dkeys_deep_merge wf_dict_distinct)

theorem deep_merge_paths_witness:
  "vpath (PDict (deep_merge [(KStr ''a'', PDict [(KStr ''x'', PInt 1), (KStr ''y'', PInt 2)])]
      [(KStr ''a'', PDict [(KStr ''x'', PList [])])])) [KStr ''a'', KStr ''x''] = Some (PList [])"
proof -
  have wf: "wf_dict [(KStr ''a'', PDict [(KStr ''x'', PList [])])]" by (simp add: wf_val.simps)
  from deep_merge_paths [OF wf, of "[KStr ''a'', KStr ''x'']" "PList []"
      "[(KStr ''a'', PDict [(KStr ''x'', PInt 1), (KStr ''y'', PInt 2)])]"]
  show ?thesis by simp
qed

text \<open>Merging keeps mappings well formed (no duplicate key at any depth), has the empty
  mapping as unit on both sides, and merging a mapping into itself changes nothing.\<close>

theorem deep_merge_laws:
  assumes "wf_dict base" "wf_dict over"
  shows "wf_dict (deep_merge base over) \<and> deep_merge base [] = base \<and> deep_merge [] over = over
    \<and> deep_merge base base = base"
  using assms by (simp add: wf_deep_merge deep_merge_Nil_left deep_merge_self wf_dict_distinct)

theorem deep_merge_laws_witness:
  "deep_merge [(KStr ''a'', PInt 1)] [(KStr ''a'', PInt 1)] = [(KStr ''a'', PInt 1)]"
proof -
  have wf: "wf_dict [(KStr ''a'', PInt 1)]" by (simp add: wf_val.simps)
  from deep_merge_laws [OF wf wf] show ?thesis by simp
qed

text \<open>A \<open>--set\<close> string is accepted exactly when it holds an equals sign that is not its
  first character. It then has a nonempty key path, its assignment succeeds whatever the
  configuration holds, the path looks up to the assigned value afterwards, and every path
  that neither leads to it nor continues it keeps its value.\<close>

theorem set_override:
  assumes "CHR ''='' \<in> set s" "hd s \<noteq> CHR ''=''"
  shows "\<exists>p v d'. parse_set_value yaml s = Inr (p, v) \<and> apply_set_value d p v = Inr d'
    \<and> vpath (PDict d') (keys_of p) = Some v
    \<and> (\<forall>q. \<not> prefix q (keys_of p) \<and> \<not> prefix (keys_of p) q \<longrightarrow>
         vpath (PDict d') q = vpath (PDict d) q)"
proof -
  from assms obtain p v where pv: "parse_set_value yaml s = Inr (p, v)"
    using parse_set_value_error [of yaml s] by (cases "parse_set_value yaml s") auto
  then have "p \<noteq> []" using parse_set_value_ok by blast
  then obtain d' where "apply_set_value d p v = Inr d'" using apply_set_value_total by blast
  with pv show ?thesis using apply_set_value_get apply_set_value_frame by blast
qed

theorem set_override_witness:
  "\<exists>p v d'. parse_set_value (\<lambda>_. None) ''a.b=8'' = Inr (p, v)
    \<and> apply_set_value [(KStr ''a'', PInt 1)] p v = Inr d'
    \<and> vpath (PDict d') (keys_of p) = Some v"
proof -
  have "CHR ''='' \<in> set ''a.b=8''" "hd ''a.b=8'' \<noteq> CHR ''=''" by simp_all
  from set_override [OF this] show ?thesis by blast
qed

text \<open>C17. The import loader returns: with more fuel than there are resolved paths of existing
  files it gives a result, and more fuel gives the same result.\<close>

theorem load_terminates:
  assumes "covers S w" "card S < fuel"
  shows "\<exists>r. \<forall>fuel' \<ge> fuel. load_yaml fuel' w p [] = Some r"
  using load_enough(1) [of S w "[]" fuel p] assms load_mono_le by fastforce

theorem load_terminates_witness:
  "\<exists>r. \<forall>fuel' \<ge> 5. load_yaml fuel' demo_world (path_of ''/c/top'') [] = Some r"
proof (rule load_terminates [OF demo_covers])
  show "card {path_of ''/c/top'', path_of ''/c/left'', path_of ''/c/right'', path_of ''/c/base''} < 5"
    by (auto simp: card_insert_if)
qed

text \<open>What a file of the configuration gives: each of its own values that is not a mapping
  wins over its imports, the \<open>import\<close> key is gone from the result, and the result is well
  formed.\<close>

theorem load_own_values_win:
  assumes "wf_world w" "load_yaml fuel w p visited = Some (Inr d)" "read_config w p = Inr content"
  shows "wf_dict d \<and> sget d ''import'' = None
    \<and> (\<forall>k q v. k \<noteq> KStr ''import'' \<and> vpath (PDict content) (k # q) = Some v \<and> \<not> is_dict v \<longrightarrow>
         vpath (PDict d) (k # q) = Some v)"
  using load_wf [OF assms(1,2)] load_no_import [OF assms(1,2)]
    load_own_value [OF assms] by (metis list.discI list.sel(1))

theorem load_own_values_win_witness:
  "vpath (PDict demo_result) [KStr ''n''] = Some (PInt 9)"
proof -
  have "read_config demo_world (path_of ''/c/top'') = Inr
      [(KStr ''import'', PList [PStr ''left'', PStr ''right'']), (KStr ''n'', PInt 9)]"
    by code_simp
  from load_own_values_win [OF demo_wf demo_loads this]
  show ?thesis by (elim conjE allE [of _ "KStr ''n''"] allE [of _ "[]"] allE [of _ "PInt 9"]) simp
qed

lemma reached_file_loads:
  "(imports_file w)\<^sup>*\<^sup>* p q \<Longrightarrow> load_yaml fuel w p visited = Some (Inr d) \<Longrightarrow>
    \<exists>n vs e. load_yaml n w q vs = Some (Inr e)"
  by (metis load_reaches rtranclpD)

text \<open>C18. A configuration that loads has no import cycle anywhere below it: every file reached from it
  through \<open>import:\<close> entries exists, and no chain of imports that starts at such a file comes
  back to that file, whatever path it is reached by.\<close>

theorem loaded_imports_acyclic:
  assumes "load_yaml fuel w p visited = Some (Inr d)"
    and "(imports_file w)\<^sup>*\<^sup>* p q" and "(imports_file w)\<^sup>+\<^sup>+ q r"
  shows "w_exists w q \<and> w_exists w r \<and> w_resolve w r \<noteq> w_resolve w q"
proof -
  obtain n vs e where q: "load_yaml n w q vs = Some (Inr e)"
    using reached_file_loads [OF assms(2,1)] by blast
  then have "w_exists w q" using loaded_file_sound by blast
  then show ?thesis
    using load_reaches [OF assms(3) q] loaded_file_sound [of _ w r] by metis
qed

theorem loaded_imports_acyclic_witness:
  "w_resolve demo_world (path_of ''/c/left'') \<noteq> w_resolve demo_world (path_of ''/c/top'')"
proof -
  have "imports_file demo_world (path_of ''/c/top'') (path_of ''/c/left'')"
  proof (rule imports_file)
    show "read_config demo_world (path_of ''/c/top'') = Inr
        [(KStr ''import'', PList [PStr ''left'', PStr ''right'']), (KStr ''n'', PInt 9)]"
      by code_simp
    show "resolve_import_path demo_world (path_of ''/c/top'') (PStr ''left'') = Inr (path_of ''/c/left'')"
      by code_simp
  qed (simp add: import_list_def)
  then have "(imports_file demo_world)\<^sup>+\<^sup>+ (path_of ''/c/top'') (path_of ''/c/left'')" by blast
  from loaded_imports_acyclic [OF demo_loads rtranclp.rtrancl_refl this] show ?thesis by simp
qed

text \<open>Later files override earlier ones, and the last \<open>--set\<close> override is applied last.\<close>

theorem merge_yaml_files_order:
  assumes "wf_world w"
  shows "(merge_yaml_files fuel w yaml (ps @ [p]) [] = Some (Inr d)
      \<and> load_yaml fuel w p [] = Some (Inr content)
      \<and> vpath (PDict content) q = Some v \<and> \<not> is_dict v \<longrightarrow> vpath (PDict d) q = Some v)
    \<and> (merge_yaml_files fuel w yaml fs (ss @ [s]) = Some (Inr e)
      \<and> parse_set_value yaml s = Inr (parts, x) \<longrightarrow> vpath (PDict e) (keys_of parts) = Some x)"
proof (intro conjI impI; elim conjE)
  assume "merge_yaml_files fuel w yaml (ps @ [p]) [] = Some (Inr d)"
    "load_yaml fuel w p [] = Some (Inr content)" "vpath (PDict content) q = Some v" "\<not> is_dict v"
  with merge_files_last [OF assms, of fuel "[]" ps p d content q v]
  show "vpath (PDict d) q = Some v"
    by (simp add: merge_yaml_files_def split: option.splits sum.splits)
next
  assume "merge_yaml_files fuel w yaml fs (ss @ [s]) = Some (Inr e)"
    "parse_set_value yaml s = Inr (parts, x)"
  then show "vpath (PDict e) (keys_of parts) = Some x"
    by (auto simp: merge_yaml_files_def apply_sets_append apply_set_value_get
        split: option.splits sum.splits)
qed

theorem merge_yaml_files_order_witness:
  "vpath (PDict demo_result) [KStr ''n''] = Some (PInt 9)"
proof -
  have "merge_yaml_files 4 demo_world (\<lambda>_. None) ([] @ [path_of ''/c/top'']) [] = Some (Inr demo_result)"
    by code_simp
  with demo_loads merge_yaml_files_order [OF demo_wf, of 4 "\<lambda>_. None" "[]" "path_of ''/c/top''"
      demo_result demo_result "[KStr ''n'']" "PInt 9"]
  show ?thesis by simp
qed

end
