(* ===== verification/Suite_Selection.thy ===== *)
theory Suite_Selection
  imports Config_Loader Resolution
begin

text \<open>
  \<open>isvctl.config.suite_resolution\<close> and \<open>isvctl.config.provider_registry\<close>: where a provider lives,
  which configuration a suite name selects, and which checkouts of external providers may run.

  The directory tree is the record \<open>tree\<close>: the file system of the loader, directory listings,
  and the lines of the marker that \<open>provider fetch\<close> leaves in a checkout. Merging a configuration
  with its imports is \<open>merge_yaml_files\<close> of \<open>Config_Loader\<close>, with its fuel; \<open>NoAnswer\<close> stands for
  fuel that did not suffice. The JSON schema check and git are parameters. The caches only avoid
  repeated reads and are left out.
\<close>

section \<open>Directories\<close>

record tree =
  tr_world :: world
  tr_fuel :: nat
  tr_yaml_files :: "path \<Rightarrow> path list"
  tr_is_dir :: "path \<Rightarrow> bool"
  tr_is_file :: "path \<Rightarrow> bool"
  tr_marker :: "path \<Rightarrow> string list option"

abbreviation child :: "path \<Rightarrow> string \<Rightarrow> path" where
  "child p s \<equiv> path_join p (path_of s)"

definition FETCH_MARKER :: string where "FETCH_MARKER = ''isvctl-fetched''"
definition EXTERNAL_PROVIDERS_DIRNAME :: string where "EXTERNAL_PROVIDERS_DIRNAME = ''providers-external''"
definition MARKER_PATH_PREFIX :: string where "MARKER_PATH_PREFIX = ''path: ''"

text \<open>\<open>tr_marker\<close>: the lines of \<open>.git/isvctl-fetched\<close> of a checkout, when that file is there.\<close>

definition is_fetched_checkout :: "tree \<Rightarrow> path \<Rightarrow> bool" where
  "is_fetched_checkout t p \<longleftrightarrow> tr_marker t p \<noteq> None"

definition marker_lines :: "string option \<Rightarrow> string list" where
  "marker_lines provider_path = ''created by isvctl provider fetch'' #
     (case provider_path of
        None \<Rightarrow> []
      | Some q \<Rightarrow> if q = [] then [] else [MARKER_PATH_PREFIX @ q])"

definition mark_fetched :: "tree \<Rightarrow> path \<Rightarrow> string option \<Rightarrow> tree" where
  "mark_fetched t p provider_path = t\<lparr>tr_marker := (tr_marker t)(p \<mapsto> marker_lines provider_path)\<rparr>"

fun marked_path :: "string list \<Rightarrow> string option" where
  "marked_path [] = None"
| "marked_path (l # ls) = (if prefix MARKER_PATH_PREFIX l then Some (drop (length MARKER_PATH_PREFIX) l)
     else marked_path ls)"

definition fetched_provider_path :: "tree \<Rightarrow> path \<Rightarrow> string option" where
  "fetched_provider_path t checkout = (case tr_marker t checkout of None \<Rightarrow> None | Some ls \<Rightarrow> marked_path ls)"

definition in_tree_provider_dir :: "string \<Rightarrow> path \<Rightarrow> path" where
  "in_tree_provider_dir provider configs_root = child (child configs_root ''providers'') provider"

definition external_provider_dir :: "string \<Rightarrow> path \<Rightarrow> path" where
  "external_provider_dir provider configs_root =
    child (child configs_root EXTERNAL_PROVIDERS_DIRNAME) provider"

text \<open>\<open>p.relative_to(base)\<close> on resolved paths.\<close>

definition external_provider_for_path :: "tree \<Rightarrow> path \<Rightarrow> path \<Rightarrow> string option" where
  "external_provider_for_path t p configs_root =
    (let q = w_resolve (tr_world t) p;
         base = w_resolve (tr_world t) (child configs_root EXTERNAL_PROVIDERS_DIRNAME);
         rest = drop (length (p_parts base)) (p_parts q)
     in if p_abs q = p_abs base \<and> prefix (p_parts base) (p_parts q) \<and> 1 < length rest
        then Some (hd rest) else None)"

definition provider_dir :: "tree \<Rightarrow> string \<Rightarrow> path \<Rightarrow> path" where
  "provider_dir t provider configs_root =
    (let in_tree = in_tree_provider_dir provider configs_root;
         external = external_provider_dir provider configs_root
     in if tr_is_dir t in_tree then in_tree
        else if is_fetched_checkout t external
        then (case fetched_provider_path t external of
            Some q \<Rightarrow> if q = [] then external else child external q
          | None \<Rightarrow> external)
        else external)"

section \<open>Suites\<close>

datatype suite_error =
    SuiteResolutionError string
  | MergeFailed merge_error
  | NoSuchMethod string
  | NoAnswer

record resolved_suite =
  rs_config_path :: path
  rs_name :: string
  rs_platform :: "string option"

definition path_stem :: "path \<Rightarrow> string" where
  "path_stem p = (if p_parts p = [] then []
     else (let name = last (p_parts p) in case before_last CHR ''.'' name of
         Some s \<Rightarrow> if s = [] \<or> Suc (length s) = length name then name else s
       | None \<Rightarrow> name))"

definition suites_dir :: "path \<Rightarrow> path" where
  "suites_dir configs_root = child configs_root ''suites''"

text \<open>\<open>(data.get("tests") or {}).get("capability")\<close> of one suite file; \<open>None\<close> when the file does not
  read or parse, is no mapping, or declares nothing.\<close>

definition declared_capability :: "tree \<Rightarrow> path \<Rightarrow> suite_error + string option" where
  "declared_capability t p = (case w_yaml (tr_world t) p of
     Inr (PDict data) \<Rightarrow>
       (let tests = (case sget data ''tests'' of None \<Rightarrow> PNone | Some v \<Rightarrow> v)
        in if \<not> truthy tests then Inr None
           else (case tests of
             PDict d \<Rightarrow> (case sget d ''capability'' of
                 Some (PStr s) \<Rightarrow> Inr (if s = [] then None else Some (canonical_suite_name s))
               | _ \<Rightarrow> Inr None)
           | _ \<Rightarrow> Inl (NoSuchMethod ''get'')))
   | _ \<Rightarrow> Inr None)"

definition platform_vocabulary :: "tree \<Rightarrow> path \<Rightarrow> suite_error + string list" where
  "platform_vocabulary t configs_root =
    (case gather (map (declared_capability t) (tr_yaml_files t (suites_dir configs_root))) of
       Inl e \<Rightarrow> Inl e
     | Inr declared \<Rightarrow> Inr [s. Some s \<leftarrow> declared])"

definition suite_vocabulary :: "tree \<Rightarrow> path \<Rightarrow> suite_error + string list" where
  "suite_vocabulary t configs_root = (case platform_vocabulary t configs_root of
     Inl e \<Rightarrow> Inl e
   | Inr platforms \<Rightarrow> Inr (filter (\<lambda>n. n \<notin> set platforms)
       (map (canonical_suite_name \<circ> path_stem) (tr_yaml_files t (suites_dir configs_root)))))"

definition or_none :: "string list \<Rightarrow> string" where
  "or_none names = (if names = [] then ''(none)'' else join '', '' names)"

definition parse_capability :: "tree \<Rightarrow> string option \<Rightarrow> path \<Rightarrow> suite_error + string option" where
  "parse_capability t v configs_root = (case v of
     None \<Rightarrow> Inr None
   | Some s \<Rightarrow>
      (if CHR '','' \<in> set s
       then Inl (SuiteResolutionError (''--capability takes a single platform (got '' @ repr_str s
         @ ''); the capabilities are mutually exclusive execution environments, so only one runs at a time.''))
       else (case platform_vocabulary t configs_root of
         Inl e \<Rightarrow> Inl e
       | Inr allowed \<Rightarrow>
          (let capability = canonical_suite_name s
           in if capability \<in> set allowed then Inr (Some capability)
              else Inl (SuiteResolutionError (''Unknown or non-declarable capability: '' @ s
                @ ''. Available capabilities: '' @ or_none (sorted_set allowed) @ ''.''))))))"

definition raw_imports :: "tree \<Rightarrow> path \<Rightarrow> suite_error + string list" where
  "raw_imports t p = (case w_yaml (tr_world t) p of
     Inl e \<Rightarrow> Inl (SuiteResolutionError (''Failed to read '' @ path_str p @ '': '' @ e))
   | Inr (PDict data) \<Rightarrow> (case sget data ''import'' of
       Some (PStr s) \<Rightarrow> Inr [s]
     | Some (PList xs) \<Rightarrow> Inr [s. PStr s \<leftarrow> xs]
     | _ \<Rightarrow> Inr [])
   | Inr _ \<Rightarrow> Inr [])"

text \<open>\<open>merged.get("tests") or {}\<close>, and its capability when that is a mapping.\<close>

definition merged_capability :: "dict \<Rightarrow> string option" where
  "merged_capability merged = (case sget merged ''tests'' of
     Some (PDict d) \<Rightarrow> str_or_none (sget d ''capability'')
   | _ \<Rightarrow> None)"

text \<open>The name of the one suite that is imported, or of the file.\<close>

definition imported_suite :: "tree \<Rightarrow> path \<Rightarrow> suite_error + string \<times> string option" where
  "imported_suite t p = (case raw_imports t p of
     Inl e \<Rightarrow> Inl e
   | Inr imports \<Rightarrow>
      (let suites = [path_stem (path_of i). i \<leftarrow> imports, ''suites'' \<in> set (p_parts (path_of i))]
       in if 1 < length suites
          then Inl (SuiteResolutionError (''Config '' @ path_str p @ '' imports multiple suites (''
            @ join '', '' suites @ ''); use --config/-f.''))
          else Inr (canonical_suite_name (case suites of [] \<Rightarrow> path_stem p | n # _ \<Rightarrow> n), None)))"

definition suite_name :: "tree \<Rightarrow> path \<Rightarrow> string list \<Rightarrow> suite_error + string \<times> string option" where
  "suite_name t p platforms =
    (case merge_yaml_files (tr_fuel t) (tr_world t) (\<lambda>_. None) [p] [] of
       None \<Rightarrow> Inl NoAnswer
     | Some (Inl e) \<Rightarrow> Inl (MergeFailed e)
     | Some (Inr merged) \<Rightarrow>
        (case merged_capability merged of
           Some platform \<Rightarrow>
             if canonical_suite_name platform \<in> set platforms
             then Inr (canonical_suite_name platform, Some (canonical_suite_name platform))
             else imported_suite t p
         | None \<Rightarrow> imported_suite t p))"

text \<open>The first file that names a known suite; only a \<open>SuiteResolutionError\<close> is skipped.\<close>

fun first_known :: "tree \<Rightarrow> string list \<Rightarrow> string list \<Rightarrow> path list \<Rightarrow> suite_error + string option" where
  "first_known t platforms known [] = Inr None"
| "first_known t platforms known (p # ps) = (case suite_name t p platforms of
     Inl (SuiteResolutionError m) \<Rightarrow> first_known t platforms known ps
   | Inl e \<Rightarrow> Inl e
   | Inr (name, _) \<Rightarrow> if name \<in> set known then Inr (Some name) else first_known t platforms known ps)"

definition resolve_suite_name :: "tree \<Rightarrow> path list \<Rightarrow> path \<Rightarrow> suite_error + string option" where
  "resolve_suite_name t config_paths configs_root = (case config_paths of
     [] \<Rightarrow> Inr None
   | p # _ \<Rightarrow> (case platform_vocabulary t configs_root of
       Inl e \<Rightarrow> Inl e
     | Inr platforms \<Rightarrow> (case suite_vocabulary t configs_root of
         Inl e \<Rightarrow> Inl e
       | Inr suites \<Rightarrow> (case first_known t platforms (platforms @ suites) config_paths of
           Inl e \<Rightarrow> Inl e
         | Inr (Some name) \<Rightarrow> Inr (Some name)
         | Inr None \<Rightarrow> Inr (Some (canonical_suite_name (path_stem p)))))))"

fun classify :: "tree \<Rightarrow> string list \<Rightarrow> path list \<Rightarrow> suite_error + (path \<times> string \<times> string option) list" where
  "classify t platforms [] = Inr []"
| "classify t platforms (p # ps) = (case suite_name t p platforms of
     Inl (SuiteResolutionError m) \<Rightarrow> classify t platforms ps
   | Inl e \<Rightarrow> Inl e
   | Inr (name, platform) \<Rightarrow> (case classify t platforms ps of
       Inl e \<Rightarrow> Inl e | Inr rest \<Rightarrow> Inr ((p, name, platform) # rest)))"

definition pick_suite ::
  "string \<Rightarrow> string \<Rightarrow> (path \<times> string \<times> string option) list \<Rightarrow> suite_error + resolved_suite" where
  "pick_suite source requested classified =
    (case filter (\<lambda>(p, name, platform). name = requested) classified of
       [] \<Rightarrow> Inl (SuiteResolutionError (source @ '' has no '' @ repr_str requested
         @ '' suite. Available suites: '' @ or_none (sorted_set (map (fst \<circ> snd) classified)) @ ''.''))
     | [(p, name, platform)] \<Rightarrow> Inr \<lparr>rs_config_path = p, rs_name = name, rs_platform = platform\<rparr>
     | matches \<Rightarrow> Inl (SuiteResolutionError (source @ '' has multiple '' @ repr_str requested
         @ '' suite configs ('' @ join '', '' (map (path_str \<circ> fst) matches)
         @ ''). Disambiguate with --config/-f.'')))"

definition config_dir_of :: "tree \<Rightarrow> string option \<Rightarrow> path \<Rightarrow> path" where
  "config_dir_of t provider configs_root = (case provider of
     None \<Rightarrow> suites_dir configs_root
   | Some name \<Rightarrow> child (provider_dir t name configs_root) ''config'')"

definition resolve_suite :: "tree \<Rightarrow> string option \<Rightarrow> string \<Rightarrow> path \<Rightarrow> suite_error + resolved_suite" where
  "resolve_suite t provider suite configs_root =
    (let config_dir = config_dir_of t provider configs_root;
         source = (case provider of
           None \<Rightarrow> ''Canonical suite catalog'' | Some name \<Rightarrow> ''Provider '' @ repr_str name)
     in if provider \<noteq> None \<and> \<not> tr_is_dir t config_dir
        then Inl (SuiteResolutionError (source @ '' has no config directory at '' @ path_str config_dir @ ''.''))
        else (case platform_vocabulary t configs_root of
          Inl e \<Rightarrow> Inl e
        | Inr platforms \<Rightarrow> (case classify t platforms (sort_key path_str (tr_yaml_files t config_dir)) of
            Inl e \<Rightarrow> Inl e
          | Inr classified \<Rightarrow> pick_suite source (canonical_suite_name suite) classified)))"

definition select_suite ::
  "tree \<Rightarrow> string \<Rightarrow> path list \<Rightarrow> string option \<Rightarrow> path \<Rightarrow> suite_error + resolved_suite \<times> string" where
  "select_suite t suite config_files provider configs_root =
    (if config_files \<noteq> []
     then Inl (SuiteResolutionError ''--suite cannot be combined with --config/-f.'')
     else (case resolve_suite t provider suite configs_root of
       Inl e \<Rightarrow> Inl e
     | Inr r \<Rightarrow> Inr (r, (case provider of
         Some (c # name) \<Rightarrow> ''Selected '' @ repr_str (rs_name r) @ '' suite for provider '' @ repr_str (c # name) @ ''.''
       | _ \<Rightarrow> ''Selected canonical '' @ repr_str (rs_name r) @ '' suite.''))))"

section \<open>The registry of external providers\<close>

record registry_entry =
  re_name :: string
  re_vendor :: string
  re_repo_url :: string
  re_path :: "string option"
  re_commit :: string
  re_tested_with :: string
  re_suites :: "string list"
  re_documentation_url :: string
  re_status :: string

definition REGISTRY_DIRNAME :: string where "REGISTRY_DIRNAME = ''providers-registry''"

text \<open>The errors of \<open>jsonschema\<close> for an entry, each with its location, and the commit a checkout
  is at (\<open>None\<close>: git fails). A mapping with a repeated key is a YAML error of the file.\<close>

record registry_world =
  rw_schema :: "pval \<Rightarrow> (string list \<times> string) list"
  rw_rev_parse :: "path \<Rightarrow> string option"

definition format_error :: "string list \<times> string \<Rightarrow> string" where
  "format_error e = (let location = join ''/'' (fst e)
     in (if location = [] then ''entry'' else location) @ '': '' @ snd e)"

text \<open>The fields of data that passed the schema, which requires them and their types.\<close>

definition text_field :: "dict \<Rightarrow> string \<Rightarrow> string" where
  "text_field d k = (case sget d k of Some (PStr s) \<Rightarrow> s | _ \<Rightarrow> [])"

definition texts_field :: "dict \<Rightarrow> string \<Rightarrow> string list" where
  "texts_field d k = (case sget d k of Some (PList xs) \<Rightarrow> [s. PStr s \<leftarrow> xs] | _ \<Rightarrow> [])"

definition entry_fields :: "pval \<Rightarrow> dict" where
  "entry_fields v = (case v of PDict d \<Rightarrow> d | _ \<Rightarrow> [])"

definition entry_errors :: "tree \<Rightarrow> registry_world \<Rightarrow> path \<Rightarrow> pval \<Rightarrow> path \<Rightarrow> string list" where
  "entry_errors t rw p data configs_root =
    (let schema_errors = sort_key fst (rw_schema rw data);
         d = entry_fields data; name = text_field d ''name''
     in if schema_errors \<noteq> [] then map format_error schema_errors
        else (if name \<noteq> path_stem p
              then [''name: '' @ quoted name @ '' must match the filename '' @ quoted (path_stem p)] else [])
          @ (if w_exists (tr_world t) (in_tree_provider_dir name configs_root)
             then [''name: '' @ quoted name @ '' is already an in-tree provider in providers/''] else [])
          @ map (\<lambda>suite. ''suites: '' @ quoted suite @ '' is not a suite in suites/'')
              (filter (\<lambda>suite. \<not> tr_is_file t (child (suites_dir configs_root) (suite @ ''.yaml'')))
                (texts_field d ''suites'')))"

definition to_entry :: "dict \<Rightarrow> registry_entry" where
  "to_entry d = \<lparr>re_name = text_field d ''name'', re_vendor = text_field d ''vendor'',
     re_repo_url = text_field d ''repo_url'', re_path = str_or_none (sget d ''path''),
     re_commit = text_field d ''commit'', re_tested_with = text_field d ''tested_with'',
     re_suites = texts_field d ''suites'', re_documentation_url = text_field d ''documentation_url'',
     re_status = text_field d ''status''\<rparr>"

definition registry_entry_path :: "string \<Rightarrow> path \<Rightarrow> path" where
  "registry_entry_path name configs_root = child (child configs_root REGISTRY_DIRNAME) (name @ ''.yaml'')"

definition load_entry_file ::
  "tree \<Rightarrow> registry_world \<Rightarrow> path \<Rightarrow> path \<Rightarrow> registry_entry option \<times> string list" where
  "load_entry_file t rw p configs_root = (case w_yaml (tr_world t) p of
     Inl e \<Rightarrow> (None, [''invalid YAML: '' @ e])
   | Inr data \<Rightarrow> (let errors = entry_errors t rw p data configs_root
       in if errors \<noteq> [] then (None, errors) else (Some (to_entry (entry_fields data)), [])))"

text \<open>\<open>Path(name).name\<close>.\<close>

definition base_name :: "string \<Rightarrow> string" where
  "base_name s = (case p_parts (path_of s) of [] \<Rightarrow> [] | q # qs \<Rightarrow> last (q # qs))"

definition load_entry ::
  "tree \<Rightarrow> registry_world \<Rightarrow> string \<Rightarrow> path \<Rightarrow> registry_entry option \<times> string list" where
  "load_entry t rw name configs_root =
    (let p = registry_entry_path name configs_root
     in if base_name name \<noteq> name \<or> \<not> tr_is_file t p then (None, [])
        else load_entry_file t rw p configs_root)"

definition load_registry_skipping_invalid ::
  "tree \<Rightarrow> registry_world \<Rightarrow> path \<Rightarrow> registry_entry list \<times> (string \<times> string list) list" where
  "load_registry_skipping_invalid t rw configs_root =
    (let files = sort_key path_str (tr_yaml_files t (child configs_root REGISTRY_DIRNAME));
         loaded = map (\<lambda>p. (p, load_entry_file t rw p configs_root)) files
     in ([e. (p, Some e, errors) \<leftarrow> loaded],
         fold (\<lambda>(p, e, errors) d. if e = None then dput d (last (p_parts p)) errors else d) loaded []))"

definition load_registry :: "tree \<Rightarrow> registry_world \<Rightarrow> path \<Rightarrow> string + registry_entry list" where
  "load_registry t rw configs_root = (case load_registry_skipping_invalid t rw configs_root of
     (entries, problems) \<Rightarrow>
       (if problems \<noteq> []
        then Inl (''Invalid provider registry entries:'' @ [CHR 0x0A] @ join [CHR 0x0A]
          (concat (map (\<lambda>(name, errors). map (\<lambda>e. ''  '' @ name @ '': '' @ e) errors) problems)))
        else Inr entries))"

text \<open>The environment git runs in: no variable that points it at another repository.\<close>

definition GIT_KEEP :: "string list" where
  "GIT_KEEP = [''GIT_EXEC_PATH'', ''GIT_SSH'', ''GIT_SSH_COMMAND'', ''GIT_SSL_CAINFO'',
     ''GIT_SSL_NO_VERIFY'', ''GIT_CONFIG_COUNT'', ''GIT_HTTP_PROXY_AUTHMETHOD'',
     ''GIT_ALLOW_PROTOCOL'', ''GIT_ASKPASS'']"

definition git_env :: "(string \<times> string) list \<Rightarrow> (string \<times> string) list" where
  "git_env env = filter (\<lambda>(key, v). \<not> prefix ''GIT_'' key \<or> key \<in> set GIT_KEEP
     \<or> prefix ''GIT_CONFIG_KEY_'' key \<or> prefix ''GIT_CONFIG_VALUE_'' key) env"

datatype fetch_state_kind = Missing | Local | Stale | Current

definition fetch_state ::
  "tree \<Rightarrow> registry_world \<Rightarrow> registry_entry \<Rightarrow> path \<Rightarrow> fetch_state_kind \<times> string option" where
  "fetch_state t rw entry configs_root =
    (let checkout = external_provider_dir (re_name entry) configs_root
     in if \<not> is_fetched_checkout t checkout
        then (if tr_is_dir t checkout then Local else Missing, None)
        else (case rw_rev_parse rw checkout of
          None \<Rightarrow> (Missing, None)
        | Some head \<Rightarrow>
           (let path_matches = (provider_dir t (re_name entry) configs_root
                  = child checkout (case re_path entry of None \<Rightarrow> [] | Some q \<Rightarrow> q))
            in (if head = re_commit entry \<and> path_matches then Current else Stale, Some head))))"

text \<open>\<open>Inl\<close> is a \<open>ProviderRegistryError\<close>.\<close>

definition ensure_fetched ::
  "tree \<Rightarrow> registry_world \<Rightarrow> string \<Rightarrow> path \<Rightarrow> string + registry_entry option" where
  "ensure_fetched t rw provider configs_root =
    (if tr_is_dir t (in_tree_provider_dir provider configs_root) then Inr None
     else (case load_entry t rw provider configs_root of (entry, errors) \<Rightarrow>
       (if errors \<noteq> [] \<and> is_fetched_checkout t (external_provider_dir provider configs_root)
        then Inl (''Invalid registry entry '' @ quoted provider @ '': '' @ join ''; '' errors)
        else (case entry of
          None \<Rightarrow> Inr None
        | Some e \<Rightarrow>
           (let hint = ''Run: isvctl provider fetch '' @ provider
            in case fetch_state t rw e configs_root of
              (Local, head) \<Rightarrow> Inr None
            | (Missing, head) \<Rightarrow> Inl (''Provider '' @ quoted provider @ '' is registered but not fetched. '' @ hint)
            | (Stale, head) \<Rightarrow>
                (if head = Some (re_commit e)
                 then Inl (''Provider '' @ quoted provider
                   @ '' is fetched with a different provider path than the registry specifies. '' @ hint)
                 else Inl (''Provider '' @ quoted provider @ '' is fetched at ''
                   @ take 12 (case head of None \<Rightarrow> [] | Some h \<Rightarrow> h) @ '', but the registry pins ''
                   @ take 12 (re_commit e) @ ''. '' @ hint))
            | (Current, head) \<Rightarrow> Inr (Some e))))))"

text \<open>\<open>s.replace("-rc", "rc")\<close>.\<close>

fun replace_rc :: "string \<Rightarrow> string" where
  "replace_rc [] = []"
| "replace_rc (c # s) = (if prefix ''-rc'' (c # s) then ''rc'' @ replace_rc (drop 2 s) else c # replace_rc s)"

definition version_warning :: "registry_entry \<Rightarrow> string \<Rightarrow> string option" where
  "version_warning entry isvctl_version =
    (if replace_rc (re_tested_with entry) = isvctl_version then None
     else Some (quoted (re_name entry) @ '' was validated against isvctl '' @ re_tested_with entry
       @ '', but this is isvctl '' @ isvctl_version
       @ ''; its configs may not match this version''@ [CHR 0x27] @ ''s suites.''))"

section \<open>Lemmas\<close>

lemma marker_roundtrip: "marked_path (marker_lines q) = (if q = Some [] then None else q)"
  by (cases q) (auto simp: marker_lines_def MARKER_PATH_PREFIX_def)

lemma classify_entries:
  "classify t platforms ps = Inr cs \<Longrightarrow>
    (p, name, platform) \<in> set cs \<longleftrightarrow> p \<in> set ps \<and> suite_name t p platforms = Inr (name, platform)"
proof (induction ps arbitrary: cs)
  case (Cons q ps)
  then show ?case by (auto split: sum.splits suite_error.splits prod.splits)
qed simp

lemma pick_suite_unique:
  assumes "pick_suite source requested cs = Inr r"
  shows "filter (\<lambda>(p, name, platform). name = requested) cs = [(rs_config_path r, rs_name r, rs_platform r)]
    \<and> rs_name r = requested"
proof -
  have "filter (\<lambda>(p, name, platform). name = requested) cs = [(rs_config_path r, rs_name r, rs_platform r)]"
    using assms by (auto simp: pick_suite_def split: list.splits)
  moreover from this have "(rs_config_path r, rs_name r, rs_platform r)
      \<in> set (filter (\<lambda>(p, name, platform). name = requested) cs)"
    by (simp only: list.set_intros)
  then have "rs_name r = requested" by simp
  ultimately show ?thesis by simp
qed

lemma base_name_plain:
  assumes "base_name s = s" "s \<noteq> []"
  shows "CHR ''/'' \<notin> set s"
proof -
  have parts: "p_parts (path_of s) \<noteq> []" using assms by (auto simp: base_name_def)
  then have "last (p_parts (path_of s)) = s"
    using assms(1) by (cases "p_parts (path_of s)") (simp_all add: base_name_def)
  then have "s \<in> set (p_parts (path_of s))" using last_in_set [OF parts] by simp
  then have "s \<in> set (split_on CHR ''/'' s)" by (simp add: path_of_def)
  then show ?thesis by (rule split_on_parts_free)
qed

lemma child_plain:
  assumes "CHR ''/'' \<notin> set s" "s \<noteq> []" "s \<noteq> ''.''"
  shows "p_parts (child p s) = p_parts p @ [s]"
proof -
  have "\<not> prefix ''/'' s" using assms(1) by (cases s) auto
  then show ?thesis using assms by (simp add: path_join_def path_of_def split_on_no_sep)
qed

lemma registry_entry_stem:
  assumes "base_name name = name" "name \<noteq> []"
  shows "path_stem (registry_entry_path name croot) = name"
proof -
  have "CHR ''/'' \<notin> set (name @ ''.yaml'')" using base_name_plain [OF assms] by simp
  moreover have "name @ ''.yaml'' \<noteq> ''.''" by (cases name) auto
  ultimately have "p_parts (registry_entry_path name croot)
      = p_parts (child croot REGISTRY_DIRNAME) @ [name @ ''.yaml'']"
    unfolding registry_entry_path_def by (intro child_plain) auto
  moreover have "before_last CHR ''.'' (name @ CHR ''.'' # ''yaml'') = Some name"
    by (rule before_last_append) simp
  ultimately show ?thesis using assms(2) by (simp add: path_stem_def)
qed

lemma load_entry_name:
  assumes "load_entry t rw name croot = (Some e, errors)" "name \<noteq> []"
  shows "re_name e = name \<and> errors = []"
proof -
  have plain: "base_name name = name"
    and loaded: "load_entry_file t rw (registry_entry_path name croot) croot = (Some e, errors)"
    using assms(1) by (auto simp: load_entry_def Let_def split: if_splits)
  obtain data where "entry_errors t rw (registry_entry_path name croot) data croot = []"
    and e: "e = to_entry (entry_fields data)" "errors = []"
    using loaded by (auto simp: load_entry_file_def Let_def split: sum.splits if_splits)
  then have "text_field (entry_fields data) ''name'' = path_stem (registry_entry_path name croot)"
    by (auto simp: entry_errors_def Let_def split: if_splits)
  then show ?thesis using e registry_entry_stem [OF plain assms(2)] by (simp add: to_entry_def)
qed

section \<open>Properties\<close>

text \<open>A suite name selects one configuration or none: the selected file belongs to the directory of
  the provider, or to the suite catalog when no provider is given, it declares the requested
  suite, and no other file of the directory does.\<close>

theorem selected_suite_unique:
  assumes "resolve_suite t provider suite croot = Inr r"
  shows "rs_name r = canonical_suite_name suite
    \<and> (\<exists>platforms. platform_vocabulary t croot = Inr platforms
      \<and> filter (\<lambda>p. \<exists>pl. suite_name t p platforms = Inr (canonical_suite_name suite, pl))
          (remdups (tr_yaml_files t (config_dir_of t provider croot))) = [rs_config_path r]
      \<and> suite_name t (rs_config_path r) platforms = Inr (rs_name r, rs_platform r))"
proof -
  obtain platforms cs source where v: "platform_vocabulary t croot = Inr platforms"
    and cs: "classify t platforms (sort_key path_str (tr_yaml_files t (config_dir_of t provider croot))) = Inr cs"
    and pick: "pick_suite source (canonical_suite_name suite) cs = Inr r"
    using assms by (auto simp: resolve_suite_def Let_def split: if_splits sum.splits)
  note one = pick_suite_unique [OF pick]
  note entries = classify_entries [OF cs]
  have mem: "(p, canonical_suite_name suite, pl) \<in> set cs \<longleftrightarrow> p = rs_config_path r \<and> pl = rs_platform r" for p pl
  proof -
    have "(p, canonical_suite_name suite, pl) \<in> set cs \<longleftrightarrow>
        (p, canonical_suite_name suite, pl)
          \<in> set (filter (\<lambda>(p, name, platform). name = canonical_suite_name suite) cs)" by simp
    then show ?thesis using one by simp
  qed
  have "set (filter (\<lambda>p. \<exists>pl. suite_name t p platforms = Inr (canonical_suite_name suite, pl))
      (remdups (tr_yaml_files t (config_dir_of t provider croot)))) = {rs_config_path r}"
    using mem entries by auto
  then have "filter (\<lambda>p. \<exists>pl. suite_name t p platforms = Inr (canonical_suite_name suite, pl))
      (remdups (tr_yaml_files t (config_dir_of t provider croot))) = [rs_config_path r]"
    by (intro distinct_set_singleton) simp_all
  moreover have "suite_name t (rs_config_path r) platforms = Inr (rs_name r, rs_platform r)"
    using mem [of "rs_config_path r" "rs_platform r"] entries one by simp
  ultimately show ?thesis using v one by blast
qed

text \<open>C28. A fetched checkout that the registry knows runs only as it was validated: when the provider is
  cleared to run, its registry entry is valid and bears its name, git reports the pinned commit,
  and the directory that runs is the pinned one of that checkout.\<close>

theorem external_provider_pinned:
  assumes "ensure_fetched t rw provider croot = Inr r" and "provider \<noteq> []"
    and "\<not> tr_is_dir t (in_tree_provider_dir provider croot)"
    and "is_fetched_checkout t (external_provider_dir provider croot)"
    and "load_entry t rw provider croot \<noteq> (None, [])"
  shows "case r of None \<Rightarrow> False | Some e \<Rightarrow>
    load_entry t rw provider croot = (Some e, []) \<and> re_name e = provider
    \<and> rw_rev_parse rw (external_provider_dir provider croot) = Some (re_commit e)
    \<and> provider_dir t provider croot
        = child (external_provider_dir provider croot) (case re_path e of None \<Rightarrow> [] | Some q \<Rightarrow> q)"
proof -
  obtain entry errors where load: "load_entry t rw provider croot = (entry, errors)" by fastforce
  have "errors = []" using assms(1,3,4) load by (auto simp: ensure_fetched_def split: if_splits)
  then obtain e where e: "entry = Some e" using assms(5) load by (cases entry) auto
  then have name: "re_name e = provider" using load_entry_name [of t rw provider croot e] load assms(2) by simp
  obtain head where "fetch_state t rw e croot = (Current, head)" "r = Some e"
    using assms(1,3,4) load e name \<open>errors = []\<close>
    by (auto simp: ensure_fetched_def Let_def fetch_state_def split: if_splits option.splits
        fetch_state_kind.splits)
  then show ?thesis
    using load e name \<open>errors = []\<close> assms(4)
    by (auto simp: fetch_state_def Let_def split: if_splits option.splits)
qed

section \<open>Witnesses\<close>

definition demo_yaml :: "path \<Rightarrow> string + pval" where
  "demo_yaml p = (if p = path_of ''/r/suites/k8s.yaml''
     then Inr (PDict [(KStr ''tests'', PDict [(KStr ''capability'', PStr ''k8s'')])])
     else if p = path_of ''/r/suites/network.yaml'' then Inr (PDict [])
     else if p = path_of ''/r/providers-registry/acme.yaml''
     then Inr (PDict [(KStr ''name'', PStr ''acme''), (KStr ''commit'', PStr ''abc''),
       (KStr ''path'', PStr ''gpu''), (KStr ''suites'', PList [PStr ''network''])])
     else Inl ''no such file'')"

definition demo_tree :: tree where
  "demo_tree = \<lparr>tr_world = \<lparr>w_exists = (\<lambda>p. p = path_of ''/r/suites/k8s.yaml'' \<or> p = path_of ''/r/suites/network.yaml''),
       w_resolve = (\<lambda>p. p), w_expanduser = (\<lambda>p. p), w_cwd = path_of ''/'', w_yaml = demo_yaml,
       w_on_load = (\<lambda>p. None)\<rparr>,
     tr_fuel = 3,
     tr_yaml_files = (\<lambda>p. if p = path_of ''/r/suites''
       then [path_of ''/r/suites/network.yaml'', path_of ''/r/suites/k8s.yaml''] else []),
     tr_is_dir = (\<lambda>p. p = path_of ''/r/providers-external/acme''),
     tr_is_file = (\<lambda>p. case demo_yaml p of Inl e \<Rightarrow> False | Inr v \<Rightarrow> True),
     tr_marker = (\<lambda>p. if p = path_of ''/r/providers-external/acme''
       then Some (marker_lines (Some ''gpu'')) else None)\<rparr>"

definition demo_selected :: "suite_error + resolved_suite" where
  "demo_selected = resolve_suite demo_tree None ''K8S'' (path_of ''/r'')"

theorem selected_suite_unique_witness:
  "case demo_selected of Inl e \<Rightarrow> False | Inr r \<Rightarrow> rs_name r = ''kubernetes''
    \<and> rs_config_path r = path_of ''/r/suites/k8s.yaml''"
proof -
  have chosen: "case demo_selected of Inl e \<Rightarrow> False
      | Inr r \<Rightarrow> rs_config_path r = path_of ''/r/suites/k8s.yaml''"
    and name: "canonical_suite_name ''K8S'' = ''kubernetes''"
    by code_simp+
  from chosen obtain r where r: "demo_selected = Inr r" "rs_config_path r = path_of ''/r/suites/k8s.yaml''"
    by (auto split: sum.splits)
  from selected_suite_unique [OF r(1) [unfolded demo_selected_def]] show ?thesis
    by (simp only: r name sum.case)
qed

definition demo_git :: registry_world where
  "demo_git = \<lparr>rw_schema = (\<lambda>v. []), rw_rev_parse = (\<lambda>p. Some ''abc'')\<rparr>"

definition demo_entry :: registry_entry where
  "demo_entry = \<lparr>re_name = ''acme'', re_vendor = [], re_repo_url = [], re_path = Some ''gpu'',
     re_commit = ''abc'', re_tested_with = [], re_suites = [''network''], re_documentation_url = [],
     re_status = []\<rparr>"

theorem external_provider_pinned_witness:
  "provider_dir demo_tree ''acme'' (path_of ''/r'')
      = child (external_provider_dir ''acme'' (path_of ''/r'')) ''gpu''
    \<and> rw_rev_parse demo_git (external_provider_dir ''acme'' (path_of ''/r'')) = Some (re_commit demo_entry)"
proof -
  have "ensure_fetched demo_tree demo_git ''acme'' (path_of ''/r'') = Inr (Some demo_entry)"
    "\<not> tr_is_dir demo_tree (in_tree_provider_dir ''acme'' (path_of ''/r''))"
    "is_fetched_checkout demo_tree (external_provider_dir ''acme'' (path_of ''/r''))"
    "load_entry demo_tree demo_git ''acme'' (path_of ''/r'') \<noteq> (None, [])"
    and gpu: "re_path demo_entry = Some ''gpu''"
    by code_simp+
  from external_provider_pinned [OF this(1) _ this(2-4)] show ?thesis by (simp add: gpu)
qed

text \<open>A file that does not merge is not skipped, as a file with an ambiguous suite is: one broken
  configuration keeps every other suite of its directory from being selected.\<close>

lemma broken_file_blocks_selection:
  assumes "platform_vocabulary t croot = Inr platforms" "p \<in> set (tr_yaml_files t (suites_dir croot))"
    and "merge_yaml_files (tr_fuel t) (tr_world t) (\<lambda>_. None) [p] [] = Some (Inl e)"
  shows "case resolve_suite t None suite croot of Inl _ \<Rightarrow> True | Inr _ \<Rightarrow> False"
proof -
  have broken: "suite_name t p platforms = Inl (MergeFailed e)" using assms(3) by (simp add: suite_name_def)
  have "q = p \<Longrightarrow> q \<in> set ps \<Longrightarrow> \<exists>e. classify t platforms ps = Inl e" for q ps
    by (induction ps) (auto simp: broken split: sum.splits suite_error.splits)
  then have "\<exists>e. classify t platforms (sort_key path_str (tr_yaml_files t (suites_dir croot))) = Inl e"
    using assms(2) by simp
  then show ?thesis
    using assms(1) by (auto simp: resolve_suite_def config_dir_of_def Let_def)
qed

end
