(* ===== verification/Step_Checks.thy ===== *)
theory Step_Checks
  imports Validation_Core
begin

text \<open>
  What the checks of \<open>isvtest.validations\<close> that judge a step output share: access to the output,
  Python's subscripts, the ends of a check, and the predicate that a check passes.
\<close>

section \<open>The ends of a check\<close>

text \<open>\<open>self.config.get("step_output", {})\<close>, whose methods are called next.\<close>

definition with_output :: "dict \<Rightarrow> verdict \<Rightarrow> (dict \<Rightarrow> ran) \<Rightarrow> ran" where
  "with_output cfg v f = (case cget cfg ''step_output'' (PDict []) of
     PDict so \<Rightarrow> f so | w \<Rightarrow> ExnRaised (NoAttribute w ''get'') v)"

definition failed :: "verdict \<Rightarrow> string \<Rightarrow> ran" where
  "failed v message = Finished (set_failed v message)"

definition passed :: "verdict \<Rightarrow> string \<Rightarrow> ran" where
  "passed v message = Finished (set_passed v (PStr message))"

definition required_then ::
  "(rat \<Rightarrow> string) \<Rightarrow> dict \<Rightarrow> string list \<Rightarrow> string \<Rightarrow> verdict \<Rightarrow> (verdict \<Rightarrow> ran) \<Rightarrow> ran" where
  "required_then fr cfg required label v f =
    (case check_required_tests fr cfg (map PStr required) label ''tests'' v of
       Inl r \<Rightarrow> r | Inr v' \<Rightarrow> f v')"

section \<open>Subscripts\<close>

text \<open>\<open>v["key"]\<close> and \<open>len(v)\<close>.\<close>

definition item :: "pval \<Rightarrow> string \<Rightarrow> exn + pval" where
  "item v k = (case v of
     PDict d \<Rightarrow> (case sget d k of None \<Rightarrow> Inl (KeyError k) | Some w \<Rightarrow> Inr w)
   | _ \<Rightarrow> Inl (NotSubscriptable v k))"

definition py_len :: "pval \<Rightarrow> exn + nat" where
  "py_len v = (case v of
     PList xs \<Rightarrow> Inr (length xs) | PDict d \<Rightarrow> Inr (length d) | PStr s \<Rightarrow> Inr (length s)
   | _ \<Rightarrow> Inl (NoLength v))"

section \<open>Passing\<close>

definition passes :: "check \<Rightarrow> dict \<Rightarrow> bool" where
  "passes run cfg = (case run cfg fresh_verdict of Finished v \<Rightarrow> vd_passed v | _ \<Rightarrow> False)"

lemma case_passed [simp]:
  "(case passed v m of Finished w \<Rightarrow> vd_passed w | SkipRaised r \<Rightarrow> a r | ExnRaised e w \<Rightarrow> b e w) = True"
  by (simp add: passed_def set_passed_def)

lemma case_failed [simp]:
  "(case failed v m of Finished w \<Rightarrow> vd_passed w | SkipRaised r \<Rightarrow> a r | ExnRaised e w \<Rightarrow> b e w) = False"
  by (simp add: failed_def set_failed_def)

text \<open>The end of a run, as the check rules read it.\<close>

definition went_well :: "ran \<Rightarrow> bool" where
  "went_well r = (case r of Finished v \<Rightarrow> vd_passed v | _ \<Rightarrow> False)"

lemma passes_iff: "passes run cfg = went_well (run cfg fresh_verdict)"
  by (simp add: passes_def went_well_def)

lemma went_well_simps [simp]:
  "went_well (passed v m)" "\<not> went_well (failed v m)"
  "\<not> went_well (SkipRaised r)" "\<not> went_well (ExnRaised e v)"
  "went_well (Finished v) = vd_passed v"
  by (simp_all add: went_well_def)

lemma went_well_if: "went_well (if c then a else b) = (if c then went_well a else went_well b)"
  by simp

lemma went_well_with_output:
  "went_well (with_output cfg v f) = (case cget cfg ''step_output'' (PDict []) of
     PDict so \<Rightarrow> went_well (f so) | _ \<Rightarrow> False)"
  by (simp add: with_output_def split: pval.split)

end
