(* ===== verification/Network_Policy.thy ===== *)
theory Network_Policy
  imports Step_Checks
begin

text \<open>
  The checks of \<open>isvtest.validations.network\<close> that judge the evidence of a provider's step output
  about traffic filtering: security groups, segment boundaries, five-tuple filtering, approvals of
  allow rules, and the logging around them.

  A check is a function of its configuration and of the verdict so far, as in \<open>Validation_Core\<close>.
  \<open>fr\<close> prints a float; \<open>instant\<close> is \<open>datetime.fromisoformat\<close> (\<open>None\<close>: it raises; an instant that is
  missing: no time zone). Numbers that a step output reports, as numbers or as text, are finite.
\<close>

section \<open>Required tests of a step output\<close>

text \<open>The same with the \<open>operations\<close> of the configuration, when it has any, in place of the default.\<close>

definition operations_then ::
  "(rat \<Rightarrow> string) \<Rightarrow> dict \<Rightarrow> string list \<Rightarrow> verdict \<Rightarrow> (nat \<Rightarrow> verdict \<Rightarrow> ran) \<Rightarrow> ran" where
  "operations_then fr cfg default_tests v f =
    (case py_iter (py_or (field_of cfg ''operations'') (PList (map PStr default_tests))) of
       Inl e \<Rightarrow> (case check_required_tests fr cfg [] ''Failed tests'' ''tests'' v of
         Inl r \<Rightarrow> r | Inr v' \<Rightarrow> ExnRaised e v')
     | Inr names \<Rightarrow> (case check_required_tests fr cfg names ''Failed tests'' ''tests'' v of
         Inl r \<Rightarrow> r | Inr v' \<Rightarrow> f (length names) v'))"

definition vpc_crud_check :: "(rat \<Rightarrow> string) \<Rightarrow> check" where
  "vpc_crud_check fr cfg v = operations_then fr cfg
     [''create_vpc'', ''read_vpc'', ''update_tags'', ''update_dns'', ''delete_vpc''] v
     (\<lambda>n v'. passed v' (''All '' @ nat_str n @ '' CRUD tests passed''))"

definition sg_crud_check :: "(rat \<Rightarrow> string) \<Rightarrow> check" where
  "sg_crud_check fr cfg v = operations_then fr cfg
     [''create_vpc'', ''create_sg'', ''read_sg'', ''update_sg_add_rule'', ''update_sg_modify_rule'',
      ''update_sg_remove_rule'', ''delete_sg'', ''verify_deleted''] v
     (\<lambda>n v'. passed v' (''All '' @ nat_str n @ '' SG CRUD tests passed''))"

text \<open>\<open>d.get(a, {}).get(b, "?")\<close> as text.\<close>

definition nested_text :: "(rat \<Rightarrow> string) \<Rightarrow> dict \<Rightarrow> string \<Rightarrow> string \<Rightarrow> string \<Rightarrow> exn + string" where
  "nested_text fr d a b dflt = (case attr_get (cget d a (PDict [])) b (PStr dflt) of
     Inl e \<Rightarrow> Inl e | Inr w \<Rightarrow> Inr (py_str fr w))"

definition vpc_isolation_check :: "(rat \<Rightarrow> string) \<Rightarrow> check" where
  "vpc_isolation_check fr cfg v = with_output cfg v (\<lambda>so.
     required_then fr cfg [''no_peering'', ''no_cross_routes_a'', ''no_cross_routes_b'',
       ''sg_isolation_a'', ''sg_isolation_b''] ''Isolation violations'' v (\<lambda>v'.
       case nested_text fr so ''vpc_a'' ''id'' ''?'' of
         Inl e \<Rightarrow> ExnRaised e v'
       | Inr a \<Rightarrow> (case nested_text fr so ''vpc_b'' ''id'' ''?'' of
           Inl e \<Rightarrow> ExnRaised e v'
         | Inr b \<Rightarrow> passed v' (''VPCs '' @ a @ '' and '' @ b @ '' are properly isolated''))))"

definition security_blocking_check :: "(rat \<Rightarrow> string) \<Rightarrow> check" where
  "security_blocking_check fr cfg v = required_then fr cfg
     [''sg_default_deny_inbound'', ''sg_allows_specific_ssh'', ''sg_denies_vpc_icmp'',
      ''nacl_explicit_deny'', ''sg_restricted_egress''] ''Security tests failed'' v
     (\<lambda>v'. passed v' ''All 5 security blocking tests passed'')"

definition traffic_flow_check :: "(rat \<Rightarrow> string) \<Rightarrow> check" where
  "traffic_flow_check fr cfg v = required_then fr cfg
     [''traffic_allowed'', ''traffic_blocked'', ''internet_icmp'', ''internet_http''] ''Traffic tests failed'' v
     (\<lambda>v'. with_output cfg v' (\<lambda>so. case cget so ''tests'' (PDict []) of
        PDict tests \<Rightarrow> (case nested_text fr tests ''traffic_allowed'' ''latency_ms'' ''N/A'' of
            Inl e \<Rightarrow> ExnRaised e v'
          | Inr latency \<Rightarrow> passed v' (''All 4 traffic tests passed (latency: '' @ latency @ ''ms)''))
      | w \<Rightarrow> ExnRaised (NoAttribute w ''get'') v'))"

text \<open>\<open>_run_sg_scoping_check\<close> and its four uses.\<close>

definition sg_scoping_check ::
  "(rat \<Rightarrow> string) \<Rightarrow> string list \<Rightarrow> string \<Rightarrow> string \<Rightarrow> check" where
  "sg_scoping_check fr required default_scope label cfg v =
    required_then fr cfg required (label @ '' scoping tests failed'') v (\<lambda>v'.
      with_output cfg v' (\<lambda>so. passed v' (''SG rules correctly scoped at ''
        @ py_str fr (cget so ''scope'' (PStr default_scope)) @ '' level'')))"

definition sg_workload_scoping_check :: "(rat \<Rightarrow> string) \<Rightarrow> check" where
  "sg_workload_scoping_check fr = sg_scoping_check fr [''create_sg'', ''apply_workload_rule'',
     ''workload_allowed'', ''other_workload_blocked'', ''cleanup''] ''workload'' ''Workload''"

definition sg_node_scoping_check :: "(rat \<Rightarrow> string) \<Rightarrow> check" where
  "sg_node_scoping_check fr = sg_scoping_check fr [''create_sg'', ''apply_node_rule'',
     ''target_node_allowed'', ''other_node_blocked'', ''cleanup''] ''node'' ''Node''"

definition sg_subnet_scoping_check :: "(rat \<Rightarrow> string) \<Rightarrow> check" where
  "sg_subnet_scoping_check fr = sg_scoping_check fr [''create_sg'', ''apply_subnet_rule'',
     ''subnet_allowed'', ''other_subnet_blocked'', ''cleanup''] ''subnet'' ''Subnet''"

definition sg_service_scoping_check :: "(rat \<Rightarrow> string) \<Rightarrow> check" where
  "sg_service_scoping_check fr = sg_scoping_check fr [''create_sg'', ''apply_service_rule'',
     ''service_endpoint_allowed'', ''other_endpoint_blocked'', ''cleanup''] ''service'' ''Service''"

definition sg_port_security_policy_check :: "(rat \<Rightarrow> string) \<Rightarrow> check" where
  "sg_port_security_policy_check fr cfg v = required_then fr cfg
     [''create_virtual_interface'', ''apply_port_policy'', ''allowed_port_permitted'',
      ''unlisted_port_blocked'', ''other_interface_unaffected'', ''cleanup'']
     ''Port security policy tests failed'' v
     (\<lambda>v'. passed v' ''Custom port security policy scoped to virtual interface'')"

section \<open>Logging of the network\<close>

definition is_evidence_present :: "dict \<Rightarrow> string \<Rightarrow> bool" where
  "is_evidence_present so key = (case field_of so key of PStr s \<Rightarrow> strip s \<noteq> [] | w \<Rightarrow> w \<noteq> PNone)"

text \<open>\<open>_run_sdn_logging_check\<close> and its three uses.\<close>

definition sdn_logging_check ::
  "(rat \<Rightarrow> string) \<Rightarrow> string list \<Rightarrow> string list \<Rightarrow> string \<Rightarrow> check" where
  "sdn_logging_check fr required evidence label cfg v =
    required_then fr cfg required (label @ '' logging tests failed'') v (\<lambda>v'.
      with_output cfg v' (\<lambda>so.
        (let missing = filter (\<lambda>key. \<not> is_evidence_present so key) evidence
         in if missing \<noteq> [] then failed v' (''Missing SDN logging evidence: '' @ join '', '' missing)
            else passed v' (label @ '' logging validated ('' @ join '', ''
              (map (\<lambda>key. key @ ''='' @ py_str fr (field_of so key)) evidence) @ '')''))))"

definition sdn_hardware_fault_check :: "(rat \<Rightarrow> string) \<Rightarrow> check" where
  "sdn_hardware_fault_check fr = sdn_logging_check fr
     [''logging_endpoint_reachable'', ''fault_event_source_queryable'', ''log_destination_configured'',
      ''event_schema_valid''] [''log_destination'', ''recent_event_count''] ''SDN hardware fault''"

definition sdn_latency_perf_check :: "(rat \<Rightarrow> string) \<Rightarrow> check" where
  "sdn_latency_perf_check fr = sdn_logging_check fr
     [''metrics_endpoint_reachable'', ''performance_metric_present'', ''packet_metric_present'',
      ''samples_recent''] [''telemetry_namespace'', ''sample_window_seconds'', ''probe_resource_id'']
     ''SDN latency/performance''"

definition sdn_filter_audit_check :: "(rat \<Rightarrow> string) \<Rightarrow> check" where
  "sdn_filter_audit_check fr = sdn_logging_check fr
     [''audit_endpoint_reachable'', ''create_rule_logged'', ''modify_rule_logged'',
      ''delete_rule_logged'', ''audit_event_has_required_fields'', ''cleanup'']
     [''trail_id'', ''actor_field'', ''target_rule_id''] ''SDN filtering audit trail''"

section \<open>Propagation of a policy\<close>

text \<open>\<open>float(value)\<close> of a value that is no bool.\<close>

definition float_of :: "pval \<Rightarrow> rat option" where
  "float_of v = (case v of PStr s \<Rightarrow> py_float s | w \<Rightarrow> py_number w)"

definition coerce_nonnegative_float :: "(rat \<Rightarrow> string) \<Rightarrow> pval \<Rightarrow> string \<Rightarrow> string + rat" where
  "coerce_nonnegative_float fr v field_name = (case v of
     PBool b \<Rightarrow> Inl (''`'' @ field_name @ ''` must be a number, got bool: '' @ py_repr fr v)
   | _ \<Rightarrow> (case float_of v of
       None \<Rightarrow> Inl (''`'' @ field_name @ ''` must be a number, got '' @ type_name v @ '': '' @ py_repr fr v)
     | Some r \<Rightarrow> if r < 0 then Inl (''`'' @ field_name @ ''` must be >= 0, got '' @ fr r) else Inr r))"

definition exceeds :: "string \<Rightarrow> string + rat \<Rightarrow> string + rat \<Rightarrow> string list" where
  "exceeds what seconds limit = (case (seconds, limit) of
     (Inr s, Inr m) \<Rightarrow> if m < s then [what @ '' '' @ fixed2 s @ ''s exceeds '' @ fixed2 m @ ''s''] else []
   | _ \<Rightarrow> [])"

definition error_of :: "string + rat \<Rightarrow> string list" where
  "error_of x = (case x of Inl e \<Rightarrow> [e] | Inr r \<Rightarrow> [])"

definition sg_policy_propagation_check :: "(rat \<Rightarrow> string) \<Rightarrow> check" where
  "sg_policy_propagation_check fr cfg v = with_output cfg v (\<lambda>so.
    (let limit = coerce_nonnegative_float fr
           (cget cfg ''max_propagation_seconds'' (cget so ''max_propagation_seconds'' (PInt 10)))
           ''max_propagation_seconds'';
         add = coerce_nonnegative_float fr (field_of so ''add_observed_seconds'') ''add_observed_seconds'';
         remove = coerce_nonnegative_float fr (field_of so ''remove_observed_seconds'') ''remove_observed_seconds'';
         slow = exceeds ''add'' add limit @ exceeds ''remove'' remove limit
     in if slow \<noteq> [] then failed v (''Security policy propagation timing exceeded: '' @ join '', '' slow)
        else required_then fr cfg [''create_probe_rule'', ''rule_observed'', ''revoke_probe_rule'',
          ''removal_observed'', ''cleanup''] ''Security policy propagation tests failed'' v (\<lambda>v'.
          (let missing = filter (\<lambda>key. field_of so key \<in> {PNone, PStr []})
                 [''target_rule_id'', ''add_observed_seconds'', ''remove_observed_seconds'']
           in if missing \<noteq> []
              then failed v' (''Missing SDN policy propagation evidence: '' @ join '', '' missing)
              else (case (limit, add, remove) of
                (Inr m, Inr a, Inr r) \<Rightarrow> passed v' (''Security policy propagation within threshold (target=''
                   @ py_str fr (field_of so ''target_rule_id'') @ '', add='' @ fixed2 a @ ''s, remove=''
                   @ fixed2 r @ ''s, max='' @ fixed2 m @ ''s)'')
              | (Inl e, _, _) \<Rightarrow> failed v' e
              | _ \<Rightarrow> failed v' (join ''; '' (error_of add @ error_of remove)))))))"

section \<open>Segment boundaries\<close>

definition flow_label :: "(rat \<Rightarrow> string) \<Rightarrow> dict \<Rightarrow> string" where
  "flow_label fr flow =
    (let protocol = py_str fr (cget flow ''protocol'' (PStr ''?'')); port = field_of flow ''port''
     in if port = PNone then protocol else protocol @ ''/'' @ py_str fr port)"

definition prohibited_flow :: "(rat \<Rightarrow> string) \<Rightarrow> pval \<Rightarrow> string list" where
  "prohibited_flow fr flow = (case flow of
     PDict f \<Rightarrow>
       (let result = field_of f ''result''
        in if result \<in> {PStr ''connected'', PStr ''refused''}
           then [flow_label fr f @ '' reached the target ('' @ py_str fr result @ '')'']
           else if result \<noteq> PStr ''timeout''
           then [flow_label fr f @ '' probe did not complete (result '' @ py_repr fr result @ '')'']
           else [])
   | _ \<Rightarrow> [''malformed prohibited flow '' @ py_repr fr flow])"

definition step_error_text :: "(rat \<Rightarrow> string) \<Rightarrow> dict \<Rightarrow> string" where
  "step_error_text fr so = py_str fr (cget so ''error'' (PStr ''Unknown error''))"

definition segment_boundary_check :: "(rat \<Rightarrow> string) \<Rightarrow> check" where
  "segment_boundary_check fr cfg v = with_output cfg v (\<lambda>so.
    if \<not> truthy (field_of so ''success'')
    then failed v (''Segment boundary step failed: '' @ step_error_text fr so)
    else (case field_of so ''positive_control'' of
      PDict control \<Rightarrow>
       (if field_of control ''result'' \<noteq> PStr ''connected''
        then failed v (''Positive control '' @ flow_label fr control @ '' did not connect (result ''
          @ py_repr fr (field_of control ''result'')
          @ ''), so blocked probes cannot be attributed to default-deny'')
        else (case field_of so ''prohibited_flows'' of
          PList (f # fs) \<Rightarrow>
           (let failures = concat (map (prohibited_flow fr) (f # fs))
            in if failures \<noteq> [] then failed v (''Default-deny not enforced: '' @ join ''; '' failures)
               else passed v (''Positive control '' @ flow_label fr control @ '' connected; all ''
                 @ nat_str (length (f # fs)) @ '' prohibited flow(s) dropped: '' @ join '', ''
                   [flow_label fr d. PDict d \<leftarrow> f # fs]))
        | _ \<Rightarrow> failed v ''`prohibited_flows` must be a non-empty list of probes''))
    | _ \<Rightarrow> failed v ''`positive_control` must be an object describing the explicitly allowed flow''))"

section \<open>Five-tuple filtering\<close>

definition FIVE_TUPLE_DIMENSIONS :: "string list" where
  "FIVE_TUPLE_DIMENSIONS = [''protocol'', ''source_ip'', ''destination_ip'', ''source_port'', ''destination_port'']"

definition DEFAULT_REQUIRED_DIMENSIONS :: "string list" where
  "DEFAULT_REQUIRED_DIMENSIONS = [''protocol'', ''source_ip'', ''destination_ip'', ''destination_port'']"

definition variant_failure :: "(rat \<Rightarrow> string) \<Rightarrow> dict \<Rightarrow> string \<Rightarrow> dict \<Rightarrow> string list" where
  "variant_failure fr baseline dimension probe =
    (let value = field_of probe ''value''; result = field_of probe ''result'';
         label = dimension @ ''='' @ py_repr fr value
     in if value \<in> {PNone, PStr []} \<or> py_eq value (field_of baseline dimension)
        then [label @ '' does not differ from the baseline'']
        else if result \<in> {PStr ''connected'', PStr ''refused''}
        then [label @ '' reached the target ('' @ py_str fr result @ '')'']
        else if result \<noteq> PStr ''timeout''
        then [label @ '' probe did not complete (result '' @ py_repr fr result @ '')'']
        else [])"

definition probes_of :: "pval list \<Rightarrow> string \<Rightarrow> dict list" where
  "probes_of variants dimension =
    filter (\<lambda>d. field_of d ''dimension'' = PStr dimension) [d. PDict d \<leftarrow> variants]"

definition dimension_failures :: "(rat \<Rightarrow> string) \<Rightarrow> dict \<Rightarrow> pval list \<Rightarrow> string \<Rightarrow> string list" where
  "dimension_failures fr baseline variants dimension =
    (if probes_of variants dimension = [] then [''no '' @ dimension @ '' variant probed'']
     else concat (map (variant_failure fr baseline dimension) (probes_of variants dimension)))"

definition five_tuple_check :: "(rat \<Rightarrow> string) \<Rightarrow> check" where
  "five_tuple_check fr cfg v = with_output cfg v (\<lambda>so.
    if \<not> truthy (field_of so ''success'')
    then failed v (''Five-tuple filtering step failed: '' @ step_error_text fr so)
    else (case py_or (field_of cfg ''required_dimensions'') (PList (map PStr DEFAULT_REQUIRED_DIMENSIONS)) of
      PList required \<Rightarrow>
       (let unknown = filter (\<lambda>d. d \<notin> PStr ` set FIVE_TUPLE_DIMENSIONS) required
        in if unknown \<noteq> []
           then failed v (''Unknown five-tuple dimension(s) in required_dimensions: ''
             @ join '', '' (map (py_str fr) unknown))
           else (case field_of so ''baseline'' of
             PDict baseline \<Rightarrow>
              (let dims = [s. PStr s \<leftarrow> required];
                   missing = filter (\<lambda>d. field_of baseline d \<in> {PNone, PStr []}) dims
               in if missing \<noteq> [] then failed v (''Baseline flow is missing '' @ join '', '' missing)
                  else if field_of baseline ''result'' \<noteq> PStr ''connected''
                  then failed v (''Baseline flow did not connect (result ''
                    @ py_repr fr (field_of baseline ''result'')
                    @ ''), so dropped variants cannot be attributed to filtering'')
                  else (case field_of so ''variants'' of
                    PList variants \<Rightarrow>
                     (let failures = concat (map (dimension_failures fr baseline variants) dims)
                      in if failures \<noteq> []
                         then failed v (''Five-tuple filtering not enforced: '' @ join ''; '' failures)
                         else passed v (''Baseline flow connected; variants differing in ''
                           @ join '', '' dims @ '' were all dropped''))
                  | _ \<Rightarrow> failed v ''`variants` must be a list of probed flows''))
           | _ \<Rightarrow> failed v ''`baseline` must be an object describing the allowed flow''))
    | _ \<Rightarrow> failed v ''`required_dimensions` must be a list of dimension names''))"

section \<open>Approval of allow rules\<close>

definition is_text :: "pval \<Rightarrow> bool" where
  "is_text v = (case v of PStr s \<Rightarrow> strip s \<noteq> [] | _ \<Rightarrow> False)"

definition timestamp :: "(string \<Rightarrow> rat option option) \<Rightarrow> pval \<Rightarrow> string + rat" where
  "timestamp instant v = (case v of
     PStr s \<Rightarrow> (case instant (concat (map (\<lambda>c. if c = CHR ''Z'' then ''+00:00'' else [c]) s)) of
         None \<Rightarrow> Inl ''Invalid evidence timestamp''
       | Some None \<Rightarrow> Inl ''Evidence timestamps must include a timezone''
       | Some (Some t) \<Rightarrow> Inr t)
   | _ \<Rightarrow> Inl ''Evidence requires timezone-aware observation and approval timestamps'')"

definition valid_ports :: "pval \<Rightarrow> bool" where
  "valid_ports v = (case v of PList [PInt a, PInt b] \<Rightarrow> 0 \<le> a \<and> a \<le> b \<and> b \<le> 65535 | _ \<Rightarrow> False)"

definition icmp_value :: "pval \<Rightarrow> bool" where
  "icmp_value v = (case v of PInt i \<Rightarrow> -1 \<le> i \<and> i \<le> 255 | _ \<Rightarrow> False)"

definition other_protocol :: "string \<Rightarrow> bool" where
  "other_protocol p = (case (if list_all is_digit p then unsigned_val p else None) of
     None \<Rightarrow> False
   | Some n \<Rightarrow> n \<le> 255 \<and> n \<notin> {1, 6, 17, 58})"

definition BASE_SCOPE :: "string list" where
  "BASE_SCOPE = [''direction'', ''source'', ''destination'', ''protocol'']"

text \<open>The dimensions that a scope with this protocol consists of, once they are validated.\<close>

definition protocol_fields :: "dict \<Rightarrow> string \<Rightarrow> string + string list" where
  "protocol_fields scope protocol =
    (if protocol \<in> {''tcp'', ''udp''}
     then (if valid_ports (field_of scope ''port_range'') then Inr [''port_range'']
       else Inl ''TCP/UDP scope requires a valid inclusive port_range'')
     else if protocol \<in> {''icmp'', ''icmpv6''}
     then (if \<not> (icmp_value (field_of scope ''icmp_type'') \<and> icmp_value (field_of scope ''icmp_code''))
       then Inl ''ICMP scope requires valid type and code (-1 means all)''
       else if field_of scope ''icmp_type'' = PInt (-1) \<and> field_of scope ''icmp_code'' \<noteq> PInt (-1)
       then Inl ''All ICMP types require all codes'' else Inr [''icmp_type'', ''icmp_code''])
     else if protocol \<noteq> ''all'' \<and> \<not> other_protocol protocol
     then Inl ''Unsupported or non-normalized protocol'' else Inr [])"

definition rule_scope :: "pval \<Rightarrow> string + dict" where
  "rule_scope v = (case v of
     PDict scope \<Rightarrow>
       demand (field_of scope ''direction'' \<in> {PStr ''ingress'', PStr ''egress''})
         ''Traffic scope requires ingress or egress direction'' (
       demand (list_all (\<lambda>k. is_text (field_of scope k)) [''source'', ''destination'', ''protocol''])
         ''Traffic scope requires source, destination, and protocol'' (
       (case protocol_fields scope (case field_of scope ''protocol'' of PStr p \<Rightarrow> p | _ \<Rightarrow> []) of
          Inl e \<Rightarrow> Inl e
        | Inr extra \<Rightarrow> demand (set (dkeys scope) = KStr ` set (BASE_SCOPE @ extra))
            ''Traffic scope has missing or unsupported match dimensions'' ( Inr scope))))
   | _ \<Rightarrow> Inl ''Traffic scope must be an object'')"

fun attributed :: "dict \<Rightarrow> dict \<Rightarrow> string list \<Rightarrow> string option" where
  "attributed rule approval [] = None"
| "attributed rule approval (name # names) =
    (if is_text (field_of rule name) \<and> field_of approval name = field_of rule name
     then attributed rule approval names
     else Some (''Missing or mismatched '' @ name @ '' attribution''))"

fun recorded :: "dict \<Rightarrow> string list \<Rightarrow> string option" where
  "recorded approval [] = None"
| "recorded approval (name # names) = (if is_text (field_of approval name) then recorded approval names
     else Some (''Approval requires a non-empty '' @ name))"

definition no_error :: "string option \<Rightarrow> string + 'a \<Rightarrow> string + 'a" where
  "no_error e k = (case e of Some m \<Rightarrow> Inl m | None \<Rightarrow> k)"

definition approval_evidence :: "(string \<Rightarrow> rat option option) \<Rightarrow> pval \<Rightarrow> string + unit" where
  "approval_evidence instant output =
    demand (case output of PDict so \<Rightarrow> field_of so ''success'' = PBool True | _ \<Rightarrow> False)
      ''Allow-rule evidence collection did not succeed'' (
    (let so = (case output of PDict so \<Rightarrow> so | _ \<Rightarrow> [])
     in demand (is_dict (field_of so ''effective_rule'') \<and> is_dict (field_of so ''approval''))
          ''effective_rule and approval must both be objects'' (
        (let rule = (case field_of so ''effective_rule'' of PDict d \<Rightarrow> d | _ \<Rightarrow> []);
             approval = (case field_of so ''approval'' of PDict d \<Rightarrow> d | _ \<Rightarrow> [])
         in demand (field_of rule ''effective'' = PBool True \<and> field_of rule ''action'' = PStr ''allow'')
              ''The sampled rule must be an effective allow rule'' (
            no_error (attributed rule approval [''rule_id'', ''policy_id'', ''owner'']) (
            no_error (recorded approval [''record_id'', ''approver'', ''source'']) (
            demand (field_of approval ''status'' = PStr ''approved'')
              ''The matching record is not explicitly approved'' (
            and_then (timestamp instant (field_of so ''observed_at'')) (\<lambda>observed.
            and_then (timestamp instant (field_of approval ''approved_at'')) (\<lambda>approved.
            demand (approved \<le> observed) ''Approval postdates the rule observation'' (
            and_then (if dhas approval (KStr ''expires_at'')
                then map_sum id Some (timestamp instant (field_of approval ''expires_at'')) else Inr None) (\<lambda>expiry.
            demand (case expiry of None \<Rightarrow> True | Some t \<Rightarrow> observed < t)
              ''Approval has expired at the rule observation'' (
            and_then (rule_scope (field_of rule ''scope'')) (\<lambda>scope.
            and_then (rule_scope (field_of approval ''scope'')) (\<lambda>agreed.
            demand (py_eq (PDict agreed) (PDict scope))
              ''Approved traffic scope does not match the effective rule'' ( Inr ()))))))))))))))))"

definition allow_rule_approval_check :: "(string \<Rightarrow> rat option option) \<Rightarrow> check" where
  "allow_rule_approval_check instant cfg v = (case approval_evidence instant (field_of cfg ''step_output'') of
     Inl e \<Rightarrow> failed v e
   | Inr _ \<Rightarrow> passed v ''Sampled effective allow rule has owner attribution and a matching approved record'')"

section \<open>What a passing check has established\<close>

definition dropped_variant :: "dict \<Rightarrow> string \<Rightarrow> dict \<Rightarrow> bool" where
  "dropped_variant baseline dimension probe \<longleftrightarrow>
     field_of probe ''value'' \<notin> {PNone, PStr []}
   \<and> \<not> py_eq (field_of probe ''value'') (field_of baseline dimension)
   \<and> field_of probe ''result'' = PStr ''timeout''"

definition enforced_dimension :: "dict \<Rightarrow> pval list \<Rightarrow> string \<Rightarrow> bool" where
  "enforced_dimension baseline variants dimension \<longleftrightarrow>
     field_of baseline dimension \<notin> {PNone, PStr []}
   \<and> probes_of variants dimension \<noteq> []
   \<and> list_all (dropped_variant baseline dimension) (probes_of variants dimension)"

definition five_tuple_evidence :: "dict \<Rightarrow> bool" where
  "five_tuple_evidence cfg =
    (case cget cfg ''step_output'' (PDict []) of
       PDict so \<Rightarrow> truthy (field_of so ''success'') \<and>
        (case (py_or (field_of cfg ''required_dimensions'') (PList (map PStr DEFAULT_REQUIRED_DIMENSIONS)),
               field_of so ''baseline'', field_of so ''variants'') of
           (PList required, PDict baseline, PList variants) \<Rightarrow>
             list_all (\<lambda>d. d \<in> PStr ` set FIVE_TUPLE_DIMENSIONS) required
           \<and> field_of baseline ''result'' = PStr ''connected''
           \<and> list_all (enforced_dimension baseline variants) [s. PStr s \<leftarrow> required]
         | _ \<Rightarrow> False)
     | _ \<Rightarrow> False)"

lemma variant_failure_none:
  "variant_failure fr baseline dimension probe = [] \<longleftrightarrow> dropped_variant baseline dimension probe"
  by (auto simp: variant_failure_def dropped_variant_def Let_def)

lemma dimension_failures_none:
  "field_of baseline dimension \<notin> {PNone, PStr []} \<Longrightarrow>
   dimension_failures fr baseline variants dimension = [] \<longleftrightarrow> enforced_dimension baseline variants dimension"
  by (auto simp: dimension_failures_def enforced_dimension_def variant_failure_none list_all_iff)

lemma dimensions_enforced:
  "(filter (\<lambda>d. field_of baseline d \<in> {PNone, PStr []}) dims = []
    \<and> concat (map (dimension_failures fr baseline variants) dims) = [])
   \<longleftrightarrow> list_all (enforced_dimension baseline variants) dims"
  by (induction dims) (auto simp: dimension_failures_none enforced_dimension_def dimension_failures_def
      variant_failure_none list_all_iff)

text \<open>C29. The five-tuple check passes exactly when the probes show that every required dimension is matched:
  the step succeeded, the required dimensions are known ones, the baseline flow states each of
  them and connected, and for each of them at least one variant was probed and every variant
  differs from the baseline in it and was dropped. One refused, unfinished or missing probe is
  enough to fail it, whatever the other probes show.\<close>

theorem five_tuple_enforced:
  "passes (five_tuple_check fr) cfg = five_tuple_evidence cfg"
proof (cases "cget cfg ''step_output'' (PDict [])")
  case (PDict so)
  show ?thesis
  proof (cases "truthy (field_of so ''success'')
      \<and> (\<exists>req b. py_or (field_of cfg ''required_dimensions'') (PList (map PStr DEFAULT_REQUIRED_DIMENSIONS)) = PList req
           \<and> field_of so ''baseline'' = PDict b)")
    case False
    then show ?thesis
      by (auto simp: passes_def five_tuple_check_def five_tuple_evidence_def with_output_def PDict Let_def
          split: pval.splits)
  next
    case True
    then obtain req b where
      r: "truthy (field_of so ''success'')"
        "py_or (field_of cfg ''required_dimensions'') (PList (map PStr DEFAULT_REQUIRED_DIMENSIONS)) = PList req"
        "field_of so ''baseline'' = PDict b" by auto
    show ?thesis
    proof (cases "field_of so ''variants''")
      case (PList vs)
      show ?thesis
        using dimensions_enforced [of b "[s. PStr s \<leftarrow> req]" fr vs]
        by (auto simp: passes_def five_tuple_check_def five_tuple_evidence_def with_output_def PDict PList r
            Let_def filter_empty_conv list_all_iff enforced_dimension_def)
    qed (auto simp: passes_def five_tuple_check_def five_tuple_evidence_def with_output_def PDict r Let_def)
  qed
qed (auto simp: passes_def five_tuple_check_def five_tuple_evidence_def with_output_def)

definition demo_probe :: "string \<Rightarrow> string \<Rightarrow> pval" where
  "demo_probe dimension value = PDict [(KStr ''dimension'', PStr dimension), (KStr ''value'', PStr value),
     (KStr ''result'', PStr ''timeout'')]"

definition demo_filtering :: dict where
  "demo_filtering = [(KStr ''required_dimensions'', PList [PStr ''protocol'']),
     (KStr ''step_output'', PDict [(KStr ''success'', PBool True),
       (KStr ''baseline'', PDict [(KStr ''protocol'', PStr ''tcp''), (KStr ''result'', PStr ''connected'')]),
       (KStr ''variants'', PList [demo_probe ''protocol'' ''udp''])])]"

lemma demo_filtering_passes: "five_tuple_evidence demo_filtering"
  by code_simp

text \<open>The boundary is closed: the explicitly allowed flow connected, at least one prohibited flow was
  probed, and every prohibited flow was dropped.\<close>

definition closed_boundary :: "dict \<Rightarrow> bool" where
  "closed_boundary cfg =
    (case cget cfg ''step_output'' (PDict []) of
       PDict so \<Rightarrow> truthy (field_of so ''success'') \<and>
        (case (field_of so ''positive_control'', field_of so ''prohibited_flows'') of
           (PDict control, PList flows) \<Rightarrow>
             field_of control ''result'' = PStr ''connected'' \<and> flows \<noteq> []
           \<and> list_all (\<lambda>f. case f of PDict d \<Rightarrow> field_of d ''result'' = PStr ''timeout'' | _ \<Rightarrow> False) flows
         | _ \<Rightarrow> False)
     | _ \<Rightarrow> False)"

lemma prohibited_flow_none:
  "prohibited_flow fr f = [] \<longleftrightarrow> (case f of PDict d \<Rightarrow> field_of d ''result'' = PStr ''timeout'' | _ \<Rightarrow> False)"
  by (auto simp: prohibited_flow_def Let_def split: pval.splits)

lemma prohibited_flows_none:
  "concat (map (prohibited_flow fr) flows) = []
   \<longleftrightarrow> list_all (\<lambda>f. case f of PDict d \<Rightarrow> field_of d ''result'' = PStr ''timeout'' | _ \<Rightarrow> False) flows"
  by (induction flows) (simp_all add: prohibited_flow_none)

text \<open>The segment-boundary check passes exactly on a closed boundary.\<close>

lemma segment_boundary_closed:
  "passes (segment_boundary_check fr) cfg = closed_boundary cfg"
proof (cases "cget cfg ''step_output'' (PDict [])")
  case (PDict so)
  show ?thesis
  proof (cases "field_of so ''positive_control''")
    case (PDict control)
    show ?thesis
    proof (cases "field_of so ''prohibited_flows''")
      case (PList flows)
      show ?thesis
        using PDict PList \<open>cget cfg ''step_output'' (PDict []) = PDict so\<close>
        by (cases flows)
          (auto simp: passes_def segment_boundary_check_def closed_boundary_def with_output_def Let_def
            prohibited_flow_none list_all_iff)
    qed (use PDict \<open>cget cfg ''step_output'' (PDict []) = PDict so\<close> in
          \<open>auto simp: passes_def segment_boundary_check_def closed_boundary_def with_output_def\<close>)
  qed (auto simp: passes_def segment_boundary_check_def closed_boundary_def with_output_def PDict)
qed (auto simp: passes_def segment_boundary_check_def closed_boundary_def with_output_def)

text \<open>An observed propagation time above the threshold fails the timing check, whatever else the
  step reports: also when every required test is reported skipped, which would otherwise end the
  run as skipped. The value and the threshold only have to be readable as non-negative numbers.\<close>

theorem slow_propagation_fails:
  assumes "cget cfg ''step_output'' (PDict []) = PDict so"
    and "coerce_nonnegative_float fr (cget cfg ''max_propagation_seconds'' (cget so ''max_propagation_seconds'' (PInt 10)))
      ''max_propagation_seconds'' = Inr limit"
    and "key \<in> {''add_observed_seconds'', ''remove_observed_seconds''}"
    and "coerce_nonnegative_float fr (field_of so key) key = Inr seconds"
    and "limit < seconds"
  shows "\<exists>w. sg_policy_propagation_check fr cfg v = Finished w \<and> \<not> vd_passed w"
proof -
  let ?limit = "coerce_nonnegative_float fr (cget cfg ''max_propagation_seconds''
      (cget so ''max_propagation_seconds'' (PInt 10))) ''max_propagation_seconds''"
  let ?seconds = "\<lambda>key. coerce_nonnegative_float fr (field_of so key) key"
  let ?slow = "exceeds ''add'' (?seconds ''add_observed_seconds'') ?limit
      @ exceeds ''remove'' (?seconds ''remove_observed_seconds'') ?limit"
  have "exceeds what (Inr seconds) (Inr limit) \<noteq> []" for what
    using assms(5) by (simp add: exceeds_def)
  then have "?slow \<noteq> []" using assms(2-4) by auto
  then have "sg_policy_propagation_check fr cfg v
      = failed v (''Security policy propagation timing exceeded: '' @ join '', '' ?slow)"
    by (simp only: sg_policy_propagation_check_def with_output_def assms(1) pval.case Let_def if_True
        not_False_eq_True if_P)
  then show ?thesis by (simp add: failed_def set_failed_def)
qed

definition demo_slow_output :: dict where
  "demo_slow_output = [(KStr ''add_observed_seconds'', PInt 12), (KStr ''tests'', PDict
     [(KStr ''cleanup'', PDict [(KStr ''skipped'', PBool True)])])]"

lemma slow_propagation_fails_witness:
  "\<exists>w. sg_policy_propagation_check (\<lambda>r. ''x'') [(KStr ''step_output'', PDict demo_slow_output)] fresh_verdict
     = Finished w \<and> \<not> vd_passed w"
proof (rule slow_propagation_fails [where so = demo_slow_output and key = "''add_observed_seconds''"
      and limit = 10 and seconds = 12])
  show "cget [(KStr ''step_output'', PDict demo_slow_output)] ''step_output'' (PDict []) = PDict demo_slow_output"
    by code_simp
  show "coerce_nonnegative_float (\<lambda>r. ''x'') (cget [(KStr ''step_output'', PDict demo_slow_output)]
      ''max_propagation_seconds'' (cget demo_slow_output ''max_propagation_seconds'' (PInt 10)))
      ''max_propagation_seconds'' = Inr 10"
    by code_simp
  show "coerce_nonnegative_float (\<lambda>r. ''x'') (field_of demo_slow_output ''add_observed_seconds'')
      ''add_observed_seconds'' = Inr 12"
    by code_simp
qed simp_all

text \<open>The evidence that an effective allow rule is approved: attribution, an explicit record, times that
  agree, and the same traffic scope on both sides.\<close>

definition same_scope :: "pval \<Rightarrow> pval \<Rightarrow> bool" where
  "same_scope a b = (case (rule_scope a, rule_scope b) of
     (Inr s, Inr t) \<Rightarrow> py_eq (PDict t) (PDict s) | _ \<Rightarrow> False)"

definition approved_in_time :: "(string \<Rightarrow> rat option option) \<Rightarrow> pval \<Rightarrow> dict \<Rightarrow> bool" where
  "approved_in_time instant observed_at approval =
    (case (timestamp instant observed_at, timestamp instant (field_of approval ''approved_at'')) of
       (Inr observed, Inr approved) \<Rightarrow> approved \<le> observed \<and>
         (if dhas approval (KStr ''expires_at'')
          then case timestamp instant (field_of approval ''expires_at'') of
            Inr expiry \<Rightarrow> observed < expiry | Inl _ \<Rightarrow> False
          else True)
     | _ \<Rightarrow> False)"

definition approved_rule :: "(string \<Rightarrow> rat option option) \<Rightarrow> dict \<Rightarrow> bool" where
  "approved_rule instant so =
    (field_of so ''success'' = PBool True \<and>
     (case (field_of so ''effective_rule'', field_of so ''approval'') of
        (PDict rule, PDict approval) \<Rightarrow>
          field_of rule ''effective'' = PBool True \<and> field_of rule ''action'' = PStr ''allow''
        \<and> list_all (\<lambda>k. is_text (field_of rule k) \<and> field_of approval k = field_of rule k)
            [''rule_id'', ''policy_id'', ''owner'']
        \<and> list_all (\<lambda>k. is_text (field_of approval k)) [''record_id'', ''approver'', ''source'']
        \<and> field_of approval ''status'' = PStr ''approved''
        \<and> approved_in_time instant (field_of so ''observed_at'') approval
        \<and> same_scope (field_of rule ''scope'') (field_of approval ''scope'')
      | _ \<Rightarrow> False))"

lemma attributed_none:
  "attributed rule approval names = None
   \<longleftrightarrow> list_all (\<lambda>k. is_text (field_of rule k) \<and> field_of approval k = field_of rule k) names"
  by (induction names) auto

lemma recorded_none:
  "recorded approval names = None \<longleftrightarrow> list_all (\<lambda>k. is_text (field_of approval k)) names"
  by (induction names) auto

lemma no_error_Inr: "no_error e k = Inr x \<longleftrightarrow> e = None \<and> k = Inr x"
  by (simp add: no_error_def split: option.split)

lemmas evidence_chain = demand_Inr no_error_Inr and_then_Inr attributed_none recorded_none

lemma approval_evidence_ok:
  "approval_evidence instant (PDict so) = Inr () \<longleftrightarrow> approved_rule instant so"
proof (cases "\<exists>rule approval. field_of so ''effective_rule'' = PDict rule \<and> field_of so ''approval'' = PDict approval")
  case True
  then obtain rule approval where "field_of so ''effective_rule'' = PDict rule" "field_of so ''approval'' = PDict approval"
    by auto
  then show ?thesis
    by (auto simp: approval_evidence_def approved_rule_def evidence_chain same_scope_def approved_in_time_def
        split: sum.splits if_splits)
next
  case False
  then show ?thesis
    by (auto simp: approval_evidence_def approved_rule_def evidence_chain split: pval.splits)
qed

text \<open>The approval check passes exactly on an approved rule; every defect of the evidence fails it.\<close>

lemma allow_rule_approved:
  "passes (allow_rule_approval_check instant) cfg
   = (case field_of cfg ''step_output'' of PDict so \<Rightarrow> approved_rule instant so | _ \<Rightarrow> False)"
proof (cases "field_of cfg ''step_output''")
  case (PDict so)
  then show ?thesis
    using approval_evidence_ok [of instant so]
    by (cases "approval_evidence instant (PDict so)") (auto simp: passes_def allow_rule_approval_check_def)
qed (auto simp: passes_def allow_rule_approval_check_def approval_evidence_def)

end
