(* ===== verification/Storage_Promise.thy ===== *)
theory Storage_Promise
  imports Storage_Mock
begin

text \<open>
  What a storage backend promises to its callers, as an abstract specification, and the proof that
  the in-memory backend of \<open>Storage_Mock\<close> refines it. An abstract backend is three maps: volumes by
  id, directory quotas by volume and natural key, user quotas by volume and user. The relation
  \<open>promised\<close> says for every request and answer how the maps before and after are related and what
  the answer says about them; it does not say how records are stored, searched or ordered, nor
  which of several matching records a deletion picks. \<open>promise_of\<close> reads the maps off a state.
\<close>

section \<open>The specification\<close>

record promise =
  pr_volumes :: "string \<Rightarrow> volume option"
  pr_directories :: "string \<times> string option \<Rightarrow> directory_quota option"
  pr_users :: "string \<times> string option \<Rightarrow> user_quota option"

definition selected_volume :: "list_volumes_request \<Rightarrow> volume \<Rightarrow> bool" where
  "selected_volume r v \<longleftrightarrow> (lv_ids r = [] \<or> vol_id v \<in> set (lv_ids r))
     \<and> list_all (tag_matches (vol_tags v)) (lv_tag_filters r)"

definition agrees_with :: "string option \<Rightarrow> string option \<Rightarrow> directory_quota \<Rightarrow> bool" where
  "agrees_with path i q \<longleftrightarrow> key_agrees path (dq_path q) \<and> key_agrees i (dq_id q)"

text \<open>A deletion drops one record that agrees with the request, or there is none.\<close>

definition dropped_one ::
  "mock \<Rightarrow> delete_directory_quota_request \<Rightarrow> promise \<Rightarrow> promise \<Rightarrow> bool" where
  "dropped_one m r p p' \<longleftrightarrow>
     (\<exists>q. pr_directories p (ddq_volume_id r, natural_key m q) = Some q
        \<and> agrees_with (ddq_path r) (ddq_id r) q
        \<and> p' = p\<lparr>pr_directories := (pr_directories p)((ddq_volume_id r, natural_key m q) := None)\<rparr>)
   \<or> p' = p \<and> (\<forall>k q. pr_directories p (ddq_volume_id r, k) = Some q
        \<longrightarrow> \<not> agrees_with (ddq_path r) (ddq_id r) q)"

definition answers :: "mock \<Rightarrow> request \<Rightarrow> reply \<Rightarrow> promise \<Rightarrow> promise \<Rightarrow> bool" where
  "answers m rq reply p p' = (case rq of
     CreateVolume r \<Rightarrow> (case reply of
         VolumeReply v \<Rightarrow> vol_size_bytes v = cv_size_bytes r \<and> vol_tenant_id v = mk_default_tenant m
           \<and> p' = p\<lparr>pr_volumes := (pr_volumes p)(vol_id v \<mapsto> v)\<rparr>
       | _ \<Rightarrow> False)
   | DeleteVolume r \<Rightarrow> reply = NoReply \<and> p' = p\<lparr>pr_volumes := (pr_volumes p)(dv_volume_id r := None)\<rparr>
   | ListVolumes r \<Rightarrow> (case reply of
         Volumes vs \<Rightarrow> p' = p \<and>
           (\<forall>v. v \<in> set vs \<longleftrightarrow> pr_volumes p (vol_id v) = Some v \<and> selected_volume r v)
       | _ \<Rightarrow> False)
   | GetVolume r \<Rightarrow> (case reply of
         VolumeReply v \<Rightarrow> p' = p \<and> pr_volumes p (gv_volume_id r) = Some v | _ \<Rightarrow> False)
   | SetDirectoryQuota r \<Rightarrow> (case reply of
         DirectoryQuotaReply q \<Rightarrow> normalized (dir_qual m) (dq_hard (sdq_quota r)) = Inr (dq_hard q)
           \<and> dq_volume_id q = dq_volume_id (sdq_quota r) \<and> natural_key m q = natural_key m (sdq_quota r)
           \<and> p' = p\<lparr>pr_directories := (pr_directories p)((dq_volume_id q, natural_key m q) \<mapsto> q)\<rparr>
       | _ \<Rightarrow> False)
   | GetDirectoryQuota r \<Rightarrow> (case reply of
         DirectoryQuotaReply q \<Rightarrow> p' = p \<and> pr_directories p (gdq_volume_id r, natural_key m q) = Some q
           \<and> agrees_with (gdq_path r) (gdq_id r) q
       | _ \<Rightarrow> False)
   | ListDirectoryQuotas r \<Rightarrow> (case reply of
         DirectoryQuotas qs \<Rightarrow> p' = p \<and>
           (\<forall>q. q \<in> set qs \<longleftrightarrow> pr_directories p (ldq_volume_id r, natural_key m q) = Some q)
       | _ \<Rightarrow> False)
   | DeleteDirectoryQuota r \<Rightarrow> reply = NoReply \<and> dropped_one m r p p'
   | SetUserQuota r \<Rightarrow> (case reply of
         UserQuotaReply q \<Rightarrow> normalized (user_qual m) (uq_hard (suq_quota r)) = Inr (uq_hard q)
           \<and> uq_volume_id q = uq_volume_id (suq_quota r) \<and> uq_user q = uq_user (suq_quota r)
           \<and> p' = p\<lparr>pr_users := (pr_users p)((uq_volume_id q, uq_user q) \<mapsto> q)\<rparr>
       | _ \<Rightarrow> False)
   | GetUserQuota r \<Rightarrow> (case reply of
         UserQuotaReply q \<Rightarrow> p' = p \<and> pr_users p (guq_volume_id r, guq_user r) = Some q | _ \<Rightarrow> False)
   | ListUserQuotas r \<Rightarrow> (case reply of
         UserQuotas qs \<Rightarrow> p' = p \<and>
           (\<forall>q. q \<in> set qs \<longleftrightarrow> pr_users p (luq_volume_id r, uq_user q) = Some q)
       | _ \<Rightarrow> False)
   | DeleteUserQuota r \<Rightarrow> reply = NoReply
       \<and> p' = p\<lparr>pr_users := (pr_users p)((duq_volume_id r, duq_user r) := None)\<rparr>
   | _ \<Rightarrow> p' = p)"

text \<open>A call that raises changes nothing.\<close>

definition promised :: "mock \<Rightarrow> request \<Rightarrow> storage_error + reply \<Rightarrow> promise \<Rightarrow> promise \<Rightarrow> bool" where
  "promised m rq result p p' = (case result of Inl e \<Rightarrow> p' = p | Inr reply \<Rightarrow> answers m rq reply p p')"

section \<open>The abstraction\<close>

definition promise_of :: "mock \<Rightarrow> mock_state \<Rightarrow> promise" where
  "promise_of m s = \<lparr>pr_volumes = dget (ms_volumes s),
     pr_directories = (\<lambda>(vid, k). find (\<lambda>q. natural_key m q = k)
       (directory_records s (mk_default_tenant m) vid)),
     pr_users = (\<lambda>(vid, u). get_user s (mk_default_tenant m, vid, u))\<rparr>"

lemma promise_fields [simp]:
  "pr_volumes (promise_of m s) = dget (ms_volumes s)"
  "pr_directories (promise_of m s) (vid, k) =
     find (\<lambda>q. natural_key m q = k) (directory_records s (mk_default_tenant m) vid)"
  "pr_users (promise_of m s) (vid, u) = get_user s (mk_default_tenant m, vid, u)"
  by (simp_all add: promise_of_def)

lemma promise_eqI:
  "pr_volumes p = pr_volumes p' \<Longrightarrow> (\<And>vid k. pr_directories p (vid, k) = pr_directories p' (vid, k)) \<Longrightarrow>
    (\<And>vid u. pr_users p (vid, u) = pr_users p' (vid, u)) \<Longrightarrow> p = (p' :: promise)"
  by (cases p, cases p') (auto simp: fun_eq_iff)

lemma find_member:
  "distinct (map f xs) \<Longrightarrow> find (\<lambda>x. f x = f y) xs = Some y \<longleftrightarrow> y \<in> set xs"
  by (induction xs) (auto simp: image_iff)

lemma find_delete_at:
  "distinct (map f xs) \<Longrightarrow> n < length xs \<Longrightarrow>
    find (\<lambda>x. f x = k) (delete_at n xs) = (if f (xs ! n) = k then None else find (\<lambda>x. f x = k) xs)"
proof (induction xs arbitrary: n)
  case (Cons x xs)
  show ?case
  proof (cases n)
    case 0
    have "find (\<lambda>y. f y = k) xs = None" if "f x = k"
      using Cons.prems(1) that by (auto simp: find_None_iff intro: image_eqI [OF sym])
    then show ?thesis using 0 by simp
  next
    case (Suc j)
    have "f x \<noteq> f (xs ! j)" using Cons.prems Suc by auto
    then show ?thesis using Cons Suc by auto
  qed
qed simp

lemma delete_scan_some:
  "delete_scan path i n p xs = (Some j, p') \<Longrightarrow>
    n \<le> j \<and> j - n < length xs \<and> agrees_with path i (xs ! (j - n))"
proof (induction path i n p xs rule: delete_scan.induct)
  case (2 path i n partial r rs)
  show ?case
  proof (cases "key_agrees path (dq_path r) \<and> key_agrees i (dq_id r)")
    case True
    then show ?thesis using "2.prems" by (auto simp: agrees_with_def)
  next
    case False
    from "2.IH" [OF False] "2.prems" False
    show ?thesis by (auto simp: nth_Cons' Suc_le_eq Suc_diff_Suc)
  qed
qed simp

lemma delete_scan_none:
  "delete_scan path i n p xs = (None, p') \<Longrightarrow> x \<in> set xs \<Longrightarrow> \<not> agrees_with path i x"
  by (induction path i n p xs rule: delete_scan.induct) (auto simp: agrees_with_def split: if_splits)

section \<open>The mock refines it\<close>

lemma slot_member:
  "slots_ok inner \<Longrightarrow> q \<in> set (map snd inner) \<longleftrightarrow> dget inner (uq_user q) = Some q"
  by (force simp: slots_ok_def list_all_iff dest: map_of_SomeD)

lemma volume_member:
  "volumes_inv m s \<Longrightarrow> v \<in> set (map snd (ms_volumes s)) \<longleftrightarrow> dget (ms_volumes s) (vol_id v) = Some v"
  by (force simp: volumes_inv_def list_all_iff dest: map_of_SomeD)

lemma record_member:
  "directory_inv m s \<Longrightarrow> q \<in> set (directory_records s t vid) \<longleftrightarrow>
    find (\<lambda>x. natural_key m x = natural_key m q) (directory_records s t vid) = Some q"
  using directory_records_ok [of m s t vid] by (simp add: records_ok_def find_member)

lemma create_volume_promised:
  "promised m (CreateVolume r) (fst (mock_create_volume m r s))
    (promise_of m s) (promise_of m (snd (mock_create_volume m r s)))"
  by (auto simp: mock_create_volume_def for_tenant_def Let_def promised_def answers_def
      directory_records_def get_user_def intro!: promise_eqI dest!: resolve_tenant_default split: sum.split)

lemma delete_volume_promised:
  "promised m (DeleteVolume r) (fst (mock_delete_volume m r s))
    (promise_of m s) (promise_of m (snd (mock_delete_volume m r s)))"
  by (auto simp: mock_delete_volume_def for_tenant_def promised_def answers_def delete_conv'
      directory_records_def get_user_def intro!: promise_eqI split: sum.split)

lemma list_volumes_promised:
  assumes "volumes_inv m s"
  shows "promised m (ListVolumes r) (fst (mock_list_volumes m r s)) (promise_of m s) (promise_of m s)"
proof (cases "resolve_tenant m (lv_tenant_id r)")
  case (Inr t)
  have "vol_tenant_id v = t" if "v \<in> set (map snd (ms_volumes s))" for v
    using assms resolve_tenant_default [OF Inr] that by (auto simp: volumes_inv_def list_all_iff)
  then show ?thesis
    using Inr volume_member [OF assms]
    by (auto simp: mock_list_volumes_def for_tenant_def promised_def answers_def selected_volume_def
        simp del: set_map)
qed (simp add: mock_list_volumes_def for_tenant_def promised_def)

lemma set_directory_promised:
  "promised m (SetDirectoryQuota r) (fst (mock_set_directory_quota m r s))
    (promise_of m s) (promise_of m (snd (mock_set_directory_quota m r s)))"
proof -
  consider (same) e where "mock_set_directory_quota m r s = (Inl e, s)"
    | (put) q n where "mock_set_directory_quota m r s = (Inr (DirectoryQuotaReply q), store_quota m s q n)"
        "accepts m r s q"
    using set_directory_quota_cases [of m r s] by blast
  then show ?thesis
  proof cases
    case put
    have "find (\<lambda>x. natural_key m x = k) (directory_records (store_quota m s q n) (mk_default_tenant m) vid) =
        (if vid = dq_volume_id q \<and> natural_key m q = k then Some q
         else find (\<lambda>x. natural_key m x = k) (directory_records s (mk_default_tenant m) vid))" for vid k
      unfolding records_after_store by (auto intro!: find_upsert find_upsert_other)
    then have "promise_of m (store_quota m s q n) = (promise_of m s)\<lparr>pr_directories :=
        (pr_directories (promise_of m s))((dq_volume_id q, natural_key m q) \<mapsto> q)\<rparr>"
      by (intro promise_eqI) (auto simp: store_quota_def get_user_def)
    then show ?thesis using put by (simp add: promised_def answers_def accepts_def)
  qed (simp add: promised_def)
qed

lemma list_directory_promised:
  assumes "directory_inv m s"
  shows "promised m (ListDirectoryQuotas r) (fst (mock_list_directory_quotas m r s))
    (promise_of m s) (promise_of m s)"
proof (cases "resolve_tenant m (ldq_tenant_id r)")
  case (Inr t)
  then show ?thesis
    using record_member [OF assms, of _ t "ldq_volume_id r"] resolve_tenant_default [OF Inr]
    by (simp add: mock_list_directory_quotas_def for_tenant_def promised_def answers_def
        directory_records_def)
qed (simp add: mock_list_directory_quotas_def for_tenant_def promised_def)

lemma directory_after_delete:
  assumes "directory_inv m s" and "n < length (directory_records s t vid)" and "t = mk_default_tenant m"
  shows "promise_of m (s\<lparr>ms_directory_quotas := dput (ms_directory_quotas s) (t, vid)
      (delete_at n (directory_records s t vid))\<rparr>) = (promise_of m s)\<lparr>pr_directories :=
      (pr_directories (promise_of m s))((vid, natural_key m (directory_records s t vid ! n)) := None)\<rparr>"
proof -
  have "distinct (map (natural_key m) (directory_records s t vid))"
    using directory_records_ok [OF assms(1)] by (simp add: records_ok_def)
  note d = find_delete_at [OF this assms(2)]
  have "directory_records (s\<lparr>ms_directory_quotas := dput (ms_directory_quotas s) (t, vid) rs\<rparr>) t v =
      (if v = vid then rs else directory_records s t v)" for v rs
    by (simp add: directory_records_def dgetd_def)
  with d assms(3) show ?thesis by (intro promise_eqI) (auto simp: get_user_def)
qed

lemma delete_directory_promised:
  assumes "directory_inv m s"
  shows "promised m (DeleteDirectoryQuota r) (fst (mock_delete_directory_quota m r s))
    (promise_of m s) (promise_of m (snd (mock_delete_directory_quota m r s)))"
proof (cases "ddq_path r = None \<and> ddq_id r = None \<or> (\<exists>e. resolve_tenant m (ddq_tenant_id r) = Inl e)")
  case True
  then show ?thesis by (auto simp: mock_delete_directory_quota_def for_tenant_def promised_def)
next
  case False
  then obtain t where t: "resolve_tenant m (ddq_tenant_id r) = Inr t"
    by (cases "resolve_tenant m (ddq_tenant_id r)") auto
  note t' = resolve_tenant_default [OF t]
  let ?rs = "directory_records s t (ddq_volume_id r)"
  have mem: "q \<in> set ?rs \<longleftrightarrow> pr_directories (promise_of m s) (ddq_volume_id r, natural_key m q) = Some q" for q
    using record_member [OF assms, of q t "ddq_volume_id r"] t' by simp
  have found: "q \<in> set ?rs" if "pr_directories (promise_of m s) (ddq_volume_id r, k) = Some q" for k q
    using that t' by (auto simp: find_Some_iff)
  show ?thesis
  proof (cases "delete_scan (ddq_path r) (ddq_id r) 0 None ?rs")
    case (Pair a b)
    show ?thesis
    proof (cases a)
      case None
      have none: "\<not> agrees_with (ddq_path r) (ddq_id r) q"
        if "pr_directories (promise_of m s) (ddq_volume_id r, k) = Some q" for k q
        using delete_scan_none Pair None found [OF that] by blast
      then have "dropped_one m r (promise_of m s) (promise_of m s)" by (simp add: dropped_one_def)
      then show ?thesis
        using False t Pair None
        by (cases b) (auto simp: mock_delete_directory_quota_def for_tenant_def Let_def
            directory_records_def promised_def answers_def)
    next
      case (Some n)
      from delete_scan_some [of "ddq_path r" "ddq_id r" 0 None ?rs n b] Pair Some
      have n: "n < length ?rs" "agrees_with (ddq_path r) (ddq_id r) (?rs ! n)" by simp_all
      then have "?rs \<noteq> []" by auto
      then have "mock_delete_directory_quota m r s = (Inr NoReply, s\<lparr>ms_directory_quotas :=
          dput (ms_directory_quotas s) (t, ddq_volume_id r) (delete_at n ?rs)\<rparr>)"
        using False t Pair Some
        by (auto simp: mock_delete_directory_quota_def for_tenant_def Let_def directory_records_def)
      moreover have "?rs ! n \<in> set ?rs" using n(1) by simp
      ultimately show ?thesis
        using n(2) directory_after_delete [OF assms n(1) t'] iffD1 [OF mem]
        by (auto simp: promised_def answers_def dropped_one_def)
    qed
  qed
qed

lemma users_after_put:
  "promise_of m (put_user s (mk_default_tenant m, vid, u) q) = (promise_of m s)\<lparr>pr_users :=
      (pr_users (promise_of m s))((vid, u) \<mapsto> q)\<rparr>"
  by (intro promise_eqI) (auto simp: directory_records_def uq.get_put)

lemma set_user_promised:
  "promised m (SetUserQuota r) (fst (mock_set_user_quota m r s))
    (promise_of m s) (promise_of m (snd (mock_set_user_quota m r s)))"
  using set_user_quota_cases [of m r s] by (auto simp: promised_def answers_def users_after_put)

lemma delete_user_promised:
  "promised m (DeleteUserQuota r) (fst (mock_delete_user_quota m r s))
    (promise_of m s) (promise_of m (snd (mock_delete_user_quota m r s)))"
proof (cases "resolve_tenant m (duq_tenant_id r)")
  case (Inr t)
  note t = resolve_tenant_default [OF Inr]
  show ?thesis
  proof (cases "dget (ms_user_quotas s) (t, duq_volume_id r)")
    case None
    then have "promise_of m s = (promise_of m s)\<lparr>pr_users :=
        (pr_users (promise_of m s))((duq_volume_id r, duq_user r) := None)\<rparr>"
      using t by (intro promise_eqI) (auto simp: get_user_def dgetd_def)
    then show ?thesis
      using Inr None by (simp add: mock_delete_user_quota_def for_tenant_def promised_def answers_def)
  next
    case (Some inner)
    then have "promise_of m (s\<lparr>ms_user_quotas := dput (ms_user_quotas s) (t, duq_volume_id r)
          (ddel inner (duq_user r))\<rparr>) = (promise_of m s)\<lparr>pr_users :=
        (pr_users (promise_of m s))((duq_volume_id r, duq_user r) := None)\<rparr>"
      using t by (intro promise_eqI) (auto simp: get_user_def dgetd_def delete_conv' directory_records_def)
    then show ?thesis
      using Inr Some by (simp add: mock_delete_user_quota_def for_tenant_def promised_def answers_def)
  qed
qed (simp add: mock_delete_user_quota_def for_tenant_def promised_def)

lemma list_users_promised:
  assumes "users_inv s"
  shows "promised m (ListUserQuotas r) (fst (mock_list_user_quotas m r s)) (promise_of m s) (promise_of m s)"
proof (cases "resolve_tenant m (luq_tenant_id r)")
  case (Inr t)
  then show ?thesis
    using slot_member [OF slots_ok_get [OF assms]] resolve_tenant_default [OF Inr]
    by (simp add: mock_list_user_quotas_def for_tenant_def promised_def answers_def get_user_def)
qed (simp add: mock_list_user_quotas_def for_tenant_def promised_def)

text \<open>The single-record getters read the lists.\<close>

lemma find_Some_member: "find P xs = Some x \<Longrightarrow> x \<in> set xs \<and> P x"
  by (induction xs) (auto split: if_splits)

lemma get_volume_promised:
  assumes "volumes_inv m s"
  shows "promised m (GetVolume r) (fst (impl_call (MockStorageApi m) (GetVolume r) s))
    (promise_of m s) (promise_of m s)"
proof -
  let ?l = "\<lparr>lv_tenant_id = gv_tenant_id r, lv_ids = [gv_volume_id r], lv_tag_filters = []\<rparr>"
  show ?thesis
  proof (cases "resolve_tenant m (gv_tenant_id r)")
    case (Inr t)
    have "dget (ms_volumes s) (gv_volume_id r) = Some v"
      if "find (\<lambda>v. vol_id v = gv_volume_id r) (filter (\<lambda>v. vol_tenant_id v = t \<and> vol_id v = gv_volume_id r)
        (map snd (ms_volumes s))) = Some v" for v
      using find_Some_member [OF that] volume_member [OF assms, of v] by auto
    then show ?thesis
      using Inr
      by (auto simp: mock_getters get_volume_def mock_lists mock_list_volumes_def for_tenant_def
          promised_def answers_def split: option.split)
  qed (simp add: mock_getters get_volume_def mock_lists mock_list_volumes_def for_tenant_def promised_def)
qed

lemma get_directory_promised:
  assumes "directory_inv m s"
  shows "promised m (GetDirectoryQuota r) (fst (impl_call (MockStorageApi m) (GetDirectoryQuota r) s))
    (promise_of m s) (promise_of m s)"
proof (cases "resolve_tenant m (gdq_tenant_id r)")
  case (Inr t)
  let ?rs = "directory_records s t (gdq_volume_id r)"
  have "find (\<lambda>x. natural_key m x = natural_key m q) ?rs = Some q \<and> agrees_with (gdq_path r) (gdq_id r) q"
    if "find (\<lambda>q. key_agrees (gdq_path r) (dq_path q) \<and> key_agrees (gdq_id r) (dq_id q)) ?rs = Some q" for q
    using find_Some_member [OF that] record_member [OF assms, of q t "gdq_volume_id r"]
    by (simp add: agrees_with_def)
  then show ?thesis
    using Inr resolve_tenant_default [OF Inr]
    by (auto simp: mock_getters get_directory_quota_def mock_lists mock_list_directory_quotas_def
        for_tenant_def match_directory_quota_def find_filtered promised_def answers_def Let_def
        directory_records_def split: option.split)
qed (simp add: mock_getters get_directory_quota_def mock_lists mock_list_directory_quotas_def
      for_tenant_def promised_def)

lemma get_user_promised:
  assumes "users_inv s"
  shows "promised m (GetUserQuota r) (fst (impl_call (MockStorageApi m) (GetUserQuota r) s))
    (promise_of m s) (promise_of m s)"
proof (cases "resolve_tenant m (guq_tenant_id r)")
  case (Inr t)
  then show ?thesis
    using slots_ok_get [OF assms, of "(t, guq_volume_id r)"] resolve_tenant_default [OF Inr]
    by (auto simp: mock_getters get_user_quota_def mock_lists mock_list_user_quotas_def for_tenant_def
        promised_def answers_def slots_ok_def find_slot get_user_def split: option.split)
qed (simp add: mock_getters get_user_quota_def mock_lists mock_list_user_quotas_def for_tenant_def
      promised_def)

lemma mock_call_promised:
  assumes "mock_inv m s"
  shows "promised m rq (fst (impl_call (MockStorageApi m) rq s))
    (promise_of m s) (promise_of m (snd (impl_call (MockStorageApi m) rq s)))"
proof -
  have inv: "volumes_inv m s" "directory_inv m s" "users_inv s" using assms by (simp_all add: mock_inv_def)
  have tenants: "promised m rq result p p" if "case rq of ListTenants r \<Rightarrow> True | GetTenant r \<Rightarrow> True
      | GetTenantQuota r \<Rightarrow> True | ListTenantQuotas r \<Rightarrow> True | _ \<Rightarrow> False" for rq result p
    using that by (cases rq) (auto simp: promised_def answers_def split: sum.split)
  show ?thesis
    by (cases rq)
      (simp_all add: mock_call_body tenants create_volume_promised delete_volume_promised
        list_volumes_promised [OF inv(1)] get_volume_promised [OF inv(1)] set_directory_promised
        list_directory_promised [OF inv(2)] get_directory_promised [OF inv(2)]
        delete_directory_promised [OF inv(2)] set_user_promised list_users_promised [OF inv(3)]
        get_user_promised [OF inv(3)] delete_user_promised)
qed

lemma promised_default [simp]: "promised m (with_default_tenant_req rq d) = promised m rq"
  by (cases rq) (simp_all add: promised_def answers_def dropped_one_def selected_volume_def natural_key_def
      fun_eq_iff split: sum.split reply.split)

lemma delete_answers_nothing:
  "promised m rq (fst (body s)) p (g (snd (body s))) \<Longrightarrow> is_delete rq \<Longrightarrow>
    promised m rq (fst (no_reply body s)) p (g (snd (no_reply body s)))"
  by (cases rq; cases "body s"; cases "fst (body s)")
    (auto simp: promised_def answers_def no_reply_def)

lemma answered_promised:
  "promised m rq (fst (impl rq s)) p (g (snd (impl rq s))) \<Longrightarrow>
    promised m rq (fst (answered impl rq s)) p (g (snd (answered impl rq s)))"
  by (cases "is_delete rq") (simp_all add: answered_def delete_answers_nothing)

text \<open>C31. The in-memory backend, served through the contract, refines the abstract backend: it starts
  empty, and whatever allowed calls came before, every call answers as promised from the abstract
  state and leads to the promised abstract state. In particular an error changes nothing, what was
  set is what is read and listed until it is overwritten or deleted, and nothing else is touched.\<close>

theorem mock_keeps_promise:
  assumes "serves (new_implementation core (MockStorageApi m) overrides d) sizes_ok empty_state s"
    and "0 \<le> mk_hard_limit_bytes m"
  shows "promise_of m empty_state
      = \<lparr>pr_volumes = Map.empty, pr_directories = Map.empty, pr_users = Map.empty\<rparr>
    \<and> promised m rq (fst (p_call (new_implementation core (MockStorageApi m) overrides d) rq s))
        (promise_of m s)
        (promise_of m (snd (p_call (new_implementation core (MockStorageApi m) overrides d) rq s)))"
proof
  show "promise_of m empty_state
      = \<lparr>pr_volumes = Map.empty, pr_directories = Map.empty, pr_users = Map.empty\<rparr>"
    by (auto simp: promise_of_def empty_state_def directory_records_def get_user_def dgetd_def fun_eq_iff)
  let ?rq = "if d = [] then rq else with_default_tenant_req rq d"
  let ?call = "impl_call (MockStorageApi m)"
  have "promised m ?rq (fst (?call ?rq s)) (promise_of m s) (promise_of m (snd (?call ?rq s)))"
    by (rule mock_call_promised [OF mock_run_inv [OF assms]])
  then have "promised m ?rq (fst (answered ?call ?rq s)) (promise_of m s)
      (promise_of m (snd (answered ?call ?rq s)))"
    by (rule answered_promised [where g = "promise_of m"])
  then show "promised m rq (fst (p_call (new_implementation core (MockStorageApi m) overrides d) rq s))
      (promise_of m s)
      (promise_of m (snd (p_call (new_implementation core (MockStorageApi m) overrides d) rq s)))"
    by (auto simp: new_implementation_call gated_def Let_def promised_def [of _ _ "Inl _"] split: if_splits)
qed

theorem mock_keeps_promise_witness:
  "promised demo_mock (CreateVolume demo_volume) (fst (p_call demo_api (CreateVolume demo_volume) demo_state))
      (promise_of demo_mock demo_state)
      (promise_of demo_mock (snd (p_call demo_api (CreateVolume demo_volume) demo_state)))
    \<and> map_option vol_size_bytes (pr_volumes (promise_of demo_mock demo_state) ''vol-0'') = Some 6"
proof
  have "serves demo_api sizes_ok empty_state demo_state"
    unfolding demo_state_def by (intro serves.intros) (simp add: demo_volume_def)
  moreover have "0 \<le> mk_hard_limit_bytes demo_mock" by (simp add: demo_mock_def)
  ultimately show "promised demo_mock (CreateVolume demo_volume)
      (fst (p_call demo_api (CreateVolume demo_volume) demo_state)) (promise_of demo_mock demo_state)
      (promise_of demo_mock (snd (p_call demo_api (CreateVolume demo_volume) demo_state)))"
    using mock_keeps_promise [of default_mock_core demo_mock "[]" "''t''" demo_state "CreateVolume demo_volume"]
    unfolding demo_api_def by simp
  show "map_option vol_size_bytes (pr_volumes (promise_of demo_mock demo_state) ''vol-0'') = Some 6"
    by code_simp
qed

end
