(* ===== verification/Upgrade_Evidence.thy ===== *)
theory Upgrade_Evidence
  imports Step_Checks "HOL-Library.Product_Lexorder" "HOL-Library.Multiset"
begin

text \<open>
  \<open>isvtest.validations.k8s_upgrades\<close>: the checks that grade the evidence of a provider's Kubernetes
  upgrade. A check reads its evidence step by step; the first \<open>KeyError\<close>, \<open>TypeError\<close> or \<open>ValueError\<close>
  is caught and fails it with the text \<open>et\<close> of the exception, and nothing else can be raised.
  Numbers in the evidence are finite.
\<close>

section \<open>Evidence values\<close>

definition text_evidence :: "pval \<Rightarrow> exn + string" where
  "text_evidence v = (case v of
     PStr s \<Rightarrow> demand (strip s \<noteq> []) (ValueError ''Missing nonempty text evidence'') (Inr s)
   | _ \<Rightarrow> Inl (ValueError ''Missing nonempty text evidence''))"

definition number_evidence :: "pval \<Rightarrow> exn + rat" where
  "number_evidence v = (case v of
     PInt i \<Rightarrow> demand (0 \<le> i) (ValueError ''Expected a finite nonnegative number'') (Inr (of_int i))
   | PFloat r \<Rightarrow> demand (0 \<le> r) (ValueError ''Expected a finite nonnegative number'') (Inr r)
   | _ \<Rightarrow> Inl (ValueError ''Expected a finite nonnegative number''))"

definition integer_evidence :: "int \<Rightarrow> pval \<Rightarrow> exn + int" where
  "integer_evidence minimum v = (case v of
     PInt i \<Rightarrow> demand (minimum \<le> i) (ValueError (''Expected an integer >= '' @ int_str minimum)) (Inr i)
   | _ \<Rightarrow> Inl (ValueError (''Expected an integer >= '' @ int_str minimum)))"

text \<open>The digits at the front of a text, and the rest; a dot in front of the rest.\<close>

definition leading_number :: "string \<Rightarrow> (nat \<times> string) option" where
  "leading_number s = map_option (\<lambda>n. (n, dropWhile is_digit s)) (unsigned_val (takeWhile is_digit s))"

definition after_dot :: "string \<Rightarrow> string option" where
  "after_dot s = (case s of c # cs \<Rightarrow> (if c = CHR ''.'' then Some cs else None) | [] \<Rightarrow> None)"

definition build_char :: "char \<Rightarrow> bool" where
  "build_char c \<longleftrightarrow> is_digit c \<or> 65 \<le> code c \<and> code c \<le> 90 \<or> 97 \<le> code c \<and> code c \<le> 122
     \<or> c \<in> {CHR ''.'', CHR ''-''}"

definition build_suffix :: "string \<Rightarrow> bool" where
  "build_suffix s \<longleftrightarrow> (case s of [] \<Rightarrow> True
     | c # cs \<Rightarrow> c \<in> {CHR ''-'', CHR ''+''} \<and> cs \<noteq> [] \<and> list_all build_char cs)"

type_synonym release = "nat \<times> nat \<times> nat"

definition match_version :: "string \<Rightarrow> release option" where
  "match_version text = (let s = (case text of c # cs \<Rightarrow> if c = CHR ''v'' then cs else text | [] \<Rightarrow> [])
   in case leading_number s of None \<Rightarrow> None | Some (a, s1) \<Rightarrow>
     (case after_dot s1 of None \<Rightarrow> None | Some s2 \<Rightarrow>
     (case leading_number s2 of None \<Rightarrow> None | Some (b, s3) \<Rightarrow>
     (case after_dot s3 of None \<Rightarrow> None | Some s4 \<Rightarrow>
     (case leading_number s4 of None \<Rightarrow> None | Some (c, s5) \<Rightarrow>
       if build_suffix s5 then Some (a, b, c) else None)))))"

definition version_evidence :: "pval \<Rightarrow> exn + release" where
  "version_evidence v = and_then (text_evidence v) (\<lambda>s. case match_version s of
     None \<Rightarrow> Inl (ValueError ''Expected a full Kubernetes release version'') | Some r \<Rightarrow> Inr r)"

abbreviation text_item :: "pval \<Rightarrow> string \<Rightarrow> exn + string" where
  "text_item v k \<equiv> and_then (item v k) text_evidence"

abbreviation number_item :: "pval \<Rightarrow> string \<Rightarrow> exn + rat" where
  "number_item v k \<equiv> and_then (item v k) number_evidence"

abbreviation integer_item :: "int \<Rightarrow> pval \<Rightarrow> string \<Rightarrow> exn + int" where
  "integer_item minimum v k \<equiv> and_then (item v k) (integer_evidence minimum)"

abbreviation version_item :: "pval \<Rightarrow> string \<Rightarrow> exn + release" where
  "version_item v k \<equiv> and_then (item v k) version_evidence"

section \<open>The step and its observations\<close>

definition upgrade_output :: "(rat \<Rightarrow> string) \<Rightarrow> pval \<Rightarrow> string \<Rightarrow> exn + pval" where
  "upgrade_output fr output name = (case output of
     PDict so \<Rightarrow>
       demand (field_of so ''test_name'' = PStr name) (ValueError (''Invalid '' @ name @ '' evidence''))
         (demand (\<not> truthy (field_of so ''cleanup_errors''))
           (ValueError (''Upgrade test cleanup failed: '' @ py_str fr (field_of so ''cleanup_errors'')))
           (demand (field_of so ''success'' = PBool True \<and> \<not> truthy (field_of so ''skipped''))
             (ValueError (py_str fr (py_or (field_of so ''error'') (PStr ''Upgrade evidence step did not succeed''))))
             (Inr output)))
   | _ \<Rightarrow> Inl (ValueError (''Invalid '' @ name @ '' evidence'')))"

text \<open>The observation window of a completed operation.\<close>

definition operation_window :: "pval \<Rightarrow> exn + rat \<times> rat" where
  "operation_window output =
     and_then (item output ''operation'') (\<lambda>operation.
     and_then (text_item operation ''id'') (\<lambda>_.
     and_then (item operation ''status'') (\<lambda>status.
     demand (status = PStr ''succeeded'') (ValueError ''Upgrade did not reach its successful terminal state'')
     (and_then (number_item operation ''started_at'') (\<lambda>start.
      and_then (number_item operation ''completed_at'') (\<lambda>finish.
      demand (start < finish) (ValueError ''Upgrade observation window is empty or reversed'')
        (Inr (start, finish))))))))"

fun close_together :: "rat \<Rightarrow> rat list \<Rightarrow> bool" where
  "close_together gap (a # b # ts) \<longleftrightarrow> 0 < b - a \<and> b - a \<le> gap \<and> close_together gap (b # ts)"
| "close_together gap _ \<longleftrightarrow> True"

definition check_coverage :: "rat \<Rightarrow> rat \<Rightarrow> rat \<Rightarrow> pval \<Rightarrow> exn + pval list" where
  "check_coverage start finish gap samples = (case samples of
     PList xs \<Rightarrow>
       demand (3 \<le> length xs \<and> 0 < gap) (ValueError ''Insufficient observation coverage'')
        (and_then (gather (map (\<lambda>s. number_item s ''at'') xs)) (\<lambda>times.
         demand (hd times < start \<and> finish < last times \<and> list_ex (\<lambda>t. start \<le> t \<and> t \<le> finish) times)
           (ValueError ''Observations must bracket the upgrade and include its execution'')
           (demand (close_together gap times)
             (ValueError ''Observation gap exceeds the limit or timestamps are unordered'') (Inr xs))))
   | _ \<Rightarrow> Inl (ValueError ''Insufficient observation coverage''))"

definition check_probe :: "string \<Rightarrow> rat \<Rightarrow> pval \<Rightarrow> exn + unit" where
  "check_probe expected timeout probe =
     and_then (integer_item 0 probe ''status_code'') (\<lambda>status.
     demand (status = 200) (ValueError ''Application request failed or returned the wrong workload response'')
     (and_then (item probe ''response'') (\<lambda>response.
      demand (response = PStr expected)
        (ValueError ''Application request failed or returned the wrong workload response'')
      (and_then (number_item probe ''duration_seconds'') (\<lambda>duration.
       demand (duration \<le> timeout) (ValueError ''Application request exceeded the configured timeout'')
         (Inr ()))))))"

definition probe_gap :: "dict \<Rightarrow> exn + rat" where
  "probe_gap cfg = number_evidence (cget cfg ''max_probe_gap_seconds'' (PInt 5))"

definition check_continuity :: "dict \<Rightarrow> rat \<Rightarrow> rat \<Rightarrow> pval \<Rightarrow> exn + unit" where
  "check_continuity cfg start finish output =
     and_then (item output ''application'') (\<lambda>application.
     and_then (text_item application ''endpoint'') (\<lambda>_.
     and_then (text_item application ''expected_response'') (\<lambda>expected.
     and_then (probe_gap cfg) (\<lambda>gap.
     and_then (number_evidence (cget cfg ''request_timeout_seconds'' (PInt 2))) (\<lambda>timeout.
     demand (0 < timeout) (ValueError ''Request timeout must be positive'')
     (and_then (item application ''probes'') (\<lambda>probes.
      and_then (check_coverage start finish gap probes) (\<lambda>xs.
      each (check_probe expected timeout) xs))))))))"

section \<open>The three checks\<close>

text \<open>\<open>after[0] != before[0] or after[1] != before[1] + 1\<close> negated.\<close>

definition next_minor :: "release \<Rightarrow> release \<Rightarrow> bool" where
  "next_minor before after \<longleftrightarrow> fst after = fst before \<and> fst (snd after) = Suc (fst (snd before))"

text \<open>\<open>{"routine", "security"}.issubset(v)\<close>.\<close>

definition covers_maintenance :: "pval \<Rightarrow> exn + bool" where
  "covers_maintenance v = and_then (py_iter v) (\<lambda>xs. and_then (gather (map key_of xs)) (\<lambda>_.
     Inr ({PStr ''routine'', PStr ''security''} \<subseteq> set xs)))"

definition check_transition :: "release \<Rightarrow> pval \<Rightarrow> exn + unit" where
  "check_transition current transition =
     and_then (version_item transition ''from'') (\<lambda>before.
     and_then (version_item transition ''to'') (\<lambda>after.
     demand (before = current \<and> next_minor before after)
       (ValueError ''Supported transition must advance the current minor by one'') (Inr ())))"

definition upgrade_policy_evidence :: "(rat \<Rightarrow> string) \<Rightarrow> pval \<Rightarrow> exn + unit" where
  "upgrade_policy_evidence fr step_output =
     and_then (upgrade_output fr step_output ''managed_upgrade_policy'') (\<lambda>output.
     and_then (item output ''policy'') (\<lambda>policy.
     and_then (item policy ''owner'') (\<lambda>owner.
     and_then (if owner = PStr ''provider''
         then and_then (item policy ''maintenance_types'') covers_maintenance else Inr False) (\<lambda>owned.
     demand owned (ValueError ''Provider must own routine maintenance and security updates'')
     (and_then (each (\<lambda>k. and_then (text_item policy k) (\<lambda>_. Inr ()))
         [''reference'', ''status_reference'', ''configuration_reference'']) (\<lambda>_.
      and_then (any_of (\<lambda>k. and_then (item policy k) (\<lambda>w. Inr (w \<noteq> PBool True)))
         [''managed_control_plane'', ''supported'']) (\<lambda>unmanaged.
      demand (\<not> unmanaged) (ValueError ''Control plane is not a supported provider-managed service'')
      (and_then (version_item output ''observed_version'') (\<lambda>current.
       and_then (item policy ''supported_transitions'') (\<lambda>transitions.
       (case transitions of
          PList (t # ts) \<Rightarrow> each (check_transition current) (t # ts)
        | _ \<Rightarrow> Inl (ValueError ''Missing supported upgrade transitions''))))))))))))"

definition control_plane_evidence :: "(rat \<Rightarrow> string) \<Rightarrow> dict \<Rightarrow> pval \<Rightarrow> exn + unit" where
  "control_plane_evidence fr cfg step_output =
     and_then (upgrade_output fr step_output ''control_plane_upgrade'') (\<lambda>output.
     and_then (operation_window output) (\<lambda>(start, finish).
     and_then (version_item output ''observed_version_before'') (\<lambda>before.
     and_then (version_item output ''observed_version_after'') (\<lambda>after.
     and_then (version_item output ''target_version'') (\<lambda>target.
     demand (after = target \<and> next_minor before after)
       (ValueError ''API server must reach the requested next minor version'')
     (and_then (and_then (item output ''operation'') (\<lambda>operation. item operation ''executed_by'')) (\<lambda>by.
      demand (by = PStr ''provider'') (ValueError ''Control-plane upgrade must be provider managed'')
      (and_then (item output ''maintenance_window_required'') (\<lambda>required.
       demand (required = PBool False) (ValueError ''Upgrade required an application maintenance window'')
         (check_continuity cfg start finish output))))))))))"

section \<open>Rolling node upgrades\<close>

text \<open>A node's drain, from its start until the node is drained.\<close>

type_synonym drain = "pval \<times> rat \<times> rat"

definition uids_of :: "pval list \<Rightarrow> exn + string list" where
  "uids_of nodes = gather (map (\<lambda>n. text_item n ''uid'') nodes)"

definition is_not :: "pval \<Rightarrow> string \<Rightarrow> pval \<Rightarrow> exn + bool" where
  "is_not v k w = and_then (item v k) (\<lambda>x. Inr (x \<noteq> w))"

text \<open>\<open>a or b\<close> of two tests that may raise.\<close>

abbreviation or_else :: "exn + bool \<Rightarrow> exn + bool \<Rightarrow> exn + bool" where
  "or_else a b \<equiv> and_then a (\<lambda>x. if x then Inr True else b)"

definition unhealthy :: "pval \<Rightarrow> exn + bool" where
  "unhealthy n = or_else (is_not n ''ready'' (PBool True)) (is_not n ''schedulable'' (PBool True))"

definition check_pool :: "string \<Rightarrow> pval \<Rightarrow> pval \<Rightarrow> exn + string list" where
  "check_pool target before after = (case (before, after) of
     (PList bs, PList as) \<Rightarrow>
       demand (2 \<le> length bs \<and> length as = length bs)
         (ValueError ''Rolling upgrade requires at least two nodes and restored pool capacity'')
        (and_then (uids_of bs) (\<lambda>old_ids. and_then (uids_of as) (\<lambda>new_ids.
         demand (distinct old_ids \<and> distinct new_ids) (ValueError ''Duplicate node observations'')
         (and_then (any_of (\<lambda>n. and_then (text_item n ''revision'') (\<lambda>r. Inr (r = target))) bs) (\<lambda>already.
          demand (\<not> already) (ValueError ''Every selected node must require the requested revision'')
          (and_then (any_of unhealthy bs) (\<lambda>sick.
           demand (\<not> sick) (ValueError ''Selected pool must start healthy and schedulable'')
           (and_then (any_of (\<lambda>n. or_else (is_not n ''revision'' (PStr target)) (unhealthy n)) as) (\<lambda>left.
            demand (\<not> left)
              (ValueError ''Pool has not converged to healthy, schedulable nodes at the target revision'')
              (Inr old_ids))))))))))
   | _ \<Rightarrow> Inl (ValueError ''Rolling upgrade requires at least two nodes and restored pool capacity''))"

definition check_drain :: "rat \<Rightarrow> rat \<Rightarrow> pval \<Rightarrow> exn + drain" where
  "check_drain start finish rollout =
     and_then (number_item rollout ''drain_started_at'') (\<lambda>drained.
     and_then (number_item rollout ''drained_at'') (\<lambda>ready.
     demand (start \<le> drained \<and> drained < ready \<and> ready \<le> finish)
       (ValueError ''Node rollout lies outside the upgrade window'')
       (and_then (item rollout ''old_uid'') (\<lambda>uid. Inr (uid, drained, ready)))))"

text \<open>The identifiers that are drained, each of which must have a hash.\<close>

definition drained_uids :: "pval list \<Rightarrow> exn + pval list" where
  "drained_uids rollouts =
     gather (map (\<lambda>r. and_then (item r ''old_uid'') (\<lambda>u. and_then (key_of u) (\<lambda>_. Inr u))) rollouts)"

definition check_rollouts :: "rat \<Rightarrow> rat \<Rightarrow> string list \<Rightarrow> pval \<Rightarrow> exn + drain list" where
  "check_rollouts start finish old_ids rollouts =
     and_then (py_len rollouts) (\<lambda>n.
     demand (n = length old_ids) (ValueError ''Missing or duplicated node drain observations'')
     (and_then (py_iter rollouts) (\<lambda>rs.
      and_then (drained_uids rs) (\<lambda>uids.
      demand (set uids = PStr ` set old_ids) (ValueError ''Missing or duplicated node drain observations'')
        (gather (map (check_drain start finish) rs))))))"

definition drain_events :: "drain list \<Rightarrow> (rat \<times> int) list" where
  "drain_events drains = concat (map (\<lambda>(u, drained, ready). [(drained, 1), (ready, - 1)]) drains)"

text \<open>The sweep over the sorted events: at no point are more nodes drained than the limit.\<close>

fun within_limit :: "int \<Rightarrow> int \<Rightarrow> (rat \<times> int) list \<Rightarrow> bool" where
  "within_limit limit active [] \<longleftrightarrow> True"
| "within_limit limit active ((t, change) # events) \<longleftrightarrow>
     active + change \<le> limit \<and> within_limit limit (active + change) events"

definition check_concurrency :: "dict \<Rightarrow> nat \<Rightarrow> drain list \<Rightarrow> exn + unit" where
  "check_concurrency cfg pool drains =
     and_then (integer_evidence 1 (cget cfg ''max_unavailable_nodes'' (PInt 1))) (\<lambda>limit.
     demand (limit < int pool) (ValueError ''Rolling concurrency must be below the pool size'')
     (demand (within_limit limit 0 (sort (drain_events drains)))
       (ValueError ''Node drains exceeded configured rolling concurrency'') (Inr ())))"

section \<open>Disruption budgets\<close>

text \<open>What one sample of the budget's status shows, once it is accepted.\<close>

record budget_sample =
  bs_at :: rat
  bs_pods :: int
  bs_desired :: int
  bs_healthy :: int
  bs_reconciled :: bool

definition check_sample :: "string \<Rightarrow> int \<Rightarrow> int \<Rightarrow> pval \<Rightarrow> exn + budget_sample" where
  "check_sample uid minimum replicas sample =
     and_then (is_not sample ''uid'' (PStr uid)) (\<lambda>other.
     and_then (if other then Inr None else map_sum id Some (integer_item 0 sample ''expected_pods'')) (\<lambda>pods.
     demand (case pods of None \<Rightarrow> False | Some n \<Rightarrow> replicas \<le> n)
       (ValueError ''PDB disappeared, changed identity or lost workload coverage'')
     (and_then (integer_item minimum sample ''desired_healthy'') (\<lambda>desired.
      and_then (integer_item 0 sample ''current_healthy'') (\<lambda>healthy.
      demand (desired \<le> healthy \<and> healthy \<le> replicas)
        (ValueError ''Workload availability fell below its disruption budget'')
      (and_then (integer_item 1 sample ''generation'') (\<lambda>generation.
       and_then (integer_item 1 sample ''observed_generation'') (\<lambda>observed.
       demand (observed \<le> generation \<and> generation - observed \<le> 1)
         (ValueError ''PDB status has invalid or stale generation evidence'')
       (and_then (number_item sample ''at'') (\<lambda>t.
        Inr \<lparr>bs_at = t, bs_pods = the pods, bs_desired = desired, bs_healthy = healthy,
          bs_reconciled = (observed = generation)\<rparr>))))))))))"

text \<open>Since when the status lags behind the specification.\<close>

definition lagging_since :: "rat option \<Rightarrow> budget_sample \<Rightarrow> rat option" where
  "lagging_since stale b = (if bs_reconciled b then None
     else Some (case stale of None \<Rightarrow> bs_at b | Some t \<Rightarrow> t))"

fun check_samples ::
  "string \<Rightarrow> int \<Rightarrow> int \<Rightarrow> rat \<Rightarrow> rat option \<Rightarrow> pval list \<Rightarrow> exn + budget_sample list" where
  "check_samples uid minimum replicas gap stale [] = Inr []"
| "check_samples uid minimum replicas gap stale (s # ss) =
     and_then (check_sample uid minimum replicas s) (\<lambda>b.
     demand (case lagging_since stale b of None \<Rightarrow> True | Some t \<Rightarrow> bs_at b - t < gap)
       (ValueError ''PDB status did not reconcile within the observation bound'')
     (and_then (check_samples uid minimum replicas gap (lagging_since stale b) ss) (\<lambda>bs. Inr (b # bs))))"

definition check_ends :: "int \<Rightarrow> budget_sample list \<Rightarrow> exn + unit" where
  "check_ends replicas bs =
     demand (bs_reconciled (hd bs) \<and> bs_reconciled (last bs))
       (ValueError ''PDB baseline and final state must be reconciled'')
     (demand (bs_pods (hd bs) = replicas \<and> bs_pods (last bs) = replicas)
       (ValueError ''PDB coverage must converge to the canary replica count'')
     (demand (bs_healthy (hd bs) = replicas \<and> bs_healthy (last bs) = replicas)
       (ValueError ''Canary must start healthy and recover all replicas after the rollout'')
       (Inr ())))"

text \<open>\<open>v["node_uid"] not in nodes\<close>.\<close>

definition foreign_node :: "string list \<Rightarrow> pval \<Rightarrow> exn + bool" where
  "foreign_node nodes v = and_then (item v ''node_uid'') (\<lambda>u. and_then (key_of u) (\<lambda>_.
     Inr (u \<notin> PStr ` set nodes)))"

definition drain_interval :: "drain list \<Rightarrow> pval \<Rightarrow> exn + rat \<times> rat" where
  "drain_interval drains v = and_then (item v ''node_uid'') (\<lambda>u.
     case dget drains u of None \<Rightarrow> Inl (KeyError ''node_uid'') | Some w \<Rightarrow> Inr w)"

record eviction =
  ev_node :: pval
  ev_pod :: string
  ev_at :: rat

text \<open>The eviction that the budget refused.\<close>

definition check_blocked ::
  "rat \<Rightarrow> rat \<Rightarrow> string \<Rightarrow> string list \<Rightarrow> drain list \<Rightarrow> pval \<Rightarrow> exn + eviction" where
  "check_blocked start finish uid nodes drains guard =
     and_then (number_item guard ''at'') (\<lambda>t.
     and_then (or_else (Inr (\<not> (start \<le> t \<and> t \<le> finish)))
         (or_else (foreign_node nodes guard) (is_not guard ''pdb_uid'' (PStr uid)))) (\<lambda>outside.
     demand (\<not> outside) (ValueError ''Budget-blocked eviction is not part of this rollout'')
     (and_then (text_item guard ''pod_uid'') (\<lambda>pod.
      and_then (drain_interval drains guard) (\<lambda>(drain_start, drain_end).
      demand (drain_start \<le> t \<and> t < drain_end) (ValueError ''Budget rejection occurred outside the node drain'')
      (and_then (or_else (and_then (integer_item 0 guard ''status_code'') (\<lambda>c. Inr (c \<noteq> 429)))
          (or_else (is_not guard ''reason'' (PStr ''DisruptionBudget''))
            (and_then (integer_item 0 guard ''disruptions_allowed'') (\<lambda>n. Inr (n \<noteq> 0))))) (\<lambda>allowed.
       demand (\<not> allowed) (ValueError ''Missing observed budget rejection from the node updater'')
       (and_then (item guard ''node_uid'') (\<lambda>node.
        Inr \<lparr>ev_node = node, ev_pod = pod, ev_at = t\<rparr>)))))))))"

definition check_eviction ::
  "rat \<Rightarrow> string \<Rightarrow> string list \<Rightarrow> drain list \<Rightarrow> eviction \<Rightarrow> pval \<Rightarrow> exn + eviction" where
  "check_eviction finish uid nodes drains guard e =
     and_then (or_else (is_not e ''method'' (PStr ''eviction''))
         (and_then (integer_item 0 e ''status_code'') (\<lambda>c. Inr (\<not> (200 \<le> c \<and> c < 300))))) (\<lambda>bypassed.
     demand (\<not> bypassed) (ValueError ''Node updater bypassed eviction protection or failed to drain'')
     (and_then (or_else (is_not e ''pdb_uid'' (PStr uid)) (foreign_node nodes e)) (\<lambda>outside.
      demand (\<not> outside) (ValueError ''Eviction is outside the protected test workload'')
      (and_then (text_item e ''pod_uid'') (\<lambda>pod.
       and_then (number_item e ''at'') (\<lambda>t.
       demand (ev_at guard < t \<and> t \<le> finish)
         (ValueError ''Expected successful protected evictions after the blocked drain'')
       (and_then (drain_interval drains e) (\<lambda>(drain_start, drain_end).
        demand (drain_start \<le> t \<and> t < drain_end) (ValueError ''Eviction occurred outside the node drain'')
        (and_then (item e ''node_uid'') (\<lambda>node.
         Inr \<lparr>ev_node = node, ev_pod = pod, ev_at = t\<rparr>))))))))))"

definition check_evictions ::
  "rat \<Rightarrow> string \<Rightarrow> string list \<Rightarrow> drain list \<Rightarrow> eviction \<Rightarrow> pval \<Rightarrow> exn + eviction list" where
  "check_evictions finish uid nodes drains guard evictions =
     and_then (py_iter evictions) (\<lambda>es.
     and_then (gather (map (check_eviction finish uid nodes drains guard) es)) (\<lambda>done.
     demand (set (map ev_node done) = PStr ` set nodes
         \<and> list_ex (\<lambda>e. ev_pod e = ev_pod guard \<and> ev_node e = ev_node guard) done)
       (ValueError ''Every selected node must exercise the protected workload drain'') (Inr done)))"

definition pdb_evidence ::
  "dict \<Rightarrow> rat \<Rightarrow> rat \<Rightarrow> string list \<Rightarrow> drain list \<Rightarrow> pval \<Rightarrow> exn + unit" where
  "pdb_evidence cfg start finish nodes drains output =
     and_then (item output ''pdb'') (\<lambda>pdb.
     and_then (text_item pdb ''uid'') (\<lambda>uid.
     and_then (integer_item 1 pdb ''min_available'') (\<lambda>minimum.
     and_then (integer_item (minimum + 1) pdb ''replicas'') (\<lambda>replicas.
     and_then (item pdb ''samples'') (\<lambda>samples.
     and_then (probe_gap cfg) (\<lambda>gap.
     and_then (check_coverage start finish gap samples) (\<lambda>xs.
     and_then (check_samples uid minimum replicas gap None xs) (\<lambda>bs.
     and_then (check_ends replicas bs) (\<lambda>_.
     and_then (and_then (item pdb ''blocked_eviction'') (check_blocked start finish uid nodes drains)) (\<lambda>guard.
     and_then (item pdb ''audit_complete'') (\<lambda>complete.
     demand (complete = PBool True) (ValueError ''Incomplete drain audit evidence'')
     (and_then (item pdb ''evictions'') (\<lambda>evictions.
      and_then (check_evictions finish uid nodes drains guard evictions) (\<lambda>_. Inr ()))))))))))))))"

definition node_pool_evidence :: "(rat \<Rightarrow> string) \<Rightarrow> dict \<Rightarrow> pval \<Rightarrow> exn + unit" where
  "node_pool_evidence fr cfg step_output =
     and_then (upgrade_output fr step_output ''node_pool_upgrade'') (\<lambda>output.
     and_then (operation_window output) (\<lambda>(start, finish).
     and_then (and_then (item output ''operation'') (\<lambda>operation. item operation ''initiated_by'')) (\<lambda>initiator.
     demand (initiator = PStr ''tenant'') (ValueError ''Node upgrade must be user initiated'')
     (and_then (check_continuity cfg start finish output) (\<lambda>_.
      and_then (text_item output ''target_revision'') (\<lambda>target.
      and_then (item output ''nodes_before'') (\<lambda>before.
      and_then (item output ''nodes_after'') (\<lambda>after.
      and_then (check_pool target before after) (\<lambda>nodes.
      and_then (item output ''rollouts'') (\<lambda>rollouts.
      and_then (check_rollouts start finish nodes rollouts) (\<lambda>drains.
      and_then (check_concurrency cfg (length nodes) drains) (\<lambda>_.
      pdb_evidence cfg start finish nodes drains output))))))))))))"

text \<open>The end of each check: a missing step output skips it.\<close>

definition graded ::
  "(exn \<Rightarrow> string) \<Rightarrow> string \<Rightarrow> string \<Rightarrow> (dict \<Rightarrow> pval \<Rightarrow> exn + unit) \<Rightarrow> check" where
  "graded et name message evidence cfg v = (case field_of cfg ''step_output'' of
     PNone \<Rightarrow> SkipRaised (name @ '' requires a provider upgrade evidence step'')
   | output \<Rightarrow> (case evidence cfg output of
       Inl e \<Rightarrow> failed v (et e) | Inr _ \<Rightarrow> passed v message))"

definition managed_upgrade_policy_check :: "(exn \<Rightarrow> string) \<Rightarrow> (rat \<Rightarrow> string) \<Rightarrow> check" where
  "managed_upgrade_policy_check et fr = graded et ''managed_upgrade_policy''
     ''Live managed control-plane configuration and supported version transition verified''
     (\<lambda>_. upgrade_policy_evidence fr)"

definition control_plane_upgrade_check :: "(exn \<Rightarrow> string) \<Rightarrow> (rat \<Rightarrow> string) \<Rightarrow> check" where
  "control_plane_upgrade_check et fr = graded et ''control_plane_upgrade''
     ''Minor upgrade completed with no failed application probes within the configured sampling bounds''
     (control_plane_evidence fr)"

definition node_pool_upgrade_check :: "(exn \<Rightarrow> string) \<Rightarrow> (rat \<Rightarrow> string) \<Rightarrow> check" where
  "node_pool_upgrade_check et fr = graded et ''node_pool_upgrade''
     ''Rolling node upgrade completed; application probes, budget protection and pool recovery verified''
     (node_pool_evidence fr)"

section \<open>The sweep over the drains\<close>

text \<open>The nodes that are drained at an instant.\<close>

definition drained_at :: "drain list \<Rightarrow> rat \<Rightarrow> nat" where
  "drained_at drains t = length (filter (\<lambda>(u, drained, ready). drained \<le> t \<and> t < ready) drains)"

lemma within_limit_prefix:
  "within_limit limit active events \<Longrightarrow> active \<le> limit \<Longrightarrow>
    active + sum_list (map snd (takeWhile P events)) \<le> limit"
proof (induction limit active events rule: within_limit.induct)
  case (2 limit active t change events)
  then show ?case by (cases "P (t, change)") (simp_all add: add.assoc)
qed simp

lemma takeWhile_sorted:
  "sorted events \<Longrightarrow> takeWhile (\<lambda>e. fst e \<le> t) events = filter (\<lambda>e. fst e \<le> (t :: rat)) (events :: (rat \<times> int) list)"
proof (induction events)
  case (Cons e events)
  show ?case
  proof (cases "fst e \<le> t")
    case False
    have "\<not> fst e' \<le> t" if "e' \<in> set events" for e'
      using Cons.prems that False by (auto simp: less_eq_prod_def)
    then show ?thesis using False by simp
  qed (use Cons in simp)
qed simp

lemma sum_sort: "sum_list (map snd (filter P (sort events))) = sum_list (map snd (filter P (events :: (rat \<times> int) list)))"
proof -
  have "mset (map snd (filter P (sort events))) = mset (map snd (filter P events))" by simp
  then show ?thesis by (metis sum_mset_sum_list)
qed

lemma sum_drain_events:
  "list_all (\<lambda>(u, drained, ready). drained < ready) drains \<Longrightarrow>
    sum_list (map snd (filter (\<lambda>e. fst e \<le> t) (drain_events drains))) = int (drained_at drains t)"
proof (induction drains)
  case (Cons d drains)
  obtain u a b where d: "d = (u, a, b)" by (cases d) auto
  consider "t < a" | "a \<le> t" "t < b" | "b \<le> t" by linarith
  then show ?case using Cons d by cases (simp_all add: drain_events_def drained_at_def)
qed (simp add: drain_events_def drained_at_def)

lemma concurrency_bound:
  assumes "within_limit limit 0 (sort (drain_events drains))" "0 \<le> limit"
    and "list_all (\<lambda>(u, drained, ready). drained < ready) drains"
  shows "int (drained_at drains t) \<le> limit"
  using within_limit_prefix [OF assms(1,2), of "\<lambda>e. fst e \<le> t"] sum_drain_events [OF assms(3)]
  by (simp add: takeWhile_sorted sum_sort)

section \<open>Coverage of the window\<close>

lemma close_cover:
  "close_together gap ts \<Longrightarrow> ts \<noteq> [] \<Longrightarrow> hd ts \<le> t \<Longrightarrow> t < last ts \<Longrightarrow>
    \<exists>a. a \<in> set ts \<and> a \<le> t \<and> t < a + gap"
proof (induction gap ts rule: close_together.induct)
  case (1 gap a b ts)
  show ?case
  proof (cases "b \<le> t")
    case True
    with 1 show ?thesis by auto
  next
    case False
    with 1 show ?thesis by (intro exI [of _ a]) auto
  qed
qed auto

lemma gather_from: "gather (map f xs) = Inr ys \<Longrightarrow> length ys = length xs \<and>
    (\<forall>y. y \<in> set ys \<longrightarrow> (\<exists>x. x \<in> set xs \<and> f x = Inr y))"
proof (induction xs arbitrary: ys)
  case (Cons x xs)
  obtain z zs where "f x = Inr z" "gather (map f xs) = Inr zs" "ys = z # zs"
    using Cons.prems by (auto split: sum.splits)
  with Cons.IH show ?case by fastforce
qed simp

lemma coverage_observes:
  assumes "check_coverage start finish gap samples = Inr xs" "start \<le> t" "t \<le> finish"
  shows "samples = PList xs \<and> (\<exists>x a. x \<in> set xs \<and> number_item x ''at'' = Inr a \<and> a \<le> t \<and> t < a + gap)"
proof -
  obtain times where x: "samples = PList xs" and len: "3 \<le> length xs"
    and times: "gather (map (\<lambda>s. number_item s ''at'') xs) = Inr times"
    and bracket: "hd times < start" "finish < last times" and close: "close_together gap times"
    using assms(1) by (auto simp: check_coverage_def and_then_Inr demand_Inr split: pval.splits)
  from gather_from [OF times] len have "times \<noteq> []" by auto
  from close_cover [OF close this, of t] bracket assms(2,3)
  obtain a where "a \<in> set times" "a \<le> t" "t < a + gap" by auto
  with gather_from [OF times] x show ?thesis by blast
qed

section \<open>What a passing check has established\<close>

lemma integer_evidence_Inr: "integer_evidence minimum v = Inr i \<longleftrightarrow> v = PInt i \<and> minimum \<le> i"
  by (cases v) (auto simp: integer_evidence_def)

lemma text_evidence_Inr: "text_evidence v = Inr s \<longleftrightarrow> v = PStr s \<and> strip s \<noteq> []"
  by (cases v) (auto simp: text_evidence_def)

lemma graded_passes:
  "passes (graded et name message evidence) cfg \<longleftrightarrow>
    field_of cfg ''step_output'' \<noteq> PNone \<and> evidence cfg (field_of cfg ''step_output'') = Inr ()"
  by (auto simp: passes_def graded_def split: pval.split sum.split)

lemma upgrade_output_same: "upgrade_output fr output name = Inr out \<Longrightarrow> out = output"
  by (auto simp: upgrade_output_def split: pval.splits if_splits)

lemma continuity_observes:
  assumes "check_continuity cfg start finish output = Inr ()" "start \<le> t" "t \<le> finish"
  shows "\<exists>application probes p a gap. item output ''application'' = Inr application
    \<and> item application ''probes'' = Inr (PList probes) \<and> p \<in> set probes \<and> probe_gap cfg = Inr gap
    \<and> number_item p ''at'' = Inr a \<and> a \<le> t \<and> t < a + gap
    \<and> item p ''status_code'' = Inr (PInt 200) \<and> item p ''response'' = item application ''expected_response''"
proof -
  obtain application expected gap timeout probes xs where
    f: "item output ''application'' = Inr application"
      "text_item application ''expected_response'' = Inr expected" "probe_gap cfg = Inr gap"
      "item application ''probes'' = Inr probes" "check_coverage start finish gap probes = Inr xs"
      "each (check_probe expected timeout) xs = Inr ()"
    using assms(1) by (auto simp: check_continuity_def and_then_Inr demand_Inr)
  from coverage_observes [OF f(5) assms(2,3)] obtain p a where
    p: "probes = PList xs" "p \<in> set xs" "number_item p ''at'' = Inr a" "a \<le> t" "t < a + gap" by blast
  have "check_probe expected timeout p = Inr ()"
    using f(6) p(2) by (simp add: each_Inr list_all_iff)
  then have "integer_item 0 p ''status_code'' = Inr 200" "item p ''response'' = Inr (PStr expected)"
    by (auto simp: check_probe_def and_then_Inr demand_Inr)
  then have "item p ''status_code'' = Inr (PInt 200)" "item p ''response'' = Inr (PStr expected)"
    by (auto simp: and_then_Inr integer_evidence_Inr)
  moreover from this have "item p ''response'' = item application ''expected_response''"
    using f(2) by (auto simp: and_then_Inr text_evidence_Inr)
  ultimately show ?thesis using f(1,3,4) p by blast
qed

lemma control_plane_parts:
  assumes "control_plane_evidence fr cfg output = Inr ()"
  shows "\<exists>start finish before after. operation_window output = Inr (start, finish)
    \<and> version_item output ''observed_version_before'' = Inr before
    \<and> version_item output ''observed_version_after'' = Inr after \<and> next_minor before after
    \<and> check_continuity cfg start finish output = Inr ()"
  using assms
  by (fastforce simp: control_plane_evidence_def and_then_Inr demand_Inr dest!: upgrade_output_same)

text \<open>C33. A control-plane upgrade that passes was observed throughout: the API server went to the next
  minor version, and at every instant of the operation the latest successful probe, with the
  expected response of the workload, lies less than the configured gap in the past. No window
  without a successful request that is as long as the gap can be hidden in the evidence.\<close>

theorem upgrade_observed_throughout:
  assumes "passes (control_plane_upgrade_check et fr) cfg"
    and "operation_window (field_of cfg ''step_output'') = Inr (start, finish)"
    and "start \<le> t" "t \<le> finish"
  shows "\<exists>before after application probes p a gap.
      version_item (field_of cfg ''step_output'') ''observed_version_before'' = Inr before
    \<and> version_item (field_of cfg ''step_output'') ''observed_version_after'' = Inr after
    \<and> next_minor before after
    \<and> item (field_of cfg ''step_output'') ''application'' = Inr application
    \<and> item application ''probes'' = Inr (PList probes) \<and> p \<in> set probes \<and> probe_gap cfg = Inr gap
    \<and> number_item p ''at'' = Inr a \<and> a \<le> t \<and> t < a + gap
    \<and> item p ''status_code'' = Inr (PInt 200) \<and> item p ''response'' = item application ''expected_response''"
proof -
  have "control_plane_evidence fr cfg (field_of cfg ''step_output'') = Inr ()"
    using assms(1) by (simp add: control_plane_upgrade_check_def graded_passes)
  from control_plane_parts [OF this] assms(2) obtain before after where
    v: "version_item (field_of cfg ''step_output'') ''observed_version_before'' = Inr before"
      "version_item (field_of cfg ''step_output'') ''observed_version_after'' = Inr after"
      "next_minor before after"
    and c: "check_continuity cfg start finish (field_of cfg ''step_output'') = Inr ()"
    by auto
  from continuity_observes [OF c assms(3,4)] v show ?thesis by blast
qed

lemma iter_len: "py_len v = Inr n \<Longrightarrow> py_iter v = Inr xs \<Longrightarrow> length xs = n"
  by (cases v) (auto simp: py_len_def)

lemma check_drain_Inr:
  "check_drain start finish r = Inr d \<Longrightarrow> item r ''old_uid'' = Inr (fst d)
    \<and> (case d of (u, drained, ready) \<Rightarrow> start \<le> drained \<and> drained < ready \<and> ready \<le> finish)"
  by (auto simp: check_drain_def and_then_Inr demand_Inr)

lemma check_rollouts_Inr:
  assumes "check_rollouts start finish nodes rollouts = Inr drains"
  shows "length drains = length nodes \<and> set (map fst drains) = PStr ` set nodes
    \<and> list_all (\<lambda>(u, drained, ready). start \<le> drained \<and> drained < ready \<and> ready \<le> finish) drains"
proof -
  obtain rs uids where len: "length rs = length nodes" and uids: "drained_uids rs = Inr uids"
    and same: "set uids = PStr ` set nodes" and g: "gather (map (check_drain start finish) rs) = Inr drains"
    using assms iter_len by (fastforce simp: check_rollouts_def and_then_Inr demand_Inr)
  have d: "list_all2 (\<lambda>r d. check_drain start finish r = Inr d) rs drains"
    using g by (simp add: gather_map_Inr)
  have u: "list_all2 (\<lambda>r u. item r ''old_uid'' = Inr u) rs uids"
    using uids unfolding drained_uids_def gather_map_Inr
    by (rule list_all2_mono) (auto simp: and_then_Inr)
  have "map fst drains = uids"
    using d u
  proof (induction rs arbitrary: drains uids)
    case (Cons r rs)
    then show ?case by (auto simp: list_all2_Cons1 dest!: check_drain_Inr)
  qed simp
  moreover have "list_all (\<lambda>(u, drained, ready). start \<le> drained \<and> drained < ready \<and> ready \<le> finish) drains"
    using d check_drain_Inr by (fastforce simp: list_all2_conv_all_nth list_all_length)
  ultimately show ?thesis
    using same len list_all2_lengthD [OF d] by auto
qed

lemma check_pool_Inr:
  "check_pool target before after = Inr nodes \<Longrightarrow> distinct nodes \<and> 2 \<le> length nodes"
  by (auto simp: check_pool_def and_then_Inr demand_Inr uids_of_def gather_map_Inr list_all2_lengthD
      split: pval.splits)

lemma node_pool_parts:
  assumes "node_pool_evidence fr cfg output = Inr ()"
  shows "\<exists>start finish target before after nodes rollouts drains.
      operation_window output = Inr (start, finish) \<and> check_continuity cfg start finish output = Inr ()
    \<and> check_pool target before after = Inr nodes
    \<and> item output ''rollouts'' = Inr rollouts \<and> check_rollouts start finish nodes rollouts = Inr drains
    \<and> check_concurrency cfg (length nodes) drains = Inr ()
    \<and> pdb_evidence cfg start finish nodes drains output = Inr ()"
  using assms
  by (fastforce simp: node_pool_evidence_def and_then_Inr demand_Inr dest!: upgrade_output_same)

text \<open>C32. In a node-pool upgrade that passes, the drains are those of the different nodes of the pool, one
  each, inside the window of the operation, and at no instant are more nodes drained than the
  configured limit, which is below the size of the pool: the check's sweep over the sorted drain
  events misses no overlap.\<close>

theorem rolling_drains_bounded:
  assumes "passes (node_pool_upgrade_check et fr) cfg"
  shows "\<exists>start finish nodes rollouts drains limit.
      operation_window (field_of cfg ''step_output'') = Inr (start, finish)
    \<and> item (field_of cfg ''step_output'') ''rollouts'' = Inr rollouts
    \<and> check_rollouts start finish nodes rollouts = Inr drains
    \<and> distinct nodes \<and> set (map fst drains) = PStr ` set nodes \<and> length drains = length nodes
    \<and> list_all (\<lambda>(u, drained, ready). start \<le> drained \<and> drained < ready \<and> ready \<le> finish) drains
    \<and> integer_evidence 1 (cget cfg ''max_unavailable_nodes'' (PInt 1)) = Inr limit
    \<and> limit < int (length nodes) \<and> (\<forall>t. int (drained_at drains t) \<le> limit)"
proof -
  have "node_pool_evidence fr cfg (field_of cfg ''step_output'') = Inr ()"
    using assms by (simp add: node_pool_upgrade_check_def graded_passes)
  from node_pool_parts [OF this] obtain start finish target before after nodes rollouts drains where
    w: "operation_window (field_of cfg ''step_output'') = Inr (start, finish)"
      "item (field_of cfg ''step_output'') ''rollouts'' = Inr rollouts"
      "check_rollouts start finish nodes rollouts = Inr drains"
    and pool: "check_pool target before after = Inr nodes"
    and conc: "check_concurrency cfg (length nodes) drains = Inr ()" by blast
  obtain limit where limit: "integer_evidence 1 (cget cfg ''max_unavailable_nodes'' (PInt 1)) = Inr limit"
      "limit < int (length nodes)" "within_limit limit 0 (sort (drain_events drains))"
    using conc by (auto simp: check_concurrency_def and_then_Inr demand_Inr)
  note d = check_rollouts_Inr [OF w(3)]
  then have "list_all (\<lambda>(u, drained, ready). drained < ready) drains" by (auto simp: list_all_iff)
  moreover have "0 \<le> limit" using limit(1) by (simp add: integer_evidence_Inr)
  ultimately have "\<forall>t. int (drained_at drains t) \<le> limit" using concurrency_bound limit(3) by blast
  with w limit(1,2) d check_pool_Inr [OF pool] show ?thesis by blast
qed

text \<open>Every node of the pool was drained through an accepted eviction of the watched workload, inside its
  own drain and after the budget had refused one; the workload never fell below its budget.\<close>

lemma evictions_cover_pool:
  assumes "pdb_evidence cfg start finish nodes drains output = Inr ()" "node \<in> set nodes"
  shows "\<exists>(guard :: eviction) (e :: eviction) interval. dget drains (PStr node) = Some interval \<and> ev_node e = PStr node
    \<and> fst interval \<le> ev_at e \<and> ev_at e < snd interval \<and> ev_at guard < ev_at e \<and> ev_at e \<le> finish"
proof -
  obtain uid guard evictions accepted where "check_evictions finish uid nodes drains guard evictions = Inr accepted"
    using assms(1) by (auto simp: pdb_evidence_def and_then_Inr demand_Inr)
  then obtain es where g: "gather (map (check_eviction finish uid nodes drains guard) es) = Inr accepted"
    and same: "set (map ev_node accepted) = PStr ` set nodes"
    by (auto simp: check_evictions_def and_then_Inr demand_Inr)
  have "PStr node \<in> set (map ev_node accepted)" using same assms(2) by blast
  then obtain e where e: "e \<in> set accepted" "ev_node e = PStr node" by auto
  from gather_from [OF g] e(1) obtain x where "check_eviction finish uid nodes drains guard x = Inr e"
    by blast
  then have "\<exists>interval. dget drains (ev_node e) = Some interval \<and> fst interval \<le> ev_at e
      \<and> ev_at e < snd interval \<and> ev_at guard < ev_at e \<and> ev_at e \<le> finish"
    by (auto simp: check_eviction_def drain_interval_def and_then_Inr demand_Inr split: option.splits)
  then obtain interval where "dget drains (PStr node) = Some interval" "fst interval \<le> ev_at e"
    "ev_at e < snd interval" "ev_at guard < ev_at e" "ev_at e \<le> finish"
    unfolding e(2) by blast
  with e(2) show ?thesis by blast
qed

lemma check_samples_healthy:
  "check_samples uid minimum replicas gap stale xs = Inr bs \<Longrightarrow>
    list_all (\<lambda>b. minimum \<le> bs_desired b \<and> bs_desired b \<le> bs_healthy b \<and> bs_healthy b \<le> replicas) bs"
proof (induction xs arbitrary: stale bs)
  case (Cons x xs)
  then show ?case
    by (auto simp: and_then_Inr demand_Inr check_sample_def integer_evidence_Inr)
qed simp

definition obj :: "(string \<times> pval) list \<Rightarrow> pval" where
  "obj d = PDict (map (\<lambda>(k, v). (KStr k, v)) d)"

definition demo_request :: "int \<Rightarrow> pval" where
  "demo_request t = obj [(''at'', PInt t), (''status_code'', PInt 200), (''response'', PStr ''ok''),
     (''duration_seconds'', PInt 1)]"

definition demo_node :: "string \<Rightarrow> string \<Rightarrow> pval" where
  "demo_node uid revision = obj [(''uid'', PStr uid), (''revision'', PStr revision),
     (''ready'', PBool True), (''schedulable'', PBool True)]"

definition demo_drain :: "string \<Rightarrow> int \<Rightarrow> int \<Rightarrow> pval" where
  "demo_drain uid a b = obj [(''old_uid'', PStr uid), (''drain_started_at'', PInt a), (''drained_at'', PInt b)]"

definition demo_budget :: "int \<Rightarrow> pval" where
  "demo_budget t = obj [(''at'', PInt t), (''uid'', PStr ''p''), (''expected_pods'', PInt 2),
     (''desired_healthy'', PInt 1), (''current_healthy'', PInt 2), (''generation'', PInt 1),
     (''observed_generation'', PInt 1)]"

definition demo_eviction :: "string \<Rightarrow> string \<Rightarrow> int \<Rightarrow> pval" where
  "demo_eviction node pod t = obj [(''method'', PStr ''eviction''), (''status_code'', PInt 201),
     (''pdb_uid'', PStr ''p''), (''node_uid'', PStr node), (''pod_uid'', PStr pod), (''at'', PInt t)]"

definition demo_operation :: pval where
  "demo_operation = obj [(''id'', PStr ''op''), (''status'', PStr ''succeeded''), (''started_at'', PInt 10),
     (''completed_at'', PInt 20), (''initiated_by'', PStr ''tenant''), (''executed_by'', PStr ''provider'')]"

definition demo_application :: pval where
  "demo_application = obj [(''endpoint'', PStr ''e''), (''expected_response'', PStr ''ok''),
     (''probes'', PList (map demo_request [8, 12, 16, 21]))]"

definition demo_pdb :: pval where
  "demo_pdb = obj [(''uid'', PStr ''p''), (''min_available'', PInt 1), (''replicas'', PInt 2),
     (''samples'', PList (map demo_budget [8, 12, 16, 21])),
     (''blocked_eviction'', obj [(''at'', PInt 11), (''node_uid'', PStr ''a''), (''pdb_uid'', PStr ''p''),
        (''pod_uid'', PStr ''x''), (''status_code'', PInt 429), (''reason'', PStr ''DisruptionBudget''),
        (''disruptions_allowed'', PInt 0)]),
     (''audit_complete'', PBool True),
     (''evictions'', PList [demo_eviction ''a'' ''x'' 12, demo_eviction ''b'' ''y'' 15])]"

definition demo_node_pool :: dict where
  "demo_node_pool = [(KStr ''step_output'', obj [(''test_name'', PStr ''node_pool_upgrade''),
     (''success'', PBool True), (''operation'', demo_operation), (''application'', demo_application),
     (''target_revision'', PStr ''new''),
     (''nodes_before'', PList [demo_node ''a'' ''old'', demo_node ''b'' ''old'']),
     (''nodes_after'', PList [demo_node ''c'' ''new'', demo_node ''d'' ''new'']),
     (''rollouts'', PList [demo_drain ''a'' 11 13, demo_drain ''b'' 14 17]), (''pdb'', demo_pdb)])]"

definition demo_control_plane :: dict where
  "demo_control_plane = [(KStr ''step_output'', obj [(''test_name'', PStr ''control_plane_upgrade''),
     (''success'', PBool True), (''operation'', demo_operation), (''application'', demo_application),
     (''observed_version_before'', PStr ''v1.30.4''), (''observed_version_after'', PStr ''v1.31.0-gke.1''),
     (''target_version'', PStr ''1.31.0''), (''maintenance_window_required'', PBool False)])]"

lemma demo_node_pool_passes: "passes (node_pool_upgrade_check (\<lambda>_. []) (\<lambda>_. [])) demo_node_pool"
  by code_simp

lemma demo_control_plane_passes:
  "passes (control_plane_upgrade_check (\<lambda>_. []) (\<lambda>_. [])) demo_control_plane"
  by code_simp

theorem upgrade_observed_throughout_witness:
  "\<exists>before after application probes p a gap.
      version_item (field_of demo_control_plane ''step_output'') ''observed_version_before'' = Inr before
    \<and> version_item (field_of demo_control_plane ''step_output'') ''observed_version_after'' = Inr after
    \<and> next_minor before after
    \<and> item (field_of demo_control_plane ''step_output'') ''application'' = Inr application
    \<and> item application ''probes'' = Inr (PList probes) \<and> p \<in> set probes
    \<and> probe_gap demo_control_plane = Inr gap
    \<and> number_item p ''at'' = Inr a \<and> a \<le> 15 \<and> 15 < a + gap
    \<and> item p ''status_code'' = Inr (PInt 200) \<and> item p ''response'' = item application ''expected_response''"
proof (rule upgrade_observed_throughout [OF demo_control_plane_passes])
  show "operation_window (field_of demo_control_plane ''step_output'') = Inr (10, 20)" by code_simp
qed simp_all

theorem rolling_drains_bounded_witness:
  "\<exists>start finish nodes rollouts drains limit.
      operation_window (field_of demo_node_pool ''step_output'') = Inr (start, finish)
    \<and> item (field_of demo_node_pool ''step_output'') ''rollouts'' = Inr rollouts
    \<and> check_rollouts start finish nodes rollouts = Inr drains
    \<and> distinct nodes \<and> set (map fst drains) = PStr ` set nodes \<and> length drains = length nodes
    \<and> list_all (\<lambda>(u, drained, ready). start \<le> drained \<and> drained < ready \<and> ready \<le> finish) drains
    \<and> integer_evidence 1 (cget demo_node_pool ''max_unavailable_nodes'' (PInt 1)) = Inr limit
    \<and> limit < int (length nodes) \<and> (\<forall>t. int (drained_at drains t) \<le> limit)"
  by (rule rolling_drains_bounded [OF demo_node_pool_passes])

end
