(* ===== verification/Breakfix.thy ===== *)
theory Breakfix
  imports Step_Checks "HOL-Library.List_Lexorder" "HOL-Library.Char_ord"
begin

text \<open>
  \<open>isvtest.validations.breakfix\<close>: maintenance events, repair history, firmware, log history, the
  mutating operations on nodes and racks, health agents and notifications.

  The classes that share a \<open>run\<close> are values of the records \<open>queryable\<close> and \<open>operation_class\<close>, whose
  fields are the class attributes and the overridden methods. \<open>parse_iso\<close> is
  \<open>datetime.fromisoformat\<close>: the wall-clock time and the offset from UTC, if the text has one; \<open>None\<close>
  when it raises. A message that a provider reports is taken as text.
\<close>

section \<open>Records\<close>

definition UNKNOWN_LABEL :: string where
  "UNKNOWN_LABEL = ''unknown''"

fun record_label :: "dict \<Rightarrow> string list \<Rightarrow> string" where
  "record_label d [] = UNKNOWN_LABEL"
| "record_label d (k # ks) = (case field_of d k of
     PStr s \<Rightarrow> if strip s \<noteq> [] then strip s else record_label d ks
   | _ \<Rightarrow> record_label d ks)"

text \<open>\<open>str(record.get(field) or "")\<close>.\<close>

definition field_text :: "(rat \<Rightarrow> string) \<Rightarrow> dict \<Rightarrow> string \<Rightarrow> string" where
  "field_text fr d k = py_str fr (py_or (field_of d k) (PStr []))"

definition has_fields :: "(rat \<Rightarrow> string) \<Rightarrow> string list \<Rightarrow> pval \<Rightarrow> bool" where
  "has_fields fr names v = (case v of
     PDict d \<Rightarrow> list_all (\<lambda>k. strip (field_text fr d k) \<noteq> []) names | _ \<Rightarrow> False)"

type_synonym parse_iso = "string \<Rightarrow> (rat \<times> rat option) option"

definition utc_timestamp :: "parse_iso \<Rightarrow> (rat \<Rightarrow> string) \<Rightarrow> dict \<Rightarrow> string \<Rightarrow> rat option" where
  "utc_timestamp parse fr d k = (case parse (field_text fr d k) of
     None \<Rightarrow> None
   | Some (wall, None) \<Rightarrow> Some wall
   | Some (wall, Some offset) \<Rightarrow> Some (wall - offset))"

definition in_order :: "parse_iso \<Rightarrow> (rat \<Rightarrow> string) \<Rightarrow> string \<Rightarrow> string \<Rightarrow> pval \<Rightarrow> bool" where
  "in_order parse fr earlier later v = (case v of
     PDict d \<Rightarrow> (case (utc_timestamp parse fr d earlier, utc_timestamp parse fr d later) of
       (Some a, Some b) \<Rightarrow> a \<le> b | _ \<Rightarrow> False)
   | _ \<Rightarrow> False)"

definition with_step_output :: "(rat \<Rightarrow> string) \<Rightarrow> dict \<Rightarrow> verdict \<Rightarrow> (dict \<Rightarrow> ran) \<Rightarrow> ran" where
  "with_step_output fr cfg v f = with_output cfg v (\<lambda>so.
     if field_of so ''skipped'' = PBool True
     then SkipRaised (py_str fr (py_or (field_of so ''skip_reason'')
       (PStr ''Break-fix step skipped (not configured on this platform)'')))
     else if \<not> truthy (field_of so ''success'')
     then failed v (py_str fr (py_or (field_of so ''error'') (PStr ''Break-fix step failed'')))
     else f so)"

text \<open>Iteration over a value, where a value that is not iterable raises.\<close>

definition iterating :: "pval \<Rightarrow> verdict \<Rightarrow> (pval list \<Rightarrow> ran) \<Rightarrow> ran" where
  "iterating w v f = (case py_iter w of Inl e \<Rightarrow> ExnRaised e v | Inr xs \<Rightarrow> f xs)"

text \<open>\<open>x.get\<close> of a value that should be a dictionary.\<close>

definition as_dict :: "pval \<Rightarrow> verdict \<Rightarrow> (dict \<Rightarrow> ran) \<Rightarrow> ran" where
  "as_dict w v f = (case w of PDict d \<Rightarrow> f d | _ \<Rightarrow> ExnRaised (NoAttribute w ''get'') v)"

section \<open>Signals that are queryable\<close>

record queryable =
  qc_key :: string
  qc_records :: string
  qc_unavailable :: string
  qc_absent :: string
  qc_label :: string
  qc_noun :: string
  qc_evidence :: "pval \<Rightarrow> bool"

definition base_evidence :: "(rat \<Rightarrow> string) \<Rightarrow> string list \<Rightarrow> pval \<Rightarrow> bool" where
  "base_evidence fr names r \<longleftrightarrow> truthy r \<and> (names = [] \<or> has_fields fr names r)"

definition queryable_check :: "(rat \<Rightarrow> string) \<Rightarrow> queryable \<Rightarrow> check" where
  "queryable_check fr c cfg v = with_step_output fr cfg v (\<lambda>so.
     if \<not> truthy (field_of so (qc_key c)) then failed v (qc_unavailable c)
     else iterating (py_or (field_of so (qc_records c)) (PList [])) v (\<lambda>rs.
       (let records = filter (qc_evidence c) rs
        in if records = []
           then SkipRaised (''No '' @ qc_absent c @ '' at the site; the query API cannot be demonstrated'')
           else passed v (qc_label c @ '' query API returned '' @ nat_str (length records) @ '' ''
             @ qc_noun c @ ''(s)''))))"

definition maintenance_events :: "(rat \<Rightarrow> string) \<Rightarrow> queryable" where
  "maintenance_events fr = \<lparr>qc_key = ''events_queryable'', qc_records = ''events'',
     qc_unavailable = ''Maintenance events are not queryable via the break-fix API'',
     qc_absent = ''maintenance events'', qc_label = ''Maintenance event'', qc_noun = ''event'',
     qc_evidence = base_evidence fr [''machine_id'', ''status'']\<rparr>"

definition retirement_notices :: "(rat \<Rightarrow> string) \<Rightarrow> queryable" where
  "retirement_notices fr = \<lparr>qc_key = ''notices_queryable'', qc_records = ''notices'',
     qc_unavailable = ''Retirement notices are not queryable via the break-fix API'',
     qc_absent = ''retirement notices'', qc_label = ''Retirement notice'', qc_noun = ''notice'',
     qc_evidence = (\<lambda>r. has_fields fr [''retire_after''] r
       \<and> (has_fields fr [''machine_id''] r \<or> has_fields fr [''rack_id''] r))\<rparr>"

definition repair_history :: queryable where
  "repair_history = \<lparr>qc_key = ''history_queryable'', qc_records = ''records'',
     qc_unavailable = ''Repair history is not queryable via the break-fix API'',
     qc_absent = ''repair history'', qc_label = ''Repair history'', qc_noun = ''machine record'',
     qc_evidence = (\<lambda>r. case r of PDict d \<Rightarrow> truthy (field_of d ''entries'') | _ \<Rightarrow> False)\<rparr>"

definition planned_notifications :: "parse_iso \<Rightarrow> (rat \<Rightarrow> string) \<Rightarrow> queryable" where
  "planned_notifications parse fr = \<lparr>qc_key = ''notification_channel_observable'',
     qc_records = ''notifications'',
     qc_unavailable = ''Planned maintenance notification channel is not observable'',
     qc_absent = ''planned maintenance notifications'', qc_label = ''Planned maintenance notification'',
     qc_noun = ''notification'',
     qc_evidence = (\<lambda>r. base_evidence fr [''machine_id''] r
       \<and> in_order parse fr ''notified_at'' ''window_start'' r)\<rparr>"

definition failure_notifications :: "parse_iso \<Rightarrow> (rat \<Rightarrow> string) \<Rightarrow> queryable" where
  "failure_notifications parse fr = \<lparr>qc_key = ''notification_channel_observable'',
     qc_records = ''notifications'',
     qc_unavailable = ''Immediate failure notification channel is not observable'',
     qc_absent = ''immediate failure notifications'', qc_label = ''Immediate failure notification'',
     qc_noun = ''notification'',
     qc_evidence = (\<lambda>r. base_evidence fr [''machine_id''] r
       \<and> in_order parse fr ''detected_at'' ''notified_at'' r)\<rparr>"

section \<open>Firmware and log history\<close>

text \<open>The labels of the first three records.\<close>

definition first_labels :: "string list \<Rightarrow> pval list \<Rightarrow> string" where
  "first_labels ks rs = join '', '' (map (\<lambda>r. case r of PDict d \<Rightarrow> record_label d ks | _ \<Rightarrow> []) (take 3 rs))"

definition switch_firmware_check :: "(rat \<Rightarrow> string) \<Rightarrow> check" where
  "switch_firmware_check fr cfg v = with_step_output fr cfg v (\<lambda>so.
     case field_of so ''trays'' of
       PList trays \<Rightarrow>
        (case parse_positive_int fr cfg ''min_trays'' 1 v of
           (None, v') \<Rightarrow> Finished v'
         | (Some min_trays, v') \<Rightarrow>
            (let unidentified = filter (\<lambda>t. \<not> has_fields fr [''tray_id''] t) trays;
                 missing = filter (\<lambda>t. \<not> has_fields fr [''firmware_version''] t) trays
             in if unidentified \<noteq> []
                then failed v' (nat_str (length unidentified) @ '' switch tray(s) missing tray_id'')
                else if missing \<noteq> []
                then failed v' (nat_str (length missing) @ '' switch tray(s) missing firmware_version: ''
                  @ first_labels [''tray_id''] missing)
                else if int (length trays) < min_trays
                then failed v' (''Expected at least '' @ int_str min_trays @ '' NV switch tray(s), got ''
                  @ nat_str (length trays))
                else passed v' (''Firmware version queryable for '' @ nat_str (length trays)
                  @ '' NV switch tray(s)'')))
     | _ \<Rightarrow> failed v ''Switch firmware step output is missing the 'trays' list'')"

text \<open>\<open>isinstance(v, int)\<close> holds of booleans too.\<close>

definition entry_count :: "pval \<Rightarrow> int option" where
  "entry_count h = (case h of
     PDict d \<Rightarrow> (case field_of d ''entries_returned'' of
       PInt i \<Rightarrow> Some i | PBool b \<Rightarrow> Some (if b then 1 else 0) | _ \<Rightarrow> None)
   | _ \<Rightarrow> None)"

definition log_history_check :: "parse_iso \<Rightarrow> (rat \<Rightarrow> string) \<Rightarrow> check" where
  "log_history_check parse fr cfg v = with_step_output fr cfg v (\<lambda>so.
     case field_of so ''hosts'' of
       PList hosts \<Rightarrow>
        (case parse_positive_int fr cfg ''min_hosts'' 1 v of
           (None, v') \<Rightarrow> Finished v'
         | (Some min_hosts, v') \<Rightarrow>
            (let unidentified = filter (\<lambda>h. \<not> has_fields fr [''host_id''] h) hosts;
                 unwindowed = filter (\<lambda>h. \<not> in_order parse fr ''window_start'' ''window_end'' h) hosts;
                 no_entries = filter (\<lambda>h. case entry_count h of None \<Rightarrow> True | Some n \<Rightarrow> n < 1) hosts;
                 keys = [''host_id'', ''machine_id'']
             in if int (length hosts) < min_hosts
                then failed v' (''Expected at least '' @ int_str min_hosts @ '' host(s), got ''
                  @ nat_str (length hosts))
                else if unidentified \<noteq> []
                then failed v' (nat_str (length unidentified) @ '' host record(s) missing host_id'')
                else if unwindowed \<noteq> []
                then failed v' (nat_str (length unwindowed) @ '' host(s) did not report an ordered query window ''
                  @ ''(window_start, window_end): '' @ first_labels keys unwindowed)
                else if no_entries \<noteq> []
                then failed v' (''No log entries returned for '' @ nat_str (length no_entries)
                  @ '' host(s) over the queried window: '' @ first_labels keys no_entries)
                else passed v' (''Log history queryable for '' @ nat_str (length hosts) @ '' host(s); ''
                  @ int_str (sum_list (map (\<lambda>h. case entry_count h of Some n \<Rightarrow> n | None \<Rightarrow> 0) hosts))
                  @ '' entries returned'')))
     | _ \<Rightarrow> failed v ''BMC kernel log step output is missing the 'hosts' list'')"

section \<open>Operations on nodes and racks\<close>

text \<open>\<open>oc_before\<close> is what an overridden \<open>run\<close> or \<open>_finish\<close> demands first, in order: \<open>Some\<close> is the
  message of a failure. \<open>oc_suffix\<close> is what \<open>_pass_message\<close> appends.\<close>

record operation_class =
  oc_completion :: string
  oc_failure :: string
  oc_labels :: "string list"
  oc_pass :: "string \<Rightarrow> string"
  oc_before :: "dict \<Rightarrow> exn + string option"
  oc_suffix :: "dict \<Rightarrow> string"

definition operation_finish :: "operation_class \<Rightarrow> dict \<Rightarrow> verdict \<Rightarrow> ran" where
  "operation_finish c operation v =
    (let label = record_label operation (oc_labels c)
     in if label = UNKNOWN_LABEL
        then failed v (''Operation reported success without identifying what it acted on (expected one of: ''
          @ join '', '' (oc_labels c) @ '')'')
        else passed v (oc_pass c label @ oc_suffix c operation))"

definition operation_check :: "(rat \<Rightarrow> string) \<Rightarrow> operation_class \<Rightarrow> check" where
  "operation_check fr c cfg v = with_step_output fr cfg v (\<lambda>so.
     as_dict (py_or (field_of so ''operation'') (PDict [])) v (\<lambda>operation.
       if \<not> truthy (field_of operation (oc_completion c))
       then failed v (py_str fr (py_or (field_of operation ''message'') (PStr (oc_failure c))))
       else (case oc_before c operation of
           Inl e \<Rightarrow> ExnRaised e v
         | Inr (Some message) \<Rightarrow> failed v message
         | Inr None \<Rightarrow> operation_finish c operation v)))"

text \<open>\<open>[g for g in (operation.get("gpu_ids") or []) if str(g).strip()]\<close>.\<close>

definition named_gpus :: "(rat \<Rightarrow> string) \<Rightarrow> dict \<Rightarrow> exn + pval list" where
  "named_gpus fr operation = map_sum id (filter (\<lambda>g. strip (py_str fr g) \<noteq> []))
     (py_iter (py_or (field_of operation ''gpu_ids'') (PList [])))"

definition gpu_reset :: "(rat \<Rightarrow> string) \<Rightarrow> operation_class" where
  "gpu_reset fr = \<lparr>oc_completion = ''accepted'', oc_failure = ''GPU reset request was not accepted'',
     oc_labels = [''node_id'', ''machine_id''], oc_pass = (\<lambda>label. ''GPU reset requested for node '' @ label),
     oc_before = (\<lambda>operation.
       if \<not> has_fields fr [''request_id''] (PDict operation)
       then Inr (Some ''GPU reset was accepted without a request_id; the tenant cannot poll it to completion'')
       else map_sum id (\<lambda>gpus. if gpus = []
         then Some ''GPU reset was accepted without naming any GPU in gpu_ids'' else None)
         (named_gpus fr operation)),
     oc_suffix = (\<lambda>operation. '': ''
       @ nat_str (case named_gpus fr operation of Inr gpus \<Rightarrow> length gpus | Inl _ \<Rightarrow> 0)
       @ '' GPU(s), request '' @ py_str fr (field_of operation ''request_id''))\<rparr>"

definition return_node :: "(rat \<Rightarrow> string) \<Rightarrow> operation_class" where
  "return_node fr = \<lparr>oc_completion = ''instance_deleted'',
     oc_failure = ''Instance was not deleted, so the node was not returned'',
     oc_labels = [''machine_id'', ''node_id''],
     oc_pass = (\<lambda>label. ''Node '' @ label @ '' returned for maintenance''),
     oc_before = (\<lambda>operation. Inr (if truthy (field_of operation ''machine_quarantined'') then None
       else Some (py_str fr (py_or (field_of operation ''message'')
         (PStr ''Node was returned but went back into the allocatable pool instead of being held for repair''))))),
     oc_suffix = (\<lambda>_. [])\<rparr>"

definition return_rack :: operation_class where
  "return_rack = \<lparr>oc_completion = ''accepted'', oc_failure = ''Rack maintenance return was not accepted'',
     oc_labels = [''rack_id''], oc_pass = (\<lambda>label. ''Rack '' @ label @ '' accepted for maintenance''),
     oc_before = (\<lambda>_. Inr None), oc_suffix = (\<lambda>_. [])\<rparr>"

definition host_replacement :: operation_class where
  "host_replacement = \<lparr>oc_completion = ''node_removed_from_pool'',
     oc_failure = ''Node was not removed from the allocatable pool'',
     oc_labels = [''machine_id'', ''node_id''],
     oc_pass = (\<lambda>label. ''Host replacement removed '' @ label @ '' from the pool''),
     oc_before = (\<lambda>_. Inr None), oc_suffix = (\<lambda>_. [])\<rparr>"

definition report_repair :: "(rat \<Rightarrow> string) \<Rightarrow> operation_class" where
  "report_repair fr = \<lparr>oc_completion = ''repair_state_observed'',
     oc_failure = ''Provider did not move the node into a repair state after the report'',
     oc_labels = [''node_id'', ''machine_id''],
     oc_pass = (\<lambda>label. ''Node '' @ label @ '' reported for repair; provider moved it into a repair state''),
     oc_before = (\<lambda>operation. Inr (if truthy (field_of operation ''restored'') then None
       else Some (''Node was left in a repair state; the report was accepted but the node was not returned ''
         @ ''to the pool''))),
     oc_suffix = (\<lambda>operation. if truthy (field_of operation ''message'')
       then '' ('' @ py_str fr (field_of operation ''message'') @ '')'' else [])\<rparr>"

definition cordon_check :: "(rat \<Rightarrow> string) \<Rightarrow> check" where
  "cordon_check fr cfg v = with_step_output fr cfg v (\<lambda>so.
     as_dict (py_or (field_of so ''operation'') (PDict [])) v (\<lambda>operation.
       if \<not> truthy (field_of operation ''cordoned'')
       then failed v (py_str fr (py_or (field_of operation ''message'') (PStr ''Node was not cordoned'')))
       else if \<not> truthy (field_of operation ''new_workloads_blocked'')
       then failed v ''New workloads were not blocked on the cordoned node''
       else if field_of operation ''existing_workloads_running'' \<noteq> PBool True
       then failed v ''Existing workloads were not confirmed still running on the cordoned node''
       else passed v ''Node cordoned: new workloads blocked, existing workloads continue''))"

section \<open>Health agents\<close>

definition agent_names :: "(rat \<Rightarrow> string) \<Rightarrow> string \<Rightarrow> dict list \<Rightarrow> string list" where
  "agent_names fr k agents = remdups (map (\<lambda>d. strip (py_str fr (field_of d k))) agents)"

definition judge_agents :: "(rat \<Rightarrow> string) \<Rightarrow> pval \<Rightarrow> dict list \<Rightarrow> verdict \<Rightarrow> ran" where
  "judge_agents fr nodes_expected agents v =
    (let unidentified = filter (\<lambda>d. \<not> has_fields fr [''node_id''] (PDict d)) agents;
         not_running = filter (\<lambda>d. field_of d ''running'' \<noteq> PBool True) agents;
         unnamed = filter (\<lambda>d. \<not> has_fields fr [''agent_name''] (PDict d)) agents;
         labels = (\<lambda>ds. first_labels [''node_id'', ''machine_id''] (map PDict ds));
         covered = length (agent_names fr ''node_id'' agents)
     in if agents = [] then failed v ''No health monitoring process records returned; none is running''
        else if unidentified \<noteq> []
        then failed v (nat_str (length unidentified) @ '' health agent record(s) missing node_id'')
        else if not_running \<noteq> []
        then failed v (''No GPU health monitoring process running on '' @ nat_str (length not_running)
          @ '' node(s): '' @ labels not_running)
        else if unnamed \<noteq> []
        then failed v (nat_str (length unnamed) @ '' node(s) reported a running health monitoring process ''
          @ ''without naming it in agent_name: '' @ labels unnamed)
        else (case nodes_expected of
          PInt expected \<Rightarrow>
           (if expected < 1 then failed v (''Step output did not report how many GPU nodes the platform has ''
              @ ''in nodes_expected, so this result cannot show it covered the fleet'')
            else if int covered < expected
            then failed v (''Health agent records cover '' @ nat_str covered @ '' of '' @ int_str expected
              @ '' GPU node(s); the '' @ int_str (expected - int covered) @ '' unreported node(s) are unproven'')
            else passed v (''GPU health monitoring process running on '' @ nat_str covered @ '' node(s): ''
              @ join '', '' (take 3 (sort (agent_names fr ''agent_name'' agents)))))
        | _ \<Rightarrow> failed v (''Step output did not report how many GPU nodes the platform has ''
            @ ''in nodes_expected, so this result cannot show it covered the fleet'')))"

definition health_agent_check :: "(rat \<Rightarrow> string) \<Rightarrow> check" where
  "health_agent_check fr cfg v = with_step_output fr cfg v (\<lambda>so.
     if \<not> truthy (field_of so ''agents_observable'')
     then failed v ''GPU health monitoring processes are not observable on this platform''
     else iterating (py_or (field_of so ''agents'') (PList [])) v (\<lambda>rs.
       judge_agents fr (field_of so ''nodes_expected'') [d. PDict d \<leftarrow> rs] v))"

section \<open>What a passing check has established\<close>

lemma went_well_step_output:
  "went_well (with_step_output fr cfg v f) = (case cget cfg ''step_output'' (PDict []) of
     PDict so \<Rightarrow> field_of so ''skipped'' \<noteq> PBool True \<and> truthy (field_of so ''success'') \<and> went_well (f so)
   | _ \<Rightarrow> False)"
  by (auto simp: with_step_output_def went_well_with_output split: pval.split)

lemma went_well_iterating:
  "went_well (iterating w v f) = (case py_iter w of Inr xs \<Rightarrow> went_well (f xs) | Inl _ \<Rightarrow> False)"
  by (simp add: iterating_def split: sum.split)

text \<open>The step succeeded and was not skipped.\<close>

definition step_succeeded :: "dict \<Rightarrow> bool" where
  "step_succeeded so \<longleftrightarrow> field_of so ''skipped'' \<noteq> PBool True \<and> truthy (field_of so ''success'')"

text \<open>A check that a signal is queryable passes exactly when the provider's step succeeded, reports the
  signal as observable and returns at least one record that is evidence for it; the provider's
  own claim is never enough. This holds of each of the five signals, whatever its evidence is.\<close>

theorem queryable_needs_record:
  "passes (queryable_check fr c) cfg = (case cget cfg ''step_output'' (PDict []) of
     PDict so \<Rightarrow> step_succeeded so \<and> truthy (field_of so (qc_key c))
       \<and> (case py_iter (py_or (field_of so (qc_records c)) (PList [])) of
            Inr records \<Rightarrow> list_ex (qc_evidence c) records | Inl _ \<Rightarrow> False)
   | _ \<Rightarrow> False)"
proof -
  have "filter (qc_evidence c) records \<noteq> [] \<longleftrightarrow> list_ex (qc_evidence c) records" for records
    by (auto simp: filter_empty_conv list_ex_iff)
  then show ?thesis
    by (auto simp: passes_iff queryable_check_def went_well_step_output went_well_iterating
        step_succeeded_def Let_def split: pval.splits sum.splits)
qed

text \<open>A node's agent is up: the record names the node and a running process.\<close>

definition agent_up :: "(rat \<Rightarrow> string) \<Rightarrow> dict \<Rightarrow> bool" where
  "agent_up fr d \<longleftrightarrow> has_fields fr [''node_id'', ''agent_name''] (PDict d)
     \<and> field_of d ''running'' = PBool True"

lemma agents_up:
  "list_all (agent_up fr) ds \<longleftrightarrow> filter (\<lambda>d. \<not> has_fields fr [''node_id''] (PDict d)) ds = []
    \<and> filter (\<lambda>d. field_of d ''running'' \<noteq> PBool True) ds = []
    \<and> filter (\<lambda>d. \<not> has_fields fr [''agent_name''] (PDict d)) ds = []"
  by (induction ds) (auto simp: agent_up_def has_fields_def)

definition nodes_covered :: "(rat \<Rightarrow> string) \<Rightarrow> dict list \<Rightarrow> string set" where
  "nodes_covered fr ds = (\<lambda>d. strip (py_str fr (field_of d ''node_id''))) ` set ds"

lemma judge_agents_well:
  "went_well (judge_agents fr nodes_expected ds v) \<longleftrightarrow> list_all (agent_up fr) ds
    \<and> (case nodes_expected of PInt n \<Rightarrow> 1 \<le> n \<and> n \<le> int (card (nodes_covered fr ds)) | _ \<Rightarrow> False)"
proof -
  have c: "length (agent_names fr ''node_id'' ds) = card (nodes_covered fr ds)"
    by (simp add: agent_names_def nodes_covered_def length_remdups_card_conv)
  show ?thesis
    unfolding judge_agents_def Let_def agents_up c
    by (cases nodes_expected; cases "ds = []") (auto simp: nodes_covered_def)
qed

text \<open>The health-agent check passes exactly when every record names its node and a running process,
  and the different nodes among them are at least as many as the platform says it has: a fleet
  that is only partly reported, or reported with repeated nodes, does not pass.\<close>

theorem health_agents_cover_fleet:
  "passes (health_agent_check fr) cfg = (case cget cfg ''step_output'' (PDict []) of
     PDict so \<Rightarrow> step_succeeded so \<and> truthy (field_of so ''agents_observable'')
       \<and> (case (py_iter (py_or (field_of so ''agents'') (PList [])), field_of so ''nodes_expected'') of
            (Inr rs, PInt n) \<Rightarrow> list_all (agent_up fr) [d. PDict d \<leftarrow> rs] \<and> 1 \<le> n
              \<and> n \<le> int (card (nodes_covered fr [d. PDict d \<leftarrow> rs]))
          | _ \<Rightarrow> False)
   | _ \<Rightarrow> False)"
  by (auto simp: passes_iff health_agent_check_def went_well_step_output went_well_iterating step_succeeded_def
      judge_agents_well split: pval.split sum.split)

text \<open>A host that reports no count of log entries but the boolean \<open>True\<close> is taken to have one.\<close>

lemma boolean_entries_accepted:
  "passes (log_history_check (\<lambda>s. Some (0, None)) (\<lambda>_. [])) [(KStr ''step_output'', PDict
     [(KStr ''success'', PBool True), (KStr ''hosts'', PList [PDict [(KStr ''host_id'', PStr ''h''),
       (KStr ''entries_returned'', PBool True)]])])]"
  by code_simp

end
