(* ===== verification/Imex_Evidence.thy ===== *)
theory Imex_Evidence
  imports Network_Policy
begin

text \<open>
  The checks of \<open>isvtest.validations.network\<close> that judge a step's evidence about switch fabrics, NVLink
  domains and the IMEX service: that a domain is connected pair by pair, that the service ships in
  the image, that it recovers from a kill, that peers notice a departure, and that it returns after
  a reboot. Every one of them fails at the first defect. Numbers are finite.
\<close>

section \<open>Ends of a judgement\<close>

text \<open>\<open>Inr\<close> is the message of \<open>set_passed\<close>. \<open>Inl\<close> ends the check: with a failure, or with an exception.\<close>

type_synonym 'a judged = "(exn + string) + 'a"

abbreviation fails :: "string \<Rightarrow> exn + string" where
  "fails m \<equiv> Inr m"

definition concluded :: "verdict \<Rightarrow> string judged \<Rightarrow> ran" where
  "concluded v r = (case r of
     Inl (Inl e) \<Rightarrow> ExnRaised e v | Inl (Inr m) \<Rightarrow> failed v m | Inr m \<Rightarrow> passed v m)"

lemma went_well_concluded [simp]: "went_well (concluded v r) \<longleftrightarrow> (\<exists>m. r = Inr m)"
  by (auto simp: concluded_def split: sum.split)

definition text_of :: "dict \<Rightarrow> string \<Rightarrow> string" where
  "text_of d k = (case field_of d k of PStr s \<Rightarrow> s | _ \<Rightarrow> [])"

text \<open>A value that must be a dictionary.\<close>

definition need_dict :: "pval \<Rightarrow> string \<Rightarrow> dict judged" where
  "need_dict v m = (case v of PDict d \<Rightarrow> Inr d | _ \<Rightarrow> Inl (fails m))"

definition need_text :: "pval \<Rightarrow> string \<Rightarrow> string judged" where
  "need_text v m = (case v of PStr s \<Rightarrow> demand (strip s \<noteq> []) (fails m) (Inr s) | _ \<Rightarrow> Inl (fails m))"

text \<open>\<open>_is_non_negative_number\<close>, with the number.\<close>

definition non_negative_number :: "pval \<Rightarrow> rat option" where
  "non_negative_number v = (case v of
     PInt i \<Rightarrow> (if 0 \<le> i then Some (of_int i) else None)
   | PFloat r \<Rightarrow> (if 0 \<le> r then Some r else None)
   | _ \<Rightarrow> None)"

definition need_seconds :: "pval \<Rightarrow> string \<Rightarrow> rat judged" where
  "need_seconds v m = (case non_negative_number v of None \<Rightarrow> Inl (fails m) | Some r \<Rightarrow> Inr r)"

text \<open>The bound of the configuration is only applied when it is a number.\<close>

definition beyond :: "dict \<Rightarrow> string \<Rightarrow> rat \<Rightarrow> bool" where
  "beyond cfg key elapsed = (case field_of cfg key of
     PInt i \<Rightarrow> of_int i < elapsed | PFloat r \<Rightarrow> r < elapsed | _ \<Rightarrow> False)"

fun first_error :: "(nat \<Rightarrow> 'a \<Rightarrow> string option) \<Rightarrow> nat \<Rightarrow> 'a list \<Rightarrow> string option" where
  "first_error f n [] = None"
| "first_error f n (x # xs) = (case f n x of Some e \<Rightarrow> Some e | None \<Rightarrow> first_error f (Suc n) xs)"

definition report_error :: "nat \<Rightarrow> pval \<Rightarrow> string option" where
  "report_error n node = (case node of
     PDict d \<Rightarrow> if is_text (field_of d ''node_id'') then None
       else Some (''`nodes['' @ nat_str n @ ''].node_id` must be a non-empty string'')
   | _ \<Rightarrow> Some (''`nodes['' @ nat_str n @ '']` must be an object''))"

definition validate_node_reports :: "pval \<Rightarrow> string \<Rightarrow> dict list judged" where
  "validate_node_reports v kind = (case v of
     PList nodes \<Rightarrow> (case first_error report_error 0 nodes of
       Some e \<Rightarrow> Inl (fails e) | None \<Rightarrow> Inr [d. PDict d \<leftarrow> nodes])
   | _ \<Rightarrow> Inl (fails (''`nodes` must be a list of per-node '' @ kind @ '' reports'')))"

definition validate_string_list :: "pval \<Rightarrow> string \<Rightarrow> string option" where
  "validate_string_list v field_name = (case v of
     PList [] \<Rightarrow> Some (''`fabric.'' @ field_name @ ''` must not be empty'')
   | PList xs \<Rightarrow> if list_all is_text xs then None
       else Some (''`fabric.'' @ field_name @ ''` contains non-string or empty values'')
   | _ \<Rightarrow> Some (''`fabric.'' @ field_name @ ''` must be a non-empty list of strings''))"

definition list_size :: "pval \<Rightarrow> nat" where
  "list_size v = (case v of PList xs \<Rightarrow> length xs | _ \<Rightarrow> 0)"

section \<open>Switch fabric and NVLink\<close>

definition backend_fabric_check :: "(rat \<Rightarrow> string) \<Rightarrow> check" where
  "backend_fabric_check fr cfg v = with_output cfg v (\<lambda>so.
     required_then fr cfg [''node_resolved'', ''leaf_switch_ids_present'', ''spine_switch_ids_present'',
       ''core_switch_ids_present''] ''Backend switch fabric tests failed'' v (\<lambda>v'. concluded v' (
     and_then (need_text (field_of so ''node_id'') ''`node_id` must be a non-empty string'') (\<lambda>node_id.
     and_then (need_dict (field_of so ''fabric'')
       ''`fabric` must be an object with leaf, spine, and core switch IDs'') (\<lambda>fabric.
     (let keys = [''leaf_switch_ids'', ''spine_switch_ids'', ''core_switch_ids''];
          errors = List.map_filter (\<lambda>k. validate_string_list (field_of fabric k) k) keys
      in demand (errors = []) (fails (join ''; '' errors))
         (Inr (''Backend fabric for '' @ node_id @ '': ''
           @ nat_str (list_size (field_of fabric ''leaf_switch_ids'')) @ '' leaf, ''
           @ nat_str (list_size (field_of fabric ''spine_switch_ids'')) @ '' spine, ''
           @ nat_str (list_size (field_of fabric ''core_switch_ids'')) @ '' core switch ID(s)''))))))))"

definition nvlink_domain_check :: "(rat \<Rightarrow> string) \<Rightarrow> check" where
  "nvlink_domain_check fr cfg v = with_output cfg v (\<lambda>so.
     case need_text (field_of so ''node_id'') ''`node_id` must be a non-empty string'' of
       Inl e \<Rightarrow> concluded v (Inl e)
     | Inr node_id \<Rightarrow> required_then fr cfg [''node_resolved'', ''nvlink_support_detected'']
         ''NVLink support detection tests failed'' v (\<lambda>v1.
         if field_of so ''nvlink_supported'' = PBool False
         then SkipRaised (''NVLink not supported on node '' @ node_id @ ''; skipping NVLink domain validation'')
         else if field_of so ''nvlink_supported'' \<noteq> PBool True
         then failed v1 ''`nvlink_supported` must be a boolean''
         else required_then fr cfg [''nvlink_domain_id_present''] ''NVLink domain tests failed'' v1 (\<lambda>v2.
           concluded v2 (and_then (need_text (field_of so ''nvlink_domain_id'')
             ''`nvlink_domain_id` must be a non-empty string when NVLink is supported'') (\<lambda>domain_id.
             Inr (''NVLink domain for '' @ node_id @ '': '' @ domain_id))))))"

section \<open>The domain\<close>

text \<open>What two members see of each other.\<close>

definition pair_fault :: "(string \<times> pval list) list \<Rightarrow> string \<Rightarrow> string \<Rightarrow> string list" where
  "pair_fault peers a b =
    (let a_sees_b = PStr b \<in> set (dgetd peers a []); b_sees_a = PStr a \<in> set (dgetd peers b [])
     in if a_sees_b \<and> b_sees_a then []
        else if a_sees_b \<or> b_sees_a
        then [a @ ''<->'' @ b @ '': one-way only (''
          @ (if a_sees_b then a @ ''->'' @ b else b @ ''->'' @ a) @ '')'']
        else [a @ ''<->'' @ b @ '': no connectivity observed in either direction''])"

fun pair_faults :: "(string \<times> pval list) list \<Rightarrow> string list \<Rightarrow> string list" where
  "pair_faults peers [] = []"
| "pair_faults peers (a # bs) = concat (map (pair_fault peers a) bs) @ pair_faults peers bs"

fun peers_of :: "dict list \<Rightarrow> (string \<times> pval list) list \<Rightarrow> (string \<times> pval list) list judged" where
  "peers_of [] peers = Inr peers"
| "peers_of (node # nodes) peers =
    (if field_of node ''domain_member'' \<noteq> PBool True then peers_of nodes peers
     else (case field_of node ''peers_reachable'' of
         PList ps \<Rightarrow> peers_of nodes (dput peers (text_of node ''node_id'') ps)
       | _ \<Rightarrow> Inl (fails (''`peers_reachable` for '' @ text_of node ''node_id''
           @ '' must be a list of peer node IDs''))))"

definition strings_repr :: "(rat \<Rightarrow> string) \<Rightarrow> string list \<Rightarrow> string" where
  "strings_repr fr ss = py_repr fr (PList (map PStr ss))"

text \<open>Members that are expected but missing, and the other way round.\<close>

definition mismatch_details :: "(rat \<Rightarrow> string) \<Rightarrow> string list \<Rightarrow> string list \<Rightarrow> string list" where
  "mismatch_details fr expected reported =
    (let missing = sort (filter (\<lambda>m. m \<notin> set reported) expected);
         unexpected = sort (filter (\<lambda>m. m \<notin> set expected) reported)
     in (if missing \<noteq> [] then [''missing: '' @ strings_repr fr missing] else [])
      @ (if unexpected \<noteq> [] then [''unexpected (possible tenancy issue): '' @ strings_repr fr unexpected]
         else []))"

definition is_up :: "pval \<Rightarrow> bool" where
  "is_up state = (case state of PStr s \<Rightarrow> lower (strip s) = ''up'' | _ \<Rightarrow> False)"

definition domain_members :: "dict list \<Rightarrow> string list" where
  "domain_members nodes =
     map (\<lambda>n. text_of n ''node_id'') (filter (\<lambda>n. field_of n ''domain_member'' = PBool True) nodes)"

text \<open>Judged over the reports, not over what the provider says of the domain.\<close>

definition judge_connected :: "(rat \<Rightarrow> string) \<Rightarrow> string \<Rightarrow> string list \<Rightarrow> dict list \<Rightarrow> string judged" where
  "judge_connected fr i expected nodes =
    (let reported = domain_members nodes
     in demand (distinct reported) (fails (''IMEX domain '' @ i
          @ '' reports duplicate node IDs among its members''))
       (demand (set expected = set reported) (fails (''IMEX domain '' @ i @ '' membership mismatch (''
          @ join ''; '' (mismatch_details fr expected reported) @ '')''))
       (and_then (peers_of nodes []) (\<lambda>peers.
        (let members = sort reported; faults = pair_faults peers members
         in demand (faults = []) (fails (''IMEX domain '' @ i @ '' is not fully connected: ''
              @ join ''; '' faults))
           (Inr (''IMEX domain '' @ i @ '' is operational with '' @ nat_str (length members)
             @ '' member(s); all '' @ nat_str (length members * (length members - 1) div 2)
             @ '' pair(s) mutually connected'')))))))"

definition judge_expected :: "(rat \<Rightarrow> string) \<Rightarrow> dict \<Rightarrow> string \<Rightarrow> string list \<Rightarrow> string judged" where
  "judge_expected fr so i expected =
     demand (distinct expected) (fails (''IMEX domain '' @ i
       @ '' `domain.expected_members` contains duplicate node IDs''))
    (demand (2 \<le> length expected) (fails (''IMEX domain '' @ i @ '' has only ''
       @ nat_str (length expected) @ '' expected member(s): this environment ''
       @ ''is too small to validate a multi-node NVLink domain, which requires at least two members''))
    (and_then (validate_node_reports (field_of so ''nodes'') ''domain'') (judge_connected fr i expected)))"

definition judge_domain :: "(rat \<Rightarrow> string) \<Rightarrow> dict \<Rightarrow> string judged" where
  "judge_domain fr so =
     and_then (need_dict (field_of so ''domain'')
       ''`domain` must be an object with domain_id, state, and expected_members'') (\<lambda>domain.
     and_then (need_text (field_of domain ''domain_id'') ''`domain.domain_id` must be a non-empty string'') (\<lambda>i.
     demand (is_up (field_of domain ''state''))
       (fails (''IMEX domain '' @ i @ '' state is '' @ py_repr fr (field_of domain ''state'')
         @ '', expected an operational state ('' @ quoted ''up'' @ '')''))
     (case validate_string_list (field_of domain ''expected_members'') ''expected_members'' of
        Some e \<Rightarrow> Inl (fails (''`domain.'' @ drop (length ''`fabric.'') e))
      | None \<Rightarrow> judge_expected fr so i (case field_of domain ''expected_members'' of
          PList ms \<Rightarrow> [s. PStr s \<leftarrow> ms] | _ \<Rightarrow> []))))"

definition imex_domain_check :: "(rat \<Rightarrow> string) \<Rightarrow> check" where
  "imex_domain_check fr cfg v = with_output cfg v (\<lambda>so. concluded v (judge_domain fr so))"

section \<open>The service in the image\<close>

definition REGISTRATION_STATES :: "string list" where
  "REGISTRATION_STATES = [''loaded'', ''masked'', ''not_found'', ''error'']"

definition presence_failures :: "(rat \<Rightarrow> string) \<Rightarrow> dict \<Rightarrow> string list" where
  "presence_failures fr node =
    (let i = text_of node ''node_id''; registration = field_of node ''service_registration''
     in (if field_of node ''service_present'' \<noteq> PBool True
         then [i @ '': IMEX service not present in the node image''] else [])
      @ (if field_of node ''control_tooling_present'' \<noteq> PBool True
         then [i @ '': IMEX control tooling not present or not invocable''] else [])
      @ (if registration \<notin> PStr ` set REGISTRATION_STATES
         then [i @ '': `service_registration` must be one of '' @ strings_repr fr (sort REGISTRATION_STATES)
           @ '', got '' @ py_repr fr registration]
         else if registration = PStr ''masked''
         then [i @ '': IMEX service is masked with the node's service manager - a deployment-model ''
           @ ''mismatch rather than a missing package'']
         else if registration \<noteq> PStr ''loaded''
         then [i @ '': service manager reports registration '' @ py_repr fr registration @ '', expected ''
           @ quoted ''loaded'']
         else []))"

definition judge_presence :: "(rat \<Rightarrow> string) \<Rightarrow> dict \<Rightarrow> string judged" where
  "judge_presence fr so =
     and_then (validate_node_reports (field_of so ''nodes'') ''IMEX service'') (\<lambda>nodes.
     (let in_scope = filter (\<lambda>n. field_of n ''in_nvlink_allocation'' = PBool True) nodes;
          failures = concat (map (presence_failures fr) in_scope);
          dispositions = sort (remdups (map (\<lambda>n. py_str fr (field_of n ''boot_disposition''))
            (filter (\<lambda>n. truthy (field_of n ''boot_disposition'')) in_scope)))
      in demand (in_scope \<noteq> []) (fails (''No nodes were asserted against: '' @ nat_str (length nodes)
           @ '' node(s) reported, none marked as part of a multi-node NVLink allocation. Scope is set by ''
           @ ''the allocation, so zero asserted nodes is a failure rather than a pass''))
        (demand (failures = []) (fails (''IMEX host-model checks failed on '' @ nat_str (length failures)
           @ '' count(s): '' @ join ''; '' failures))
        (Inr (''IMEX service and control tooling present and registered on all ''
           @ nat_str (length in_scope) @ '' in-scope node(s) of '' @ nat_str (length nodes) @ '' reported''
           @ (if dispositions = [] then [] else '' (boot disposition: '' @ join '', '' dispositions @ '')''))))))"

definition imex_presence_check :: "(rat \<Rightarrow> string) \<Rightarrow> check" where
  "imex_presence_check fr cfg v = with_output cfg v (\<lambda>so. concluded v (judge_presence fr so))"

section \<open>Recovery from a kill\<close>

text \<open>What both destructive checks ask of the restoration.\<close>

definition restored_after :: "(rat \<Rightarrow> string) \<Rightarrow> dict \<Rightarrow> string \<Rightarrow> (string \<Rightarrow> string) \<Rightarrow> string \<Rightarrow> pval judged" where
  "restored_after fr operations no_evidence wrong_state not_member =
     and_then (need_dict (field_of operations ''restore'') no_evidence) (\<lambda>restore.
     demand (restore \<noteq> []) (fails no_evidence)
     (demand (field_of restore ''restored_to'' = PStr ''active'')
        (fails (wrong_state (py_repr fr (field_of restore ''restored_to''))))
     (demand (field_of restore ''domain_member'' = PBool True) (fails not_member)
        (Inr (field_of restore ''restored_to'')))))"

definition judge_unaided :: "string \<Rightarrow> dict \<Rightarrow> unit judged" where
  "judge_unaided i presence =
     demand (field_of presence ''started_by_test'' = PBool False)
       (fails (i @ '': `started_by_test` must be reported false - this check observes a service that was ''
         @ ''already running and must never start it''))
     (demand (field_of presence ''running_on_arrival'' = PBool True)
       (fails (i @ '': IMEX was not running on arrival, which indicts provisioning. The service is expected ''
         @ ''to be running unaided; starting it here would invalidate the check rather than repair the node''))
     (demand (field_of presence ''domain_member'' = PBool True)
       (fails (i @ '': node was not an operational domain member on arrival, which indicts provisioning''))
     (demand (field_of presence ''boot_persistence_configured'' = PBool True)
       (fails (i @ '': IMEX is not configured to return after a node restart, which indicts the image''))
       (Inr ()))))"

definition judge_kill :: "(rat \<Rightarrow> string) \<Rightarrow> string \<Rightarrow> dict \<Rightarrow> unit judged" where
  "judge_kill fr i terminate =
     demand (field_of terminate ''method'' = PStr ''kill'')
       (fails (i @ '': termination method must be '' @ quoted ''kill'' @ '', got ''
         @ py_repr fr (field_of terminate ''method'') @ ''. A graceful stop ''
         @ ''is not a valid stimulus - a correct supervisor will not restart one''))
     (demand (field_of terminate ''confirmed'' = PBool True)
       (fails (i @ '': termination was not confirmed, so recovery cannot be attributed to it''))
       (Inr ()))"

text \<open>The elapsed time of an unassisted recovery that meets the configured bound.\<close>

definition judge_recovery :: "(rat \<Rightarrow> string) \<Rightarrow> dict \<Rightarrow> string \<Rightarrow> dict \<Rightarrow> string judged" where
  "judge_recovery fr cfg i recovery =
    (let elapsed = field_of recovery ''elapsed_seconds''; e = py_str fr elapsed
     in and_then (need_seconds elapsed (i
          @ '': `recovery.elapsed_seconds` must be a non-negative number, got '' @ py_repr fr elapsed)) (\<lambda>seconds.
     demand (field_of recovery ''operator_intervention'' = PBool False)
       (fails (i @ '': recovery required operator intervention after '' @ e
         @ ''s, so the node did not self-heal''))
     (demand (field_of recovery ''domain_member'' = PBool True)
       (fails (i @ '': node did not return to operational domain membership within '' @ e @ ''s after the ''
         @ ''daemon was killed, which indicts supervision''))
     (demand (\<not> beyond cfg ''recovery_timeout_seconds'' seconds)
       (fails (i @ '': node rejoined the domain but took '' @ e @ ''s, beyond the ''
         @ py_str fr (field_of cfg ''recovery_timeout_seconds'') @ ''s recovery bound''))
       (Inr e)))))"

definition judge_resilience :: "(rat \<Rightarrow> string) \<Rightarrow> dict \<Rightarrow> dict \<Rightarrow> string judged" where
  "judge_resilience fr cfg so =
     and_then (need_text (field_of so ''node_id'') ''`node_id` must be a non-empty string'') (\<lambda>i.
     and_then (need_dict (field_of so ''operations'')
       ''`operations` must be an object with unaided_presence, terminate and recovery'') (\<lambda>operations.
     and_then (need_dict (field_of operations ''unaided_presence'')
       ''`operations.unaided_presence` must be an object'') (\<lambda>presence.
     and_then (judge_unaided i presence) (\<lambda>_.
     and_then (need_dict (field_of operations ''terminate'')
       ''`operations.terminate` must be an object'') (\<lambda>terminate.
     and_then (judge_kill fr i terminate) (\<lambda>_.
     and_then (need_dict (field_of operations ''recovery'')
       ''`operations.recovery` must be an object'') (\<lambda>recovery.
     and_then (judge_recovery fr cfg i recovery) (\<lambda>e.
     and_then (restored_after fr operations
       (i @ '': the node self-healed, but the run reported no restoration evidence, so it cannot be ''
         @ ''shown the node was left available after this destructive check'')
       (\<lambda>r. i @ '': the node self-healed, but restoration left the service '' @ r
         @ '' rather than active, so this destructive check would leave the node unavailable'')
       (i @ '': the node self-healed, but after restoration it is not an operational domain ''
         @ ''member, so this destructive check would leave the node unavailable'')) (\<lambda>restored.
     Inr (i @ '': IMEX was running unaided and an operational domain member, is configured to persist ''
       @ ''across restart, and rejoined the domain '' @ e @ ''s after being killed; restored to ''
       @ py_str fr restored))))))))))"

definition imex_resilience_check :: "(rat \<Rightarrow> string) \<Rightarrow> check" where
  "imex_resilience_check fr cfg v = with_output cfg v (\<lambda>so. concluded v (judge_resilience fr cfg so))"

section \<open>Departure of a node\<close>

definition REPORTED_STATES :: "string list" where
  "REPORTED_STATES = [''available'', ''unavailable'', ''unknown'']"

text \<open>\<open>v in frozenset\<close>, which hashes \<open>v\<close>.\<close>

definition in_states :: "pval \<Rightarrow> string list \<Rightarrow> bool judged" where
  "in_states v states = (case key_of v of
     Inl e \<Rightarrow> Inl (Inl e) | Inr _ \<Rightarrow> Inr (v \<in> PStr ` set states))"

definition judge_stop :: "string \<Rightarrow> dict \<Rightarrow> unit judged" where
  "judge_stop target stop =
     demand (field_of stop ''requested'' = PBool True)
       (fails (target @ '': a deliberate stop was never requested, so there is no departure to observe''))
     (demand (field_of stop ''clean_exit'' = PBool True)
       (fails (target @ '': the service did not shut down cleanly when stopped through the node service manager''))
       (Inr ()))"

text \<open>The surviving member that observed the departure, and after how long.\<close>

definition judge_convergence ::
  "(rat \<Rightarrow> string) \<Rightarrow> dict \<Rightarrow> string \<Rightarrow> dict \<Rightarrow> (string \<times> string) judged" where
  "judge_convergence fr cfg target convergence =
    (let elapsed = field_of convergence ''elapsed_seconds''; e = py_str fr elapsed;
         reported = field_of convergence ''target_reported''
     in and_then (need_text (field_of convergence ''observed_from'')
       ''`peer_convergence.observed_from` must name the surviving node that observed the departure'') (\<lambda>witness.
     and_then (need_seconds elapsed (target
       @ '': `peer_convergence.elapsed_seconds` must be a non-negative number, got ''
       @ py_repr fr elapsed)) (\<lambda>seconds.
     and_then (in_states reported REPORTED_STATES) (\<lambda>known.
     demand known (fails (target @ '': `peer_convergence.target_reported` must be one of ''
       @ strings_repr fr (sort REPORTED_STATES) @ '', got '' @ py_repr fr reported))
     (demand (reported = PStr ''unavailable'')
       (fails (target @ '': after a deliberate stop, surviving member '' @ witness @ '' ''
         @ (if reported = PStr ''available'' then ''still reports it as available''
            else ''cannot say whether it is available'') @ '' after '' @ e
         @ ''s - the departure went unnoticed, which is stale membership rather than a fragile domain''))
     (demand (field_of convergence ''surviving_members_operational'' = PBool True)
       (fails (target @ '': surviving member '' @ witness @ '' noticed the departure after '' @ e
         @ ''s, but the domain stopped being operational among the remaining members - removing one ''
         @ ''node collapsed the domain rather than degrading it''))
     (demand (\<not> beyond cfg ''convergence_timeout_seconds'' seconds)
       (fails (target @ '': surviving member '' @ witness
         @ '' did notice the departure, but only after '' @ e @ ''s, beyond the ''
         @ py_str fr (field_of cfg ''convergence_timeout_seconds'') @ ''s convergence bound''))
       (Inr (witness, e)))))))))"

definition judge_departure :: "(rat \<Rightarrow> string) \<Rightarrow> dict \<Rightarrow> dict \<Rightarrow> string judged" where
  "judge_departure fr cfg so =
     and_then (need_text (field_of so ''target_node'') ''`target_node` must be a non-empty string'') (\<lambda>target.
     and_then (need_dict (field_of so ''operations'')
       ''`operations` must be an object with stop, peer_convergence and restore'') (\<lambda>operations.
     and_then (need_dict (field_of operations ''stop'') ''`operations.stop` must be an object'') (\<lambda>stop.
     and_then (judge_stop target stop) (\<lambda>_.
     and_then (need_dict (field_of operations ''peer_convergence'')
       ''`operations.peer_convergence` must be an object'') (\<lambda>convergence.
     and_then (judge_convergence fr cfg target convergence) (\<lambda>(witness, e).
     and_then (restored_after fr operations
       (target @ '': peers converged, but the run reported no restoration evidence, so it cannot be shown ''
         @ ''the domain was put back after this destructive check'')
       (\<lambda>r. target @ '': peers converged, but restoration left the service '' @ r
         @ '' rather than active, so the domain is still a member short'')
       (target @ '': peers converged, but after restoration the node is not an operational domain member, ''
         @ ''so the domain is still a member short'')) (\<lambda>restored.
     Inr (target @ '' was stopped cleanly and surviving member '' @ witness
       @ '' reported it unavailable after '' @ e
       @ ''s, with the domain still operational among the survivors; node restored to ''
       @ py_str fr restored))))))))"

definition imex_departure_check :: "(rat \<Rightarrow> string) \<Rightarrow> check" where
  "imex_departure_check fr cfg v = with_output cfg v (\<lambda>so. concluded v (judge_departure fr cfg so))"

section \<open>Return after a reboot\<close>

definition judge_rejoin :: "(rat \<Rightarrow> string) \<Rightarrow> dict \<Rightarrow> dict \<Rightarrow> string judged" where
  "judge_rejoin fr cfg so =
     and_then (need_text (field_of so ''node_id'') ''`node_id` must be a non-empty string'') (\<lambda>i.
     demand (field_of so ''reboot_confirmed'' = PBool True)
       (fails (i @ '': the reboot was not affirmatively confirmed. Uptime must be shown to have gone ''
         @ ''backwards across it - reachability is not evidence, since a node that never rebooted is ''
         @ ''reachable too''))
     (let uptime = field_of so ''uptime_seconds''
      in and_then (need_seconds uptime (i
        @ '': `uptime_seconds` must be a non-negative number, got '' @ py_repr fr uptime)) (\<lambda>_.
     and_then (need_dict (field_of so ''post_reboot'')
       ''`post_reboot` must be an object with service_ready, domain_member and elapsed_seconds'') (\<lambda>post.
     (let elapsed = field_of post ''elapsed_seconds''; e = py_str fr elapsed
      in and_then (need_seconds elapsed (i
        @ '': `post_reboot.elapsed_seconds` must be a non-negative number, got '' @ py_repr fr elapsed)) (\<lambda>seconds.
     demand (field_of post ''intervention_required'' = PBool False)
       (fails (i @ '': IMEX needed intervention to come back after the reboot ('' @ e
         @ ''s elapsed), so it did not return to service unassisted''))
     (demand (field_of so ''persistence_configured'' = PBool True)
       (fails (i @ '': IMEX is not configured to start at boot, which fails this check by design - ''
         @ ''shipping it enabled is the provider obligation being verified by rebooting''))
     (demand (field_of post ''service_ready'' = PBool True)
       (fails (i @ '': IMEX did not come back after the reboot within '' @ e @ ''s''))
     (demand (field_of post ''domain_member'' = PBool True)
       (fails (i @ '': IMEX came back after the reboot but had not rejoined its domain after '' @ e @ ''s''))
     (demand (\<not> beyond cfg ''rejoin_timeout_seconds'' seconds)
       (fails (i @ '': IMEX rejoined its domain, but only after '' @ e @ ''s, beyond the ''
         @ py_str fr (field_of cfg ''rejoin_timeout_seconds'') @ ''s bound''))
     (Inr (i @ '' rebooted (uptime '' @ py_str fr uptime
       @ ''s) and IMEX returned to service and rejoined its domain unassisted after '' @ e @ ''s''))))))))))))"

definition imex_rejoin_check :: "(rat \<Rightarrow> string) \<Rightarrow> check" where
  "imex_rejoin_check fr cfg v = with_output cfg v (\<lambda>so. concluded v (judge_rejoin fr cfg so))"

section \<open>A connected domain\<close>

text \<open>A member's own report lists the other node as a reachable peer.\<close>

definition lists_peer :: "dict \<Rightarrow> string \<Rightarrow> bool" where
  "lists_peer node b = (case field_of node ''peers_reachable'' of PList ps \<Rightarrow> PStr b \<in> set ps | _ \<Rightarrow> False)"

definition sees :: "dict list \<Rightarrow> string \<Rightarrow> string \<Rightarrow> bool" where
  "sees nodes a b = list_ex (\<lambda>n. field_of n ''domain_member'' = PBool True
     \<and> text_of n ''node_id'' = a \<and> lists_peer n b) nodes"

lemma peers_of_sound:
  "peers_of nodes acc = Inr peers \<Longrightarrow> PStr b \<in> set (dgetd peers a [])
   \<Longrightarrow> sees nodes a b \<or> PStr b \<in> set (dgetd acc a [])"
proof (induction nodes acc rule: peers_of.induct)
  case (2 node nodes acc)
  show ?case
  proof (cases "field_of node ''domain_member'' = PBool True")
    case True
    then obtain ps where "field_of node ''peers_reachable'' = PList ps"
        and "peers_of nodes (dput acc (text_of node ''node_id'') ps) = Inr peers"
      using 2 by (auto split: pval.splits)
    moreover from this have "sees nodes a b \<or> PStr b \<in> set (dgetd (dput acc (text_of node ''node_id'') ps) a [])"
      using 2 True by blast
    ultimately show ?thesis using True
      by (auto simp: sees_def lists_peer_def dgetd_def split: if_splits option.splits)
  qed (use 2 in \<open>auto simp: sees_def\<close>)
qed simp

lemma pair_fault_none:
  "pair_fault peers a b = [] \<longleftrightarrow> PStr b \<in> set (dgetd peers a []) \<and> PStr a \<in> set (dgetd peers b [])"
  by (simp add: pair_fault_def Let_def)

lemma pair_faults_none:
  "pair_faults peers ms = [] \<Longrightarrow> a \<in> set ms \<Longrightarrow> b \<in> set ms \<Longrightarrow> a \<noteq> b \<Longrightarrow> PStr b \<in> set (dgetd peers a [])"
  by (induction ms) (auto simp: pair_fault_none)

definition connected_domain :: "dict \<Rightarrow> string list \<Rightarrow> dict list \<Rightarrow> bool" where
  "connected_domain domain ms nodes =
    (is_up (field_of domain ''state'')
     \<and> field_of domain ''expected_members'' = PList (map PStr ms)
     \<and> distinct ms \<and> 2 \<le> length ms
     \<and> distinct (domain_members nodes) \<and> set (domain_members nodes) = set ms
     \<and> (\<forall>a \<in> set ms. \<forall>b \<in> set ms. a \<noteq> b \<longrightarrow> sees nodes a b))"

lemma texts_are_strings: "list_all is_text xs \<Longrightarrow> xs = map PStr [s. PStr s \<leftarrow> xs]"
  by (induction xs) (auto simp: is_text_def split: pval.splits)

lemma string_list_ok:
  assumes "validate_string_list v k = None"
  obtains ms where "v = PList (map PStr ms)"
proof -
  obtain xs where "v = PList xs" "list_all is_text xs"
    using assms by (auto simp: validate_string_list_def split: pval.splits list.splits if_splits)
  then show ?thesis using texts_are_strings that by blast
qed

lemma reports_are_dicts: "first_error report_error n xs = None \<Longrightarrow> xs = map PDict [d. PDict d \<leftarrow> xs]"
  by (induction xs arbitrary: n) (auto simp: report_error_def split: pval.splits option.splits if_splits)

lemma node_reports_ok: "validate_node_reports v kind = Inr nodes \<Longrightarrow> v = PList (map PDict nodes)"
  using reports_are_dicts by (fastforce simp: validate_node_reports_def split: pval.splits option.splits)

lemma need_dict_Inr: "need_dict v m = Inr d \<longleftrightarrow> v = PDict d"
  by (auto simp: need_dict_def split: pval.splits)

lemma texts_of_map [simp]: "[s. PStr s \<leftarrow> map PStr ms] = ms"
  by (induction ms) simp_all

lemma judge_connected_sound:
  assumes "judge_connected fr i ms nodes = Inr m" "a \<in> set ms" "b \<in> set ms" "a \<noteq> b"
  shows "sees nodes a b"
proof -
  obtain peers where p: "peers_of nodes [] = Inr peers" and "pair_faults peers (sort (domain_members nodes)) = []"
      and "set ms = set (domain_members nodes)"
    using assms(1) by (auto simp: judge_connected_def Let_def demand_Inr and_then_Inr split: sum.splits if_splits)
  then have "PStr b \<in> set (dgetd peers a [])"
    using assms by (auto intro: pair_faults_none)
  then show ?thesis using peers_of_sound [OF p] by (auto simp: dgetd_def)
qed

lemma judge_expected_sound:
  assumes "judge_expected fr so i ms = Inr m"
  obtains nodes where "field_of so ''nodes'' = PList (map PDict nodes)"
    and "distinct ms" "2 \<le> length ms"
    and "distinct (domain_members nodes)" "set (domain_members nodes) = set ms"
    and "\<forall>a \<in> set ms. \<forall>b \<in> set ms. a \<noteq> b \<longrightarrow> sees nodes a b"
proof -
  obtain nodes where n: "validate_node_reports (field_of so ''nodes'') ''domain'' = Inr nodes"
      and j: "judge_connected fr i ms nodes = Inr m" and "distinct ms" "2 \<le> length ms"
    using assms by (auto simp: judge_expected_def demand_Inr and_then_Inr)
  moreover from j have "distinct (domain_members nodes)" "set (domain_members nodes) = set ms"
    by (auto simp: judge_connected_def Let_def split: if_splits)
  ultimately show ?thesis using that node_reports_ok [OF n] judge_connected_sound [OF j] by blast
qed

lemma judge_domain_sound:
  assumes "judge_domain fr so = Inr m"
  shows "\<exists>domain ms nodes. field_of so ''domain'' = PDict domain
    \<and> field_of so ''nodes'' = PList (map PDict nodes) \<and> connected_domain domain ms nodes"
proof -
  obtain domain i where d: "field_of so ''domain'' = PDict domain" and up: "is_up (field_of domain ''state'')"
      and ok: "validate_string_list (field_of domain ''expected_members'') ''expected_members'' = None"
      and e: "judge_expected fr so i (case field_of domain ''expected_members'' of
          PList ms \<Rightarrow> [s. PStr s \<leftarrow> ms] | _ \<Rightarrow> []) = Inr m"
    using assms by (auto simp: judge_domain_def and_then_Inr demand_Inr need_dict_Inr split: option.splits)
  obtain ms where ms: "field_of domain ''expected_members'' = PList (map PStr ms)"
    using string_list_ok [OF ok] .
  then have "judge_expected fr so i ms = Inr m" using e by (simp add: comp_def)
  then obtain nodes where "field_of so ''nodes'' = PList (map PDict nodes)" "connected_domain domain ms nodes"
    using up ms by (auto simp: connected_domain_def elim!: judge_expected_sound)
  then show ?thesis using d by blast
qed

text \<open>The IMEX domain check passes only on a domain that is up, whose expected members (at least
  two, no duplicates) are exactly the nodes that report membership, and in which every member's own
  report lists every other member as a reachable peer: a one-way fault never passes.\<close>

theorem imex_domain_connected:
  assumes "passes (imex_domain_check fr) cfg"
  shows "\<exists>so domain ms nodes. cget cfg ''step_output'' (PDict []) = PDict so
    \<and> field_of so ''domain'' = PDict domain \<and> field_of so ''nodes'' = PList (map PDict nodes)
    \<and> connected_domain domain ms nodes"
proof -
  obtain so m where "cget cfg ''step_output'' (PDict []) = PDict so" "judge_domain fr so = Inr m"
    using assms by (auto simp: passes_iff imex_domain_check_def went_well_with_output split: pval.splits)
  then show ?thesis using judge_domain_sound by blast
qed

definition demo_domain_config :: dict where
  "demo_domain_config = [(KStr ''step_output'', PDict
    [(KStr ''domain'', PDict [(KStr ''domain_id'', PStr ''d1''), (KStr ''state'', PStr ''UP''),
        (KStr ''expected_members'', PList [PStr ''n2'', PStr ''n1''])]),
     (KStr ''nodes'', PList
       [PDict [(KStr ''node_id'', PStr ''n1''), (KStr ''domain_member'', PBool True),
          (KStr ''peers_reachable'', PList [PStr ''n2''])],
        PDict [(KStr ''node_id'', PStr ''n3''), (KStr ''domain_member'', PBool False)],
        PDict [(KStr ''node_id'', PStr ''n2''), (KStr ''domain_member'', PBool True),
          (KStr ''peers_reachable'', PList [PStr ''n1'', PInt 7])]])])]"

lemma imex_domain_connected_witness:
  "\<exists>so domain ms nodes. cget demo_domain_config ''step_output'' (PDict []) = PDict so
    \<and> field_of so ''domain'' = PDict domain \<and> field_of so ''nodes'' = PList (map PDict nodes)
    \<and> connected_domain domain ms nodes"
proof (rule imex_domain_connected [where fr = "\<lambda>r. ''x''"])
  show "passes (imex_domain_check (\<lambda>r. ''x'')) demo_domain_config" by code_simp
qed

end
