(* ===== verification/Fleet_Evidence.thy ===== *)
theory Fleet_Evidence
  imports Imex_Evidence
begin

text \<open>
  The checks of \<open>isvtest.validations.capacity\<close> and \<open>sanitization\<close>: reservations, topology blocks and
  the gate between tenants. The classes of the gate share one \<open>run\<close>; they are values of the record
  \<open>sanitization_class\<close>, whose fields are the class attributes.
\<close>

section \<open>Shared\<close>

definition step_failed :: "(rat \<Rightarrow> string) \<Rightarrow> string \<Rightarrow> dict \<Rightarrow> string" where
  "step_failed fr what so = what @ '' step failed: '' @ py_str fr (cget so ''error'' (PStr ''Unknown error''))"

text \<open>The elements of a Python set of values: equal values count once, and each must have a hash.\<close>

fun distinct_values :: "pval list \<Rightarrow> pval list \<Rightarrow> exn + pval list" where
  "distinct_values [] seen = Inr seen"
| "distinct_values (v # vs) seen = (case key_of v of
     Inl e \<Rightarrow> Inl e
   | Inr _ \<Rightarrow> distinct_values vs (if list_ex (py_eq v) seen then seen else seen @ [v]))"

definition non_negative_int :: "pval \<Rightarrow> int option" where
  "non_negative_int v = (case v of PInt i \<Rightarrow> (if 0 \<le> i then Some i else None) | _ \<Rightarrow> None)"

fun numbered :: "nat \<Rightarrow> 'a list \<Rightarrow> (nat \<times> 'a) list" where
  "numbered n [] = []"
| "numbered n (x # xs) = (n, x) # numbered (Suc n) xs"

definition dicts_of :: "pval list \<Rightarrow> dict list" where
  "dicts_of vs = [d. PDict d \<leftarrow> vs]"

section \<open>Capacity reservations\<close>

fun account_ids :: "(nat \<times> pval) list \<Rightarrow> string list judged" where
  "account_ids [] = Inr []"
| "account_ids ((n, v) # vs) =
     and_then (need_dict v (''resources['' @ nat_str n @ ''] must be an object'')) (\<lambda>d.
     demand (is_text (field_of d ''account_id''))
       (fails (''resources['' @ nat_str n @ ''].account_id must be a non-empty string''))
     (and_then (account_ids vs) (\<lambda>ids. Inr (text_of d ''account_id'' # ids))))"

fun pinned_resources :: "(rat \<Rightarrow> string) \<Rightarrow> (nat \<times> pval) list \<Rightarrow> unit judged" where
  "pinned_resources fr [] = Inr ()"
| "pinned_resources fr ((n, v) # vs) =
     and_then (need_dict v (''resources['' @ nat_str n @ ''] must be an object'')) (\<lambda>d.
     demand (field_of d ''pinned'' = PBool True) (fails (''Grouped resource ''
       @ py_repr fr (cget d ''resource_id'' (PStr (''resources['' @ nat_str n @ '']''))) @ '' must be pinned''))
     (pinned_resources fr vs))"

definition judge_grouping :: "(rat \<Rightarrow> string) \<Rightarrow> dict \<Rightarrow> string \<Rightarrow> string \<Rightarrow> int \<Rightarrow> string judged" where
  "judge_grouping fr so reservation account min_resources =
    (case cget so ''resources'' (PList []) of
       PList resources \<Rightarrow>
         demand (min_resources \<le> int (length resources)) (fails (''Only '' @ nat_str (length resources)
           @ '' grouped resource(s), minimum '' @ int_str min_resources @ '' required''))
        (and_then (account_ids (numbered 0 resources)) (\<lambda>ids.
        (let unexpected = sorted_set (filter (\<lambda>a. a \<noteq> account) ids)
         in demand (unexpected = []) (fails (''Grouped resources must use account_id '' @ repr_str account
              @ ''; found '' @ join '', '' unexpected))
           (demand (field_of so ''pinned'' = PBool True) (fails ''Capacity reservation must be pinned'')
           (and_then (pinned_resources fr (numbered 0 resources)) (\<lambda>_.
            demand (field_of so ''isolation_enforced'' = PBool True)
              (fails ''Capacity reservation isolation_enforced must be true'')
              (Inr (''Capacity reservation '' @ reservation @ '' groups '' @ nat_str (length resources)
                @ '' resource(s) pinned to account '' @ account))))))))
     | _ \<Rightarrow> Inl (fails ''resources must be a list''))"

definition capacity_grouping_check :: "(rat \<Rightarrow> string) \<Rightarrow> check" where
  "capacity_grouping_check fr cfg v = (case cget cfg ''step_output'' (PDict []) of
     PDict so \<Rightarrow>
      (if field_of so ''success'' \<noteq> PBool True
       then failed v (''Capacity reservation grouping step failed: '' @ py_str fr (py_or (field_of so ''error'')
         (py_or (field_of so ''error_type'') (PStr ''step reported failure''))))
       else if \<not> is_text (field_of so ''reservation_id'') then failed v ''Missing non-empty reservation_id in step output''
       else if \<not> is_text (field_of so ''account_id'') then failed v ''Missing non-empty account_id in step output''
       else (case parse_positive_int fr cfg ''min_resources'' 1 v of
           (None, v') \<Rightarrow> Finished v'
         | (Some n, v') \<Rightarrow> concluded v'
             (judge_grouping fr so (text_of so ''reservation_id'') (text_of so ''account_id'') n)))
   | _ \<Rightarrow> failed v ''step_output must be an object'')"

section \<open>Topology blocks\<close>

definition COUNT_FIELDS :: "string list" where
  "COUNT_FIELDS = [''compute'', ''network'', ''storage'']"

definition RESOURCE_FIELDS :: "string list" where
  "RESOURCE_FIELDS = [''resource_id'', ''resource_type'', ''tenant_id'', ''topology_block_id'',
     ''performance_domain'', ''isolation_boundary'']"

definition resource_label :: "dict \<Rightarrow> string" where
  "resource_label d = (case field_of d ''resource_id'' of PStr s \<Rightarrow> (if s \<noteq> [] then s else ''<unknown>'')
     | _ \<Rightarrow> ''<unknown>'')"

definition records_of :: "dict list \<Rightarrow> string \<Rightarrow> int" where
  "records_of resources name =
     int (length (filter (\<lambda>d. field_of d ''resource_type'' = PStr name) resources))"

definition count_failures :: "dict \<Rightarrow> dict \<Rightarrow> dict list \<Rightarrow> string \<Rightarrow> string list" where
  "count_failures requested allocated resources name =
    (case non_negative_int (cget requested name (PInt 0)) of
       None \<Rightarrow> [''requested '' @ name @ '' must be a non-negative integer'']
     | Some req \<Rightarrow> (case non_negative_int (cget allocated name (PInt 0)) of
         None \<Rightarrow> [''allocated '' @ name @ '' must be a non-negative integer'']
       | Some got \<Rightarrow>
           (if got \<noteq> req then [''allocated '' @ name @ '' '' @ int_str got @ '' != requested '' @ name @ '' ''
             @ int_str req] else [])
         @ (if got \<noteq> records_of resources name then [''allocated '' @ name @ '' '' @ int_str got
             @ '' != resource records '' @ int_str (records_of resources name)] else [])))"

definition validate_counts :: "pval \<Rightarrow> pval \<Rightarrow> dict list \<Rightarrow> string list" where
  "validate_counts requested allocated resources = (case (requested, allocated) of
     (PDict r, PDict a) \<Rightarrow> concat (map (count_failures r a resources) COUNT_FIELDS)
   | _ \<Rightarrow> [''topology_block.requested and topology_block.allocated must be objects''])"

definition member_failures :: "(rat \<Rightarrow> string) \<Rightarrow> pval \<Rightarrow> pval \<Rightarrow> dict \<Rightarrow> string list" where
  "member_failures fr block_id tenant_id d =
    (let label = resource_label d
     in map (\<lambda>k. label @ '' missing non-empty '' @ k) (filter (\<lambda>k. \<not> is_text (field_of d k)) RESOURCE_FIELDS)
      @ (if \<not> py_eq (field_of d ''tenant_id'') tenant_id then [label @ '' tenant_id ''
          @ py_str fr (field_of d ''tenant_id'') @ '' != '' @ py_str fr tenant_id] else [])
      @ (if \<not> py_eq (field_of d ''topology_block_id'') block_id then [label @ '' topology_block_id ''
          @ py_str fr (field_of d ''topology_block_id'') @ '' != '' @ py_str fr block_id] else []))"

definition id_failures :: "dict \<Rightarrow> string list" where
  "id_failures block = map (\<lambda>k. ''topology_block.'' @ k @ '' must be a non-empty string'')
     (filter (\<lambda>k. \<not> is_text (field_of block k)) [''block_id'', ''tenant_id'', ''reservation_id''])"

definition atomic_block :: "dict \<Rightarrow> bool" where
  "atomic_block block \<longleftrightarrow> field_of block ''allocated_as_unit'' = PBool True
     \<and> field_of block ''partial_allocation'' = PBool False"

text \<open>A required flag and exactly one value over all resources.\<close>

definition uniform_failures :: "(rat \<Rightarrow> string) \<Rightarrow> dict \<Rightarrow> string \<Rightarrow> string \<Rightarrow> pval list \<Rightarrow> string list" where
  "uniform_failures fr block flag what found =
     (if field_of block flag \<noteq> PBool True then [''topology_block.'' @ flag @ '' must be true''] else [])
   @ (if length found \<noteq> 1 then [''multiple '' @ what @ '' in topology block: ''
       @ strings_repr fr (sort (map (py_str fr) found))] else [])"

definition uniform :: "dict \<Rightarrow> string \<Rightarrow> pval list \<Rightarrow> bool" where
  "uniform block flag found \<longleftrightarrow> field_of block flag = PBool True \<and> length found = 1"

definition judged_as :: "verdict \<Rightarrow> string \<Rightarrow> bool \<Rightarrow> string \<Rightarrow> string \<Rightarrow> verdict" where
  "judged_as v name ok good bad = report_subtest v name ok (if ok then good else bad) False"

definition judge_block :: "(rat \<Rightarrow> string) \<Rightarrow> dict \<Rightarrow> dict list \<Rightarrow> verdict \<Rightarrow> ran" where
  "judge_block fr block resources v =
    (let block_id = field_of block ''block_id''; tenant_id = field_of block ''tenant_id'';
         atomic = atomic_block block;
         v1 = judged_as v ''atomic_allocation'' atomic ''block allocated as one unit'' ''block reported partial allocation'';
         counts = validate_counts (field_of block ''requested'') (field_of block ''allocated'') resources;
         v2 = judged_as v1 ''requested_counts'' (counts = []) ''allocated counts match requested counts and resource records''
           ''allocated counts do not match requested counts or resource records'';
         members = concat (map (member_failures fr block_id tenant_id) resources);
         v3 = judged_as v2 ''resource_membership'' (members = [])
           ''all resources belong to the same tenant and topology block''
           ''resources span multiple tenants or topology blocks''
     in case distinct_values (map (\<lambda>d. field_of d ''performance_domain'') resources) [] of
          Inl e \<Rightarrow> ExnRaised e v3
        | Inr domains \<Rightarrow>
           (let v4 = judged_as v3 ''performance_homogeneity'' (uniform block ''homogeneous'' domains)
              ''one performance domain across resources'' ''multiple performance domains across resources''
            in case distinct_values (map (\<lambda>d. field_of d ''isolation_boundary'') resources) [] of
                 Inl e \<Rightarrow> ExnRaised e v4
               | Inr boundaries \<Rightarrow>
                  (let v5 = judged_as v4 ''isolation_boundary'' (uniform block ''isolation_enforced'' boundaries)
                     ''one isolation boundary across resources'' ''multiple isolation boundaries across resources'';
                       failures = id_failures block
                         @ (if atomic then [] else [''topology block reported partial allocation''])
                         @ counts @ members
                         @ uniform_failures fr block ''homogeneous'' ''performance domains'' domains
                         @ uniform_failures fr block ''isolation_enforced'' ''isolation boundaries'' boundaries
                   in if failures \<noteq> []
                      then failed v5 (''Capacity topology block invariants violated: '' @ join ''; '' failures)
                      else passed v5 (''Validated atomic topology block '' @ py_str fr block_id @ '' for tenant ''
                        @ py_str fr tenant_id @ '' with '' @ nat_str (length resources) @ '' resource(s)''))))"

definition topology_block_check :: "(rat \<Rightarrow> string) \<Rightarrow> check" where
  "topology_block_check fr cfg v = (case cget cfg ''step_output'' (PDict []) of
     PDict so \<Rightarrow>
      (if \<not> truthy (field_of so ''success'') then failed v (step_failed fr ''Capacity topology block'' so)
       else (case field_of so ''topology_block'' of
         PDict block \<Rightarrow> (case parse_positive_int fr cfg ''min_resources'' 1 v of
             (None, v') \<Rightarrow> Finished v'
           | (Some n, v') \<Rightarrow> (case field_of block ''resources'' of
               PList rs \<Rightarrow>
                (if \<not> list_all is_dict rs then failed v' ''topology_block.resources must be a list of objects''
                 else if int (length rs) < n
                 then failed v' (''Expected at least '' @ int_str n @ '' topology block resource(s), got ''
                   @ nat_str (length rs))
                 else judge_block fr block (dicts_of rs) v')
             | _ \<Rightarrow> failed v' ''topology_block.resources must be a list of objects''))
       | _ \<Rightarrow> failed v (''Capacity step output is missing the '' @ quoted ''topology_block'' @ '' object'')))
   | _ \<Rightarrow> failed v ''step_output must be an object'')"

section \<open>Sanitization between tenants\<close>

definition machine_label :: "dict \<Rightarrow> pval" where
  "machine_label d = py_or (field_of d ''machine_id'') (PStr ''unknown'')"

definition evaluate_sanitization :: "(rat \<Rightarrow> string) \<Rightarrow> dict \<Rightarrow> exn + bool \<times> string" where
  "evaluate_sanitization fr d =
    (let label = py_str fr (machine_label d)
     in if \<not> truthy (field_of d ''served_tenant'')
        then Inr (True, label @ '': no prior tenancy to sanitize (status ''
          @ py_str fr (cget d ''status'' (PStr ''unknown'')) @ '')'')
        else if truthy (field_of d ''stale_tenant_binding'')
        then Inr (False, label @ '': available to new tenants while still bound to a prior tenant'')
        else if \<not> truthy (field_of d ''sanitized'')
        then (case py_iter (py_or (field_of d ''transitions'') (PList [])) of
            Inl e \<Rightarrow> Inl e
          | Inr ts \<Rightarrow> (let transitions = join '' -> '' (map (py_str fr) ts)
              in Inr (False, label @ '': returned to the pool without sanitization (transitions: ''
                @ (if transitions = [] then ''<none recorded>'' else transitions) @ '')'')))
        else Inr (True, label @ '': sanitized between tenancies''))"

text \<open>The attributes of the classes that share the \<open>run\<close>; \<open>sc_breakfix\<close> says that the class overrides
  the hooks as \<open>SkipSanitizationBreakfixCheck\<close> does.\<close>

record sanitization_class =
  sc_gpu_only :: bool
  sc_prefix :: string
  sc_subject :: string
  sc_breakfix :: bool

definition breakfix_class :: sanitization_class where
  "breakfix_class = \<lparr>sc_gpu_only = False, sc_prefix = ''tenant_transition'',
     sc_subject = ''Break/fix skip-sanitization policy'', sc_breakfix = True\<rparr>"

definition memory_class :: sanitization_class where
  "memory_class = \<lparr>sc_gpu_only = False, sc_prefix = ''memory'',
     sc_subject = ''Host memory sanitization'', sc_breakfix = False\<rparr>"

definition gpu_memory_class :: sanitization_class where
  "gpu_memory_class = \<lparr>sc_gpu_only = True, sc_prefix = ''gpu_memory'',
     sc_subject = ''GPU memory sanitization'', sc_breakfix = False\<rparr>"


definition disk_class :: sanitization_class where
  "disk_class = \<lparr>sc_gpu_only = False, sc_prefix = ''disk'',
     sc_subject = ''Storage sanitization'', sc_breakfix = False\<rparr>"

text \<open>The variables of the loop over the machines: the subtests so far, the keys of \<open>failed\<close>, \<open>served\<close>
  and \<open>_breakfix_events\<close>.\<close>

record audit =
  au_verdict :: verdict
  au_failed :: "pval list"
  au_served :: nat
  au_events :: nat

type_synonym audited = "(exn \<times> verdict) + audit"

definition blame :: "pval \<Rightarrow> audit \<Rightarrow> audited" where
  "blame label a = (case key_of label of
     Inl e \<Rightarrow> Inl (e, au_verdict a)
   | Inr _ \<Rightarrow> Inr (if list_ex (py_eq label) (au_failed a) then a
       else a\<lparr>au_failed := au_failed a @ [label]\<rparr>))"

definition audit_subtest :: "string \<Rightarrow> bool \<Rightarrow> string \<Rightarrow> audit \<Rightarrow> audit" where
  "audit_subtest name ok m a = a\<lparr>au_verdict := report_subtest (au_verdict a) name ok m False\<rparr>"

text \<open>Whether the hook returns a reason.\<close>

definition extra_machine_failure ::
  "(rat \<Rightarrow> string) \<Rightarrow> sanitization_class \<Rightarrow> dict \<Rightarrow> audit \<Rightarrow> bool \<times> audit" where
  "extra_machine_failure fr c d a =
    (if \<not> sc_breakfix c \<or> \<not> truthy (field_of d ''breakfix_skip_observed'') then (False, a)
     else (let label = py_str fr (machine_label d); a1 = a\<lparr>au_events := Suc (au_events a)\<rparr>;
               name = ''breakfix_skip_'' @ label
           in if truthy (field_of d ''tenancy_preserved'')
              then (False, audit_subtest name True (label @ '': tenancy-preserving maintenance skip observed'') a1)
              else (True, audit_subtest name False
                (label @ '': maintenance skip observed but tenancy was not preserved'') a1)))"

definition judge_machine ::
  "(rat \<Rightarrow> string) \<Rightarrow> sanitization_class \<Rightarrow> dict \<Rightarrow> audit \<Rightarrow> audited" where
  "judge_machine fr c d a =
    (let a1 = (if truthy (field_of d ''served_tenant'') then a\<lparr>au_served := Suc (au_served a)\<rparr> else a);
         label = machine_label d
     in case evaluate_sanitization fr d of
          Inl e \<Rightarrow> Inl (e, au_verdict a1)
        | Inr (ok, m) \<Rightarrow>
           (let a2 = audit_subtest (sc_prefix c @ ''_'' @ py_str fr label) ok m a1
            in if \<not> ok then blame label a2
               else (case extra_machine_failure fr c d a2 of
                   (reason, a3) \<Rightarrow> if reason then blame label a3 else Inr a3)))"

fun judge_machines ::
  "(rat \<Rightarrow> string) \<Rightarrow> sanitization_class \<Rightarrow> pval list \<Rightarrow> audit \<Rightarrow> audited" where
  "judge_machines fr c [] a = Inr a"
| "judge_machines fr c (m # ms) a = (case m of
     PDict d \<Rightarrow> (case judge_machine fr c d a of Inl e \<Rightarrow> Inl e | Inr a' \<Rightarrow> judge_machines fr c ms a')
   | _ \<Rightarrow> Inl (NoAttribute m ''get'', au_verdict a))"

fun gpu_machines :: "pval list \<Rightarrow> exn + pval list" where
  "gpu_machines [] = Inr []"
| "gpu_machines (m # ms) = (case m of
     PDict d \<Rightarrow> (case gpu_machines ms of Inl e \<Rightarrow> Inl e
       | Inr ds \<Rightarrow> Inr (if truthy (field_of d ''has_gpu'') then m # ds else ds))
   | _ \<Rightarrow> Inl (NoAttribute m ''get''))"

definition select_machines :: "sanitization_class \<Rightarrow> pval list \<Rightarrow> exn + pval list" where
  "select_machines c machines = (if sc_gpu_only c then gpu_machines machines else Inr machines)"

definition passed_summary :: "sanitization_class \<Rightarrow> nat \<Rightarrow> audit \<Rightarrow> string" where
  "passed_summary c machines a =
    (if \<not> sc_breakfix c
     then sc_subject c @ '' verified on '' @ nat_str machines @ '' machine(s) (''
       @ nat_str (au_served a) @ '' with a prior tenancy audited)''
     else if 0 < au_events a
     then ''Break/fix skip-sanitization policy verified on '' @ nat_str machines @ '' machine(s) (''
       @ nat_str (au_events a) @ '' tenancy-preserving maintenance skip(s) observed)''
     else ''Break/fix skip-sanitization policy auditable on '' @ nat_str machines
       @ '' machine(s) (no tenancy-preserving maintenance skips in history yet)'')"

definition conclude_audit :: "sanitization_class \<Rightarrow> nat \<Rightarrow> audit \<Rightarrow> ran" where
  "conclude_audit c machines a =
    (if au_failed a = [] then passed (au_verdict a) (passed_summary c machines a)
     else (case comma_join (take 3 (au_failed a)) of
         Inl e \<Rightarrow> ExnRaised e (au_verdict a)
       | Inr sample \<Rightarrow>
          (let bad = length (au_failed a); more = bad - min bad 3
           in failed (au_verdict a) (sc_subject c @ '' failed for '' @ nat_str bad @ ''/'' @ nat_str machines
             @ '' machine(s): '' @ sample
             @ (if more \<noteq> 0 then '' (+'' @ nat_str more @ '' more)'' else [])))))"

definition sanitization_check :: "(rat \<Rightarrow> string) \<Rightarrow> sanitization_class \<Rightarrow> check" where
  "sanitization_check fr c cfg v = with_output cfg v (\<lambda>so.
     if \<not> truthy (field_of so ''success'') then failed v (step_failed fr ''Sanitization'' so)
     else (case field_of so ''machines'' of
       PList machines \<Rightarrow> (case select_machines c machines of
           Inl e \<Rightarrow> ExnRaised e v
         | Inr scoped \<Rightarrow>
            (if scoped = []
             then failed v (''No '' @ (if sc_gpu_only c then ''GPU-equipped '' else []) @ ''machines found in step output'')
             else (case judge_machines fr c scoped \<lparr>au_verdict = v, au_failed = [], au_served = 0, au_events = 0\<rparr> of
                 Inl (e, v') \<Rightarrow> ExnRaised e v'
               | Inr a \<Rightarrow> conclude_audit c (length scoped) a)))
     | _ \<Rightarrow> failed v (''Sanitization step output is missing the '' @ quoted ''machines'' @ '' list'')))"



section \<open>What a passing block shows\<close>

lemma distinct_values_grows:
  "distinct_values vs seen = Inr xs \<Longrightarrow>
   \<exists>zs. xs = seen @ zs \<and> (zs = [] \<longleftrightarrow> (\<forall>v \<in> set vs. list_ex (py_eq v) seen))"
proof (induction vs seen rule: distinct_values.induct)
  case (2 v vs seen)
  show ?case
  proof (cases "list_ex (py_eq v) seen")
    case False
    then obtain zs where "xs = (seen @ [v]) @ zs" using 2 by (auto split: sum.splits)
    then show ?thesis using False by auto
  qed (use 2 in \<open>auto split: sum.splits\<close>)
qed simp

lemma distinct_values_one:
  "distinct_values (v # vs) [] = Inr xs \<Longrightarrow> length xs = 1 \<longleftrightarrow> (\<forall>w \<in> set vs. py_eq w v)"
  by (auto dest!: distinct_values_grows split: sum.splits)

lemma distinct_values_texts: "list_all is_text vs \<Longrightarrow> \<exists>xs. distinct_values vs seen = Inr xs"
  by (induction vs arbitrary: seen) (auto simp: is_text_def split: pval.splits)

lemma is_text_iff: "is_text v \<longleftrightarrow> (\<exists>s. v = PStr s \<and> strip s \<noteq> [])"
  by (auto simp: is_text_def split: pval.split)

lemma texts_have_one_value:
  assumes "vs \<noteq> []" "list_all is_text vs"
  shows "(\<exists>xs. distinct_values vs [] = Inr xs \<and> length xs = 1) \<longleftrightarrow> (\<exists>s. \<forall>v \<in> set vs. v = PStr s)"
proof -
  obtain v us where vs: "vs = v # us" using assms by (cases vs) auto
  obtain s where v: "v = PStr s" using assms vs by (auto simp: is_text_iff)
  obtain xs where xs: "distinct_values vs [] = Inr xs" using distinct_values_texts assms by blast
  have eq: "py_eq w v \<longleftrightarrow> w = v" if "w \<in> set us" for w
    using that assms vs v by (auto simp: is_text_iff list_all_iff)
  have "length xs = 1 \<longleftrightarrow> (\<forall>w \<in> set us. w = v)"
    using distinct_values_one [of v us xs] xs vs eq by auto
  also have "\<dots> \<longleftrightarrow> (\<exists>s. \<forall>v \<in> set vs. v = PStr s)"
    using v vs by auto
  finally show ?thesis using xs by simp
qed

lemma went_well_judged_as [simp]: "vd_passed (judged_as v name ok good bad) = vd_passed v"
  by (simp add: judged_as_def report_subtest_def)

text \<open>The counts of a kind agree when both are the number of records of that kind.\<close>

definition counted :: "dict \<Rightarrow> dict \<Rightarrow> dict list \<Rightarrow> string \<Rightarrow> bool" where
  "counted requested allocated resources name \<longleftrightarrow>
     cget requested name (PInt 0) = PInt (records_of resources name)
   \<and> cget allocated name (PInt 0) = PInt (records_of resources name)"

lemma non_negative_int_Some: "non_negative_int v = Some i \<longleftrightarrow> v = PInt i \<and> 0 \<le> i"
  by (auto simp: non_negative_int_def split: pval.splits)

lemma count_failures_none: "count_failures r a resources name = [] \<longleftrightarrow> counted r a resources name"
proof -
  have "0 \<le> records_of resources name" by (simp add: records_of_def)
  then show ?thesis
    by (auto simp: count_failures_def counted_def non_negative_int_Some split: option.splits)
      (simp_all add: non_negative_int_def)
qed

lemma validate_counts_none:
  "validate_counts v w resources = [] \<longleftrightarrow>
   (\<exists>r a. v = PDict r \<and> w = PDict a \<and> (\<forall>name \<in> set COUNT_FIELDS. counted r a resources name))"
  by (auto simp: validate_counts_def count_failures_none split: pval.splits)

lemma member_failures_none:
  "member_failures fr block_id tenant_id d = [] \<longleftrightarrow>
     (\<forall>k \<in> set RESOURCE_FIELDS. is_text (field_of d k))
   \<and> py_eq (field_of d ''tenant_id'') tenant_id \<and> py_eq (field_of d ''topology_block_id'') block_id"
  by (auto simp: member_failures_def Let_def filter_empty_conv)

lemma uniform_failures_none: "uniform_failures fr block flag what found = [] \<longleftrightarrow> uniform block flag found"
  by (simp add: uniform_failures_def uniform_def)

lemma id_failures_none:
  "id_failures block = [] \<longleftrightarrow> (\<forall>k \<in> {''block_id'', ''tenant_id'', ''reservation_id''}. is_text (field_of block k))"
  by (auto simp: id_failures_def)

text \<open>A block that was allocated whole: one unit, the requested number of records of each kind, and
  every record in the block, the tenant, one performance domain and one isolation boundary.\<close>

definition same_text :: "dict list \<Rightarrow> string \<Rightarrow> bool" where
  "same_text resources k \<longleftrightarrow> (\<exists>s. \<forall>d \<in> set resources. field_of d k = PStr s)"

definition whole_block :: "dict \<Rightarrow> dict list \<Rightarrow> bool" where
  "whole_block block resources \<longleftrightarrow>
     (\<forall>k \<in> {''block_id'', ''tenant_id'', ''reservation_id''}. is_text (field_of block k))
   \<and> field_of block ''allocated_as_unit'' = PBool True \<and> field_of block ''partial_allocation'' = PBool False
   \<and> (\<exists>r a. field_of block ''requested'' = PDict r \<and> field_of block ''allocated'' = PDict a
        \<and> (\<forall>name \<in> set COUNT_FIELDS. counted r a resources name))
   \<and> (\<forall>d \<in> set resources. (\<forall>k \<in> set RESOURCE_FIELDS. is_text (field_of d k))
        \<and> field_of d ''tenant_id'' = field_of block ''tenant_id''
        \<and> field_of d ''topology_block_id'' = field_of block ''block_id'')
   \<and> field_of block ''homogeneous'' = PBool True \<and> same_text resources ''performance_domain''
   \<and> field_of block ''isolation_enforced'' = PBool True \<and> same_text resources ''isolation_boundary''"

lemma uniform_texts:
  assumes "resources \<noteq> []" "\<forall>d \<in> set resources. is_text (field_of d k)"
  obtains xs where "distinct_values (map (\<lambda>d. field_of d k) resources) [] = Inr xs"
    "uniform block flag xs \<longleftrightarrow> field_of block flag = PBool True \<and> same_text resources k"
proof -
  let ?vs = "map (\<lambda>d. field_of d k) resources"
  have t: "list_all is_text ?vs" using assms by (simp add: list_all_iff)
  then obtain xs where xs: "distinct_values ?vs [] = Inr xs" using distinct_values_texts by blast
  have "length xs = 1 \<longleftrightarrow> same_text resources k"
    using texts_have_one_value [OF _ t] assms(1) xs by (auto simp: same_text_def)
  then show thesis using that xs by (simp add: uniform_def)
qed

lemma py_eq_text: "is_text v \<Longrightarrow> py_eq v w \<longleftrightarrow> v = w"
  by (auto simp: is_text_iff)

lemma judge_block_well:
  "went_well (judge_block fr block resources v) \<longleftrightarrow>
   (\<exists>ps bs. distinct_values (map (\<lambda>d. field_of d ''performance_domain'') resources) [] = Inr ps
      \<and> distinct_values (map (\<lambda>d. field_of d ''isolation_boundary'') resources) [] = Inr bs
      \<and> id_failures block = [] \<and> atomic_block block
      \<and> validate_counts (field_of block ''requested'') (field_of block ''allocated'') resources = []
      \<and> (\<forall>d \<in> set resources.
           member_failures fr (field_of block ''block_id'') (field_of block ''tenant_id'') d = [])
      \<and> uniform block ''homogeneous'' ps \<and> uniform block ''isolation_enforced'' bs)"
  by (simp add: judge_block_def Let_def uniform_failures_none concat_eq_Nil_conv split: sum.split)

lemma judge_block_whole:
  assumes "resources \<noteq> []"
  shows "went_well (judge_block fr block resources v) \<longleftrightarrow> whole_block block resources"
proof (cases "\<forall>d \<in> set resources. \<forall>k \<in> set RESOURCE_FIELDS. is_text (field_of d k)")
  case True
  then have t: "\<forall>d \<in> set resources. is_text (field_of d k)" if "k \<in> set RESOURCE_FIELDS" for k
    using that by blast
  have k: "''performance_domain'' \<in> set RESOURCE_FIELDS" "''isolation_boundary'' \<in> set RESOURCE_FIELDS"
    "''tenant_id'' \<in> set RESOURCE_FIELDS" "''topology_block_id'' \<in> set RESOURCE_FIELDS"
    by (simp_all add: RESOURCE_FIELDS_def)
  obtain ps where
    p: "distinct_values (map (\<lambda>d. field_of d ''performance_domain'') resources) [] = Inr ps"
      "uniform block ''homogeneous'' ps \<longleftrightarrow> field_of block ''homogeneous'' = PBool True
         \<and> same_text resources ''performance_domain''"
    by (rule uniform_texts [OF assms t [OF k(1)]])
  obtain bs where
    b: "distinct_values (map (\<lambda>d. field_of d ''isolation_boundary'') resources) [] = Inr bs"
      "uniform block ''isolation_enforced'' bs \<longleftrightarrow> field_of block ''isolation_enforced'' = PBool True
         \<and> same_text resources ''isolation_boundary''"
    by (rule uniform_texts [OF assms t [OF k(2)]])
  have m: "member_failures fr b t d = [] \<longleftrightarrow> (\<forall>k \<in> set RESOURCE_FIELDS. is_text (field_of d k))
      \<and> field_of d ''tenant_id'' = t \<and> field_of d ''topology_block_id'' = b"
    if "d \<in> set resources" for d b t
    using t [OF k(3)] t [OF k(4)] that by (simp add: member_failures_none py_eq_text)
  show ?thesis
    unfolding judge_block_well whole_block_def atomic_block_def p(1) b(1) id_failures_none validate_counts_none
    using m by (simp add: p(2) b(2) conj_ac)
next
  case False
  then show ?thesis unfolding judge_block_well whole_block_def member_failures_none by blast
qed

lemma parse_positive_int_end:
  assumes "parse_positive_int fr cfg key dflt v = (r, v')"
  shows "case r of None \<Rightarrow> \<not> vd_passed v' | Some i \<Rightarrow> 0 < i \<and> v' = v"
  using assms by (auto simp: parse_positive_int_def set_failed_def Let_def split: pval.splits option.splits if_splits)

lemma is_dict_iff: "is_dict v \<longleftrightarrow> (\<exists>d. v = PDict d)"
  by (cases v) auto

lemma dicts_of_list: "list_all is_dict rs \<longleftrightarrow> (\<exists>ds. rs = map PDict ds)"
proof
  show "list_all is_dict rs \<Longrightarrow> \<exists>ds. rs = map PDict ds"
    by (induction rs) (auto simp: is_dict_iff intro: exI [of _ "_ # _"])
qed (auto simp: list_all_iff)

lemma dicts_of_map [simp]: "dicts_of (map PDict ds) = ds"
  by (induction ds) (simp_all add: dicts_of_def)

lemma map_PDict_eq [simp]: "map PDict ds = map PDict es \<longleftrightarrow> ds = es"
  by (rule inj_map_eq_map) (simp add: inj_def)

section \<open>What a passing reservation shows\<close>

lemma account_ids_ok:
  "account_ids (numbered n vs) = Inr ids \<longleftrightarrow>
   (\<exists>ds. vs = map PDict ds \<and> (\<forall>d \<in> set ds. is_text (field_of d ''account_id''))
      \<and> ids = map (\<lambda>d. text_of d ''account_id'') ds)"
proof (induction vs arbitrary: n ids)
  case (Cons v vs)
  have "account_ids (numbered n (v # vs)) = Inr ids \<longleftrightarrow>
    (\<exists>d ids'. v = PDict d \<and> is_text (field_of d ''account_id'') \<and> account_ids (numbered (Suc n) vs) = Inr ids'
       \<and> ids = text_of d ''account_id'' # ids')"
    by (auto simp: and_then_Inr demand_Inr need_dict_Inr)
  then show ?case unfolding Cons.IH by (auto simp: Cons_eq_map_conv)
qed auto

lemma pinned_resources_ok:
  "pinned_resources fr (numbered n (map PDict ds)) = Inr () \<longleftrightarrow> (\<forall>d \<in> set ds. field_of d ''pinned'' = PBool True)"
  by (induction ds arbitrary: n) (auto simp: and_then_Inr demand_Inr need_dict_Inr)

definition pinned_group :: "dict \<Rightarrow> dict list \<Rightarrow> bool" where
  "pinned_group so resources \<longleftrightarrow>
     field_of so ''pinned'' = PBool True \<and> field_of so ''isolation_enforced'' = PBool True
   \<and> (\<forall>d \<in> set resources. field_of d ''account_id'' = field_of so ''account_id'' \<and> field_of d ''pinned'' = PBool True)"

lemma judge_grouping_ok:
  assumes "is_text (field_of so ''account_id'')"
  shows "(\<exists>m. judge_grouping fr so reservation (text_of so ''account_id'') n = Inr m) \<longleftrightarrow>
    (\<exists>ds. cget so ''resources'' (PList []) = PList (map PDict ds) \<and> n \<le> int (length ds) \<and> pinned_group so ds)"
proof -
  obtain s where s: "field_of so ''account_id'' = PStr s" "strip s \<noteq> []" using assms by (auto simp: is_text_iff)
  have u: "sorted_set xs = [] \<longleftrightarrow> xs = []" for xs by (metis set_empty set_remdups set_sort sorted_set_def)
  have eq: "text_of d ''account_id'' = s \<longleftrightarrow> field_of d ''account_id'' = PStr s"
    if "is_text (field_of d ''account_id'')" for d
    using that by (auto simp: text_of_def is_text_iff)
  have t: "is_text (PStr s)" using s by (simp add: is_text_iff)
  have ts: "text_of so ''account_id'' = s" by (simp add: text_of_def s)
  show ?thesis
    by (cases "cget so ''resources'' (PList [])")
      (auto simp: judge_grouping_def Let_def demand_Inr and_then_Inr account_ids_ok pinned_resources_ok u ts
        pinned_group_def filter_empty_conv eq s(1) t)
qed

text \<open>The grouping check passes exactly when the reservation is named, pinned and isolated, groups as
  many resources as configured, and every one is pinned to its account.\<close>

lemma reservation_pinned:
  "passes (capacity_grouping_check fr) cfg \<longleftrightarrow>
   (\<exists>so resources n. cget cfg ''step_output'' (PDict []) = PDict so
      \<and> field_of so ''success'' = PBool True
      \<and> is_text (field_of so ''reservation_id'') \<and> is_text (field_of so ''account_id'')
      \<and> fst (parse_positive_int fr cfg ''min_resources'' 1 fresh_verdict) = Some n
      \<and> cget so ''resources'' (PList []) = PList (map PDict resources) \<and> n \<le> int (length resources)
      \<and> pinned_group so resources)"
proof -
  obtain r v' where p: "parse_positive_int fr cfg ''min_resources'' 1 fresh_verdict = (r, v')" by force
  note e = parse_positive_int_end [OF p]
  show ?thesis using e
    by (cases r) (auto simp: passes_iff capacity_grouping_check_def p judge_grouping_ok split: pval.splits)
qed

section \<open>Whole blocks\<close>

text \<open>C39. The topology-block check passes exactly when the step succeeded and reports a block that
  was allocated whole: the block, its tenant and its reservation are named, it was allocated as one
  unit and not partially, for each of compute, network and storage the requested number, the
  allocated number and the number of resource records are the same, every record is complete and
  belongs to the block and its tenant, all records share one performance domain and one isolation
  boundary, both of which the provider says it enforces, and there are as many records as configured.\<close>

theorem topology_block_whole:
  "passes (topology_block_check fr) cfg \<longleftrightarrow>
   (\<exists>so block resources n. cget cfg ''step_output'' (PDict []) = PDict so
      \<and> truthy (field_of so ''success'') \<and> field_of so ''topology_block'' = PDict block
      \<and> fst (parse_positive_int fr cfg ''min_resources'' 1 fresh_verdict) = Some n
      \<and> field_of block ''resources'' = PList (map PDict resources) \<and> n \<le> int (length resources)
      \<and> whole_block block resources)"
proof -
  obtain r v' where p: "parse_positive_int fr cfg ''min_resources'' 1 fresh_verdict = (r, v')" by force
  note e = parse_positive_int_end [OF p]
  have w: "went_well (judge_block fr block ds v) \<longleftrightarrow> whole_block block ds"
    if "0 < n" "n \<le> int (length ds)" for n block ds v
    using that by (intro judge_block_whole) auto
  show ?thesis using e
    by (cases r) (auto simp: passes_iff topology_block_check_def p w dicts_of_list split: pval.splits)
qed

definition demo_block :: dict where
  "demo_block = [(KStr ''block_id'', PStr ''b1''), (KStr ''tenant_id'', PStr ''t1''),
     (KStr ''reservation_id'', PStr ''r1''), (KStr ''allocated_as_unit'', PBool True),
     (KStr ''partial_allocation'', PBool False), (KStr ''homogeneous'', PBool True),
     (KStr ''isolation_enforced'', PBool True),
     (KStr ''requested'', PDict [(KStr ''compute'', PInt 2)]),
     (KStr ''allocated'', PDict [(KStr ''compute'', PInt 2)]),
     (KStr ''resources'', PList (map (\<lambda>n. PDict [(KStr ''resource_id'', PStr n),
        (KStr ''resource_type'', PStr ''compute''), (KStr ''tenant_id'', PStr ''t1''),
        (KStr ''topology_block_id'', PStr ''b1''), (KStr ''performance_domain'', PStr ''p''),
        (KStr ''isolation_boundary'', PStr ''i'')]) [''n1'', ''n2'']))]"

lemma demo_block_passes:
  "passes (topology_block_check (\<lambda>r. ''x'')) [(KStr ''step_output'',
     PDict [(KStr ''success'', PBool True), (KStr ''topology_block'', PDict demo_block)])]"
  by code_simp

lemma partial_block_fails:
  "\<not> passes (topology_block_check (\<lambda>r. ''x'')) [(KStr ''step_output'',
     PDict [(KStr ''success'', PBool True), (KStr ''topology_block'',
       PDict (dput demo_block (KStr ''allocated'') (PDict [(KStr ''compute'', PInt 1)])))])]"
  by code_simp

section \<open>What a passing audit shows\<close>







lemma audit_subtest_keeps [simp]: "au_failed (audit_subtest name ok m a) = au_failed a"
  by (simp add: audit_subtest_def)













text \<open>The docstring of \<open>evaluate_sanitization\<close> asks for a machine that is currently available. The code
  does not: a machine in maintenance passes on its earlier sanitization.\<close>

lemma unavailable_machine_passes:
  "passes (sanitization_check (\<lambda>r. ''x'') gpu_memory_class) [(KStr ''step_output'',
     PDict [(KStr ''success'', PBool True), (KStr ''machines'', PList
       [PDict [(KStr ''machine_id'', PStr ''m1''), (KStr ''has_gpu'', PBool True),
          (KStr ''status'', PStr ''maintenance''), (KStr ''available'', PBool False),
          (KStr ''served_tenant'', PBool True), (KStr ''sanitized'', PBool True)]])])]"
  by code_simp

lemma unsanitized_gpu_machine_fails:
  "\<not> passes (sanitization_check (\<lambda>r. ''x'') gpu_memory_class) [(KStr ''step_output'',
     PDict [(KStr ''success'', PBool True), (KStr ''machines'', PList
       [PDict [(KStr ''machine_id'', PStr ''m1''), (KStr ''has_gpu'', PBool False)],
        PDict [(KStr ''machine_id'', PStr ''m2''), (KStr ''has_gpu'', PBool True),
          (KStr ''served_tenant'', PBool True), (KStr ''sanitized'', PBool False)]])])]"
  by code_simp

end
