(* ===== verification/Governance_Evidence.thy ===== *)
theory Governance_Evidence
  imports Fleet_Evidence
begin

text \<open>
  The checks of \<open>isvtest.validations.governance\<close>: capacity metrics, the fleet inventory and the polled
  resource index. \<open>is_iso\<close> says whether \<open>datetime.fromisoformat\<close> accepts a text.
\<close>

section \<open>Capacity metrics\<close>

definition REQUIRED_METRICS :: "string list" where
  "REQUIRED_METRICS = [''delivered'', ''healthy'', ''reserved'', ''active'']"

definition REQUIRED_RESOURCES :: "string list" where
  "REQUIRED_RESOURCES = [''nodes'', ''gpus'']"

type_synonym counts = "(string \<times> int) list"

type_synonym buckets = "(string \<times> counts) list"

definition count_in :: "buckets \<Rightarrow> string \<Rightarrow> string \<Rightarrow> int" where
  "count_in bs metric resource = dgetd (dgetd bs metric []) resource 0"

fun read_bucket :: "(rat \<Rightarrow> string) \<Rightarrow> string \<Rightarrow> dict \<Rightarrow> string list \<Rightarrow> string + counts" where
  "read_bucket fr metric bucket [] = Inr []"
| "read_bucket fr metric bucket (r # rs) = (case sget bucket r of
     None \<Rightarrow> Inl (''Governance metric '' @ quoted metric @ '' is missing required resource '' @ quoted r)
   | Some value \<Rightarrow> (case non_negative_int value of
       None \<Rightarrow> Inl (''Governance metric '' @ quoted (metric @ ''.'' @ r) @ '' must be a non-negative integer, got ''
         @ py_repr fr value)
     | Some i \<Rightarrow> (case read_bucket fr metric bucket rs of Inl e \<Rightarrow> Inl e | Inr cs \<Rightarrow> Inr ((r, i) # cs))))"

definition read_metric :: "(rat \<Rightarrow> string) \<Rightarrow> dict \<Rightarrow> string \<Rightarrow> string + counts" where
  "read_metric fr metrics metric = (case field_of metrics metric of
     PDict bucket \<Rightarrow> read_bucket fr metric bucket REQUIRED_RESOURCES
   | _ \<Rightarrow> Inl (''Governance metric '' @ quoted metric @ '' is not an object''))"

definition report_metric :: "string \<Rightarrow> counts \<Rightarrow> verdict \<Rightarrow> verdict" where
  "report_metric metric cs v = report_subtest v (''metric_'' @ metric) True
     (metric @ '': nodes='' @ int_str (dgetd cs ''nodes'' 0) @ '', gpus='' @ int_str (dgetd cs ''gpus'' 0)) False"

text \<open>The buckets in order: the subtests of those before a malformed one have been reported.\<close>

fun read_metrics ::
  "(rat \<Rightarrow> string) \<Rightarrow> dict \<Rightarrow> string list \<Rightarrow> verdict \<Rightarrow> verdict \<times> (string + buckets)" where
  "read_metrics fr metrics [] v = (v, Inr [])"
| "read_metrics fr metrics (m # ms) v = (case read_metric fr metrics m of
     Inl e \<Rightarrow> (v, Inl e)
   | Inr cs \<Rightarrow> (case read_metrics fr metrics ms (report_metric m cs v) of
       (v', Inl e) \<Rightarrow> (v', Inl e) | (v', Inr bs) \<Rightarrow> (v', Inr ((m, cs) # bs))))"

definition coerce_non_negative_int ::
  "(rat \<Rightarrow> string) \<Rightarrow> dict \<Rightarrow> string \<Rightarrow> int \<Rightarrow> verdict \<Rightarrow> int option \<times> verdict" where
  "coerce_non_negative_int fr cfg key dflt v =
    (let raw = cget cfg key (PInt dflt)
     in case non_negative_int raw of
          None \<Rightarrow> (None, set_failed v (''`'' @ key @ ''` must be a non-negative integer, got '' @ py_repr fr raw))
        | Some i \<Rightarrow> (Some i, v))"

definition SUBSETS :: "(string \<times> string) list" where
  "SUBSETS = [(''healthy'', ''delivered''), (''reserved'', ''delivered''), (''active'', ''reserved'')]"

definition check_relationships :: "buckets \<Rightarrow> string list" where
  "check_relationships bs = concat (map (\<lambda>(sub, sup). concat (map (\<lambda>r.
     if count_in bs sup r < count_in bs sub r
     then [sub @ '' '' @ r @ '' ('' @ int_str (count_in bs sub r) @ '') exceeds '' @ sup @ '' '' @ r @ '' (''
       @ int_str (count_in bs sup r) @ '')'']
     else []) REQUIRED_RESOURCES)) SUBSETS)"

definition below_minimum :: "string \<Rightarrow> int \<Rightarrow> int \<Rightarrow> string list" where
  "below_minimum what got least = (if got < least
     then [''Delivered '' @ what @ '' '' @ int_str got @ '' < min '' @ int_str least] else [])"

definition judge_metrics :: "buckets \<Rightarrow> int \<Rightarrow> int \<Rightarrow> verdict \<Rightarrow> ran" where
  "judge_metrics bs min_nodes min_gpus v =
    (let nodes = count_in bs ''delivered'' ''nodes''; gpus = count_in bs ''delivered'' ''gpus'';
         failures = below_minimum ''nodes'' nodes min_nodes @ below_minimum ''gpus'' gpus min_gpus
           @ check_relationships bs
     in if failures \<noteq> [] then failed v (''Governance metrics invariants violated: '' @ join ''; '' failures)
        else passed v (''Governance metrics OK (delivered: nodes='' @ int_str nodes @ '', gpus='' @ int_str gpus @ '')''))"

definition judge_buckets :: "(rat \<Rightarrow> string) \<Rightarrow> dict \<Rightarrow> dict \<Rightarrow> verdict \<Rightarrow> ran" where
  "judge_buckets fr cfg metrics v = (case read_metrics fr metrics REQUIRED_METRICS v of
     (v1, Inl e) \<Rightarrow> failed v1 e
   | (v1, Inr bs) \<Rightarrow>
      (case coerce_non_negative_int fr cfg ''min_delivered_nodes'' 0 v1 of (min_nodes, v2) \<Rightarrow>
       (case coerce_non_negative_int fr cfg ''min_delivered_gpus'' 0 v2 of (min_gpus, v3) \<Rightarrow>
        (case (min_nodes, min_gpus) of
           (Some n, Some g) \<Rightarrow> judge_metrics bs n g v3
         | _ \<Rightarrow> Finished v3))))"

definition governance_metrics_check :: "(rat \<Rightarrow> string) \<Rightarrow> check" where
  "governance_metrics_check fr cfg v = with_output cfg v (\<lambda>so.
     if \<not> truthy (field_of so ''success'') then failed v (step_failed fr ''Governance metrics'' so)
     else (case field_of so ''metrics'' of
       PDict metrics \<Rightarrow>
        (let missing = filter (\<lambda>m. sget metrics m = None) REQUIRED_METRICS
         in if missing \<noteq> []
            then failed v (''Governance metrics missing required buckets: '' @ join '', '' missing)
            else judge_buckets fr cfg metrics v)
     | _ \<Rightarrow> failed v (''Governance step output is missing the '' @ quoted ''metrics'' @ '' object'')))"

section \<open>Identifiers\<close>

definition record_text :: "string \<Rightarrow> pval \<Rightarrow> string" where
  "record_text k v = (case v of PDict d \<Rightarrow> (case field_of d k of PStr s \<Rightarrow> strip s | _ \<Rightarrow> []) | _ \<Rightarrow> [])"

definition is_iso_timestamp :: "(string \<Rightarrow> bool) \<Rightarrow> string \<Rightarrow> bool" where
  "is_iso_timestamp is_iso s = is_iso (concat (map (\<lambda>c. if c = CHR ''Z'' then ''+00:00'' else [c]) s))"

definition duplicate_ids :: "pval list \<Rightarrow> string \<Rightarrow> string list" where
  "duplicate_ids records k =
    (let ids = filter (\<lambda>i. i \<noteq> []) (map (record_text k) records)
     in sorted_set (filter (\<lambda>i. 1 < count_list ids i) ids))"

section \<open>The fleet inventory\<close>

definition FLEET_IDENTITY_FIELDS :: "string list" where
  "FLEET_IDENTITY_FIELDS = [''node_id'', ''hardware_type'', ''account_id'', ''region'']"

definition FLEET_ALLOCATION_FIELDS :: "string list" where
  "FLEET_ALLOCATION_FIELDS = [''instance_id'', ''project_id'']"

definition FLEET_HEALTH_STATES :: "string list" where
  "FLEET_HEALTH_STATES = [''healthy'', ''unhealthy'']"

definition node_problems :: "(rat \<Rightarrow> string) \<Rightarrow> (string \<Rightarrow> bool) \<Rightarrow> pval \<Rightarrow> string list" where
  "node_problems fr is_iso node = (case node of
     PDict d \<Rightarrow>
      (let missing = (\<lambda>ks. filter (\<lambda>k. record_text k node = []) ks);
           health = lower (record_text ''health_state'' node);
           created = record_text ''created_at'' node;
           gpus = field_of d ''gpu_count'';
           in_use = field_of d ''in_use''
       in map (\<lambda>k. ''missing '' @ k) (missing FLEET_IDENTITY_FIELDS)
        @ (if health \<notin> set FLEET_HEALTH_STATES
           then [''health_state '' @ repr_str (if health = [] then ''missing'' else health)
             @ '' is not a Healthy/Unhealthy classification''] else [])
        @ (if created = [] then [''missing created_at'']
           else if \<not> is_iso_timestamp is_iso created
           then [''created_at '' @ repr_str created @ '' is not an ISO 8601 timestamp''] else [])
        @ (if non_negative_int gpus = None
           then [''gpu_count must be a non-negative integer, got '' @ py_repr fr gpus] else [])
        @ (case in_use of
             PBool b \<Rightarrow> (if b then map (\<lambda>k. ''missing '' @ k @ '' while in use'') (missing FLEET_ALLOCATION_FIELDS)
               else [])
           | _ \<Rightarrow> [''in_use must be a boolean, got '' @ py_repr fr in_use]))
   | _ \<Rightarrow> [''record is not an object''])"

text \<open>The loop over the records: the subtests, and the dictionary of labels and first problems.\<close>

fun judge_nodes ::
  "(rat \<Rightarrow> string) \<Rightarrow> (string \<Rightarrow> bool) \<Rightarrow> (nat \<times> pval) list \<Rightarrow> verdict \<times> (string \<times> string) list
    \<Rightarrow> verdict \<times> (string \<times> string) list" where
  "judge_nodes fr is_iso [] st = st"
| "judge_nodes fr is_iso ((n, node) # nodes) (v, bad) =
    (let label = (if record_text ''node_id'' node \<noteq> [] then record_text ''node_id'' node
           else ''node['' @ nat_str n @ '']'');
         problems = node_problems fr is_iso node;
         v' = report_subtest v (''node_'' @ label) (problems = []) (''Node '' @ label @ '': ''
           @ (if problems \<noteq> [] then join ''; '' problems else ''all required fields reported'')) False
     in judge_nodes fr is_iso nodes (v', if problems = [] then bad else dput bad label (hd problems)))"

definition with_reasons :: "(string \<times> string) list \<Rightarrow> string" where
  "with_reasons bad = join '', '' (map (\<lambda>(label, reason). label @ '' ('' @ reason @ '')'') bad)"

definition judge_inventory :: "(rat \<Rightarrow> string) \<Rightarrow> (string \<Rightarrow> bool) \<Rightarrow> pval list \<Rightarrow> verdict \<Rightarrow> ran" where
  "judge_inventory fr is_iso nodes v =
    (case judge_nodes fr is_iso (numbered 0 nodes) (v, []) of (v1, bad) \<Rightarrow>
      (let duplicates = duplicate_ids nodes ''node_id''
       in if duplicates \<noteq> []
          then failed v1 (''Fleet inventory reports duplicate node_id(s): '' @ join '', '' duplicates)
          else if bad \<noteq> []
          then failed v1 (''Fleet inventory incomplete for '' @ nat_str (length bad) @ ''/''
            @ nat_str (length nodes) @ '' node(s): '' @ with_reasons bad)
          else passed v1 (''Fleet management API returns the required record for all ''
            @ nat_str (length nodes) @ '' node(s)'')))"

definition fleet_management_check :: "(rat \<Rightarrow> string) \<Rightarrow> (string \<Rightarrow> bool) \<Rightarrow> check" where
  "fleet_management_check fr is_iso cfg v = with_output cfg v (\<lambda>so.
     if \<not> truthy (field_of so ''success'') then failed v (step_failed fr ''Fleet inventory'' so)
     else (case field_of so ''nodes'' of
       PList nodes \<Rightarrow> (case parse_positive_int fr cfg ''min_nodes'' 1 v of
           (None, v') \<Rightarrow> Finished v'
         | (Some least, v') \<Rightarrow>
            (if int (length nodes) < least
             then failed v' (''Expected at least '' @ int_str least @ '' node record(s), got '' @ nat_str (length nodes))
             else judge_inventory fr is_iso nodes v'))
     | _ \<Rightarrow> failed v (''Fleet inventory step output is missing the '' @ quoted ''nodes'' @ '' list'')))"

section \<open>The resource index\<close>

definition resource_problem :: "pval \<Rightarrow> nat \<Rightarrow> string \<times> string" where
  "resource_problem resource n =
    (let place = ''resource['' @ nat_str n @ '']''; identifier = record_text ''resource_id'' resource
     in if \<not> is_dict resource then (place, ''entry is not an object'')
        else if identifier = [] then (place, ''missing resource_id'')
        else (identifier, []))"

fun judge_entries ::
  "(nat \<times> pval) list \<Rightarrow> verdict \<times> (string \<times> string) list \<Rightarrow> verdict \<times> (string \<times> string) list" where
  "judge_entries [] st = st"
| "judge_entries ((n, resource) # resources) (v, bad) =
    (case resource_problem resource n of (label, problem) \<Rightarrow>
      (let reason = record_text ''delivery_reason'' resource;
           detail = (if problem \<noteq> [] then problem
             else if reason \<noteq> [] then ''delivered for '' @ reason
             else ''identified, no delivery reason stated'');
           v' = report_subtest v (''resource_'' @ label) (problem = []) (''Resource '' @ label @ '': '' @ detail) False
       in judge_entries resources (v', if problem = [] then bad else dput bad label problem)))"

definition is_discovered :: "pval \<Rightarrow> bool" where
  "is_discovered r = (case r of PDict d \<Rightarrow> field_of d ''discovered'' = PBool True | _ \<Rightarrow> False)"

definition judge_index :: "(rat \<Rightarrow> string) \<Rightarrow> dict \<Rightarrow> pval list \<Rightarrow> string list \<Rightarrow> int \<Rightarrow> verdict \<Rightarrow> ran" where
  "judge_index fr so resources unstable polls v =
    (let n = nat_str (length resources);
         v1 = report_subtest v ''index_pollable'' True (''Resource index polled '' @ int_str polls
           @ '' time(s) every '' @ py_str fr (cget so ''poll_interval_seconds'' (PStr ''?'')) @ ''s'') False;
         v2 = report_subtest v1 ''identifiers_stable'' (unstable = [])
           (if unstable \<noteq> [] then nat_str (length unstable) @ '' identifier(s) changed across polls: ''
              @ join '', '' unstable
            else ''All '' @ n @ '' resource identifier(s) unchanged across '' @ int_str polls @ '' poll(s)'') False
     in case judge_entries (numbered 0 resources) (v2, []) of (v3, incomplete) \<Rightarrow>
       (let duplicates = duplicate_ids resources ''resource_id'';
            discovered = nat_str (length (filter is_discovered resources));
            none = filter is_discovered resources = [];
            undiscovered = ''none of the '' @ n @ '' indexed resource(s) have been discovered'';
            v4 = report_subtest v3 ''capacity_discovered'' (\<not> none)
              (if none then undiscovered else discovered @ ''/'' @ n @ '' indexed resource(s) discovered'') False;
            failures = (if unstable \<noteq> [] then [''resource identifiers are not stable across polls''] else [])
              @ (if duplicates \<noteq> [] then [''duplicate resource_id(s): '' @ join '', '' duplicates] else [])
              @ (if incomplete \<noteq> [] then [nat_str (length incomplete) @ ''/'' @ n @ '' entr(ies) incomplete: ''
                  @ with_reasons incomplete] else [])
              @ (if none then [undiscovered] else [])
        in if failures \<noteq> []
           then failed v4 (''Resource discovery API does not meet the index contract: '' @ join ''; '' failures)
           else passed v4 (''Resource index exposes '' @ n @ '' resource(s) with stable identifiers across ''
             @ int_str polls @ '' poll(s), '' @ discovered @ '' discovered'')))"

definition resource_discovery_check :: "(rat \<Rightarrow> string) \<Rightarrow> check" where
  "resource_discovery_check fr cfg v = with_output cfg v (\<lambda>so.
     if \<not> truthy (field_of so ''success'') then failed v (step_failed fr ''Resource discovery'' so)
     else (case field_of so ''resources'' of
       PList resources \<Rightarrow>
        (case parse_positive_int fr cfg ''min_resources'' 1 v of (min_resources, v1) \<Rightarrow>
        (case parse_positive_int fr cfg ''min_polls'' 2 v1 of (min_polls, v2) \<Rightarrow>
        (case (min_resources, min_polls) of
          (Some least, Some least_polls) \<Rightarrow>
           (case py_iter (py_or (field_of so ''unstable_identifiers'') (PList [])) of
              Inl e \<Rightarrow> ExnRaised e v2
            | Inr ids \<Rightarrow>
               (let unstable = map (py_str fr) ids
                in if int (length resources) < least
                   then failed v2 (''Expected at least '' @ int_str least @ '' indexed resource(s), got ''
                     @ nat_str (length resources) @ (if unstable \<noteq> [] then ''; '' @ nat_str (length unstable)
                       @ '' identifier(s) vanished across polls: '' @ join '', '' unstable else []))
                   else (case field_of so ''polls'' of
                       PInt polls \<Rightarrow>
                        (if polls < least_polls
                         then failed v2 (''Resource index must be polled at least '' @ int_str least_polls
                           @ '' time(s), got '' @ int_str polls)
                         else judge_index fr so resources unstable polls v2)
                     | other \<Rightarrow> failed v2 (''Resource index must be polled at least '' @ int_str least_polls
                         @ '' time(s), got '' @ py_repr fr other))))
        | _ \<Rightarrow> Finished v2)))
     | _ \<Rightarrow> failed v (''Resource discovery step output is missing the '' @ quoted ''resources'' @ '' list'')))"

section \<open>Unique identifiers\<close>

lemma sorted_set_Nil: "sorted_set xs = [] \<longleftrightarrow> xs = []"
  by (metis set_empty set_remdups set_sort sorted_set_def)

lemma repeated_iff_not_distinct: "(\<forall>i \<in> set ids. count_list ids i \<le> 1) \<longleftrightarrow> distinct ids"
proof (induction ids)
  case (Cons i ids)
  show ?case
  proof (cases "i \<in> set ids")
    case True
    then have "count_list ids i \<noteq> 0" by (simp add: count_list_0_iff)
    then have "\<not> count_list (i # ids) i \<le> 1" by simp
    then show ?thesis using True by (meson distinct.simps(2) list.set_intros(1))
  next
    case False
    then have "count_list ids i = 0" by (simp add: count_list_0_iff)
    moreover have "count_list (i # ids) j = count_list ids j" if "j \<in> set ids" for j
      using that False by auto
    ultimately show ?thesis using Cons False by simp
  qed
qed simp

lemma duplicate_ids_none:
  "duplicate_ids records k = [] \<longleftrightarrow> distinct (filter (\<lambda>i. i \<noteq> []) (map (record_text k) records))"
  unfolding repeated_iff_not_distinct [symmetric] duplicate_ids_def Let_def sorted_set_Nil filter_empty_conv
  by (simp add: not_less)

lemma all_identified_distinct:
  assumes "\<forall>r \<in> set records. record_text k r \<noteq> []"
  shows "duplicate_ids records k = [] \<longleftrightarrow> distinct (map (record_text k) records)"
proof -
  have "filter (\<lambda>i. i \<noteq> []) (map (record_text k) records) = map (record_text k) records"
    using assms by (simp add: filter_id_conv)
  then show ?thesis by (simp add: duplicate_ids_none)
qed

lemma dput_not_Nil [simp]: "dput d k v \<noteq> []"
  by (cases d) auto

section \<open>What a passing inventory shows\<close>

definition complete_node :: "(string \<Rightarrow> bool) \<Rightarrow> pval \<Rightarrow> bool" where
  "complete_node is_iso node \<longleftrightarrow>
     (\<exists>d. node = PDict d
        \<and> (\<forall>k \<in> set FLEET_IDENTITY_FIELDS. record_text k node \<noteq> [])
        \<and> lower (record_text ''health_state'' node) \<in> set FLEET_HEALTH_STATES
        \<and> record_text ''created_at'' node \<noteq> [] \<and> is_iso_timestamp is_iso (record_text ''created_at'' node)
        \<and> (\<exists>gpus. field_of d ''gpu_count'' = PInt gpus \<and> 0 \<le> gpus)
        \<and> (field_of d ''in_use'' = PBool False
           \<or> field_of d ''in_use'' = PBool True
             \<and> (\<forall>k \<in> set FLEET_ALLOCATION_FIELDS. record_text k node \<noteq> [])))"

lemma non_negative_int_None: "non_negative_int v \<noteq> None \<longleftrightarrow> (\<exists>i. v = PInt i \<and> 0 \<le> i)"
  using non_negative_int_Some by blast

lemma node_problems_none: "node_problems fr is_iso node = [] \<longleftrightarrow> complete_node is_iso node"
proof (cases node)
  case (PDict d)
  have "node_problems fr is_iso node = [] \<longleftrightarrow>
     (\<forall>k \<in> set FLEET_IDENTITY_FIELDS. record_text k node \<noteq> [])
   \<and> lower (record_text ''health_state'' node) \<in> set FLEET_HEALTH_STATES
   \<and> record_text ''created_at'' node \<noteq> [] \<and> is_iso_timestamp is_iso (record_text ''created_at'' node)
   \<and> non_negative_int (field_of d ''gpu_count'') \<noteq> None
   \<and> (case field_of d ''in_use'' of
        PBool b \<Rightarrow> (b \<longrightarrow> (\<forall>k \<in> set FLEET_ALLOCATION_FIELDS. record_text k node \<noteq> [])) | _ \<Rightarrow> False)"
    unfolding PDict node_problems_def Let_def pval.case append_is_Nil_conv map_is_Nil_conv filter_empty_conv
    by (simp add: filter_empty_conv split: pval.split)
  then show ?thesis
    unfolding non_negative_int_None complete_node_def PDict by (auto split: pval.splits)
qed (simp_all add: node_problems_def complete_node_def)

lemma judge_nodes_clean:
  "snd (judge_nodes fr is_iso nodes (v, bad)) = [] \<longleftrightarrow> bad = [] \<and> (\<forall>(n, node) \<in> set nodes. complete_node is_iso node)"
  by (induction nodes arbitrary: v bad) (auto simp: Let_def node_problems_none split: if_splits)

lemma numbered_values: "(\<forall>(n, x) \<in> set (numbered m xs). P x) \<longleftrightarrow> (\<forall>x \<in> set xs. P x)"
  by (induction xs arbitrary: m) auto

lemma complete_node_identified: "complete_node is_iso node \<Longrightarrow> record_text ''node_id'' node \<noteq> []"
  by (auto simp: complete_node_def FLEET_IDENTITY_FIELDS_def)

lemma judge_inventory_well:
  "went_well (judge_inventory fr is_iso nodes v) \<longleftrightarrow>
   (\<forall>node \<in> set nodes. complete_node is_iso node) \<and> distinct (map (record_text ''node_id'') nodes)"
proof -
  obtain v1 bad where j: "judge_nodes fr is_iso (numbered 0 nodes) (v, []) = (v1, bad)" by force
  have c: "bad = [] \<longleftrightarrow> (\<forall>node \<in> set nodes. complete_node is_iso node)"
    using judge_nodes_clean [of fr is_iso "numbered 0 nodes" v "[]"] j by (simp add: numbered_values)
  have "duplicate_ids nodes ''node_id'' = [] \<longleftrightarrow> distinct (map (record_text ''node_id'') nodes)"
    if "\<forall>node \<in> set nodes. complete_node is_iso node"
    using that by (intro all_identified_distinct) (auto dest: complete_node_identified)
  then show ?thesis using c by (auto simp: judge_inventory_def j Let_def)
qed

text \<open>The fleet check passes exactly when there are as many records as configured, each is complete,
  and no identifier occurs twice.\<close>

lemma fleet_records_complete:
  "passes (fleet_management_check fr is_iso) cfg \<longleftrightarrow>
   (\<exists>so nodes n. cget cfg ''step_output'' (PDict []) = PDict so
      \<and> truthy (field_of so ''success'') \<and> field_of so ''nodes'' = PList nodes
      \<and> fst (parse_positive_int fr cfg ''min_nodes'' 1 fresh_verdict) = Some n \<and> n \<le> int (length nodes)
      \<and> (\<forall>node \<in> set nodes. complete_node is_iso node) \<and> distinct (map (record_text ''node_id'') nodes))"
proof -
  obtain r v' where p: "parse_positive_int fr cfg ''min_nodes'' 1 fresh_verdict = (r, v')" by force
  note e = parse_positive_int_end [OF p]
  show ?thesis using e
    by (cases r) (auto simp: passes_iff fleet_management_check_def went_well_with_output p judge_inventory_well
      split: pval.splits)
qed

section \<open>What passing metrics show\<close>

definition metric_count :: "dict \<Rightarrow> string \<Rightarrow> string \<Rightarrow> int option" where
  "metric_count metrics m r = (case field_of metrics m of
     PDict bucket \<Rightarrow> non_negative_int (field_of bucket r) | _ \<Rightarrow> None)"

text \<open>Every bucket counts nodes and GPUs; what is healthy or reserved was delivered, and what is
  active is reserved.\<close>

definition consistent_metrics :: "dict \<Rightarrow> int \<Rightarrow> int \<Rightarrow> bool" where
  "consistent_metrics metrics min_nodes min_gpus \<longleftrightarrow>
     (\<exists>c. (\<forall>m \<in> set REQUIRED_METRICS. \<forall>r \<in> set REQUIRED_RESOURCES. metric_count metrics m r = Some (c m r))
        \<and> min_nodes \<le> c ''delivered'' ''nodes'' \<and> min_gpus \<le> c ''delivered'' ''gpus''
        \<and> (\<forall>r \<in> set REQUIRED_RESOURCES. c ''healthy'' r \<le> c ''delivered'' r
             \<and> c ''reserved'' r \<le> c ''delivered'' r \<and> c ''active'' r \<le> c ''reserved'' r))"

lemma non_negative_int_PNone [simp]: "non_negative_int PNone = None"
  by (simp add: non_negative_int_def)

lemma read_bucket_Cons:
  "read_bucket fr m b (r # rs) = Inr cs \<longleftrightarrow>
   (\<exists>i cs'. non_negative_int (field_of b r) = Some i \<and> read_bucket fr m b rs = Inr cs' \<and> cs = (r, i) # cs')"
  by (auto simp: cget_def split: option.splits sum.splits)

lemma read_bucket_ok:
  "read_bucket fr m b rs = Inr cs \<longleftrightarrow>
   (\<forall>r \<in> set rs. non_negative_int (field_of b r) \<noteq> None)
   \<and> cs = map (\<lambda>r. (r, the (non_negative_int (field_of b r)))) rs"
proof (induction rs arbitrary: cs)
  case (Cons r rs)
  then show ?case unfolding read_bucket_Cons Cons.IH by auto
qed auto

lemma read_metric_ok:
  "read_metric fr metrics m = Inr cs \<longleftrightarrow>
   (\<forall>r \<in> set REQUIRED_RESOURCES. metric_count metrics m r \<noteq> None)
   \<and> cs = map (\<lambda>r. (r, the (metric_count metrics m r))) REQUIRED_RESOURCES"
proof -
  have "set REQUIRED_RESOURCES \<noteq> {}" by (simp add: REQUIRED_RESOURCES_def)
  then show ?thesis
    by (cases "field_of metrics m") (auto simp: read_metric_def metric_count_def read_bucket_ok)
qed

lemma read_metrics_ok:
  "snd (read_metrics fr metrics ms v) = Inr bs \<longleftrightarrow>
   (\<forall>m \<in> set ms. \<forall>r \<in> set REQUIRED_RESOURCES. metric_count metrics m r \<noteq> None)
   \<and> bs = map (\<lambda>m. (m, map (\<lambda>r. (r, the (metric_count metrics m r))) REQUIRED_RESOURCES)) ms"
proof (induction ms arbitrary: v bs)
  case (Cons m ms)
  show ?case
  proof (cases "read_metric fr metrics m")
    case (Inl e)
    then have "\<not> (\<forall>r \<in> set REQUIRED_RESOURCES. metric_count metrics m r \<noteq> None)"
      using read_metric_ok [of fr metrics m] by (metis sum.distinct(1))
    then show ?thesis using Inl by auto
  next
    case (Inr cs)
    then have "snd (read_metrics fr metrics (m # ms) v) = Inr bs \<longleftrightarrow>
      (\<exists>bs'. snd (read_metrics fr metrics ms (report_metric m cs v)) = Inr bs' \<and> bs = (m, cs) # bs')"
      by (auto split: prod.splits sum.splits)
    then show ?thesis using Inr unfolding read_metric_ok Cons.IH by auto
  qed
qed auto

lemma coerce_non_negative_int_end:
  assumes "coerce_non_negative_int fr cfg key dflt v = (r, v')"
  shows "r = non_negative_int (cget cfg key (PInt dflt))" "r \<noteq> None \<or> \<not> vd_passed v'"
  using assms by (auto simp: coerce_non_negative_int_def set_failed_def Let_def split: option.splits)

definition bucket_counts :: "dict \<Rightarrow> buckets" where
  "bucket_counts metrics =
     map (\<lambda>m. (m, map (\<lambda>r. (r, the (metric_count metrics m r))) REQUIRED_RESOURCES)) REQUIRED_METRICS"

lemma count_in_buckets:
  "m \<in> set REQUIRED_METRICS \<Longrightarrow> r \<in> set REQUIRED_RESOURCES \<Longrightarrow>
   count_in (bucket_counts metrics) m r = the (metric_count metrics m r)"
  by (auto simp: bucket_counts_def REQUIRED_METRICS_def REQUIRED_RESOURCES_def count_in_def dgetd_def)

lemma judge_metrics_well:
  "went_well (judge_metrics bs n g v) \<longleftrightarrow>
     n \<le> count_in bs ''delivered'' ''nodes'' \<and> g \<le> count_in bs ''delivered'' ''gpus''
   \<and> (\<forall>r \<in> set REQUIRED_RESOURCES. count_in bs ''healthy'' r \<le> count_in bs ''delivered'' r
        \<and> count_in bs ''reserved'' r \<le> count_in bs ''delivered'' r
        \<and> count_in bs ''active'' r \<le> count_in bs ''reserved'' r)"
  by (auto simp: judge_metrics_def Let_def below_minimum_def check_relationships_def SUBSETS_def
      REQUIRED_RESOURCES_def not_less)

lemma consistent_metrics_iff:
  "consistent_metrics metrics n g \<longleftrightarrow>
     (\<forall>m \<in> set REQUIRED_METRICS. \<forall>r \<in> set REQUIRED_RESOURCES. metric_count metrics m r \<noteq> None)
   \<and> went_well (judge_metrics (bucket_counts metrics) n g v)"
proof -
  let ?c = "\<lambda>m r. the (metric_count metrics m r)"
  have k: "{''delivered'', ''healthy'', ''reserved'', ''active''} \<subseteq> set REQUIRED_METRICS"
    "{''nodes'', ''gpus''} \<subseteq> set REQUIRED_RESOURCES"
    by (auto simp: REQUIRED_METRICS_def REQUIRED_RESOURCES_def)
  have w: "went_well (judge_metrics (bucket_counts metrics) n g v) \<longleftrightarrow>
      n \<le> ?c ''delivered'' ''nodes'' \<and> g \<le> ?c ''delivered'' ''gpus''
    \<and> (\<forall>r \<in> set REQUIRED_RESOURCES. ?c ''healthy'' r \<le> ?c ''delivered'' r
        \<and> ?c ''reserved'' r \<le> ?c ''delivered'' r \<and> ?c ''active'' r \<le> ?c ''reserved'' r)"
    unfolding judge_metrics_well using k by (simp add: count_in_buckets)
  show ?thesis
  proof
    assume "consistent_metrics metrics n g"
    then obtain c where
      c: "\<And>m r. m \<in> set REQUIRED_METRICS \<Longrightarrow> r \<in> set REQUIRED_RESOURCES \<Longrightarrow> metric_count metrics m r = Some (c m r)"
      and "n \<le> c ''delivered'' ''nodes''" "g \<le> c ''delivered'' ''gpus''"
      "\<forall>r \<in> set REQUIRED_RESOURCES. c ''healthy'' r \<le> c ''delivered'' r
        \<and> c ''reserved'' r \<le> c ''delivered'' r \<and> c ''active'' r \<le> c ''reserved'' r"
      unfolding consistent_metrics_def by blast
    then show "(\<forall>m \<in> set REQUIRED_METRICS. \<forall>r \<in> set REQUIRED_RESOURCES. metric_count metrics m r \<noteq> None)
        \<and> went_well (judge_metrics (bucket_counts metrics) n g v)"
      unfolding w using k by simp
  next
    assume a: "(\<forall>m \<in> set REQUIRED_METRICS. \<forall>r \<in> set REQUIRED_RESOURCES. metric_count metrics m r \<noteq> None)
        \<and> went_well (judge_metrics (bucket_counts metrics) n g v)"
    then have "\<forall>m \<in> set REQUIRED_METRICS. \<forall>r \<in> set REQUIRED_RESOURCES. metric_count metrics m r = Some (?c m r)"
      by force
    then show "consistent_metrics metrics n g"
      using a unfolding consistent_metrics_def w by (intro exI [of _ ?c]) blast
  qed
qed

lemma judge_buckets_well:
  "went_well (judge_buckets fr cfg metrics v) \<longleftrightarrow>
   (\<exists>n g. non_negative_int (cget cfg ''min_delivered_nodes'' (PInt 0)) = Some n
      \<and> non_negative_int (cget cfg ''min_delivered_gpus'' (PInt 0)) = Some g
      \<and> consistent_metrics metrics n g)"
proof (cases "snd (read_metrics fr metrics REQUIRED_METRICS v)")
  case (Inl e)
  have "snd (read_metrics fr metrics REQUIRED_METRICS v) = Inr (bucket_counts metrics) \<longleftrightarrow>
      (\<forall>m \<in> set REQUIRED_METRICS. \<forall>r \<in> set REQUIRED_RESOURCES. metric_count metrics m r \<noteq> None)"
    by (simp add: read_metrics_ok bucket_counts_def)
  then have "\<not> (\<forall>m \<in> set REQUIRED_METRICS. \<forall>r \<in> set REQUIRED_RESOURCES. metric_count metrics m r \<noteq> None)"
    using Inl by simp
  then have no: "\<not> consistent_metrics metrics n g" for n g
    unfolding consistent_metrics_iff [where v = v] by blast
  obtain v1 where "read_metrics fr metrics REQUIRED_METRICS v = (v1, Inl e)" using Inl by (metis prod.collapse)
  then show ?thesis by (simp add: judge_buckets_def no)
next
  case (Inr bs)
  then obtain v1 where r: "read_metrics fr metrics REQUIRED_METRICS v = (v1, Inr bs)" by (metis prod.collapse)
  have bs: "\<forall>m \<in> set REQUIRED_METRICS. \<forall>r \<in> set REQUIRED_RESOURCES. metric_count metrics m r \<noteq> None"
    "bs = bucket_counts metrics"
    using Inr unfolding read_metrics_ok bucket_counts_def by blast+
  obtain a v2 where a: "coerce_non_negative_int fr cfg ''min_delivered_nodes'' 0 v1 = (a, v2)" by force
  obtain b v3 where b: "coerce_non_negative_int fr cfg ''min_delivered_gpus'' 0 v2 = (b, v3)" by force
  have "\<not> vd_passed v3" if "a = None \<or> b = None"
    using that coerce_non_negative_int_end [OF a] a b
    by (auto simp: coerce_non_negative_int_def set_failed_def Let_def split: option.splits)
  moreover have "non_negative_int (cget cfg ''min_delivered_nodes'' (PInt 0)) = a"
    "non_negative_int (cget cfg ''min_delivered_gpus'' (PInt 0)) = b"
    using coerce_non_negative_int_end(1) [OF a] coerce_non_negative_int_end(1) [OF b] by simp_all
  ultimately show ?thesis
    unfolding judge_buckets_def r prod.case sum.case a b using bs
    by (cases a; cases b) (simp_all add: consistent_metrics_iff [where v = v3])
qed

lemma consistent_metrics_present:
  assumes "consistent_metrics metrics n g"
  shows "filter (\<lambda>m. sget metrics m = None) REQUIRED_METRICS = []"
proof -
  have "metric_count metrics m ''nodes'' \<noteq> None" if "m \<in> set REQUIRED_METRICS" for m
    using assms that by (auto simp: consistent_metrics_def REQUIRED_RESOURCES_def)
  then show ?thesis
    by (force simp: filter_empty_conv metric_count_def cget_def split: option.splits)
qed

text \<open>The metrics check passes exactly when all counts are there, are consistent and reach the
  configured minimum.\<close>

lemma governance_metrics_consistent:
  "passes (governance_metrics_check fr) cfg \<longleftrightarrow>
   (\<exists>so metrics n g. cget cfg ''step_output'' (PDict []) = PDict so
      \<and> truthy (field_of so ''success'') \<and> field_of so ''metrics'' = PDict metrics
      \<and> non_negative_int (cget cfg ''min_delivered_nodes'' (PInt 0)) = Some n
      \<and> non_negative_int (cget cfg ''min_delivered_gpus'' (PInt 0)) = Some g
      \<and> consistent_metrics metrics n g)"
proof (cases "cget cfg ''step_output'' (PDict [])")
  case so: (PDict so)
  show ?thesis
  proof (cases "field_of so ''metrics''")
    case (PDict metrics)
    then show ?thesis
      using consistent_metrics_present [of metrics]
      by (auto simp: passes_iff governance_metrics_check_def went_well_with_output so Let_def judge_buckets_well)
  qed (simp_all add: passes_iff governance_metrics_check_def went_well_with_output so)
qed (simp_all add: passes_iff went_well_with_output governance_metrics_check_def)

section \<open>What a passing index shows\<close>

lemma resource_problem_none: "snd (resource_problem r n) = [] \<longleftrightarrow> record_text ''resource_id'' r \<noteq> []"
  by (cases r) (auto simp: resource_problem_def Let_def record_text_def)

lemma judge_entries_clean:
  "snd (judge_entries rs (v, bad)) = [] \<longleftrightarrow> bad = [] \<and> (\<forall>(n, r) \<in> set rs. record_text ''resource_id'' r \<noteq> [])"
proof (induction rs arbitrary: v bad)
  case (Cons e rs)
  obtain n r where e: "e = (n, r)" by force
  obtain label problem where p: "resource_problem r n = (label, problem)" by force
  have "problem = [] \<longleftrightarrow> record_text ''resource_id'' r \<noteq> []"
    using resource_problem_none [of r n] p by simp
  then show ?case unfolding e by (simp add: p Let_def Cons.IH)
qed simp

definition stable_index :: "dict \<Rightarrow> pval list \<Rightarrow> bool" where
  "stable_index so resources \<longleftrightarrow>
     py_iter (py_or (field_of so ''unstable_identifiers'') (PList [])) = Inr []
   \<and> (\<forall>r \<in> set resources. record_text ''resource_id'' r \<noteq> [])
   \<and> distinct (map (record_text ''resource_id'') resources)
   \<and> (\<exists>r \<in> set resources. is_discovered r)"

lemma judge_index_well:
  "went_well (judge_index fr so resources unstable polls v) \<longleftrightarrow>
     unstable = [] \<and> (\<forall>r \<in> set resources. record_text ''resource_id'' r \<noteq> [])
   \<and> distinct (map (record_text ''resource_id'') resources) \<and> (\<exists>r \<in> set resources. is_discovered r)"
  (is "?well \<longleftrightarrow> _ \<and> ?named \<and> ?unique \<and> ?found")
proof -
  have "snd (judge_entries (numbered 0 resources) (w, [])) = [] \<longleftrightarrow> ?named" for w
    by (simp add: judge_entries_clean numbered_values)
  then have "?well \<longleftrightarrow> unstable = [] \<and> duplicate_ids resources ''resource_id'' = [] \<and> ?named
      \<and> filter is_discovered resources \<noteq> []"
    unfolding judge_index_def Let_def case_prod_beta by auto
  then show ?thesis using all_identified_distinct [of resources "''resource_id''"]
    by (auto simp: filter_empty_conv)
qed

text \<open>The discovery check passes exactly when the index was polled often enough, lost no identifier, lists as
  many resources as configured, each with its own identifier, and one of them was discovered.\<close>

lemma resource_index_stable:
  "passes (resource_discovery_check fr) cfg \<longleftrightarrow>
   (\<exists>so resources polls n p. cget cfg ''step_output'' (PDict []) = PDict so
      \<and> truthy (field_of so ''success'') \<and> field_of so ''resources'' = PList resources
      \<and> fst (parse_positive_int fr cfg ''min_resources'' 1 fresh_verdict) = Some n \<and> n \<le> int (length resources)
      \<and> fst (parse_positive_int fr cfg ''min_polls'' 2 fresh_verdict) = Some p
      \<and> field_of so ''polls'' = PInt polls \<and> p \<le> polls \<and> stable_index so resources)"
proof -
  obtain r1 v1 where p1: "parse_positive_int fr cfg ''min_resources'' 1 fresh_verdict = (r1, v1)" by force
  obtain r2 v2 where p2: "parse_positive_int fr cfg ''min_polls'' 2 v1 = (r2, v2)" by force
  have f: "fst (parse_positive_int fr cfg ''min_polls'' 2 fresh_verdict) = r2"
    using p2 by (auto simp: parse_positive_int_def Let_def split: pval.splits option.splits if_splits)
  have e: "\<not> vd_passed v2" if "r1 = None \<or> r2 = None"
    using that parse_positive_int_end [OF p1] parse_positive_int_end [OF p2] by (cases r1; cases r2) auto
  have i: "went_well (case py_iter w of Inl e \<Rightarrow> ExnRaised e v2 | Inr ids \<Rightarrow> f ids) \<longleftrightarrow>
    (\<exists>ids. py_iter w = Inr ids \<and> went_well (f ids))" for w f
    by (simp split: sum.split)
  show ?thesis
  proof (cases "cget cfg ''step_output'' (PDict [])")
    case so: (PDict so)
    show ?thesis
    proof (cases "field_of so ''resources''")
      case (PList resources)
      show ?thesis using e
        by (cases r1; cases r2; cases "field_of so ''polls''")
          (auto simp: passes_iff resource_discovery_check_def went_well_with_output so PList p1 p2 f i
            judge_index_well stable_index_def Let_def)
    qed (simp_all add: passes_iff resource_discovery_check_def went_well_with_output so)
  qed (simp_all add: passes_iff went_well_with_output resource_discovery_check_def)
qed

section \<open>Examples\<close>

definition demo_step :: "(pkey \<times> pval) list \<Rightarrow> dict" where
  "demo_step entries = [(KStr ''step_output'', PDict ((KStr ''success'', PBool True) # entries))]"

definition demo_metrics :: "int \<Rightarrow> dict" where
  "demo_metrics active = demo_step [(KStr ''metrics'', PDict (map (\<lambda>(m, n). (KStr m,
     PDict [(KStr ''nodes'', PInt n), (KStr ''gpus'', PInt (8 * n))]))
     [(''delivered'', 4), (''healthy'', 4), (''reserved'', 2), (''active'', active)]))]"

lemma metrics_examples:
  "passes (governance_metrics_check (\<lambda>r. ''x'')) (demo_metrics 2)"
  "\<not> passes (governance_metrics_check (\<lambda>r. ''x'')) (demo_metrics 3)"
  by code_simp+

definition demo_inventory :: "string list \<Rightarrow> dict" where
  "demo_inventory ids = demo_step [(KStr ''nodes'', PList (map (\<lambda>i. PDict
     [(KStr ''node_id'', PStr i), (KStr ''hardware_type'', PStr ''h''), (KStr ''account_id'', PStr ''a''),
      (KStr ''region'', PStr ''r''), (KStr ''health_state'', PStr ''Healthy''),
      (KStr ''created_at'', PStr ''t''), (KStr ''gpu_count'', PInt 8), (KStr ''in_use'', PBool False)]) ids))]"

lemma inventory_examples:
  "passes (fleet_management_check (\<lambda>r. ''x'') (\<lambda>t. t = ''t'')) (demo_inventory [''n1'', ''n2''])"
  "\<not> passes (fleet_management_check (\<lambda>r. ''x'') (\<lambda>t. t = ''t'')) (demo_inventory [''n1'', ''n1''])"
  by code_simp+

definition demo_index :: "pval list \<Rightarrow> dict" where
  "demo_index lost = demo_step [(KStr ''polls'', PInt 2), (KStr ''unstable_identifiers'', PList lost),
     (KStr ''resources'', PList [PDict [(KStr ''resource_id'', PStr ''r1''), (KStr ''discovered'', PBool True)]])]"

lemma index_examples:
  "passes (resource_discovery_check (\<lambda>r. ''x'')) (demo_index [])"
  "\<not> passes (resource_discovery_check (\<lambda>r. ''x'')) (demo_index [PStr ''r0''])"
  by code_simp+

end
