(* ===== verification/Json_Text.thy ===== *)
theory Json_Text
  imports Py_Repr
begin

text \<open>
  The JSON text that \<open>json.dumps\<close> writes for texts, optional texts and lists, with the compact
  separators and with or without \<open>ensure_ascii\<close>. The interface \<open>json_encoding\<close> states that a text
  can be read back in front of any other text; lists keep it, and every encoding used by
  the catalogue is an interpretation.
\<close>

section \<open>Writing\<close>

definition backslash :: char where
  "backslash = CHR 0x5C"

definition double_quote :: char where
  "double_quote = CHR 0x22"

definition json_char :: "bool \<Rightarrow> char \<Rightarrow> string" where
  "json_char ascii c =
     (if c = double_quote \<or> c = backslash then [backslash, c]
      else if c = CHR 0x0A then [backslash, CHR ''n'']
      else if c = CHR 0x0D then [backslash, CHR ''r'']
      else if c = CHR 0x09 then [backslash, CHR ''t'']
      else if c = CHR 0x0C then [backslash, CHR ''f'']
      else if c = CHR 0x08 then [backslash, CHR ''b'']
      else if code c < 32 \<or> ascii \<and> 126 < code c
      then [backslash, CHR ''u'', CHR ''0'', CHR ''0'', hex_digit (code c div 16), hex_digit (code c mod 16)]
      else [c])"

definition json_str :: "bool \<Rightarrow> string \<Rightarrow> string" where
  "json_str ascii s = [double_quote] @ concat (map (json_char ascii) s) @ [double_quote]"

definition json_opt :: "bool \<Rightarrow> string option \<Rightarrow> string" where
  "json_opt ascii v = (case v of None \<Rightarrow> ''null'' | Some s \<Rightarrow> json_str ascii s)"

definition json_list :: "('a \<Rightarrow> string) \<Rightarrow> 'a list \<Rightarrow> string" where
  "json_list enc xs = ''['' @ join '','' (map enc xs) @ '']''"

text \<open>An object from its keys and the texts of its values, in the order given.\<close>

definition json_member :: "bool \<Rightarrow> string \<times> string \<Rightarrow> string" where
  "json_member ascii kv = json_str ascii (fst kv) @ '':'' @ snd kv"

definition json_object :: "bool \<Rightarrow> (string \<times> string) list \<Rightarrow> string" where
  "json_object ascii members = ''{'' @ join '','' (map (json_member ascii) members) @ ''}''"

section \<open>Reading back one character\<close>

definition hex_value :: "char \<Rightarrow> nat" where
  "hex_value c = (if code c < 58 then code c - 48 else code c - 87)"

definition unescape :: "char \<Rightarrow> char" where
  "unescape c = (if c = CHR ''n'' then CHR 0x0A else if c = CHR ''r'' then CHR 0x0D
     else if c = CHR ''t'' then CHR 0x09 else if c = CHR ''f'' then CHR 0x0C
     else if c = CHR ''b'' then CHR 0x08 else c)"

definition json_read :: "string \<Rightarrow> char \<times> string" where
  "json_read t = (if hd t \<noteq> backslash then (hd t, tl t)
     else if hd (tl t) = CHR ''u''
     then (char_of (16 * hex_value (t ! 4) + hex_value (t ! 5)), drop 6 t)
     else (unescape (hd (tl t)), drop 2 t))"

lemma hex_value_digit: "n < 16 \<Longrightarrow> hex_value (hex_digit n) = n"
  by (auto simp: hex_value_def hex_digit_def code_def)

lemma code_less: "code c < 256"
  using nat_of_char_less_256 [of c] by (simp add: code_def)

lemma char_of_code [simp]: "char_of (code c) = c"
  by (simp add: code_def)

lemma read_json_char: "json_read (json_char ascii c @ r) = (c, r)"
proof -
  have "code c div 16 < 16" "code c mod 16 < 16" using code_less [of c] by auto
  then show ?thesis
    by (simp add: json_char_def json_read_def unescape_def backslash_def double_quote_def
        hex_value_digit)
qed

lemma json_char_unique: "json_char a c @ r = json_char a d @ s \<Longrightarrow> c = d \<and> r = s"
  by (metis prod.inject read_json_char)

lemma json_char_start: "\<exists>x t. json_char a c = x # t \<and> x \<noteq> double_quote"
  by (auto simp: json_char_def backslash_def double_quote_def)

lemma json_str_unique: "json_str a x @ r = json_str a y @ s \<Longrightarrow> x = y \<and> r = s"
proof (induction x arbitrary: y)
  case Nil
  then show ?case
    using json_char_start [of a "hd y"] by (cases y) (auto simp: json_str_def)
next
  case (Cons c x)
  then obtain d z where y: "y = d # z"
    using json_char_start [of a c] by (cases y) (auto simp: json_str_def)
  have "json_char a c @ concat (map (json_char a) x) @ double_quote # r
      = json_char a d @ concat (map (json_char a) z) @ double_quote # s"
    using Cons.prems by (simp add: y json_str_def)
  from json_char_unique [OF this] Cons.IH [of z] show ?case by (auto simp: y json_str_def)
qed

section \<open>Encodings that can be read back\<close>

locale json_encoding =
  fixes enc :: "'a \<Rightarrow> string"
  assumes unique: "enc x @ r = enc y @ s \<Longrightarrow> x = y \<and> r = s"
    and starts: "\<exists>c t. enc x = c # t \<and> c \<noteq> CHR '']''"
begin

lemma injective: "enc x = enc y \<longleftrightarrow> x = y"
  using unique [of x "[]" y "[]"] by auto

lemma sequence_unique:
  "join '','' (map enc xs) @ '']'' @ r = join '','' (map enc ys) @ '']'' @ s \<Longrightarrow> xs = ys \<and> r = s"
proof (induction xs arbitrary: ys)
  case Nil
  show ?case
  proof (cases ys)
    case (Cons y zs)
    then show ?thesis using Nil starts [of y] by (cases zs) auto
  qed (use Nil in simp)
next
  case (Cons x xs)
  show ?case
  proof (cases ys)
    case ys: Nil
    then show ?thesis using Cons.prems starts [of x] by (cases xs) auto
  next
    case ys: (Cons y zs)
    define rest where "rest = (\<lambda>ws t. (case ws of [] \<Rightarrow> [] | _ \<Rightarrow> '','' @ join '','' (map enc ws)) @ '']'' @ t)"
    have split_first: "join '','' (map enc (w # ws)) @ '']'' @ t = enc w @ rest ws t" for w ws t
      by (cases ws) (simp_all add: rest_def)
    have "enc x @ rest xs r = enc y @ rest zs s"
      using Cons.prems by (simp add: ys flip: split_first)
    then have "x = y" and e: "rest xs r = rest zs s" by (auto dest: unique)
    have "xs = zs \<and> r = s"
    proof (cases xs)
      case Nil
      then show ?thesis using e by (cases zs) (auto simp: rest_def)
    next
      case (Cons w ws)
      then have "join '','' (map enc xs) @ '']'' @ r = join '','' (map enc zs) @ '']'' @ s"
        using e by (cases zs) (auto simp: rest_def)
      then show ?thesis by (rule Cons.IH)
    qed
    then show ?thesis using \<open>x = y\<close> ys by simp
  qed
qed

lemma list_unique: "json_list enc xs @ r = json_list enc ys @ s \<Longrightarrow> xs = ys \<and> r = s"
  using sequence_unique [of xs r ys s] by (simp add: json_list_def)

end

interpretation js: json_encoding "json_str a" for a
proof
  show "json_str a x @ r = json_str a y @ s \<Longrightarrow> x = y \<and> r = s" for x r y s
    by (rule json_str_unique)
  show "\<exists>c t. json_str a x = c # t \<and> c \<noteq> CHR '']''" for x
    by (simp add: json_str_def double_quote_def)
qed

interpretation jo: json_encoding "json_opt a" for a
proof
  show "json_opt a x @ r = json_opt a y @ s \<Longrightarrow> x = y \<and> r = s" for x r y s
    using js.unique [of a "the x" r "the y" s]
    by (cases x; cases y) (auto simp: json_opt_def json_str_def double_quote_def)
  show "\<exists>c t. json_opt a x = c # t \<and> c \<noteq> CHR '']''" for x
    by (cases x) (auto simp: json_opt_def json_str_def double_quote_def)
qed

interpretation jl: json_encoding "json_list (json_str a)" for a
proof
  show "json_list (json_str a) x @ r = json_list (json_str a) y @ s \<Longrightarrow> x = y \<and> r = s" for x r y s
    by (rule js.list_unique)
  show "\<exists>c t. json_list (json_str a) x = c # t \<and> c \<noteq> CHR '']''" for x
    by (simp add: json_list_def)
qed

end
