(* ===== verification/Catalog.thy ===== *)
theory Catalog
  imports Step_Checks Json_Text "HOL-Library.Multiset"
begin

text \<open>
  \<open>isvtest.catalog\<close>: the walk over the wiring of the configurations, the placement of every wired
  name in a suite, the entries of the catalogue, and its identity, the digest of a canonical JSON
  text.

  The configurations are lists in the order in which \<open>sorted(rglob)\<close> and \<open>sorted(glob)\<close> return
  them, each with its parsed document; \<open>None\<close> and \<open>Inl\<close> stand for a file that cannot be read. The
  discovered classes are a parameter, a list in the order of discovery. Names, requirements and
  descriptions in the wiring are taken as texts. A set is a list without repetitions.
  \<open>hashlib.sha256\<close> over the UTF-8 encoding is the parameter \<open>sha\<close>.
\<close>

section \<open>The wiring of a document\<close>

type_synonym wired = "string \<times> string \<times> dict"

definition checks_in_mapping :: "string \<Rightarrow> pval \<Rightarrow> wired list" where
  "checks_in_mapping category mapping = (case mapping of
     PDict m \<Rightarrow> map (\<lambda>(k, params). (category, key_text k, case params of PDict d \<Rightarrow> d | _ \<Rightarrow> [])) m
   | _ \<Rightarrow> [])"

definition category_checks :: "string \<Rightarrow> pval \<Rightarrow> wired list" where
  "category_checks category cfg = (case cfg of
     PDict d \<Rightarrow> (case sget d ''checks'' of
         Some (PDict m) \<Rightarrow> checks_in_mapping category (PDict m)
       | Some (PList cs) \<Rightarrow> concat (map (checks_in_mapping category) cs)
       | Some _ \<Rightarrow> []
       | None \<Rightarrow> checks_in_mapping category cfg)
   | PList cs \<Rightarrow> concat (map (checks_in_mapping category) cs)
   | _ \<Rightarrow> [])"

definition iter_checks_from_data :: "pval \<Rightarrow> exn + wired list" where
  "iter_checks_from_data data =
     and_then (attr_get (py_or data (PDict [])) ''tests'' (PDict [])) (\<lambda>tests.
     and_then (attr_get tests ''validations'' (PDict [])) (\<lambda>validations.
     Inr (case validations of
         PDict d \<Rightarrow> concat (map (\<lambda>(k, c). category_checks (key_text k) c) d) | _ \<Rightarrow> [])))"

definition iter_config_checks :: "pval option \<Rightarrow> exn + (string \<times> dict) list" where
  "iter_config_checks document = (case document of
     None \<Rightarrow> Inr [] | Some data \<Rightarrow> map_sum id (map snd) (iter_checks_from_data data))"

section \<open>Labels and test ids\<close>

type_synonym attributes = "(string \<times> string list) list"

definition add_values :: "attributes \<Rightarrow> string \<Rightarrow> string list \<Rightarrow> attributes" where
  "add_values m name vs = (let old = dgetd m name []
     in dput m name (old @ remdups (filter (\<lambda>v. v \<notin> set old) vs)))"

fun collect :: "(dict \<Rightarrow> string list) \<Rightarrow> (string \<times> dict) list \<Rightarrow> attributes \<Rightarrow> attributes" where
  "collect pick [] m = m"
| "collect pick ((name, params) # checks) m = collect pick checks
     (if pick params = [] then m else add_values m name (pick params))"

definition declared_labels :: "dict \<Rightarrow> string list" where
  "declared_labels params = wiring_labels (PDict params)"

definition declared_test_ids :: "dict \<Rightarrow> string list" where
  "declared_test_ids params = (case field_of params ''test_id'' of
     PStr s \<Rightarrow> (if s \<noteq> [] \<and> s \<noteq> ''N/A'' then [s] else []) | _ \<Rightarrow> [])"

type_synonym config = "string \<times> pval option"

definition extract_values :: "(dict \<Rightarrow> string list) \<Rightarrow> config \<Rightarrow> exn + attributes" where
  "extract_values pick file = map_sum id (\<lambda>checks. collect pick checks []) (iter_config_checks (snd file))"

fun add_all :: "attributes \<Rightarrow> attributes \<Rightarrow> attributes" where
  "add_all m [] = m"
| "add_all m ((name, vs) # es) = add_all (add_values m name vs) es"

fun scan_configs :: "(dict \<Rightarrow> string list) \<Rightarrow> config list \<Rightarrow> attributes \<Rightarrow> exn + attributes" where
  "scan_configs pick [] m = Inr m"
| "scan_configs pick (f # fs) m =
     and_then (extract_values pick f) (\<lambda>found. scan_configs pick fs (add_all m found))"

text \<open>The values of a variant go up to its base name.\<close>

definition base_of :: "string \<Rightarrow> string" where
  "base_of name = hd (split_on CHR ''-'' name)"

fun propagate :: "attributes \<Rightarrow> attributes \<Rightarrow> attributes" where
  "propagate m [] = m"
| "propagate m ((name, vs) # es) = propagate
     (if base_of name \<noteq> name then add_values m (base_of name) vs else m) es"

definition build_check_attribute_map :: "(dict \<Rightarrow> string list) \<Rightarrow> config list option \<Rightarrow> exn + attributes" where
  "build_check_attribute_map pick configs = (case configs of
     None \<Rightarrow> Inr []
   | Some fs \<Rightarrow> and_then (scan_configs pick fs []) (\<lambda>m. Inr (propagate m m)))"

definition build_test_id_map :: "config list option \<Rightarrow> exn + attributes" where
  "build_test_id_map = build_check_attribute_map declared_test_ids"

definition build_label_map :: "config list option \<Rightarrow> exn + attributes" where
  "build_label_map = build_check_attribute_map declared_labels"

fun label_files :: "config list \<Rightarrow> attributes \<Rightarrow> exn + attributes" where
  "label_files [] m = Inr m"
| "label_files (f # fs) m = and_then (extract_values declared_labels f) (\<lambda>found.
     label_files fs (add_all m (map (\<lambda>l. (l, [fst f])) (concat (map snd found)))))"

definition build_label_file_map :: "config list option \<Rightarrow> exn + attributes" where
  "build_label_file_map configs = (case configs of None \<Rightarrow> Inr [] | Some fs \<Rightarrow> label_files fs [])"

section \<open>Suites\<close>

text \<open>A suite file: its stem, and its document or the error of reading it.\<close>

type_synonym suite_doc = "string \<times> (exn + pval)"

definition suite_docs :: "suite_doc list option \<Rightarrow> suite_doc list" where
  "suite_docs found = (case found of
     None \<Rightarrow> [] | Some docs \<Rightarrow> map (\<lambda>(stem, d). (stem, map_sum id (\<lambda>v. py_or v (PDict [])) d)) docs)"

definition suite_capability :: "pval \<Rightarrow> exn + string option" where
  "suite_capability data = and_then (attr_get data ''tests'' PNone) (\<lambda>tests.
     Inr (case py_or tests (PDict []) of
         PDict d \<Rightarrow> (case field_of d ''capability'' of
             PStr s \<Rightarrow> (if s \<noteq> [] then Some s else None) | _ \<Rightarrow> None)
       | _ \<Rightarrow> None))"

record placement =
  pl_suite :: string
  pl_capability :: "string option"
  pl_requires :: "string list"
  pl_composite :: bool
  pl_description :: string

definition suite_of :: "string \<Rightarrow> string option \<Rightarrow> string" where
  "suite_of stem capability = (case capability of Some c \<Rightarrow> c | None \<Rightarrow> canonical_suite_name stem)"

definition wiring_text :: "dict \<Rightarrow> string \<Rightarrow> string" where
  "wiring_text d k = (case field_of d k of PStr s \<Rightarrow> s | _ \<Rightarrow> [])"

definition placement_of :: "string \<Rightarrow> string option \<Rightarrow> dict \<Rightarrow> placement" where
  "placement_of stem capability params =
     \<lparr>pl_suite = suite_of stem capability, pl_capability = capability,
      pl_requires = wiring_requires (PDict params), pl_composite = is_composite (PDict params),
      pl_description = wiring_text params ''description''\<rparr>"

type_synonym suite_map = "(string \<times> placement) list"

fun place_checks :: "string \<Rightarrow> string option \<Rightarrow> wired list \<Rightarrow> suite_map \<Rightarrow> exn + suite_map" where
  "place_checks stem capability [] m = Inr m"
| "place_checks stem capability ((_, name, params) # checks) m =
     demand (\<not> dhas m name) (ValueError (''Suite wiring name '' @ repr_str name @ '' is not globally unique''))
       (place_checks stem capability checks (dput m name (placement_of stem capability params)))"

fun place_docs :: "suite_doc list \<Rightarrow> suite_map \<Rightarrow> exn + suite_map" where
  "place_docs [] m = Inr m"
| "place_docs ((stem, d) # docs) m =
     and_then d (\<lambda>data. and_then (suite_capability data) (\<lambda>capability.
     and_then (iter_checks_from_data data) (\<lambda>checks.
     and_then (place_checks stem capability checks m) (place_docs docs))))"

definition build_suite_map :: "suite_doc list option \<Rightarrow> exn + suite_map" where
  "build_suite_map found = place_docs (suite_docs found) []"

section \<open>Entries\<close>

record check_class =
  kc_name :: string
  kc_excluded :: bool
  kc_description :: string
  kc_module :: string

record catalog_entry =
  ct_name :: string
  ct_description :: string
  ct_labels :: "string list"
  ct_test_ids :: "string list"
  ct_source :: string
  ct_suite :: string
  ct_capability :: "string option"
  ct_requires :: "string list"

definition COMPOSITE_MODULE :: string where
  "COMPOSITE_MODULE = ''isvtest.core.composite''"

text \<open>The classes that are published, by name, and the names of the excluded ones.\<close>

fun class_meta :: "check_class list \<Rightarrow> (string \<times> check_class) list \<Rightarrow> (string \<times> check_class) list" where
  "class_meta [] m = m"
| "class_meta (k # ks) m = class_meta ks (if kc_excluded k then m else dput m (kc_name k) k)"

definition excluded_names :: "check_class list \<Rightarrow> string list" where
  "excluded_names classes = remdups (map kc_name (filter kc_excluded classes))"

definition variant_description :: "string \<Rightarrow> string \<Rightarrow> string \<Rightarrow> string" where
  "variant_description name base desc =
    (let variant = (if base \<noteq> name then drop (length base) name else []);
         bare = dropWhile (\<lambda>c. c = CHR ''-'') variant
     in if variant = [] then desc else if desc \<noteq> [] then desc @ '' ('' @ bare @ '')'' else bare)"

definition new_entry ::
  "attributes \<Rightarrow> attributes \<Rightarrow> string \<Rightarrow> placement \<Rightarrow> string \<Rightarrow> string \<Rightarrow> string list \<Rightarrow> catalog_entry" where
  "new_entry labels test_ids name p desc source class_labels =
     \<lparr>ct_name = name, ct_description = desc, ct_labels = sorted_set (class_labels @ dgetd labels name []),
      ct_test_ids = sorted_set (dgetd test_ids name []), ct_source = source, ct_suite = pl_suite p,
      ct_capability = pl_capability p, ct_requires = pl_requires p\<rparr>"

definition entry_of ::
  "check_class list \<Rightarrow> attributes \<Rightarrow> attributes \<Rightarrow> string \<times> placement \<Rightarrow> catalog_entry option" where
  "entry_of classes labels test_ids np = (case np of (name, p) \<Rightarrow>
     if pl_composite p
     then Some (new_entry labels test_ids name p (pl_description p) COMPOSITE_MODULE [])
     else (case resolve_class_key name (dkeys (class_meta classes []) @ excluded_names classes) of
         None \<Rightarrow> None
       | Some base \<Rightarrow>
           if base \<in> set (excluded_names classes) then None
           else (case dget (class_meta classes []) base of
               None \<Rightarrow> None
             | Some k \<Rightarrow> Some (new_entry labels test_ids name p
                 (variant_description name base (kc_description k)) (kc_module k)
                 (dgetd labels base [])))))"

definition build_catalog ::
  "suite_doc list option \<Rightarrow> config list option \<Rightarrow> check_class list \<Rightarrow> exn + catalog_entry list" where
  "build_catalog suites configs classes =
     and_then (build_suite_map suites) (\<lambda>m.
     and_then (build_label_map configs) (\<lambda>labels.
     and_then (build_test_id_map configs) (\<lambda>test_ids.
     Inr (List.map_filter (entry_of classes labels test_ids) m))))"

section \<open>Vocabularies\<close>

fun vocabularies :: "suite_doc list \<Rightarrow> string list \<Rightarrow> string list \<Rightarrow> exn + string list \<times> string list" where
  "vocabularies [] capabilities suites = Inr (sorted_set capabilities, sorted_set suites)"
| "vocabularies ((stem, d) # docs) capabilities suites =
     and_then d (\<lambda>data. and_then (suite_capability data) (\<lambda>capability. case capability of
         Some c \<Rightarrow> (if c \<in> set DECLARABLE_CAPABILITIES then vocabularies docs (c # capabilities) suites
           else vocabularies docs capabilities (canonical_suite_name stem # suites))
       | None \<Rightarrow> vocabularies docs capabilities (canonical_suite_name stem # suites)))"

definition suite_vocabularies :: "suite_doc list option \<Rightarrow> exn + string list \<times> string list" where
  "suite_vocabularies found = vocabularies (suite_docs found) [] []"

definition assert_disjoint_vocabulary :: "string list \<Rightarrow> string list \<Rightarrow> exn + unit" where
  "assert_disjoint_vocabulary capabilities suites =
    (let collisions = sorted_set (filter (\<lambda>s. s \<in> set (capabilities @ DECLARABLE_CAPABILITIES)) suites)
     in demand (collisions = []) (ValueError (''plain suite names collide with declarable capabilities: ''
          @ join '', '' collisions @ ''; rename the suite file(s) so the capability ''
          @ ''and suite namespaces stay disjoint'')) (Inr ()))"

section \<open>The document and its identity\<close>

definition CATALOG_SCHEMA_VERSION :: int where
  "CATALOG_SCHEMA_VERSION = 2"

record catalog_doc =
  cd_schema :: int
  cd_version :: string
  cd_build_ref :: string
  cd_capabilities :: "string list"
  cd_suites :: "string list"
  cd_entries :: "catalog_entry list"
  cd_digest :: string

text \<open>The entry the digest reads: set-like lists sorted, provenance left out.\<close>

record canonical =
  cn_capability :: "string option"
  cn_description :: string
  cn_labels :: "string list"
  cn_name :: string
  cn_requires :: "string list"
  cn_suite :: string
  cn_test_ids :: "string list"

definition canonical_entry :: "catalog_entry \<Rightarrow> canonical" where
  "canonical_entry e = \<lparr>cn_capability = ct_capability e, cn_description = ct_description e,
     cn_labels = sorted_set (ct_labels e), cn_name = ct_name e, cn_requires = sorted_set (ct_requires e),
     cn_suite = ct_suite e, cn_test_ids = sorted_set (ct_test_ids e)\<rparr>"

text \<open>\<open>json.dumps(entry, sort_keys=True, separators=(",", ":"))\<close>\<close>

definition json_entry :: "bool \<Rightarrow> canonical \<Rightarrow> string" where
  "json_entry ascii e = json_object ascii
     [(''capability'', json_opt ascii (cn_capability e)),
      (''description'', json_str ascii (cn_description e)),
      (''labels'', json_list (json_str ascii) (cn_labels e)),
      (''name'', json_str ascii (cn_name e)),
      (''requires'', json_list (json_str ascii) (cn_requires e)),
      (''suite'', json_str ascii (cn_suite e)),
      (''test_ids'', json_list (json_str ascii) (cn_test_ids e))]"

definition catalog_payload :: "catalog_doc \<Rightarrow> string" where
  "catalog_payload d = json_object False
     [(''capabilities'', json_list (json_str False) (sorted_set (cd_capabilities d))),
      (''entries'', json_list (json_entry False)
        (sort_key (json_entry True) (map canonical_entry (cd_entries d)))),
      (''schemaVersion'', int_str (cd_schema d)),
      (''suites'', json_list (json_str False) (sorted_set (cd_suites d)))]"

definition catalog_digest :: "(string \<Rightarrow> string) \<Rightarrow> catalog_doc \<Rightarrow> string" where
  "catalog_digest sha d = ''sha256:'' @ sha (catalog_payload d)"

definition catalog_document ::
  "(string \<Rightarrow> string) \<Rightarrow> suite_doc list option \<Rightarrow> catalog_entry list \<Rightarrow> string \<Rightarrow> string \<Rightarrow> exn + catalog_doc" where
  "catalog_document sha found entries version reference =
     and_then (suite_vocabularies found) (\<lambda>(capabilities, suites).
     and_then (assert_disjoint_vocabulary capabilities suites) (\<lambda>_.
     (let d = \<lparr>cd_schema = CATALOG_SCHEMA_VERSION, cd_version = version, cd_build_ref = reference,
        cd_capabilities = capabilities, cd_suites = suites, cd_entries = entries, cd_digest = []\<rparr>
      in Inr (d\<lparr>cd_digest := catalog_digest sha d\<rparr>))))"

section \<open>What the digest identifies\<close>

text \<open>The contract of a document: sets where the order means nothing, a multiset of entries.\<close>

type_synonym entry_meaning =
  "string \<times> string \<times> string set \<times> string option \<times> string \<times> string set \<times> string set"

definition entry_meaning :: "catalog_entry \<Rightarrow> entry_meaning" where
  "entry_meaning e = (ct_name e, ct_description e, set (ct_labels e), ct_capability e, ct_suite e,
     set (ct_requires e), set (ct_test_ids e))"

definition contract ::
  "catalog_doc \<Rightarrow> int \<times> string set \<times> string set \<times> entry_meaning multiset" where
  "contract d = (cd_schema d, set (cd_capabilities d), set (cd_suites d),
     image_mset entry_meaning (mset (cd_entries d)))"

lemma sorted_set_eq: "sorted_set xs = sorted_set ys \<longleftrightarrow> set xs = set ys"
proof
  assume "sorted_set xs = sorted_set ys"
  then show "set xs = set ys" by (metis set_remdups set_sort sorted_set_def)
next
  assume "set xs = set ys"
  then show "sorted_set xs = sorted_set ys"
    by (auto simp: sorted_set_def intro: sorted_distinct_set_unique)
qed

lemma set_sorted [simp]: "set (sorted_set xs) = set xs"
  by (simp add: sorted_set_def)

lemma json_entry_unique: "json_entry a e @ r = json_entry a f @ s \<Longrightarrow> e = f \<and> r = s"
  by (cases e; cases f) (auto simp: json_entry_def json_object_def json_member_def
      dest!: js.unique jo.unique jl.unique)

interpretation je: json_encoding "json_entry a" for a
proof
  show "json_entry a e @ r = json_entry a f @ s \<Longrightarrow> e = f \<and> r = s" for e r f s
    by (rule json_entry_unique)
  show "\<exists>c t. json_entry a e = c # t \<and> c \<noteq> CHR '']''" for e
    by (simp add: json_entry_def json_object_def)
qed

lemma sorted_keys: "map f (sort_key f xs) = sort (map f xs)"
  by (rule properties_for_sort [symmetric]) simp_all

lemma sorted_entries_eq:
  "sort_key (json_entry a) xs = sort_key (json_entry a) ys \<longleftrightarrow> mset xs = mset ys"
proof
  assume "sort_key (json_entry a) xs = sort_key (json_entry a) ys"
  then show "mset xs = mset ys" by (metis mset_sort)
next
  assume "mset xs = mset ys"
  then have "sort (map (json_entry a) xs) = sort (map (json_entry a) ys)"
    by (intro properties_for_sort [symmetric]) simp_all
  then have "map (json_entry a) (sort_key (json_entry a) xs) = map (json_entry a) (sort_key (json_entry a) ys)"
    by (simp add: sorted_keys)
  then show "sort_key (json_entry a) xs = sort_key (json_entry a) ys"
    using je.injective by (blast intro: map_injective injI)
qed

text \<open>Canonical entries and their meanings determine each other.\<close>

lemma canonical_multiset:
  "image_mset canonical_entry M = image_mset canonical_entry N
   \<longleftrightarrow> image_mset entry_meaning M = image_mset entry_meaning N"
proof
  let ?m = "\<lambda>c. (cn_name c, cn_description c, set (cn_labels c), cn_capability c, cn_suite c,
     set (cn_requires c), set (cn_test_ids c))"
  have m: "entry_meaning = ?m \<circ> canonical_entry"
    by (auto simp: fun_eq_iff entry_meaning_def canonical_entry_def)
  show "image_mset entry_meaning M = image_mset entry_meaning N"
    if "image_mset canonical_entry M = image_mset canonical_entry N"
    by (simp add: m that flip: multiset.map_comp)
  let ?c = "\<lambda>(n, d, l, c, s, r, t). \<lparr>cn_capability = c, cn_description = d,
     cn_labels = sorted_list_of_set l, cn_name = n, cn_requires = sorted_list_of_set r, cn_suite = s,
     cn_test_ids = sorted_list_of_set t\<rparr>"
  have c: "canonical_entry = ?c \<circ> entry_meaning"
    by (auto simp: fun_eq_iff entry_meaning_def canonical_entry_def sorted_set_def
        sorted_list_of_set_sort_remdups)
  show "image_mset canonical_entry M = image_mset canonical_entry N"
    if "image_mset entry_meaning M = image_mset entry_meaning N"
    by (simp add: c that flip: multiset.map_comp)
qed

lemma int_str_comma: "c \<in> set (int_str i) \<Longrightarrow> c \<noteq> CHR '',''"
  using nat_str_digits by (fastforce simp: int_str_def is_digit_def code_def split: if_splits)

lemma int_str_unique:
  assumes "int_str i @ CHR '','' # r = int_str j @ CHR '','' # s"
  shows "i = j \<and> r = s"
proof -
  have "takeWhile (\<lambda>c. c \<noteq> CHR '','') (int_str k @ CHR '','' # t) = int_str k" for k t
    using int_str_comma by (subst takeWhile_append2) auto
  with assms have "int_str i = int_str j" by metis
  with assms py_int_int_str show ?thesis by (metis append_Cons option.inject same_append_eq list.inject)
qed

text \<open>C34. The digest of a catalogue identifies its contract: two documents hash the same text exactly when
  they agree on the schema version, on the sets of capabilities and suites, and on the entries up
  to their order and the order and repetition of labels, requirements and test ids. The package
  version, the build reference and the source modules do not matter.\<close>

theorem payload_identifies_contract:
  "catalog_payload d = catalog_payload e \<longleftrightarrow> contract d = contract e"
proof -
  let ?entries = "\<lambda>d. sort_key (json_entry True) (map canonical_entry (cd_entries d))"
  have "catalog_payload d = catalog_payload e \<longleftrightarrow>
      cd_schema d = cd_schema e \<and> set (cd_capabilities d) = set (cd_capabilities e)
      \<and> set (cd_suites d) = set (cd_suites e) \<and> ?entries d = ?entries e"
    by (auto simp: catalog_payload_def json_object_def json_member_def sorted_set_eq [symmetric]
        dest!: jl.unique je.list_unique int_str_unique jl.injective [THEN iffD1])
  also have "?entries d = ?entries e \<longleftrightarrow>
      image_mset entry_meaning (mset (cd_entries d)) = image_mset entry_meaning (mset (cd_entries e))"
    by (simp add: sorted_entries_eq canonical_multiset)
  finally show ?thesis by (auto simp: contract_def)
qed

section \<open>What the catalogue publishes\<close>

text \<open>A wiring: the stem and the document of its suite, the wired name and its parameters. All
  wirings of the suites, in order.\<close>

type_synonym wiring = "string \<times> pval \<times> string \<times> dict"

definition wirings_of :: "string \<Rightarrow> pval \<Rightarrow> wired list \<Rightarrow> wiring list" where
  "wirings_of stem data checks = map (\<lambda>(_, name, params). (stem, data, name, params)) checks"

definition wirings :: "suite_doc list \<Rightarrow> wiring list" where
  "wirings docs = concat (map (\<lambda>(stem, d). case d of
     Inr data \<Rightarrow> (case iter_checks_from_data data of
         Inr checks \<Rightarrow> wirings_of stem data checks | Inl _ \<Rightarrow> [])
   | Inl _ \<Rightarrow> []) docs)"

definition wired_name :: "wiring \<Rightarrow> string" where
  "wired_name w = (case w of (_, _, name, _) \<Rightarrow> name)"

text \<open>The capability that a document declares: a nonempty text under \<open>tests.capability\<close>.\<close>

definition declared_capability :: "pval \<Rightarrow> string option" where
  "declared_capability data = (case data of
     PDict d \<Rightarrow> (case sget d ''tests'' of
         Some (PDict tests) \<Rightarrow> (case sget tests ''capability'' of
             Some (PStr (c # cs)) \<Rightarrow> Some (c # cs) | _ \<Rightarrow> None)
       | _ \<Rightarrow> None)
   | _ \<Rightarrow> None)"

text \<open>Where a wiring belongs: in the suite of the declared capability, else in the suite of the file,
  with the texts listed under \<open>requires\<close>.\<close>

definition wiring_entry :: "wiring \<Rightarrow> string \<times> string \<times> string option \<times> string list" where
  "wiring_entry w = (case w of (stem, data, name, params) \<Rightarrow>
     (name, case declared_capability data of Some c \<Rightarrow> c | None \<Rightarrow> canonical_suite_name stem,
      declared_capability data,
      case sget params ''requires'' of Some (PList xs) \<Rightarrow> strings_of xs | _ \<Rightarrow> []))"

text \<open>A composite is published, and a name that resolves to a class that is not excluded.\<close>

definition published :: "check_class list \<Rightarrow> string \<Rightarrow> bool \<Rightarrow> bool" where
  "published classes name composite \<longleftrightarrow> composite
     \<or> (case resolve_class_key name (dkeys (class_meta classes []) @ excluded_names classes) of
          None \<Rightarrow> False | Some base \<Rightarrow> base \<notin> set (excluded_names classes))"

definition wiring_published :: "check_class list \<Rightarrow> wiring \<Rightarrow> bool" where
  "wiring_published classes w = (case w of (_, _, name, params) \<Rightarrow>
     published classes name (case sget params ''compose'' of None \<Rightarrow> False | Some v \<Rightarrow> v \<noteq> PNone))"

text \<open>What an entry publishes of its wiring.\<close>

definition placed :: "catalog_entry \<Rightarrow> string \<times> string \<times> string option \<times> string list" where
  "placed e = (ct_name e, ct_suite e, ct_capability e, ct_requires e)"

lemma suite_capability_declared:
  assumes "suite_capability data = Inr capability"
  shows "capability = declared_capability data"
proof (cases data)
  case (PDict d)
  then show ?thesis using assms
    by (cases "sget d ''tests''") (auto simp: suite_capability_def declared_capability_def py_or_def cget_def
        split: option.splits pval.splits list.splits if_splits)
qed (use assms in \<open>simp_all add: suite_capability_def and_then_Inr\<close>)

text \<open>The row of the suite map that a wiring makes.\<close>

definition row_of :: "wiring \<Rightarrow> string \<times> placement" where
  "row_of w = (case w of (stem, data, name, params) \<Rightarrow>
     (name, placement_of stem (declared_capability data) params))"

lemma place_checks_rows:
  "place_checks stem capability checks m = Inr m' \<Longrightarrow> capability = declared_capability data \<Longrightarrow>
    m' = m @ map row_of (wirings_of stem data checks) \<and> (distinct (dkeys m) \<longrightarrow> distinct (dkeys m'))"
proof (induction stem capability checks m rule: place_checks.induct)
  case (2 stem capability c name params checks m)
  then have fresh: "name \<notin> set (dkeys m)" and "place_checks stem capability checks
      (dput m name (placement_of stem capability params)) = Inr m'"
    by (simp_all add: demand_Inr dget_None_iff)
  with 2(1) 2(3) have "m' = dput m name (placement_of stem capability params) @ map row_of (wirings_of stem data checks)
      \<and> (distinct (dkeys (dput m name (placement_of stem capability params))) \<longrightarrow> distinct (dkeys m'))"
    unfolding dget_None_iff by (metis (no_types, lifting))
  moreover have "distinct (dkeys m) \<longrightarrow> distinct (dkeys (dput m name (placement_of stem capability params)))"
    using distinct_dput by blast
  moreover have "dput m name (placement_of stem capability params) @ map row_of (wirings_of stem data checks)
      = m @ map row_of (wirings_of stem data ((c, name, params) # checks))"
    using fresh 2(3) by (simp add: dput_fresh wirings_of_def row_of_def)
  ultimately show ?case by metis
qed (simp add: wirings_of_def)

lemma place_docs_rows:
  "place_docs docs m = Inr m' \<Longrightarrow> m' = m @ map row_of (wirings docs)
     \<and> (distinct (dkeys m) \<longrightarrow> distinct (dkeys m'))"
proof (induction docs m rule: place_docs.induct)
  case (2 stem d docs m)
  then obtain data capability checks m1 where d: "d = Inr data" "suite_capability data = Inr capability"
      and c: "iter_checks_from_data data = Inr checks"
      and p: "place_checks stem capability checks m = Inr m1" and r: "place_docs docs m1 = Inr m'"
    by (auto simp: and_then_Inr)
  have "wirings ((stem, d) # docs) = wirings_of stem data checks @ wirings docs"
    by (simp add: wirings_def d(1) c)
  with 2(1) [OF d c p r] place_checks_rows [OF p suite_capability_declared [OF d(2)]]
  show ?case by (metis append_assoc map_append)
qed (simp add: wirings_def)

lemma entry_of_published:
  "entry_of classes labels ids np = None \<longleftrightarrow> \<not> published classes (fst np) (pl_composite (snd np))"
proof (cases "pl_composite (snd np)")
  case False
  show ?thesis
  proof (cases "resolve_class_key (fst np) (dkeys (class_meta classes []) @ excluded_names classes)")
    case (Some base)
    then have "base \<in> set (dkeys (class_meta classes [])) \<or> base \<in> set (excluded_names classes)"
      using resolve_class_key_cases by force
    with Some False show ?thesis
      by (auto simp: entry_of_def published_def split: prod.split option.split dest: weak_map_of_SomeI)
  qed (use False in \<open>auto simp: entry_of_def published_def split: prod.split\<close>)
qed (auto simp: entry_of_def published_def split: prod.split)

lemma row_published: "published classes (fst (row_of w)) (pl_composite (snd (row_of w))) \<longleftrightarrow> wiring_published classes w"
  by (simp add: row_of_def placement_of_def wiring_published_def is_composite_def split: prod.split)

lemma entry_of_row: "entry_of classes labels ids (row_of w) = Some e \<Longrightarrow> placed e = wiring_entry w"
  by (auto simp: entry_of_def placed_def row_of_def wiring_entry_def new_entry_def placement_of_def
      suite_of_def wiring_requires_def split: prod.splits option.splits if_splits)

lemma placed_entries:
  "map placed (List.map_filter (entry_of classes labels ids) (map row_of ws)) =
     map wiring_entry (filter (wiring_published classes) ws)"
proof (induction ws)
  case (Cons w ws)
  then show ?case
    using entry_of_published [of classes labels ids "row_of w"] entry_of_row [of classes labels ids w]
    by (cases "entry_of classes labels ids (row_of w)") (auto simp: row_published)
qed simp

lemma row_names: "dkeys (map row_of ws) = map wired_name ws"
  by (induction ws) (auto simp: row_of_def wired_name_def)

text \<open>C35. A catalogue that is built publishes the wiring of the suites: its entries are, in order, the
  wirings whose name is that of a composite or of a known class that is not excluded. Each appears
  with its name, the capability that its document declares, the suite of that capability, or of
  the file if the document declares none, and the requirements it lists. The other wirings are left out,
  and no two suites wire the same name.\<close>

theorem catalog_lists_wiring:
  assumes "build_catalog suites configs classes = Inr entries"
  shows "map placed entries = map wiring_entry (filter (wiring_published classes) (wirings (suite_docs suites)))
    \<and> distinct (map wired_name (wirings (suite_docs suites)))"
proof -
  obtain m labels ids where "place_docs (suite_docs suites) [] = Inr m"
      and e: "entries = List.map_filter (entry_of classes labels ids) m"
    using assms by (auto simp: build_catalog_def build_suite_map_def and_then_Inr)
  from place_docs_rows [OF this(1)] have m: "m = map row_of (wirings (suite_docs suites))"
    and d: "distinct (dkeys m)" by (simp, metis distinct.simps(1) list.map(1))
  show ?thesis
    using d unfolding e m placed_entries row_names by simp
qed

definition demo_suite :: "string \<Rightarrow> (string \<times> dict) list \<Rightarrow> pval" where
  "demo_suite capability checks = PDict [(KStr ''tests'', PDict
     [(KStr ''capability'', PStr capability),
      (KStr ''validations'', PDict [(KStr ''group'', PDict [(KStr ''checks'',
         PDict (map (\<lambda>(n, d). (KStr n, PDict d)) checks))])])])]"

definition demo_suite_docs :: "suite_doc list" where
  "demo_suite_docs =
     [(''iam'', Inr (demo_suite '''' [(''UserCheck'', [(KStr ''requires'', PList [PStr ''vm''])]),
        (''HiddenCheck'', []), (''All'', [(KStr ''compose'', PList [PStr ''UserCheck''])])])),
      (''k8s'', Inr (demo_suite ''kubernetes'' [(''UserCheck-admin'', []), (''Unknown'', [])]))]"

definition demo_catalog_classes :: "check_class list" where
  "demo_catalog_classes = [\<lparr>kc_name = ''UserCheck'', kc_excluded = False, kc_description = ''Users'', kc_module = ''iam''\<rparr>,
     \<lparr>kc_name = ''HiddenCheck'', kc_excluded = True, kc_description = [], kc_module = ''iam''\<rparr>]"

lemma demo_catalog_builds:
  "(case build_catalog (Some demo_suite_docs) None demo_catalog_classes of
      Inr es \<Rightarrow> map ct_name es = [''UserCheck'', ''All'', ''UserCheck-admin''] | Inl _ \<Rightarrow> False)"
  by code_simp

theorem catalog_lists_wiring_witness:
  "\<exists>entries. build_catalog (Some demo_suite_docs) None demo_catalog_classes = Inr entries
    \<and> map placed entries = [(''UserCheck'', ''iam'', None, [''vm'']), (''All'', ''iam'', None, []),
        (''UserCheck-admin'', ''kubernetes'', Some ''kubernetes'', [])]"
proof -
  obtain entries where e: "build_catalog (Some demo_suite_docs) None demo_catalog_classes = Inr entries"
    using demo_catalog_builds by (auto split: sum.splits)
  have "map wiring_entry (filter (wiring_published demo_catalog_classes) (wirings (suite_docs (Some demo_suite_docs))))
      = [(''UserCheck'', ''iam'', None, [''vm'']), (''All'', ''iam'', None, []),
        (''UserCheck-admin'', ''kubernetes'', Some ''kubernetes'', [])]"
    by code_simp
  with catalog_lists_wiring [OF e] e show ?thesis by simp
qed

end
