(* ===== verification/Quota_Host.thy ===== *)
theory Quota_Host
  imports Storage_Conformance Redaction
begin

text \<open>
  What the two quota enforcement checks of \<open>isvtest.validations\<close> share: the commands they run on a
  cluster or on the host, how a volume is acquired, and the loop that writes past a limit.

  The host, the cluster and the storage backend are one state \<open>'w\<close>. The record \<open>quota_env\<close> holds
  what is outside the program: the command runner, \<open>kubectl apply\<close> of a rendered manifest, the
  clock, temporary directories and run ids, \<open>json.loads\<close>, and the text of exceptions. An
  exception is a \<open>storage_error\<close>; \<open>PythonError\<close> is one that is not of the storage contract. Local
  variables that the \<open>finally\<close> block reads are the record \<open>acquired\<close>. Log lines are left out.
\<close>

section \<open>The environment\<close>

record command_result =
  cr_exit_code :: int
  cr_stdout :: string
  cr_stderr :: string

datatype manifest =
    PvcManifest string string string string string
  | PodManifest string string string

record 'w quota_env =
  qe_run :: "string \<Rightarrow> int \<Rightarrow> 'w \<Rightarrow> command_result \<times> 'w"
  qe_apply :: "manifest \<Rightarrow> 'w \<Rightarrow> (int \<times> string) \<times> 'w"
  qe_now :: "'w \<Rightarrow> rat"
  qe_sleep :: "int \<Rightarrow> 'w \<Rightarrow> 'w"
  qe_mkdtemp :: "string \<Rightarrow> 'w \<Rightarrow> string \<times> 'w"
  qe_run_id :: "'w \<Rightarrow> string \<times> 'w"
  qe_json :: "string \<Rightarrow> string + pval"
  qe_kubectl :: "string option"
  qe_text :: "string \<Rightarrow> string"
  qe_float :: "rat \<Rightarrow> string"

record settings =
  qs_storage_class :: string
  qs_pvc_name :: string
  qs_pvc_namespace :: string
  qs_pod_name :: string
  qs_pvc_size :: string
  qs_create_hard :: int
  qs_enforce_hard :: int
  qs_volume_size :: int
  qs_bind_timeout :: int
  qs_write_timeout :: int
  qs_ns_prefix :: string
  qs_timeout :: int

text \<open>\<open>aq_subdir\<close> is the \<open>subdir\<close> or \<open>workdir\<close>; the flags say what was created.\<close>

record acquired =
  aq_namespace :: bool
  aq_pvc :: bool
  aq_pod :: bool
  aq_volume_id :: string
  aq_subdir :: string
  aq_mount_dir :: string
  aq_mounted :: bool

definition nothing_acquired :: acquired where
  "nothing_acquired = \<lparr>aq_namespace = False, aq_pvc = False, aq_pod = False, aq_volume_id = [],
     aq_subdir = [], aq_mount_dir = [], aq_mounted = False\<rparr>"

record 'w quota_state =
  qx_verdict :: verdict
  qx_acquired :: acquired
  qx_world :: 'w

type_synonym ('w, 'a) act = "('w quota_state, 'a) effect"

section \<open>Sequences, handlers, final blocks\<close>

definition ret :: "'a \<Rightarrow> ('w, 'a) act" where
  "ret a q = (Inr a, q)"

definition run_then :: "('w, 'a) act \<Rightarrow> ('a \<Rightarrow> ('w, 'b) act) \<Rightarrow> ('w, 'b) act" where
  "run_then m f q = (case m q of (Inl e, q') \<Rightarrow> (Inl e, q') | (Inr a, q') \<Rightarrow> f a q')"

text \<open>An exception that the handler does not take goes on.\<close>

definition catching :: "('w, 'a) act \<Rightarrow> (storage_error \<Rightarrow> ('w, 'a) act option) \<Rightarrow> ('w, 'a) act" where
  "catching m handler q = (case m q of
     (Inl e, q') \<Rightarrow> (case handler e of None \<Rightarrow> (Inl e, q') | Some h \<Rightarrow> h q')
   | (Inr a, q') \<Rightarrow> (Inr a, q'))"

text \<open>The block of \<open>finally\<close> returns nothing and raises nothing.\<close>

definition finally_do :: "('w, 'a) act \<Rightarrow> ('w quota_state \<Rightarrow> 'w quota_state) \<Rightarrow> ('w, 'a) act" where
  "finally_do m cleanup q = (case m q of (r, q') \<Rightarrow> (r, cleanup q'))"

definition acquire :: "(acquired \<Rightarrow> acquired) \<Rightarrow> ('w, unit) act" where
  "acquire f q = (Inr (), q\<lparr>qx_acquired := f (qx_acquired q)\<rparr>)"

definition note_subtest :: "string \<Rightarrow> bool \<Rightarrow> string \<Rightarrow> bool \<Rightarrow> ('w, unit) act" where
  "note_subtest name ok m skipped q =
     (Inr (), q\<lparr>qx_verdict := report_subtest (qx_verdict q) name ok m skipped\<rparr>)"

text \<open>\<open>self.report_subtest(name, False, message); return False\<close>\<close>

definition fail_with :: "string \<Rightarrow> string \<Rightarrow> ('w, bool) act" where
  "fail_with name m = run_then (note_subtest name False m False) (\<lambda>_. ret False)"

text \<open>\<open>except (StorageApiError, NotFoundError)\<close>: every error of the contract.\<close>

fun contract_error :: "storage_error \<Rightarrow> bool" where
  "contract_error (PythonError c) = False"
| "contract_error e = True"

fun not_found :: "storage_error \<Rightarrow> bool" where
  "not_found (NotFoundError m) = True"
| "not_found e = False"

definition on_contract_error :: "(storage_error \<Rightarrow> ('w, 'a) act) \<Rightarrow> storage_error \<Rightarrow> ('w, 'a) act option" where
  "on_contract_error h e = (if contract_error e then Some (h e) else None)"

section \<open>Calls\<close>

definition in_world :: "('w \<Rightarrow> 'a \<times> 'w) \<Rightarrow> ('w, 'a) act" where
  "in_world f q = (case f (qx_world q) of (a, w) \<Rightarrow> (Inr a, q\<lparr>qx_world := w\<rparr>))"

definition call :: "'w provider \<Rightarrow> request \<Rightarrow> ('w, reply) act" where
  "call api rq q = (case p_call api rq (qx_world q) of (a, w) \<Rightarrow> (a, q\<lparr>qx_world := w\<rparr>))"

definition command :: "'w quota_env \<Rightarrow> string \<Rightarrow> int \<Rightarrow> ('w, command_result) act" where
  "command env cmd timeout = in_world (qe_run env cmd timeout)"

definition sleep :: "'w quota_env \<Rightarrow> int \<Rightarrow> ('w, unit) act" where
  "sleep env seconds = in_world (\<lambda>w. ((), qe_sleep env seconds w))"

text \<open>The prefix of every kubectl command.\<close>

definition kubectl_base :: "'w quota_env \<Rightarrow> string" where
  "kubectl_base env = (case qe_kubectl env of None \<Rightarrow> ''kubectl'' | Some base \<Rightarrow> base)"

definition exec_pod :: "'w quota_env \<Rightarrow> string \<Rightarrow> string \<Rightarrow> string \<Rightarrow> int \<Rightarrow> ('w, command_result) act" where
  "exec_pod env namespace pod inner timeout = command env
     (kubectl_base env @ '' exec -n '' @ shlex_quote namespace @ '' '' @ shlex_quote pod
       @ '' -- sh -c '' @ shlex_quote inner) timeout"

text \<open>\<open>timeout or self.timeout\<close>\<close>

definition timeout_or :: "int \<Rightarrow> settings \<Rightarrow> int" where
  "timeout_or t cfg = (if t = 0 then qs_timeout cfg else t)"

definition dd_command :: "string \<Rightarrow> int \<Rightarrow> string" where
  "dd_command path count_mib = ''dd if=/dev/zero of='' @ shlex_quote path @ '' bs=1M count='' @ int_str count_mib
     @ '' 2>&1; ec=$?; sync; exit $ec''"

definition dd_pod :: "'w quota_env \<Rightarrow> settings \<Rightarrow> string \<Rightarrow> string \<Rightarrow> string \<Rightarrow> int \<Rightarrow> ('w, command_result) act" where
  "dd_pod env cfg namespace pod path count_mib =
     exec_pod env namespace pod (dd_command path count_mib) (timeout_or (qs_write_timeout cfg) cfg)"

definition dd_local :: "'w quota_env \<Rightarrow> settings \<Rightarrow> string \<Rightarrow> string \<Rightarrow> int \<Rightarrow> ('w, command_result) act" where
  "dd_local env cfg mount_dir relpath count_mib =
    (let slash = (\<lambda>c. c = CHR ''/'');
         path = rev (dropWhile slash (rev mount_dir)) @ ''/'' @ dropWhile slash relpath
     in command env (dd_command path count_mib) (timeout_or (qs_write_timeout cfg) cfg))"

definition detail_of :: "command_result \<Rightarrow> string" where
  "detail_of r = (if strip (cr_stderr r) \<noteq> [] then strip (cr_stderr r) else strip (cr_stdout r))"

section \<open>Acquiring a volume\<close>

definition mount_native_volume :: "'w quota_env \<Rightarrow> settings \<Rightarrow> mount_spec \<Rightarrow> string \<Rightarrow> ('w, bool) act" where
  "mount_native_volume env cfg mount mount_dir =
    (let opts = (case mt_options mount of None \<Rightarrow> [] | Some os \<Rightarrow> if os = [] then [] else '' -o '' @ shlex_quote os)
     in run_then (command env (''mount -t '' @ shlex_quote (mt_fs_type mount) @ opts @ '' ''
          @ shlex_quote (mt_source mount) @ '' '' @ shlex_quote mount_dir) (qs_timeout cfg))
        (\<lambda>r. ret (cr_exit_code r = 0)))"

definition create_namespace :: "'w quota_env \<Rightarrow> settings \<Rightarrow> string \<Rightarrow> ('w, bool) act" where
  "create_namespace env cfg namespace =
     run_then (command env (kubectl_base env @ '' create namespace '' @ shlex_quote namespace) (qs_timeout cfg))
       (\<lambda>r. ret (cr_exit_code r = 0))"

definition provision_pvc :: "'w quota_env \<Rightarrow> settings \<Rightarrow> string \<Rightarrow> string \<Rightarrow> ('w, bool) act" where
  "provision_pvc env cfg namespace pvc =
     run_then (in_world (qe_apply env
         (PvcManifest namespace pvc (qs_storage_class cfg) ''ReadWriteMany'' (qs_pvc_size cfg))))
       (\<lambda>(rc, err). ret (rc = 0))"

text \<open>\<open>_get_pvc_json\<close>: the payload, or the error.\<close>

definition get_pvc_json :: "'w quota_env \<Rightarrow> settings \<Rightarrow> string \<Rightarrow> string \<Rightarrow> ('w, string + dict) act" where
  "get_pvc_json env cfg namespace pvc =
     run_then (command env (kubectl_base env @ '' get pvc '' @ shlex_quote pvc @ '' -n ''
         @ shlex_quote namespace @ '' -o json'') (qs_timeout cfg))
     (\<lambda>r. let what = ''PVC '' @ repr_str pvc; out = strip (cr_stdout r)
        in if cr_exit_code r \<noteq> 0
           then ret (Inl (if detail_of r \<noteq> [] then detail_of r else ''exit '' @ int_str (cr_exit_code r)))
           else if out = [] then ret (Inl (''Failed to parse '' @ what @ '': empty stdout''))
           else (case qe_json env out of
               Inl e \<Rightarrow> ret (Inl (''Failed to parse '' @ what @ '': '' @ e))
             | Inr (PDict d) \<Rightarrow> ret (Inr d)
             | Inr w \<Rightarrow> ret (Inl (''Failed to parse '' @ what @ '': expected JSON object, got '' @ type_name w))))"

text \<open>\<open>(payload.get(outer) or {}).get(inner)\<close>\<close>

definition nested_get :: "dict \<Rightarrow> string \<Rightarrow> string \<Rightarrow> ('w, pval) act" where
  "nested_get payload outer inner = (case py_or (field_of payload outer) (PDict []) of
     PDict d \<Rightarrow> ret (field_of d inner) | w \<Rightarrow> raises wrong_reply)"

text \<open>One unit of fuel for each poll. Each poll sleeps two seconds, so half the timeout and one more are
  enough on a clock that advances by the seconds slept.\<close>

fun poll_pvc_bound ::
  "nat \<Rightarrow> rat \<Rightarrow> 'w quota_env \<Rightarrow> settings \<Rightarrow> string \<Rightarrow> string \<Rightarrow> ('w, bool) act" where
  "poll_pvc_bound 0 deadline env cfg namespace pvc = ret False"
| "poll_pvc_bound (Suc n) deadline env cfg namespace pvc = (\<lambda>q.
     if deadline \<le> qe_now env (qx_world q) then ret False q
     else run_then (get_pvc_json env cfg namespace pvc) (\<lambda>got.
       run_then (case got of
           Inl e \<Rightarrow> ret False
         | Inr payload \<Rightarrow> run_then (nested_get payload ''status'' ''phase'') (\<lambda>p. ret (p = PStr ''Bound'')))
       (\<lambda>bound. if bound then ret True
          else run_then (sleep env 2) (\<lambda>_. poll_pvc_bound n deadline env cfg namespace pvc))) q)"

definition wait_pod_ready ::
  "'w quota_env \<Rightarrow> settings \<Rightarrow> string \<Rightarrow> string \<Rightarrow> ('w, bool \<times> string) act" where
  "wait_pod_ready env cfg namespace pod =
     run_then (command env (kubectl_base env @ '' wait --for=condition=Ready --timeout=''
         @ int_str (qs_bind_timeout cfg) @ ''s -n '' @ shlex_quote namespace @ '' pod/'' @ shlex_quote pod)
         (qs_bind_timeout cfg + 30))
       (\<lambda>r. ret (if cr_exit_code r = 0 then (True, []) else (False, detail_of r)))"

definition launch_mount_pod ::
  "'w quota_env \<Rightarrow> settings \<Rightarrow> string \<Rightarrow> string \<Rightarrow> string \<Rightarrow> ('w, bool) act" where
  "launch_mount_pod env cfg namespace pod pvc =
     run_then (in_world (qe_apply env (PodManifest namespace pod pvc))) (\<lambda>(rc, err).
       if rc \<noteq> 0 then ret False
       else run_then (wait_pod_ready env cfg namespace pod) (\<lambda>(ready, werr).
         if \<not> ready then ret False
         else (\<lambda>q. poll_pvc_bound 6 (qe_now env (qx_world q) + 10) env cfg namespace pvc q)))"

text \<open>The volume of the first that matches the handle of the persistent volume.\<close>

definition matches_handle :: "string \<Rightarrow> volume \<Rightarrow> bool" where
  "matches_handle handle vol \<longleftrightarrow>
     (case vol_csi vol of Some c \<Rightarrow> csi_volume_handle c = handle | None \<Rightarrow> False)
     \<or> (let path = dgetd (vol_attributes vol) ''path'' []
        in suffix (if path = [] then [CHR 0x00] else path) handle)"

definition volume_by_handle ::
  "'w quota_env \<Rightarrow> 'w provider \<Rightarrow> string option \<Rightarrow> string \<Rightarrow> ('w, string + volume) act" where
  "volume_by_handle env api tenant handle =
     run_then (catching (run_then (call api (GetVolume \<lparr>gv_volume_id = handle, gv_tenant_id = tenant\<rparr>))
         (\<lambda>answer. case answer of VolumeReply vol \<Rightarrow> ret (Some vol) | _ \<Rightarrow> raises wrong_reply))
         (on_contract_error (\<lambda>e. ret None)))
     (\<lambda>found. case found of
        Some vol \<Rightarrow> ret (Inr vol)
      | None \<Rightarrow> catching (run_then
            (call api (ListVolumes \<lparr>lv_tenant_id = tenant, lv_ids = [], lv_tag_filters = []\<rparr>))
            (\<lambda>answer. case answer of
               Volumes vs \<Rightarrow> ret (case find (matches_handle handle) vs of
                   Some vol \<Rightarrow> Inr vol
                 | None \<Rightarrow> Inl (''no shim volume matches PV handle '' @ repr_str handle))
             | _ \<Rightarrow> raises wrong_reply))
          (on_contract_error (\<lambda>e. ret (Inl (raised (qe_text env) ''list_volumes'' e)))))"

definition resolve_volume ::
  "'w quota_env \<Rightarrow> settings \<Rightarrow> 'w provider \<Rightarrow> string \<Rightarrow> string \<Rightarrow> string option \<Rightarrow> ('w, string + volume) act" where
  "resolve_volume env cfg api namespace pvc tenant =
     run_then (get_pvc_json env cfg namespace pvc) (\<lambda>got. case got of
       Inl err \<Rightarrow> ret (Inl (''kubectl get pvc failed: '' @ err))
     | Inr payload \<Rightarrow> run_then (nested_get payload ''spec'' ''volumeName'') (\<lambda>name.
        let pv = py_str (qe_float env) (py_or name (PStr []))
        in if pv = [] then ret (Inl ''PVC has no spec.volumeName (not Bound?)'')
           else run_then (command env (kubectl_base env @ '' get pv '' @ shlex_quote pv @ '' -o jsonpath=''
               @ shlex_quote ''{.spec.csi.volumeHandle}'') (qs_timeout cfg)) (\<lambda>r.
             let handle = strip (cr_stdout r)
             in if cr_exit_code r \<noteq> 0 \<or> handle = []
                then ret (Inl (''could not read PV '' @ repr_str pv @ '' csi.volumeHandle: '' @ strip (cr_stderr r)))
                else volume_by_handle env api tenant handle)))"

text \<open>\<open>Some\<close> is a value that the function returns early; \<open>None\<close> goes on.\<close>

definition unless_returned :: "('w, bool option) act \<Rightarrow> ('w, bool option) act \<Rightarrow> ('w, bool option) act" where
  "unless_returned m k = run_then m (\<lambda>r. case r of Some b \<Rightarrow> ret (Some b) | None \<Rightarrow> k)"

section \<open>Reading a limit back\<close>

definition READBACK_TIMEOUT_S :: int where "READBACK_TIMEOUT_S = 30"
definition READBACK_POLL_S :: int where "READBACK_POLL_S = 2"
definition ENFORCE_SETTLE_S :: int where "ENFORCE_SETTLE_S = 4"

text \<open>The loop of \<open>_await_hard\<close> after the deadline is set, one unit of fuel for each read. \<open>read\<close> is the call
  that reads the limit; a record that is not there yet reads as no limit. Without fuel the loop
  ends as it does at the deadline.\<close>

fun await_until ::
  "nat \<Rightarrow> rat \<Rightarrow> 'w quota_env \<Rightarrow> ('w, int option) act \<Rightarrow> int \<Rightarrow> ('w, bool \<times> int option) act" where
  "await_until 0 deadline env read expected = ret (False, None)"
| "await_until (Suc n) deadline env read expected =
     run_then (catching read (\<lambda>e. if not_found e then Some (ret None) else None)) (\<lambda>last q.
       if last = Some expected then ret (True, last) q
       else if deadline \<le> qe_now env (qx_world q) then ret (False, last) q
       else run_then (sleep env READBACK_POLL_S) (\<lambda>_. await_until n deadline env read expected) q)"

definition READBACK_FUEL :: nat where "READBACK_FUEL = 16"

definition await_hard :: "'w quota_env \<Rightarrow> ('w, int option) act \<Rightarrow> int \<Rightarrow> ('w, bool \<times> int option) act" where
  "await_hard env read expected = (\<lambda>q.
     await_until READBACK_FUEL (qe_now env (qx_world q) + of_int READBACK_TIMEOUT_S) env read expected q)"

section \<open>Writing past a limit\<close>

definition ENOSPC_TOKENS :: "string list" where
  "ENOSPC_TOKENS = [''no space left'', ''disk quota exceeded'', ''quota exceeded'']"

definition MIB :: int where "MIB = 2 ^ 20"

definition hard_mib :: "int \<Rightarrow> int" where "hard_mib nbytes = max 1 (nbytes div MIB)"
definition under_mib :: "int \<Rightarrow> int" where "under_mib nbytes = max 1 (hard_mib nbytes div 4)"
definition chunk_mib :: "int \<Rightarrow> int" where "chunk_mib hard = max 16 hard"
definition cap_mib :: "int \<Rightarrow> int" where "cap_mib hard = max (hard * 6) (hard + 512)"

type_synonym 'w writer = "string \<Rightarrow> int \<Rightarrow> ('w, command_result) act"

definition over_path :: "string \<Rightarrow> nat \<Rightarrow> string" where
  "over_path subdir chunk = subdir @ ''/over_'' @ nat_str chunk"

text \<open>Chunk by chunk until a write fails or the cap is reached: the last result and what was written.\<close>

function over_writes ::
  "'w quota_env \<Rightarrow> 'w writer \<Rightarrow> string \<Rightarrow> int \<Rightarrow> nat \<Rightarrow> int \<Rightarrow> command_result \<Rightarrow> ('w, command_result \<times> int) act" where
  "over_writes env writer subdir hard chunk written prev =
     (if written < cap_mib hard
      then run_then (writer (over_path subdir (Suc chunk)) (chunk_mib hard)) (\<lambda>r.
        if cr_exit_code r \<noteq> 0 then ret (r, written)
        else run_then (sleep env ENFORCE_SETTLE_S) (\<lambda>_.
          over_writes env writer subdir hard (Suc chunk) (written + chunk_mib hard) r))
      else ret (prev, written))"
  by pat_completeness auto
termination
  by (relation "measure (\<lambda>(env, writer, subdir, hard, chunk, written, prev). nat (cap_mib hard - written))")
    (auto simp: chunk_mib_def)

declare over_writes.simps [simp del]

definition combined_output :: "command_result \<Rightarrow> string" where
  "combined_output r = lower (cr_stdout r @ [CHR 0x0A] @ cr_stderr r)"

definition right_reason :: "command_result \<Rightarrow> bool" where
  "right_reason r = list_ex (\<lambda>t. contains_text t (combined_output r)) ENOSPC_TOKENS"

text \<open>The three texts in which the two checks differ.\<close>

record write_texts =
  wt_under :: "int \<Rightarrow> int \<Rightarrow> string"
  wt_blocked :: "int \<Rightarrow> int \<Rightarrow> string"
  wt_unblocked :: "int \<Rightarrow> int \<Rightarrow> string"

definition judge_writes :: "string \<Rightarrow> write_texts \<Rightarrow> int \<Rightarrow> command_result \<times> int \<Rightarrow> ('w, bool) act" where
  "judge_writes name texts hard = (\<lambda>(last, written).
     if cr_exit_code last \<noteq> 0 \<and> right_reason last
     then run_then (note_subtest name True (wt_blocked texts hard written) False) (\<lambda>_. ret True)
     else if cr_exit_code last \<noteq> 0
     then fail_with name (''over-limit write failed but not with a no-space/quota error: ''
       @ take 200 (strip (combined_output last)))
     else fail_with name (wt_unblocked texts hard written))"

text \<open>What follows once the limit is set.\<close>

definition prove_enforced ::
  "'w quota_env \<Rightarrow> 'w writer \<Rightarrow> string \<Rightarrow> int \<Rightarrow> string \<Rightarrow> write_texts \<Rightarrow> ('w, bool) act" where
  "prove_enforced env writer subdir nbytes name texts =
    (let hard = hard_mib nbytes; under = under_mib nbytes
     in run_then (writer (subdir @ ''/under'') under) (\<lambda>first.
        if cr_exit_code first \<noteq> 0
        then fail_with name (wt_under texts under hard
          @ take 200 (strip (if cr_stderr first \<noteq> [] then cr_stderr first else cr_stdout first)))
        else run_then (over_writes env writer subdir hard 0 under first) (judge_writes name texts hard)))"

section \<open>Ends common to both checks\<close>

definition native_volume_lifecycle :: "'w manifest_provider \<Rightarrow> bool" where
  "native_volume_lifecycle p \<longleftrightarrow> dget (mp_states p) CAP_VOLUME_CREATE = Some ''native''
     \<and> dget (mp_states p) CAP_VOLUME_DELETE = Some ''native''"

definition both_subtests :: "string \<Rightarrow> string \<Rightarrow> bool \<Rightarrow> string \<Rightarrow> bool \<Rightarrow> ('w, unit) act" where
  "both_subtests area tag ok m skipped =
     run_then (note_subtest (subtest_name (area @ ''-crud'') tag) ok m skipped)
       (\<lambda>_. note_subtest (subtest_name (area @ ''-enforcement'') tag) ok m skipped)"

definition fail_both :: "string \<Rightarrow> string \<Rightarrow> string \<Rightarrow> ('w, bool) act" where
  "fail_both area tag m = run_then (both_subtests area tag False m False) (\<lambda>_. ret False)"

definition skip_both :: "string \<Rightarrow> string \<Rightarrow> string \<Rightarrow> ('w, bool) act" where
  "skip_both area tag m = run_then (both_subtests area tag True m True) (\<lambda>_. ret True)"

text \<open>A best-effort step: its exception ends the clean-up and is logged.\<close>

definition swallow :: "('w, unit) act \<Rightarrow> 'w quota_state \<Rightarrow> 'w quota_state" where
  "swallow m q = snd (m q)"

definition if_set :: "bool \<Rightarrow> ('w, unit) act \<Rightarrow> ('w, unit) act" where
  "if_set b m = (if b then m else ret ())"

definition command_only :: "'w quota_env \<Rightarrow> settings \<Rightarrow> string \<Rightarrow> ('w, unit) act" where
  "command_only env cfg cmd = run_then (command env cmd (qs_timeout cfg)) (\<lambda>_. ret ())"

definition call_only :: "'w provider \<Rightarrow> request \<Rightarrow> ('w, unit) act" where
  "call_only api rq = run_then (call api rq) (\<lambda>_. ret ())"

text \<open>\<open>_cleanup\<close>: \<open>drop_quota\<close> is the deletion of the probe's quota.\<close>

definition cleanup_cluster ::
  "'w quota_env \<Rightarrow> settings \<Rightarrow> string \<Rightarrow> string \<Rightarrow> string \<Rightarrow> (acquired \<Rightarrow> ('w, unit) act)
    \<Rightarrow> 'w quota_state \<Rightarrow> 'w quota_state" where
  "cleanup_cluster env cfg namespace pod pvc drop_quota q =
    (let aq = qx_acquired q;
         delete = (\<lambda>kind name. command_only env cfg (kubectl_base env @ '' delete '' @ kind @ '' '' @ shlex_quote name
           @ '' -n '' @ shlex_quote namespace @ '' --wait=false --ignore-not-found=true''))
     in swallow (if aq_namespace aq
        then command_only env cfg (kubectl_base env @ '' delete namespace '' @ shlex_quote namespace
          @ '' --wait=false --ignore-not-found=true'')
        else run_then (drop_quota aq) (\<lambda>_.
          run_then (if_set (aq_subdir aq \<noteq> [] \<and> pod \<noteq> []) (run_then
            (exec_pod env namespace pod (''rm -rf /data/'' @ shlex_quote (aq_subdir aq)) (qs_timeout cfg))
            (\<lambda>_. ret ()))) (\<lambda>_.
          run_then (if_set (aq_pod aq) (delete ''pod'' pod)) (\<lambda>_.
          if_set (aq_pvc aq) (delete ''pvc'' pvc))))) q)"

definition cleanup_native ::
  "'w quota_env \<Rightarrow> settings \<Rightarrow> 'w provider \<Rightarrow> string option \<Rightarrow> (acquired \<Rightarrow> ('w, unit) act)
    \<Rightarrow> 'w quota_state \<Rightarrow> 'w quota_state" where
  "cleanup_native env cfg api tenant drop_quota q =
    (let aq = qx_acquired q; dir = aq_mount_dir aq
     in swallow (run_then (drop_quota aq) (\<lambda>_.
        run_then (if_set (aq_mounted aq \<and> aq_subdir aq \<noteq> []) (command_only env cfg
          (''rm -rf '' @ shlex_quote (dir @ ''/'' @ aq_subdir aq)))) (\<lambda>_.
        run_then (if_set (aq_mounted aq) (command_only env cfg (''umount '' @ shlex_quote dir))) (\<lambda>_.
        run_then (if_set (dir \<noteq> []) (command_only env cfg (''rmdir '' @ shlex_quote dir))) (\<lambda>_.
        if_set (aq_volume_id aq \<noteq> []) (call_only api
          (DeleteVolume \<lparr>dv_volume_id = aq_volume_id aq, dv_tenant_id = tenant\<rparr>))))))) q)"

section \<open>Preparing a claim and a pod\<close>

text \<open>\<open>Some\<close> is the message of a failure.\<close>

definition prepare_claim ::
  "'w quota_env \<Rightarrow> settings \<Rightarrow> string \<Rightarrow> string \<Rightarrow> ('w, string option) act" where
  "prepare_claim env cfg namespace pvc =
     (if qs_pvc_name cfg \<noteq> [] then ret None
      else run_then (create_namespace env cfg namespace) (\<lambda>created.
        if \<not> created then ret (Some (''failed to create namespace '' @ repr_str namespace))
        else run_then (acquire (aq_namespace_update (\<lambda>_. True))) (\<lambda>_.
          run_then (provision_pvc env cfg namespace pvc) (\<lambda>provisioned.
          if \<not> provisioned then ret (Some (''failed to provision PVC '' @ repr_str pvc @ '' on ''
            @ repr_str (qs_storage_class cfg)))
          else run_then (acquire (aq_pvc_update (\<lambda>_. True))) (\<lambda>_. ret None)))))"

definition prepare_pod ::
  "'w quota_env \<Rightarrow> settings \<Rightarrow> string \<Rightarrow> string \<Rightarrow> string \<Rightarrow> ('w, string option) act" where
  "prepare_pod env cfg namespace pod pvc =
     (if qs_pod_name cfg \<noteq> []
      then run_then (wait_pod_ready env cfg namespace pod) (\<lambda>(ready, werr).
        ret (if ready then None else Some (''supplied pod '' @ repr_str pod @ '' in namespace ''
          @ repr_str namespace @ '' is not Ready: '' @ werr)))
      else run_then (launch_mount_pod env cfg namespace pod pvc) (\<lambda>launched.
        if \<not> launched then ret (Some (''mount pod '' @ repr_str pod @ '' did not become Ready''))
        else run_then (acquire (aq_pod_update (\<lambda>_. True))) (\<lambda>_. ret None)))"

text \<open>A step that returns the message of a failure ends the run for this provider.\<close>

definition or_fail :: "string \<Rightarrow> string \<Rightarrow> ('w, string option) act \<Rightarrow> ('w, bool) act \<Rightarrow> ('w, bool) act" where
  "or_fail area tag m k = run_then m (\<lambda>r. case r of Some e \<Rightarrow> fail_both area tag e | None \<Rightarrow> k)"


section \<open>The run over all providers\<close>

definition setting :: "(rat \<Rightarrow> string) \<Rightarrow> dict \<Rightarrow> string \<Rightarrow> string \<Rightarrow> string" where
  "setting fr config k dflt = py_str fr (py_or (field_of config k) (PStr dflt))"

definition int_setting :: "dict \<Rightarrow> string \<Rightarrow> int \<Rightarrow> exn + int" where
  "int_setting config k dflt = (case int_of (py_or (field_of config k) (PInt dflt)) of
     None \<Rightarrow> Inl (CheckError k) | Some i \<Rightarrow> Inr i)"

text \<open>\<open>default_sc\<close> is \<open>get_k8s_csi_shared_fs_storage_class()\<close>.\<close>

definition read_settings ::
  "(rat \<Rightarrow> string) \<Rightarrow> string \<Rightarrow> string \<Rightarrow> int \<Rightarrow> dict \<Rightarrow> exn + settings" where
  "read_settings fr default_sc ns_prefix timeout config =
     and_then (int_setting config ''create_hard_bytes'' (2 ^ 30)) (\<lambda>create.
     and_then (int_setting config ''enforcement_hard_bytes'' (64 * MIB)) (\<lambda>enforce.
     and_then (int_setting config ''volume_size_bytes'' (max (2 ^ 30) (enforce * 2))) (\<lambda>vsize.
     and_then (int_setting config ''bind_timeout_s'' 240) (\<lambda>bind.
     and_then (int_setting config ''write_timeout_s'' 300) (\<lambda>write.
     Inr \<lparr>qs_storage_class = setting fr config ''storage_class'' default_sc,
       qs_pvc_name = setting fr config ''pvc_name'' [], qs_pvc_namespace = setting fr config ''pvc_namespace'' ''default'',
       qs_pod_name = setting fr config ''pod_name'' [], qs_pvc_size = setting fr config ''pvc_size'' ''5Gi'',
       qs_create_hard = create, qs_enforce_hard = enforce, qs_volume_size = vsize, qs_bind_timeout = bind,
       qs_write_timeout = write, qs_ns_prefix = setting fr config ''namespace_prefix'' ns_prefix,
       qs_timeout = timeout\<rparr>)))))"

type_synonym 'w exercise = "settings \<Rightarrow> 'w manifest_provider \<Rightarrow> 'w provider \<Rightarrow> ('w, bool) act"

text \<open>\<open>_exercise_provider\<close>: on the cluster or natively.\<close>

definition exercise_chosen ::
  "'w quota_env \<Rightarrow> string \<Rightarrow> 'w exercise \<Rightarrow> 'w exercise \<Rightarrow> 'w exercise" where
  "exercise_chosen env area on_cluster natively cfg p api =
     (if qe_kubectl env \<noteq> None \<and> \<not> native_volume_lifecycle p then on_cluster cfg p api
      else if native_volume_lifecycle p then natively cfg p api
      else skip_both area (mp_name p)
        ''no reachable Kubernetes cluster and provider does not declare native volume.create/delete'')"

fun exercise_each :: "'w exercise \<Rightarrow> settings \<Rightarrow> 'w manifest_provider list \<Rightarrow> bool \<Rightarrow> ('w, bool) act" where
  "exercise_each exercise cfg [] any_failed = ret any_failed"
| "exercise_each exercise cfg (p # ps) any_failed = (case mp_api p of
     None \<Rightarrow> exercise_each exercise cfg ps any_failed
   | Some api \<Rightarrow> run_then (exercise cfg p api)
       (\<lambda>ok. exercise_each exercise cfg ps (any_failed \<or> \<not> ok)))"

definition quota_candidates :: "string list \<Rightarrow> 'w manifest_provider list \<Rightarrow> 'w manifest_provider list" where
  "quota_candidates caps = filter (\<lambda>p. has_shim p \<and> list_all (\<lambda>c. dget (mp_expected p) c = Some True) caps)"

text \<open>\<open>dict.fromkeys\<close>: the first occurrence of each.\<close>

definition first_occurrences :: "'a list \<Rightarrow> 'a list" where
  "first_occurrences xs = rev (remdups (rev xs))"

definition quota_verdict :: "string \<Rightarrow> string \<Rightarrow> 'w manifest_provider list \<Rightarrow> bool \<Rightarrow> verdict \<Rightarrow> ran" where
  "quota_verdict area title candidates any_failed v =
     (if any_failed then Finished (set_failed v (''One or more '' @ area @ '' subtests failed; see subtest details''))
      else if vd_subtests v \<noteq> [] \<and> list_all t_skipped (vd_subtests v)
      then SkipRaised (''No '' @ area @ '' probe ran: ''
        @ join ''; '' (first_occurrences (map t_message (vd_subtests v))))
      else Finished (set_passed v (PStr (title @ '' CRUD + enforcement verified for ''
        @ join '', '' (sort (map mp_name candidates))))))"

definition quota_check ::
  "(rat \<Rightarrow> string) \<Rightarrow> 'w manifest_world \<Rightarrow> string \<Rightarrow> string \<Rightarrow> string list \<Rightarrow> (dict \<Rightarrow> exn + settings)
    \<Rightarrow> (dict \<Rightarrow> 'w exercise) \<Rightarrow> dict \<Rightarrow> verdict \<Rightarrow> 'w \<Rightarrow> ran \<times> 'w" where
  "quota_check fr mw area title caps settings_of exercise config v w =
    (if setting fr config ''pod_name'' [] \<noteq> [] \<and> setting fr config ''pvc_name'' [] = []
     then (Finished (set_failed v
       ''pod_name requires pvc_name: the supplied pod must already mount the PVC under test''), w)
     else case load_provider_registry fr mw config of
       Inl e \<Rightarrow> (Finished (set_failed v (''Failed to load provider manifest: '' @ e)), w)
     | Inr providers \<Rightarrow>
        (let candidates = quota_candidates caps providers
         in if candidates = []
            then (SkipRaised (''No manifest provider declares full '' @ area @ '' CRUD supported (requires ''
              @ join '', '' caps @ '')''), w)
            else (case settings_of config of
               Inl e \<Rightarrow> (ExnRaised e v, w)
             | Inr cfg \<Rightarrow> (case exercise_each (exercise config) cfg candidates False
                   \<lparr>qx_verdict = v, qx_acquired = nothing_acquired, qx_world = w\<rparr> of
                 (Inl e, q) \<Rightarrow> (ExnRaised (CheckError (error_class e)) (qx_verdict q), qx_world q)
               | (Inr any_failed, q) \<Rightarrow>
                   (quota_verdict area title candidates any_failed (qx_verdict q), qx_world q)))))"

section \<open>What the writes prove\<close>

text \<open>From a state in which \<open>written\<close> MiB are written, chunks are accepted until one is refused with the
  result \<open>r\<close>, before the cap.\<close>

inductive refused_after ::
  "'w quota_env \<Rightarrow> 'w writer \<Rightarrow> string \<Rightarrow> int \<Rightarrow> nat \<Rightarrow> int \<Rightarrow> 'w quota_state \<Rightarrow> command_result \<Rightarrow> int
    \<Rightarrow> 'w quota_state \<Rightarrow> bool"
  for env writer subdir hard where
  refused: "written < cap_mib hard
    \<Longrightarrow> writer (over_path subdir (Suc chunk)) (chunk_mib hard) q = (Inr r, q') \<Longrightarrow> cr_exit_code r \<noteq> 0
    \<Longrightarrow> refused_after env writer subdir hard chunk written q r written q'"
| accepted: "written < cap_mib hard
    \<Longrightarrow> writer (over_path subdir (Suc chunk)) (chunk_mib hard) q = (Inr r0, q1) \<Longrightarrow> cr_exit_code r0 = 0
    \<Longrightarrow> sleep env ENFORCE_SETTLE_S q1 = (Inr (), q2)
    \<Longrightarrow> refused_after env writer subdir hard (Suc chunk) (written + chunk_mib hard) q2 r amount q'
    \<Longrightarrow> refused_after env writer subdir hard chunk written q r amount q'"

lemma run_then_Inr: "run_then m f q = (Inr b, q') \<longleftrightarrow> (\<exists>a q1. m q = (Inr a, q1) \<and> f a q1 = (Inr b, q'))"
  by (auto simp: run_then_def split: prod.splits sum.splits)

lemma refused_below_cap: "refused_after env writer subdir hard chunk written q r amount q' \<Longrightarrow> amount < cap_mib hard"
  by (induction rule: refused_after.induct) auto

lemma over_writes_refused:
  "over_writes env writer subdir hard chunk written prev q = (Inr (r, amount), q') \<Longrightarrow> cr_exit_code prev = 0
   \<Longrightarrow> cr_exit_code r \<noteq> 0 \<Longrightarrow> refused_after env writer subdir hard chunk written q r amount q'"
proof (induction env writer subdir hard chunk written prev arbitrary: q rule: over_writes.induct)
  case (1 env writer subdir hard chunk written prev)
  show ?case
  proof (cases "written < cap_mib hard")
    case False
    with 1(2-) show ?thesis by (simp add: over_writes.simps ret_def)
  next
    case True
    let ?k = "\<lambda>r. if cr_exit_code r \<noteq> 0 then ret (r, written) else run_then (sleep env ENFORCE_SETTLE_S)
      (\<lambda>_. over_writes env writer subdir hard (Suc chunk) (written + chunk_mib hard) r)"
    from True 1(2) obtain r0 q1 where w: "writer (over_path subdir (Suc chunk)) (chunk_mib hard) q = (Inr r0, q1)"
        and k: "?k r0 q1 = (Inr (r, amount), q')"
      by (auto simp: over_writes.simps [of env writer subdir hard chunk] run_then_Inr)
    show ?thesis
    proof (cases "cr_exit_code r0 = 0")
      case False
      with k have "r = r0" "amount = written" "q' = q1" by (simp_all add: ret_def)
      then show ?thesis
        using refused [of written hard writer subdir chunk q r0 q1 env] True w False by simp
    next
      case ok: True
      with k obtain u q2 where s: "sleep env ENFORCE_SETTLE_S q1 = (Inr u, q2)"
          and "over_writes env writer subdir hard (Suc chunk) (written + chunk_mib hard) r0 q2 = (Inr (r, amount), q')"
        by (auto simp: run_then_Inr)
      from 1(1) [OF True _ this(2) ok 1(4)] ok
      have "refused_after env writer subdir hard (Suc chunk) (written + chunk_mib hard) q2 r amount q'" by simp
      with accepted [of written hard writer subdir chunk q r0 q1 env q2 r amount q'] True w ok s
      show ?thesis by simp
    qed
  qed
qed

text \<open>The under-limit write succeeds, and a later one is refused for lack of quota before the cap.\<close>

definition enforced_on ::
  "'w quota_env \<Rightarrow> 'w writer \<Rightarrow> string \<Rightarrow> int \<Rightarrow> 'w quota_state \<Rightarrow> 'w \<Rightarrow> bool" where
  "enforced_on env writer subdir nbytes q w \<longleftrightarrow> (\<exists>first q1 r amount q2.
     writer (subdir @ ''/under'') (under_mib nbytes) q = (Inr first, q1) \<and> cr_exit_code first = 0
     \<and> refused_after env writer subdir (hard_mib nbytes) 0 (under_mib nbytes) q1 r amount q2
     \<and> amount < cap_mib (hard_mib nbytes) \<and> right_reason r \<and> w = qx_world q2)"

lemma fail_with_False: "fail_with name m q \<noteq> (Inr True, q')"
  by (simp add: fail_with_def run_then_def note_subtest_def ret_def)

lemma judge_writes_True:
  "judge_writes name texts hard (r, written) q = (Inr True, q')
   \<Longrightarrow> cr_exit_code r \<noteq> 0 \<and> right_reason r \<and> qx_world q' = qx_world q"
  by (auto simp: judge_writes_def fail_with_False run_then_def note_subtest_def ret_def split: if_splits)

lemma prove_enforced_sound:
  assumes "prove_enforced env writer subdir nbytes name texts q = (Inr True, q')"
  shows "enforced_on env writer subdir nbytes q (qx_world q')"
proof -
  obtain first q1 where w: "writer (subdir @ ''/under'') (under_mib nbytes) q = (Inr first, q1)"
      and ok: "cr_exit_code first = 0"
      and "run_then (over_writes env writer subdir (hard_mib nbytes) 0 (under_mib nbytes) first)
        (judge_writes name texts (hard_mib nbytes)) q1 = (Inr True, q')"
    using assms by (auto simp: prove_enforced_def run_then_Inr Let_def fail_with_False split: if_splits)
  then obtain r amount q2 where o: "over_writes env writer subdir (hard_mib nbytes) 0 (under_mib nbytes) first q1
        = (Inr (r, amount), q2)"
      and "judge_writes name texts (hard_mib nbytes) (r, amount) q2 = (Inr True, q')"
    by (auto simp: run_then_Inr)
  with judge_writes_True have "cr_exit_code r \<noteq> 0" "right_reason r" "qx_world q' = qx_world q2" by blast+
  with over_writes_refused [OF o ok] refused_below_cap w ok show ?thesis
    unfolding enforced_on_def by blast
qed

section \<open>The deadline\<close>

text \<open>A clock that a read does not set back and that advances by the seconds slept.\<close>

definition steady :: "'w quota_env \<Rightarrow> ('w, 'a) act \<Rightarrow> bool" where
  "steady env m \<longleftrightarrow> (\<forall>w n. qe_now env w + of_int n \<le> qe_now env (qe_sleep env n w))
     \<and> (\<forall>q. qe_now env (qx_world q) \<le> qe_now env (qx_world (snd (m q))))"

lemma catching_now:
  assumes "steady env read"
  shows "qe_now env (qx_world q) \<le> qe_now env (qx_world (snd (catching read
     (\<lambda>e. if not_found e then Some (ret None) else None) q)))"
proof -
  have "qe_now env (qx_world q) \<le> qe_now env (qx_world (snd (read q)))"
    using assms by (simp add: steady_def)
  then show ?thesis by (auto simp: catching_def ret_def split: prod.splits sum.splits)
qed

lemma await_until_Suc:
  "await_until (Suc n) deadline env read expected q =
    (case catching read (\<lambda>e. if not_found e then Some (ret None) else None) q of
       (Inl e, q1) \<Rightarrow> (Inl e, q1)
     | (Inr got, q1) \<Rightarrow>
        if got = Some expected then (Inr (True, got), q1)
        else if deadline \<le> qe_now env (qx_world q1) then (Inr (False, got), q1)
        else await_until n deadline env read expected
          (q1\<lparr>qx_world := qe_sleep env READBACK_POLL_S (qx_world q1)\<rparr>))"
  by (simp add: run_then_def ret_def sleep_def in_world_def split: prod.split sum.split)

lemma await_until_fuel:
  assumes "steady env read"
  shows "deadline \<le> qe_now env (qx_world q) + 2 * of_nat n
    \<Longrightarrow> await_until (Suc n + k) deadline env read expected q = await_until (Suc n) deadline env read expected q"
proof (induction n arbitrary: q)
  case 0
  let ?r = "catching read (\<lambda>e. if not_found e then Some (ret None) else None) q"
  have "deadline \<le> qe_now env (qx_world (snd ?r))"
    using catching_now [OF assms, of q] 0 by simp
  then show ?case
    by (auto simp only: await_until_Suc add_Suc snd_conv if_True split: prod.split sum.split)
next
  case (Suc n)
  let ?r = "catching read (\<lambda>e. if not_found e then Some (ret None) else None) q"
  let ?q = "(snd ?r)\<lparr>qx_world := qe_sleep env READBACK_POLL_S (qx_world (snd ?r))\<rparr>"
  have "qe_now env (qx_world (snd ?r)) + of_int READBACK_POLL_S \<le> qe_now env (qx_world ?q)"
    using assms by (simp add: steady_def)
  then have "deadline \<le> qe_now env (qx_world ?q) + 2 * of_nat n"
    using catching_now [OF assms, of q] Suc.prems by (simp add: READBACK_POLL_S_def)
  from Suc.IH [OF this] have ih: "await_until (Suc (n + k)) deadline env read expected ?q
      = await_until (Suc n) deadline env read expected ?q"
    by (simp only: add_Suc)
  obtain a q1 where r: "?r = (a, q1)" by fastforce
  show ?case using ih
    by (cases a)
      (simp_all only: add_Suc await_until_Suc [of "Suc (n + k)"] await_until_Suc [of "Suc n"] r snd_conv
        prod.case sum.case)
qed

text \<open>C38. Reading a limit back ends: on a clock that advances by the seconds slept, the loop is left at the
  latest with the sixteenth read, at the deadline, whatever further reads are allowed.\<close>

theorem await_hard_returns:
  assumes "steady env read"
  shows "await_until (READBACK_FUEL + k) (qe_now env (qx_world q) + of_int READBACK_TIMEOUT_S) env read expected q
    = await_hard env read expected q"
proof -
  have fuel: "READBACK_FUEL = Suc 15" by (simp add: READBACK_FUEL_def)
  have "qe_now env (qx_world q) + of_int READBACK_TIMEOUT_S \<le> qe_now env (qx_world q) + 2 * of_nat 15"
    by (simp add: READBACK_TIMEOUT_S_def)
  from await_until_fuel [OF assms this, of k expected] show ?thesis
    by (simp only: await_hard_def fuel)
qed

text \<open>A host that is only a clock.\<close>

definition clock_env :: "rat quota_env" where
  "clock_env = \<lparr>qe_run = (\<lambda>cmd t w. (\<lparr>cr_exit_code = 0, cr_stdout = [], cr_stderr = []\<rparr>, w)),
     qe_apply = (\<lambda>m w. ((0, []), w)), qe_now = (\<lambda>w. w), qe_sleep = (\<lambda>n w. w + of_int n),
     qe_mkdtemp = (\<lambda>prefix w. ([], w)), qe_run_id = (\<lambda>w. ([], w)), qe_json = (\<lambda>t. Inl []), qe_kubectl = None,
     qe_text = (\<lambda>c. []), qe_float = (\<lambda>r. [])\<rparr>"

definition clock_start :: "rat quota_state" where
  "clock_start = \<lparr>qx_verdict = fresh_verdict, qx_acquired = nothing_acquired, qx_world = 5\<rparr>"

lemma await_hard_returns_witness:
  "await_until (READBACK_FUEL + 3) (qe_now clock_env (qx_world clock_start) + of_int READBACK_TIMEOUT_S) clock_env
     (ret None) 7 clock_start = await_hard clock_env (ret None) 7 clock_start"
proof (rule await_hard_returns)
  show "steady clock_env (ret None)" by (simp add: steady_def clock_env_def ret_def)
qed

section \<open>The volume to delete\<close>

text \<open>Everything between the creation of a volume and the final block leaves the id it will delete alone.\<close>

definition keeps_volume :: "('w, 'a) act \<Rightarrow> bool" where
  "keeps_volume m \<longleftrightarrow> (\<forall>q. aq_volume_id (qx_acquired (snd (m q))) = aq_volume_id (qx_acquired q))"

named_theorems keeping \<open>actions that keep the id of the acquired volume\<close>

lemma keeps_ret [keeping]: "keeps_volume (ret a)"
  by (simp add: keeps_volume_def ret_def)

lemma keeps_raises [keeping]: "keeps_volume (raises e)"
  by (simp add: keeps_volume_def raises_def)

lemma keeps_run_then [keeping]:
  "keeps_volume m \<Longrightarrow> (\<And>a. keeps_volume (f a)) \<Longrightarrow> keeps_volume (run_then m f)"
  unfolding keeps_volume_def run_then_def
  by (auto split: prod.split sum.split) (metis snd_conv)+

lemma keeps_catching:
  assumes "keeps_volume m" "\<And>e a. h e = Some a \<Longrightarrow> keeps_volume a"
  shows "keeps_volume (catching m h)"
  unfolding keeps_volume_def
proof
  fix q
  obtain r q1 where r: "m q = (r, q1)" by fastforce
  with assms(1) have k: "aq_volume_id (qx_acquired q1) = aq_volume_id (qx_acquired q)"
    by (metis keeps_volume_def snd_conv)
  have "aq_volume_id (qx_acquired (snd (a q1))) = aq_volume_id (qx_acquired q1)" if "h e = Some a" for e a
    using assms(2) [OF that] by (simp add: keeps_volume_def)
  with r k show "aq_volume_id (qx_acquired (snd (catching m h q))) = aq_volume_id (qx_acquired q)"
    by (auto simp: catching_def split: sum.split option.split)
qed

lemma keeps_catching_contract [keeping]:
  assumes "keeps_volume m" "\<And>e. keeps_volume (k e)"
  shows "keeps_volume (catching m (on_contract_error k))"
  using assms(1) by (rule keeps_catching) (auto simp: on_contract_error_def assms(2) split: if_splits)

lemma keeps_if [keeping]:
  "(b \<Longrightarrow> keeps_volume m) \<Longrightarrow> (\<not> b \<Longrightarrow> keeps_volume n) \<Longrightarrow> keeps_volume (if b then m else n)"
  by simp

lemma keeps_effects [keeping]:
  "keeps_volume (note_subtest name ok msg skipped)" "keeps_volume (in_world f)" "keeps_volume (call api rq)"
  by (simp_all add: keeps_volume_def note_subtest_def in_world_def call_def split: prod.split)

lemma keeps_commands [keeping]:
  "keeps_volume (command env cmd t)" "keeps_volume (sleep env n)"
  "keeps_volume (exec_pod env ns pod inner t)" "keeps_volume (dd_pod env cfg ns pod path n)"
  "keeps_volume (dd_local env cfg dir path n)" "keeps_volume (fail_with name msg)"
  by (simp_all add: command_def sleep_def exec_pod_def dd_pod_def dd_local_def fail_with_def Let_def keeping)

lemma keeps_both [keeping]:
  "keeps_volume (fail_both area tag msg)" "keeps_volume (skip_both area tag msg)"
  by (simp_all add: fail_both_def skip_both_def both_subtests_def keeping)

lemma keeps_acquire [keeping]:
  "(\<And>aq. aq_volume_id (f aq) = aq_volume_id aq) \<Longrightarrow> keeps_volume (acquire f)"
  by (simp add: keeps_volume_def acquire_def)

lemma keeps_mount [keeping]: "keeps_volume (mount_native_volume env cfg mount dir)"
  by (simp add: mount_native_volume_def Let_def keeping)

lemma keeps_result: "keeps_volume m \<Longrightarrow> m q = (r, q') \<Longrightarrow>
    aq_volume_id (qx_acquired q') = aq_volume_id (qx_acquired q)"
  by (metis keeps_volume_def snd_conv)

lemma keeps_await [keeping]:
  assumes "keeps_volume read"
  shows "keeps_volume (await_until n deadline env read expected)"
  unfolding keeps_volume_def
proof
  let ?read = "catching read (\<lambda>e. if not_found e then Some (ret None) else None)"
  have read: "keeps_volume ?read"
    by (rule keeps_catching [OF assms]) (auto intro: keeps_ret split: if_splits)
  show "aq_volume_id (qx_acquired (snd (await_until n deadline env read expected q)))
      = aq_volume_id (qx_acquired q)" for q
  proof (induction n arbitrary: q)
    case (Suc n)
    obtain r q1 where r: "?read q = (r, q1)" by fastforce
    show ?case
      by (cases r) (simp_all add: await_until_Suc r Suc.IH keeps_result [OF read r] del: await_until.simps)
  qed (simp add: ret_def)
qed

lemma keeps_unless_returned [keeping]:
  "keeps_volume m \<Longrightarrow> keeps_volume k \<Longrightarrow> keeps_volume (unless_returned m k)"
  unfolding unless_returned_def by (rule keeps_run_then) (auto simp: keeping split: option.split)

lemma keeps_await_hard [keeping]: "keeps_volume read \<Longrightarrow> keeps_volume (await_hard env read expected)"
  using keeps_await [of read READBACK_FUEL] by (auto simp: keeps_volume_def await_hard_def)

lemma keeps_over_writes [keeping]:
  assumes "\<And>path n. keeps_volume (writer path n)"
  shows "keeps_volume (over_writes env writer subdir hard chunk written prev)"
  using assms
proof (induction env writer subdir hard chunk written prev rule: over_writes.induct)
  case (1 env writer subdir hard chunk written prev)
  show ?case
    unfolding over_writes.simps [of env writer subdir hard chunk written prev]
  proof (rule keeps_if)
    assume w: "written < cap_mib hard"
    have rest: "keeps_volume (over_writes env writer subdir hard (Suc chunk) (written + chunk_mib hard) r)"
      if "cr_exit_code r = 0" for r
      using 1(1) [OF w _ 1(2)] that by simp
    show "keeps_volume (run_then (writer (over_path subdir (Suc chunk)) (chunk_mib hard)) (\<lambda>r.
        if cr_exit_code r \<noteq> 0 then ret (r, written)
        else run_then (sleep env ENFORCE_SETTLE_S) (\<lambda>_.
          over_writes env writer subdir hard (Suc chunk) (written + chunk_mib hard) r)))"
      using 1(2) rest by (simp add: keeping)
  qed (simp add: keeping)
qed

lemma keeps_prove_enforced [keeping]:
  "(\<And>path n. keeps_volume (writer path n)) \<Longrightarrow> keeps_volume (prove_enforced env writer subdir nbytes name texts)"
  by (simp add: prove_enforced_def judge_writes_def Let_def keeping split: prod.split)

text \<open>Actions that raise nothing, one after the other.\<close>

definition returns :: "('w, 'a) act \<Rightarrow> bool" where
  "returns m \<longleftrightarrow> (\<forall>q. \<exists>a q'. m q = (Inr a, q'))"

lemma run_then_returns: "returns m \<Longrightarrow> \<exists>q'. run_then m (\<lambda>_. k) q = k q'"
proof -
  assume "returns m"
  then obtain a q' where "m q = (Inr a, q')" unfolding returns_def by blast
  then show ?thesis by (auto simp: run_then_def)
qed

lemma command_only_returns: "returns (if_set b (command_only env cfg cmd))"
  by (auto simp: returns_def if_set_def command_only_def run_then_def command_def in_world_def ret_def
      split: prod.split)

lemma cleanup_native_deletes:
  assumes "aq_volume_id (qx_acquired q) \<noteq> []" "returns (drop_quota (qx_acquired q))"
  shows "\<exists>w. qx_world (cleanup_native env cfg api tenant drop_quota q)
    = snd (p_call api (DeleteVolume \<lparr>dv_volume_id = aq_volume_id (qx_acquired q), dv_tenant_id = tenant\<rparr>) w)"
proof -
  let ?delete = "DeleteVolume \<lparr>dv_volume_id = aq_volume_id (qx_acquired q), dv_tenant_id = tenant\<rparr>"
  let ?dir = "aq_mount_dir (qx_acquired q)" and ?mounted = "aq_mounted (qx_acquired q)"
  let ?k4 = "if_set (aq_volume_id (qx_acquired q) \<noteq> []) (call_only api ?delete)"
  let ?k3 = "run_then (if_set (?dir \<noteq> []) (command_only env cfg (''rmdir '' @ shlex_quote ?dir))) (\<lambda>_. ?k4)"
  let ?k2 = "run_then (if_set ?mounted (command_only env cfg (''umount '' @ shlex_quote ?dir))) (\<lambda>_. ?k3)"
  let ?k1 = "run_then (if_set (?mounted \<and> aq_subdir (qx_acquired q) \<noteq> []) (command_only env cfg
      (''rm -rf '' @ shlex_quote (?dir @ ''/'' @ aq_subdir (qx_acquired q))))) (\<lambda>_. ?k2)"
  obtain q1 where "run_then (drop_quota (qx_acquired q)) (\<lambda>_. ?k1) q = ?k1 q1"
    using run_then_returns [OF assms(2)] by blast
  moreover obtain q2 where "?k1 q1 = ?k2 q2" using run_then_returns [OF command_only_returns] by blast
  moreover obtain q3 where "?k2 q2 = ?k3 q3" using run_then_returns [OF command_only_returns] by blast
  moreover obtain q4 where "?k3 q3 = ?k4 q4" using run_then_returns [OF command_only_returns] by blast
  ultimately have "cleanup_native env cfg api tenant drop_quota q = snd (call_only api ?delete q4)"
    using assms(1) by (simp add: cleanup_native_def swallow_def Let_def if_set_def)
  then have "qx_world (cleanup_native env cfg api tenant drop_quota q) = snd (p_call api ?delete (qx_world q4))"
    by (simp add: call_only_def run_then_def call_def ret_def split: prod.split sum.split)
  then show ?thesis by blast
qed

end
