(* ===== verification/Directory_Quota_Check.thy ===== *)
theory Directory_Quota_Check
  imports Quota_Host
begin

text \<open>
  \<open>StorageDirectoryQuotaEnforcementCheck\<close>: set, update, list and delete of a directory quota on a volume
  that the check acquires, and the proof by writing that the limit holds. The quotas of a
  provider are reached through the calls of its shim only.
\<close>

section \<open>Calls on the quota of the probe directory\<close>

definition directory_limit :: "volume \<Rightarrow> string \<Rightarrow> int \<Rightarrow> request" where
  "directory_limit vol subdir nbytes = SetDirectoryQuota \<lparr>sdq_quota =
     \<lparr>dq_tenant_id = Some (vol_tenant_id vol), dq_volume_id = vol_id vol, dq_path = Some subdir, dq_id = None,
      dq_hard = Some \<lparr>ql_bytes = Some nbytes, ql_inodes = None\<rparr>, dq_usage = no_usage, dq_attributes = []\<rparr>\<rparr>"

definition get_limit :: "volume \<Rightarrow> string \<Rightarrow> request" where
  "get_limit vol subdir = GetDirectoryQuota \<lparr>gdq_volume_id = vol_id vol,
     gdq_tenant_id = Some (vol_tenant_id vol), gdq_path = Some subdir, gdq_id = None\<rparr>"

definition list_limits :: "volume \<Rightarrow> request" where
  "list_limits vol = ListDirectoryQuotas
     \<lparr>ldq_volume_id = vol_id vol, ldq_tenant_id = Some (vol_tenant_id vol)\<rparr>"

definition drop_limit :: "string \<Rightarrow> string option \<Rightarrow> string \<Rightarrow> request" where
  "drop_limit volume_id tenant subdir = DeleteDirectoryQuota \<lparr>ddq_volume_id = volume_id,
     ddq_tenant_id = tenant, ddq_path = Some subdir, ddq_id = None\<rparr>"

definition hard_of :: "directory_quota \<Rightarrow> int option" where
  "hard_of quota = (case dq_hard quota of None \<Rightarrow> None | Some limits \<Rightarrow> ql_bytes limits)"

definition read_limit :: "'w provider \<Rightarrow> volume \<Rightarrow> string \<Rightarrow> ('w, int option) act" where
  "read_limit api vol subdir = run_then (call api (get_limit vol subdir)) (\<lambda>answer. case answer of
     DirectoryQuotaReply quota \<Rightarrow> ret (hard_of quota) | _ \<Rightarrow> raises wrong_reply)"

text \<open>\<open>(path or "").strip("/")\<close>\<close>

definition norm :: "string option \<Rightarrow> string" where
  "norm path = (let slash = (\<lambda>c. c = CHR ''/'') in case path of None \<Rightarrow> []
     | Some p \<Rightarrow> rev (dropWhile slash (rev (dropWhile slash p))))"

section \<open>Round trip\<close>

definition set_and_read ::
  "'w quota_env \<Rightarrow> 'w provider \<Rightarrow> string \<Rightarrow> volume \<Rightarrow> string \<Rightarrow> string \<Rightarrow> int \<Rightarrow> ('w, bool option) act" where
  "set_and_read env api name vol subdir step nbytes =
     run_then (call api (directory_limit vol subdir nbytes)) (\<lambda>_.
     run_then (await_hard env (read_limit api vol subdir) nbytes) (\<lambda>(matched, seen).
       if matched then ret None
       else run_then (fail_with name (''after '' @ step @ '', hard=''
         @ (case seen of None \<Rightarrow> ''None'' | Some h \<Rightarrow> int_str h) @ '' != '' @ int_str nbytes
         @ '' (re-read for '' @ int_str READBACK_TIMEOUT_S @ ''s)'')) (\<lambda>b. ret (Some b))))"

definition check_listed :: "'w provider \<Rightarrow> string \<Rightarrow> volume \<Rightarrow> string \<Rightarrow> ('w, bool option) act" where
  "check_listed api name vol subdir =
     run_then (call api (list_limits vol)) (\<lambda>answer. case answer of
       DirectoryQuotas listed \<Rightarrow>
        (if list_ex (\<lambda>quota. norm (dq_path quota) = norm (Some subdir)) listed then ret None
         else run_then (fail_with name (''subdir '' @ repr_str subdir @ '' not in list_directory_quotas (''
           @ py_repr (\<lambda>r. []) (PList (map (\<lambda>quota. case dq_path quota of
               None \<Rightarrow> PNone | Some p \<Rightarrow> PStr p) listed)) @ '')'')) (\<lambda>b. ret (Some b)))
     | _ \<Rightarrow> raises wrong_reply)"

definition create_and_update ::
  "'w quota_env \<Rightarrow> settings \<Rightarrow> 'w provider \<Rightarrow> string \<Rightarrow> volume \<Rightarrow> string \<Rightarrow> ('w, bool option) act" where
  "create_and_update env cfg api name vol subdir =
     catching
       (unless_returned (set_and_read env api name vol subdir ''create'' (qs_create_hard cfg))
       (unless_returned (set_and_read env api name vol subdir ''update'' (qs_enforce_hard cfg))
         (check_listed api name vol subdir)))
       (on_contract_error (\<lambda>e.
         run_then (fail_with name (raised (qe_text env) ''CRUD'' e)) (\<lambda>b. ret (Some b))))"

definition delete_limit :: "'w quota_env \<Rightarrow> 'w provider \<Rightarrow> string \<Rightarrow> volume \<Rightarrow> string \<Rightarrow> ('w, bool option) act" where
  "delete_limit env api name vol subdir =
     catching (run_then (call api (drop_limit (vol_id vol) (Some (vol_tenant_id vol)) subdir)) (\<lambda>_. ret None))
       (on_contract_error (\<lambda>e. run_then (fail_with name (raised (qe_text env) ''delete'' e)) (\<lambda>b. ret (Some b))))"

text \<open>The \<open>else\<close> of the \<open>try\<close> fails: the record is still there.\<close>

definition check_gone :: "'w quota_env \<Rightarrow> 'w provider \<Rightarrow> string \<Rightarrow> volume \<Rightarrow> string \<Rightarrow> ('w, bool option) act" where
  "check_gone env api name vol subdir q =
    (case call api (get_limit vol subdir) q of
       (Inl e, q') \<Rightarrow>
        (if not_found e then ret None q'
         else if contract_error e
         then run_then (fail_with name (raised (qe_text env) ''get after delete'' e)) (\<lambda>b. ret (Some b)) q'
         else (Inl e, q'))
     | (Inr _, q') \<Rightarrow> run_then
         (fail_with name ''get after delete returned a quota (delete did not remove it)'') (\<lambda>b. ret (Some b)) q')"

definition run_crud ::
  "'w quota_env \<Rightarrow> settings \<Rightarrow> 'w provider \<Rightarrow> string \<Rightarrow> volume \<Rightarrow> string \<Rightarrow> ('w, bool) act" where
  "run_crud env cfg api tag vol subdir =
    (let name = subtest_name ''directory-quota-crud'' tag
     in run_then (unless_returned (create_and_update env cfg api name vol subdir)
          (unless_returned (delete_limit env api name vol subdir) (check_gone env api name vol subdir)))
        (\<lambda>r. case r of
           Some b \<Rightarrow> ret b
         | None \<Rightarrow> run_then (note_subtest name True (''create('' @ int_str (qs_create_hard cfg) @ '') -> update(''
             @ int_str (qs_enforce_hard cfg) @ '') -> list -> delete round-trip verified'') False) (\<lambda>_. ret True)))"

section \<open>Enforcement\<close>

definition write_texts_directory :: write_texts where
  "write_texts_directory = \<lparr>
     wt_under = (\<lambda>under hard. ''below-limit write ('' @ int_str under @ '' MiB, limit '' @ int_str hard
       @ '' MiB) failed: ''),
     wt_blocked = (\<lambda>hard written. ''limit '' @ int_str hard @ '' MiB enforced: writes blocked after ~''
       @ int_str written @ '' MiB with a no-space/quota error''),
     wt_unblocked = (\<lambda>hard written. ''wrote ~'' @ int_str written @ '' MiB into a '' @ int_str hard
       @ '' MiB quota without being blocked - not enforced'')\<rparr>"

definition run_enforcement ::
  "'w quota_env \<Rightarrow> settings \<Rightarrow> 'w provider \<Rightarrow> string \<Rightarrow> volume \<Rightarrow> string \<Rightarrow> 'w writer \<Rightarrow> ('w, bool) act" where
  "run_enforcement env cfg api tag vol subdir writer =
    (let name = subtest_name ''directory-quota-enforcement'' tag; nbytes = qs_enforce_hard cfg
     in run_then (catching (run_then (call api (directory_limit vol subdir nbytes)) (\<lambda>_. ret None))
          (on_contract_error (\<lambda>e.
            run_then (fail_with name (raised (qe_text env) ''set_directory_quota'' e)) (\<lambda>b. ret (Some b)))))
        (\<lambda>r. case r of
           Some b \<Rightarrow> ret b
         | None \<Rightarrow> prove_enforced env writer subdir nbytes name write_texts_directory))"

section \<open>A provider\<close>

definition drop_probe_quota :: "'w provider \<Rightarrow> string option \<Rightarrow> acquired \<Rightarrow> ('w, unit) act" where
  "drop_probe_quota api tenant aq =
     if_set (aq_subdir aq \<noteq> [] \<and> aq_volume_id aq \<noteq> []) (catching
       (call_only api (drop_limit (aq_volume_id aq) tenant (aq_subdir aq)))
       (on_contract_error (\<lambda>e. ret ())))"

text \<open>Both subtests, with the writes of the given writer.\<close>

definition crud_and_enforcement ::
  "'w quota_env \<Rightarrow> settings \<Rightarrow> 'w provider \<Rightarrow> string \<Rightarrow> volume \<Rightarrow> string \<Rightarrow> 'w writer \<Rightarrow> ('w, bool) act" where
  "crud_and_enforcement env cfg api tag vol subdir writer =
     run_then (run_crud env cfg api tag vol subdir) (\<lambda>crud_ok.
     run_then (run_enforcement env cfg api tag vol subdir writer) (\<lambda>enforce_ok.
     ret (crud_ok \<and> enforce_ok)))"

definition AREA :: string where "AREA = ''directory-quota''"

text \<open>\<open>_exercise_provider_k8s\<close>\<close>

definition exercise_on_cluster :: "'w quota_env \<Rightarrow> 'w exercise" where
  "exercise_on_cluster env cfg p api =
    (let tag = mp_name p
     in if qs_storage_class cfg = [] \<and> qs_pvc_name cfg = []
        then skip_both AREA tag ''no storage_class or pvc_name configured to acquire a Kubernetes volume''
        else run_then (acquire (\<lambda>_. nothing_acquired)) (\<lambda>_. run_then (in_world (qe_run_id env)) (\<lambda>run_id.
          let namespace = (if qs_pvc_name cfg \<noteq> [] then qs_pvc_namespace cfg else qs_ns_prefix cfg @ ''-'' @ run_id);
              pvc = (if qs_pvc_name cfg \<noteq> [] then qs_pvc_name cfg else ''dq-probe-'' @ run_id);
              pod = (if qs_pod_name cfg \<noteq> [] then qs_pod_name cfg else ''dq-probe-'' @ run_id);
              subdir = ''isvtest-dq-'' @ run_id
          in finally_do
            (or_fail AREA tag (prepare_claim env cfg namespace pvc)
            (or_fail AREA tag (prepare_pod env cfg namespace pod pvc)
            (run_then (resolve_volume env cfg api namespace pvc (mp_tenant_id p)) (\<lambda>found. case found of
               Inl verr \<Rightarrow> fail_both AREA tag
                 (''could not resolve shim volume for PVC '' @ repr_str pvc @ '': '' @ verr)
             | Inr vol \<Rightarrow> run_then (acquire (\<lambda>aq. aq\<lparr>aq_volume_id := vol_id vol, aq_subdir := subdir\<rparr>)) (\<lambda>_.
                 run_then (exec_pod env namespace pod (''mkdir -p /data/'' @ shlex_quote subdir) (qs_timeout cfg)) (\<lambda>mk.
                 if cr_exit_code mk \<noteq> 0
                 then fail_both AREA tag (''mkdir /data/'' @ subdir @ '' failed: '' @ detail_of mk)
                 else crud_and_enforcement env cfg api tag vol subdir
                   (\<lambda>relpath. dd_pod env cfg namespace pod (''/data/'' @ relpath))))))))
            (cleanup_cluster env cfg namespace pod pvc (drop_probe_quota api (mp_tenant_id p))))))"

definition native_request :: "settings \<Rightarrow> 'w manifest_provider \<Rightarrow> string \<Rightarrow> request" where
  "native_request cfg p run_id = CreateVolume \<lparr>cv_size_bytes = qs_volume_size cfg,
     cv_volume_type = volume_type_of (mp_volume_type p), cv_tenant_id = mp_tenant_id p,
     cv_name = Some (''isvtest-dq-'' @ run_id), cv_tier = None,
     cv_tags = Some [(''isvtest-run-id'', run_id), (''provider'', mp_name p),
       (''test-case'', ''directory-quota-enforcement'')]\<rparr>"

text \<open>The body of the \<open>try\<close> whose \<open>finally\<close> deletes the volume.\<close>

definition on_native_volume ::
  "'w quota_env \<Rightarrow> settings \<Rightarrow> 'w provider \<Rightarrow> string \<Rightarrow> string \<Rightarrow> volume \<Rightarrow> ('w, bool) act" where
  "on_native_volume env cfg api tag run_id vol = (case vol_mount vol of
     None \<Rightarrow> skip_both AREA tag
       ''native volume created but returned no mount instructions (Volume.mount is None)''
   | Some mount \<Rightarrow> run_then (in_world (qe_mkdtemp env (qs_ns_prefix cfg @ ''-'' @ run_id @ ''-''))) (\<lambda>dir.
       run_then (acquire (\<lambda>aq. aq\<lparr>aq_mount_dir := dir\<rparr>)) (\<lambda>_.
       run_then (mount_native_volume env cfg mount dir) (\<lambda>mounted.
       if \<not> mounted
       then fail_both AREA tag (''failed to mount native volume '' @ repr_str (vol_id vol) @ '' at '' @ repr_str dir)
       else (let subdir = ''isvtest-dq-'' @ run_id
         in run_then (acquire (\<lambda>aq. aq\<lparr>aq_mounted := True, aq_subdir := subdir\<rparr>)) (\<lambda>_.
            run_then (command env (''mkdir -p '' @ shlex_quote (dir @ ''/'' @ subdir)) (qs_timeout cfg)) (\<lambda>mk.
            if cr_exit_code mk \<noteq> 0
            then fail_both AREA tag (''mkdir '' @ dir @ ''/'' @ subdir @ '' failed: '' @ detail_of mk)
            else crud_and_enforcement env cfg api tag vol subdir (dd_local env cfg dir))))))))"

definition exercise_natively :: "'w quota_env \<Rightarrow> 'w exercise" where
  "exercise_natively env cfg p api =
     run_then (acquire (\<lambda>_. nothing_acquired)) (\<lambda>_. run_then (in_world (qe_run_id env)) (\<lambda>run_id q.
       case call api (native_request cfg p run_id) q of
         (Inl e, q') \<Rightarrow> fail_both AREA (mp_name p) (raised (qe_text env) ''native create_volume'' e) q'
       | (Inr (VolumeReply vol), q') \<Rightarrow>
           run_then (acquire (\<lambda>aq. aq\<lparr>aq_volume_id := vol_id vol\<rparr>)) (\<lambda>_.
           finally_do (on_native_volume env cfg api (mp_name p) run_id vol)
             (cleanup_native env cfg api (mp_tenant_id p) (drop_probe_quota api (mp_tenant_id p)))) q'
       | (Inr _, q') \<Rightarrow> fail_both AREA (mp_name p) (raised (qe_text env) ''native create_volume'' wrong_reply) q'))"

definition DIRECTORY_QUOTA_CAPS :: "string list" where
  "DIRECTORY_QUOTA_CAPS = [CAP_DIRECTORY_QUOTA_SET, CAP_DIRECTORY_QUOTA_GET, CAP_DIRECTORY_QUOTA_LIST,
     CAP_DIRECTORY_QUOTA_DELETE]"

definition directory_quota_check ::
  "(rat \<Rightarrow> string) \<Rightarrow> 'w manifest_world \<Rightarrow> 'w quota_env \<Rightarrow> string \<Rightarrow> dict \<Rightarrow> verdict \<Rightarrow> 'w \<Rightarrow> ran \<times> 'w" where
  "directory_quota_check fr mw env default_sc =
     quota_check fr mw AREA ''Directory-quota'' DIRECTORY_QUOTA_CAPS (read_settings fr default_sc ''isvtest-dq'' 600)
       (\<lambda>_. exercise_chosen env AREA (exercise_on_cluster env) (exercise_natively env))"

section \<open>What a passing enforcement subtest establishes\<close>

text \<open>C36. The enforcement subtest of a directory quota passes only when the limit was set, a write below the
  limit succeeded, and a later write was refused with a no-space or quota error before the cap on
  the amount written; any other end of the writes fails it.\<close>

theorem directory_quota_enforced:
  assumes "run_enforcement env cfg api tag vol subdir writer q = (Inr True, q')"
  shows "\<exists>answer q1. call api (directory_limit vol subdir (qs_enforce_hard cfg)) q = (Inr answer, q1)
    \<and> enforced_on env writer subdir (qs_enforce_hard cfg) q1 (qx_world q')"
proof -
  let ?limit = "call api (directory_limit vol subdir (qs_enforce_hard cfg))"
  let ?rest = "prove_enforced env writer subdir (qs_enforce_hard cfg)
      (subtest_name ''directory-quota-enforcement'' tag) write_texts_directory"
  show ?thesis
  proof (cases "?limit q")
    case (Pair r q1)
    show ?thesis
    proof (cases r)
      case (Inl e)
      then show ?thesis using assms Pair
        by (auto simp: run_enforcement_def Let_def run_then_def catching_def on_contract_error_def ret_def
            fail_with_def note_subtest_def split: if_splits)
    next
      case (Inr answer)
      then have "?rest q1 = (Inr True, q')"
        using assms Pair by (simp add: run_enforcement_def Let_def run_then_def catching_def ret_def)
      then show ?thesis using Pair Inr prove_enforced_sound by blast
    qed
  qed
qed

text \<open>A backend that accepts everything, and a host that runs every command and has 100 MiB left.\<close>

definition accepting :: "'w provider" where
  "accepting = \<lparr>p_properties = undefined, p_health_check = (\<lambda>w. (Inr (), w)), p_call = (\<lambda>rq w. (Inr NoReply, w))\<rparr>"

definition demo_settings :: settings where
  "demo_settings = \<lparr>qs_storage_class = [], qs_pvc_name = ''data'', qs_pvc_namespace = ''default'', qs_pod_name = [],
     qs_pvc_size = ''5Gi'', qs_create_hard = 2 ^ 30, qs_enforce_hard = 64 * MIB, qs_volume_size = 2 ^ 30,
     qs_bind_timeout = 240, qs_write_timeout = 300, qs_ns_prefix = ''isvtest-dq'', qs_timeout = 600\<rparr>"

definition demo_writer :: "int writer" where
  "demo_writer path n q = (let w = qx_world q + n
     in (Inr (if w \<le> 100 then \<lparr>cr_exit_code = 0, cr_stdout = [], cr_stderr = []\<rparr>
           else \<lparr>cr_exit_code = 1, cr_stdout = ''dd: No space left on device'', cr_stderr = []\<rparr>),
         q\<lparr>qx_world := w\<rparr>))"

definition quiet_env :: "bool \<Rightarrow> (string \<Rightarrow> 'w \<Rightarrow> 'w) \<Rightarrow> 'w quota_env" where
  "quiet_env ready record_command = \<lparr>
     qe_run = (\<lambda>cmd t w. (\<lparr>cr_exit_code = (if ready then 0 else 1), cr_stdout = [], cr_stderr = []\<rparr>, record_command cmd w)),
     qe_apply = (\<lambda>m w. ((0, []), record_command (case m of PvcManifest n p c a s \<Rightarrow> ''apply pvc '' @ p
       | PodManifest n pod p \<Rightarrow> ''apply pod '' @ pod) w)),
     qe_now = (\<lambda>w. 0), qe_sleep = (\<lambda>n w. w), qe_mkdtemp = (\<lambda>prefix w. (''/tmp/dq'', w)),
     qe_run_id = (\<lambda>w. (''c0ffee00'', w)), qe_json = (\<lambda>t. Inl ''no json''), qe_kubectl = Some ''kubectl'',
     qe_text = (\<lambda>c. []), qe_float = (\<lambda>r. [])\<rparr>"

definition probe_volume :: "mount_spec option \<Rightarrow> volume" where
  "probe_volume mount = \<lparr>vol_tenant_id = ''t'', vol_id = ''v1'', vol_size_bytes = 2 ^ 30, vol_created_at = 0, vol_type = File,
     vol_state = Available, vol_name = None, vol_mount = mount, vol_csi = None, vol_tier = None, vol_tags = [],
     vol_attributes = [], vol_used_bytes = None, vol_available_bytes = None, vol_used_inodes = None,
     vol_available_inodes = None\<rparr>"

definition starting :: "'w \<Rightarrow> 'w quota_state" where
  "starting w = \<lparr>qx_verdict = fresh_verdict, qx_acquired = nothing_acquired, qx_world = w\<rparr>"

abbreviation demo_enforcement :: "(storage_error + bool) \<times> int quota_state" where
  "demo_enforcement \<equiv> run_enforcement (quiet_env True (\<lambda>c w. w)) demo_settings accepting ''p'' (probe_volume None)
     ''d'' demo_writer (starting 0)"

lemma directory_quota_enforced_witness:
  "\<exists>answer q1. call accepting (directory_limit (probe_volume None) ''d'' (qs_enforce_hard demo_settings)) (starting 0)
      = (Inr answer, q1)
    \<and> enforced_on (quiet_env True (\<lambda>c w. w)) demo_writer ''d'' (qs_enforce_hard demo_settings) q1
        (qx_world (snd demo_enforcement))"
proof (rule directory_quota_enforced)
  have "fst demo_enforcement = Inr True" by code_simp
  then show "demo_enforcement = (Inr True, snd demo_enforcement)" by (simp add: prod_eq_iff)
qed

section \<open>What is left behind\<close>

lemma keeps_read_limit [keeping]: "keeps_volume (read_limit api vol subdir)"
  by (auto simp: read_limit_def keeping split: reply.split)

lemma keeps_set_and_read [keeping]: "keeps_volume (set_and_read env api name vol subdir step n)"
  by (auto simp: set_and_read_def keeping split: prod.split)

lemma keeps_check_listed [keeping]: "keeps_volume (check_listed api name vol subdir)"
  by (auto simp: check_listed_def keeping split: reply.split)

lemma keeps_create_and_update [keeping]: "keeps_volume (create_and_update env cfg api name vol subdir)"
  by (simp add: create_and_update_def keeping)

lemma keeps_delete_limit [keeping]: "keeps_volume (delete_limit env api name vol subdir)"
  by (simp add: delete_limit_def keeping)

lemma keeps_check_gone [keeping]: "keeps_volume (check_gone env api name vol subdir)"
  unfolding keeps_volume_def
proof
  fix q
  obtain r q1 where r: "call api (get_limit vol subdir) q = (r, q1)" by fastforce
  have c: "keeps_volume (call api (get_limit vol subdir))" by (simp add: keeping)
  have "keeps_volume (run_then (fail_with name m) (\<lambda>b. ret (Some b)))" for m
    by (simp add: keeping)
  then have f: "aq_volume_id (qx_acquired (snd (run_then (fail_with name m) (\<lambda>b. ret (Some b)) q')))
      = aq_volume_id (qx_acquired q')" for m and q' :: "'a quota_state"
    unfolding keeps_volume_def by blast
  show "aq_volume_id (qx_acquired (snd (check_gone env api name vol subdir q))) = aq_volume_id (qx_acquired q)"
    using keeps_result [OF c r] by (cases r) (simp_all add: check_gone_def r ret_def f)
qed

lemma keeps_crud [keeping]: "keeps_volume (run_crud env cfg api tag vol subdir)"
  by (auto simp: run_crud_def Let_def keeping split: option.split)

lemma keeps_enforcement [keeping]:
  assumes "\<And>path n. keeps_volume (writer path n)"
  shows "keeps_volume (run_enforcement env cfg api tag vol subdir writer)"
proof -
  have "keeps_volume (catching (run_then (call api (directory_limit vol subdir n)) (\<lambda>_. ret None))
      (on_contract_error (\<lambda>e. run_then (fail_with name (m e)) (\<lambda>b. ret (Some b)))))" for n name m
    by (simp add: keeping)
  then show ?thesis
    using assms by (auto simp: run_enforcement_def Let_def keeping split: option.split)
qed

lemma keeps_on_native [keeping]: "keeps_volume (on_native_volume env cfg api tag run_id vol)"
  by (auto simp: on_native_volume_def crud_and_enforcement_def Let_def keeping split: option.split)

lemma drop_probe_quota_returns:
  assumes "\<And>subdir w e. fst (p_call api (drop_limit (aq_volume_id aq) tenant subdir) w) = Inl e \<Longrightarrow> contract_error e"
  shows "returns (drop_probe_quota api tenant aq)"
  unfolding returns_def
proof
  fix q :: "'a quota_state"
  obtain a w where c: "p_call api (drop_limit (aq_volume_id aq) tenant (aq_subdir aq)) (qx_world q) = (a, w)"
    by fastforce
  with assms [of "aq_subdir aq" "qx_world q"] show "\<exists>a q'. drop_probe_quota api tenant aq q = (Inr a, q')"
    by (cases a) (auto simp: drop_probe_quota_def if_set_def catching_def call_only_def run_then_def call_def
        on_contract_error_def ret_def)
qed

text \<open>C37. A native run deletes the volume it created, however the run ends (also when it skips, fails or raises):
  the last effect on the backend and the host is the deletion of that volume. The backend only has
  to answer the deletion of the probe's quota, or to refuse it with an error of the contract.\<close>

theorem native_volume_deleted:
  assumes "qe_run_id env (qx_world q) = (run_id, w1)"
    and "p_call api (native_request cfg p run_id) w1 = (Inr (VolumeReply vol), w2)" and "vol_id vol \<noteq> []"
    and "\<And>subdir w e. fst (p_call api (drop_limit (vol_id vol) (mp_tenant_id p) subdir) w) = Inl e \<Longrightarrow> contract_error e"
  shows "\<exists>w. qx_world (snd (exercise_natively env cfg p api q))
    = snd (p_call api (DeleteVolume \<lparr>dv_volume_id = vol_id vol, dv_tenant_id = mp_tenant_id p\<rparr>) w)"
proof -
  let ?q = "q\<lparr>qx_world := w2, qx_acquired := nothing_acquired\<lparr>aq_volume_id := vol_id vol\<rparr>\<rparr>"
  obtain r q3 where body: "on_native_volume env cfg api (mp_name p) run_id vol ?q = (r, q3)" by fastforce
  then have k: "aq_volume_id (qx_acquired q3) = vol_id vol"
    using keeps_result [OF keeps_on_native body] by simp
  have "snd (exercise_natively env cfg p api q)
      = cleanup_native env cfg api (mp_tenant_id p) (drop_probe_quota api (mp_tenant_id p)) q3"
    using body assms(1,2)
    by (simp add: exercise_natively_def run_then_def acquire_def in_world_def call_def finally_do_def)
  with cleanup_native_deletes [of q3] drop_probe_quota_returns [of api "qx_acquired q3"] k assms(3,4)
  show ?thesis by simp
qed

definition demo_mount :: mount_spec where
  "demo_mount = \<lparr>mt_fs_type = ''nfs'', mt_source = ''s:/v1'', mt_options = None\<rparr>"

text \<open>The world is the list of the methods called and the commands run.\<close>

definition recording :: "string list provider" where
  "recording = \<lparr>p_properties = undefined, p_health_check = (\<lambda>w. (Inr (), w)),
     p_call = (\<lambda>rq w. (case rq of
         CreateVolume r \<Rightarrow> Inr (VolumeReply (probe_volume (Some demo_mount)))
       | GetDirectoryQuota r \<Rightarrow> Inl (PythonError ''OSError'')
       | _ \<Rightarrow> Inr NoReply, w @ [method_name rq]))\<rparr>"

definition demo_provider :: "string list manifest_provider" where
  "demo_provider = \<lparr>mp_name = ''p'', mp_volume_type = ''file'', mp_tenant_id = Some ''t'', mp_provider_namespace = None,
     mp_provider_id = None, mp_provider_version = None, mp_storage_protocols = [], mp_vendor = [], mp_backend = [],
     mp_sdk_version = None, mp_expected = [], mp_states = [], mp_qualifiers = [], mp_attributes = [],
     mp_storage_classes = [], mp_shim_kind = None, mp_api = Some recording\<rparr>"

definition recording_env :: "bool \<Rightarrow> string list quota_env" where
  "recording_env ready = quiet_env ready (\<lambda>c w. w @ [c])"

lemma native_volume_deleted_witness:
  "\<exists>w. qx_world (snd (exercise_natively (recording_env True) demo_settings demo_provider recording (starting [])))
    = snd (p_call recording (DeleteVolume \<lparr>dv_volume_id = ''v1'', dv_tenant_id = Some ''t''\<rparr>) w)"
  using native_volume_deleted [of "recording_env True" "starting []" "''c0ffee00''" "[]" recording demo_settings
      demo_provider "probe_volume (Some demo_mount)" "[''create_volume'']"]
  by (simp add: recording_env_def quiet_env_def starting_def recording_def native_request_def probe_volume_def
      demo_provider_def drop_limit_def)

text \<open>On a cluster the pod is noted as created only once it is ready. With a claim that is reused, a pod that
  was applied and does not become ready is therefore never deleted.\<close>

lemma unready_pod_left_behind:
  "(let (r, q) = exercise_on_cluster (recording_env False) demo_settings demo_provider recording (starting [])
    in r = Inr False \<and> list_ex (\<lambda>c. prefix ''apply pod dq-probe-'' c) (qx_world q)
      \<and> \<not> list_ex (\<lambda>c. prefix ''kubectl delete pod'' c) (qx_world q))"
  by code_simp

end
