(* ===== verification/User_Quota_Check.thy ===== *)
theory User_Quota_Check
  imports Quota_Host
begin

text \<open>
  \<open>StorageUserQuotaEnforcementCheck\<close>: the same course as the check of directory quotas, for the quota of
  one user id. A backend may refuse user quotas on a volume, which skips both subtests, and it may
  keep a record without a limit after the deletion. On a cluster the pod must write as that user.
\<close>

section \<open>Calls on the quota of the probe user\<close>

definition user_limit :: "volume \<Rightarrow> string \<Rightarrow> int \<Rightarrow> request" where
  "user_limit vol user nbytes = SetUserQuota \<lparr>suq_quota =
     \<lparr>uq_tenant_id = Some (vol_tenant_id vol), uq_volume_id = vol_id vol, uq_user = Some user,
      uq_hard = Some \<lparr>ql_bytes = Some nbytes, ql_inodes = None\<rparr>, uq_usage = no_usage, uq_attributes = []\<rparr>\<rparr>"

definition get_user_limit :: "volume \<Rightarrow> string \<Rightarrow> request" where
  "get_user_limit vol user = GetUserQuota \<lparr>guq_volume_id = vol_id vol,
     guq_tenant_id = Some (vol_tenant_id vol), guq_user = Some user\<rparr>"

definition list_user_limits :: "volume \<Rightarrow> request" where
  "list_user_limits vol = ListUserQuotas
     \<lparr>luq_volume_id = vol_id vol, luq_tenant_id = Some (vol_tenant_id vol)\<rparr>"

definition drop_user_limit :: "string \<Rightarrow> string option \<Rightarrow> string \<Rightarrow> request" where
  "drop_user_limit volume_id tenant user = DeleteUserQuota
     \<lparr>duq_volume_id = volume_id, duq_tenant_id = tenant, duq_user = Some user\<rparr>"

definition user_hard :: "user_quota \<Rightarrow> int option" where
  "user_hard quota = (case uq_hard quota of None \<Rightarrow> None | Some limits \<Rightarrow> ql_bytes limits)"

definition read_user_limit :: "'w provider \<Rightarrow> volume \<Rightarrow> string \<Rightarrow> ('w, int option) act" where
  "read_user_limit api vol user = run_then (call api (get_user_limit vol user)) (\<lambda>answer. case answer of
     UserQuotaReply quota \<Rightarrow> ret (user_hard quota) | _ \<Rightarrow> raises wrong_reply)"

section \<open>Round trip\<close>

definition set_and_read_user ::
  "'w quota_env \<Rightarrow> 'w provider \<Rightarrow> string \<Rightarrow> volume \<Rightarrow> string \<Rightarrow> string \<Rightarrow> int \<Rightarrow> ('w, bool option) act" where
  "set_and_read_user env api name vol user step nbytes =
     run_then (call api (user_limit vol user nbytes)) (\<lambda>_.
     run_then (await_hard env (read_user_limit api vol user) nbytes) (\<lambda>(matched, seen).
       if matched then ret None
       else run_then (fail_with name (''after '' @ step @ '', hard=''
         @ (case seen of None \<Rightarrow> ''None'' | Some h \<Rightarrow> int_str h) @ '' != '' @ int_str nbytes
         @ '' for user '' @ repr_str user @ '' (re-read for '' @ int_str READBACK_TIMEOUT_S @ ''s)''))
         (\<lambda>b. ret (Some b))))"

definition check_user_listed :: "'w provider \<Rightarrow> string \<Rightarrow> volume \<Rightarrow> string \<Rightarrow> ('w, bool option) act" where
  "check_user_listed api name vol user =
     run_then (call api (list_user_limits vol)) (\<lambda>answer. case answer of
       UserQuotas listed \<Rightarrow>
        (if list_ex (\<lambda>quota. uq_user quota = Some user) listed then ret None
         else run_then (fail_with name (''user '' @ repr_str user @ '' not in list_user_quotas (''
           @ py_repr (\<lambda>r. []) (PList (map (\<lambda>quota. case uq_user quota of
               None \<Rightarrow> PNone | Some u \<Rightarrow> PStr u) listed)) @ '')'')) (\<lambda>b. ret (Some b)))
     | _ \<Rightarrow> raises wrong_reply)"

text \<open>\<open>except NotSupportedError: raise\<close> comes before the handler of the other errors.\<close>

definition create_and_update_user ::
  "'w quota_env \<Rightarrow> settings \<Rightarrow> 'w provider \<Rightarrow> string \<Rightarrow> volume \<Rightarrow> string \<Rightarrow> ('w, bool option) act" where
  "create_and_update_user env cfg api name vol user =
     catching
       (unless_returned (set_and_read_user env api name vol user ''create'' (qs_create_hard cfg))
       (unless_returned (set_and_read_user env api name vol user ''update'' (qs_enforce_hard cfg))
         (check_user_listed api name vol user)))
       (\<lambda>e. if is_unsupported e then None
         else on_contract_error (\<lambda>e.
           run_then (fail_with name (raised (qe_text env) ''CRUD'' e)) (\<lambda>b. ret (Some b))) e)"

definition delete_user_limit :: "'w quota_env \<Rightarrow> 'w provider \<Rightarrow> string \<Rightarrow> volume \<Rightarrow> string \<Rightarrow> ('w, bool option) act" where
  "delete_user_limit env api name vol user =
     catching (run_then (call api (drop_user_limit (vol_id vol) (Some (vol_tenant_id vol)) user)) (\<lambda>_. ret None))
       (on_contract_error (\<lambda>e. run_then (fail_with name (raised (qe_text env) ''delete'' e)) (\<lambda>b. ret (Some b))))"

text \<open>A record that is left may have no positive limit.\<close>

definition check_user_gone :: "'w quota_env \<Rightarrow> 'w provider \<Rightarrow> string \<Rightarrow> volume \<Rightarrow> string \<Rightarrow> ('w, bool option) act" where
  "check_user_gone env api name vol user q =
    (case call api (get_user_limit vol user) q of
       (Inl e, q') \<Rightarrow>
        (if not_found e then ret None q'
         else if contract_error e
         then run_then (fail_with name (raised (qe_text env) ''get after delete'' e)) (\<lambda>b. ret (Some b)) q'
         else (Inl e, q'))
     | (Inr (UserQuotaReply remaining), q') \<Rightarrow>
        (case user_hard remaining of
           Some h \<Rightarrow> if 0 < h
             then run_then (fail_with name (''get after delete still reports hard='' @ int_str h @ '' for user ''
               @ repr_str user)) (\<lambda>b. ret (Some b)) q'
             else ret None q'
         | None \<Rightarrow> ret None q')
     | (Inr _, q') \<Rightarrow> (Inl wrong_reply, q'))"

definition run_user_crud ::
  "'w quota_env \<Rightarrow> settings \<Rightarrow> 'w provider \<Rightarrow> string \<Rightarrow> volume \<Rightarrow> string \<Rightarrow> ('w, bool) act" where
  "run_user_crud env cfg api tag vol user =
    (let name = subtest_name ''user-quota-crud'' tag
     in run_then (unless_returned (create_and_update_user env cfg api name vol user)
          (unless_returned (delete_user_limit env api name vol user) (check_user_gone env api name vol user)))
        (\<lambda>r. case r of
           Some b \<Rightarrow> ret b
         | None \<Rightarrow> run_then (note_subtest name True (''user '' @ repr_str user @ '': create('' @ int_str (qs_create_hard cfg)
             @ '') -> update('' @ int_str (qs_enforce_hard cfg) @ '') -> list -> delete verified'') False)
             (\<lambda>_. ret True)))"

section \<open>Enforcement\<close>

definition write_texts_user :: "string \<Rightarrow> write_texts" where
  "write_texts_user user = \<lparr>
     wt_under = (\<lambda>under hard. ''below-limit write ('' @ int_str under @ '' MiB, limit '' @ int_str hard
       @ '' MiB) as user '' @ repr_str user @ '' failed: ''),
     wt_blocked = (\<lambda>hard written. ''user '' @ repr_str user @ '' limit '' @ int_str hard
       @ '' MiB enforced: writes blocked after ~'' @ int_str written @ '' MiB with a no-space/quota error''),
     wt_unblocked = (\<lambda>hard written. ''wrote ~'' @ int_str written @ '' MiB as user '' @ repr_str user
       @ '' into a '' @ int_str hard @ '' MiB quota without being blocked'')\<rparr>"

definition refused_user_quotas :: "'w quota_env \<Rightarrow> storage_error \<Rightarrow> string" where
  "refused_user_quotas env e = ''provider refused user quotas on this volume: '' @ error_text (qe_text env) e"

definition run_user_enforcement ::
  "'w quota_env \<Rightarrow> settings \<Rightarrow> 'w provider \<Rightarrow> string \<Rightarrow> volume \<Rightarrow> string \<Rightarrow> string \<Rightarrow> 'w writer \<Rightarrow> ('w, bool) act" where
  "run_user_enforcement env cfg api tag vol user workdir writer =
    (let name = subtest_name ''user-quota-enforcement'' tag; nbytes = qs_enforce_hard cfg
     in run_then (catching (run_then (call api (user_limit vol user nbytes)) (\<lambda>_. ret None))
          (on_contract_error (\<lambda>e. if is_unsupported e
            then run_then (note_subtest name True (refused_user_quotas env e) True) (\<lambda>_. ret (Some True))
            else run_then (fail_with name (raised (qe_text env) ''set_user_quota'' e)) (\<lambda>b. ret (Some b)))))
        (\<lambda>r. case r of
           Some b \<Rightarrow> ret b
         | None \<Rightarrow> prove_enforced env writer workdir nbytes name (write_texts_user user)))"

text \<open>\<open>_k8s_writer_uid_error\<close>: \<open>Some\<close> is the mismatch.\<close>

definition writer_uid_error ::
  "'w quota_env \<Rightarrow> settings \<Rightarrow> string \<Rightarrow> string \<Rightarrow> string \<Rightarrow> ('w, string option) act" where
  "writer_uid_error env cfg user namespace pod = (case py_int (strip user) of
     None \<Rightarrow> ret (Some (''probe_user='' @ repr_str user @ '' is not a numeric UID; ''
       @ ''align probe_user with the mount pod's runAsUser (id -u)''))
   | Some expected \<Rightarrow> run_then (exec_pod env namespace pod ''id -u'' (qs_timeout cfg)) (\<lambda>r.
       if cr_exit_code r \<noteq> 0
       then ret (Some (''could not read mount pod uid via id -u: ''
         @ take 200 (strip (if cr_stderr r \<noteq> [] then cr_stderr r else cr_stdout r))))
       else (let lines = splitlines (strip (cr_stdout r))
         in case (if lines = [] then None else py_int (last lines)) of
              None \<Rightarrow> ret (Some (''mount pod id -u returned '' @ repr_str (cr_stdout r)
                @ '', expected integer uid '' @ int_str expected))
            | Some actual \<Rightarrow> ret (if actual = expected then None
                else Some (''mount pod runs as uid '' @ int_str actual @ '' but probe_user is ''
                  @ int_str expected @ ''; align the pod runAsUser or probe_user'')))))"

section \<open>A provider\<close>

definition USER_AREA :: string where "USER_AREA = ''user-quota''"

definition drop_user_quota :: "'w provider \<Rightarrow> string option \<Rightarrow> string \<Rightarrow> acquired \<Rightarrow> ('w, unit) act" where
  "drop_user_quota api tenant user aq =
     if_set (aq_volume_id aq \<noteq> []) (catching
       (call_only api (drop_user_limit (aq_volume_id aq) tenant user))
       (on_contract_error (\<lambda>e. ret ())))"

text \<open>\<open>except NotSupportedError\<close> around the whole run of a provider.\<close>

definition unless_refused :: "'w quota_env \<Rightarrow> string \<Rightarrow> ('w, bool) act \<Rightarrow> ('w, bool) act" where
  "unless_refused env tag m = catching m (\<lambda>e. if is_unsupported e
     then Some (skip_both USER_AREA tag (refused_user_quotas env e)) else None)"

definition on_cluster_volume ::
  "'w quota_env \<Rightarrow> settings \<Rightarrow> 'w provider \<Rightarrow> string \<Rightarrow> string \<Rightarrow> string \<Rightarrow> string \<Rightarrow> string \<Rightarrow> volume
    \<Rightarrow> ('w, bool) act" where
  "on_cluster_volume env cfg api tag user namespace pod workdir vol =
     run_then (acquire (\<lambda>aq. aq\<lparr>aq_volume_id := vol_id vol\<rparr>)) (\<lambda>_.
     run_then (exec_pod env namespace pod (''mkdir -p /data/'' @ shlex_quote workdir) (qs_timeout cfg)) (\<lambda>mk.
     if cr_exit_code mk \<noteq> 0
     then fail_both USER_AREA tag (''mkdir /data/'' @ workdir @ '' failed: '' @ detail_of mk)
     else run_then (run_user_crud env cfg api tag vol user) (\<lambda>crud_ok.
       run_then (writer_uid_error env cfg user namespace pod) (\<lambda>mismatch. case mismatch of
         Some m \<Rightarrow> fail_with (subtest_name ''user-quota-enforcement'' tag) m
       | None \<Rightarrow> run_then (run_user_enforcement env cfg api tag vol user workdir
             (\<lambda>relpath. dd_pod env cfg namespace pod (''/data/'' @ relpath)))
           (\<lambda>enforce_ok. ret (crud_ok \<and> enforce_ok))))))"

definition user_on_cluster :: "'w quota_env \<Rightarrow> string \<Rightarrow> 'w exercise" where
  "user_on_cluster env user cfg p api =
    (let tag = mp_name p
     in if qs_storage_class cfg = [] \<and> qs_pvc_name cfg = []
        then skip_both USER_AREA tag ''no storage_class or pvc_name configured to acquire a Kubernetes volume''
        else run_then (in_world (qe_run_id env)) (\<lambda>run_id.
          let namespace = (if qs_pvc_name cfg \<noteq> [] then qs_pvc_namespace cfg else qs_ns_prefix cfg @ ''-'' @ run_id);
              pvc = (if qs_pvc_name cfg \<noteq> [] then qs_pvc_name cfg else ''uq-probe-'' @ run_id);
              pod = (if qs_pod_name cfg \<noteq> [] then qs_pod_name cfg else ''uq-probe-'' @ run_id);
              workdir = ''isvtest-uq-'' @ run_id
          in run_then (acquire (\<lambda>_. nothing_acquired\<lparr>aq_subdir := workdir\<rparr>)) (\<lambda>_. finally_do
            (unless_refused env tag
              (or_fail USER_AREA tag (prepare_claim env cfg namespace pvc)
              (or_fail USER_AREA tag (prepare_pod env cfg namespace pod pvc)
              (run_then (resolve_volume env cfg api namespace pvc (mp_tenant_id p)) (\<lambda>found. case found of
                 Inl verr \<Rightarrow> fail_both USER_AREA tag
                   (''could not resolve shim volume for PVC '' @ repr_str pvc @ '': '' @ verr)
               | Inr vol \<Rightarrow> on_cluster_volume env cfg api tag user namespace pod workdir vol)))))
            (cleanup_cluster env cfg namespace pod pvc (drop_user_quota api (mp_tenant_id p) user)))))"

definition user_native_request :: "settings \<Rightarrow> 'w manifest_provider \<Rightarrow> string \<Rightarrow> request" where
  "user_native_request cfg p run_id = CreateVolume \<lparr>cv_size_bytes = qs_volume_size cfg,
     cv_volume_type = volume_type_of (mp_volume_type p), cv_tenant_id = mp_tenant_id p,
     cv_name = Some (''isvtest-uq-'' @ run_id), cv_tier = None,
     cv_tags = Some [(''isvtest-run-id'', run_id), (''provider'', mp_name p),
       (''test-case'', ''user-quota-enforcement'')]\<rparr>"

definition user_on_native_volume ::
  "'w quota_env \<Rightarrow> settings \<Rightarrow> 'w provider \<Rightarrow> string \<Rightarrow> string \<Rightarrow> string \<Rightarrow> volume \<Rightarrow> ('w, bool) act" where
  "user_on_native_volume env cfg api tag user run_id vol = unless_refused env tag (case vol_mount vol of
     None \<Rightarrow> skip_both USER_AREA tag
       ''native volume created but returned no mount instructions (Volume.mount is None)''
   | Some mount \<Rightarrow> run_then (in_world (qe_mkdtemp env (qs_ns_prefix cfg @ ''-'' @ run_id @ ''-''))) (\<lambda>dir.
       run_then (acquire (\<lambda>aq. aq\<lparr>aq_mount_dir := dir\<rparr>)) (\<lambda>_.
       run_then (mount_native_volume env cfg mount dir) (\<lambda>mounted.
       if \<not> mounted
       then fail_both USER_AREA tag
         (''failed to mount native volume '' @ repr_str (vol_id vol) @ '' at '' @ repr_str dir)
       else (let workdir = ''isvtest-uq-'' @ run_id
         in run_then (acquire (\<lambda>aq. aq\<lparr>aq_mounted := True\<rparr>)) (\<lambda>_.
            run_then (command env (''mkdir -p '' @ shlex_quote (dir @ ''/'' @ workdir)) (qs_timeout cfg)) (\<lambda>mk.
            if cr_exit_code mk \<noteq> 0
            then fail_both USER_AREA tag (''mkdir '' @ dir @ ''/'' @ workdir @ '' failed: '' @ detail_of mk)
            else run_then (run_user_crud env cfg api tag vol user) (\<lambda>crud_ok.
              run_then (run_user_enforcement env cfg api tag vol user workdir (dd_local env cfg dir))
                (\<lambda>enforce_ok. ret (crud_ok \<and> enforce_ok))))))))))"

definition user_natively :: "'w quota_env \<Rightarrow> string \<Rightarrow> 'w exercise" where
  "user_natively env user cfg p api =
     run_then (in_world (qe_run_id env)) (\<lambda>run_id.
     run_then (acquire (\<lambda>_. nothing_acquired\<lparr>aq_subdir := ''isvtest-uq-'' @ run_id\<rparr>)) (\<lambda>_ q.
       case call api (user_native_request cfg p run_id) q of
         (Inl e, q') \<Rightarrow> fail_both USER_AREA (mp_name p) (raised (qe_text env) ''native create_volume'' e) q'
       | (Inr (VolumeReply vol), q') \<Rightarrow>
           run_then (acquire (\<lambda>aq. aq\<lparr>aq_volume_id := vol_id vol\<rparr>)) (\<lambda>_.
           finally_do (user_on_native_volume env cfg api (mp_name p) user run_id vol)
             (cleanup_native env cfg api (mp_tenant_id p) (drop_user_quota api (mp_tenant_id p) user))) q'
       | (Inr _, q') \<Rightarrow> fail_both USER_AREA (mp_name p)
           (raised (qe_text env) ''native create_volume'' wrong_reply) q'))"

definition USER_QUOTA_CAPS :: "string list" where
  "USER_QUOTA_CAPS = [CAP_USER_QUOTA_SET, CAP_USER_QUOTA_GET, CAP_USER_QUOTA_LIST, CAP_USER_QUOTA_DELETE]"

definition user_quota_check ::
  "(rat \<Rightarrow> string) \<Rightarrow> 'w manifest_world \<Rightarrow> 'w quota_env \<Rightarrow> string \<Rightarrow> dict \<Rightarrow> verdict \<Rightarrow> 'w \<Rightarrow> ran \<times> 'w" where
  "user_quota_check fr mw env default_sc =
     quota_check fr mw USER_AREA ''User-quota'' USER_QUOTA_CAPS (read_settings fr default_sc ''isvtest-uq'' 600)
       (\<lambda>config. let user = setting fr config ''probe_user'' ''65534''
         in exercise_chosen env USER_AREA (user_on_cluster env user) (user_natively env user))"

section \<open>What a passing enforcement subtest establishes\<close>

text \<open>Either the backend refused user quotas on this volume, which is reported as a skipped subtest, or
  the limit was set and the writes were refused as for a directory.\<close>

lemma user_quota_enforced:
  assumes "run_user_enforcement env cfg api tag vol user workdir writer q = (Inr True, q')"
  shows "\<exists>answer q1. call api (user_limit vol user (qs_enforce_hard cfg)) q = (answer, q1)
    \<and> (case answer of
         Inl e \<Rightarrow> is_unsupported e \<and> t_skipped (last (vd_subtests (qx_verdict q')))
       | Inr r \<Rightarrow> enforced_on env writer workdir (qs_enforce_hard cfg) q1 (qx_world q'))"
proof -
  let ?rest = "prove_enforced env writer workdir (qs_enforce_hard cfg)
      (subtest_name ''user-quota-enforcement'' tag) (write_texts_user user)"
  obtain r q1 where limit: "call api (user_limit vol user (qs_enforce_hard cfg)) q = (r, q1)" by fastforce
  show ?thesis
  proof (cases r)
    case (Inl e)
    then show ?thesis using assms limit
      by (auto simp: run_user_enforcement_def Let_def run_then_def catching_def on_contract_error_def ret_def
          fail_with_def note_subtest_def report_subtest_def split: if_splits)
  next
    case (Inr answer)
    then have "?rest q1 = (Inr True, q')"
      using assms limit by (simp add: run_user_enforcement_def Let_def run_then_def catching_def ret_def)
    then show ?thesis using limit Inr prove_enforced_sound by fastforce
  qed
qed

end
