(* ===== verification/Spec2Isabelle.thy ===== *)
theory Spec2Isabelle
  imports Orchestrator Storage_Conformance Junit_Reader Suite_Selection Network_Policy Storage_Promise
    Upgrade_Evidence Breakfix Governance_Evidence Catalog Directory_Quota_Check User_Quota_Check
begin

text \<open>
  A verification library for the validation suite of AI clouds: \<open>isvctl\<close> (the controller that runs a
  provider's steps), \<open>isvtest\<close> (the validations) and \<open>isvreporter\<close> (the upload of results).

  \<^bold>\<open>The program.\<close> A run starts from YAML files that import each other and are merged, with \<open>--set\<close>
  overrides on top. The orchestrator goes through the phases setup, test and teardown. In each
  phase it runs the provider's steps as processes; a step prints JSON, which is checked against a
  schema and stored in the context that later steps and validations read through templates. The
  validations of the phase are resolved (ready, skipped or in error) and the ready ones run in one
  pytest session, whose captured results are mapped back. Every configured validation gets exactly
  one outcome; entries pytest did not run are written to stub reports, and the reports of all
  phases are merged, redacted, read back and uploaded. Storage providers implement a contract of
  sixteen methods behind a capability gate; a conformance check exercises their manifests' claims.

  \<^bold>\<open>Values.\<close> \<open>Py_Prelude\<close>, \<open>Py_Text\<close>, \<open>Py_Repr\<close>: Python values, insertion-ordered dictionaries, the
  string methods in use, \<open>str\<close> and \<open>repr\<close>, errors as the left side of a sum. The interface
  \<open>keyed_store\<close> (what a lookup returns after an assignment) is interpreted on dictionaries, XML
  attributes and the quota store of the mock.

  \<^bold>\<open>isvctl.\<close>
  \<^item> \<open>Config_Merger\<close>, \<open>Config_Loader\<close>: \<open>config/merger.py\<close>. Deep merging by paths, \<open>--set\<close> overrides, the
    recursive loader: it ends, and what loads has no circular import. One unit of fuel is spent per
    file opened; the number of resolved paths not yet visited bounds it, since a path that is
    visited again is an error.
  \<^item> \<open>Suite_Selection\<close>: \<open>config/suite_resolution.py\<close>, \<open>config/provider_registry.py\<close>. A suite name selects
    one configuration; a fetched checkout runs only when it is the registered commit. The fuel of
    the loader is a field of the directory tree.
  \<^item> \<open>Schema_Table\<close>, \<open>Output_Schemas\<close>: \<open>config/output_schemas.py\<close>. All built-in schemas, their selection by
    step name, and the envelope each of them demands.
  \<^item> \<open>Redaction\<close>: \<open>redaction.py\<close>. Masked command lines and dictionaries do not depend on secrets.
  \<^item> \<open>Run_Context\<close>: \<open>orchestrator/context.py\<close>. The layers of the template context.
  \<^item> \<open>Step_Executor\<close>: \<open>orchestrator/step_executor.py\<close>. When a step succeeds, which steps run, what reaches
    the context, and that the output of a successful step has the envelope of its schema.
  \<^item> \<open>Junit_Report\<close>: the reports of \<open>orchestrator/loop.py\<close>. Merging keeps test cases and sums counters.
  \<^item> \<open>Orchestrator\<close>: \<open>orchestrator/loop.py\<close>. Planning, phases, capability gates, left-over validations:
    one outcome per validation, nothing but teardown after a failure, and that the run returns.

  \<^bold>\<open>isvtest.\<close>
  \<^item> \<open>Resolution\<close>: \<open>core/resolution.py\<close>. Parsing and resolution of validation entries.
  \<^item> \<open>Pytest_Bridge\<close>: \<open>main.py\<close>. Unique names, the inventory, captured results to outcomes.
  \<^item> \<open>Validation_Core\<close>, \<open>Step_Checks\<close>: \<open>core/validation.py\<close>, \<open>core/composite.py\<close>, \<open>validations/generic.py\<close>.
    A check maps its configuration and the verdict so far to an end: finished, skipped, raised.
  \<^item> \<open>Storage_Capabilities\<close>, \<open>Storage_Api\<close>, \<open>Storage_Mock\<close>, \<open>Storage_Promise\<close>: \<open>core/storage_provider\<close>. The
    registry of capabilities, the contract and its gate, the in-memory backend, and the abstract
    backend of three maps that it refines. The interface \<open>prefix_resolver\<close> (the most specific entry
    of a dotted key wins) is interpreted on the three walks through dotted keys.
  \<^item> \<open>Storage_Manifest\<close>, \<open>Storage_Conformance\<close>: \<open>core/storage.py\<close>, \<open>validations/storage_provider.py\<close>. What a
    loaded registry guarantees, what a passing conformance check has shown, and what it leaves.
  \<^item> \<open>Network_Policy\<close>: the checks of \<open>validations/network.py\<close> that judge filtering evidence.
  \<^item> \<open>Upgrade_Evidence\<close>: \<open>validations/k8s_upgrades.py\<close>. Bounded concurrency of drains, gap-free probes.

  \<^item> \<open>Breakfix\<close>: \<open>validations/breakfix.py\<close>. Health agents cover every node of the fleet.
  \<^item> \<open>Imex_Evidence\<close>: the fabric, NVLink and IMEX checks of \<open>validations/network.py\<close>.
  \<^item> \<open>Fleet_Evidence\<close>: \<open>validations/capacity.py\<close> and \<open>sanitization.py\<close>. Whole topology blocks, and
    machines that are sanitized between tenants.
  \<^item> \<open>Governance_Evidence\<close>: \<open>validations/governance.py\<close>. Consistent metrics, complete inventories, stable
    resource indexes.
  \<^item> \<open>Catalog\<close>, over \<open>Json_Text\<close>: \<open>isvtest/catalog.py\<close>. Entries of the test catalogue and their digest.
  \<^item> \<open>Quota_Host\<close>, \<open>Directory_Quota_Check\<close>, \<open>User_Quota_Check\<close>: \<open>validations/storage_quota_enforcement.py\<close> and
    \<open>storage_user_quota_enforcement.py\<close>. A limit is set, read back and proved by writing; a native
    volume is always deleted. A poll has one unit of fuel per read: each sleeps two seconds, so sixteen
    reads reach a deadline of thirty seconds (and six the ten seconds of a claim).
  \<^bold>\<open>isvreporter.\<close> \<open>Junit_Reader\<close>: \<open>junit_parser.py\<close>. The results uploaded are those of the phases' files.

  \<^bold>\<open>Parameters.\<close> What is not under \<open>src/\<close> is an argument: Jinja2, pytest, PyYAML, json, jsonschema, git,
  the process runner, the file system, the clock, \<open>uuid4\<close>, \<open>datetime.fromisoformat\<close>, the text of
  Python's own exceptions and of floats. A law used about one of them is a named hypothesis (for
  jsonschema: \<open>reads_json_schema\<close>), and the witness of the property gives a concrete instance.
  Floats are rationals; infinities and NaN are left out, and texts are characters below 256.

  \<^bold>\<open>Not modelled.\<close> The checks that are sequences of SSH, kubectl, Slurm or NVIDIA tool calls
  (\<open>k8s_*.py\<close> other than those above, \<open>host.py\<close>, \<open>slurm_*.py\<close>, \<open>bm_*.py\<close>, the workloads): their substance
  is the text those tools print, which nothing under \<open>src/\<close> defines. The command-line front ends,
  the deployment over SSH, the HTTP client of the reporter, and the provider scripts, which call
  cloud SDKs. The manifest lists every part with its reason.
\<close>

end
